(* ===== verification/Aura_Prelude.thy ===== *)
theory Aura_Prelude
  imports Main "HOL-Library.Word" "HOL-Library.List_Lexorder" "HOL-Library.Char_ord"
    "HOL-Library.Sublist"
begin

text \<open>
  Shared vocabulary of the development: the machine types the Rust sources use, the ordered
  map of the standard library, fixed-width big-endian integers, and the error-and-state
  plumbing behind the question-mark operator.

  \<^item> A \<open>u8\<close>/\<open>u32\<close>/\<open>u64\<close> is a word of that width; a byte array
    \<open>[u8; N]\<close> is the \<open>8 N\<close>-bit word whose big-endian bytes it holds, so no
    length side condition is needed anywhere.
  \<^item> A Rust string is a HOL string: a list of 8-bit characters, i.e. its UTF-8 bytes.
  \<^item> \<open>Result<T, E>\<close> is the sum type with \<open>Inl\<close> for \<open>Err\<close>; a method
    that also changes state has type \<open>act\<close>.
  \<^item> A \<open>BTreeMap\<close> is a list of pairs sorted by key, with the lookup and insertion of
    the standard library and the locale \<open>ordered_map\<close> as its contract.
\<close>

named_theorems aura_defs \<open>non-recursive definitions of the model that proofs unfold\<close>
named_theorems codec_simps \<open>round trips of the byte encodings\<close>
named_theorems act_simps \<open>rewrite rules of the error-and-state plumbing\<close>

section \<open>Machine types\<close>

type_synonym u8 = "8 word"
type_synonym u32 = "32 word"
type_synonym u64 = "64 word"
type_synonym bytes = "u8 list"
type_synonym array16 = "128 word"
type_synonym array32 = "256 word"

definition quoted :: "string \<Rightarrow> string" where
  "quoted s = CHR 0x27 # s @ [CHR 0x27]"

fun nat_str :: "nat \<Rightarrow> string" where
  "nat_str n =
    (if n < 10 then [char_of (48 + n)] else nat_str (n div 10) @ [char_of (48 + n mod 10)])"

declare nat_str.simps [simp del]

section \<open>Errors and state\<close>

type_synonym ('e, 'a) result = "'e + 'a"
type_synonym ('s, 'e, 'a) act = "'s \<Rightarrow> ('e + 'a) \<times> 's"

definition ok :: "'a \<Rightarrow> ('s, 'e, 'a) act" where
  "ok x = (\<lambda>s. (Inr x, s))"

definition err :: "'e \<Rightarrow> ('s, 'e, 'a) act" where
  "err e = (\<lambda>s. (Inl e, s))"

definition try_then :: "('s, 'e, 'a) act \<Rightarrow> ('a \<Rightarrow> ('s, 'e, 'b) act) \<Rightarrow> ('s, 'e, 'b) act" where
  "try_then m k = (\<lambda>s. case m s of (Inl e, s') \<Rightarrow> (Inl e, s') | (Inr x, s') \<Rightarrow> k x s')"

definition lift_res :: "('e, 'a) result \<Rightarrow> ('s, 'e, 'a) act" where
  "lift_res r = (\<lambda>s. (r, s))"

definition map_err :: "('e \<Rightarrow> 'f) \<Rightarrow> ('s, 'e, 'a) act \<Rightarrow> ('s, 'f, 'a) act" where
  "map_err f m = (\<lambda>s. case m s of (Inl e, s') \<Rightarrow> (Inl (f e), s') | (Inr x, s') \<Rightarrow> (Inr x, s'))"

definition res_bind :: "('e, 'a) result \<Rightarrow> ('a \<Rightarrow> ('e, 'b) result) \<Rightarrow> ('e, 'b) result" where
  "res_bind r k = (case r of Inl e \<Rightarrow> Inl e | Inr x \<Rightarrow> k x)"

definition res_map_err :: "('e \<Rightarrow> 'f) \<Rightarrow> ('e, 'a) result \<Rightarrow> ('f, 'a) result" where
  "res_map_err f r = (case r of Inl e \<Rightarrow> Inl (f e) | Inr x \<Rightarrow> Inr x)"

definition ok_or :: "'e \<Rightarrow> 'a option \<Rightarrow> ('e, 'a) result" where
  "ok_or e x = (case x of None \<Rightarrow> Inl e | Some y \<Rightarrow> Inr y)"

definition is_ok :: "('e, 'a) result \<Rightarrow> bool" where
  "is_ok r = (case r of Inl _ \<Rightarrow> False | Inr _ \<Rightarrow> True)"

primrec res_list :: "('a \<Rightarrow> ('e, 'b) result) \<Rightarrow> 'a list \<Rightarrow> ('e, 'b list) result" where
  "res_list f [] = Inr []"
| "res_list f (x # xs) = res_bind (f x) (\<lambda>y. res_bind (res_list f xs) (\<lambda>ys. Inr (y # ys)))"

section \<open>Big-endian integers\<close>

primrec to_be :: "nat \<Rightarrow> nat \<Rightarrow> bytes" where
  "to_be 0 n = []"
| "to_be (Suc k) n = word_of_nat (n div 256 ^ k) # to_be k (n mod 256 ^ k)"

primrec from_be :: "bytes \<Rightarrow> nat" where
  "from_be [] = 0"
| "from_be (b # bs) = unat b * 256 ^ length bs + from_be bs"

definition u64_to_be_bytes :: "u64 \<Rightarrow> bytes" where
  "u64_to_be_bytes w = to_be 8 (unat w)"

definition u64_from_be_bytes :: "bytes \<Rightarrow> u64" where
  "u64_from_be_bytes bs = word_of_nat (from_be bs)"

definition array32_bytes :: "array32 \<Rightarrow> bytes" where
  "array32_bytes w = to_be 32 (unat w)"

definition array32_of_bytes :: "bytes \<Rightarrow> array32" where
  "array32_of_bytes bs = word_of_nat (from_be bs)"

definition array16_bytes :: "array16 \<Rightarrow> bytes" where
  "array16_bytes w = to_be 16 (unat w)"

definition array16_of_bytes :: "bytes \<Rightarrow> array16" where
  "array16_of_bytes bs = word_of_nat (from_be bs)"

section \<open>Ordered maps\<close>

type_synonym ('k, 'v) btree_map = "('k \<times> 'v) list"

definition btm_get :: "'k \<Rightarrow> ('k, 'v) btree_map \<Rightarrow> 'v option" where
  "btm_get k m = map_of m k"

primrec btm_insert :: "('k::linorder) \<Rightarrow> 'v \<Rightarrow> ('k, 'v) btree_map \<Rightarrow> ('k, 'v) btree_map" where
  "btm_insert k v [] = [(k, v)]"
| "btm_insert k v (p # m) =
    (if k < fst p then (k, v) # p # m
     else if k = fst p then (k, v) # m
     else p # btm_insert k v m)"

definition btm_remove :: "'k \<Rightarrow> ('k, 'v) btree_map \<Rightarrow> ('k, 'v) btree_map" where
  "btm_remove k m = filter (\<lambda>p. fst p \<noteq> k) m"

definition btm_values :: "('k, 'v) btree_map \<Rightarrow> 'v list" where
  "btm_values m = map snd m"

definition btm_inv :: "('k::linorder, 'v) btree_map \<Rightarrow> bool" where
  "btm_inv m = (sorted (map fst m) \<and> distinct (map fst m))"

section \<open>Lemmas on errors and state\<close>

lemma ok_app [simp, act_simps]: "ok x s = (Inr x, s)"
  by (simp add: ok_def)

lemma err_app [simp, act_simps]: "err e s = (Inl e, s)"
  by (simp add: err_def)

lemma lift_res_app [simp, act_simps]: "lift_res r s = (r, s)"
  by (simp add: lift_res_def)

lemma try_then_Inl [act_simps]: "m s = (Inl e, s') \<Longrightarrow> try_then m k s = (Inl e, s')"
  by (simp add: try_then_def)

lemma try_then_Inr [act_simps]: "m s = (Inr x, s') \<Longrightarrow> try_then m k s = k x s'"
  by (simp add: try_then_def)

lemma try_then_ok [simp]: "try_then (ok x) k = k x"
  by (simp add: try_then_def fun_eq_iff)

lemma try_then_err [simp]: "try_then (err e) k = err e"
  by (simp add: try_then_def fun_eq_iff)

lemma try_then_InrE:
  assumes "try_then m k s = (Inr y, t)"
  obtains x s' where "m s = (Inr x, s')" "k x s' = (Inr y, t)"
  using assms by (auto simp: try_then_def split: prod.splits sum.splits)

lemma try_then_InlE:
  assumes "try_then m k s = (Inl e, t)"
  obtains "m s = (Inl e, t)" | x s' where "m s = (Inr x, s')" "k x s' = (Inl e, t)"
  using assms by (auto simp: try_then_def split: prod.splits sum.splits)

lemma map_err_Inr_iff [simp]: "map_err f m s = (Inr x, t) \<longleftrightarrow> m s = (Inr x, t)"
  by (auto simp: map_err_def split: prod.splits sum.splits)

lemma map_err_Inl_iff: "map_err f m s = (Inl e, t) \<longleftrightarrow> (\<exists>e'. e = f e' \<and> m s = (Inl e', t))"
  by (auto simp: map_err_def split: prod.splits sum.splits)

lemma res_bind_simps [simp]: "res_bind (Inl e) k = Inl e" "res_bind (Inr x) k = k x"
  by (simp_all add: res_bind_def)

lemma res_bind_Inr_iff: "res_bind r k = Inr y \<longleftrightarrow> (\<exists>x. r = Inr x \<and> k x = Inr y)"
  by (cases r) simp_all

lemma ok_or_simps [simp]: "ok_or e None = Inl e" "ok_or e (Some x) = Inr x"
  by (simp_all add: ok_or_def)

lemma is_ok_simps [simp]: "is_ok (Inr x)" "\<not> is_ok (Inl e)"
  by (simp_all add: is_ok_def)

lemma is_ok_iff: "is_ok r \<longleftrightarrow> (\<exists>x. r = Inr x)"
  by (cases r) simp_all

lemma res_list_map: "(\<And>x. x \<in> set xs \<Longrightarrow> f (g x) = Inr (h x)) \<Longrightarrow> res_list f (map g xs) = Inr (map h xs)"
  by (induction xs) simp_all

section \<open>Lemmas on big-endian integers\<close>

lemma unat_bound: "unat (w :: 'a::len word) < 2 ^ LENGTH('a)"
  by (rule unsigned_less)

lemma length_to_be [simp]: "length (to_be k n) = k"
  by (induction k arbitrary: n) simp_all

lemma from_be_bound: "from_be bs < 256 ^ length bs"
proof (induction bs)
  case (Cons b bs)
  have "unat b < 256"
    using unat_bound [of b] by simp
  then have "Suc (unat b) * 256 ^ length bs \<le> 256 * 256 ^ length bs"
    by (intro mult_right_mono) simp_all
  then have "256 ^ length bs + unat b * 256 ^ length bs \<le> 256 * 256 ^ length bs"
    by (simp only: mult_Suc)
  then have "unat b * 256 ^ length bs + from_be bs < 256 * 256 ^ length bs"
    using Cons.IH by linarith
  then show ?case by simp
qed simp

lemma from_be_to_be [codec_simps]: "n < 256 ^ k \<Longrightarrow> from_be (to_be k n) = n"
proof (induction k arbitrary: n)
  case (Suc k)
  have "n div 256 ^ k < 256"
    using Suc.prems by (simp add: less_mult_imp_div_less)
  then have "unat (word_of_nat (n div 256 ^ k) :: u8) = n div 256 ^ k"
    by (simp add: unat_of_nat)
  moreover have "from_be (to_be k (n mod 256 ^ k)) = n mod 256 ^ k"
    by (rule Suc.IH) simp
  ultimately show ?case by (simp add: div_mult_mod_eq)
qed simp

lemma to_be_from_be [codec_simps]: "to_be (length bs) (from_be bs) = bs"
proof (induction bs)
  case (Cons b bs)
  have b: "from_be bs < 256 ^ length bs" by (rule from_be_bound)
  then have "(unat b * 256 ^ length bs + from_be bs) div 256 ^ length bs = unat b"
    by simp
  moreover have "(unat b * 256 ^ length bs + from_be bs) mod 256 ^ length bs = from_be bs"
    using b by simp
  ultimately show ?case using Cons.IH by simp
qed simp

lemma from_be_less_iff:
  "length xs = length ys \<Longrightarrow> from_be xs < from_be ys \<longleftrightarrow> xs < ys"
proof (induction xs ys rule: list_induct2)
  case (Cons x xs y ys)
  let ?B = "256 ^ length ys :: nat"
  have bx: "from_be xs < ?B" and bY: "from_be ys < ?B"
    using from_be_bound [of xs] from_be_bound [of ys] Cons.hyps by simp_all
  consider "x < y" | "x = y" | "y < x" by fastforce
  then show ?case
  proof cases
    case 1
    then have "Suc (unat x) * ?B \<le> unat y * ?B"
      by (intro mult_right_mono) (simp_all add: word_less_nat_alt Suc_leI)
    with bx 1 Cons.hyps show ?thesis by simp
  next
    case 2
    with Cons show ?thesis by simp
  next
    case 3
    then have "Suc (unat y) * ?B \<le> unat x * ?B"
      by (intro mult_right_mono) (simp_all add: word_less_nat_alt Suc_leI)
    with bY 3 Cons.hyps show ?thesis by auto
  qed
qed simp

lemma u64_be_roundtrip [simp, codec_simps]: "u64_from_be_bytes (u64_to_be_bytes w) = w"
  using unat_bound [of w] by (simp add: u64_from_be_bytes_def u64_to_be_bytes_def from_be_to_be)

lemma length_u64_be [simp]: "length (u64_to_be_bytes w) = 8"
  by (simp add: u64_to_be_bytes_def)

lemma u64_to_from_be [codec_simps]:
  assumes "length bs = 8"
  shows "u64_to_be_bytes (u64_from_be_bytes bs) = bs"
proof -
  have "from_be bs < 2 ^ 64"
    using from_be_bound [of bs] assms by simp
  then have "unat (word_of_nat (from_be bs) :: u64) = from_be bs"
    by (simp add: unat_of_nat)
  then show ?thesis
    using to_be_from_be [of bs] assms by (simp add: u64_from_be_bytes_def u64_to_be_bytes_def)
qed

lemma array32_roundtrip [simp, codec_simps]: "array32_of_bytes (array32_bytes w) = w"
  using unat_bound [of w] by (simp add: array32_of_bytes_def array32_bytes_def from_be_to_be)

lemma length_array32 [simp]: "length (array32_bytes w) = 32"
  by (simp add: array32_bytes_def)

lemma array32_bytes_of [codec_simps]:
  assumes "length bs = 32"
  shows "array32_bytes (array32_of_bytes bs) = bs"
proof -
  have "from_be bs < 2 ^ 256"
    using from_be_bound [of bs] assms by simp
  then have "unat (word_of_nat (from_be bs) :: array32) = from_be bs"
    by (simp add: unat_of_nat)
  then show ?thesis
    using to_be_from_be [of bs] assms by (simp add: array32_of_bytes_def array32_bytes_def)
qed

lemma array32_bytes_inject [simp]: "array32_bytes a = array32_bytes b \<longleftrightarrow> a = b"
  by (metis array32_roundtrip)

lemma array16_roundtrip [simp, codec_simps]: "array16_of_bytes (array16_bytes w) = w"
  using unat_bound [of w] by (simp add: array16_of_bytes_def array16_bytes_def from_be_to_be)

lemma u64_be_inject [simp]: "u64_to_be_bytes a = u64_to_be_bytes b \<longleftrightarrow> a = b"
  by (metis u64_be_roundtrip)

lemma u64_be_less_iff: "u64_to_be_bytes a < u64_to_be_bytes b \<longleftrightarrow> a < b"
  using from_be_less_iff [of "u64_to_be_bytes a" "u64_to_be_bytes b"]
    unat_bound [of a] unat_bound [of b]
  by (simp add: u64_to_be_bytes_def from_be_to_be word_less_nat_alt)

lemma append_less_same_length:
  "length xs = length ys \<Longrightarrow> xs @ us < ys @ vs \<longleftrightarrow> xs < ys \<or> xs = ys \<and> us < (vs :: 'a::linorder list)"
  by (induction xs ys rule: list_induct2) auto

section \<open>Lemmas on ordered maps\<close>

locale ordered_map =
  fixes get :: "'k::linorder \<Rightarrow> 'm \<Rightarrow> 'v option"
    and insert :: "'k \<Rightarrow> 'v \<Rightarrow> 'm \<Rightarrow> 'm"
    and remove :: "'k \<Rightarrow> 'm \<Rightarrow> 'm"
    and inv :: "'m \<Rightarrow> bool"
  assumes get_insert: "get j (insert k v m) = (if j = k then Some v else get j m)"
    and get_remove: "get j (remove k m) = (if j = k then None else get j m)"
    and inv_insert: "inv m \<Longrightarrow> inv (insert k v m)"
    and inv_remove: "inv m \<Longrightarrow> inv (remove k m)"
begin

lemma get_insert_same: "get k (insert k v m) = Some v"
  by (simp add: get_insert)

lemma get_fold_insert:
  "get j (fold (\<lambda>(k, v). insert k v) kvs m) =
    (case map_of (rev kvs) j of Some v \<Rightarrow> Some v | None \<Rightarrow> get j m)"
  by (induction kvs arbitrary: m)
    (auto simp: get_insert map_add_def split: option.splits)

lemma inv_fold_insert: "inv m \<Longrightarrow> inv (fold (\<lambda>(k, v). insert k v) kvs m)"
  by (induction kvs arbitrary: m) (auto simp: inv_insert)

end

lemma btm_get_insert [simp]: "btm_get j (btm_insert k v m) = (if j = k then Some v else btm_get j m)"
  by (induction m) (auto simp: btm_get_def)

lemma btm_get_remove [simp]: "btm_get j (btm_remove k m) = (if j = k then None else btm_get j m)"
  by (induction m) (auto simp: btm_get_def btm_remove_def)

lemma set_btm_insert_keys: "fst ` set (btm_insert k v m) = insert k (fst ` set m)"
  by (induction m) auto

lemma btm_inv_insert [intro]: "btm_inv m \<Longrightarrow> btm_inv (btm_insert k v m)"
proof (induction m)
  case (Cons p m)
  then have "btm_inv (btm_insert k v m)" by (simp add: btm_inv_def)
  with Cons.prems set_btm_insert_keys [of k v m] show ?case
    by (auto simp: btm_inv_def image_iff)
qed (simp add: btm_inv_def)

lemma btm_inv_remove [intro]: "btm_inv m \<Longrightarrow> btm_inv (btm_remove k m)"
  by (induction m) (auto simp: btm_inv_def btm_remove_def)

interpretation btm: ordered_map btm_get btm_insert btm_remove btm_inv
  by unfold_locales auto

end
