(* ===== verification/Core_Modes.thy ===== *)
theory Core_Modes
  imports Aura_Prelude
begin

text \<open>
  The crate \<open>aura-core-modes\<close>: the agent, kernel, spawn, replay and sandbox modes with their
  per-mode defaults, the capability ceiling of each mode, the resolution of a session's mode
  and the mode gate, the one authority on which kind of action a mode admits.  The locale
  \<open>mode_gate\<close> is the contract of the trait \<open>ModeGate\<close>; the policy engine is a client of it.
  Each definition is preceded by the file and the lines it translates.
\<close>

section \<open>Modes\<close>

(* src/crates/aura-core-modes/src/modes.rs:21-32 AgentMode *)
datatype agent_mode = AgentMode_Agent | AgentMode_Plan | AgentMode_Ask | AgentMode_Debug

(* src/crates/aura-core-modes/src/modes.rs:100-108 KernelMode *)
datatype kernel_mode = KernelMode_Audited | KernelMode_AuditedLite

(* src/crates/aura-core-modes/src/modes.rs:115-124 SpawnMode *)
datatype spawn_mode = SpawnMode_Wait | SpawnMode_Detached

(* src/crates/aura-core-modes/src/modes.rs:131-142 ReplayMode *)
datatype replay_mode = ReplayMode_Live | ReplayMode_Replay (rm_from_seq: u64)

(* src/crates/aura-core-modes/src/modes.rs:149-158 SandboxMode *)
datatype sandbox_mode = SandboxMode_ReadOnly | SandboxMode_Standard | SandboxMode_Strict

(* src/crates/aura-core-modes/src/modes.rs:168-174 AgentRole *)
datatype agent_role = AgentRole_Root | AgentRole_Child

(* src/crates/aura-core-modes/src/profile.rs:12-21 ModeProfile *)
record mode_profile =
  mp_agent :: agent_mode
  mp_kernel :: kernel_mode
  mp_sandbox :: sandbox_mode
  mp_replay :: replay_mode

(* src/crates/aura-core-modes/src/modes.rs:75-81 AgentMode::default_kernel_mode *)
fun default_kernel_mode :: "agent_role \<Rightarrow> kernel_mode" where
  "default_kernel_mode AgentRole_Root = KernelMode_Audited"
| "default_kernel_mode AgentRole_Child = KernelMode_AuditedLite"

(* src/crates/aura-core-modes/src/modes.rs:36-50 AgentMode::default_profile *)
definition default_profile :: "agent_mode \<Rightarrow> mode_profile" where
  "default_profile mode =
    \<lparr> mp_agent = mode,
      mp_kernel = default_kernel_mode AgentRole_Root,
      mp_sandbox = (case mode of
          AgentMode_Agent \<Rightarrow> SandboxMode_Standard
        | AgentMode_Plan \<Rightarrow> SandboxMode_Strict
        | AgentMode_Debug \<Rightarrow> SandboxMode_Strict
        | AgentMode_Ask \<Rightarrow> SandboxMode_ReadOnly),
      mp_replay = ReplayMode_Live \<rparr>"

(* src/crates/aura-core-modes/src/modes.rs:86-92 AgentMode::allows_spawn *)
fun allows_spawn :: "agent_mode \<Rightarrow> bool" where
  "allows_spawn AgentMode_Agent = True"
| "allows_spawn AgentMode_Plan = False"
| "allows_spawn AgentMode_Ask = False"
| "allows_spawn AgentMode_Debug = False"

section \<open>Capability profiles\<close>

(* src/crates/aura-core-modes/src/capability_profile.rs:28-31 CapabilityProfile *)
record capability_profile =
  cp_allowed :: "string set"

(* src/crates/aura-core-modes/src/capability_profile.rs:35-40 CapabilityProfile::from_static *)
definition cp_from_static :: "string list \<Rightarrow> capability_profile" where
  "cp_from_static items = \<lparr> cp_allowed = set items \<rparr>"

(* src/crates/aura-core-modes/src/capability_profile.rs:43-46 CapabilityProfile::contains *)
definition cp_contains :: "capability_profile \<Rightarrow> string \<Rightarrow> bool" where
  "cp_contains p d = (d \<in> cp_allowed p)"

(* src/crates/aura-core-modes/src/capability_profile.rs:49-54 CapabilityProfile::intersect *)
definition cp_intersect :: "capability_profile \<Rightarrow> capability_profile \<Rightarrow> capability_profile" where
  "cp_intersect p q = \<lparr> cp_allowed = cp_allowed p \<inter> cp_allowed q \<rparr>"

(* src/crates/aura-core-modes/src/capability_profile.rs:60-77 CapabilityProfile::agent_default *)
definition cp_agent_default :: capability_profile where
  "cp_agent_default = cp_from_static
    [''spawnAgent'', ''controlAgent'', ''readAgent'', ''listAgents'', ''manageOrgMembers'',
     ''manageBilling'', ''invokeProcess'', ''postToFeed'', ''generateMedia'',
     ''readAllProjects'', ''writeAllProjects'', ''readProject'', ''writeProject'']"

(* src/crates/aura-core-modes/src/capability_profile.rs:81-90 CapabilityProfile::plan_default *)
definition cp_plan_default :: capability_profile where
  "cp_plan_default = cp_from_static
    [''readAgent'', ''listAgents'', ''invokeProcess'', ''readAllProjects'', ''readProject'']"

(* src/crates/aura-core-modes/src/capability_profile.rs:93-96 CapabilityProfile::ask_default *)
definition cp_ask_default :: capability_profile where
  "cp_ask_default = cp_from_static [''readAgent'', ''listAgents'', ''readAllProjects'', ''readProject'']"

(* src/crates/aura-core-modes/src/capability_profile.rs:99-102 CapabilityProfile::debug_default *)
definition cp_debug_default :: capability_profile where
  "cp_debug_default = cp_from_static [''readAgent'', ''listAgents'', ''readAllProjects'', ''readProject'']"

(* src/crates/aura-core-modes/src/modes.rs:61-70 AgentMode::default_capability_profile *)
fun default_capability_profile :: "agent_mode \<Rightarrow> capability_profile" where
  "default_capability_profile AgentMode_Agent = cp_agent_default"
| "default_capability_profile AgentMode_Plan = cp_plan_default"
| "default_capability_profile AgentMode_Ask = cp_ask_default"
| "default_capability_profile AgentMode_Debug = cp_debug_default"

section \<open>The mode gate\<close>

(* src/crates/aura-core-modes/src/gate.rs:34-57 GatedAction *)
datatype gated_action =
    GA_ReadFile
  | GA_WriteMarkdown
  | GA_WriteNonMarkdown
  | GA_Subprocess
  | GA_Network
  | GA_SpawnAgent
  | GA_PluginActivate
  | GA_ToolInvoke (ga_name: string)
  | GA_SandboxedProbe

(* src/crates/aura-core-modes/src/violation.rs:10-38 ModeViolation *)
datatype mode_violation =
    SpawnNotAllowed
  | WriteNonMarkdownNotAllowed
  | WriteNotAllowed
  | SubprocessNotAllowed
  | NetworkNotAllowed
  | PluginActivationNotAllowed
  | ToolInvocationNotAllowed (mv_tool: string)
  | NonSandboxedActionInDebug

(* src/crates/aura-core-modes/src/violation.rs:12-38 Display for ModeViolation *)
fun mode_violation_message :: "mode_violation \<Rightarrow> string" where
  "mode_violation_message SpawnNotAllowed = ''subagent spawning is not allowed in this mode''"
| "mode_violation_message WriteNonMarkdownNotAllowed =
    ''writing non-markdown files is not allowed in this mode''"
| "mode_violation_message WriteNotAllowed = ''file writes are not allowed in this mode''"
| "mode_violation_message SubprocessNotAllowed =
    ''subprocess execution is not allowed in this mode''"
| "mode_violation_message NetworkNotAllowed = ''network access is not allowed in this mode''"
| "mode_violation_message PluginActivationNotAllowed =
    ''plugin activation is not allowed in this mode''"
| "mode_violation_message (ToolInvocationNotAllowed tool) =
    ''tool invocation '' @ quoted tool @ '' is not allowed in this mode''"
| "mode_violation_message NonSandboxedActionInDebug =
    ''only sandboxed probes are allowed in Debug mode''"

(* src/crates/aura-core-modes/src/gate.rs:78-130 DefaultModeGate::check *)
fun mode_check :: "agent_mode \<Rightarrow> gated_action \<Rightarrow> (mode_violation, unit) result" where
  "mode_check AgentMode_Agent _ = Inr ()"
| "mode_check AgentMode_Plan GA_ReadFile = Inr ()"
| "mode_check AgentMode_Ask GA_ReadFile = Inr ()"
| "mode_check AgentMode_Debug GA_ReadFile = Inr ()"
| "mode_check AgentMode_Plan GA_WriteMarkdown = Inr ()"
| "mode_check AgentMode_Plan GA_Subprocess = Inr ()"
| "mode_check AgentMode_Plan GA_PluginActivate = Inr ()"
| "mode_check AgentMode_Plan (GA_ToolInvoke _) = Inr ()"
| "mode_check AgentMode_Plan GA_WriteNonMarkdown = Inl WriteNonMarkdownNotAllowed"
| "mode_check AgentMode_Plan GA_Network = Inl NetworkNotAllowed"
| "mode_check AgentMode_Plan GA_SpawnAgent = Inl SpawnNotAllowed"
| "mode_check AgentMode_Plan GA_SandboxedProbe = Inr ()"
| "mode_check AgentMode_Ask (GA_ToolInvoke _) = Inr ()"
| "mode_check AgentMode_Ask GA_WriteMarkdown = Inl WriteNotAllowed"
| "mode_check AgentMode_Ask GA_WriteNonMarkdown = Inl WriteNotAllowed"
| "mode_check AgentMode_Ask GA_Subprocess = Inl SubprocessNotAllowed"
| "mode_check AgentMode_Ask GA_Network = Inl NetworkNotAllowed"
| "mode_check AgentMode_Ask GA_SpawnAgent = Inl SpawnNotAllowed"
| "mode_check AgentMode_Ask GA_PluginActivate = Inl PluginActivationNotAllowed"
| "mode_check AgentMode_Ask GA_SandboxedProbe = Inl NonSandboxedActionInDebug"
| "mode_check AgentMode_Debug GA_SandboxedProbe = Inr ()"
| "mode_check AgentMode_Debug GA_WriteMarkdown = Inl WriteNotAllowed"
| "mode_check AgentMode_Debug GA_WriteNonMarkdown = Inl WriteNotAllowed"
| "mode_check AgentMode_Debug GA_Subprocess = Inl SubprocessNotAllowed"
| "mode_check AgentMode_Debug GA_Network = Inl NetworkNotAllowed"
| "mode_check AgentMode_Debug GA_SpawnAgent = Inl SpawnNotAllowed"
| "mode_check AgentMode_Debug GA_PluginActivate = Inl PluginActivationNotAllowed"
| "mode_check AgentMode_Debug (GA_ToolInvoke name) = Inl (ToolInvocationNotAllowed name)"

(* src/crates/aura-core-modes/src/gate.rs:134-138 AgentMode::check *)
definition agent_mode_check :: "agent_mode \<Rightarrow> agent_mode \<Rightarrow> gated_action \<Rightarrow> (mode_violation, unit) result" where
  "agent_mode_check self mode action = mode_check mode action"

section \<open>Session mode\<close>

(* src/crates/aura-core-modes/src/resolution.rs:13-20 AgentModeInputs *)
record agent_mode_inputs =
  ami_requested :: "agent_mode option"
  ami_daemon_default :: "agent_mode option"

(* src/crates/aura-core-modes/src/resolution.rs:24-30 resolve_session_mode *)
definition resolve_session_mode :: "agent_mode_inputs \<Rightarrow> agent_mode" where
  "resolve_session_mode inputs =
    (case ami_requested inputs of
       Some m \<Rightarrow> m
     | None \<Rightarrow> (case ami_daemon_default inputs of Some m \<Rightarrow> m | None \<Rightarrow> AgentMode_Agent))"

section \<open>Mode narrowing\<close>

(* src/crates/aura-agent-subagent/src/derivation.rs:312-319 narrowing_allowed *)
fun narrowing_allowed :: "agent_mode \<Rightarrow> agent_mode \<Rightarrow> bool" where
  "narrowing_allowed AgentMode_Agent _ = True"
| "narrowing_allowed AgentMode_Plan child =
    (child = AgentMode_Plan \<or> child = AgentMode_Ask \<or> child = AgentMode_Debug)"
| "narrowing_allowed AgentMode_Ask child = (child = AgentMode_Ask)"
| "narrowing_allowed AgentMode_Debug child = (child = AgentMode_Debug)"

section \<open>Lemmas\<close>

lemmas cp_default_defs [aura_defs] =
  cp_agent_default_def cp_plan_default_def cp_ask_default_def cp_debug_default_def
  cp_from_static_def cp_contains_def

lemma narrowing_refl [simp]: "narrowing_allowed m m"
  by (cases m) simp_all

lemma narrowing_trans: "narrowing_allowed a b \<Longrightarrow> narrowing_allowed b c \<Longrightarrow> narrowing_allowed a c"
  by (cases a; cases b; cases c) simp_all

lemma narrowing_antisym: "narrowing_allowed a b \<Longrightarrow> narrowing_allowed b a \<Longrightarrow> a = b"
  by (cases a; cases b) simp_all

text \<open>
  The contract of a mode gate that the derivation of subagents and the policy engine rely on:
  the widest mode admits everything, reading is admitted everywhere, a legal narrowing of the
  mode admits no more, and spawning is admitted exactly where the mode allows it.
\<close>

locale mode_gate =
  fixes check :: "agent_mode \<Rightarrow> gated_action \<Rightarrow> (mode_violation, unit) result"
  assumes agent_admits: "is_ok (check AgentMode_Agent action)"
    and read_admits: "is_ok (check mode GA_ReadFile)"
    and narrow_admits: "narrowing_allowed parent child \<Longrightarrow> is_ok (check child action) \<Longrightarrow>
                        is_ok (check parent action)"
    and spawn_admits: "is_ok (check mode GA_SpawnAgent) = allows_spawn mode"
begin

lemma refusal_is_inherited:
  "narrowing_allowed parent child \<Longrightarrow> check parent action = Inl v \<Longrightarrow> \<exists>w. check child action = Inl w"
  by (metis is_ok_simps(2) narrow_admits is_ok_iff sum.exhaust)

text \<open>No chain of narrowings ever regains an action an ancestor was refused.\<close>

lemma refusal_along_chain:
  "(\<And>i. Suc i < length ms \<Longrightarrow> narrowing_allowed (ms ! i) (ms ! Suc i)) \<Longrightarrow> ms \<noteq> [] \<Longrightarrow>
   \<not> is_ok (check (hd ms) action) \<Longrightarrow> m \<in> set ms \<Longrightarrow> \<not> is_ok (check m action)"
proof (induction ms rule: induct_list012)
  case (3 x y zs)
  have "narrowing_allowed x y"
    using "3.prems"(1) [of 0] by simp
  then have y: "\<not> is_ok (check y action)"
    using "3.prems"(3) narrow_admits by fastforce
  have "narrowing_allowed ((y # zs) ! i) ((y # zs) ! Suc i)" if "Suc i < length (y # zs)" for i
    using "3.prems"(1) [of "Suc i"] that by simp
  with 3 y show ?case by auto
qed auto

end

lemma mode_check_narrow:
  "narrowing_allowed parent child \<Longrightarrow> is_ok (mode_check child action) \<Longrightarrow>
   is_ok (mode_check parent action)"
  by (cases parent; cases child; cases action) simp_all

interpretation dmg: mode_gate mode_check
proof unfold_locales
  show "is_ok (mode_check mode GA_SpawnAgent) = allows_spawn mode" for mode
    by (cases mode) simp_all
  show "is_ok (mode_check mode GA_ReadFile)" for mode
    by (cases mode) simp_all
qed (auto intro: mode_check_narrow)

lemma profile_narrow:
  "narrowing_allowed parent child \<Longrightarrow>
   cp_allowed (default_capability_profile child) \<subseteq> cp_allowed (default_capability_profile parent)"
  by (cases parent; cases child) (simp_all add: cp_default_defs)

end
