(* ===== verification/Core_Permissions.thy ===== *)
theory Core_Permissions
  imports Core_Modes
begin

text \<open>
  The crate \<open>aura-core-permissions\<close>: capabilities with their wildcard lifting rules, scopes
  (an empty axis means the universe), permission bundles and the narrowing algebra over them,
  the tri-state tool permissions with the two-level resolution (agent override, then user
  default), and the mode-narrowed view of a bundle.
\<close>

section \<open>Capabilities\<close>

(* src/crates/aura-core-permissions/src/capability.rs:12-54 Capability *)
datatype capability =
    Cap_SpawnAgent
  | Cap_ControlAgent
  | Cap_ReadAgent
  | Cap_ListAgents
  | Cap_ManageOrgMembers
  | Cap_ManageBilling
  | Cap_InvokeProcess
  | Cap_PostToFeed
  | Cap_GenerateMedia
  | Cap_ComputerUse
  | Cap_ReadProject string
  | Cap_WriteProject string
  | Cap_ReadAllProjects
  | Cap_WriteAllProjects

(* src/crates/aura-core-permissions/src/capability.rs:72-84 Capability::satisfies *)
definition satisfies :: "capability \<Rightarrow> capability \<Rightarrow> bool" where
  "satisfies held req =
    (held = req \<or>
     (case (held, req) of
        (Cap_ReadAllProjects, Cap_ReadProject _) \<Rightarrow> True
      | (Cap_WriteAllProjects, Cap_ReadProject _) \<Rightarrow> True
      | (Cap_WriteAllProjects, Cap_WriteProject _) \<Rightarrow> True
      | (Cap_WriteProject held_id, Cap_ReadProject req_id) \<Rightarrow> held_id = req_id
      | _ \<Rightarrow> False))"

(* src/crates/aura-core-permissions/src/capability.rs:89-107 Capability::discriminant *)
fun discriminant :: "capability \<Rightarrow> string" where
  "discriminant Cap_SpawnAgent = ''spawnAgent''"
| "discriminant Cap_ControlAgent = ''controlAgent''"
| "discriminant Cap_ReadAgent = ''readAgent''"
| "discriminant Cap_ListAgents = ''listAgents''"
| "discriminant Cap_ManageOrgMembers = ''manageOrgMembers''"
| "discriminant Cap_ManageBilling = ''manageBilling''"
| "discriminant Cap_InvokeProcess = ''invokeProcess''"
| "discriminant Cap_PostToFeed = ''postToFeed''"
| "discriminant Cap_GenerateMedia = ''generateMedia''"
| "discriminant Cap_ComputerUse = ''computerUse''"
| "discriminant (Cap_ReadProject _) = ''readProject''"
| "discriminant (Cap_WriteProject _) = ''writeProject''"
| "discriminant Cap_ReadAllProjects = ''readAllProjects''"
| "discriminant Cap_WriteAllProjects = ''writeAllProjects''"

section \<open>Scopes\<close>

(* src/crates/aura-core-permissions/src/scope.rs:9-20 AgentScope *)
record agent_scope =
  sc_orgs :: "string list"
  sc_projects :: "string list"
  sc_agent_ids :: "string list"

definition scope_default :: agent_scope where
  "scope_default = \<lparr> sc_orgs = [], sc_projects = [], sc_agent_ids = [] \<rparr>"

(* src/crates/aura-core-permissions/src/scope.rs:24-27 AgentScope::is_universe *)
definition is_universe :: "agent_scope \<Rightarrow> bool" where
  "is_universe s = (sc_orgs s = [] \<and> sc_projects s = [] \<and> sc_agent_ids s = [])"

(* src/crates/aura-core-permissions/src/scope.rs:41-49 axis_contains *)
definition axis_contains :: "string list \<Rightarrow> string list \<Rightarrow> bool" where
  "axis_contains parent child =
    (if parent = [] then True
     else if child = [] then False
     else list_all (\<lambda>c. list_ex (\<lambda>p. p = c) parent) child)"

(* src/crates/aura-core-permissions/src/scope.rs:33-38 AgentScope::contains *)
definition scope_contains :: "agent_scope \<Rightarrow> agent_scope \<Rightarrow> bool" where
  "scope_contains s t =
    (axis_contains (sc_orgs s) (sc_orgs t)
     \<and> axis_contains (sc_projects s) (sc_projects t)
     \<and> axis_contains (sc_agent_ids s) (sc_agent_ids t))"

(* src/crates/aura-core-permissions/src/scope.rs:53-61 axis_intersect *)
definition axis_intersect :: "string list \<Rightarrow> string list \<Rightarrow> string list" where
  "axis_intersect a b =
    (if a = [] then b else if b = [] then a else filter (\<lambda>x. x \<in> set b) a)"

(* src/crates/aura-core-permissions/src/scope.rs:65-72 AgentScope::intersect *)
definition scope_intersect :: "agent_scope \<Rightarrow> agent_scope \<Rightarrow> agent_scope" where
  "scope_intersect s t =
    \<lparr> sc_orgs = axis_intersect (sc_orgs s) (sc_orgs t),
      sc_projects = axis_intersect (sc_projects s) (sc_projects t),
      sc_agent_ids = axis_intersect (sc_agent_ids s) (sc_agent_ids t) \<rparr>"

section \<open>Permission bundles\<close>

(* src/crates/aura-core-permissions/src/lib.rs:59-66 Permissions *)
record permissions =
  pm_scope :: agent_scope
  pm_capabilities :: "capability list"

(* src/crates/aura-core-permissions/src/lib.rs:74-93 Permissions::full_access *)
definition pm_full_access :: permissions where
  "pm_full_access =
    \<lparr> pm_scope = scope_default,
      pm_capabilities =
        [Cap_SpawnAgent, Cap_ControlAgent, Cap_ReadAgent, Cap_ListAgents, Cap_ManageOrgMembers,
         Cap_ManageBilling, Cap_InvokeProcess, Cap_PostToFeed, Cap_GenerateMedia,
         Cap_ComputerUse, Cap_ReadAllProjects, Cap_WriteAllProjects] \<rparr>"

(* src/crates/aura-core-permissions/src/lib.rs:97-114 Permissions::empty *)
definition pm_empty :: permissions where
  "pm_empty = \<lparr> pm_scope = scope_default, pm_capabilities = [] \<rparr>"

(* src/crates/aura-core-permissions/src/lib.rs:118-127 Permissions::contains *)
definition pm_contains :: "permissions \<Rightarrow> permissions \<Rightarrow> bool" where
  "pm_contains p q =
    (if \<not> scope_contains (pm_scope p) (pm_scope q) then False
     else list_all (\<lambda>req. list_ex (\<lambda>held. satisfies held req) (pm_capabilities p))
            (pm_capabilities q))"

primrec intersect_caps :: "capability list \<Rightarrow> capability list \<Rightarrow> capability list \<Rightarrow> capability list" where
  "intersect_caps acc [] bs = acc"
| "intersect_caps acc (cap # as) bs =
    intersect_caps (if cap \<in> set bs \<and> cap \<notin> set acc then acc @ [cap] else acc) as bs"

(* src/crates/aura-core-permissions/src/math.rs:28-41 intersect *)
definition pm_intersect :: "permissions \<Rightarrow> permissions \<Rightarrow> permissions" where
  "pm_intersect a b =
    \<lparr> pm_scope = scope_intersect (pm_scope a) (pm_scope b),
      pm_capabilities = intersect_caps [] (pm_capabilities a) (pm_capabilities b) \<rparr>"

(* src/crates/aura-core-permissions/src/math.rs:20-23 narrow *)
definition narrow :: "permissions \<Rightarrow> permissions \<Rightarrow> permissions" where
  "narrow parent child = pm_intersect parent child"

(* src/crates/aura-core-permissions/src/math.rs:45-48 allows *)
definition allows :: "permissions \<Rightarrow> capability \<Rightarrow> bool" where
  "allows perms cap = list_ex (\<lambda>held. satisfies held cap) (pm_capabilities perms)"

(* src/crates/aura-core-permissions/src/math.rs:56-73 allows_tool *)
definition allows_tool :: "permissions \<Rightarrow> string \<Rightarrow> bool" where
  "allows_tool perms tool =
    (if tool = ''spawn_agent'' then allows perms Cap_SpawnAgent
     else if tool = ''list_agents'' then allows perms Cap_ListAgents
     else if tool = ''get_agent_state'' then allows perms Cap_ReadAgent
     else if tool \<in> {''send_to_agent'', ''agent_lifecycle'', ''delegate_task''}
       then allows perms Cap_ControlAgent
     else if tool \<in> {''run_command'', ''shell''} then allows perms Cap_InvokeProcess
     else True)"

section \<open>Tool permissions\<close>

(* src/crates/aura-core-permissions/src/lib.rs:162-173 ToolState *)
datatype tool_state = ToolState_Allow | ToolState_Deny | ToolState_Ask

(* src/crates/aura-core-permissions/src/lib.rs:178-185 ToolState::rank *)
fun rank :: "tool_state \<Rightarrow> u8" where
  "rank ToolState_Deny = 0"
| "rank ToolState_Ask = 1"
| "rank ToolState_Allow = 2"

(* src/crates/aura-core-permissions/src/lib.rs:189-193 ToolState::is_subset_of *)
definition is_subset_of :: "tool_state \<Rightarrow> tool_state \<Rightarrow> bool" where
  "is_subset_of self parent = (rank self \<le> rank parent)"

(* src/crates/aura-core-permissions/src/lib.rs:132-158 AgentToolPermissions *)
record agent_tool_permissions =
  atp_per_tool :: "(string, tool_state) btree_map"

(* src/crates/aura-core-permissions/src/lib.rs:147-152 AgentToolPermissions::with *)
definition atp_with :: "agent_tool_permissions \<Rightarrow> string \<Rightarrow> tool_state \<Rightarrow> agent_tool_permissions" where
  "atp_with p tool state = p \<lparr> atp_per_tool := btm_insert tool state (atp_per_tool p) \<rparr>"

(* src/crates/aura-core-permissions/src/lib.rs:240-253 UserDefaultMode *)
datatype user_default_mode =
    UserDefault_FullAccess
  | UserDefault_AutoReview
  | UserDefault_DefaultPermissions
      (udm_per_tool: "(string, tool_state) btree_map") (udm_fallback: tool_state)

(* src/crates/aura-core-permissions/src/lib.rs:197-236 UserToolDefaults *)
record user_tool_defaults =
  utd_mode :: user_default_mode

(* src/crates/aura-core-permissions/src/lib.rs:267-279 PermissionLayer *)
datatype permission_layer =
    Layer_AgentOverride
  | Layer_UserFullAccess
  | Layer_UserAutoReview
  | Layer_UserPerTool
  | Layer_UserFallback

(* src/crates/aura-core-permissions/src/lib.rs:282-299 resolve_effective_permission_with_source *)
definition resolve_effective_permission_with_source ::
  "user_tool_defaults \<Rightarrow> agent_tool_permissions option \<Rightarrow> string \<Rightarrow> tool_state \<times> permission_layer" where
  "resolve_effective_permission_with_source user_default agent_override tool =
    (case Option.bind agent_override (\<lambda>o1. btm_get tool (atp_per_tool o1)) of
       Some state \<Rightarrow> (state, Layer_AgentOverride)
     | None \<Rightarrow>
        (case utd_mode user_default of
           UserDefault_FullAccess \<Rightarrow> (ToolState_Allow, Layer_UserFullAccess)
         | UserDefault_AutoReview \<Rightarrow> (ToolState_Ask, Layer_UserAutoReview)
         | UserDefault_DefaultPermissions per_tool fallback \<Rightarrow>
            (case btm_get tool per_tool of
               Some state \<Rightarrow> (state, Layer_UserPerTool)
             | None \<Rightarrow> (fallback, Layer_UserFallback))))"

(* src/crates/aura-core-permissions/src/lib.rs:256-263 resolve_effective_permission *)
definition resolve_effective_permission ::
  "user_tool_defaults \<Rightarrow> agent_tool_permissions option \<Rightarrow> string \<Rightarrow> tool_state" where
  "resolve_effective_permission user_default agent_override tool =
    fst (resolve_effective_permission_with_source user_default agent_override tool)"

(* src/crates/aura-core-permissions/src/lib.rs:303-315 is_effectively_full_access *)
definition is_effectively_full_access ::
  "user_tool_defaults \<Rightarrow> agent_tool_permissions option \<Rightarrow> bool" where
  "is_effectively_full_access user_default agent_override =
    (utd_mode user_default = UserDefault_FullAccess
     \<and> (case agent_override of
          None \<Rightarrow> True
        | Some o1 \<Rightarrow> list_all (\<lambda>state. state = ToolState_Allow) (btm_values (atp_per_tool o1))))"

section \<open>Mode-narrowed permissions\<close>

(* src/crates/aura-core-permissions/src/grants.rs:8-19 GrantSource *)
datatype grant_source = Grant_User | Grant_Plugin (gs_plugin_id: string) | Grant_Inherited

(* src/crates/aura-core-permissions/src/grants.rs:22-29 PrivilegeGrant *)
record privilege_grant =
  pg_source :: grant_source
  pg_capability :: capability

(* src/crates/aura-core-permissions/src/effective.rs:15-22 EffectivePermissions *)
record effective_permissions =
  ep_permissions :: permissions
  ep_grants :: "privilege_grant list"

(* src/crates/aura-core-permissions/src/effective.rs:56-72 effective *)
definition effective :: "agent_mode \<Rightarrow> permissions \<Rightarrow> effective_permissions" where
  "effective mode user_grants =
    (let profile = default_capability_profile mode in
     \<lparr> ep_permissions =
         \<lparr> pm_scope = pm_scope user_grants,
           pm_capabilities =
             filter (\<lambda>cap. cp_contains profile (discriminant cap)) (pm_capabilities user_grants) \<rparr>,
       ep_grants = [] \<rparr>)"

section \<open>The order on tool states\<close>

instantiation tool_state :: linorder
begin

definition less_eq_tool_state :: "tool_state \<Rightarrow> tool_state \<Rightarrow> bool" where
  "less_eq_tool_state = is_subset_of"

definition less_tool_state :: "tool_state \<Rightarrow> tool_state \<Rightarrow> bool" where
  "less_tool_state a b = (a \<le> b \<and> \<not> b \<le> (a :: tool_state))"

instance
proof
  fix x y z :: tool_state
  show "x \<le> x" by (simp add: less_eq_tool_state_def is_subset_of_def)
  show "x \<le> y \<Longrightarrow> y \<le> z \<Longrightarrow> x \<le> z"
    by (simp add: less_eq_tool_state_def is_subset_of_def)
  show "x \<le> y \<Longrightarrow> y \<le> x \<Longrightarrow> x = y"
    by (cases x; cases y) (simp_all add: less_eq_tool_state_def is_subset_of_def word_le_nat_alt)
  show "x \<le> y \<or> y \<le> x"
    by (cases x; cases y) (simp_all add: less_eq_tool_state_def is_subset_of_def)
qed (simp add: less_tool_state_def)

end


section \<open>Lemmas on capabilities and scopes\<close>

lemma satisfies_refl [simp]: "satisfies c c"
  by (simp add: satisfies_def)

lemma satisfies_trans: "satisfies a b \<Longrightarrow> satisfies b c \<Longrightarrow> satisfies a c"
  by (cases a; cases b; cases c) (auto simp: satisfies_def)

lemma satisfies_antisym: "satisfies a b \<Longrightarrow> satisfies b a \<Longrightarrow> a = b"
  by (cases a; cases b) (auto simp: satisfies_def)

lemma axis_contains_iff: "axis_contains p c \<longleftrightarrow> p = [] \<or> c \<noteq> [] \<and> set c \<subseteq> set p"
  by (auto simp: axis_contains_def list_all_iff list_ex_iff)

lemma axis_contains_refl [simp]: "axis_contains a a"
  by (simp add: axis_contains_iff)

lemma axis_contains_trans: "axis_contains a b \<Longrightarrow> axis_contains b c \<Longrightarrow> axis_contains a c"
  by (auto simp: axis_contains_iff)

text \<open>
  Two axes overlap when one of them is the universe or they share an entry.  Intersecting
  overlapping axes narrows; intersecting disjoint non-empty axes produces the empty list, which
  reads as the universe.
\<close>

definition axis_overlap :: "string list \<Rightarrow> string list \<Rightarrow> bool" where
  "axis_overlap a b = (a = [] \<or> b = [] \<or> list_ex (\<lambda>x. x \<in> set b) a)"

definition scope_overlap :: "agent_scope \<Rightarrow> agent_scope \<Rightarrow> bool" where
  "scope_overlap s t =
    (axis_overlap (sc_orgs s) (sc_orgs t)
     \<and> axis_overlap (sc_projects s) (sc_projects t)
     \<and> axis_overlap (sc_agent_ids s) (sc_agent_ids t))"

lemma set_axis_intersect:
  "a \<noteq> [] \<Longrightarrow> b \<noteq> [] \<Longrightarrow> set (axis_intersect a b) = set a \<inter> set b"
  by (auto simp: axis_intersect_def)

lemma axis_intersect_left: "axis_contains a (axis_intersect a b) \<longleftrightarrow> axis_overlap a b"
  by (auto simp: axis_contains_iff axis_intersect_def axis_overlap_def list_ex_iff filter_empty_conv)

lemma axis_intersect_right: "axis_contains b (axis_intersect a b) \<longleftrightarrow> axis_overlap a b"
  by (auto simp: axis_contains_iff axis_intersect_def axis_overlap_def list_ex_iff filter_empty_conv)

lemma axis_intersect_greatest:
  "axis_contains a c \<Longrightarrow> axis_contains b c \<Longrightarrow> axis_contains (axis_intersect a b) c"
  by (auto simp: axis_contains_iff axis_intersect_def)

lemma scope_intersect_left: "scope_contains s (scope_intersect s t) \<longleftrightarrow> scope_overlap s t"
  by (simp add: scope_contains_def scope_intersect_def scope_overlap_def axis_intersect_left)

lemma scope_intersect_right: "scope_contains t (scope_intersect s t) \<longleftrightarrow> scope_overlap s t"
  by (simp add: scope_contains_def scope_intersect_def scope_overlap_def axis_intersect_right)

lemma scope_intersect_greatest:
  "scope_contains s c \<Longrightarrow> scope_contains t c \<Longrightarrow> scope_contains (scope_intersect s t) c"
  by (simp add: scope_contains_def scope_intersect_def axis_intersect_greatest)

lemma scope_contains_refl [simp]: "scope_contains s s"
  by (simp add: scope_contains_def)

lemma scope_contains_trans: "scope_contains a b \<Longrightarrow> scope_contains b c \<Longrightarrow> scope_contains a c"
  by (auto simp: scope_contains_def intro: axis_contains_trans)

section \<open>Lemmas on bundles\<close>

lemma allows_iff: "allows p c \<longleftrightarrow> (\<exists>h \<in> set (pm_capabilities p). satisfies h c)"
  by (simp add: allows_def list_ex_iff)

lemma pm_contains_iff:
  "pm_contains p q \<longleftrightarrow>
   scope_contains (pm_scope p) (pm_scope q) \<and> (\<forall>c \<in> set (pm_capabilities q). allows p c)"
  by (auto simp: pm_contains_def allows_def list_all_iff)

lemma allows_mono: "pm_contains p q \<Longrightarrow> allows q c \<Longrightarrow> allows p c"
  by (auto simp: pm_contains_iff allows_iff intro: satisfies_trans)

interpretation perm_order: partial_preordering "\<lambda>q p. pm_contains p q"
proof unfold_locales
  show "pm_contains p p" for p
    by (auto simp: pm_contains_iff allows_iff intro: satisfies_refl)
  show "pm_contains c a" if "pm_contains b a" "pm_contains c b" for a b c
    using that scope_contains_trans allows_mono [of c b] by (auto simp: pm_contains_iff)
qed

lemma set_intersect_caps:
  "set (intersect_caps acc as bs) = set acc \<union> (set as \<inter> set bs)"
  by (induction as arbitrary: acc) auto

lemma distinct_intersect_caps: "distinct acc \<Longrightarrow> distinct (intersect_caps acc as bs)"
  by (induction as arbitrary: acc) auto

lemma set_narrow_caps [simp]:
  "set (pm_capabilities (narrow p c)) = set (pm_capabilities p) \<inter> set (pm_capabilities c)"
  by (simp add: narrow_def pm_intersect_def set_intersect_caps)

lemma narrow_scope [simp]: "pm_scope (narrow p c) = scope_intersect (pm_scope p) (pm_scope c)"
  by (simp add: narrow_def pm_intersect_def)

lemma narrow_allows: "allows (narrow p c) cap \<Longrightarrow> allows p cap \<and> allows c cap"
  by (auto simp: allows_iff)

section \<open>Lemmas on tool permissions\<close>

lemmas resolve_defs [aura_defs] =
  resolve_effective_permission_def resolve_effective_permission_with_source_def

lemma effective_simps [simp]:
  "pm_scope (ep_permissions (effective m g)) = pm_scope g"
  "set (pm_capabilities (ep_permissions (effective m g))) =
    {c \<in> set (pm_capabilities g). cp_contains (default_capability_profile m) (discriminant c)}"
  by (auto simp: effective_def Let_def)

section \<open>Properties\<close>

text \<open>
  Narrowing a parent bundle by a requested bundle yields a bundle contained in the
  parent, and in the request, exactly when the two scopes overlap on every axis; on a disjoint
  pair of non-empty axes the result is not contained in either side (the empty intersection
  is the universe).
\<close>

theorem narrow_contained_iff:
  "(pm_contains parent (narrow parent child) \<longleftrightarrow> scope_overlap (pm_scope parent) (pm_scope child))
   \<and> (pm_contains child (narrow parent child) \<longleftrightarrow> scope_overlap (pm_scope parent) (pm_scope child))"
proof -
  have "\<forall>c \<in> set (pm_capabilities (narrow parent child)). allows parent c \<and> allows child c"
    by (auto simp: allows_iff intro: satisfies_refl)
  then show ?thesis
    by (auto simp: pm_contains_iff scope_intersect_left scope_intersect_right)
qed

text \<open>
  Narrowing is a greatest lower bound on scopes and an intersection on
  capabilities: a bundle whose scope both sides contain is within the narrowed scope, the
  retained capabilities are exactly the common ones, each once, and no capability is allowed
  afterwards that was not allowed by both sides.
\<close>

theorem narrow_meet:
  "set (pm_capabilities (narrow p c)) = set (pm_capabilities p) \<inter> set (pm_capabilities c)
   \<and> distinct (pm_capabilities (narrow p c))
   \<and> (allows (narrow p c) cap \<longrightarrow> allows p cap \<and> allows c cap)
   \<and> (scope_contains (pm_scope p) s \<longrightarrow> scope_contains (pm_scope c) s \<longrightarrow>
      scope_contains (pm_scope (narrow p c)) s)"
  using narrow_allows [of p c cap] scope_intersect_greatest [of "pm_scope p" s "pm_scope c"]
  by (simp add: distinct_intersect_caps narrow_def pm_intersect_def set_intersect_caps)

theorem narrow_meet_witness:
  "allows (narrow pm_full_access \<lparr> pm_scope = scope_default,
                                   pm_capabilities = [Cap_ReadAllProjects] \<rparr>) (Cap_ReadProject ''p1'')
   \<and> allows pm_full_access (Cap_ReadProject ''p1'')"
proof -
  let ?c = "\<lparr> pm_scope = scope_default, pm_capabilities = [Cap_ReadAllProjects] \<rparr>"
  have "allows (narrow pm_full_access ?c) (Cap_ReadProject ''p1'')"
    by (simp add: narrow_def pm_intersect_def pm_full_access_def allows_def satisfies_def)
  then show ?thesis
    using narrow_meet [of pm_full_access ?c "Cap_ReadProject ''p1''" scope_default] by blast
qed

text \<open>
  The mode ceiling only narrows.  The mode-narrowed view of the user's grants is
  contained in those grants, and a legal narrowing of the mode never widens the view.
\<close>

theorem effective_narrows:
  assumes "narrowing_allowed parent child"
  shows "pm_contains (ep_permissions (effective parent g)) (ep_permissions (effective child g))
         \<and> pm_contains g (ep_permissions (effective parent g))"
  using profile_narrow [OF assms]
  by (auto simp: pm_contains_iff allows_iff cp_contains_def intro: satisfies_refl)

theorem effective_narrows_witness:
  "pm_contains (ep_permissions (effective AgentMode_Plan pm_full_access))
     (ep_permissions (effective AgentMode_Ask pm_full_access))"
  using effective_narrows [of AgentMode_Plan AgentMode_Ask pm_full_access] by simp

text \<open>
  The agent's override wins over the user's default for every tool it lists, the
  user's default decides otherwise, and the reported layer says which of the two decided.
\<close>

theorem resolve_precedence:
  "resolve_effective_permission_with_source u a tool =
    (case Option.bind a (\<lambda>o1. btm_get tool (atp_per_tool o1)) of
       Some st \<Rightarrow> (st, Layer_AgentOverride)
     | None \<Rightarrow> (resolve_effective_permission u None tool,
                snd (resolve_effective_permission_with_source u None tool)))
   \<and> (snd (resolve_effective_permission_with_source u a tool) = Layer_AgentOverride \<longleftrightarrow>
      (\<exists>o1 st. a = Some o1 \<and> btm_get tool (atp_per_tool o1) = Some st))"
  by (auto simp: resolve_defs split: option.splits user_default_mode.splits bind_split)

text \<open>
  With a well-formed override map, the full-access test answers yes exactly when
  the user default is full access and every tool resolves to \<open>on\<close>.
\<close>

theorem full_access_iff_all_allow:
  assumes "utd_mode u = UserDefault_FullAccess" and "\<And>o1. a = Some o1 \<Longrightarrow> btm_inv (atp_per_tool o1)"
  shows "is_effectively_full_access u a \<longleftrightarrow>
         (\<forall>tool. resolve_effective_permission u a tool = ToolState_Allow)"
proof (cases a)
  case (Some o1)
  have "distinct (map fst (atp_per_tool o1))"
    using assms(2) [OF Some] by (simp add: btm_inv_def)
  then have "(\<forall>st \<in> set (btm_values (atp_per_tool o1)). st = ToolState_Allow) \<longleftrightarrow>
             (\<forall>tool st. btm_get tool (atp_per_tool o1) = Some st \<longrightarrow> st = ToolState_Allow)"
    by (auto simp: btm_values_def btm_get_def dest: map_of_SomeD)
  with Some assms(1) show ?thesis
    by (auto simp: is_effectively_full_access_def resolve_defs list_all_iff split: option.splits)
qed (simp add: is_effectively_full_access_def resolve_defs assms(1))

theorem full_access_iff_all_allow_witness:
  "is_effectively_full_access \<lparr> utd_mode = UserDefault_FullAccess \<rparr>
     (Some \<lparr> atp_per_tool = [(''read_file'', ToolState_Allow)] \<rparr>) \<longleftrightarrow>
   (\<forall>tool. resolve_effective_permission \<lparr> utd_mode = UserDefault_FullAccess \<rparr>
     (Some \<lparr> atp_per_tool = [(''read_file'', ToolState_Allow)] \<rparr>) tool = ToolState_Allow)"
  using full_access_iff_all_allow [of "\<lparr> utd_mode = UserDefault_FullAccess \<rparr>"
      "Some \<lparr> atp_per_tool = [(''read_file'', ToolState_Allow)] \<rparr>"]
  by (simp add: btm_inv_def)

end
