(* ===== verification/Core_Types.thy ===== *)
theory Core_Types
  imports Core_Permissions
begin

text \<open>
  The crate \<open>aura-core-types\<close>: identifiers and content hashes, transactions and the record entry
  that is written for each of them, proposals, decisions, actions and effects, and the tool
  types (call, proposal, execution, policy decision, result, installed capabilities).

  Three libraries the crate calls are parameters of the definitions that use them: the BLAKE3
  function \<open>bytes \<Rightarrow> array32\<close> (its incremental hasher hashes the concatenation of the updates, so
  a hasher is the byte string it has absorbed), the hexadecimal printer, and the derived JSON
  codec of each persisted type, a \<open>codec\<close> value.  What the code relies on of a codec is the
  round trip \<open>codec_ok\<close>; \<open>codec_total\<close> says that encoding succeeds.
\<close>

section \<open>JSON values and codecs\<close>

datatype json_number = JN_PosInt u64 | JN_NegInt u64 | JN_Float u64

datatype json =
    J_Null
  | J_Bool bool
  | J_Number json_number
  | J_String string
  | J_Array "json list"
  | J_Object "(string \<times> json) list"

fun json_get :: "json \<Rightarrow> string \<Rightarrow> json option" where
  "json_get (J_Object m) k = map_of m k"
| "json_get other k = None"

fun json_as_str :: "json \<Rightarrow> string option" where
  "json_as_str (J_String s) = Some s"
| "json_as_str other = None"

datatype serde_error =
    SerdeIo (serde_message: string)
  | SerdeSyntax (serde_message: string)
  | SerdeData (serde_message: string)
  | SerdeEof (serde_message: string)

record 'a codec =
  to_vec :: "'a \<Rightarrow> (serde_error, bytes) result"
  from_slice :: "bytes \<Rightarrow> (serde_error, 'a) result"

definition codec_ok :: "'a codec \<Rightarrow> bool" where
  "codec_ok c = (\<forall>x bs. to_vec c x = Inr bs \<longrightarrow> from_slice c bs = Inr x)"

definition codec_total :: "'a codec \<Rightarrow> bool" where
  "codec_total c = (\<forall>x. is_ok (to_vec c x))"

definition str_bytes :: "string \<Rightarrow> bytes" where
  "str_bytes s = map of_char s"

section \<open>Identifiers and hashes\<close>

(* src/crates/aura-core-types/src/ids.rs:293-296 AgentId *)
datatype agent_id = AgentId (agent_id_array: array32)

(* src/crates/aura-core-types/src/ids.rs:263-266 Hash *)
datatype hash = Hash (hash_array: array32)

(* src/crates/aura-core-types/src/ids.rs:341-345 ActionId *)
datatype action_id = ActionId (action_id_array: array16)

datatype process_id = ProcessId (process_id_array: array16)

(* src/crates/aura-core-types/src/ids.rs:195-215 define_id!::as_bytes *)
definition agent_id_as_bytes :: "agent_id \<Rightarrow> bytes" where
  "agent_id_as_bytes a = array32_bytes (agent_id_array a)"

definition hash_as_bytes :: "hash \<Rightarrow> bytes" where
  "hash_as_bytes h = array32_bytes (hash_array h)"

definition action_id_as_bytes :: "action_id \<Rightarrow> bytes" where
  "action_id_as_bytes a = array16_bytes (action_id_array a)"

(* src/crates/aura-core-types/src/ids.rs:268-274 Hash::from_content *)
definition from_content :: "(bytes \<Rightarrow> array32) \<Rightarrow> bytes \<Rightarrow> hash" where
  "from_content blake3 content = Hash (blake3 content)"

(* src/crates/aura-core-types/src/ids.rs:276-287 Hash::from_content_chained *)
definition from_content_chained :: "(bytes \<Rightarrow> array32) \<Rightarrow> bytes \<Rightarrow> hash option \<Rightarrow> hash" where
  "from_content_chained blake3 content prev_hash =
    Hash (blake3 (content @ (case prev_hash of None \<Rightarrow> [] | Some prev \<Rightarrow> hash_as_bytes prev)))"

(* src/crates/aura-core-types/src/hash.rs:8-12 hash_bytes *)
definition hash_bytes :: "(bytes \<Rightarrow> array32) \<Rightarrow> bytes \<Rightarrow> array32" where
  "hash_bytes blake3 data = blake3 data"

(* src/crates/aura-core-types/src/hash.rs:14-22 hash_many *)
definition hash_many :: "(bytes \<Rightarrow> array32) \<Rightarrow> bytes list \<Rightarrow> array32" where
  "hash_many blake3 parts = blake3 (concat parts)"

(* src/crates/aura-core-types/src/hash.rs:41-66 Hasher *)
record hasher =
  hasher_absorbed :: bytes

definition hasher_new :: hasher where
  "hasher_new = \<lparr> hasher_absorbed = [] \<rparr>"

definition hasher_update :: "hasher \<Rightarrow> bytes \<Rightarrow> hasher" where
  "hasher_update h data = h \<lparr> hasher_absorbed := hasher_absorbed h @ data \<rparr>"

definition hasher_finalize :: "(bytes \<Rightarrow> array32) \<Rightarrow> hasher \<Rightarrow> array32" where
  "hasher_finalize blake3 h = blake3 (hasher_absorbed h)"

section \<open>Errors\<close>

(* src/crates/aura-core-types/src/error/mod.rs:28-139 AuraError *)
datatype aura_error =
    AuraError_Storage string
  | AuraError_AgentNotFound agent_id
  | AuraError_RecordEntryNotFound agent_id u64
  | AuraError_TransactionNotFound hash
  | AuraError_InboxEmpty agent_id
  | AuraError_SequenceMismatch (ae_expected: u64) (ae_actual: u64)
  | AuraError_Serialization string
  | AuraError_Deserialization string
  | AuraError_Kernel string
  | AuraError_PolicyViolation string
  | AuraError_ActionNotAllowed string
  | AuraError_ToolNotAllowed string
  | AuraError_Executor string
  | AuraError_ToolExecutionFailed string string
  | AuraError_ToolTimeout string u64
  | AuraError_SandboxViolation string
  | AuraError_Reasoner string
  | AuraError_ReasonerTimeout u64
  | AuraError_ReasonerUnavailable string
  | AuraError_Validation string
  | AuraError_InvalidTransaction string
  | AuraError_InvalidAction action_id string
  | AuraError_Configuration string
  | AuraError_Internal string

(* src/crates/aura-core-types/src/error/mod.rs:250-264 From<serde_json::Error> for AuraError *)
fun aura_error_of_serde :: "serde_error \<Rightarrow> aura_error" where
  "aura_error_of_serde (SerdeIo m) = AuraError_Serialization m"
| "aura_error_of_serde (SerdeSyntax m) = AuraError_Deserialization m"
| "aura_error_of_serde (SerdeData m) = AuraError_Deserialization m"
| "aura_error_of_serde (SerdeEof m) = AuraError_Deserialization m"

section \<open>Agent status\<close>

(* src/crates/aura-core-types/src/types/status.rs:6-14 AgentStatus *)
datatype agent_status = AgentStatus_Active | AgentStatus_Paused | AgentStatus_Dead

(* src/crates/aura-core-types/src/types/status.rs:16-21 AgentStatus::as_byte *)
fun status_as_byte :: "agent_status \<Rightarrow> u8" where
  "status_as_byte AgentStatus_Active = 0"
| "status_as_byte AgentStatus_Paused = 1"
| "status_as_byte AgentStatus_Dead = 2"

(* src/crates/aura-core-types/src/types/status.rs:23-33 AgentStatus::from_byte *)
definition status_from_byte :: "u8 \<Rightarrow> agent_status option" where
  "status_from_byte b =
    (if b = 0 then Some AgentStatus_Active
     else if b = 1 then Some AgentStatus_Paused
     else if b = 2 then Some AgentStatus_Dead
     else None)"

section \<open>Transactions\<close>

(* src/crates/aura-core-types/src/types/transaction.rs:11-46 TransactionType *)
datatype transaction_type =
    TxType_UserPrompt
  | TxType_AgentMsg
  | TxType_Trigger
  | TxType_ActionResult
  | TxType_System
  | TxType_SessionStart
  | TxType_ToolProposal
  | TxType_ToolExecution
  | TxType_PolicyDecision
  | TxType_ProcessComplete
  | TxType_Reasoning
  | TxType_SubagentSpawn

(* src/crates/aura-core-types/src/types/transaction.rs:50-65 SystemKind *)
datatype system_kind =
    SystemKind_AutomatonLifecycle
  | SystemKind_CapabilityInstall
  | SystemKind_DomainMutation
  | SystemKind_AuthChange
  | SystemKind_Infrastructure

(* src/crates/aura-core-types/src/types/transaction.rs:70-93 Transaction *)
record transaction =
  tx_hash :: hash
  tx_agent_id :: agent_id
  tx_ts_ms :: u64
  tx_type :: transaction_type
  tx_payload :: bytes
  tx_reference :: "hash option"

(* src/crates/aura-core-types/src/types/transaction.rs:101-117 Transaction::new *)
definition tx_new :: "hash \<Rightarrow> agent_id \<Rightarrow> u64 \<Rightarrow> transaction_type \<Rightarrow> bytes \<Rightarrow> transaction" where
  "tx_new h agent_id ts_ms ty payload =
    \<lparr> tx_hash = h, tx_agent_id = agent_id, tx_ts_ms = ts_ms, tx_type = ty,
      tx_payload = payload, tx_reference = None \<rparr>"

(* src/crates/aura-core-types/src/types/transaction.rs:119-139 Transaction::new_chained *)
definition tx_new_chained ::
  "(bytes \<Rightarrow> array32) \<Rightarrow> u64 \<Rightarrow> agent_id \<Rightarrow> transaction_type \<Rightarrow> bytes \<Rightarrow> hash option \<Rightarrow> transaction" where
  "tx_new_chained blake3 now agent_id ty payload prev_hash =
    \<lparr> tx_hash = from_content_chained blake3 payload prev_hash, tx_agent_id = agent_id,
      tx_ts_ms = now, tx_type = ty, tx_payload = payload, tx_reference = None \<rparr>"

(* src/crates/aura-core-types/src/types/transaction.rs:141-145 Transaction::user_prompt *)
definition tx_user_prompt :: "(bytes \<Rightarrow> array32) \<Rightarrow> u64 \<Rightarrow> agent_id \<Rightarrow> bytes \<Rightarrow> transaction" where
  "tx_user_prompt blake3 now agent_id payload =
    tx_new_chained blake3 now agent_id TxType_UserPrompt payload None"

(* src/crates/aura-core-types/src/types/transaction.rs:147-160 Transaction::user_prompt_chained *)
definition tx_user_prompt_chained ::
  "(bytes \<Rightarrow> array32) \<Rightarrow> u64 \<Rightarrow> agent_id \<Rightarrow> bytes \<Rightarrow> hash \<Rightarrow> transaction" where
  "tx_user_prompt_chained blake3 now agent_id payload prev_hash =
    tx_new_chained blake3 now agent_id TxType_UserPrompt payload (Some prev_hash)"

(* src/crates/aura-core-types/src/types/transaction.rs:168-190 Transaction::action_result_with_reference *)
definition tx_action_result_with_reference ::
  "(bytes \<Rightarrow> array32) \<Rightarrow> u64 \<Rightarrow> agent_id \<Rightarrow> bytes \<Rightarrow> hash \<Rightarrow> hash option \<Rightarrow> transaction" where
  "tx_action_result_with_reference blake3 now agent_id payload reference prev_hash =
    \<lparr> tx_hash = from_content_chained blake3 payload prev_hash, tx_agent_id = agent_id,
      tx_ts_ms = now, tx_type = TxType_ActionResult, tx_payload = payload,
      tx_reference = Some reference \<rparr>"

(* src/crates/aura-core-types/src/types/transaction.rs:192-201 Transaction::session_start *)
definition tx_session_start :: "(bytes \<Rightarrow> array32) \<Rightarrow> u64 \<Rightarrow> agent_id \<Rightarrow> transaction" where
  "tx_session_start blake3 now agent_id =
    tx_new_chained blake3 now agent_id TxType_SessionStart (str_bytes ''session_start'') None"

section \<open>Actions, effects, proposals and decisions\<close>

(* src/crates/aura-core-types/src/types/action.rs:11-24 ActionKind *)
datatype action_kind = ActionKind_Reason | ActionKind_Memorize | ActionKind_Decide | ActionKind_Delegate

(* src/crates/aura-core-types/src/types/action.rs:27-47 Action *)
record action =
  ac_action_id :: action_id
  ac_kind :: action_kind
  ac_payload :: bytes

(* src/crates/aura-core-types/src/types/effect.rs:8-22 EffectKind *)
datatype effect_kind = EffectKind_Proposal | EffectKind_Artifact | EffectKind_Belief | EffectKind_Agreement

(* src/crates/aura-core-types/src/types/effect.rs:25-34 EffectStatus *)
datatype effect_status = EffectStatus_Committed | EffectStatus_Pending | EffectStatus_Failed

(* src/crates/aura-core-types/src/types/effect.rs:37-65 Effect *)
record effect =
  ef_action_id :: action_id
  ef_kind :: effect_kind
  ef_status :: effect_status
  ef_payload :: bytes

(* src/crates/aura-core-types/src/types/effect.rs:67-76 Effect::committed_agreement *)
definition committed_agreement :: "action_id \<Rightarrow> bytes \<Rightarrow> effect" where
  "committed_agreement action_id payload =
    \<lparr> ef_action_id = action_id, ef_kind = EffectKind_Agreement,
      ef_status = EffectStatus_Committed, ef_payload = payload \<rparr>"

(* src/crates/aura-core-types/src/types/effect.rs:78-82 Effect::failed *)
definition effect_failed :: "action_id \<Rightarrow> effect_kind \<Rightarrow> bytes \<Rightarrow> effect" where
  "effect_failed action_id kind error =
    \<lparr> ef_action_id = action_id, ef_kind = kind, ef_status = EffectStatus_Failed, ef_payload = error \<rparr>"

(* src/crates/aura-core-types/src/types/effect.rs:84-88 Effect::pending *)
definition effect_pending :: "action_id \<Rightarrow> effect_kind \<Rightarrow> effect" where
  "effect_pending action_id kind =
    \<lparr> ef_action_id = action_id, ef_kind = kind, ef_status = EffectStatus_Pending, ef_payload = [] \<rparr>"

(* src/crates/aura-core-types/src/types/proposal.rs:10-40 Proposal *)
record proposal =
  pr_action_kind :: action_kind
  pr_payload :: bytes
  pr_rationale :: "string option"

(* src/crates/aura-core-types/src/types/proposal.rs:42-54 Trace *)
record trace =
  tr_model :: "string option"
  tr_latency_ms :: "u64 option"
  tr_metadata :: "(string, string) btree_map"

(* src/crates/aura-core-types/src/types/proposal.rs:56-88 ProposalSet *)
record proposal_set =
  ps_proposals :: "proposal list"
  ps_trace :: "trace option"

definition proposal_set_new :: proposal_set where
  "proposal_set_new = \<lparr> ps_proposals = [], ps_trace = None \<rparr>"

definition with_proposals :: "proposal list \<Rightarrow> proposal_set" where
  "with_proposals ps = \<lparr> ps_proposals = ps, ps_trace = None \<rparr>"

(* src/crates/aura-core-types/src/types/proposal.rs:90-97 RejectedProposal *)
record rejected_proposal =
  rp_proposal_index :: u32
  rp_reason :: string

(* src/crates/aura-core-types/src/types/proposal.rs:99-113 Decision *)
record decision =
  dc_accepted_action_ids :: "action_id list"
  dc_rejected :: "rejected_proposal list"

definition decision_new :: decision where
  "decision_new = \<lparr> dc_accepted_action_ids = [], dc_rejected = [] \<rparr>"

(* src/crates/aura-core-types/src/types/proposal.rs:115-118 Decision::accept *)
definition decision_accept :: "decision \<Rightarrow> action_id \<Rightarrow> decision" where
  "decision_accept d a = d \<lparr> dc_accepted_action_ids := dc_accepted_action_ids d @ [a] \<rparr>"

(* src/crates/aura-core-types/src/types/proposal.rs:120-127 Decision::reject *)
definition decision_reject :: "decision \<Rightarrow> u32 \<Rightarrow> string \<Rightarrow> decision" where
  "decision_reject d i reason =
    d \<lparr> dc_rejected := dc_rejected d @ [\<lparr> rp_proposal_index = i, rp_reason = reason \<rparr>] \<rparr>"

section \<open>Record entries\<close>

(* src/crates/aura-core-types/src/types/context_hash.rs:13-28 ContextHash *)
datatype context_hash = ContextHash (context_hash_array: array32)

definition context_hash_zero :: context_hash where
  "context_hash_zero = ContextHash 0"

(* src/crates/aura-core-types/src/types/record.rs:7-8 KERNEL_VERSION *)
definition KERNEL_VERSION :: u32 where
  "KERNEL_VERSION = 1"

(* src/crates/aura-core-types/src/types/record.rs:10-31 RecordEntry *)
record record_entry =
  re_seq :: u64
  re_tx :: transaction
  re_kernel_version :: u32
  re_context_hash :: context_hash
  re_proposals :: proposal_set
  re_decision :: decision
  re_actions :: "action list"
  re_effects :: "effect list"

(* src/crates/aura-core-types/src/types/record.rs:41-116 RecordEntryBuilder *)
definition record_entry_builder :: "u64 \<Rightarrow> transaction \<Rightarrow> record_entry" where
  "record_entry_builder seq tx =
    \<lparr> re_seq = seq, re_tx = tx, re_kernel_version = KERNEL_VERSION,
      re_context_hash = context_hash_zero, re_proposals = proposal_set_new,
      re_decision = decision_new, re_actions = [], re_effects = [] \<rparr>"

section \<open>Tools\<close>

(* src/crates/aura-core-types/src/types/tool/call.rs:16-22 ToolCall *)
record tool_call =
  tc_tool :: string
  tc_args :: json

(* src/crates/aura-core-types/src/types/tool/proposal.rs:8-44 ToolProposal *)
record tool_proposal =
  tp_tool_use_id :: string
  tp_tool :: string
  tp_args :: json
  tp_source :: "string option"

(* src/crates/aura-core-types/src/types/tool/proposal.rs:54-63 ToolGateVerdict *)
datatype tool_gate_verdict = Gate_Approved | Gate_Denied | Gate_PendingApproval

(* src/crates/aura-core-types/src/types/tool/execution.rs:8-37 ToolExecution *)
record tool_execution =
  te_tool_use_id :: string
  te_tool :: string
  te_args :: json
  te_decision :: tool_gate_verdict
  te_reason :: "string option"
  te_result :: "string option"
  te_is_error :: bool
  te_parent_agent_id :: agent_id
  te_originating_user_id :: string

(* src/crates/aura-core-types/src/types/tool/policy_decision.rs:12-38 PolicySource *)
datatype policy_source =
    PolicySource_ActionKind
  | PolicySource_Mode
  | PolicySource_AgentCapability
  | PolicySource_Integration
  | PolicySource_SessionGrant
  | PolicySource_AgentOverride
  | PolicySource_UserDefault
  | PolicySource_PermissionHook
  | PolicySource_User
  | PolicySource_NoLiveSession
  | PolicySource_MalformedProposal

(* src/crates/aura-core-types/src/types/tool/policy_decision.rs:40-58 PolicySource::as_str *)
fun policy_source_str :: "policy_source \<Rightarrow> string" where
  "policy_source_str PolicySource_ActionKind = ''action_kind''"
| "policy_source_str PolicySource_Mode = ''mode''"
| "policy_source_str PolicySource_AgentCapability = ''agent_capability''"
| "policy_source_str PolicySource_Integration = ''integration''"
| "policy_source_str PolicySource_SessionGrant = ''session_grant''"
| "policy_source_str PolicySource_AgentOverride = ''agent_override''"
| "policy_source_str PolicySource_UserDefault = ''user_default''"
| "policy_source_str PolicySource_PermissionHook = ''permission_hook''"
| "policy_source_str PolicySource_User = ''user''"
| "policy_source_str PolicySource_NoLiveSession = ''no_live_session''"
| "policy_source_str PolicySource_MalformedProposal = ''malformed_proposal''"

(* src/crates/aura-core-types/src/types/tool/policy_decision.rs:60-79 PolicyRule *)
record policy_rule =
  rule_source :: policy_source
  rule_rule :: string

(* src/crates/aura-core-types/src/types/tool/policy_decision.rs:81-89 Display for PolicyRule *)
definition policy_rule_display :: "policy_rule \<Rightarrow> string" where
  "policy_rule_display r =
    (if rule_rule r = [] then policy_source_str (rule_source r)
     else policy_source_str (rule_source r) @ ''.'' @ rule_rule r)"

(* src/crates/aura-core-types/src/types/tool/policy_decision.rs:91-101 PolicyCheckOutcome *)
datatype policy_check_outcome = Outcome_Allow | Outcome_Deny | Outcome_Ask

(* src/crates/aura-core-types/src/types/tool/policy_decision.rs:103-111 PolicyCheck *)
record policy_check =
  pc_rule :: policy_rule
  pc_outcome :: policy_check_outcome

(* src/crates/aura-core-types/src/types/tool/policy_decision.rs:113-125 PolicyApprover *)
datatype policy_approver = Approver_Hook | Approver_User (approver_user_id: "string option")

(* src/crates/aura-core-types/src/types/tool/policy_decision.rs:127-138 PolicyApproval *)
record policy_approval =
  pa_approver :: policy_approver
  pa_remember :: "string option"
  pa_request_id :: "string option"

(* src/crates/aura-core-types/src/types/tool/policy_decision.rs:140-167 PolicyDecision *)
record policy_decision =
  pd_tool_use_id :: string
  pd_tool :: string
  pd_verdict :: tool_gate_verdict
  pd_reason :: "string option"
  pd_decided_by :: policy_rule
  pd_trace :: "policy_check list"
  pd_approval :: "policy_approval option"
  pd_mode :: string
  pd_policy_hash :: string
  pd_action_id :: "string option"

(* src/crates/aura-core-types/src/types/tool/installed.rs:84-96 InstalledToolIntegrationRequirement *)
record integration_requirement =
  ir_integration_id :: "string option"
  ir_provider :: "string option"
  ir_kind :: "string option"

(* src/crates/aura-core-types/src/types/tool/installed.rs:118-130 InstalledIntegrationDefinition *)
record installed_integration =
  ii_integration_id :: string
  ii_name :: string
  ii_provider :: string
  ii_kind :: string
  ii_metadata :: "(string, json) btree_map"

(* src/crates/aura-core-types/src/types/tool/installed.rs:132-138 InstalledToolCapability *)
record installed_tool_capability =
  itc_name :: string
  itc_required_integration :: "integration_requirement option"

(* src/crates/aura-core-types/src/types/tool/runtime_capability.rs:10-22 RuntimeCapabilityInstall *)
record runtime_capability_install =
  rci_system_kind :: system_kind
  rci_scope :: string
  rci_session_id :: "string option"
  rci_installed_integrations :: "installed_integration list"
  rci_installed_tools :: "installed_tool_capability list"

(* src/crates/aura-core-types/src/types/tool/runtime_capability.rs:24-30 RuntimeCapabilityInstall::tool_capability *)
definition tool_capability :: "runtime_capability_install \<Rightarrow> string \<Rightarrow> installed_tool_capability option" where
  "tool_capability rc tool = List.find (\<lambda>installed. itc_name installed = tool) (rci_installed_tools rc)"

(* src/crates/aura-core-types/src/types/tool/runtime_capability.rs:48-65 integration_match *)
definition integration_match :: "integration_requirement \<Rightarrow> installed_integration \<Rightarrow> bool" where
  "integration_match requirement candidate =
    ((case ir_integration_id requirement of None \<Rightarrow> True | Some e \<Rightarrow> ii_integration_id candidate = e)
     \<and> (case ir_provider requirement of None \<Rightarrow> True | Some e \<Rightarrow> ii_provider candidate = e)
     \<and> (case ir_kind requirement of None \<Rightarrow> True | Some e \<Rightarrow> ii_kind candidate = e))"

(* src/crates/aura-core-types/src/types/tool/runtime_capability.rs:67-77 installed_integrations_satisfy *)
definition installed_integrations_satisfy ::
  "integration_requirement \<Rightarrow> installed_integration list \<Rightarrow> bool" where
  "installed_integrations_satisfy requirement installed =
    list_ex (integration_match requirement) installed"

(* src/crates/aura-core-types/src/types/tool/runtime_capability.rs:32-38 RuntimeCapabilityInstall::integration_requirement_satisfied *)
definition integration_requirement_satisfied ::
  "runtime_capability_install \<Rightarrow> integration_requirement \<Rightarrow> bool" where
  "integration_requirement_satisfied rc requirement =
    installed_integrations_satisfy requirement (rci_installed_integrations rc)"

section \<open>Tool results\<close>

(* src/crates/aura-core-types/src/types/tool/result.rs:20-25 LineDiff *)
record line_diff =
  ld_lines_added :: u32
  ld_lines_removed :: u32

(* src/crates/aura-core-types/src/types/tool/result.rs:38-55 ToolResultImage *)
record tool_result_image =
  tri_base64 :: string
  tri_media_type :: string

(* src/crates/aura-core-types/src/types/tool/result.rs:62-73 ToolResultKind *)
datatype tool_result_kind = ResultKind_Ok | ResultKind_AgentError | ResultKind_CompactionStructural

(* src/crates/aura-core-types/src/types/tool/result.rs:76-108 ToolResult *)
record tool_result =
  rs_tool :: string
  rs_ok :: bool
  rs_kind :: tool_result_kind
  rs_exit_code :: "u32 option"
  rs_stdout :: bytes
  rs_stderr :: bytes
  rs_metadata :: "(string, string) btree_map"
  rs_line_diff :: "line_diff option"
  rs_image :: "tool_result_image option"

(* src/crates/aura-core-types/src/types/tool/result.rs:136-140 ToolResult::deserialize *)
definition result_kind_or_default :: "tool_result_kind option \<Rightarrow> bool \<Rightarrow> tool_result_kind" where
  "result_kind_or_default kind ok1 =
    (case kind of Some k \<Rightarrow> k | None \<Rightarrow> if ok1 then ResultKind_Ok else ResultKind_AgentError)"

(* src/crates/aura-core-types/src/types/tool/result.rs:156-170 ToolResult::success *)
definition tool_result_success :: "string \<Rightarrow> bytes \<Rightarrow> tool_result" where
  "tool_result_success tool out =
    \<lparr> rs_tool = tool, rs_ok = True, rs_kind = ResultKind_Ok, rs_exit_code = None,
      rs_stdout = out, rs_stderr = [], rs_metadata = [], rs_line_diff = None, rs_image = None \<rparr>"

(* src/crates/aura-core-types/src/types/tool/result.rs:172-186 ToolResult::failure *)
definition tool_result_failure :: "string \<Rightarrow> bytes \<Rightarrow> tool_result" where
  "tool_result_failure tool e =
    \<lparr> rs_tool = tool, rs_ok = False, rs_kind = ResultKind_AgentError, rs_exit_code = None,
      rs_stdout = [], rs_stderr = e, rs_metadata = [], rs_line_diff = None, rs_image = None \<rparr>"

(* src/crates/aura-core-types/src/types/tool/result.rs:188-205 ToolResult::compaction_structural_failure *)
definition compaction_structural_failure :: "string \<Rightarrow> bytes \<Rightarrow> tool_result" where
  "compaction_structural_failure tool e =
    (tool_result_failure tool e) \<lparr> rs_kind := ResultKind_CompactionStructural \<rparr>"

section \<open>Redaction of tool arguments\<close>

(* src/crates/aura-core-types/src/types/tool/call.rs:31-46 SENSITIVE_ARG_KEYS *)
definition SENSITIVE_ARG_KEYS :: "string list" where
  "SENSITIVE_ARG_KEYS =
    [''jwt'', ''token'', ''access_token'', ''refresh_token'', ''id_token'', ''authorization'',
     ''api_key'', ''apikey'', ''password'', ''passwd'', ''secret'', ''client_secret'',
     ''private_key'', ''session_token'']"

definition ascii_lower :: "char \<Rightarrow> char" where
  "ascii_lower c =
    (let n = (of_char c :: nat) in if 65 \<le> n \<and> n \<le> 90 then char_of (n + 32) else c)"

definition eq_ignore_ascii_case :: "string \<Rightarrow> string \<Rightarrow> bool" where
  "eq_ignore_ascii_case a b = (map ascii_lower a = map ascii_lower b)"

definition is_sensitive_key :: "string \<Rightarrow> bool" where
  "is_sensitive_key k = list_ex (\<lambda>needle. eq_ignore_ascii_case k needle) SENSITIVE_ARG_KEYS"

lemma json_object_size [termination_simp]:
  "(k, v) \<in> set m \<Longrightarrow> size v < Suc (size_list (size_prod (\<lambda>_. 0) size) m)"
  by (induction m) auto

(* src/crates/aura-core-types/src/types/tool/call.rs:48-69 redact_sensitive_args *)
fun redact_sensitive_args :: "json \<Rightarrow> json" where
  "redact_sensitive_args (J_Object m) =
    J_Object (map (\<lambda>(k, v).
      (k, if is_sensitive_key k then J_String ''***'' else redact_sensitive_args v)) m)"
| "redact_sensitive_args (J_Array items) = J_Array (map redact_sensitive_args items)"
| "redact_sensitive_args other = other"

section \<open>Identity and processes\<close>

(* src/crates/aura-core-types/src/types/identity.rs:7-33 Identity *)
record identity =
  id_agent_id :: agent_id
  id_zns_id :: string
  id_name :: string
  id_identity_hash :: array32
  id_permissions :: permissions
  id_tool_permissions :: "agent_tool_permissions option"

(* src/crates/aura-core-types/src/types/identity.rs:36-56 Identity::new *)
definition identity_new :: "(bytes \<Rightarrow> array32) \<Rightarrow> string \<Rightarrow> string \<Rightarrow> identity" where
  "identity_new blake3 zns_id name =
    (let identity_hash = blake3 (str_bytes zns_id) in
     \<lparr> id_agent_id = AgentId identity_hash, id_zns_id = zns_id, id_name = name,
       id_identity_hash = identity_hash, id_permissions = pm_full_access,
       id_tool_permissions = None \<rparr>)"

(* src/crates/aura-core-types/src/types/process.rs:35-58 ActionResultPayload *)
record action_result_payload =
  arp_action_id :: action_id
  arp_process_id :: process_id
  arp_exit_code :: "u32 option"
  arp_stdout :: bytes
  arp_stderr :: bytes
  arp_success :: bool
  arp_duration_ms :: u64

section \<open>Transactions with encoded payloads\<close>

text \<open>
  The derived codecs of the types that are persisted or carried in payloads, one value per type.
\<close>

record serde_json =
  sj_transaction :: "transaction codec"
  sj_record_entry :: "record_entry codec"
  sj_tool_call :: "tool_call codec"
  sj_tool_proposal :: "tool_proposal codec"
  sj_tool_execution :: "tool_execution codec"
  sj_policy_decision :: "policy_decision codec"
  sj_tool_result :: "tool_result codec"
  sj_runtime_capability :: "runtime_capability_install codec"
  sj_user_tool_defaults :: "user_tool_defaults codec"
  sj_action_result :: "action_result_payload codec"
  sj_value :: "json codec"

(* src/crates/aura-core-types/src/types/transaction.rs:203-218 Transaction::tool_proposal *)
definition tx_tool_proposal ::
  "serde_json \<Rightarrow> (bytes \<Rightarrow> array32) \<Rightarrow> u64 \<Rightarrow> agent_id \<Rightarrow> tool_proposal \<Rightarrow> (aura_error, transaction) result" where
  "tx_tool_proposal J blake3 now agent_id p =
    res_bind (res_map_err aura_error_of_serde (to_vec (sj_tool_proposal J) p)) (\<lambda>payload.
      Inr (tx_new_chained blake3 now agent_id TxType_ToolProposal payload None))"

(* src/crates/aura-core-types/src/types/transaction.rs:220-235 Transaction::tool_execution *)
definition tx_tool_execution ::
  "serde_json \<Rightarrow> (bytes \<Rightarrow> array32) \<Rightarrow> u64 \<Rightarrow> agent_id \<Rightarrow> tool_execution \<Rightarrow> (aura_error, transaction) result" where
  "tx_tool_execution J blake3 now agent_id e =
    res_bind (res_map_err aura_error_of_serde (to_vec (sj_tool_execution J) e)) (\<lambda>payload.
      Inr (tx_new_chained blake3 now agent_id TxType_ToolExecution payload None))"

(* src/crates/aura-core-types/src/types/transaction.rs:237-250 Transaction::tool_execution_for_decision *)
definition tx_tool_execution_for_decision ::
  "serde_json \<Rightarrow> (bytes \<Rightarrow> array32) \<Rightarrow> u64 \<Rightarrow> agent_id \<Rightarrow> tool_execution \<Rightarrow> hash \<Rightarrow> (aura_error, transaction) result" where
  "tx_tool_execution_for_decision J blake3 now agent_id e decision_tx_hash =
    res_bind (tx_tool_execution J blake3 now agent_id e) (\<lambda>tx.
      Inr (tx \<lparr> tx_reference := Some decision_tx_hash \<rparr>))"

(* src/crates/aura-core-types/src/types/transaction.rs:252-273 Transaction::policy_decision *)
definition tx_policy_decision ::
  "serde_json \<Rightarrow> (bytes \<Rightarrow> array32) \<Rightarrow> u64 \<Rightarrow> agent_id \<Rightarrow> policy_decision \<Rightarrow> hash \<Rightarrow> (aura_error, transaction) result" where
  "tx_policy_decision J blake3 now agent_id d proposal_tx_hash =
    res_bind (res_map_err aura_error_of_serde (to_vec (sj_policy_decision J) d)) (\<lambda>payload.
      Inr ((tx_new_chained blake3 now agent_id TxType_PolicyDecision payload (Some proposal_tx_hash))
           \<lparr> tx_reference := Some proposal_tx_hash \<rparr>))"

(* src/crates/aura-core-types/src/types/transaction.rs:275-300 Transaction::process_complete *)
definition tx_process_complete ::
  "serde_json \<Rightarrow> (bytes \<Rightarrow> array32) \<Rightarrow> u64 \<Rightarrow> agent_id \<Rightarrow> action_result_payload \<Rightarrow> hash \<Rightarrow> hash option \<Rightarrow>
   (aura_error, transaction) result" where
  "tx_process_complete J blake3 now agent_id payload reference prev_hash =
    res_bind (res_map_err aura_error_of_serde (to_vec (sj_action_result J) payload)) (\<lambda>bs.
      Inr \<lparr> tx_hash = from_content_chained blake3 bs prev_hash, tx_agent_id = agent_id,
            tx_ts_ms = now, tx_type = TxType_ProcessComplete, tx_payload = bs,
            tx_reference = Some reference \<rparr>)"

text \<open>
  Codecs over a finite table of values, encoded by their position: the concrete codecs at which
  the hypotheses on serialisation are shown to hold.
\<close>

primrec index_of :: "'a \<Rightarrow> 'a list \<Rightarrow> nat option" where
  "index_of x [] = None"
| "index_of x (y # ys) = (if x = y then Some 0 else map_option Suc (index_of x ys))"

definition list_codec :: "'a list \<Rightarrow> 'a codec" where
  "list_codec xs =
    \<lparr> to_vec = (\<lambda>x. case index_of x xs of
                    None \<Rightarrow> Inl (SerdeData ''value outside the table'')
                  | Some i \<Rightarrow> Inr (replicate i 0)),
      from_slice = (\<lambda>bs. if length bs < length xs then Inr (xs ! length bs)
                        else Inl (SerdeData ''bytes outside the table'')) \<rparr>"

definition table_serde :: serde_json where
  "table_serde =
    \<lparr> sj_transaction = list_codec [], sj_record_entry = list_codec [], sj_tool_call = list_codec [],
      sj_tool_proposal = list_codec [], sj_tool_execution = list_codec [],
      sj_policy_decision = list_codec [], sj_tool_result = list_codec [],
      sj_runtime_capability = list_codec [], sj_user_tool_defaults = list_codec [],
      sj_action_result = list_codec [], sj_value = list_codec [] \<rparr>"

section \<open>Lemmas\<close>

lemma agent_id_as_bytes_inject [simp]: "agent_id_as_bytes a = agent_id_as_bytes b \<longleftrightarrow> a = b"
  by (cases a; cases b) (simp add: agent_id_as_bytes_def)

lemma length_agent_id_as_bytes [simp]: "length (agent_id_as_bytes a) = 32"
  by (simp add: agent_id_as_bytes_def)

lemma agent_id_of_as_bytes [simp, codec_simps]: "AgentId (array32_of_bytes (agent_id_as_bytes a)) = a"
  by (simp add: agent_id_as_bytes_def)

lemma status_byte_roundtrip [simp, codec_simps]: "status_from_byte (status_as_byte st) = Some st"
  by (cases st) (simp_all add: status_from_byte_def)

lemma status_from_byte_Some_iff: "status_from_byte b = Some st \<longleftrightarrow> b = status_as_byte st"
  by (cases st) (auto simp: status_from_byte_def)

lemma codec_okD: "codec_ok c \<Longrightarrow> to_vec c x = Inr bs \<Longrightarrow> from_slice c bs = Inr x"
  by (simp add: codec_ok_def)

lemma index_of_nth: "index_of x xs = Some i \<Longrightarrow> i < length xs \<and> xs ! i = x"
  by (induction xs arbitrary: i) (auto split: if_splits)

lemma list_codec_ok [simp]: "codec_ok (list_codec xs)"
  by (auto simp: codec_ok_def list_codec_def split: option.splits dest!: index_of_nth)

lemma hasher_many: "hasher_finalize blake3 (fold (\<lambda>p h. hasher_update h p) parts hasher_new) = hash_many blake3 parts"
proof -
  have "hasher_absorbed (fold (\<lambda>p h. hasher_update h p) parts h) = hasher_absorbed h @ concat parts" for h
    by (induction parts arbitrary: h) (simp_all add: hasher_update_def)
  then show ?thesis
    by (simp add: hasher_finalize_def hash_many_def hasher_new_def)
qed

text \<open>
  Two argument values agree outside their secrets when they have the same shape and differ only
  below sensitive keys.
\<close>

inductive public_eq :: "json \<Rightarrow> json \<Rightarrow> bool" where
  public_refl: "public_eq j j"
| public_array: "list_all2 public_eq xs ys \<Longrightarrow> public_eq (J_Array xs) (J_Array ys)"
| public_object: "list_all2 (\<lambda>p q. fst p = fst q \<and> (is_sensitive_key (fst p) \<or> public_eq (snd p) (snd q))) m n
    \<Longrightarrow> public_eq (J_Object m) (J_Object n)"
monos list_all2_mono

text \<open>The redacted form: below a sensitive key there is nothing but the marker.\<close>

fun redacted :: "json \<Rightarrow> bool" where
  "redacted (J_Object m) =
    list_all (\<lambda>(k, v). if is_sensitive_key k then v = J_String ''***'' else redacted v) m"
| "redacted (J_Array items) = list_all redacted items"
| "redacted other = True"

lemma redact_redacted: "redacted (redact_sensitive_args j)"
  by (induction j rule: redact_sensitive_args.induct) (auto simp: list_all_iff)

lemma redacted_fixpoint: "redacted j \<Longrightarrow> redact_sensitive_args j = j"
proof (induction j rule: redact_sensitive_args.induct)
  case (1 m)
  have "(case p of (k, v) \<Rightarrow>
          (k, if is_sensitive_key k then J_String ''***'' else redact_sensitive_args v)) = p"
    if "p \<in> set m" for p
    using 1 that by (cases p) (auto simp: list_all_iff)
  then show ?case by (simp add: map_idI)
next
  case (2 items)
  then show ?case by (simp add: list_all_iff map_idI)
qed simp_all

lemma redact_public_eq: "public_eq a b \<Longrightarrow> redact_sensitive_args a = redact_sensitive_args b"
proof (induction rule: public_eq.induct)
  case (public_array xs ys)
  then show ?case
    by (auto simp: list_all2_conv_all_nth intro: nth_equalityI)
next
  case (public_object m n)
  then show ?case
    by (auto simp: list_all2_conv_all_nth case_prod_beta intro!: nth_equalityI)
qed simp

section \<open>Properties\<close>

text \<open>
  Property C40: what a tool call prints depends only on the non-secret part of its arguments.
  Two argument values that differ only below sensitive keys (matched without case, at any depth,
  inside arrays too) redact to the same value; a redacted value holds nothing but the marker
  below a sensitive key, and redacting again changes nothing.
\<close>

theorem redact_noninterference:
  "(public_eq a b \<longrightarrow> redact_sensitive_args a = redact_sensitive_args b)
   \<and> redacted (redact_sensitive_args a)
   \<and> redact_sensitive_args (redact_sensitive_args a) = redact_sensitive_args a"
  by (simp add: redact_public_eq redact_redacted redacted_fixpoint)

theorem redact_noninterference_witness:
  "redact_sensitive_args (J_Object [(''JWT'', J_String ''s1''), (''path'', J_String ''a'')]) =
   redact_sensitive_args (J_Object [(''JWT'', J_String ''s2''), (''path'', J_String ''a'')])"
proof -
  have "is_sensitive_key ''JWT''" by code_simp
  then have "public_eq (J_Object [(''JWT'', J_String ''s1''), (''path'', J_String ''a'')])
                       (J_Object [(''JWT'', J_String ''s2''), (''path'', J_String ''a'')])"
    by (intro public_object) (simp add: public_refl)
  then show ?thesis
    using redact_noninterference by blast
qed

end
