(* ===== verification/Exec_Traits.thy ===== *)
theory Exec_Traits
  imports Core_Types
begin

text \<open>
  The crate \<open>aura-exec-traits\<close>: the executor trait as a table of operations on the outside world
  \<open>'x\<close>, the router that dispatches an action to the one executor that handles it, and the decoding
  of a tool effect into what the model sees.  An executor's future is given by two functions: what
  it does when it is run to completion, and what it has done when it is dropped at a deadline.
\<close>

section \<open>Contexts\<close>

(* src/crates/aura-exec-traits/src/executor.rs:81-106 ExecuteLimits *)
record execute_limits =
  lim_read_bytes :: nat
  lim_write_bytes :: nat
  lim_command_timeout_ms :: nat
  lim_stdout_bytes :: nat
  lim_stderr_bytes :: nat

definition execute_limits_default :: execute_limits where
  "execute_limits_default =
    \<lparr> lim_read_bytes = 5 * 1024 * 1024, lim_write_bytes = 1024 * 1024,
      lim_command_timeout_ms = 10000, lim_stdout_bytes = 256 * 1024, lim_stderr_bytes = 256 * 1024 \<rparr>"

(* src/crates/aura-exec-traits/src/executor.rs:60-79 ExecuteContext *)
record execute_context =
  ec_agent_id :: agent_id
  ec_action_id :: action_id
  ec_workspace_root :: string
  ec_limits :: execute_limits
  ec_tool_use_id :: "string option"

(* src/crates/aura-exec-traits/src/executor.rs:108-119 ExecuteContext::new *)
definition execute_context_new :: "agent_id \<Rightarrow> action_id \<Rightarrow> string \<Rightarrow> execute_context" where
  "execute_context_new agent_id action_id root =
    \<lparr> ec_agent_id = agent_id, ec_action_id = action_id, ec_workspace_root = root,
      ec_limits = execute_limits_default, ec_tool_use_id = None \<rparr>"

text \<open>
  \<open>s.trim().is_empty()\<close>: every character is Unicode white space, here by the UTF-8 encodings of
  the white space code points.
\<close>

fun blank_bytes :: "nat list \<Rightarrow> bool" where
  "blank_bytes [] = True"
| "blank_bytes (a # rest) =
    (if (9 \<le> a \<and> a \<le> 13) \<or> a = 32 then blank_bytes rest
     else (case rest of
             [] \<Rightarrow> False
           | b # rest1 \<Rightarrow>
              (if a = 0xC2 \<and> (b = 0x85 \<or> b = 0xA0) then blank_bytes rest1
               else (case rest1 of
                       [] \<Rightarrow> False
                     | c # rest2 \<Rightarrow>
                        (if (a, b, c) = (0xE1, 0x9A, 0x80)
                            \<or> (a = 0xE2 \<and> b = 0x80 \<and> (0x80 \<le> c \<and> c \<le> 0x8A \<or> c = 0xA8 \<or> c = 0xA9 \<or> c = 0xAF))
                            \<or> (a, b, c) = (0xE2, 0x81, 0x9F) \<or> (a, b, c) = (0xE3, 0x80, 0x80)
                         then blank_bytes rest2 else False)))))"

definition is_blank :: "string \<Rightarrow> bool" where
  "is_blank s = blank_bytes (map of_char s)"

(* src/crates/aura-exec-traits/src/executor.rs:128-138 ExecuteContext::with_tool_use_id *)
definition with_tool_use_id :: "execute_context \<Rightarrow> string \<Rightarrow> execute_context" where
  "with_tool_use_id ctx value1 = (if is_blank value1 then ctx else ctx \<lparr> ec_tool_use_id := Some value1 \<rparr>)"

section \<open>Executors and the router\<close>

(* src/crates/aura-exec-traits/src/executor.rs:20-28 ExecutorError *)
datatype executor_error =
    ExecutorError_NotFound string
  | ExecutorError_ExecutionFailed string
  | ExecutorError_Other string

(* src/crates/aura-exec-traits/src/executor.rs:21-27 Display for ExecutorError *)
fun executor_error_message :: "executor_error \<Rightarrow> string" where
  "executor_error_message (ExecutorError_NotFound m) = ''executor not found: '' @ m"
| "executor_error_message (ExecutorError_ExecutionFailed m) = ''execution failed: '' @ m"
| "executor_error_message (ExecutorError_Other m) = m"

(* src/crates/aura-exec-traits/src/executor.rs:34-54 Executor *)
record 'x executor =
  ex_name :: string
  ex_can_handle :: "action \<Rightarrow> bool"
  ex_execute :: "execute_context \<Rightarrow> action \<Rightarrow> ('x, executor_error, effect) act"
  ex_execute_until :: "u64 \<Rightarrow> execute_context \<Rightarrow> action \<Rightarrow> 'x \<Rightarrow> (executor_error, effect) result option \<times> 'x"

definition failed_agreement :: "action \<Rightarrow> string \<Rightarrow> effect" where
  "failed_agreement a message =
    \<lparr> ef_action_id = ac_action_id a, ef_kind = EffectKind_Agreement,
      ef_status = EffectStatus_Failed, ef_payload = str_bytes message \<rparr>"

(* src/crates/aura-exec-traits/src/router.rs:86-103 ExecutorRouter::execute *)
definition routed_effect :: "action \<Rightarrow> (executor_error, effect) result \<Rightarrow> effect" where
  "routed_effect a r =
    (case r of
       Inr effect \<Rightarrow> effect
     | Inl e \<Rightarrow> failed_agreement a (''Executor error: '' @ executor_error_message e))"

(* src/crates/aura-exec-traits/src/router.rs:33-110 ExecutorRouter::execute *)
definition router_execute ::
  "'x executor list \<Rightarrow> execute_context \<Rightarrow> action \<Rightarrow> 'x \<Rightarrow> effect \<times> 'x" where
  "router_execute executors ctx a x =
    (case filter (\<lambda>e. ex_can_handle e a) executors of
       [] \<Rightarrow> (failed_agreement a ''No executor available for action'', x)
     | [e] \<Rightarrow> (case ex_execute e ctx a x of (r, x') \<Rightarrow> (routed_effect a r, x'))
     | matches \<Rightarrow>
         (failed_agreement a (''ambiguous executor routing: '' @ nat_str (length matches)
                              @ '' executors match''), x))"

text \<open>The same dispatch under a deadline: \<open>None\<close> when it is reached first.\<close>

definition router_execute_until ::
  "'x executor list \<Rightarrow> u64 \<Rightarrow> execute_context \<Rightarrow> action \<Rightarrow> 'x \<Rightarrow> effect option \<times> 'x" where
  "router_execute_until executors deadline ctx a x =
    (case filter (\<lambda>e. ex_can_handle e a) executors of
       [] \<Rightarrow> (Some (failed_agreement a ''No executor available for action''), x)
     | [e] \<Rightarrow> (case ex_execute_until e deadline ctx a x of
                (r, x') \<Rightarrow> (map_option (routed_effect a) r, x'))
     | matches \<Rightarrow>
         (Some (failed_agreement a (''ambiguous executor routing: '' @ nat_str (length matches)
                                    @ '' executors match'')), x))"

section \<open>Text of byte strings\<close>

text \<open>
  \<open>String::from_utf8_lossy\<close>: well-formed UTF-8 sequences are kept, each maximal ill-formed part is
  replaced by the three bytes of U+FFFD.
\<close>

definition is_cont :: "u8 \<Rightarrow> bool" where
  "is_cont b = (0x80 \<le> b \<and> b \<le> 0xBF)"

definition second_ok :: "u8 \<Rightarrow> u8 \<Rightarrow> bool" where
  "second_ok b0 b1 =
    (if b0 = 0xE0 then 0xA0 \<le> b1 \<and> b1 \<le> 0xBF
     else if b0 = 0xED then 0x80 \<le> b1 \<and> b1 \<le> 0x9F
     else if b0 = 0xF0 then 0x90 \<le> b1 \<and> b1 \<le> 0xBF
     else if b0 = 0xF4 then 0x80 \<le> b1 \<and> b1 \<le> 0x8F
     else is_cont b1)"

definition utf8_width :: "u8 \<Rightarrow> nat" where
  "utf8_width b =
    (if b < 0x80 then 1
     else if 0xC2 \<le> b \<and> b \<le> 0xDF then 2
     else if 0xE0 \<le> b \<and> b \<le> 0xEF then 3
     else if 0xF0 \<le> b \<and> b \<le> 0xF4 then 4
     else 0)"

definition replacement :: bytes where
  "replacement = [0xEF, 0xBF, 0xBD]"

text \<open>How many bytes of the sequence that starts here are well-formed so far.\<close>

definition utf8_valid_prefix :: "u8 \<Rightarrow> bytes \<Rightarrow> nat" where
  "utf8_valid_prefix b0 rest =
    (case rest of
       b1 # rest1 \<Rightarrow>
         (if \<not> second_ok b0 b1 then 1
          else Suc (Suc (length (takeWhile is_cont (take (utf8_width b0 - 2) rest1)))))
     | [] \<Rightarrow> 1)"

function utf8_lossy :: "bytes \<Rightarrow> bytes" where
  "utf8_lossy [] = []"
| "utf8_lossy (b0 # rest) =
    (if utf8_width b0 = 0 then replacement @ utf8_lossy rest
     else if utf8_width b0 = 1 then b0 # utf8_lossy rest
     else let n = utf8_valid_prefix b0 rest in
       if n = utf8_width b0 then (b0 # take (n - 1) rest) @ utf8_lossy (drop (n - 1) rest)
       else replacement @ utf8_lossy (drop (n - 1) rest))"
  by pat_completeness auto
termination
  by (relation "measure length") (auto intro: le_imp_less_Suc)

definition bytes_str :: "bytes \<Rightarrow> string" where
  "bytes_str bs = map (\<lambda>b. char_of (unat b)) bs"

definition from_utf8_lossy :: "bytes \<Rightarrow> string" where
  "from_utf8_lossy bs = bytes_str (utf8_lossy bs)"

text \<open>\<open>str::parse::<i32>\<close>: an optional sign, then digits, within the range of the type.\<close>

primrec digits_value :: "int \<Rightarrow> string \<Rightarrow> int option" where
  "digits_value acc [] = Some acc"
| "digits_value acc (c # cs) =
    (let n = (of_char c :: nat) in
     if 48 \<le> n \<and> n \<le> 57 then digits_value (10 * acc + int (n - 48)) cs else None)"

definition parse_i32 :: "string \<Rightarrow> u32 option" where
  "parse_i32 s =
    (let (neg, ds) = (case s of
                        c # cs \<Rightarrow> if c = CHR ''-'' then (True, cs) else if c = CHR ''+'' then (False, cs)
                                 else (False, s)
                      | [] \<Rightarrow> (False, [])) in
     if ds = [] then None
     else (case digits_value 0 ds of
             None \<Rightarrow> None
           | Some n \<Rightarrow>
              (let v = (if neg then - n else n) in
               if - (2 ^ 31) \<le> v \<and> v < 2 ^ 31 then Some (word_of_int v) else None)))"

section \<open>Decoding effects\<close>

(* src/crates/aura-exec-traits/src/executor.rs:144-166 DecodedToolResult *)
record decoded_tool_result =
  dt_content :: string
  dt_is_error :: bool
  dt_kind :: tool_result_kind
  dt_metadata :: "(string, string) btree_map"
  dt_line_diff :: "line_diff option"
  dt_image :: "tool_result_image option"

(* src/crates/aura-exec-traits/src/executor.rs:168-177 command_exit_code *)
definition command_exit_code :: "tool_result \<Rightarrow> u32 option" where
  "command_exit_code r =
    (case rs_exit_code r of
       Some c \<Rightarrow> Some c
     | None \<Rightarrow> Option.bind (btm_get ''exit_code'' (rs_metadata r)) parse_i32)"

definition json_i32 :: "u32 \<Rightarrow> json" where
  "json_i32 c = J_Number (if 0 \<le> sint c then JN_PosInt (word_of_int (sint c))
                          else JN_NegInt (word_of_int (sint c)))"

(* src/crates/aura-exec-traits/src/executor.rs:179-219 decode_committed_content *)
definition decode_committed_content :: "(json \<Rightarrow> string) \<Rightarrow> tool_result \<Rightarrow> string" where
  "decode_committed_content json_to_string r =
    (let exit_code = command_exit_code r in
     if rs_tool r = ''run_command'' \<or> exit_code \<noteq> None
     then json_to_string (J_Object
       [(''exit_code'', case exit_code of None \<Rightarrow> J_Null | Some c \<Rightarrow> json_i32 c),
        (''ok'', J_Bool (rs_ok r)),
        (''stderr'', J_String (from_utf8_lossy (rs_stderr r))),
        (''stdout'', J_String (from_utf8_lossy (rs_stdout r)))])
     else if \<not> rs_ok r \<and> rs_stderr r \<noteq> [] then from_utf8_lossy (rs_stderr r)
     else if rs_stdout r \<noteq> [] then from_utf8_lossy (rs_stdout r)
     else if rs_ok r then ''Success (no output)''
     else ''Tool execution failed (no details)'')"

(* src/crates/aura-exec-traits/src/executor.rs:221-282 decode_tool_effect *)
definition decode_tool_effect :: "serde_json \<Rightarrow> (json \<Rightarrow> string) \<Rightarrow> effect \<Rightarrow> decoded_tool_result" where
  "decode_tool_effect J json_to_string e =
    (if ef_status e = EffectStatus_Committed
     then (case from_slice (sj_tool_result J) (ef_payload e) of
             Inr r \<Rightarrow>
               \<lparr> dt_content = decode_committed_content json_to_string r, dt_is_error = \<not> rs_ok r,
                 dt_kind = rs_kind r, dt_metadata = rs_metadata r, dt_line_diff = rs_line_diff r,
                 dt_image = rs_image r \<rparr>
           | Inl failure \<Rightarrow>
               \<lparr> dt_content = ''Tool result could not be parsed: '' @ serde_message failure @ ''. Raw: ''
                              @ from_utf8_lossy (ef_payload e),
                 dt_is_error = True, dt_kind = ResultKind_AgentError, dt_metadata = [],
                 dt_line_diff = None, dt_image = None \<rparr>)
     else
       (let (content, kind) =
          (case from_slice (sj_tool_result J) (ef_payload e) of
             Inr r \<Rightarrow> (from_utf8_lossy (rs_stderr r), rs_kind r)
           | Inl _ \<Rightarrow>
               (let raw = from_utf8_lossy (ef_payload e) in
                (if raw = [] then ''Tool execution failed'' else raw, ResultKind_AgentError))) in
        \<lparr> dt_content = content, dt_is_error = True, dt_kind = kind, dt_metadata = [],
          dt_line_diff = None, dt_image = None \<rparr>))"

section \<open>Lemmas\<close>

text \<open>Text that is ASCII is kept as it is.\<close>

lemma utf8_lossy_ascii: "list_all (\<lambda>b. b < 0x80) bs \<Longrightarrow> utf8_lossy bs = bs"
  by (induction bs) (simp_all add: utf8_width_def)

text \<open>
  Routing never depends on the order of registration: two routers with the same
  executors in any order give the same effect and leave the same world when at most one executor
  handles the action, and otherwise both report the failed effect of an ambiguous configuration
  without running anything.
\<close>

lemma router_order_independent:
  assumes "filter (\<lambda>e. ex_can_handle e a) es = ms" "filter (\<lambda>e. ex_can_handle e a) es' = ms'"
    and "set ms = set ms'" "distinct ms" "distinct ms'"
  shows "router_execute es ctx a x = router_execute es' ctx a x"
proof -
  have len: "length ms = length ms'"
    using assms(3-5) by (metis distinct_card)
  show ?thesis
  proof (cases "length ms = 1")
    case True
    then obtain e e' where "ms = [e]" "ms' = [e']"
      using len by (auto simp: length_Suc_conv)
    with assms show ?thesis by (simp add: router_execute_def)
  next
    case False
    then have "ms = [] \<and> ms' = [] \<or> 2 \<le> length ms \<and> 2 \<le> length ms'"
      using len by (cases ms; cases ms') (auto simp: Suc_le_eq)
    with assms(1,2) len show ?thesis
      by (auto simp: router_execute_def split: list.splits)
  qed
qed

end
