(* ===== verification/Messages.thy ===== *)
theory Messages
  imports Exec_Traits
begin

text \<open>
  The conversation model of \<open>aura-model-reasoner\<close> (\<open>types/\<close>): roles, content blocks, messages,
  stop reasons, usage, the provider trace and the response of a model.
\<close>

section \<open>Content\<close>

(* src/crates/aura-model-reasoner/src/types/content.rs:9-18 Role *)
datatype role = Role_User | Role_Assistant

(* src/crates/aura-core-types/src/types/reasoner_types.rs:75-82 ToolResultContent *)
datatype tool_result_content = Content_Text string | Content_Json json

(* src/crates/aura-model-reasoner/src/types/content.rs:54-64 ImageSource *)
record image_source =
  img_source_type :: string
  img_media_type :: string
  img_data :: string

(* src/crates/aura-model-reasoner/src/types/content.rs:20-52 ContentBlock *)
datatype content_block =
    Block_Text string
  | Block_Thinking string "string option"
  | Block_Image image_source
  | Block_ToolUse string string json
  | Block_ToolResult string tool_result_content bool

(* src/crates/aura-model-reasoner/src/types/content.rs:99-106 ContentBlock::as_text *)
fun block_as_text :: "content_block \<Rightarrow> string option" where
  "block_as_text (Block_Text t) = Some t"
| "block_as_text _ = None"

(* src/crates/aura-model-reasoner/src/types/content.rs:108-112 ContentBlock::is_tool_use *)
fun block_is_tool_use :: "content_block \<Rightarrow> bool" where
  "block_is_tool_use (Block_ToolUse _ _ _) = True"
| "block_is_tool_use _ = False"

section \<open>Messages\<close>

(* src/crates/aura-model-reasoner/src/types/message.rs:4-11 Message *)
record message =
  msg_role :: role
  msg_content :: "content_block list"

(* src/crates/aura-model-reasoner/src/types/message.rs:20-27 Message::user *)
definition message_user :: "string \<Rightarrow> message" where
  "message_user t = \<lparr> msg_role = Role_User, msg_content = [Block_Text t] \<rparr>"

(* src/crates/aura-model-reasoner/src/types/message.rs:29-36 Message::assistant *)
definition message_assistant :: "string \<Rightarrow> message" where
  "message_assistant t = \<lparr> msg_role = Role_Assistant, msg_content = [Block_Text t] \<rparr>"

(* src/crates/aura-model-reasoner/src/types/message.rs:38-52 Message::tool_results *)
definition message_tool_results :: "(string \<times> tool_result_content \<times> bool) list \<Rightarrow> message" where
  "message_tool_results results =
    \<lparr> msg_role = Role_User, msg_content = map (\<lambda>(i, c, e). Block_ToolResult i c e) results \<rparr>"

(* src/crates/aura-model-reasoner/src/types/message.rs:54-62 Message::text_content *)
definition text_content :: "message \<Rightarrow> string" where
  "text_content m = concat (List.map_filter block_as_text (msg_content m))"

(* src/crates/aura-model-reasoner/src/types/message.rs:64-68 Message::tool_uses *)
definition message_tool_uses :: "message \<Rightarrow> content_block list" where
  "message_tool_uses m = filter block_is_tool_use (msg_content m)"

(* src/crates/aura-model-reasoner/src/types/message.rs:70-74 Message::has_tool_use *)
definition has_tool_use :: "message \<Rightarrow> bool" where
  "has_tool_use m = list_ex block_is_tool_use (msg_content m)"

section \<open>Responses\<close>

(* src/crates/aura-model-reasoner/src/types/response.rs:8-22 StopReason *)
datatype stop_reason = Stop_EndTurn | Stop_ToolUse | Stop_MaxTokens | Stop_StopSequence

(* src/crates/aura-model-reasoner/src/types/response.rs:28-41 Usage *)
record usage =
  us_input_tokens :: u64
  us_output_tokens :: u64
  us_cache_creation_input_tokens :: "u64 option"
  us_cache_read_input_tokens :: "u64 option"

(* src/crates/aura-model-reasoner/src/types/response.rs:43-53 Usage::new *)
definition usage_new :: "u64 \<Rightarrow> u64 \<Rightarrow> usage" where
  "usage_new i out = \<lparr> us_input_tokens = i, us_output_tokens = out,
      us_cache_creation_input_tokens = None, us_cache_read_input_tokens = None \<rparr>"

(* src/crates/aura-model-reasoner/src/types/response.rs:55-59 Usage::total *)
definition usage_total :: "usage \<Rightarrow> u64" where
  "usage_total u = us_input_tokens u + us_output_tokens u"

(* src/crates/aura-model-reasoner/src/types/response.rs:74-110 ProviderTrace *)
record provider_trace =
  pt_message_id :: "string option"
  pt_provider_request_id :: "string option"
  pt_latency_ms :: u64
  pt_model :: string

(* src/crates/aura-model-reasoner/src/types/response.rs:152-163 ProviderTrace::request_id *)
definition trace_request_id :: "provider_trace \<Rightarrow> string option" where
  "trace_request_id t = (case pt_provider_request_id t of Some i \<Rightarrow> Some i | None \<Rightarrow> pt_message_id t)"

(* src/crates/aura-model-reasoner/src/types/response.rs:170-183 ModelResponse *)
record model_response =
  mr_stop_reason :: stop_reason
  mr_message :: message
  mr_usage :: usage
  mr_trace :: provider_trace
  mr_model_used :: string

(* src/crates/aura-model-reasoner/src/types/response.rs:186-203 ModelResponse::new *)
definition model_response_new :: "stop_reason \<Rightarrow> message \<Rightarrow> usage \<Rightarrow> provider_trace \<Rightarrow> model_response" where
  "model_response_new r m u t =
    \<lparr> mr_stop_reason = r, mr_message = m, mr_usage = u, mr_trace = t, mr_model_used = pt_model t \<rparr>"

section \<open>Tool identifiers of a message\<close>

fun block_use_id :: "content_block \<Rightarrow> string option" where
  "block_use_id (Block_ToolUse i _ _) = Some i"
| "block_use_id _ = None"

fun block_result_id :: "content_block \<Rightarrow> string option" where
  "block_result_id (Block_ToolResult i _ _) = Some i"
| "block_result_id _ = None"

(* src/crates/aura-context-compaction/src/messages.rs:604-613 message_tool_use_ids *)
definition message_tool_use_ids :: "message \<Rightarrow> string list" where
  "message_tool_use_ids m = List.map_filter block_use_id (msg_content m)"

(* src/crates/aura-context-compaction/src/messages.rs:615-624 message_tool_result_ids *)
definition message_tool_result_ids :: "message \<Rightarrow> string list" where
  "message_tool_result_ids m = List.map_filter block_result_id (msg_content m)"

lemma map_filter_append [simp]: "List.map_filter f (xs @ ys) = List.map_filter f xs @ List.map_filter f ys"
  by (simp add: List.map_filter_def)

lemma map_filter_filter:
  "(\<And>x. f x \<noteq> None \<Longrightarrow> P x) \<Longrightarrow> List.map_filter f (filter P xs) = List.map_filter f xs"
  by (induction xs) (auto simp: List.map_filter_def)

lemma empty_no_ids [simp]:
  "msg_content m = [] \<Longrightarrow> message_tool_use_ids m = []" "msg_content m = [] \<Longrightarrow> message_tool_result_ids m = []"
  by (simp_all add: message_tool_use_ids_def message_tool_result_ids_def List.map_filter_def)

section \<open>Histories a provider accepts\<close>

text \<open>
  The rules of the Messages API that the harness has to meet: the history is not empty and starts
  with a user message, roles alternate, no message is empty, each tool result answers a tool use
  of the message right before it, and the message right after an assistant message with tool uses
  answers all of them.
\<close>

fun results_paired :: "string list \<Rightarrow> message list \<Rightarrow> bool" where
  "results_paired ids [] = True"
| "results_paired ids (m # ms) =
    (set (message_tool_result_ids m) \<subseteq> set ids \<and> results_paired (message_tool_use_ids m) ms)"

fun uses_paired :: "message list \<Rightarrow> bool" where
  "uses_paired [] = True"
| "uses_paired (m # ms) =
    ((msg_role m = Role_Assistant \<and> message_tool_use_ids m \<noteq> [] \<longrightarrow>
        (case ms of [] \<Rightarrow> False
         | n # _ \<Rightarrow> msg_role n = Role_User \<and> set (message_tool_use_ids m) \<subseteq> set (message_tool_result_ids n)))
     \<and> uses_paired ms)"

definition alternating :: "message list \<Rightarrow> bool" where
  "alternating ms = successively (\<lambda>a b. msg_role a \<noteq> msg_role b) ms"

definition valid_history :: "message list \<Rightarrow> bool" where
  "valid_history ms =
    (ms \<noteq> [] \<and> msg_role (hd ms) = Role_User \<and> alternating ms
     \<and> list_all (\<lambda>m. msg_content m \<noteq> []) ms \<and> results_paired [] ms \<and> uses_paired ms)"

lemma results_paired_mono: "results_paired ids ms \<Longrightarrow> set ids \<subseteq> set ids' \<Longrightarrow> results_paired ids' ms"
  by (cases ms) auto

lemma alternating_simps [simp]:
  "alternating []" "alternating [m]"
  "alternating (m # n # ms) \<longleftrightarrow> msg_role m \<noteq> msg_role n \<and> alternating (n # ms)"
  by (simp_all add: alternating_def)

lemma alternating_tl: "alternating (m # ms) \<Longrightarrow> alternating ms"
  by (cases ms) simp_all

lemma other_role: "msg_role m \<noteq> msg_role n \<Longrightarrow> msg_role m = Role_Assistant \<longleftrightarrow> msg_role n = Role_User"
  by (cases "msg_role m"; cases "msg_role n") auto

end
