(* ===== verification/Text_Utf8.thy ===== *)
theory Text_Utf8
  imports Exec_Traits
begin

text \<open>
  Rust strings as the byte sequences they are: the characters of a string, its character
  boundaries, \<open>trim\<close>, the decimal printer's length, the \<open>:016x\<close> printer, and the saturating
  \<open>usize\<close> operations on lengths.
\<close>

section \<open>Characters\<close>

definition newlines2 :: string where
  "newlines2 = [CHR 0x0A, CHR 0x0A]"

definition is_continuation :: "char \<Rightarrow> bool" where
  "is_continuation c = (128 \<le> (of_char c :: nat) \<and> (of_char c :: nat) < 192)"

function chars :: "string \<Rightarrow> string list" where
  "chars [] = []"
| "chars (c # cs) = (c # takeWhile is_continuation cs) # chars (dropWhile is_continuation cs)"
  by pat_completeness auto
termination
  by (relation "measure length") (auto intro: le_less_trans [OF length_dropWhile_le])

definition is_char_boundary :: "string \<Rightarrow> nat \<Rightarrow> bool" where
  "is_char_boundary s i = (i = 0 \<or> i = length s \<or> (i < length s \<and> \<not> is_continuation (s ! i)))"

definition ascii :: "string \<Rightarrow> bool" where
  "ascii s = list_all (\<lambda>c. (of_char c :: nat) < 128) s"

definition one_char :: "string \<Rightarrow> bool" where
  "one_char c = (c \<noteq> [] \<and> \<not> is_continuation (hd c) \<and> list_all is_continuation (tl c))"

definition trim :: "string \<Rightarrow> string" where
  "trim s = concat (rev (dropWhile is_blank (rev (dropWhile is_blank (chars s)))))"

lemma concat_chars [simp]: "concat (chars s) = s"
  by (induction s rule: chars.induct) simp_all

lemma chars_concat: "list_all one_char cs \<Longrightarrow> chars (concat cs) = cs"
proof (induction cs)
  case (Cons c cs)
  obtain b bs where c: "c = b # bs" using Cons.prems by (cases c) (simp_all add: one_char_def)
  have bs: "list_all is_continuation bs" using Cons.prems by (simp add: one_char_def c)
  have stop: "concat cs = [] \<or> \<not> is_continuation (hd (concat cs))"
    using Cons.prems by (cases cs) (auto simp: one_char_def)
  have "takeWhile P xs = [] \<and> dropWhile P xs = xs" if "xs = [] \<or> \<not> P (hd xs)" for P and xs :: string
    using that by (cases xs) simp_all
  with stop have "takeWhile is_continuation (concat cs) = []" "dropWhile is_continuation (concat cs) = concat cs"
    by blast+
  with Cons bs show ?case
    by (simp add: c takeWhile_append dropWhile_append list_all_iff)
qed simp

lemma chars_ascii: "ascii s \<Longrightarrow> chars s = map (\<lambda>c. [c]) s"
proof -
  assume "ascii s"
  then have "list_all one_char (map (\<lambda>c. [c]) s)"
    by (auto simp: ascii_def one_char_def is_continuation_def list_all_iff)
  from chars_concat [OF this] show ?thesis by (simp add: concat_map_singleton)
qed

lemma chars_nonempty: "c \<in> set (chars s) \<Longrightarrow> c \<noteq> []"
  by (induction s rule: chars.induct) auto

lemma length_chars: "length (chars s) \<le> length s"
proof (induction s rule: chars.induct)
  case (2 c cs)
  then show ?case using length_dropWhile_le [of is_continuation cs] by simp
qed simp

lemma take_boundary:
  assumes "is_char_boundary s i" "i \<le> length s"
  shows "\<exists>k. take i s = concat (take k (chars s)) \<and> drop i s = concat (drop k (chars s))"
  using assms
proof (induction s arbitrary: i rule: chars.induct)
  case (2 c cs)
  let ?t = "takeWhile is_continuation cs" and ?d = "dropWhile is_continuation cs"
  have d: "?d = drop (length ?t) cs" by (rule dropWhile_eq_drop)
  show ?case
  proof (cases i)
    case 0
    then show ?thesis by (intro exI [of _ 0]) simp
  next
    case (Suc j)
    have j: "length ?t \<le> j"
    proof (rule ccontr)
      assume "\<not> length ?t \<le> j"
      then have "j < length ?t" by simp
      then have "cs ! j \<in> set ?t" by (metis nth_mem takeWhile_nth)
      then have "is_continuation (cs ! j)" by (auto dest: set_takeWhileD)
      moreover have "j < length cs" using \<open>j < length ?t\<close> length_takeWhile_le [of is_continuation cs] by linarith
      ultimately show False using 2(2) Suc by (simp add: is_char_boundary_def)
    qed
    define k where "k = j - length ?t"
    have len: "length ?d = length cs - length ?t" "length ?t \<le> length cs"
      by (simp_all add: d length_takeWhile_le)
    have nth: "k < length ?d \<Longrightarrow> ?d ! k = cs ! j"
      using j len by (simp add: d k_def)
    have "is_char_boundary ?d k" "k \<le> length ?d"
      using 2(2,3) Suc j len nth by (auto simp: is_char_boundary_def k_def)
    from 2(1) [OF this] obtain l where l: "take k ?d = concat (take l (chars ?d))" "drop k ?d = concat (drop l (chars ?d))"
      by blast
    have "take j cs = ?t @ take k ?d" "drop j cs = drop k ?d"
      using j take_append [of j ?t ?d] drop_append [of j ?t ?d] by (simp_all add: k_def)
    with l Suc show ?thesis by (intro exI [of _ "Suc l"]) simp
  qed
qed simp

section \<open>Numbers\<close>

lemma length_nat_str: "n < 10 ^ k \<Longrightarrow> 0 < k \<Longrightarrow> length (nat_str n) \<le> k"
proof (induction k arbitrary: n)
  case (Suc k)
  show ?case
  proof (cases "n < 10")
    case True
    then show ?thesis by (subst nat_str.simps) simp
  next
    case False
    then have "n div 10 < 10 ^ k" "0 < k" using Suc.prems(1) by (auto intro: gr0I)
    from Suc.IH [OF this] False show ?thesis by (subst nat_str.simps) simp
  qed
qed simp

lemma nat_str_nonempty: "nat_str n \<noteq> []"
  by (subst nat_str.simps) simp

definition hex_digit :: "nat \<Rightarrow> char" where
  "hex_digit d = char_of (if d < 10 then 48 + d else 87 + d)"

definition hex16 :: "u64 \<Rightarrow> string" where
  "hex16 w = map (\<lambda>i. hex_digit (unat w div 16 ^ i mod 16)) (rev [0..<16])"

lemma hex_digit_inject: "a < 16 \<Longrightarrow> b < 16 \<Longrightarrow> hex_digit a = hex_digit b \<Longrightarrow> a = b"
  by (auto simp: hex_digit_def split: if_splits dest!: arg_cong [of _ _ "of_char :: char \<Rightarrow> nat"])

lemma hex_digits_eq:
  "m < 16 ^ k \<Longrightarrow> n < 16 ^ k \<Longrightarrow> (\<And>i. i < k \<Longrightarrow> m div 16 ^ i mod 16 = n div 16 ^ i mod 16) \<Longrightarrow> m = (n :: nat)"
proof (induction k arbitrary: m n)
  case (Suc k)
  have "m div 16 = n div 16"
  proof (rule Suc.IH)
    show "m div 16 < 16 ^ k" "n div 16 < 16 ^ k" using Suc.prems(1,2) by auto
    show "m div 16 div 16 ^ i mod 16 = n div 16 div 16 ^ i mod 16" if "i < k" for i
      using Suc.prems(3) [of "Suc i"] that by (simp add: div_mult2_eq)
  qed
  moreover have "m mod 16 = n mod 16" using Suc.prems(3) [of 0] by simp
  ultimately show ?case by (metis div_mult_mod_eq)
qed simp

lemma hex16_inject: "hex16 v = hex16 w \<longleftrightarrow> v = w"
proof
  assume "hex16 v = hex16 w"
  then have "\<forall>i \<in> set (rev [0..<16]). hex_digit (unat v div 16 ^ i mod 16) = hex_digit (unat w div 16 ^ i mod 16)"
    unfolding hex16_def by (simp only: map_eq_conv)
  then have "unat v div 16 ^ i mod 16 = unat w div 16 ^ i mod 16" if "i < 16" for i
    using that by (intro hex_digit_inject) auto
  moreover have "unat u < 16 ^ 16" for u :: u64
    using unat_bound [of u] by simp
  ultimately have "unat v = unat w" using hex_digits_eq by blast
  then show "v = w" by (simp add: word_unat_eq_iff)
qed simp

definition usize_max :: nat where
  "usize_max = 2 ^ 64 - 1"

definition sat_mul :: "nat \<Rightarrow> nat \<Rightarrow> nat" where
  "sat_mul a b = min (a * b) usize_max"

definition clamp :: "nat \<Rightarrow> nat \<Rightarrow> nat \<Rightarrow> nat" where
  "clamp lo hi x = (if x < lo then lo else if hi < x then hi else x)"

end
