(* ===== verification/F64.thy ===== *)
theory F64
  imports Complex_Main Aura_Prelude "HOL-Library.Log_Nat"
begin

text \<open>
  The floating-point arithmetic behind the pressure thresholds: a non-negative \<open>f64\<close> in the normal
  range is the rational it stands for, and conversion from an integer, a literal and a quotient
  round to the nearest value with 53 significant bits, ties to even, as IEEE 754 does.  Rounding
  is monotone and exact on powers of two, which is all that the threshold comparisons need.
\<close>

type_synonym f64 = rat

definition round_half_even :: "rat \<Rightarrow> int" where
  "round_half_even x =
    (let f = \<lfloor>x\<rfloor>; r = x - of_int f in
     if r < 1 / 2 \<or> (r = 1 / 2 \<and> even f) then f else f + 1)"

definition binade :: "rat \<Rightarrow> int" where
  "binade x =
    (let (n, d) = quotient_of x; e = bitlen n - bitlen d in
     if 2 powi e \<le> x then e else e - 1)"

definition round_f64 :: "rat \<Rightarrow> f64" where
  "round_f64 x =
    (if x \<le> 0 then 0
     else let e = binade x - 52 in of_int (round_half_even (x / 2 powi e)) * 2 powi e)"

definition f64_of_nat :: "nat \<Rightarrow> f64" where
  "f64_of_nat n = round_f64 (of_nat n)"

definition f64_div :: "f64 \<Rightarrow> f64 \<Rightarrow> f64" where
  "f64_div a b = round_f64 (a / b)"

section \<open>Rounding to integers\<close>

lemma round_half_even_mono:
  assumes "x \<le> y"
  shows "round_half_even x \<le> round_half_even y"
proof -
  have f: "\<lfloor>x\<rfloor> \<le> \<lfloor>y\<rfloor>" using assms by (rule floor_mono)
  show ?thesis
  proof (cases "\<lfloor>x\<rfloor> = \<lfloor>y\<rfloor>")
    case True
    with assms show ?thesis by (auto simp: round_half_even_def Let_def)
  next
    case False
    with f show ?thesis by (auto simp: round_half_even_def Let_def)
  qed
qed

lemma round_half_even_int [simp]: "round_half_even (of_int k) = k"
  by (simp add: round_half_even_def)

section \<open>The binade of a positive number\<close>

lemma bitlen_powi:
  assumes "0 < k"
  shows "2 powi (bitlen k - 1) \<le> (of_int k :: rat)" "(of_int k :: rat) < 2 powi bitlen k"
proof -
  have b: "2 ^ nat (bitlen k - 1) \<le> k" "k < 2 ^ nat (bitlen k)" and pos: "1 \<le> bitlen k"
    using bitlen_bounds [of k] bitlen_eq_zero_iff [of k] bitlen_nonneg [of k] assms by auto
  have "(of_int (2 ^ nat (bitlen k - 1)) :: rat) \<le> of_int k" "(of_int k :: rat) < of_int (2 ^ nat (bitlen k))"
    using b by (simp_all only: of_int_le_iff of_int_less_iff)
  with pos show "2 powi (bitlen k - 1) \<le> (of_int k :: rat)" "(of_int k :: rat) < 2 powi bitlen k"
    by (simp_all add: power_int_def)
qed

lemma binade_bounds:
  assumes "0 < x"
  shows "2 powi binade x \<le> x" "x < 2 powi (binade x + 1)"
proof -
  obtain n d where q: "quotient_of x = (n, d)" by (cases "quotient_of x")
  have d: "0 < d" using quotient_of_denom_pos [OF q] .
  have x: "x = of_int n / of_int d" using quotient_of_div [OF q] .
  have n: "0 < n" using assms d by (simp add: x zero_less_divide_iff)
  let ?e = "bitlen n - bitlen d"
  have "2 powi (?e - 1) = 2 powi (bitlen n - 1) / (2 powi bitlen d :: rat)"
    by (simp flip: power_int_diff add: algebra_simps)
  also have "\<dots> \<le> x"
    unfolding x using bitlen_powi [OF n] bitlen_powi [OF d] d n
    by (intro frac_le) (auto intro: less_imp_le)
  finally have lower: "2 powi (?e - 1) \<le> x" .
  have "x < 2 powi bitlen n / (2 powi (bitlen d - 1) :: rat)"
    unfolding x using bitlen_powi [OF n] bitlen_powi [OF d] d n
    by (intro frac_less) auto
  also have "\<dots> = 2 powi (?e + 1)"
    by (simp add: power_int_diff power_int_add field_simps)
  finally have upper: "x < 2 powi (?e + 1)" .
  show "2 powi binade x \<le> x" "x < 2 powi (binade x + 1)"
    using lower upper by (simp_all add: binade_def q Let_def)
qed

lemma powi_mono: "a \<le> b \<Longrightarrow> (2::rat) powi a \<le> 2 powi b"
  by (rule power_int_increasing) auto

lemma binade_mono:
  assumes "0 < x" "x \<le> y"
  shows "binade x \<le> binade y"
proof (rule ccontr)
  assume "\<not> binade x \<le> binade y"
  then have "(2::rat) powi (binade y + 1) \<le> 2 powi binade x" by (intro powi_mono) simp
  with assms binade_bounds [of x] binade_bounds [of y] show False by auto
qed

section \<open>Rounding to 53 bits\<close>

lemma scaled_bounds:
  assumes "0 < x"
  shows "2 ^ 52 \<le> round_half_even (x / 2 powi (binade x - 52))"
    and "round_half_even (x / 2 powi (binade x - 52)) \<le> 2 ^ 53"
proof -
  have p: "(0::rat) < 2 powi (binade x - 52)" by (rule zero_less_power_int) simp
  have e: "(2::rat) powi binade x = 2 ^ 52 * 2 powi (binade x - 52)"
    "(2::rat) powi (binade x + 1) = 2 ^ 53 * 2 powi (binade x - 52)"
    by (simp_all add: power_int_diff power_int_add)
  have "of_int (2 ^ 52) \<le> x / 2 powi (binade x - 52)" "x / 2 powi (binade x - 52) \<le> of_int (2 ^ 53)"
    using binade_bounds [OF assms] p unfolding e by (simp_all add: field_simps)
  from this [THEN round_half_even_mono] show
    "2 ^ 52 \<le> round_half_even (x / 2 powi (binade x - 52))"
    "round_half_even (x / 2 powi (binade x - 52)) \<le> 2 ^ 53"
    by (simp_all only: round_half_even_int)
qed

lemma round_f64_bounds:
  assumes "0 < x"
  shows "2 powi binade x \<le> round_f64 x" "round_f64 x \<le> 2 powi (binade x + 1)"
proof -
  let ?m = "round_half_even (x / 2 powi (binade x - 52))"
  have e: "(2::rat) powi binade x = of_int (2 ^ 52) * 2 powi (binade x - 52)"
    "(2::rat) powi (binade x + 1) = of_int (2 ^ 53) * 2 powi (binade x - 52)"
    by (simp_all add: power_int_diff power_int_add)
  have r: "round_f64 x = of_int ?m * 2 powi (binade x - 52)" using assms by (simp add: round_f64_def Let_def)
  have p: "(0::rat) \<le> 2 powi (binade x - 52)" by simp
  show "2 powi binade x \<le> round_f64 x" "round_f64 x \<le> 2 powi (binade x + 1)"
    unfolding e r using scaled_bounds [OF assms] p
    by (intro mult_right_mono; simp only: of_int_le_iff)+
qed

lemma round_f64_nonneg [simp]: "0 \<le> round_f64 x"
proof (cases "0 < x")
  case True
  have "(0::rat) \<le> 2 powi binade x" by simp
  with round_f64_bounds(1) [OF True] show ?thesis by linarith
qed (simp add: round_f64_def)

lemma round_f64_mono:
  assumes "x \<le> y"
  shows "round_f64 x \<le> round_f64 y"
proof (cases "0 < x")
  case True
  then have y: "0 < y" using assms by simp
  show ?thesis
  proof (cases "binade x = binade y")
    case True
    then show ?thesis
      using assms \<open>0 < x\<close> y by (simp add: round_f64_def Let_def round_half_even_mono divide_right_mono mult_right_mono)
  next
    case False
    with binade_mono [OF \<open>0 < x\<close> assms] have "(2::rat) powi (binade x + 1) \<le> 2 powi binade y"
      by (intro powi_mono) simp
    with round_f64_bounds(2) [OF \<open>0 < x\<close>] round_f64_bounds(1) [OF y] show ?thesis by linarith
  qed
next
  case False
  then have "round_f64 x = 0" by (simp add: round_f64_def)
  then show ?thesis by simp
qed

lemma round_f64_0 [simp]: "round_f64 0 = 0"
  by (simp add: round_f64_def)

lemma binade_1: "binade 1 = 0"
  by (simp add: binade_def)

lemma round_f64_1 [simp]: "round_f64 1 = 1"
proof -
  have "(1::rat) / 2 powi (- 52) = of_int (2 ^ 52)" by (simp add: power_int_minus)
  then have "round_half_even (1 / 2 powi (- 52)) = 2 ^ 52" by (simp only: round_half_even_int)
  then show ?thesis by (simp add: round_f64_def binade_1 Let_def power_int_minus)
qed

lemma f64_of_nat_mono: "m \<le> n \<Longrightarrow> f64_of_nat m \<le> f64_of_nat n"
  by (simp add: f64_of_nat_def round_f64_mono)

lemma f64_of_nat_ge_1: "0 < n \<Longrightarrow> 1 \<le> f64_of_nat n"
  using f64_of_nat_mono [of 1 n] by (simp add: f64_of_nat_def)

lemma f64_div_mono: "a \<le> b \<Longrightarrow> 0 < c \<Longrightarrow> f64_div a c \<le> f64_div b c"
  by (simp add: f64_div_def round_f64_mono divide_right_mono)

lemma f64_ratio_le_1:
  assumes "m \<le> n" "0 < n"
  shows "f64_div (f64_of_nat m) (f64_of_nat n) \<le> 1"
proof -
  have "f64_of_nat m / f64_of_nat n \<le> 1"
    using f64_of_nat_mono [OF assms(1)] f64_of_nat_ge_1 [OF assms(2)] by simp
  from round_f64_mono [OF this] show ?thesis by (simp add: f64_div_def)
qed

end
