(* ===== verification/Compaction.thy ===== *)
theory Compaction
  imports Messages Text_Utf8 F64
begin

text \<open>
  Context compaction (\<open>aura-context-compaction/src/messages.rs\<close>): the pressure of a request and the
  tier it selects, the truncation of older messages, the folding of repeated read results, and
  the replacement of middle history by a summary.  Lengths are \<open>usize\<close> values and are natural
  numbers here, with the saturating operations written out; the JSON printer and parser and the
  standard library's unspecified hasher are the fields of \<open>json_text\<close>.
\<close>

record json_text =
  jt_to_string :: "json \<Rightarrow> (serde_error, string) result"
  jt_from_str :: "string \<Rightarrow> (serde_error, json) result"
  jt_display :: "json \<Rightarrow> string"
  jt_debug :: "json \<Rightarrow> string"
  jt_default_hash :: "bytes \<Rightarrow> u64"

section \<open>Tiers and policy\<close>

(* src/crates/aura-context-compaction/src/messages.rs:31-40 CompactionConfig *)
record compaction_config =
  cfg_tool_result_max_chars :: nat
  cfg_text_max_chars :: nat
  cfg_preserve_recent :: nat

(* src/crates/aura-context-compaction/src/messages.rs:43-51 CompactionConfig::micro *)
definition config_micro :: compaction_config where
  "config_micro = \<lparr> cfg_tool_result_max_chars = 200, cfg_text_max_chars = 400, cfg_preserve_recent = 2 \<rparr>"

(* src/crates/aura-context-compaction/src/messages.rs:53-61 CompactionConfig::aggressive *)
definition config_aggressive :: compaction_config where
  "config_aggressive = \<lparr> cfg_tool_result_max_chars = 500, cfg_text_max_chars = 800, cfg_preserve_recent = 4 \<rparr>"

(* src/crates/aura-context-compaction/src/messages.rs:63-71 CompactionConfig::moderate *)
definition config_moderate :: compaction_config where
  "config_moderate = \<lparr> cfg_tool_result_max_chars = 1000, cfg_text_max_chars = 1500, cfg_preserve_recent = 6 \<rparr>"

(* src/crates/aura-context-compaction/src/messages.rs:73-81 CompactionConfig::light *)
definition config_light :: compaction_config where
  "config_light = \<lparr> cfg_tool_result_max_chars = 3000, cfg_text_max_chars = 4000, cfg_preserve_recent = 8 \<rparr>"

(* src/crates/aura-context-compaction/src/messages.rs:83-91 CompactionConfig::history *)
definition config_history :: compaction_config where
  "config_history = \<lparr> cfg_tool_result_max_chars = 1500, cfg_text_max_chars = 2000, cfg_preserve_recent = 6 \<rparr>"

(* src/crates/aura-model-reasoner/src/types/content_profile.rs:11-20 ModelRequestKind *)
datatype model_request_kind =
    Kind_Chat | Kind_ProjectToolSpecGen | Kind_ProjectToolTaskExtract
  | Kind_DevLoopBootstrap | Kind_DevLoopContinuation | Kind_Auxiliary

(* src/crates/aura-context-compaction/src/messages.rs:94-113 CompactionPolicy *)
record compaction_policy =
  pol_max_context_tokens :: "u64 option"
  pol_estimated_context_tokens :: u64
  pol_current_context_tokens :: "u64 option"
  pol_reserved_output_tokens :: u64
  pol_raw_message_bytes :: "nat option"
  pol_request_kind :: "model_request_kind option"
  pol_request_body_cap_bytes :: "nat option"
  pol_summary_at :: f64

(* src/crates/aura-context-compaction/src/messages.rs:17-17 DEFAULT_SUMMARY_AT *)
definition DEFAULT_SUMMARY_AT :: f64 where
  "DEFAULT_SUMMARY_AT = round_f64 (85 / 100)"

(* src/crates/aura-context-compaction/src/messages.rs:131-142 CompactionPolicy::default_values *)
definition policy_default_values :: compaction_policy where
  "policy_default_values =
    \<lparr> pol_max_context_tokens = None, pol_estimated_context_tokens = 0, pol_current_context_tokens = None,
      pol_reserved_output_tokens = 0, pol_raw_message_bytes = None, pol_request_kind = None,
      pol_request_body_cap_bytes = None, pol_summary_at = DEFAULT_SUMMARY_AT \<rparr>"

text \<open>
  \<open>env_unit_f64\<close>: \<open>parse_f64\<close> stands for \<open>str::parse\<close> on the trimmed variable, and gives no
  value when the text does not parse or parses to a negative or non-finite number.
\<close>

(* src/crates/aura-context-compaction/src/messages.rs:153-159 env_unit_f64 *)
definition env_unit_f64 :: "(string \<Rightarrow> f64 option) \<Rightarrow> (string \<Rightarrow> string option) \<Rightarrow> string \<Rightarrow> f64 \<Rightarrow> f64" where
  "env_unit_f64 parse_f64 env name fallback =
    (case Option.bind (env name) (\<lambda>v. parse_f64 (trim v)) of
       Some x \<Rightarrow> if 0 \<le> x \<and> x \<le> 1 then x else fallback
     | None \<Rightarrow> fallback)"

(* src/crates/aura-context-compaction/src/messages.rs:145-151 CompactionPolicy::default *)
definition policy_default :: "(string \<Rightarrow> f64 option) \<Rightarrow> (string \<Rightarrow> string option) \<Rightarrow> compaction_policy" where
  "policy_default parse_f64 env =
    policy_default_values
      \<lparr> pol_summary_at := env_unit_f64 parse_f64 env ''AURA_COMPACTION_SUMMARY_AT'' DEFAULT_SUMMARY_AT \<rparr>"

(* src/crates/aura-context-compaction/src/messages.rs:116-129 CompactionPolicy::new *)
definition policy_new ::
  "(string \<Rightarrow> f64 option) \<Rightarrow> (string \<Rightarrow> string option) \<Rightarrow> u64 option \<Rightarrow> u64 \<Rightarrow> u64 \<Rightarrow> compaction_policy" where
  "policy_new parse_f64 env max_context_tokens estimated reserved =
    policy_default parse_f64 env
      \<lparr> pol_max_context_tokens := max_context_tokens, pol_estimated_context_tokens := estimated,
        pol_reserved_output_tokens := reserved \<rparr>"

(* src/crates/aura-context-compaction/src/messages.rs:321-340 SummaryInput *)
record summary_input =
  si_compact_start :: nat
  si_compact_end :: nat
  si_compactable_messages :: "message list"
  si_recent_tail :: "message list"
  si_original_chars :: nat
  si_local_chars :: nat
  si_target_total_chars :: nat
  si_max_summary_chars :: nat

(* src/crates/aura-context-compaction/src/messages.rs:188-197 CompactionAction *)
datatype compaction_action = Action_None | Action_Applied compaction_config | Action_NeedsSummary summary_input

(* src/crates/aura-context-compaction/src/messages.rs:169-178 CompactionReport *)
record compaction_report =
  rep_before_chars :: nat
  rep_after_chars :: nat
  rep_action :: compaction_action

(* src/crates/aura-context-compaction/src/messages.rs:180-186 CompactionReport::reduced *)
definition report_reduced :: "compaction_report \<Rightarrow> bool" where
  "report_reduced r = (rep_after_chars r < rep_before_chars r)"

(* src/crates/aura-context-compaction/src/messages.rs:352-369 SummaryOutput *)
datatype summary_output =
    Summary_Input json
  | Summary_Text string
  | Summary_Messages string nat nat

section \<open>Sizes and pressure\<close>

definition truncation_marker :: "nat \<Rightarrow> string" where
  "truncation_marker omitted =
    newlines2 @ ''[...content truncated ('' @ nat_str omitted @ '' chars omitted)...]'' @ newlines2"

(* src/crates/aura-context-compaction/src/messages.rs:385-398 truncate_content *)
definition head_tail_split :: "nat \<Rightarrow> nat option \<Rightarrow> nat option \<Rightarrow> nat \<times> nat" where
  "head_tail_split max_chars head_chars tail_chars =
    (let head = (case head_chars of None \<Rightarrow> max_chars div 3 | Some h \<Rightarrow> h);
         tail = (case tail_chars of None \<Rightarrow> max_chars div 3 | Some t \<Rightarrow> t) in
     if max_chars < head + tail
     then (if head + tail = 0 then (0, 0)
           else let h = sat_mul max_chars head div (head + tail) in (h, max_chars - h))
     else (head, tail))"

(* src/crates/aura-context-compaction/src/messages.rs:371-415 truncate_content *)
definition truncate_content :: "string \<Rightarrow> nat \<Rightarrow> nat option \<Rightarrow> nat option \<Rightarrow> string" where
  "truncate_content content max_chars head_chars tail_chars =
    (if length content \<le> max_chars then content
     else
       (let (h, t) = head_tail_split max_chars head_chars tail_chars;
            head = min h (length content);
            tail = min t (length content - head);
            head_part = concat (take head (chars content));
            tail_part = concat (rev (take tail (rev (chars content))))
        in head_part @ truncation_marker (length content - (head + tail)) @ tail_part))"

definition json_chars :: "json_text \<Rightarrow> json \<Rightarrow> nat" where
  "json_chars L v = (case jt_to_string L v of Inl _ \<Rightarrow> 0 | Inr s \<Rightarrow> length s)"

(* src/crates/aura-context-compaction/src/messages.rs:425-438 estimate_message_chars *)
fun block_chars :: "json_text \<Rightarrow> content_block \<Rightarrow> nat" where
  "block_chars L (Block_Text t) = length t"
| "block_chars L (Block_Thinking t _) = length t"
| "block_chars L (Block_ToolUse _ _ input) = json_chars L input"
| "block_chars L (Block_ToolResult _ (Content_Text t) _) = length t"
| "block_chars L (Block_ToolResult _ (Content_Json v) _) = json_chars L v"
| "block_chars L (Block_Image source) = length (img_data source)"

(* src/crates/aura-context-compaction/src/messages.rs:417-442 estimate_message_chars *)
definition estimate_message_chars :: "json_text \<Rightarrow> message list \<Rightarrow> nat" where
  "estimate_message_chars L ms = sum_list (map (\<lambda>m. sum_list (map (block_chars L) (msg_content m))) ms)"

(* src/crates/aura-config/src/compaction.rs:9-22 COMPACTION_TIER_HISTORY, COMPACTION_TIER_AGGRESSIVE, COMPACTION_TIER_60, COMPACTION_TIER_30, COMPACTION_TIER_MICRO *)
definition tier_thresholds :: "f64 list" where
  "tier_thresholds = map (\<lambda>n. round_f64 (of_nat n / 100)) [85, 70, 60, 30, 15]"

(* src/crates/aura-context-compaction/src/messages.rs:444-466 select_tier, tier_for *)
definition tier_for :: "f64 \<Rightarrow> compaction_config option" where
  "tier_for pressure =
    (if tier_thresholds ! 0 \<le> pressure then Some config_micro
     else if tier_thresholds ! 1 \<le> pressure then Some config_aggressive
     else if tier_thresholds ! 2 \<le> pressure then Some config_moderate
     else if tier_thresholds ! 3 \<le> pressure then Some config_light
     else if tier_thresholds ! 4 \<le> pressure then Some config_history
     else None)"

(* src/crates/aura-context-compaction/src/messages.rs:514-526 request_body_cap *)
definition request_body_cap :: "compaction_policy \<Rightarrow> nat option" where
  "request_body_cap policy =
    (case pol_request_body_cap_bytes policy of
       Some cap \<Rightarrow> Some cap
     | None \<Rightarrow>
        (case pol_request_kind policy of
           Some Kind_DevLoopBootstrap \<Rightarrow> Some (24 * 1024)
         | Some Kind_ProjectToolSpecGen \<Rightarrow> Some (48 * 1024)
         | Some Kind_ProjectToolTaskExtract \<Rightarrow> Some (48 * 1024)
         | _ \<Rightarrow> None))"

(* src/crates/aura-context-compaction/src/messages.rs:528-536 cap_pressure *)
definition cap_pressure :: "nat \<Rightarrow> nat \<Rightarrow> f64" where
  "cap_pressure bs cap = (if cap = 0 then 0 else f64_div (f64_of_nat bs) (f64_of_nat cap))"

(* src/crates/aura-context-compaction/src/messages.rs:487-503 effective_pressure *)
definition context_pressure :: "compaction_policy \<Rightarrow> f64" where
  "context_pressure policy =
    (case pol_max_context_tokens policy of
       None \<Rightarrow> 0
     | Some max_ctx \<Rightarrow>
        (if max_ctx = 0 then 0
         else
           (let context_tokens =
                  max (case pol_current_context_tokens policy of
                         Some c \<Rightarrow> c | None \<Rightarrow> pol_estimated_context_tokens policy)
                      (pol_estimated_context_tokens policy);
                pressure_tokens =
                  min (min (unat context_tokens + unat (pol_reserved_output_tokens policy)) usize_max) (unat max_ctx)
            in f64_div (f64_of_nat pressure_tokens) (f64_of_nat (unat max_ctx)))))"

(* src/crates/aura-context-compaction/src/messages.rs:468-512 effective_pressure *)
definition effective_pressure :: "json_text \<Rightarrow> message list \<Rightarrow> compaction_policy \<Rightarrow> f64" where
  "effective_pressure L ms policy =
    (let request_cap_pressure =
           (case request_body_cap policy of
              None \<Rightarrow> 0
            | Some cap \<Rightarrow>
                cap_pressure (case pol_raw_message_bytes policy of
                                Some b \<Rightarrow> b | None \<Rightarrow> estimate_message_chars L ms) cap)
     in min (max (context_pressure policy) request_cap_pressure) 1)"

(* src/crates/aura-context-compaction/src/messages.rs:538-556 pick_stricter_tier *)
fun pick_stricter_tier :: "compaction_config option \<Rightarrow> compaction_config option \<Rightarrow> compaction_config option" where
  "pick_stricter_tier (Some x) (Some y) =
    (if cfg_tool_result_max_chars y < cfg_tool_result_max_chars x then Some y else Some x)"
| "pick_stricter_tier (Some x) None = Some x"
| "pick_stricter_tier None b = b"

section \<open>Truncating older messages\<close>

(* src/crates/aura-context-compaction/src/messages.rs:558-584 select_compaction_candidates *)
definition select_compaction_candidates ::
  "message list \<Rightarrow> compaction_config \<Rightarrow> (nat \<times> nat option \<times> nat option) option" where
  "select_compaction_candidates ms config =
    (if length ms \<le> cfg_preserve_recent config + 1 then None
     else
       (let compact_end = length ms - cfg_preserve_recent config;
            is_micro = (cfg_preserve_recent config = cfg_preserve_recent config_micro
              \<and> cfg_tool_result_max_chars config = cfg_tool_result_max_chars config_micro)
        in if is_micro then Some (compact_end, Some 6000, Some 3000) else Some (compact_end, None, None)))"

definition rendered :: "json_text \<Rightarrow> tool_result_content \<Rightarrow> string" where
  "rendered L c =
    (case c of Content_Text t \<Rightarrow> t
     | Content_Json v \<Rightarrow> (case jt_to_string L v of Inl _ \<Rightarrow> [] | Inr s \<Rightarrow> s))"

(* src/crates/aura-context-compaction/src/messages.rs:700-728 compact_content_block *)
fun compact_content_block ::
  "json_text \<Rightarrow> compaction_config \<Rightarrow> nat option \<Rightarrow> nat option \<Rightarrow> content_block \<Rightarrow> content_block" where
  "compact_content_block L config head tail (Block_ToolResult i content e) =
    (let text = rendered L content in
     if cfg_tool_result_max_chars config < length text
     then Block_ToolResult i (Content_Text (truncate_content text (cfg_tool_result_max_chars config) head tail)) e
     else Block_ToolResult i content e)"
| "compact_content_block L config head tail (Block_Text text) =
    (if cfg_text_max_chars config < length text
     then Block_Text (truncate_content text (cfg_text_max_chars config) head tail)
     else Block_Text text)"
| "compact_content_block L config head tail b = b"

(* src/crates/aura-context-compaction/src/messages.rs:730-746 stub_image_block *)
fun stub_image_block :: "content_block \<Rightarrow> content_block" where
  "stub_image_block (Block_Image source) =
    Block_Text (''[image removed during context compaction: '' @ img_media_type source @ '', ~''
      @ nat_str (length (img_data source) div 1024) @ '' KB base64]'')"
| "stub_image_block b = b"

definition map_blocks :: "(content_block \<Rightarrow> content_block) \<Rightarrow> message \<Rightarrow> message" where
  "map_blocks f m = m \<lparr> msg_content := map f (msg_content m) \<rparr>"

(* src/crates/aura-context-compaction/src/messages.rs:748-767 compact_older_messages *)
definition compact_older_messages :: "json_text \<Rightarrow> message list \<Rightarrow> compaction_config \<Rightarrow> message list" where
  "compact_older_messages L ms config =
    (case select_compaction_candidates ms config of
       None \<Rightarrow> ms
     | Some (compact_end, head_chars, tail_chars) \<Rightarrow>
        (let stubbed = map (map_blocks stub_image_block) (take compact_end ms) @ drop compact_end ms
         in take 1 stubbed
            @ map (map_blocks (compact_content_block L config head_chars tail_chars))
                (drop 1 (take compact_end stubbed))
            @ drop compact_end stubbed))"

section \<open>Folding repeated reads\<close>

(* src/crates/aura-config/src/tools.rs:15-24 CACHEABLE_TOOLS *)
definition CACHEABLE_TOOLS :: "string list" where
  "CACHEABLE_TOOLS = [''read_file'', ''list_files'', ''stat_file'', ''find_files'', ''search_code'']"

(* src/crates/aura-context-compaction/src/messages.rs:769-780 dedup_content_hash_hex *)
definition dedup_content_hash_hex :: "json_text \<Rightarrow> bytes \<Rightarrow> string" where
  "dedup_content_hash_hex L bs = hex16 (jt_default_hash L bs)"

fun tool_use_entry :: "content_block \<Rightarrow> (string \<times> string \<times> json) option" where
  "tool_use_entry (Block_ToolUse i name input) = Some (i, name, input)"
| "tool_use_entry _ = None"

definition tool_use_entries :: "message list \<Rightarrow> (string \<times> string \<times> json) list" where
  "tool_use_entries ms = List.map_filter tool_use_entry (concat (map msg_content ms))"

(* src/crates/aura-context-compaction/src/messages.rs:782-796 tool_use_name_index *)
definition tool_use_name_index :: "message list \<Rightarrow> string \<rightharpoonup> string" where
  "tool_use_name_index ms = map_of (rev (map (\<lambda>(i, name, _). (i, name)) (tool_use_entries ms)))"

(* src/crates/aura-context-compaction/src/messages.rs:798-814 tool_use_input_path *)
definition tool_use_input_path :: "message list \<Rightarrow> string \<Rightarrow> string option" where
  "tool_use_input_path ms tool_use_id =
    (case map_of (map (\<lambda>(i, _, input). (i, input)) (tool_use_entries ms)) tool_use_id of
       None \<Rightarrow> None
     | Some input \<Rightarrow> Option.bind (json_get input ''path'') json_as_str)"

(* src/crates/aura-context-compaction/src/messages.rs:816-829 is_dedup_marker_text *)
definition is_dedup_marker_text :: "json_text \<Rightarrow> string \<Rightarrow> bool" where
  "is_dedup_marker_text L text =
    (case jt_from_str L text of
       Inr (J_Object m) \<Rightarrow>
        (case Option.bind (map_of m ''_redacted'') json_as_str of
           Some tool \<Rightarrow> tool \<in> set CACHEABLE_TOOLS
         | None \<Rightarrow> False)
     | _ \<Rightarrow> False)"

(* src/crates/aura-context-compaction/src/messages.rs:904-909 dedup_read_results_by_content_hash *)
definition dedup_marker :: "string \<Rightarrow> string \<Rightarrow> string \<Rightarrow> json" where
  "dedup_marker tool_name path hash =
    J_Object [(''_redacted'', J_String tool_name), (''content_hash'', J_String hash),
              (''note'', J_String ''see later identical read''), (''path'', J_String path)]"

text \<open>
  What the pass identifies a result by: the name of the read-only tool that produced it and the hash
  of its text, when it is not a marker already.
\<close>

(* src/crates/aura-context-compaction/src/messages.rs:874-901 dedup_read_results_by_content_hash *)
fun dedup_key :: "json_text \<Rightarrow> message list \<Rightarrow> content_block \<Rightarrow> (string \<times> string) option" where
  "dedup_key L ms (Block_ToolResult i content e) =
    (let text = rendered L content in
     if is_dedup_marker_text L text then None
     else
       (case tool_use_name_index ms i of
          None \<Rightarrow> None
        | Some tool_name \<Rightarrow>
            if tool_name \<in> set CACHEABLE_TOOLS
            then Some (tool_name, dedup_content_hash_hex L (str_bytes text)) else None))"
| "dedup_key L ms _ = None"

fun fold_into_marker :: "json_text \<Rightarrow> message list \<Rightarrow> string \<times> string \<Rightarrow> content_block \<Rightarrow> content_block" where
  "fold_into_marker L ms key (Block_ToolResult i content e) =
    (let path = (case tool_use_input_path ms i of None \<Rightarrow> [] | Some p \<Rightarrow> p) in
     Block_ToolResult i (Content_Text (jt_display L (dedup_marker (fst key) path (snd key)))) e)"
| "fold_into_marker L ms key b = b"

type_synonym dedup_state = "(string \<times> string) set \<times> nat"

(* src/crates/aura-context-compaction/src/messages.rs:872-921 dedup_read_results_by_content_hash *)
definition dedup_block :: "json_text \<Rightarrow> message list \<Rightarrow> content_block \<Rightarrow> dedup_state \<Rightarrow> content_block \<times> dedup_state" where
  "dedup_block L ms b st =
    (case dedup_key L ms b of
       None \<Rightarrow> (b, st)
     | Some key \<Rightarrow>
        (if key \<in> fst st then (fold_into_marker L ms key b, (fst st, snd st + 1))
         else (b, (insert key (fst st), snd st))))"

primrec dedup_blocks ::
  "json_text \<Rightarrow> message list \<Rightarrow> content_block list \<Rightarrow> dedup_state \<Rightarrow> content_block list \<times> dedup_state" where
  "dedup_blocks L ms [] st = ([], st)"
| "dedup_blocks L ms (b # bs) st =
    (let (b', st1) = dedup_block L ms b st; (bs', st2) = dedup_blocks L ms bs st1 in (b' # bs', st2))"

primrec dedup_newest_first ::
  "json_text \<Rightarrow> message list \<Rightarrow> message list \<Rightarrow> dedup_state \<Rightarrow> message list \<times> dedup_state" where
  "dedup_newest_first L ms [] st = ([], st)"
| "dedup_newest_first L ms (n # ns) st =
    (let (bs, st1) = dedup_blocks L ms (msg_content n) st; (ns', st2) = dedup_newest_first L ms ns st1
     in (n \<lparr> msg_content := bs \<rparr> # ns', st2))"

text \<open>
  Tool uses are never changed by the pass, so the index and the paths are those of the messages it
  is called with.
\<close>

(* src/crates/aura-context-compaction/src/messages.rs:831-924 dedup_read_results_by_content_hash *)
definition dedup_read_results_by_content_hash :: "json_text \<Rightarrow> message list \<Rightarrow> message list \<times> nat" where
  "dedup_read_results_by_content_hash L ms =
    (let (ns, st) = dedup_newest_first L ms (rev ms) ({}, 0) in (rev ns, snd st))"

section \<open>Summaries\<close>

(* src/crates/aura-context-compaction/src/messages.rs:586-602 summary_target_total_chars *)
definition summary_target_total_chars :: "compaction_policy \<Rightarrow> nat \<Rightarrow> nat" where
  "summary_target_total_chars policy before_chars =
    (let target = sat_mul before_chars 7 div 10;
         target1 = (case pol_max_context_tokens policy of
             None \<Rightarrow> target
           | Some max_ctx \<Rightarrow>
               (let available_chars = sat_mul (unat max_ctx - unat (pol_reserved_output_tokens policy)) 4
                in min target (sat_mul available_chars 8 div 10)));
         target2 = (case request_body_cap policy of
             None \<Rightarrow> target1 | Some cap \<Rightarrow> min target1 (sat_mul cap 8 div 10))
     in clamp 1024 (96 * 1024) target2)"

(* src/crates/aura-context-compaction/src/messages.rs:626-638 result_is_for_previous_tool_use *)
definition result_is_for_previous_tool_use :: "message list \<Rightarrow> nat \<Rightarrow> bool" where
  "result_is_for_previous_tool_use ms idx =
    (if idx = 0 then False
     else list_ex (\<lambda>r. r \<in> set (message_tool_use_ids (ms ! (idx - 1)))) (message_tool_result_ids (ms ! idx)))"

(* src/crates/aura-context-compaction/src/messages.rs:640-642 boundary_splits_tool_pair *)
definition boundary_splits_tool_pair :: "message list \<Rightarrow> nat \<Rightarrow> bool" where
  "boundary_splits_tool_pair ms end_index =
    (end_index < length ms \<and> result_is_for_previous_tool_use ms end_index)"

function advance_start :: "message list \<Rightarrow> nat \<Rightarrow> nat \<Rightarrow> nat" where
  "advance_start ms start end_index =
    (if start < end_index \<and> result_is_for_previous_tool_use ms start
     then advance_start ms (start + 1) end_index else start)"
  by pat_completeness auto
termination by (relation "measure (\<lambda>(_, start, end_index). end_index - start)") auto

function retreat_end :: "message list \<Rightarrow> nat \<Rightarrow> nat \<Rightarrow> nat" where
  "retreat_end ms start end_index =
    (if start < end_index \<and> boundary_splits_tool_pair ms end_index
     then retreat_end ms start (end_index - 1) else end_index)"
  by pat_completeness auto
termination by (relation "measure (\<lambda>(_, _, end_index). end_index)") auto

declare advance_start.simps [simp del] retreat_end.simps [simp del]

(* src/crates/aura-context-compaction/src/messages.rs:644-662 select_summary_range *)
definition select_summary_range :: "message list \<Rightarrow> (nat \<times> nat) option" where
  "select_summary_range ms =
    (if length ms \<le> cfg_preserve_recent config_micro + 2 then None
     else
       (let end0 = length ms - cfg_preserve_recent config_micro;
            start = advance_start ms 1 end0;
            end1 = retreat_end ms start end0
        in if 4 \<le> end1 - start then Some (start, end1) else None))"

(* src/crates/aura-context-compaction/src/messages.rs:664-698 build_summary_input *)
definition build_summary_input ::
  "json_text \<Rightarrow> message list \<Rightarrow> compaction_policy \<Rightarrow> nat \<Rightarrow> nat \<Rightarrow> summary_input option" where
  "build_summary_input L ms policy before_chars local_chars =
    (let target = summary_target_total_chars policy before_chars in
     if local_chars \<le> target then None
     else
       (case select_summary_range ms of
          None \<Rightarrow> None
        | Some (compact_start, compact_end) \<Rightarrow>
           (let compactable = take (compact_end - compact_start) (drop compact_start ms);
                compactable_chars = estimate_message_chars L compactable
            in if compactable_chars = 0 then None
               else Some
                 \<lparr> si_compact_start = compact_start, si_compact_end = compact_end,
                   si_compactable_messages = compactable, si_recent_tail = drop compact_end ms,
                   si_original_chars = before_chars, si_local_chars = local_chars,
                   si_target_total_chars = target,
                   si_max_summary_chars = clamp 512 12000 (min (compactable_chars div 4) (target div 4)) \<rparr>)))"

(* src/crates/aura-context-compaction/src/messages.rs:926-972 compact_messages *)
definition compact_messages :: "json_text \<Rightarrow> message list \<Rightarrow> compaction_policy \<Rightarrow> message list \<times> compaction_report" where
  "compact_messages L ms policy =
    (let before_chars = estimate_message_chars L ms;
         pressure = effective_pressure L ms policy;
         chosen = tier_for pressure;
         ms' = (case chosen of None \<Rightarrow> ms
                | Some tier \<Rightarrow> compact_older_messages L (fst (dedup_read_results_by_content_hash L ms)) tier);
         after_chars = estimate_message_chars L ms';
         applied = (case chosen of None \<Rightarrow> Action_None | Some tier \<Rightarrow> Action_Applied tier);
         action = (if pol_summary_at policy \<le> pressure
                   then (case build_summary_input L ms' policy before_chars after_chars of
                           None \<Rightarrow> applied | Some i \<Rightarrow> Action_NeedsSummary i)
                   else applied)
     in (ms', \<lparr> rep_before_chars = before_chars, rep_after_chars = after_chars, rep_action = action \<rparr>))"

(* src/crates/aura-context-compaction/src/messages.rs:974-984 recover_overflow *)
definition recover_overflow :: "json_text \<Rightarrow> message list \<Rightarrow> compaction_config \<Rightarrow> message list \<times> compaction_report" where
  "recover_overflow L ms tier =
    (let ms' = compact_older_messages L ms tier
     in (ms', \<lparr> rep_before_chars = estimate_message_chars L ms, rep_after_chars = estimate_message_chars L ms',
               rep_action = Action_Applied tier \<rparr>))"

(* src/crates/aura-context-compaction/src/messages.rs:1007-1018 apply_message_summary *)
definition summary_refused :: "message list \<Rightarrow> string \<Rightarrow> nat \<Rightarrow> nat \<Rightarrow> bool" where
  "summary_refused ms text compact_start compact_end =
    (is_blank text \<or> compact_start = 0 \<or> compact_end \<le> compact_start \<or> length ms < compact_end
     \<or> result_is_for_previous_tool_use ms compact_start \<or> boundary_splits_tool_pair ms compact_end)"

(* src/crates/aura-context-compaction/src/messages.rs:1020-1034 apply_message_summary *)
definition summary_message :: "string \<Rightarrow> nat \<Rightarrow> message" where
  "summary_message text removed_chars =
    (let max_summary_chars = clamp 256 12000 (removed_chars - 1);
         summary_text = (if max_summary_chars < length text
                         then truncate_content text max_summary_chars None None else text)
     in message_assistant (''[summary of compacted prior conversation]'' @ newlines2 @ trim summary_text))"

(* src/crates/aura-context-compaction/src/messages.rs:986-1059 apply_message_summary *)
definition apply_message_summary :: "json_text \<Rightarrow> message list \<Rightarrow> summary_output \<Rightarrow> message list \<times> compaction_report" where
  "apply_message_summary L ms summary =
    (let before_chars = estimate_message_chars L ms;
         unchanged = (ms, \<lparr> rep_before_chars = before_chars, rep_after_chars = before_chars, rep_action = Action_None \<rparr>)
     in case summary of
          Summary_Messages text compact_start compact_end \<Rightarrow>
           (if summary_refused ms text compact_start compact_end then unchanged
            else
              (let removed_chars = estimate_message_chars L (take (compact_end - compact_start) (drop compact_start ms));
                   spliced = take compact_start ms @ [summary_message text removed_chars] @ drop compact_end ms;
                   after_chars = estimate_message_chars L spliced;
                   ms' = (if before_chars \<le> after_chars \<and> compact_start < length spliced
                          then spliced[compact_start := message_assistant
                                 (truncate_content (text_content (spliced ! compact_start))
                                    (clamp 128 4000 (removed_chars div 4)) None None)]
                          else spliced)
               in (ms', \<lparr> rep_before_chars = before_chars, rep_after_chars = estimate_message_chars L ms',
                          rep_action = Action_Applied config_micro \<rparr>)))
        | _ \<Rightarrow> unchanged)"

(* src/crates/aura-context-compaction/src/messages.rs:1061-1068 message_chars_to_tokens *)
definition message_chars_to_tokens :: "nat \<Rightarrow> u64" where
  "message_chars_to_tokens n = of_nat (n div 4)"

end
