(* ===== verification/Sanitize.thy ===== *)
theory Sanitize
  imports Messages
begin

text \<open>
  The repair of message histories in \<open>aura-agent\<close> (\<open>sanitize.rs\<close>): the passes of
  \<open>validate_and_repair\<close> as functions on the history, the proof that what they leave is always a
  history the provider accepts, and that a history that is already accepted is left alone.
\<close>

section \<open>The passes\<close>

fun block_has_content :: "content_block \<Rightarrow> bool" where
  "block_has_content (Block_Text t) = (\<not> is_blank t)"
| "block_has_content _ = True"

(* src/crates/aura-agent/src/sanitize.rs:34-43 remove_empty_messages *)
definition remove_empty_messages :: "message list \<Rightarrow> message list" where
  "remove_empty_messages ms =
    filter (\<lambda>m. msg_content m \<noteq> [] \<and> list_ex block_has_content (msg_content m)) ms"

(* src/crates/aura-agent/src/sanitize.rs:45-61 merge_consecutive_same_role *)
fun merge_consecutive_same_role :: "message list \<Rightarrow> message list" where
  "merge_consecutive_same_role (m # n # ms) =
    (if msg_role m = msg_role n
     then merge_consecutive_same_role (m \<lparr> msg_content := msg_content m @ msg_content n \<rparr> # ms)
     else m # merge_consecutive_same_role (n # ms))"
| "merge_consecutive_same_role ms = ms"

fun orphan_kept :: "string list \<Rightarrow> content_block \<Rightarrow> bool" where
  "orphan_kept previous_tool_use_ids (Block_ToolResult i _ _) = (i \<in> set previous_tool_use_ids)"
| "orphan_kept previous_tool_use_ids _ = True"

(* src/crates/aura-agent/src/sanitize.rs:75-107 fix_orphan_tool_results *)
fun retain_answers :: "string list \<Rightarrow> message list \<Rightarrow> message list" where
  "retain_answers previous_tool_use_ids [] = []"
| "retain_answers previous_tool_use_ids (m # ms) =
    (let m' = m \<lparr> msg_content := filter (orphan_kept previous_tool_use_ids) (msg_content m) \<rparr> in
     m' # retain_answers (message_tool_use_ids m') ms)"

(* src/crates/aura-agent/src/sanitize.rs:63-110 fix_orphan_tool_results *)
definition fix_orphan_tool_results :: "message list \<Rightarrow> message list" where
  "fix_orphan_tool_results ms = filter (\<lambda>m. msg_content m \<noteq> []) (retain_answers [] ms)"

(* src/crates/aura-agent/src/sanitize.rs:165-174 fix_unpaired_tool_uses *)
definition lost_result :: "string \<Rightarrow> content_block" where
  "lost_result i =
    Block_ToolResult i (Content_Text ''[Tool result was lost during context compaction]'') True"

(* src/crates/aura-agent/src/sanitize.rs:139-155 fix_unpaired_tool_uses *)
definition answered_ids :: "message list \<Rightarrow> string list" where
  "answered_ids ms =
    (case ms of [] \<Rightarrow> []
     | n # _ \<Rightarrow> if msg_role n = Role_User then message_tool_result_ids n else [])"

definition missing_ids :: "message \<Rightarrow> message list \<Rightarrow> string list" where
  "missing_ids m ms = filter (\<lambda>i. i \<notin> set (answered_ids ms)) (message_tool_use_ids m)"

(* src/crates/aura-agent/src/sanitize.rs:112-188 fix_unpaired_tool_uses *)
function fix_unpaired_tool_uses :: "message list \<Rightarrow> message list" where
  "fix_unpaired_tool_uses [] = []"
| "fix_unpaired_tool_uses (m # ms) =
    (if msg_role m \<noteq> Role_Assistant \<or> message_tool_use_ids m = [] \<or> missing_ids m ms = []
     then m # fix_unpaired_tool_uses ms
     else
       (let synthetic = map lost_result (missing_ids m ms) in
        if ms \<noteq> [] \<and> msg_role (hd ms) = Role_User
        then m # fix_unpaired_tool_uses
               ((hd ms) \<lparr> msg_content := synthetic @ msg_content (hd ms) \<rparr> # tl ms)
        else m # fix_unpaired_tool_uses (\<lparr> msg_role = Role_User, msg_content = synthetic \<rparr> # ms)))"
  by pat_completeness auto
termination
proof (relation "measure (\<lambda>ms. sum_list (map (\<lambda>m. if msg_role m = Role_Assistant then 2 else 1) ms))", goal_cases)
  case (3 m ms x)
  then show ?case by (cases ms) auto
qed auto

(* src/crates/aura-agent/src/sanitize.rs:190-195 ensure_starts_with_user *)
definition ensure_starts_with_user :: "message list \<Rightarrow> message list" where
  "ensure_starts_with_user ms =
    (if ms = [] \<or> msg_role (hd ms) \<noteq> Role_User
     then message_user ''[System: conversation context]'' # ms else ms)"

(* src/crates/aura-agent/src/sanitize.rs:17-32 validate_and_repair *)
definition validate_and_repair :: "message list \<Rightarrow> message list" where
  "validate_and_repair ms =
    ensure_starts_with_user (fix_unpaired_tool_uses (merge_consecutive_same_role
      (fix_orphan_tool_results (merge_consecutive_same_role (remove_empty_messages ms)))))"

section \<open>Merging\<close>

abbreviation nonempty_contents :: "message list \<Rightarrow> bool" where
  "nonempty_contents ms \<equiv> list_all (\<lambda>m. msg_content m \<noteq> []) ms"

lemma merge_hd: "ms \<noteq> [] \<Longrightarrow> merge_consecutive_same_role ms \<noteq> []
    \<and> msg_role (hd (merge_consecutive_same_role ms)) = msg_role (hd ms)"
  by (induction ms rule: merge_consecutive_same_role.induct) auto

lemma merge_alternating: "alternating (merge_consecutive_same_role ms)"
proof (induction ms rule: merge_consecutive_same_role.induct)
  case (1 m n ms)
  show ?case
  proof (cases "msg_role m = msg_role n")
    case False
    obtain x xs where "merge_consecutive_same_role (n # ms) = x # xs" "msg_role x = msg_role n"
      using merge_hd [of "n # ms"] by (cases "merge_consecutive_same_role (n # ms)") auto
    with False 1 show ?thesis by simp
  qed (use 1 in simp)
qed simp_all

lemma merge_nonempty: "nonempty_contents ms \<Longrightarrow> nonempty_contents (merge_consecutive_same_role ms)"
  by (induction ms rule: merge_consecutive_same_role.induct) auto

lemma merge_id: "alternating ms \<Longrightarrow> merge_consecutive_same_role ms = ms"
  by (induction ms rule: merge_consecutive_same_role.induct) auto

text \<open>
  Merging keeps the pairing of results when a message that follows one of its own role has none:
  that is the situation dropping emptied messages leaves.
\<close>

abbreviation merge_safe :: "message list \<Rightarrow> bool" where
  "merge_safe ms \<equiv> successively (\<lambda>a b. msg_role a = msg_role b \<longrightarrow> message_tool_result_ids b = []) ms"

lemma ids_of_merged:
  "message_tool_use_ids (m \<lparr> msg_content := xs @ ys \<rparr>) =
     message_tool_use_ids (m \<lparr> msg_content := xs \<rparr>) @ message_tool_use_ids (m \<lparr> msg_content := ys \<rparr>)"
  "message_tool_result_ids (m \<lparr> msg_content := xs @ ys \<rparr>) =
     message_tool_result_ids (m \<lparr> msg_content := xs \<rparr>) @ message_tool_result_ids (m \<lparr> msg_content := ys \<rparr>)"
  "message_tool_use_ids (m \<lparr> msg_content := msg_content n \<rparr>) = message_tool_use_ids n"
  "message_tool_result_ids (m \<lparr> msg_content := msg_content n \<rparr>) = message_tool_result_ids n"
  by (simp_all add: message_tool_use_ids_def message_tool_result_ids_def)

lemma merge_results_paired:
  "results_paired ids ms \<Longrightarrow> merge_safe ms \<Longrightarrow> results_paired ids (merge_consecutive_same_role ms)"
proof (induction ms arbitrary: ids rule: merge_consecutive_same_role.induct)
  case (1 m n ms)
  show ?case
  proof (cases "msg_role m = msg_role n")
    case True
    let ?m = "m \<lparr> msg_content := msg_content m @ msg_content n \<rparr>"
    have "results_paired ids (?m # ms)"
      using 1(3,4) True
      by (auto simp: ids_of_merged intro: results_paired_mono)
    moreover have "merge_safe (?m # ms)"
      using 1(4) True by (cases ms) auto
    ultimately show ?thesis using 1(1) True by simp
  qed (use 1 in simp)
qed simp_all

section \<open>Orphans\<close>

lemma retain_ids:
  "message_tool_use_ids (m \<lparr> msg_content := filter (orphan_kept ids) (msg_content m) \<rparr>) = message_tool_use_ids m"
  "set (message_tool_result_ids (m \<lparr> msg_content := filter (orphan_kept ids) (msg_content m) \<rparr>)) \<subseteq> set ids"
proof -
  have "orphan_kept ids b" if "block_use_id b \<noteq> None" for b
    using that by (cases b) simp_all
  then show "message_tool_use_ids (m \<lparr> msg_content := filter (orphan_kept ids) (msg_content m) \<rparr>) = message_tool_use_ids m"
    by (auto simp: message_tool_use_ids_def intro!: map_filter_filter)
  have "set (List.map_filter block_result_id (filter (orphan_kept ids) bs)) \<subseteq> set ids" for bs
  proof (induction bs)
    case (Cons b bs)
    then show ?case by (cases b) (auto simp: List.map_filter_def)
  qed (simp add: List.map_filter_def)
  then show "set (message_tool_result_ids (m \<lparr> msg_content := filter (orphan_kept ids) (msg_content m) \<rparr>)) \<subseteq> set ids"
    by (simp add: message_tool_result_ids_def)
qed

lemma retain_paired: "results_paired ids (retain_answers ids ms)"
  by (induction ids ms rule: retain_answers.induct) (simp_all add: Let_def retain_ids)

lemma retain_roles: "map msg_role (retain_answers ids ms) = map msg_role ms"
  by (induction ids ms rule: retain_answers.induct) (simp_all add: Let_def)

lemma alternating_iff: "alternating ms \<longleftrightarrow> successively (\<noteq>) (map msg_role ms)"
  by (simp add: alternating_def successively_map)

lemma alternating_roles: "map msg_role ms = map msg_role ns \<Longrightarrow> alternating ms \<longleftrightarrow> alternating ns"
  by (simp add: alternating_iff)

lemma drop_empty_paired: "results_paired ids ms \<Longrightarrow> results_paired ids (filter (\<lambda>m. msg_content m \<noteq> []) ms)"
  by (induction ids ms rule: results_paired.induct) (auto intro: results_paired_mono)

lemma drop_empty_safe:
  assumes "alternating ms" "results_paired ids ms"
    and "ms \<noteq> [] \<Longrightarrow> msg_role a \<noteq> msg_role (hd ms) \<or> message_tool_result_ids (hd ms) = []"
  shows "merge_safe (a # filter (\<lambda>m. msg_content m \<noteq> []) ms)"
  using assms
proof (induction ms arbitrary: a ids)
  case (Cons m ms)
  show ?case
  proof (cases "msg_content m = []")
    case True
    then have "ms \<noteq> [] \<Longrightarrow> message_tool_result_ids (hd ms) = []"
      using Cons.prems(2) by (cases ms) auto
    with Cons True show ?thesis by (auto dest: alternating_tl)
  next
    case False
    have "ms \<noteq> [] \<Longrightarrow> msg_role m \<noteq> msg_role (hd ms)"
      using Cons.prems(1) by (cases ms) auto
    with Cons False show ?thesis by (auto dest: alternating_tl)
  qed
qed simp

lemma fix_orphan_paired:
  assumes "alternating ms"
  shows "results_paired [] (fix_orphan_tool_results ms)" "merge_safe (fix_orphan_tool_results ms)"
    "nonempty_contents (fix_orphan_tool_results ms)"
proof -
  let ?r = "retain_answers [] ms"
  have alt: "alternating ?r" using assms alternating_roles [OF retain_roles] by blast
  show "results_paired [] (fix_orphan_tool_results ms)"
    unfolding fix_orphan_tool_results_def by (rule drop_empty_paired [OF retain_paired])
  define u where "u = \<lparr> msg_role = Role_User, msg_content = [] \<rparr>"
  have "merge_safe (u # filter (\<lambda>m. msg_content m \<noteq> []) ?r)"
    using drop_empty_safe [OF alt retain_paired, of u] retain_paired [of "[]" ms] by (cases ?r) auto
  then show "merge_safe (fix_orphan_tool_results ms)"
    unfolding fix_orphan_tool_results_def by (cases "filter (\<lambda>m. msg_content m \<noteq> []) ?r") auto
  show "nonempty_contents (fix_orphan_tool_results ms)"
    by (simp add: fix_orphan_tool_results_def list_all_iff)
qed

section \<open>Unpaired uses\<close>

lemma lost_ids [simp]:
  "List.map_filter block_result_id (map lost_result xs) = xs"
  "List.map_filter block_use_id (map lost_result xs) = []"
  by (induction xs) (simp_all add: List.map_filter_def lost_result_def)

lemma lost_message_ids [simp]:
  "message_tool_use_ids (m \<lparr> msg_content := map lost_result xs @ bs \<rparr>) = message_tool_use_ids (m \<lparr> msg_content := bs \<rparr>)"
  "message_tool_result_ids (m \<lparr> msg_content := map lost_result xs @ bs \<rparr>) =
     xs @ message_tool_result_ids (m \<lparr> msg_content := bs \<rparr>)"
  "message_tool_use_ids \<lparr> msg_role = r, msg_content = map lost_result xs \<rparr> = []"
  "message_tool_result_ids \<lparr> msg_role = r, msg_content = map lost_result xs \<rparr> = xs"
  by (simp_all add: message_tool_use_ids_def message_tool_result_ids_def)

lemma fix_unpaired_user [simp]:
  "msg_role m = Role_User \<Longrightarrow> fix_unpaired_tool_uses (m # ms) = m # fix_unpaired_tool_uses ms"
  by simp

declare fix_unpaired_tool_uses.simps(2) [simp del]

lemma fix_unpaired_hd:
  "ms \<noteq> [] \<Longrightarrow> fix_unpaired_tool_uses ms \<noteq> [] \<and> hd (fix_unpaired_tool_uses ms) = hd ms"
  by (cases ms) (auto simp: fix_unpaired_tool_uses.simps(2) Let_def)

lemma missing_ids_Nil:
  "missing_ids m ms = [] \<longleftrightarrow> message_tool_use_ids m = [] \<or>
     (ms \<noteq> [] \<and> msg_role (hd ms) = Role_User
      \<and> set (message_tool_use_ids m) \<subseteq> set (message_tool_result_ids (hd ms)))"
proof (cases ms)
  case (Cons n rest)
  have "(\<forall>x \<in> set xs. P \<and> x \<in> S) \<longleftrightarrow> xs = [] \<or> P \<and> set xs \<subseteq> S" for xs :: "string list" and P S
    by (cases xs) auto
  with Cons show ?thesis
    by (simp add: missing_ids_def answered_ids_def filter_empty_conv)
qed (simp add: missing_ids_def answered_ids_def)

text \<open>
  An assistant message of an alternating history and what the pass puts after it: nothing to do,
  lost results added to the user message that follows, or a user message of lost results at the end.
\<close>

lemma fix_unpaired_step [consumes 1, case_names skip answered fill append]:
  assumes "alternating (m # ms)"
  obtains "msg_role m = Role_User" "fix_unpaired_tool_uses (m # ms) = m # fix_unpaired_tool_uses ms"
  | "msg_role m = Role_Assistant" "missing_ids m ms = []"
      "fix_unpaired_tool_uses (m # ms) = m # fix_unpaired_tool_uses ms"
  | n rest where "msg_role m = Role_Assistant" "ms = n # rest" "msg_role n = Role_User"
      "fix_unpaired_tool_uses (m # ms) =
         m # n \<lparr> msg_content := map lost_result (missing_ids m ms) @ msg_content n \<rparr> # fix_unpaired_tool_uses rest"
  | "msg_role m = Role_Assistant" "ms = []" "message_tool_use_ids m \<noteq> []"
      "fix_unpaired_tool_uses (m # ms) =
         [m, \<lparr> msg_role = Role_User, msg_content = map lost_result (message_tool_use_ids m) \<rparr>]"
proof (cases "msg_role m = Role_User")
  case True
  with that(1) show thesis by simp
next
  case False
  then have A: "msg_role m = Role_Assistant" by (cases "msg_role m") simp_all
  show thesis
  proof (cases "message_tool_use_ids m = [] \<or> missing_ids m ms = []")
    case True
    then have "missing_ids m ms = []" by (auto simp: missing_ids_def)
    with that(2) A show thesis by (simp add: fix_unpaired_tool_uses.simps(2))
  next
    case miss: False
    show thesis
    proof (cases ms)
      case Nil
      with miss A that(4) show thesis
        by (simp add: fix_unpaired_tool_uses.simps(2) missing_ids_def answered_ids_def Let_def)
    next
      case (Cons n rest)
      then have "msg_role n = Role_User" using assms A by (cases "msg_role n") auto
      with Cons miss A that(3) show thesis
        by (simp add: fix_unpaired_tool_uses.simps(2) Let_def)
    qed
  qed
qed

lemma fill_paired:
  assumes "results_paired (message_tool_use_ids m) (n # rest)"
  shows "set (message_tool_result_ids (n \<lparr> msg_content := map lost_result (missing_ids m (n # rest)) @ msg_content n \<rparr>))
      \<subseteq> set (message_tool_use_ids m)"
    and "message_tool_use_ids (n \<lparr> msg_content := map lost_result (missing_ids m (n # rest)) @ msg_content n \<rparr>) =
      message_tool_use_ids n"
    and "msg_role n = Role_User \<Longrightarrow> set (message_tool_use_ids m) \<subseteq>
      set (message_tool_result_ids (n \<lparr> msg_content := map lost_result (missing_ids m (n # rest)) @ msg_content n \<rparr>))"
  using assms by (auto simp: ids_of_merged missing_ids_def answered_ids_def)

lemma fix_unpaired_valid:
  assumes "alternating ms" "results_paired ids ms" "nonempty_contents ms"
  shows "alternating (fix_unpaired_tool_uses ms) \<and> results_paired ids (fix_unpaired_tool_uses ms)
    \<and> nonempty_contents (fix_unpaired_tool_uses ms) \<and> uses_paired (fix_unpaired_tool_uses ms)"
  using assms
proof (induction "length ms" arbitrary: ms ids rule: less_induct)
  case less
  show ?case
  proof (cases ms)
    case (Cons m rest)
    have alt: "alternating (m # rest)" using less.prems(1) Cons by simp
    have hd_rest: "rest \<noteq> [] \<Longrightarrow> fix_unpaired_tool_uses rest \<noteq> [] \<and> hd (fix_unpaired_tool_uses rest) = hd rest"
      using fix_unpaired_hd .
    have IH: "alternating (fix_unpaired_tool_uses rest)" "nonempty_contents (fix_unpaired_tool_uses rest)"
      "results_paired (message_tool_use_ids m) (fix_unpaired_tool_uses rest)" "uses_paired (fix_unpaired_tool_uses rest)"
      using less.hyps [of rest "message_tool_use_ids m"] less.prems Cons by (auto dest: alternating_tl)
    have alt_m: "alternating (m # fix_unpaired_tool_uses rest)"
      using IH(1) hd_rest alt by (cases rest; cases "fix_unpaired_tool_uses rest") auto
    from alt show ?thesis
    proof (cases rule: fix_unpaired_step)
      case skip
      with IH alt_m less.prems(2,3) Cons show ?thesis by simp
    next
      case answered
      have "message_tool_use_ids m \<noteq> [] \<Longrightarrow> rest \<noteq> [] \<and> msg_role (hd rest) = Role_User
          \<and> set (message_tool_use_ids m) \<subseteq> set (message_tool_result_ids (hd rest))"
        using answered(2) by (simp add: missing_ids_Nil)
      with IH alt_m less.prems(2,3) Cons answered(3) hd_rest show ?thesis
        by (cases "fix_unpaired_tool_uses rest") auto
    next
      case (fill n rest')
      have IH': "alternating (fix_unpaired_tool_uses rest')" "nonempty_contents (fix_unpaired_tool_uses rest')"
        "results_paired (message_tool_use_ids n) (fix_unpaired_tool_uses rest')" "uses_paired (fix_unpaired_tool_uses rest')"
        using less.hyps [of rest' "message_tool_use_ids n"] less.prems Cons fill(2) by (auto dest!: alternating_tl)
      have "rest' \<noteq> [] \<Longrightarrow> msg_role (hd (fix_unpaired_tool_uses rest')) \<noteq> msg_role n"
        using fix_unpaired_hd [of rest'] alt fill(2) by (cases rest') auto
      then have "alternating (n' # fix_unpaired_tool_uses rest')" if "msg_role n' = msg_role n" for n'
        using IH'(1) that fix_unpaired_hd [of rest'] by (cases rest'; cases "fix_unpaired_tool_uses rest'") auto
      with IH' fill less.prems(2,3) Cons fill_paired [of m n rest'] show ?thesis by auto
    next
      case append
      with less.prems(2,3) Cons show ?thesis by auto
    qed
  qed simp
qed

section \<open>Properties\<close>

text \<open>The repaired history, for the theories that build on it.\<close>

lemma repaired_history_valid: "valid_history (validate_and_repair ms)"
proof -
  define a where "a = merge_consecutive_same_role (remove_empty_messages ms)"
  define b where "b = merge_consecutive_same_role (fix_orphan_tool_results a)"
  define c where "c = fix_unpaired_tool_uses b"
  have a: "alternating a" by (simp add: a_def merge_alternating)
  note o = fix_orphan_paired [OF a]
  have b: "alternating b" "results_paired [] b" "nonempty_contents b"
    using o by (simp_all add: b_def merge_alternating merge_results_paired merge_nonempty)
  then have c: "alternating c" "results_paired [] c" "nonempty_contents c" "uses_paired c"
    using fix_unpaired_valid [OF b] by (simp_all add: c_def)
  have "valid_history (ensure_starts_with_user c)"
  proof (cases "c = [] \<or> msg_role (hd c) \<noteq> Role_User")
    case True
    then show ?thesis
      using c by (cases c) (auto simp: ensure_starts_with_user_def valid_history_def message_user_def
          message_tool_use_ids_def message_tool_result_ids_def List.map_filter_def)
  next
    case False
    with c show ?thesis by (simp add: ensure_starts_with_user_def valid_history_def)
  qed
  then show ?thesis by (simp add: validate_and_repair_def a_def b_def c_def)
qed

text \<open>
  Property C30: whatever the history looks like, what \<open>validate_and_repair\<close> leaves is accepted by
  the provider: it starts with a user message, roles alternate, no message is empty, every tool
  result answers a tool use of the message before it and every tool use of the assistant is
  answered by the message after it.
\<close>

theorem repair_valid: "valid_history (validate_and_repair ms)"
  by (rule repaired_history_valid)

lemma retain_id: "results_paired ids ms \<Longrightarrow> retain_answers ids ms = ms"
proof (induction ids ms rule: retain_answers.induct)
  case (2 ids m ms)
  have "filter (orphan_kept ids) bs = bs" if "set (List.map_filter block_result_id bs) \<subseteq> set ids" for bs
    using that
  proof (induction bs)
    case (Cons b bs)
    then show ?case by (cases b) (auto simp: List.map_filter_def)
  qed simp
  with 2 show ?case by (simp add: Let_def message_tool_result_ids_def)
qed simp

lemma fix_unpaired_id: "uses_paired ms \<Longrightarrow> fix_unpaired_tool_uses ms = ms"
proof (induction ms)
  case (Cons m ms)
  then have "msg_role m = Role_Assistant \<Longrightarrow> missing_ids m ms = []"
    by (cases ms) (auto simp: missing_ids_Nil)
  with Cons show ?case by (auto simp: fix_unpaired_tool_uses.simps(2))
qed simp

text \<open>
  A history the provider accepts, without messages of blank text only, is left as it
  is; so the repair never rewrites a healthy conversation and repairing twice is repairing once on
  such histories.
\<close>

theorem repair_keeps_valid:
  assumes "valid_history ms" "list_all (\<lambda>m. list_ex block_has_content (msg_content m)) ms"
  shows "validate_and_repair ms = ms"
proof -
  have "remove_empty_messages ms = ms"
    using assms by (auto simp: remove_empty_messages_def valid_history_def list_all_iff intro!: filter_True)
  moreover have "fix_orphan_tool_results ms = ms"
    using assms(1) retain_id [of "[]" ms]
    by (auto simp: fix_orphan_tool_results_def valid_history_def list_all_iff intro!: filter_True)
  ultimately show ?thesis
    using assms(1) merge_id [of ms] fix_unpaired_id [of ms]
    by (auto simp: validate_and_repair_def valid_history_def ensure_starts_with_user_def)
qed

definition demo_history :: "message list" where
  "demo_history =
    [message_user ''list the files'',
     \<lparr> msg_role = Role_Assistant, msg_content = [Block_ToolUse ''t1'' ''list_files'' J_Null] \<rparr>,
     \<lparr> msg_role = Role_User, msg_content = [Block_ToolResult ''t1'' (Content_Text ''a.rs'') False] \<rparr>,
     message_assistant ''There is one file.'']"

theorem repair_keeps_valid_witness: "validate_and_repair demo_history = demo_history"
proof (rule repair_keeps_valid)
  show "valid_history demo_history"
    by (simp add: valid_history_def demo_history_def message_user_def message_assistant_def
        message_tool_use_ids_def message_tool_result_ids_def List.map_filter_def)
  show "list_all (\<lambda>m. list_ex block_has_content (msg_content m)) demo_history"
    by (simp add: demo_history_def message_user_def message_assistant_def is_blank_def)
qed

text \<open>
  The repair can leave a message of blank text.  Blank messages are dropped first and
  orphan results after that, so a message that held an orphan result and blank text keeps the
  blank text; a second repair drops the message.
\<close>

theorem repair_leaves_blank:
  "validate_and_repair
     [message_user ''go'', message_assistant ''ok'',
      \<lparr> msg_role = Role_User, msg_content = [Block_Text '' '', Block_ToolResult ''x'' (Content_Text ''r'') False] \<rparr>] =
     [message_user ''go'', message_assistant ''ok'', message_user '' '']
   \<and> validate_and_repair [message_user ''go'', message_assistant ''ok'', message_user '' ''] =
     [message_user ''go'', message_assistant ''ok'']"
  by (auto simp: validate_and_repair_def remove_empty_messages_def message_user_def message_assistant_def
      is_blank_def fix_orphan_tool_results_def message_tool_use_ids_def message_tool_result_ids_def
      List.map_filter_def ensure_starts_with_user_def fix_unpaired_tool_uses.simps Let_def missing_ids_def)

end
