(* ===== verification/Compaction_Laws.thy ===== *)
theory Compaction_Laws
  imports Compaction Sanitize
begin

text \<open>
  What compaction keeps and what it bounds: the shape of the history (roles, tool uses, tool
  pairing), a verbatim copy of every folded read, the ends of the history, the size of truncated
  text, and the pairing of tool calls around a summary.
\<close>

section \<open>The shape of a history\<close>

text \<open>
  A rewriting of the blocks of a history that keeps the identifiers of tool uses and tool results
  keeps what the provider checks.  The contract of such a rewriting, and what it gives for whole
  histories; truncation and storage are its two instances.
\<close>

definition message_rel :: "(content_block \<Rightarrow> content_block \<Rightarrow> bool) \<Rightarrow> message \<Rightarrow> message \<Rightarrow> bool" where
  "message_rel R m n = (msg_role m = msg_role n \<and> list_all2 R (msg_content m) (msg_content n))"

lemma map_filter_all2:
  "list_all2 R xs ys \<Longrightarrow> (\<And>x y. R x y \<Longrightarrow> f x = f y) \<Longrightarrow> List.map_filter f xs = List.map_filter f ys"
  by (induction rule: list_all2_induct) (auto simp: List.map_filter_def split: option.splits)

locale block_rewriting =
  fixes R :: "content_block \<Rightarrow> content_block \<Rightarrow> bool"
  assumes keeps_use: "R b c \<Longrightarrow> block_use_id b = block_use_id c"
    and keeps_result: "R b c \<Longrightarrow> block_result_id b = block_result_id c"
begin

lemma ids:
  assumes "message_rel R m n"
  shows "message_tool_use_ids n = message_tool_use_ids m" "message_tool_result_ids n = message_tool_result_ids m"
    "msg_role n = msg_role m" "msg_content n = [] \<longleftrightarrow> msg_content m = []"
  using assms map_filter_all2 [of R "msg_content m" "msg_content n", OF _ keeps_use]
    map_filter_all2 [of R "msg_content m" "msg_content n", OF _ keeps_result]
  by (auto simp: message_rel_def message_tool_use_ids_def message_tool_result_ids_def)

lemma paired: "list_all2 (message_rel R) ms ns \<Longrightarrow> results_paired i ns = results_paired i ms"
  by (induction arbitrary: i rule: list_all2_induct) (simp_all add: ids)

lemma uses: "list_all2 (message_rel R) ms ns \<Longrightarrow> uses_paired ns = uses_paired ms"
proof (induction rule: list_all2_induct)
  case (Cons m ms n ns)
  then show ?case by (cases ms; cases ns) (auto simp: ids)
qed simp

lemma roles: "list_all2 (message_rel R) ms ns \<Longrightarrow> map msg_role ns = map msg_role ms"
  by (induction rule: list_all2_induct) (simp_all add: ids)

lemma valid:
  assumes "list_all2 (message_rel R) ms ns"
  shows "valid_history ns = valid_history ms"
proof -
  have "ns = [] \<longleftrightarrow> ms = []" "ms \<noteq> [] \<Longrightarrow> msg_role (hd ns) = msg_role (hd ms)"
    using assms by (cases ms; cases ns; auto simp: ids)+
  moreover have "alternating ns = alternating ms"
    using roles [OF assms] by (rule alternating_roles)
  moreover have "list_all (\<lambda>m. msg_content m \<noteq> []) ns = list_all (\<lambda>m. msg_content m \<noteq> []) ms"
    using assms by (induction rule: list_all2_induct) (simp_all add: ids)
  ultimately show ?thesis
    by (auto simp: valid_history_def paired [OF assms] uses [OF assms])
qed

end

lemma message_rel_map: "(\<And>b. R b (f b)) \<Longrightarrow> message_rel R m (map_blocks f m)"
  by (simp add: message_rel_def map_blocks_def list_all2_conv_all_nth)

lemma messages_rel_map: "(\<And>b. R b (f b)) \<Longrightarrow> list_all2 (message_rel R) ms (map (map_blocks f) ms)"
  by (simp add: list_all2_conv_all_nth message_rel_map)

fun compacted_block :: "content_block \<Rightarrow> content_block \<Rightarrow> bool" where
  "compacted_block (Block_Text _) (Block_Text _) = True"
| "compacted_block (Block_Image _) (Block_Text _) = True"
| "compacted_block (Block_ToolResult i _ e) (Block_ToolResult j _ f) = (i = j \<and> e = f)"
| "compacted_block b c = (b = c)"

abbreviation compacted :: "message \<Rightarrow> message \<Rightarrow> bool" where
  "compacted \<equiv> message_rel compacted_block"

lemma compacted_block_ids:
  "compacted_block b c \<Longrightarrow> block_use_id b = block_use_id c \<and> block_result_id b = block_result_id c"
  by (cases b; cases c) auto

interpretation compaction: block_rewriting compacted_block
  by unfold_locales (simp_all add: compacted_block_ids)

lemma compacted_block_refl [simp]: "compacted_block b b"
  by (cases b) simp_all

lemma compacted_block_trans: "compacted_block a b \<Longrightarrow> compacted_block b c \<Longrightarrow> compacted_block a c"
  by (cases a; cases b; cases c) auto

lemma compacted_refl [simp]: "compacted m m"
  by (simp add: message_rel_def list_all2_same)

lemma compacted_blocks_trans:
  "list_all2 compacted_block as bs \<Longrightarrow> list_all2 compacted_block bs cs \<Longrightarrow> list_all2 compacted_block as cs"
  using list_all2_trans [OF compacted_block_trans] .

lemma compacted_trans: "compacted a b \<Longrightarrow> compacted b c \<Longrightarrow> compacted a c"
  unfolding message_rel_def using compacted_blocks_trans by auto

lemma compacted_list_trans:
  "list_all2 compacted as bs \<Longrightarrow> list_all2 compacted bs cs \<Longrightarrow> list_all2 compacted as cs"
  using list_all2_trans [OF compacted_trans] .

section \<open>Truncation and image stubs\<close>

lemma compact_content_block_shape: "compacted_block b (compact_content_block L config h t b)"
  by (cases b) (simp_all add: Let_def)

lemma stub_image_block_shape: "compacted_block b (stub_image_block b)"
  by (cases b) simp_all

lemma splice_shape:
  assumes "\<And>b. compacted_block b (f b)" "i \<le> j"
  shows "list_all2 compacted ms (take i ms @ map (map_blocks f) (drop i (take j ms)) @ drop j ms)"
proof -
  have "ms = take i ms @ drop i (take j ms) @ drop j ms"
    using assms(2) by (metis append.assoc append_take_drop_id min.absorb1 take_take)
  then have "list_all2 compacted (take i ms @ drop i (take j ms) @ drop j ms)
      (take i ms @ map (map_blocks f) (drop i (take j ms)) @ drop j ms)"
    using messages_rel_map [of compacted_block f, OF assms(1)]
    by (intro list_all2_appendI) (simp_all add: list_all2_same)
  with \<open>ms = _\<close> show ?thesis by metis
qed

lemma compact_older_some:
  assumes "select_compaction_candidates ms config = Some (e, h, t)"
  shows "e = length ms - cfg_preserve_recent config" "1 < e" "e \<le> length ms"
  using assms by (auto simp: select_compaction_candidates_def Let_def split: if_splits)

lemma compact_older_shape: "list_all2 compacted ms (compact_older_messages L ms config)"
proof (cases "select_compaction_candidates ms config")
  case None
  then show ?thesis by (simp add: compact_older_messages_def list_all2_same)
next
  case (Some p)
  obtain e h t where p: "p = (e, h, t)" by (cases p)
  define ns where "ns = map (map_blocks stub_image_block) (take e ms) @ drop e ms"
  have "list_all2 compacted ms ns"
    using splice_shape [of stub_image_block 0 e ms, OF stub_image_block_shape] by (simp add: ns_def)
  moreover have "list_all2 compacted ns
      (take 1 ns @ map (map_blocks (compact_content_block L config h t)) (drop 1 (take e ns)) @ drop e ns)"
    using compact_older_some(2) [OF Some [unfolded p]]
    by (intro splice_shape compact_content_block_shape) simp
  ultimately have "list_all2 compacted ms
      (take 1 ns @ map (map_blocks (compact_content_block L config h t)) (drop 1 (take e ns)) @ drop e ns)"
    by (rule compacted_list_trans)
  then show ?thesis unfolding compact_older_messages_def Some p option.case prod.case Let_def ns_def .
qed

section \<open>Folding repeated reads\<close>

lemma fold_into_marker_shape: "compacted_block b (fold_into_marker L ms key b)"
  by (cases b) (simp_all add: Let_def)

lemma dedup_block_shape: "dedup_block L ms b st = (b', st') \<Longrightarrow> compacted_block b b'"
  by (auto simp: dedup_block_def fold_into_marker_shape split: option.splits if_splits)

lemma dedup_blocks_shape: "dedup_blocks L ms bs st = (bs', st') \<Longrightarrow> list_all2 compacted_block bs bs'"
  by (induction bs arbitrary: st bs' st') (auto split: prod.splits dest: dedup_block_shape)

lemma dedup_newest_shape: "dedup_newest_first L ms ns st = (ns', st') \<Longrightarrow> list_all2 compacted ns ns'"
  by (induction ns arbitrary: st ns' st') (auto simp: message_rel_def split: prod.splits dest: dedup_blocks_shape)

lemma dedup_shape: "list_all2 compacted ms (fst (dedup_read_results_by_content_hash L ms))"
proof -
  obtain ns st where d: "dedup_newest_first L ms (rev ms) ({}, 0) = (ns, st)"
    by (cases "dedup_newest_first L ms (rev ms) ({}, 0)")
  from dedup_newest_shape [OF this] have "list_all2 compacted ms (rev ns)"
    by (simp add: list_all2_rev1)
  with d show ?thesis by (simp add: dedup_read_results_by_content_hash_def)
qed

text \<open>
  The keys a pass has seen are those of the results it left alone.
\<close>

definition kept_keys :: "json_text \<Rightarrow> message list \<Rightarrow> content_block list \<Rightarrow> content_block list \<Rightarrow> (string \<times> string) set" where
  "kept_keys L ms bs bs' = {k. \<exists>b. (b, b) \<in> set (zip bs bs') \<and> dedup_key L ms b = Some k}"

lemma kept_keys_simps [simp]:
  "kept_keys L ms [] bs' = {}"
  "kept_keys L ms (b # bs) (b' # bs') =
     (if b' = b then set_option (dedup_key L ms b) else {}) \<union> kept_keys L ms bs bs'"
  by (auto simp: kept_keys_def)

lemma kept_keys_append:
  "length bs = length bs' \<Longrightarrow> kept_keys L ms (bs @ cs) (bs' @ cs') = kept_keys L ms bs bs' \<union> kept_keys L ms cs cs'"
  by (induction bs bs' rule: list_induct2) auto

lemma dedup_block_keys:
  assumes "dedup_block L ms b st = (b', st')"
  shows "fst st' = fst st \<union> set_option (dedup_key L ms b)"
    and "fst st' \<subseteq> fst st \<union> (if b' = b then set_option (dedup_key L ms b) else {})"
  using assms by (auto simp: dedup_block_def split: option.splits if_splits)

lemma dedup_blocks_keys:
  "dedup_blocks L ms bs st = (bs', st') \<Longrightarrow>
    fst st' = fst st \<union> (\<Union>b \<in> set bs. set_option (dedup_key L ms b)) \<and> fst st' \<subseteq> fst st \<union> kept_keys L ms bs bs'"
proof (induction bs arbitrary: st bs' st')
  case (Cons b bs)
  obtain b1 st1 bs1 where d: "dedup_block L ms b st = (b1, st1)" "dedup_blocks L ms bs st1 = (bs1, st')"
      "bs' = b1 # bs1"
    using Cons.prems by (auto split: prod.splits)
  note IH = Cons.IH [OF d(2)] and step = dedup_block_keys [OF d(1)]
  have "fst st' \<subseteq> fst st \<union> kept_keys L ms (b # bs) bs'"
    unfolding d(3) kept_keys_simps using IH [THEN conjunct2] step(2) by blast
  moreover have "fst st' = fst st \<union> (\<Union>b \<in> set (b # bs). set_option (dedup_key L ms b))"
    using IH [THEN conjunct1] step(1) by auto
  ultimately show ?case by blast
qed simp

lemma dedup_newest_keys:
  "dedup_newest_first L ms ns st = (ns', st') \<Longrightarrow>
    fst st' = fst st \<union> (\<Union>b \<in> set (concat (map msg_content ns)). set_option (dedup_key L ms b))
    \<and> fst st' \<subseteq> fst st \<union> kept_keys L ms (concat (map msg_content ns)) (concat (map msg_content ns'))"
proof (induction ns arbitrary: st ns' st')
  case (Cons n ns)
  obtain bs st1 ns1 where d: "dedup_blocks L ms (msg_content n) st = (bs, st1)"
      "dedup_newest_first L ms ns st1 = (ns1, st')" "ns' = n \<lparr> msg_content := bs \<rparr> # ns1"
    using Cons.prems by (auto split: prod.splits)
  note IH = Cons.IH [OF d(2)] and step = dedup_blocks_keys [OF d(1)]
  have len: "length (msg_content n) = length bs"
    using dedup_blocks_shape [OF d(1)] by (rule list_all2_lengthD)
  have "fst st' \<subseteq> fst st \<union> kept_keys L ms (concat (map msg_content (n # ns))) (concat (map msg_content ns'))"
    unfolding d(3) using IH [THEN conjunct2] step [THEN conjunct2] by (simp add: kept_keys_append [OF len]) blast
  moreover have "fst st' = fst st \<union> (\<Union>b \<in> set (concat (map msg_content (n # ns))). set_option (dedup_key L ms b))"
    using IH [THEN conjunct1] step [THEN conjunct1] by auto
  ultimately show ?case by blast
qed simp

lemma dedup_kept:
  assumes "b \<in> set (concat (map msg_content ms))" "dedup_key L ms b = Some k"
  shows "\<exists>b'. (b', b') \<in> set (zip (concat (map msg_content (rev ms)))
        (concat (map msg_content (rev (fst (dedup_read_results_by_content_hash L ms))))))
      \<and> dedup_key L ms b' = Some k"
proof -
  obtain ns st where d: "dedup_newest_first L ms (rev ms) ({}, 0) = (ns, st)"
    by (cases "dedup_newest_first L ms (rev ms) ({}, 0)")
  have "k \<in> fst st"
    using dedup_newest_keys [OF d] assms by force
  then have "k \<in> kept_keys L ms (concat (map msg_content (rev ms))) (concat (map msg_content ns))"
    using dedup_newest_keys [OF d] by auto
  with d show ?thesis by (auto simp: dedup_read_results_by_content_hash_def kept_keys_def)
qed

lemma str_bytes_inject: "str_bytes s = str_bytes t \<longleftrightarrow> s = t"
proof -
  have u: "unat (of_char c :: u8) = of_char c" for c
  proof -
    have "(of_char c :: u8) = word_of_nat (of_char c)" by (simp only: of_nat_of_char)
    then show ?thesis by (simp add: unat_of_nat)
  qed
  have "inj (of_char :: char \<Rightarrow> u8)"
    by (rule injI) (metis u of_char_eq_iff)
  then show ?thesis by (simp add: str_bytes_def inj_map_eq_map)
qed

section \<open>Truncated text\<close>

lemma head_tail_bound:
  assumes "head_tail_split n h t = (a, b)"
  shows "a + b \<le> n"
proof -
  have "sat_mul n x div (x + y) \<le> n" for x y
  proof -
    have "sat_mul n x div (x + y) \<le> n * (x + y) div (x + y)"
      by (rule div_le_mono) (simp add: sat_mul_def algebra_simps)
    then show ?thesis by (cases "x + y = 0") (auto simp: sat_mul_def)
  qed
  with assms show ?thesis
    by (auto simp: head_tail_split_def Let_def split: if_splits)
qed

lemma length_marker: "length (truncation_marker n) = 46 + length (nat_str n)"
  by (simp add: truncation_marker_def newlines2_def)

lemma rev_take_rev: "rev (take n (rev xs)) = drop (length xs - n) xs"
  by (simp add: rev_take)

lemma truncate_form:
  assumes "n < length s"
  obtains a b where "a + b \<le> n"
    "truncate_content s n h t =
       concat (take a (chars s)) @ truncation_marker (length s - (a + b)) @ concat (drop (length (chars s) - b) (chars s))"
proof -
  obtain x y where x: "head_tail_split n h t = (x, y)" by (cases "head_tail_split n h t")
  let ?a = "min x (length s)" let ?b = "min y (length s - ?a)"
  have "?a + ?b \<le> n" using head_tail_bound [OF x] by simp
  moreover have "truncate_content s n h t =
       concat (take ?a (chars s)) @ truncation_marker (length s - (?a + ?b)) @ concat (drop (length (chars s) - ?b) (chars s))"
    using assms by (simp add: truncate_content_def x Let_def rev_take_rev)
  ultimately show thesis by (rule that)
qed

section \<open>Ranges of a summary\<close>

lemma advance_start_spec:
  "start \<le> advance_start ms start e \<and>
   (advance_start ms start e < e \<longrightarrow> \<not> result_is_for_previous_tool_use ms (advance_start ms start e))"
proof (induction ms start e rule: advance_start.induct)
  case (1 ms start e)
  then show ?case by (subst (1 2 3) advance_start.simps) auto
qed

lemma retreat_end_spec:
  "retreat_end ms start e \<le> e \<and>
   (start < retreat_end ms start e \<longrightarrow> \<not> boundary_splits_tool_pair ms (retreat_end ms start e))"
proof (induction ms start e rule: retreat_end.induct)
  case (1 ms start e)
  then show ?case by (subst (1 2 3) retreat_end.simps) auto
qed

lemma range_bounds:
  assumes "select_summary_range ms = Some (s, e)"
  shows "1 \<le> s" "s + 4 \<le> e" "e + 2 \<le> length ms"
    "\<not> result_is_for_previous_tool_use ms s" "\<not> boundary_splits_tool_pair ms e"
proof -
  have len: "4 < length ms"
    and s: "s = advance_start ms 1 (length ms - 2)" and e: "e = retreat_end ms s (length ms - 2)"
    and gap: "4 \<le> e - s"
    using assms by (auto simp: select_summary_range_def config_micro_def Let_def split: if_splits)
  have a: "1 \<le> s" "s < length ms - 2 \<Longrightarrow> \<not> result_is_for_previous_tool_use ms s"
    using advance_start_spec [of 1 ms "length ms - 2"] by (simp_all add: s)
  have r: "e \<le> length ms - 2" "s < e \<Longrightarrow> \<not> boundary_splits_tool_pair ms e"
    using retreat_end_spec [of ms s "length ms - 2"] by (simp_all add: e)
  from a r gap len show "1 \<le> s" "s + 4 \<le> e" "e + 2 \<le> length ms"
    "\<not> result_is_for_previous_tool_use ms s" "\<not> boundary_splits_tool_pair ms e" by auto
qed

text \<open>
  Pairing at one position of a history, and how it composes.
\<close>

lemma results_paired_append:
  "results_paired ids (xs @ ys) \<longleftrightarrow>
     results_paired ids xs \<and> results_paired (if xs = [] then ids else message_tool_use_ids (last xs)) ys"
  by (induction ids xs rule: results_paired.induct) auto

definition waits :: "message \<Rightarrow> bool" where
  "waits m = (msg_role m = Role_Assistant \<and> message_tool_use_ids m \<noteq> [])"

lemma uses_paired_append:
  "xs \<noteq> [] \<Longrightarrow> \<not> waits (last xs) \<Longrightarrow> uses_paired (xs @ ys) \<longleftrightarrow> uses_paired xs \<and> uses_paired ys"
proof (induction xs)
  case (Cons m xs)
  show ?case
  proof (cases xs)
    case Nil
    with Cons.prems show ?thesis by (auto simp: waits_def)
  next
    case (Cons n rest)
    with Cons.IH Cons.prems show ?thesis by simp
  qed
qed simp

lemma no_results_start:
  "results_paired ids ms \<Longrightarrow> (ms \<noteq> [] \<Longrightarrow> message_tool_result_ids (hd ms) = []) \<Longrightarrow> results_paired ids' ms"
  by (cases ms) auto

lemma uses_paired_nth:
  "uses_paired ms \<Longrightarrow> i < length ms \<Longrightarrow> waits (ms ! i) \<Longrightarrow>
    Suc i < length ms \<and> set (message_tool_use_ids (ms ! i)) \<subseteq> set (message_tool_result_ids (ms ! Suc i))"
proof (induction ms arbitrary: i)
  case (Cons m ms)
  show ?case
  proof (cases i)
    case 0
    with Cons.prems show ?thesis by (cases ms) (auto simp: waits_def)
  next
    case (Suc j)
    with Cons.IH [of j] Cons.prems show ?thesis by simp
  qed
qed simp

lemma results_paired_nth:
  "results_paired ids ms \<Longrightarrow> Suc i < length ms \<Longrightarrow>
    set (message_tool_result_ids (ms ! Suc i)) \<subseteq> set (message_tool_use_ids (ms ! i))"
proof (induction ids ms arbitrary: i rule: results_paired.induct)
  case (2 ids m ms)
  show ?case
  proof (cases i)
    case 0
    with 2 show ?thesis by (cases ms) auto
  next
    case (Suc j)
    with 2 show ?thesis by simp
  qed
qed simp

lemma uses_paired_drop: "uses_paired ms \<Longrightarrow> uses_paired (drop n ms)"
  by (induction ms arbitrary: n) (auto simp: drop_Cons split: nat.splits)

lemma boundary_no_wait:
  assumes "uses_paired ms" "0 < s" "s \<le> length ms" "\<not> (s < length ms \<and> result_is_for_previous_tool_use ms s)"
  shows "\<not> waits (ms ! (s - 1))"
proof
  assume w: "waits (ms ! (s - 1))"
  from uses_paired_nth [OF assms(1) _ this] assms(2,3) have
    "s < length ms" "set (message_tool_use_ids (ms ! (s - 1))) \<subseteq> set (message_tool_result_ids (ms ! s))" by auto
  moreover obtain i where "i \<in> set (message_tool_use_ids (ms ! (s - 1)))"
    using w by (auto simp: waits_def intro: hd_in_set)
  ultimately show False using assms(2,4) by (auto simp: result_is_for_previous_tool_use_def list_ex_iff)
qed

lemma boundary_no_results:
  assumes "results_paired ids ms" "0 < e" "\<not> boundary_splits_tool_pair ms e" "e < length ms"
  shows "message_tool_result_ids (ms ! e) = []"
proof -
  have "set (message_tool_result_ids (ms ! e)) \<subseteq> set (message_tool_use_ids (ms ! (e - 1)))"
    using results_paired_nth [OF assms(1), of "e - 1"] assms(2,4) by simp
  with assms(2-4) show ?thesis
    by (cases "message_tool_result_ids (ms ! e)")
      (auto simp: boundary_splits_tool_pair_def result_is_for_previous_tool_use_def)
qed

lemma splice_pairing:
  assumes p: "results_paired [] ms" "uses_paired ms"
    and range: "0 < s" "s < e" "e \<le> length ms"
    and safe: "\<not> result_is_for_previous_tool_use ms s" "\<not> boundary_splits_tool_pair ms e"
    and n: "message_tool_use_ids n = []" "message_tool_result_ids n = []"
  shows "results_paired [] (take s ms @ [n] @ drop e ms) \<and> uses_paired (take s ms @ [n] @ drop e ms)"
proof -
  have xs: "take s ms \<noteq> []" using range by (cases ms) auto
  then have l: "last (take s ms) = ms ! (s - 1)" using range by (simp add: last_conv_nth)
  have w: "\<not> waits (last (take s ms))"
    using boundary_no_wait [OF p(2) range(1)] safe(1) range l by simp
  have head: "results_paired [] (take s ms)" "uses_paired (take s ms)"
    using p results_paired_append [of "[]" "take s ms" "drop s ms"] uses_paired_append [OF xs w, of "drop s ms"]
    by simp_all
  have "results_paired (message_tool_use_ids (ms ! (e - 1))) (drop e ms)"
    using p(1) results_paired_append [of "[]" "take e ms" "drop e ms"] range last_conv_nth [of "take e ms"]
    by (auto split: if_splits)
  moreover have "drop e ms \<noteq> [] \<Longrightarrow> message_tool_result_ids (hd (drop e ms)) = []"
    using boundary_no_results [OF p(1) _ safe(2)] range by (simp add: hd_drop_conv_nth)
  ultimately have tail: "results_paired [] (drop e ms)" "uses_paired (drop e ms)"
    using no_results_start uses_paired_drop [OF p(2)] by blast+
  have "results_paired [] (take s ms @ [n] @ drop e ms)"
    unfolding results_paired_append using head tail n xs by simp
  moreover have "uses_paired (take s ms @ [n] @ drop e ms)"
    unfolding uses_paired_append [OF xs w] using head tail n by simp
  ultimately show ?thesis ..
qed

section \<open>Properties\<close>

lemma compact_messages_shape: "list_all2 compacted ms (fst (compact_messages L ms policy))"
proof (cases "tier_for (effective_pressure L ms policy)")
  case None
  then show ?thesis by (simp add: compact_messages_def Let_def list_all2_same)
next
  case (Some tier)
  then show ?thesis
    using compacted_list_trans [OF dedup_shape [of ms L] compact_older_shape [of _ L tier]]
    by (simp add: compact_messages_def Let_def)
qed

lemma compacted_history_valid: "valid_history (fst (compact_messages L ms policy)) = valid_history ms"
  by (rule compaction.valid [OF compact_messages_shape])

text \<open>
  Property C31: compaction never damages a conversation.  Every message keeps its role and its
  blocks in order, tool uses and thinking stay as they are, a tool result keeps the call it answers
  and its error flag, and only texts and images are shortened; so the compacted history is accepted
  by the provider exactly when the original was.
\<close>

theorem compaction_keeps_history:
  "list_all2 compacted ms (fst (compact_messages L ms policy))
   \<and> valid_history (fst (compact_messages L ms policy)) = valid_history ms"
  by (simp add: compact_messages_shape compacted_history_valid)

text \<open>
  Recovering from an overflow leaves the recent messages that its tier preserves exactly
  as they are, and changes nothing in the first message but its images, so the task statement
  survives.
\<close>

theorem overflow_keeps_ends:
  "drop (length ms - cfg_preserve_recent tier) (fst (recover_overflow L ms tier))
     = drop (length ms - cfg_preserve_recent tier) ms
   \<and> take 1 (fst (recover_overflow L ms tier)) \<in> {take 1 ms, map (map_blocks stub_image_block) (take 1 ms)}
   \<and> length (fst (recover_overflow L ms tier)) = length ms"
proof (cases "select_compaction_candidates ms tier")
  case None
  then show ?thesis by (simp add: recover_overflow_def compact_older_messages_def)
next
  case (Some p)
  obtain e h t where p: "p = (e, h, t)" by (cases p)
  note e = compact_older_some [OF Some [unfolded p]]
  then have "ms \<noteq> []" by auto
  with e show ?thesis
    by (auto simp: recover_overflow_def compact_older_messages_def Some p Let_def take_map min_def)
qed

definition result_texts :: "json_text \<Rightarrow> message list \<Rightarrow> string set" where
  "result_texts L ms = {rendered L c | m i c e. m \<in> set ms \<and> Block_ToolResult i c e \<in> set (msg_content m)}"

text \<open>
  Folding repeated reads loses no text.  When the hasher does not confuse texts of
  the history, the text of every result of a read-only tool is still there verbatim after the
  pass, in a result of the same tool.
\<close>

theorem dedup_keeps_a_copy:
  assumes "inj_on (jt_default_hash L) (str_bytes ` result_texts L ms)"
    and "m \<in> set ms" "Block_ToolResult i c e \<in> set (msg_content m)"
    and "tool_use_name_index ms i = Some tool" "tool \<in> set CACHEABLE_TOOLS"
    and "\<not> is_dedup_marker_text L (rendered L c)"
  shows "\<exists>m' i' c' e'. m' \<in> set (fst (dedup_read_results_by_content_hash L ms))
    \<and> Block_ToolResult i' c' e' \<in> set (msg_content m')
    \<and> rendered L c' = rendered L c \<and> tool_use_name_index ms i' = Some tool"
proof -
  let ?ms = "fst (dedup_read_results_by_content_hash L ms)"
  have k: "dedup_key L ms (Block_ToolResult i c e) = Some (tool, dedup_content_hash_hex L (str_bytes (rendered L c)))"
    using assms(4-6) by (simp add: Let_def)
  have "Block_ToolResult i c e \<in> set (concat (map msg_content ms))" using assms(2,3) by auto
  from dedup_kept [OF this k] obtain b' where b': "(b', b') \<in> set (zip (concat (map msg_content (rev ms))) (concat (map msg_content (rev ?ms))))"
      "dedup_key L ms b' = Some (tool, dedup_content_hash_hex L (str_bytes (rendered L c)))" by blast
  from set_zip_leftD [OF b'(1)] set_zip_rightD [OF b'(1)]
  obtain m0 m' where m: "m0 \<in> set ms" "b' \<in> set (msg_content m0)" "m' \<in> set ?ms" "b' \<in> set (msg_content m')"
    by auto
  obtain i' c' e' where B: "b' = Block_ToolResult i' c' e'" using b'(2) by (cases b') auto
  have h: "jt_default_hash L (str_bytes (rendered L c')) = jt_default_hash L (str_bytes (rendered L c))"
      and t: "tool_use_name_index ms i' = Some tool"
    using b'(2) by (auto simp: B Let_def dedup_content_hash_hex_def hex16_inject split: if_splits option.splits)
  have "rendered L c' \<in> result_texts L ms" "rendered L c \<in> result_texts L ms"
    using m(1,2) assms(2,3) by (auto simp: B result_texts_def)
  with inj_onD [OF assms(1) h] have "str_bytes (rendered L c') = str_bytes (rendered L c)" by blast
  then have "rendered L c' = rendered L c" by (simp add: str_bytes_inject)
  with m(3,4) t show ?thesis by (auto simp: B)
qed

lemma message_assistant_ids [simp]:
  "message_tool_use_ids (message_assistant t) = []" "message_tool_result_ids (message_assistant t) = []"
  by (simp_all add: message_assistant_def message_tool_use_ids_def message_tool_result_ids_def List.map_filter_def)

lemma summary_applied:
  assumes "\<not> summary_refused ms text s e"
  shows "\<exists>t. fst (apply_message_summary L ms (Summary_Messages text s e)) = take s ms @ [message_assistant t] @ drop e ms"
proof -
  have len: "length (take s ms) = s" using assms by (auto simp: summary_refused_def)
  have "(take s ms @ [x] @ ys)[s := y] = take s ms @ [y] @ ys" for x y ys
    using len by (metis append_Cons append_Nil list_update_length)
  then show ?thesis
    using assms by (auto simp: apply_message_summary_def summary_message_def Let_def)
qed

text \<open>
  Property C32: a summary replaces exactly its range and breaks no tool call off from its result.
  The range chosen for a summary is always accepted when it is applied; the accepted range is
  replaced by one assistant message of text, the messages before and after it stay as they are,
  and tool uses and results are still paired.
\<close>

theorem summary_keeps_pairing:
  assumes "results_paired [] ms" "uses_paired ms"
    and "select_summary_range ms = Some (s, e)" "\<not> is_blank text"
    and "ms' = fst (apply_message_summary L ms (Summary_Messages text s e))"
  shows "(\<exists>t. ms' = take s ms @ [message_assistant t] @ drop e ms)
    \<and> results_paired [] ms' \<and> uses_paired ms' \<and> length ms' + 3 \<le> length ms"
proof -
  note r = range_bounds [OF assms(3)]
  have "\<not> summary_refused ms text s e" using r assms(4) by (auto simp: summary_refused_def)
  from summary_applied [OF this, of L] obtain t where t: "ms' = take s ms @ [message_assistant t] @ drop e ms"
    using assms(5) by blast
  moreover have "results_paired [] ms' \<and> uses_paired ms'"
    unfolding t using r by (intro splice_pairing [OF assms(1,2)]) simp_all
  moreover have "length ms' + 3 \<le> length ms" using r by (simp add: t)
  ultimately show ?thesis by blast
qed

text \<open>
  A concrete history with a file read twice, and libraries for it: a printer of constant text, a
  parser that accepts nothing and a hasher by length.
\<close>

definition demo_text :: json_text where
  "demo_text = \<lparr> jt_to_string = (\<lambda>_. Inr ''{}''), jt_from_str = (\<lambda>_. Inl (SerdeSyntax ''expected value'')),
     jt_display = (\<lambda>_. ''{}''), jt_debug = (\<lambda>_. ''{}''),
     jt_default_hash = (\<lambda>bs. of_nat (length bs)) \<rparr>"

definition read_use :: "string \<Rightarrow> message" where
  "read_use i = \<lparr> msg_role = Role_Assistant,
     msg_content = [Block_ToolUse i ''read_file'' (J_Object [(''path'', J_String ''a.rs'')])] \<rparr>"

definition read_result :: "string \<Rightarrow> string \<Rightarrow> message" where
  "read_result i t = \<lparr> msg_role = Role_User, msg_content = [Block_ToolResult i (Content_Text t) False] \<rparr>"

definition demo_reads :: "message list" where
  "demo_reads =
    [message_user ''go'', read_use ''1'', read_result ''1'' ''fn main'', read_use ''2'', read_result ''2'' ''mod a'',
     read_use ''3'', read_result ''3'' ''fn main'', message_assistant ''done'']"

lemma demo_reads_index: "tool_use_name_index demo_reads ''1'' = Some ''read_file''"
  by (simp add: tool_use_name_index_def tool_use_entries_def demo_reads_def read_use_def read_result_def
      message_user_def message_assistant_def List.map_filter_def)

lemma demo_reads_paired: "results_paired [] demo_reads" "uses_paired demo_reads"
  by (simp_all add: demo_reads_def read_use_def read_result_def message_user_def message_assistant_def
      message_tool_use_ids_def message_tool_result_ids_def List.map_filter_def)

theorem dedup_keeps_a_copy_witness:
  "\<exists>m' i' c' e'. m' \<in> set (fst (dedup_read_results_by_content_hash demo_text demo_reads))
    \<and> Block_ToolResult i' c' e' \<in> set (msg_content m')
    \<and> rendered demo_text c' = rendered demo_text (Content_Text ''fn main'')
    \<and> tool_use_name_index demo_reads i' = Some ''read_file''"
proof (rule dedup_keeps_a_copy)
  have "result_texts demo_text demo_reads \<subseteq> {''fn main'', ''mod a''}"
    by (auto simp: result_texts_def demo_reads_def read_use_def read_result_def message_user_def
        message_assistant_def rendered_def)
  moreover have "inj_on (jt_default_hash demo_text) (str_bytes ` {''fn main'', ''mod a''})"
    by (simp add: demo_text_def str_bytes_def)
  ultimately show "inj_on (jt_default_hash demo_text) (str_bytes ` result_texts demo_text demo_reads)"
    by (blast intro: inj_on_subset)
  show "read_result ''1'' ''fn main'' \<in> set demo_reads" by (simp add: demo_reads_def)
  show "Block_ToolResult ''1'' (Content_Text ''fn main'') False \<in> set (msg_content (read_result ''1'' ''fn main''))"
    by (simp add: read_result_def)
  show "tool_use_name_index demo_reads ''1'' = Some ''read_file''" by (rule demo_reads_index)
  show "''read_file'' \<in> set CACHEABLE_TOOLS" by (simp add: CACHEABLE_TOOLS_def)
  show "\<not> is_dedup_marker_text demo_text (rendered demo_text (Content_Text ''fn main''))"
    by (simp add: is_dedup_marker_text_def demo_text_def)
qed

lemma demo_reads_range: "select_summary_range demo_reads = Some (1, 5)"
  by code_simp

theorem summary_keeps_pairing_witness:
  "results_paired [] (fst (apply_message_summary demo_text demo_reads (Summary_Messages ''read twice'' 1 5)))
   \<and> length (fst (apply_message_summary demo_text demo_reads (Summary_Messages ''read twice'' 1 5))) + 3 \<le> 8"
proof -
  have "\<not> is_blank ''read twice''" by (simp add: is_blank_def)
  from summary_keeps_pairing [OF demo_reads_paired demo_reads_range this refl, of demo_text]
  show ?thesis by (simp add: demo_reads_def)
qed

section \<open>Sizes\<close>

text \<open>
  Truncation keeps whole characters from both ends and at most the allowed number of
  them, with a marker in between; for ASCII text the result is at most 66 bytes over the limit.
\<close>

theorem truncate_bounds:
  assumes "n < length s" "length s < 2 ^ 64"
  shows "\<exists>a b. a + b \<le> n \<and> truncate_content s n h t =
      concat (take a (chars s)) @ truncation_marker (length s - (a + b)) @ concat (drop (length (chars s) - b) (chars s))
    \<and> (ascii s \<longrightarrow> length (truncate_content s n h t) \<le> n + 66)"
proof -
  obtain a b where ab: "a + b \<le> n" and tr: "truncate_content s n h t =
      concat (take a (chars s)) @ truncation_marker (length s - (a + b)) @ concat (drop (length (chars s) - b) (chars s))"
    using truncate_form [OF assms(1)] .
  have "length (truncate_content s n h t) \<le> n + 66" if "ascii s"
  proof -
    have "length s - (a + b) < 10 ^ 20" using assms(2) by simp
    from length_nat_str [OF this] have "length (truncation_marker (length s - (a + b))) \<le> 66"
      by (simp add: length_marker)
    with ab show ?thesis
      unfolding tr chars_ascii [OF that] by (simp add: take_map drop_map concat_map_singleton)
  qed
  with ab tr show ?thesis by blast
qed

theorem truncate_bounds_witness:
  "length (truncate_content (replicate 300 CHR ''a'') 200 None None) \<le> 266"
  using truncate_bounds [of 200 "replicate 300 CHR ''a''" None None] by (auto simp: ascii_def list_all_iff)

definition cjk_text :: string where
  "cjk_text = concat (replicate 200 [CHR 0xE4, CHR 0xB8, CHR 0x96])"

lemma cjk_chars: "chars cjk_text = replicate 200 [CHR 0xE4, CHR 0xB8, CHR 0x96]" "length cjk_text = 600"
proof -
  have "list_all one_char (replicate 200 [CHR 0xE4, CHR 0xB8, CHR 0x96])"
    by (simp add: list_all_iff one_char_def is_continuation_def)
  from chars_concat [OF this] show "chars cjk_text = replicate 200 [CHR 0xE4, CHR 0xB8, CHR 0x96]"
    by (simp add: cjk_text_def)
  show "length cjk_text = 600" by (simp add: cjk_text_def length_concat sum_list_replicate)
qed

text \<open>
  Truncation can make text longer.  The limit is compared with a number of bytes but
  cuts characters, so for text of three-byte characters head and tail overlap and 600 bytes become
  more than 1000 at the aggressive tier; and at the micro tier the marker makes a result that is
  one byte over its limit longer than it was.
\<close>

theorem truncate_can_grow:
  "length (truncate_content cjk_text (cfg_tool_result_max_chars config_aggressive) None None) > 1000
   \<and> length cjk_text = 600
   \<and> length (truncate_content (replicate 201 CHR ''a'') (cfg_tool_result_max_chars config_micro) (Some 6000) (Some 3000)) > 201"
proof -
  have h: "head_tail_split 500 None None = (166, 166)" "head_tail_split 200 (Some 6000) (Some 3000) = (133, 67)"
    by (simp_all add: head_tail_split_def Let_def sat_mul_def usize_max_def)
  have "length (truncate_content cjk_text 500 None None) = 996 + length (truncation_marker 268)"
    by (simp add: truncate_content_def cjk_chars h Let_def length_concat sum_list_replicate min_def)
  moreover have "ascii (replicate 201 CHR ''a'')" by (simp add: ascii_def list_all_iff)
  then have "length (truncate_content (replicate 201 CHR ''a'') 200 (Some 6000) (Some 3000)) = 200 + length (truncation_marker 1)"
    by (simp add: truncate_content_def h Let_def chars_ascii concat_map_singleton length_concat sum_list_replicate)
  ultimately show ?thesis
    by (simp add: config_aggressive_def config_micro_def cjk_chars length_marker)
qed

section \<open>Pressure and tiers\<close>

definition at_least_as_strict :: "compaction_config \<Rightarrow> compaction_config \<Rightarrow> bool" where
  "at_least_as_strict c d =
    (cfg_tool_result_max_chars c \<le> cfg_tool_result_max_chars d \<and> cfg_text_max_chars c \<le> cfg_text_max_chars d
     \<and> cfg_preserve_recent c \<le> cfg_preserve_recent d)"

lemma thresholds_light: "tier_thresholds ! 4 < tier_thresholds ! 3"
  unfolding tier_thresholds_def by code_simp

lemma context_pressure_bounds: "0 \<le> context_pressure policy" "context_pressure policy \<le> 1"
  by (auto simp: context_pressure_def Let_def unat_gt_0 f64_div_def [symmetric] intro!: f64_ratio_le_1 split: option.splits)
    (simp_all add: f64_div_def)

lemma context_pressure_mono:
  assumes "pol_estimated_context_tokens policy \<le> e"
  shows "context_pressure policy \<le> context_pressure (policy \<lparr> pol_estimated_context_tokens := e \<rparr>)"
proof -
  have m: "f64_div (f64_of_nat (min (min (unat x + r) k) (unat c))) (f64_of_nat (unat c))
      \<le> f64_div (f64_of_nat (min (min (unat y + r) k) (unat c))) (f64_of_nat (unat c))"
    if "x \<le> y" "c \<noteq> 0" for x y c :: u64 and r k
  proof (intro f64_div_mono f64_of_nat_mono min.mono order_refl)
    show "unat x + r \<le> unat y + r" using that(1) by (simp add: word_le_nat_alt)
    show "0 < f64_of_nat (unat c)" using f64_of_nat_ge_1 [of "unat c"] that(2) by (simp add: unat_gt_0)
  qed
  have "max x (pol_estimated_context_tokens policy) \<le> max x e" for x
    using assms by (simp add: max.coboundedI2)
  with m show ?thesis
    using assms by (auto simp: context_pressure_def Let_def split: option.splits)
qed

text \<open>
  The pressure of a request is a number between 0 and 1, and it never falls when the
  estimate of the context grows.
\<close>

theorem pressure_bounds:
  assumes "pol_estimated_context_tokens policy \<le> e"
  shows "0 \<le> effective_pressure L ms policy \<and> effective_pressure L ms policy \<le> 1
    \<and> effective_pressure L ms policy \<le> effective_pressure L ms (policy \<lparr> pol_estimated_context_tokens := e \<rparr>)"
proof -
  have "request_body_cap (policy \<lparr> pol_estimated_context_tokens := e \<rparr>) = request_body_cap policy"
    by (simp add: request_body_cap_def split: option.splits)
  then obtain c where c: "effective_pressure L ms policy = min (max (context_pressure policy) c) 1"
      "effective_pressure L ms (policy \<lparr> pol_estimated_context_tokens := e \<rparr>) =
         min (max (context_pressure (policy \<lparr> pol_estimated_context_tokens := e \<rparr>)) c) 1"
    by (auto simp: effective_pressure_def Let_def split: option.splits)
  show ?thesis
    using context_pressure_mono [OF assms] context_pressure_bounds(1) [of policy]
    unfolding c by (auto simp: min_def max_def)
qed

theorem pressure_bounds_witness:
  "effective_pressure demo_text demo_reads policy_default_values
     \<le> effective_pressure demo_text demo_reads (policy_default_values \<lparr> pol_estimated_context_tokens := 9000 \<rparr>)"
  using pressure_bounds [of policy_default_values 9000] by (simp add: policy_default_values_def)

text \<open>
  More pressure selects a tier that keeps no more, with one exception: just below the
  30 percent threshold the history tier truncates harder and preserves fewer messages than the
  light tier above it.
\<close>

theorem tiers_ordered_but_history:
  assumes "p \<le> q" "tier_for p = Some c" "tier_for q = Some d"
  shows "(at_least_as_strict d c \<or> c = config_history \<and> d = config_light)
    \<and> tier_for (tier_thresholds ! 4) = Some config_history \<and> tier_for (tier_thresholds ! 3) = Some config_light
    \<and> \<not> at_least_as_strict config_light config_history"
proof -
  have "at_least_as_strict d c \<or> c = config_history \<and> d = config_light"
    using assms unfolding tier_for_def at_least_as_strict_def
    by (auto simp: config_micro_def config_aggressive_def config_moderate_def config_light_def config_history_def
        split: if_splits)
  moreover have "tier_thresholds ! 3 < tier_thresholds ! 2 \<and> tier_thresholds ! 2 < tier_thresholds ! 1
      \<and> tier_thresholds ! 1 < tier_thresholds ! 0"
    unfolding tier_thresholds_def by code_simp
  ultimately show ?thesis
    using thresholds_light
    by (auto simp: tier_for_def at_least_as_strict_def config_light_def config_history_def)
qed

theorem tiers_ordered_but_history_witness: "at_least_as_strict config_micro config_aggressive"
proof -
  have "tier_for (tier_thresholds ! 1) = Some config_aggressive" "tier_for 1 = Some config_micro"
    unfolding tier_for_def tier_thresholds_def by code_simp+
  moreover have "tier_thresholds ! 1 \<le> 1" unfolding tier_thresholds_def by code_simp
  ultimately show ?thesis
    using tiers_ordered_but_history [of "tier_thresholds ! 1" 1 config_aggressive config_micro]
    by (simp add: config_micro_def config_light_def)
qed

end
