(* ===== verification/Redaction.thy ===== *)
theory Redaction
  imports Compaction_Laws
begin

text \<open>
  Redaction for storage (\<open>aura-context-compaction/src/messages.rs\<close>, \<open>tools.rs\<close>): the structured
  redaction marker, the summary of write-tool inputs, the loop that shrinks an oversized tool input
  while keeping it a JSON object, the cap on stored tool results, and the compaction of the tool
  surface.
\<close>

section \<open>Redaction markers\<close>

(* src/crates/aura-context-compaction/src/messages.rs:199-210 RedactionMarker *)
datatype redaction_marker = Marker_WriteContent | Marker_EditOld | Marker_EditNew | Marker_StorageBlob

definition json_usize :: "nat \<Rightarrow> json" where
  "json_usize n = J_Number (JN_PosInt (of_nat n))"

fun json_as_u64 :: "json \<Rightarrow> u64 option" where
  "json_as_u64 (J_Number (JN_PosInt n)) = Some n"
| "json_as_u64 _ = None"

(* src/crates/aura-context-compaction/src/messages.rs:292-294 entry_without_kind *)
definition entry_without_kind :: "string \<Rightarrow> nat \<Rightarrow> json" where
  "entry_without_kind field n = J_Object [(''bytes'', json_usize n), (''field'', J_String field)]"

definition redaction_fields :: "json list \<Rightarrow> json" where
  "redaction_fields entries =
    J_Object [(''fields'', J_Array entries), (''kind'', J_String ''aura_compaction_redaction''),
              (''version'', J_Number (JN_PosInt 1))]"

(* src/crates/aura-context-compaction/src/messages.rs:228-265 RedactionMarker::mark *)
fun merged_redaction :: "json option \<Rightarrow> string \<Rightarrow> nat \<Rightarrow> json" where
  "merged_redaction (Some (J_Object existing)) field n =
    (case map_of existing ''fields'' of
       Some (J_Array entries) \<Rightarrow> redaction_fields (entries @ [entry_without_kind field n])
     | _ \<Rightarrow>
        (case (Option.bind (map_of existing ''field'') json_as_str, Option.bind (map_of existing ''bytes'') json_as_u64) of
           (Some f, Some b) \<Rightarrow>
             redaction_fields [J_Object [(''bytes'', J_Number (JN_PosInt b)), (''field'', J_String f)],
                               entry_without_kind field n]
         | _ \<Rightarrow> merged_redaction None field n))"
| "merged_redaction (Some other) field n = other"
| "merged_redaction None field n =
    J_Object [(''bytes'', json_usize n), (''field'', J_String field),
              (''kind'', J_String ''aura_compaction_redaction''), (''version'', J_Number (JN_PosInt 1))]"

(* src/crates/aura-context-compaction/src/messages.rs:212-269 RedactionMarker::mark *)
fun mark :: "json \<Rightarrow> string \<Rightarrow> nat \<Rightarrow> json" where
  "mark (J_Object source) field n =
    (let marked = btm_remove field source in
     J_Object (btm_insert ''_redacted'' (merged_redaction (map_of marked ''_redacted'') field n)
                 (btm_remove ''_redacted'' marked)))"
| "mark other field n = other"

(* src/crates/aura-context-compaction/src/messages.rs:271-289 RedactionMarker::is_marker *)
function is_marker :: "json \<Rightarrow> bool" where
  "is_marker (J_Object m) =
    (case map_of m ''_redacted'' of
       Some marker \<Rightarrow> is_marker marker
     | None \<Rightarrow>
        (Option.bind (map_of m ''kind'') json_as_str = Some ''aura_compaction_redaction''
         \<and> (Option.bind (map_of m ''field'') json_as_str \<noteq> None
            \<or> (case map_of m ''fields'' of Some (J_Array _) \<Rightarrow> True | _ \<Rightarrow> False))))"
| "is_marker J_Null = False"
| "is_marker (J_Bool b) = False"
| "is_marker (J_Number n) = False"
| "is_marker (J_String s) = False"
| "is_marker (J_Array xs) = False"
  by pat_completeness auto
termination
  by (relation "measure size") (auto dest!: map_of_SomeD json_object_size)

section \<open>Write-tool inputs\<close>

definition json_str_len :: "json option \<Rightarrow> nat" where
  "json_str_len v = (case Option.bind v json_as_str of Some s \<Rightarrow> length s | None \<Rightarrow> 0)"

(* src/crates/aura-context-compaction/src/messages.rs:1070-1112 summarize_write_input *)
definition summarize_write_input :: "string \<Rightarrow> json \<Rightarrow> json option" where
  "summarize_write_input tool_name input =
    (if tool_name = ''write_file''
     then (if json_get input ''content'' \<noteq> None
           then Some (mark input ''content'' (json_str_len (json_get input ''content''))) else None)
     else if tool_name = ''edit_file''
     then (let old_key = (if json_get input ''old_string'' \<noteq> None then ''old_string'' else ''old_text'');
               new_key = (if json_get input ''new_string'' \<noteq> None then ''new_string'' else ''new_text'')
           in if json_get input old_key = None \<or> json_get input new_key = None then None
              else Some (mark (mark input old_key (json_str_len (json_get input old_key)))
                          new_key (json_str_len (json_get input new_key))))
     else None)"

(* src/crates/aura-context-compaction/src/messages.rs:1114-1123 apply_summary *)
definition apply_summary :: "string \<Rightarrow> json \<Rightarrow> string option \<Rightarrow> summary_output option" where
  "apply_summary tool_name input content = map_option Summary_Input (summarize_write_input tool_name input)"

section \<open>Stored messages\<close>

(* src/crates/aura-context-compaction/src/messages.rs:29-29 SESSION_TOOL_BLOB_MAX_BYTES *)
definition SESSION_TOOL_BLOB_MAX_BYTES :: nat where
  "SESSION_TOOL_BLOB_MAX_BYTES = 8 * 1024"

fun floor_boundary :: "string \<Rightarrow> nat \<Rightarrow> nat" where
  "floor_boundary s 0 = 0"
| "floor_boundary s (Suc e) = (if is_char_boundary s (Suc e) then Suc e else floor_boundary s e)"

(* src/crates/aura-context-compaction/src/messages.rs:1134-1143 truncate_messages_for_storage::truncate_str *)
definition truncate_str :: "string \<Rightarrow> nat \<Rightarrow> string option" where
  "truncate_str s max_bytes =
    (if length s \<le> max_bytes then None
     else Some (take (floor_boundary s max_bytes) s @ ''... [truncated '' @ nat_str (length s) @ '' bytes]''))"

primrec max_by_key_last :: "('a \<Rightarrow> nat) \<Rightarrow> 'a list \<Rightarrow> 'a option" where
  "max_by_key_last f [] = None"
| "max_by_key_last f (x # xs) =
    (case max_by_key_last f xs of
       None \<Rightarrow> Some x
     | Some y \<Rightarrow> if f x \<le> f y then Some y else Some x)"

(* src/crates/aura-context-compaction/src/messages.rs:1191-1198 redact_oversized_tool_use_input *)
fun largest_string_field :: "json \<Rightarrow> (string \<times> nat) option" where
  "largest_string_field (J_Object m) =
    map_option (\<lambda>(k, v). (k, json_str_len (Some v)))
      (max_by_key_last (\<lambda>(k, v). json_str_len (Some v))
        (filter (\<lambda>(k, v). k \<noteq> ''_redacted'' \<and> (case json_as_str v of Some s \<Rightarrow> s \<noteq> [] | None \<Rightarrow> False)) m))"
| "largest_string_field _ = None"

(* src/crates/aura-context-compaction/src/messages.rs:1190-1210 redact_oversized_tool_use_input *)
function redact_loop :: "json_text \<Rightarrow> nat \<Rightarrow> json \<Rightarrow> nat \<Rightarrow> json" where
  "redact_loop L cap input serialized_len =
    (if serialized_len \<le> cap then input
     else
       (case largest_string_field input of
          None \<Rightarrow> input
        | Some (field, n) \<Rightarrow>
           (case jt_to_string L (mark input field n) of
              Inl _ \<Rightarrow> mark input field n
            | Inr s \<Rightarrow>
               (if serialized_len \<le> length s then mark input field n
                else redact_loop L cap (mark input field n) (length s)))))"
  by pat_completeness auto
termination by (relation "measure (\<lambda>(_, _, _, n). n)") auto

declare redact_loop.simps [simp del]

fun is_object :: "json \<Rightarrow> bool" where
  "is_object (J_Object _) = True"
| "is_object _ = False"

(* src/crates/aura-context-compaction/src/messages.rs:1173-1211 redact_oversized_tool_use_input *)
definition redact_oversized_tool_use_input :: "json_text \<Rightarrow> json \<Rightarrow> nat \<Rightarrow> json" where
  "redact_oversized_tool_use_input L input cap =
    (if \<not> is_object input \<or> is_marker input then input
     else (case jt_to_string L input of
             Inl _ \<Rightarrow> input
           | Inr s \<Rightarrow> redact_loop L cap input (length s)))"

(* src/crates/aura-context-compaction/src/messages.rs:1147-1167 truncate_messages_for_storage *)
fun store_block :: "json_text \<Rightarrow> content_block \<Rightarrow> content_block" where
  "store_block L (Block_ToolUse i name input) =
    Block_ToolUse i name (redact_oversized_tool_use_input L input SESSION_TOOL_BLOB_MAX_BYTES)"
| "store_block L (Block_ToolResult i (Content_Text t) e) =
    Block_ToolResult i (Content_Text (case truncate_str t SESSION_TOOL_BLOB_MAX_BYTES of Some t' \<Rightarrow> t' | None \<Rightarrow> t)) e"
| "store_block L (Block_ToolResult i (Content_Json v) e) =
    Block_ToolResult i
      (case jt_to_string L v of
         Inl _ \<Rightarrow> Content_Json v
       | Inr s \<Rightarrow> (case truncate_str s SESSION_TOOL_BLOB_MAX_BYTES of
                    Some t \<Rightarrow> Content_Text t | None \<Rightarrow> Content_Json v)) e"
| "store_block L b = b"

(* src/crates/aura-context-compaction/src/messages.rs:1125-1171 truncate_messages_for_storage *)
definition truncate_messages_for_storage :: "json_text \<Rightarrow> message list \<Rightarrow> message list" where
  "truncate_messages_for_storage L ms = map (map_blocks (store_block L)) ms"

(* src/crates/aura-context-compaction/src/messages.rs:1213-1216 compact_for_storage *)
definition compact_for_storage :: "json_text \<Rightarrow> message list \<Rightarrow> message list" where
  "compact_for_storage L ms = truncate_messages_for_storage L ms"

section \<open>Tool surface\<close>

(* src/crates/aura-core-types/src/types/reasoner_types.rs:31-51 ToolDefinition *)
record tool_definition =
  td_name :: string
  td_description :: string
  td_input_schema :: json
  td_cache_control :: "string option"
  td_eager_input_streaming :: "bool option"

(* src/crates/aura-core-types/src/types/reasoner_types.rs:53-68 ToolDefinition::new *)
definition tool_definition_new :: "string \<Rightarrow> string \<Rightarrow> json \<Rightarrow> tool_definition" where
  "tool_definition_new name description input_schema =
    \<lparr> td_name = name, td_description = description, td_input_schema = input_schema,
      td_cache_control = None, td_eager_input_streaming = None \<rparr>"

(* src/crates/aura-context-compaction/src/tools.rs:16-21 tool_definition_chars *)
definition tool_definition_chars :: "json_text \<Rightarrow> tool_definition \<Rightarrow> nat" where
  "tool_definition_chars L t = length (td_name t) + length (td_description t) + json_chars L (td_input_schema t)"

(* src/crates/aura-context-compaction/src/tools.rs:23-27 tools_chars *)
definition tools_chars :: "json_text \<Rightarrow> tool_definition list \<Rightarrow> nat" where
  "tools_chars L ts = sum_list (map (tool_definition_chars L) ts)"

fun strip_description :: "json \<Rightarrow> json" where
  "strip_description (J_Object inner) = J_Object (btm_remove ''description'' inner)"
| "strip_description v = v"

fun strip_properties :: "json \<Rightarrow> json" where
  "strip_properties (J_Object props) = J_Object (map (\<lambda>(k, v). (k, strip_description v)) props)"
| "strip_properties v = v"

fun strip_schema :: "json \<Rightarrow> json" where
  "strip_schema (J_Object m) = J_Object (map (\<lambda>(k, v). (k, if k = ''properties'' then strip_properties v else v)) m)"
| "strip_schema v = v"

(* src/crates/aura-context-compaction/src/tools.rs:29-42 compact_tools *)
definition compact_tools :: "tool_definition list \<Rightarrow> tool_definition list" where
  "compact_tools ts = map (\<lambda>t. t \<lparr> td_input_schema := strip_schema (td_input_schema t) \<rparr>) ts"

(* src/crates/aura-context-compaction/src/tools.rs:5-14 ToolSurfaceReport *)
record tool_surface_report =
  ts_tool_count :: nat
  ts_before_chars :: nat
  ts_after_chars :: nat

(* src/crates/aura-context-compaction/src/tools.rs:44-54 compact_tool_surface *)
definition compact_tool_surface :: "json_text \<Rightarrow> tool_definition list \<Rightarrow> tool_definition list \<times> tool_surface_report" where
  "compact_tool_surface L ts =
    (let ts' = compact_tools ts in
     (ts', \<lparr> ts_tool_count = length ts', ts_before_chars = tools_chars L ts, ts_after_chars = tools_chars L ts' \<rparr>))"

section \<open>Overflow steps\<close>

(* src/crates/aura-context-compaction/src/messages.rs:296-303 OverflowStep *)
record overflow_step =
  ov_tier :: compaction_config
  ov_warning :: string

(* src/crates/aura-context-compaction/src/messages.rs:305-311 OverflowStep::AGGRESSIVE *)
definition OVERFLOW_AGGRESSIVE :: overflow_step where
  "OVERFLOW_AGGRESSIVE = \<lparr> ov_tier = config_aggressive,
     ov_warning = ''Context limit reached; compacting older context, trimming response budget, and retrying.'' \<rparr>"

(* src/crates/aura-context-compaction/src/messages.rs:313-319 OverflowStep::MICRO *)
definition OVERFLOW_MICRO :: overflow_step where
  "OVERFLOW_MICRO = \<lparr> ov_tier = config_micro,
     ov_warning = ''Context is still too large; applying emergency compaction, trimming response budget again, and retrying.'' \<rparr>"

section \<open>Laws of redaction\<close>

lemma mark_object [simp]: "is_object (mark v field n) = is_object v"
  by (cases v) (simp_all add: Let_def)

lemma largest_field:
  assumes "largest_string_field (J_Object m) = Some (field, n)" "distinct (map fst m)"
  obtains s where "map_of m field = Some (J_String s)" "s \<noteq> []" "field \<noteq> ''_redacted''"
proof -
  have max_in: "max_by_key_last f xs = Some x \<Longrightarrow> x \<in> set xs" for f :: "'a \<Rightarrow> nat" and xs x
    by (induction xs arbitrary: x) (auto split: option.splits if_splits)
  obtain v where "(field, v) \<in> set m" "field \<noteq> ''_redacted''" "case json_as_str v of Some s \<Rightarrow> s \<noteq> [] | None \<Rightarrow> False"
    using assms(1) by (auto dest!: max_in split: option.splits)
  moreover from this(3) obtain s where "v = J_String s" "s \<noteq> []" by (cases v) auto
  ultimately show thesis using that assms(2) by auto
qed

text \<open>
  What a redaction may do to the fields of an input: drop string fields and set \<open>_redacted\<close>.
\<close>

definition redacts :: "(string \<times> json) list \<Rightarrow> (string \<times> json) list \<Rightarrow> bool" where
  "redacts m m' = (\<forall>k. k \<noteq> ''_redacted'' \<longrightarrow>
     map_of m' k = map_of m k \<or> map_of m' k = None \<and> Option.bind (map_of m k) json_as_str \<noteq> None)"

lemma redacts_refl [simp]: "redacts m m"
  by (simp add: redacts_def)

lemma redacts_trans: "redacts a b \<Longrightarrow> redacts b c \<Longrightarrow> redacts a c"
  unfolding redacts_def by metis

lemma mark_redacts:
  assumes "btm_inv m" "largest_string_field (J_Object m) = Some (field, n)"
  shows "\<exists>m'. mark (J_Object m) field n = J_Object m' \<and> btm_inv m' \<and> redacts m m'"
proof -
  have "distinct (map fst m)" using assms(1) by (simp add: btm_inv_def)
  from largest_field [OF assms(2) this] obtain s where s: "map_of m field = Some (J_String s)" .
  let ?b = "btm_remove ''_redacted'' (btm_remove field m)"
  have inv: "btm_inv ?b" using assms(1) by (simp add: btm_inv_remove)
  have "map_of (btm_insert ''_redacted'' v ?b) k = (if k = ''_redacted'' then Some v else if k = field then None else map_of m k)" for v k
    by (simp flip: btm_get_def)
  with s inv show ?thesis
    by (auto simp: Let_def redacts_def intro!: btm_inv_insert)
qed

definition marked_without_gain :: "json_text \<Rightarrow> json \<Rightarrow> bool" where
  "marked_without_gain L v = (\<exists>u field n. v = mark u field n \<and> json_chars L u \<le> json_chars L v)"

lemma redact_loop_spec:
  assumes "\<And>v. is_ok (jt_to_string L v)" "btm_inv m" "n = json_chars L (J_Object m)"
  shows "\<exists>m'. redact_loop L cap (J_Object m) n = J_Object m' \<and> redacts m m'
    \<and> (json_chars L (J_Object m') \<le> cap \<or> largest_string_field (J_Object m') = None
       \<or> marked_without_gain L (J_Object m'))"
  using assms(2,3)
proof (induction n arbitrary: m rule: less_induct)
  case (less n)
  show ?case
  proof (cases "n \<le> cap \<or> largest_string_field (J_Object m) = None")
    case True
    then show ?thesis
      using less.prems by (subst redact_loop.simps) (auto intro!: exI [of _ m])
  next
    case False
    then obtain field k where f: "largest_string_field (J_Object m) = Some (field, k)" "\<not> n \<le> cap" by auto
    obtain m1 where m1: "mark (J_Object m) field k = J_Object m1" "btm_inv m1" "redacts m m1"
      using mark_redacts [OF less.prems(1) f(1)] by blast
    obtain t where t: "jt_to_string L (J_Object m1) = Inr t" using assms(1) [of "J_Object m1"] by (auto simp: is_ok_iff)
    show ?thesis
    proof (cases "n \<le> length t")
      case True
      moreover have "marked_without_gain L (J_Object m1)"
        unfolding marked_without_gain_def using True less.prems(2) t m1(1)
        by (intro exI [of _ "J_Object m"] exI [of _ field] exI [of _ k]) (simp add: json_chars_def)
      ultimately show ?thesis
        using f t m1 by (subst redact_loop.simps) auto
    next
      case False
      then have "\<exists>m'. redact_loop L cap (J_Object m1) (length t) = J_Object m' \<and> redacts m1 m'
          \<and> (json_chars L (J_Object m') \<le> cap \<or> largest_string_field (J_Object m') = None \<or> marked_without_gain L (J_Object m'))"
        using m1(2) t by (intro less.IH) (auto simp: json_chars_def)
      with False f t m1 show ?thesis
        by (subst redact_loop.simps) (auto intro: redacts_trans)
    qed
  qed
qed

section \<open>Properties\<close>

text \<open>
  Redacting an oversized tool input keeps it a JSON object, drops nothing but string
  fields and only adds the \<open>_redacted\<close> summary; and it stops only when the input fits, has no string
  field left to drop, or the last redaction gained nothing.
\<close>

theorem redaction_drops_only_strings:
  assumes "\<forall>v. is_ok (jt_to_string L v)" "btm_inv m" "\<not> is_marker (J_Object m)"
  shows "\<exists>m'. redact_oversized_tool_use_input L (J_Object m) cap = J_Object m' \<and> redacts m m'
    \<and> (json_chars L (J_Object m') \<le> cap \<or> largest_string_field (J_Object m') = None
       \<or> marked_without_gain L (J_Object m'))"
proof -
  obtain t where t: "jt_to_string L (J_Object m) = Inr t" using assms(1) by (auto simp: is_ok_iff)
  with redact_loop_spec [of L m "length t" cap] assms show ?thesis
    by (simp add: redact_oversized_tool_use_input_def json_chars_def)
qed

fun stored_block :: "content_block \<Rightarrow> content_block \<Rightarrow> bool" where
  "stored_block (Block_ToolUse i name v) (Block_ToolUse j other w) = (i = j \<and> name = other \<and> is_object w = is_object v)"
| "stored_block (Block_ToolResult i _ e) (Block_ToolResult j _ f) = (i = j \<and> e = f)"
| "stored_block b c = (b = c)"

abbreviation stored :: "message \<Rightarrow> message \<Rightarrow> bool" where
  "stored \<equiv> message_rel stored_block"

lemma redact_oversized_object: "is_object (redact_oversized_tool_use_input L v cap) = is_object v"
proof -
  have "is_object (redact_loop L cap v n) = is_object v" for n
  proof (induction L cap v n rule: redact_loop.induct)
    case (1 L cap v n)
    then show ?case by (subst redact_loop.simps) (auto split: option.splits sum.splits)
  qed
  then show ?thesis by (simp add: redact_oversized_tool_use_input_def split: sum.splits)
qed

lemma store_block_stored: "stored_block b (store_block L b)"
proof (cases b)
  case (Block_ToolResult i c e)
  then show ?thesis by (cases c) simp_all
qed (simp_all add: redact_oversized_object)

lemma stored_block_ids:
  "stored_block b c \<Longrightarrow> block_use_id b = block_use_id c \<and> block_result_id b = block_result_id c"
  by (cases b; cases c) auto

interpretation storage: block_rewriting stored_block
  by unfold_locales (simp_all add: stored_block_ids)

text \<open>
  Property C33: what is stored can be sent again.  Every message keeps its role and blocks, tool
  uses keep identifier and name and their input stays a JSON object if it was one, tool results keep
  the call they answer and their error flag; so the stored history is accepted by the provider
  exactly when the live one was.
\<close>

theorem storage_keeps_wire_format:
  "list_all2 stored ms (compact_for_storage L ms)
   \<and> valid_history (compact_for_storage L ms) = valid_history ms"
proof -
  have "list_all2 stored ms (compact_for_storage L ms)"
    unfolding compact_for_storage_def truncate_messages_for_storage_def
    by (intro messages_rel_map store_block_stored)
  with storage.valid [OF this] show ?thesis by blast
qed

lemma floor_boundary_spec:
  "floor_boundary s n \<le> n \<and> is_char_boundary s (floor_boundary s n)
   \<and> (\<forall>i. floor_boundary s n < i \<and> i \<le> n \<longrightarrow> \<not> is_char_boundary s i)"
proof (induction n)
  case (Suc n)
  then show ?case by (auto simp: le_Suc_eq)
qed (auto simp: is_char_boundary_def)

text \<open>
  A stored tool result is cut between characters: it is the longest prefix of whole
  characters within the limit, followed by a note of the original size.
\<close>

theorem storage_cut_whole_chars:
  assumes "truncate_str s n = Some t"
  shows "\<exists>k e. t = concat (take k (chars s)) @ ''... [truncated '' @ nat_str (length s) @ '' bytes]''
    \<and> length (concat (take k (chars s))) = e \<and> e \<le> n
    \<and> (\<forall>i. e < i \<and> i \<le> n \<longrightarrow> \<not> is_char_boundary s i)"
proof -
  have n: "n < length s" and t: "t = take (floor_boundary s n) s @ ''... [truncated '' @ nat_str (length s) @ '' bytes]''"
    using assms by (auto simp: truncate_str_def split: if_splits)
  note b = floor_boundary_spec [of s n]
  then obtain k where k: "take (floor_boundary s n) s = concat (take k (chars s))"
    using take_boundary [of s "floor_boundary s n"] n by auto
  then have "length (concat (take k (chars s))) = floor_boundary s n"
    using b n by (metis length_take min.absorb2 order.strict_implies_order order.trans)
  with b t k show ?thesis by (intro exI [of _ k] exI [of _ "floor_boundary s n"]) auto
qed

theorem storage_cut_whole_chars_witness:
  "\<exists>k e. the (truncate_str cjk_text 500) = concat (take k (chars cjk_text)) @ ''... [truncated '' @ nat_str (length cjk_text) @ '' bytes]''
    \<and> length (concat (take k (chars cjk_text))) = e \<and> e \<le> 500
    \<and> (\<forall>i. e < i \<and> i \<le> 500 \<longrightarrow> \<not> is_char_boundary cjk_text i)"
proof (rule storage_cut_whole_chars)
  show "truncate_str cjk_text 500 = Some (the (truncate_str cjk_text 500))"
    by (simp add: truncate_str_def cjk_chars)
qed

theorem redaction_drops_only_strings_witness:
  "\<exists>m'. redact_oversized_tool_use_input demo_text (J_Object [(''content'', J_String ''fn main'')]) 1 = J_Object m'
    \<and> redacts [(''content'', J_String ''fn main'')] m'
    \<and> (json_chars demo_text (J_Object m') \<le> 1 \<or> largest_string_field (J_Object m') = None
       \<or> marked_without_gain demo_text (J_Object m'))"
  by (rule redaction_drops_only_strings) (simp_all add: demo_text_def btm_inv_def)

end
