(* ===== verification/Store_Keys.thy ===== *)
theory Store_Keys
  imports Core_Types
begin

text \<open>
  The key layer of \<open>aura-store-db\<close>: the storage errors, the byte encodings of the three key
  families (record, agent metadata, inbox) and their decoders with every rejection.  The locale
  \<open>key_codec\<close> is the contract of the trait \<open>KeyCodec\<close>; \<open>seq_key_codec\<close> extends it with the order
  law that range scans rely on: encoded keys of one family sort by agent, then by sequence number.
\<close>

section \<open>Storage errors\<close>

(* src/crates/aura-store-db/src/error.rs:11-63 StoreError *)
datatype store_error =
    StoreError_RocksDb string
  | StoreError_Serialization string
  | StoreError_Deserialization string
  | StoreError_AgentNotFound agent_id
  | StoreError_RecordEntryNotFound agent_id u64
  | StoreError_TransactionNotFound hash
  | StoreError_InboxEmpty agent_id
  | StoreError_SequenceMismatch (sm_expected: u64) (sm_actual: u64)
  | StoreError_ColumnFamilyNotFound string
  | StoreError_InvalidKey string
  | StoreError_InboxCorruption (ic_agent_id: agent_id) (ic_expected_seq: u64)

(* src/crates/aura-store-db/src/error.rs:65-69 From<serde_json::Error> for StoreError *)
definition store_error_of_serde :: "serde_error \<Rightarrow> store_error" where
  "store_error_of_serde e = StoreError_Serialization (serde_message e)"

section \<open>Key families\<close>

(* src/crates/aura-store-db/src/keys/mod.rs:43-51 prefix *)
definition PREFIX_RECORD :: u8 where "PREFIX_RECORD = 0x52"

definition PREFIX_AGENT_META :: u8 where "PREFIX_AGENT_META = 0x4D"

definition PREFIX_INBOX :: u8 where "PREFIX_INBOX = 0x51"

(* src/crates/aura-store-db/src/keys/mod.rs:53-70 MetaField *)
datatype meta_field =
    MetaField_HeadSeq
  | MetaField_InboxHead
  | MetaField_InboxTail
  | MetaField_Status
  | MetaField_SchemaVersion
  | MetaField_ProcessingClaim

(* src/crates/aura-store-db/src/keys/mod.rs:72-77 MetaField::as_byte *)
fun meta_field_as_byte :: "meta_field \<Rightarrow> u8" where
  "meta_field_as_byte MetaField_HeadSeq = 0"
| "meta_field_as_byte MetaField_InboxHead = 1"
| "meta_field_as_byte MetaField_InboxTail = 2"
| "meta_field_as_byte MetaField_Status = 3"
| "meta_field_as_byte MetaField_SchemaVersion = 4"
| "meta_field_as_byte MetaField_ProcessingClaim = 5"

(* src/crates/aura-store-db/src/keys/mod.rs:79-93 MetaField::from_byte *)
definition meta_field_from_byte :: "u8 \<Rightarrow> meta_field option" where
  "meta_field_from_byte b =
    (if b = 0 then Some MetaField_HeadSeq
     else if b = 1 then Some MetaField_InboxHead
     else if b = 2 then Some MetaField_InboxTail
     else if b = 3 then Some MetaField_Status
     else if b = 4 then Some MetaField_SchemaVersion
     else if b = 5 then Some MetaField_ProcessingClaim
     else None)"

(* src/crates/aura-store-db/src/keys/mod.rs:107-119 RecordKey *)
datatype record_key = RecordKey (rk_agent_id: agent_id) (rk_seq: u64)

(* src/crates/aura-store-db/src/keys/mod.rs:141-148 RecordKey::encode *)
fun record_key_encode :: "record_key \<Rightarrow> bytes" where
  "record_key_encode (RecordKey agent_id seq) =
    [PREFIX_RECORD] @ agent_id_as_bytes agent_id @ u64_to_be_bytes seq"

(* src/crates/aura-store-db/src/keys/mod.rs:150-170 RecordKey::decode *)
definition record_key_decode :: "bytes \<Rightarrow> (store_error, record_key) result" where
  "record_key_decode bs =
    (if length bs \<noteq> 1 + 32 + 8 then Inl (StoreError_InvalidKey ''invalid record key length'')
     else if bs ! 0 \<noteq> PREFIX_RECORD then Inl (StoreError_InvalidKey ''invalid record key prefix'')
     else Inr (RecordKey (AgentId (array32_of_bytes (take 32 (drop 1 bs))))
                         (u64_from_be_bytes (take 8 (drop 33 bs)))))"

(* src/crates/aura-store-db/src/keys/mod.rs:128-132 RecordKey::scan_end *)
definition scan_end :: "agent_id \<Rightarrow> bytes" where
  "scan_end agent_id = record_key_encode (RecordKey agent_id (- 1))"

(* src/crates/aura-store-db/src/keys/mod.rs:134-138 RecordKey::scan_from *)
definition scan_from :: "agent_id \<Rightarrow> u64 \<Rightarrow> bytes" where
  "scan_from agent_id from_seq = record_key_encode (RecordKey agent_id from_seq)"

(* src/crates/aura-store-db/src/keys/mod.rs:172-215 AgentMetaKey *)
datatype agent_meta_key = AgentMetaKey (mk_agent_id: agent_id) (mk_field: meta_field)

(* src/crates/aura-store-db/src/keys/mod.rs:217-224 AgentMetaKey::encode *)
fun agent_meta_key_encode :: "agent_meta_key \<Rightarrow> bytes" where
  "agent_meta_key_encode (AgentMetaKey agent_id field) =
    [PREFIX_AGENT_META] @ agent_id_as_bytes agent_id @ [meta_field_as_byte field]"

(* src/crates/aura-store-db/src/keys/mod.rs:226-249 AgentMetaKey::decode *)
definition agent_meta_key_decode :: "bytes \<Rightarrow> (store_error, agent_meta_key) result" where
  "agent_meta_key_decode bs =
    (if length bs \<noteq> 1 + 32 + 1 then Inl (StoreError_InvalidKey ''invalid agent meta key length'')
     else if bs ! 0 \<noteq> PREFIX_AGENT_META
       then Inl (StoreError_InvalidKey ''invalid agent meta key prefix'')
     else res_bind (ok_or (StoreError_InvalidKey ''invalid meta field'') (meta_field_from_byte (bs ! 33)))
       (\<lambda>field. Inr (AgentMetaKey (AgentId (array32_of_bytes (take 32 (drop 1 bs)))) field)))"

(* src/crates/aura-store-db/src/keys/mod.rs:251-266 InboxKey *)
datatype inbox_key = InboxKey (ik_agent_id: agent_id) (ik_inbox_seq: u64)

(* src/crates/aura-store-db/src/keys/mod.rs:283-290 InboxKey::encode *)
fun inbox_key_encode :: "inbox_key \<Rightarrow> bytes" where
  "inbox_key_encode (InboxKey agent_id inbox_seq) =
    [PREFIX_INBOX] @ agent_id_as_bytes agent_id @ u64_to_be_bytes inbox_seq"

(* src/crates/aura-store-db/src/keys/mod.rs:292-312 InboxKey::decode *)
definition inbox_key_decode :: "bytes \<Rightarrow> (store_error, inbox_key) result" where
  "inbox_key_decode bs =
    (if length bs \<noteq> 1 + 32 + 8 then Inl (StoreError_InvalidKey ''invalid inbox key length'')
     else if bs ! 0 \<noteq> PREFIX_INBOX then Inl (StoreError_InvalidKey ''invalid inbox key prefix'')
     else Inr (InboxKey (AgentId (array32_of_bytes (take 32 (drop 1 bs))))
                        (u64_from_be_bytes (take 8 (drop 33 bs)))))"

section \<open>Contracts\<close>

locale key_codec =
  fixes encode :: "'k \<Rightarrow> bytes" and decode :: "bytes \<Rightarrow> (store_error, 'k) result"
  assumes decode_encode: "decode (encode k) = Inr k"
    and encode_decode: "decode bs = Inr k \<Longrightarrow> encode k = bs"
begin

lemma encode_eq_iff: "encode j = encode k \<longleftrightarrow> j = k"
  by (metis decode_encode sum.inject(2))

lemma decode_iff: "decode bs = Inr k \<longleftrightarrow> bs = encode k"
  using decode_encode encode_decode by blast

lemma rejects_iff: "(\<exists>e. decode bs = Inl e) \<longleftrightarrow> bs \<notin> range encode"
  by (metis decode_iff old.sum.exhaust rangeE rangeI sum.distinct(1))

end

locale seq_key_codec = key_codec encode decode
  for encode :: "'k \<Rightarrow> bytes" and decode :: "bytes \<Rightarrow> (store_error, 'k) result" +
  fixes agent_of :: "'k \<Rightarrow> agent_id" and seq_of :: "'k \<Rightarrow> u64"
  assumes encode_less_iff: "encode j < encode k \<longleftrightarrow>
      agent_id_as_bytes (agent_of j) < agent_id_as_bytes (agent_of k) \<or>
      agent_of j = agent_of k \<and> seq_of j < seq_of k"
begin

lemma encode_le_iff: "encode j \<le> encode k \<longleftrightarrow>
    agent_id_as_bytes (agent_of j) < agent_id_as_bytes (agent_of k) \<or>
    agent_of j = agent_of k \<and> seq_of j \<le> seq_of k"
  using encode_less_iff [of k j] agent_id_as_bytes_inject [of "agent_of j" "agent_of k"]
  by (metis linorder_cases linorder_not_less order.asym)

text \<open>What lies between two keys of one agent belongs to that agent, in sequence order.\<close>

lemma between_same_agent:
  assumes "agent_of lo = a" "agent_of hi = a" "encode lo \<le> encode k" "encode k \<le> encode hi"
  shows "agent_of k = a \<and> seq_of lo \<le> seq_of k \<and> seq_of k \<le> seq_of hi"
  using assms encode_le_iff [of lo k] encode_le_iff [of k hi] by (auto dest: order.asym)

end

section \<open>The three codecs meet their contracts\<close>

lemma meta_field_roundtrip [simp, codec_simps]: "meta_field_from_byte (meta_field_as_byte f) = Some f"
  by (cases f) (simp_all add: meta_field_from_byte_def)

lemma meta_field_from_byte_Some: "meta_field_from_byte b = Some f \<Longrightarrow> meta_field_as_byte f = b"
  by (auto simp: meta_field_from_byte_def split: if_splits)

lemma meta_field_as_byte_inject [simp]: "meta_field_as_byte f = meta_field_as_byte g \<longleftrightarrow> f = g"
  by (metis meta_field_roundtrip option.inject)

lemma split_prefix_agent:
  assumes "length bs = 1 + 32 + n"
  shows "[bs ! 0] @ take 32 (drop 1 bs) @ take n (drop 33 bs) = bs"
proof -
  have "bs = hd bs # tl bs" using assms by (cases bs) auto
  moreover have "take n (drop 33 bs) = drop 32 (drop 1 bs)" using assms by simp
  ultimately show ?thesis
    by (metis append_Cons append_Nil append_take_drop_id drop_Suc_Cons drop0 One_nat_def nth_Cons_0)
qed

lemma agent_id_as_bytes_of: "length bs = 32 \<Longrightarrow> agent_id_as_bytes (AgentId (array32_of_bytes bs)) = bs"
  by (simp add: agent_id_as_bytes_def array32_bytes_of)

lemma record_key_less:
  "record_key_encode j < record_key_encode k \<longleftrightarrow>
   agent_id_as_bytes (rk_agent_id j) < agent_id_as_bytes (rk_agent_id k) \<or>
   rk_agent_id j = rk_agent_id k \<and> rk_seq j < rk_seq k"
  by (cases j; cases k) (simp add: append_less_same_length u64_be_less_iff)

lemma inbox_key_less:
  "inbox_key_encode j < inbox_key_encode k \<longleftrightarrow>
   agent_id_as_bytes (ik_agent_id j) < agent_id_as_bytes (ik_agent_id k) \<or>
   ik_agent_id j = ik_agent_id k \<and> ik_inbox_seq j < ik_inbox_seq k"
  by (cases j; cases k) (simp add: append_less_same_length u64_be_less_iff)

interpretation rec_key: seq_key_codec record_key_encode record_key_decode rk_agent_id rk_seq
proof unfold_locales
  show "record_key_decode (record_key_encode k) = Inr k" for k
    by (cases k) (simp add: record_key_decode_def)
  show "record_key_encode k = bs" if "record_key_decode bs = Inr k" for bs k
    using that split_prefix_agent [of bs 8]
    by (auto simp: record_key_decode_def agent_id_as_bytes_of u64_to_from_be split: if_splits)
qed (rule record_key_less)

interpretation inb_key: seq_key_codec inbox_key_encode inbox_key_decode ik_agent_id ik_inbox_seq
proof unfold_locales
  show "inbox_key_decode (inbox_key_encode k) = Inr k" for k
    by (cases k) (simp add: inbox_key_decode_def)
  show "inbox_key_encode k = bs" if "inbox_key_decode bs = Inr k" for bs k
    using that split_prefix_agent [of bs 8]
    by (auto simp: inbox_key_decode_def agent_id_as_bytes_of u64_to_from_be split: if_splits)
qed (rule inbox_key_less)

interpretation meta_key: key_codec agent_meta_key_encode agent_meta_key_decode
proof unfold_locales
  show "agent_meta_key_decode (agent_meta_key_encode k) = Inr k" for k
    by (cases k) (simp add: agent_meta_key_decode_def nth_append)
  show "agent_meta_key_encode k = bs" if "agent_meta_key_decode bs = Inr k" for bs k
  proof -
    have len: "length bs = 1 + 32 + 1"
      using that by (auto simp: agent_meta_key_decode_def split: if_splits)
    then have "take 1 (drop 33 bs) = [bs ! 33]"
      using Cons_nth_drop_Suc [of 33 bs] by simp
    with that split_prefix_agent [OF len] len show ?thesis
      by (auto simp: agent_meta_key_decode_def res_bind_Inr_iff ok_or_def agent_id_as_bytes_of
          split: if_splits option.splits dest!: meta_field_from_byte_Some)
  qed
qed

lemma meta_key_inject [simp]:
  "agent_meta_key_encode (AgentMetaKey a f) = agent_meta_key_encode (AgentMetaKey b g) \<longleftrightarrow> a = b \<and> f = g"
  using meta_key.encode_eq_iff [of "AgentMetaKey a f" "AgentMetaKey b g"] by simp

lemmas record_key_inject [simp] = rec_key.encode_eq_iff
lemmas inbox_key_inject [simp] = inb_key.encode_eq_iff

declare record_key_encode.simps [simp del] inbox_key_encode.simps [simp del]
  agent_meta_key_encode.simps [simp del]

lemma scan_range_bounds:
  "scan_from a from_seq \<le> record_key_encode k \<and> record_key_encode k < scan_end a \<longleftrightarrow>
   rk_agent_id k = a \<and> from_seq \<le> rk_seq k \<and> rk_seq k < - 1"
  using rec_key.encode_le_iff [of "RecordKey a from_seq" k]
    rec_key.encode_less_iff [of k "RecordKey a (- 1)"]
  by (auto simp: scan_from_def scan_end_def dest: order.asym)

section \<open>Properties\<close>

text \<open>
  The record, inbox and metadata key encodings round-trip, reject exactly the byte
  strings that are no key of their family, and the families never collide.
\<close>

theorem key_codecs_roundtrip:
  "(record_key_decode bs = Inr rk \<longleftrightarrow> bs = record_key_encode rk)
   \<and> (inbox_key_decode bs = Inr ik \<longleftrightarrow> bs = inbox_key_encode ik)
   \<and> (agent_meta_key_decode bs = Inr mk \<longleftrightarrow> bs = agent_meta_key_encode mk)
   \<and> record_key_encode rk \<noteq> inbox_key_encode ik
   \<and> record_key_encode rk \<noteq> agent_meta_key_encode mk
   \<and> inbox_key_encode ik \<noteq> agent_meta_key_encode mk"
  by (cases rk; cases ik; cases mk)
    (simp add: rec_key.decode_iff inb_key.decode_iff meta_key.decode_iff
      record_key_encode.simps inbox_key_encode.simps agent_meta_key_encode.simps
      PREFIX_RECORD_def PREFIX_INBOX_def PREFIX_AGENT_META_def)

text \<open>
  Between the scan bounds of an agent lie exactly that agent's record keys from the
  requested sequence number on, and byte order on them is sequence order.  This is what lets a
  range scan over the column family serve one agent's log in order.
\<close>

theorem scan_range_exact:
  "(scan_from a from_seq \<le> record_key_encode k \<and> record_key_encode k < scan_end a \<longleftrightarrow>
    rk_agent_id k = a \<and> from_seq \<le> rk_seq k \<and> rk_seq k < - 1)
   \<and> (record_key_encode (RecordKey a m) < record_key_encode (RecordKey a n) \<longleftrightarrow> m < n)"
  by (simp add: scan_range_bounds record_key_less)

end
