(* ===== verification/Seal.thy ===== *)
theory Seal
  imports Core_Types
begin

text \<open>
  The sealed value format of \<open>aura-store-db\<close>: the versioned envelope around an AES-256-GCM
  ciphertext and its parser with every rejection.  The cipher itself is a parameter, an \<open>aead\<close>
  value; \<open>aead_ok\<close> states what the format relies on: decryption inverts encryption under the same
  nonce, and a ciphertext carries a 16-byte tag.  A nonce drawn from the operating system is an
  argument of the operation that draws it.
\<close>

record aead =
  aead_encrypt :: "bytes \<Rightarrow> bytes \<Rightarrow> bytes option"
  aead_decrypt :: "bytes \<Rightarrow> bytes \<Rightarrow> bytes option"

definition aead_ok :: "aead \<Rightarrow> bool" where
  "aead_ok A = (\<forall>nonce plain c. aead_encrypt A nonce plain = Some c \<longrightarrow>
     aead_decrypt A nonce c = Some plain \<and> length c = length plain + 16)"

(* src/crates/aura-store-db/src/seal.rs:47-51 SEAL_MAGIC *)
definition SEAL_MAGIC :: bytes where
  "SEAL_MAGIC = str_bytes ''AURASEAL''"

definition SEAL_VERSION :: u8 where
  "SEAL_VERSION = 1"

(* src/crates/aura-store-db/src/seal.rs:53-57 HEADER_LEN *)
definition HEADER_LEN :: nat where
  "HEADER_LEN = 8 + 1 + 12"

definition TAG_LEN :: nat where
  "TAG_LEN = 16"

(* src/crates/aura-store-db/src/seal.rs:59-74 SealError *)
datatype seal_error =
    SealError_Seal
  | SealError_NotSealed
  | SealError_UnsupportedVersion u8
  | SealError_Open

fun seal_error_display :: "seal_error \<Rightarrow> string" where
  "seal_error_display SealError_Seal = ''failed to seal value''"
| "seal_error_display SealError_NotSealed =
    ''value is not in the sealed format (missing/invalid header)''"
| "seal_error_display (SealError_UnsupportedVersion v) =
    ''unsupported sealed format version '' @ nat_str (unat v)"
| "seal_error_display SealError_Open =
    ''failed to open sealed value (wrong key or tampered data)''"

(* src/crates/aura-store-db/src/seal.rs:109-113 SealCipher::is_sealed *)
definition is_sealed :: "bytes \<Rightarrow> bool" where
  "is_sealed bs = (length SEAL_MAGIC \<le> length bs \<and> take (length SEAL_MAGIC) bs = SEAL_MAGIC)"

(* src/crates/aura-store-db/src/seal.rs:115-132 SealCipher::seal *)
definition seal :: "aead \<Rightarrow> 96 word \<Rightarrow> bytes \<Rightarrow> (seal_error, bytes) result" where
  "seal A nonce plaintext =
    res_bind (ok_or SealError_Seal (aead_encrypt A (to_be 12 (unat nonce)) plaintext)) (\<lambda>ciphertext.
      Inr (SEAL_MAGIC @ [SEAL_VERSION] @ to_be 12 (unat nonce) @ ciphertext))"

(* src/crates/aura-store-db/src/seal.rs:134-152 SealCipher::open *)
definition open_sealed :: "aead \<Rightarrow> bytes \<Rightarrow> (seal_error, bytes) result" where
  "open_sealed A sealed =
    (if length sealed < HEADER_LEN + TAG_LEN \<or> \<not> is_sealed sealed then Inl SealError_NotSealed
     else
       let version = sealed ! length SEAL_MAGIC in
       if version \<noteq> SEAL_VERSION then Inl (SealError_UnsupportedVersion version)
       else
         let nonce = take (HEADER_LEN - (length SEAL_MAGIC + 1)) (drop (length SEAL_MAGIC + 1) sealed) in
         ok_or SealError_Open (aead_decrypt A nonce (drop HEADER_LEN sealed)))"

section \<open>Lemmas\<close>

lemma length_SEAL_MAGIC [simp]: "length SEAL_MAGIC = 8"
  by (simp add: SEAL_MAGIC_def str_bytes_def)

lemma open_seal:
  assumes "aead_ok A" "seal A nonce plain = Inr sealed"
  shows "open_sealed A sealed = Inr plain"
proof -
  obtain c where c: "aead_encrypt A (to_be 12 (unat nonce)) plain = Some c"
      and s: "sealed = SEAL_MAGIC @ [SEAL_VERSION] @ to_be 12 (unat nonce) @ c"
    using assms(2) by (auto simp: seal_def res_bind_Inr_iff ok_or_def split: option.splits)
  have d: "aead_decrypt A (to_be 12 (unat nonce)) c = Some plain" "length c = length plain + 16"
    using assms(1) c by (auto simp: aead_ok_def)
  then show ?thesis
    by (simp add: s open_sealed_def is_sealed_def HEADER_LEN_def TAG_LEN_def nth_append)
qed

section \<open>Properties\<close>

text \<open>
  A sealed value opens to its plaintext, whatever the nonce drawn; and opening
  accepts nothing that lacks the magic, the full header and tag, or the current version, naming
  which of these failed.
\<close>

theorem seal_roundtrip:
  assumes "aead_ok A"
  shows "(seal A nonce plain = Inr sealed \<longrightarrow> open_sealed A sealed = Inr plain)
    \<and> (open_sealed A bs = Inr p \<longrightarrow>
        37 \<le> length bs \<and> take 8 bs = SEAL_MAGIC \<and> bs ! 8 = SEAL_VERSION
        \<and> aead_decrypt A (take 12 (drop 9 bs)) (drop 21 bs) = Some p)"
  using open_seal [OF assms]
  by (auto simp: open_sealed_def is_sealed_def HEADER_LEN_def TAG_LEN_def Let_def ok_or_def
      split: if_splits option.splits)

definition toy_aead :: aead where
  "toy_aead =
    \<lparr> aead_encrypt = (\<lambda>nonce plain. Some (plain @ replicate 16 0)),
      aead_decrypt = (\<lambda>nonce c. Some (take (length c - 16) c)) \<rparr>"

lemma toy_aead_ok: "aead_ok toy_aead"
  by (simp add: aead_ok_def toy_aead_def)

theorem seal_roundtrip_witness:
  "\<exists>sealed. seal toy_aead 7 [1, 2, 3] = Inr sealed \<and> open_sealed toy_aead sealed = Inr [1, 2, 3]"
proof -
  have "\<exists>sealed. seal toy_aead 7 [1, 2, 3] = Inr sealed"
    by (simp add: seal_def toy_aead_def)
  then show ?thesis
    using seal_roundtrip [OF toy_aead_ok] by blast
qed

end
