(* ===== verification/Rocks_Store.thy ===== *)
theory Rocks_Store
  imports Store_Keys Seal
begin

text \<open>
  The durable store of \<open>aura-store-db\<close>: \<open>RocksStore\<close> with every operation of the traits
  \<open>ReadStore\<close> and \<open>WriteStore\<close>, written over the database library it drives.

  The library is a parameter: a \<open>rocksdb\<close> value holds the calls the store makes (handle lookup,
  point read, batch write, iteration from a key), each of which may fail.  The hypothesis
  \<open>rocksdb_ok\<close> states its documented behaviour over a view of the contents as a map per column
  family: reads return what the view holds, a batch is applied completely or not at all, and an
  iterator yields the entries from the start key in byte order until it ends or fails.

  An operation runs on the state \<open>rocks_state\<close> (the database and the number of random nonces drawn
  so far).  The two mutexes of the store make an append and a claim one atomic step each, so each
  operation is one function on the state; \<open>enqueue_tx\<close> takes no lock, and is therefore also split
  into its read half and its write half.
\<close>

section \<open>The database library\<close>

(* src/crates/aura-store-db/src/lib.rs:46-86 cf *)
datatype cf =
    CF_RECORD
  | CF_AGENT_META
  | CF_INBOX
  | CF_MEMORY_FACTS
  | CF_MEMORY_EVENTS
  | CF_MEMORY_PROCEDURES
  | CF_MEMORY_EVENT_INDEX
  | CF_MEMORY_CONFIG
  | CF_AGENT_SKILLS
  | CF_RUNTIME_CAPABILITIES
  | CF_USER_TOOL_DEFAULTS
  | CF_SECRETS
  | CF_PROCESSES
  | CF_PROCESS_RUNS

fun cf_name :: "cf \<Rightarrow> string" where
  "cf_name CF_RECORD = ''record''"
| "cf_name CF_AGENT_META = ''agent_meta''"
| "cf_name CF_INBOX = ''inbox''"
| "cf_name CF_MEMORY_FACTS = ''memory_facts''"
| "cf_name CF_MEMORY_EVENTS = ''memory_events''"
| "cf_name CF_MEMORY_PROCEDURES = ''memory_procedures''"
| "cf_name CF_MEMORY_EVENT_INDEX = ''memory_event_index''"
| "cf_name CF_MEMORY_CONFIG = ''memory_config''"
| "cf_name CF_AGENT_SKILLS = ''agent_skills''"
| "cf_name CF_RUNTIME_CAPABILITIES = ''runtime_capabilities''"
| "cf_name CF_USER_TOOL_DEFAULTS = ''user_tool_defaults''"
| "cf_name CF_SECRETS = ''secrets''"
| "cf_name CF_PROCESSES = ''processes''"
| "cf_name CF_PROCESS_RUNS = ''process_runs''"

datatype batch_op = Put cf bytes bytes | Delete cf bytes

datatype direction = Forward | Reverse

type_synonym view = "cf \<Rightarrow> bytes \<Rightarrow> bytes option"

record 'db rocksdb =
  db_cf_handle :: "'db \<Rightarrow> cf \<Rightarrow> bool"
  db_get_cf :: "'db \<Rightarrow> cf \<Rightarrow> bytes \<Rightarrow> (string, bytes option) result"
  db_write_opt :: "bool \<Rightarrow> batch_op list \<Rightarrow> 'db \<Rightarrow> (string, unit) result \<times> 'db"
  db_iterator :: "'db \<Rightarrow> cf \<Rightarrow> bytes \<Rightarrow> direction \<Rightarrow> (string, bytes \<times> bytes) result list"

fun apply_op :: "batch_op \<Rightarrow> view \<Rightarrow> view" where
  "apply_op (Put c k v) W = W(c := (W c)(k := Some v))"
| "apply_op (Delete c k) W = W(c := (W c)(k := None))"

definition apply_batch :: "batch_op list \<Rightarrow> view \<Rightarrow> view" where
  "apply_batch ops W = fold apply_op ops W"

text \<open>The entries an iterator yields: everything from the start key on, in order.\<close>

definition iter_entries :: "(bytes \<Rightarrow> bytes option) \<Rightarrow> bytes \<Rightarrow> direction \<Rightarrow> (bytes \<times> bytes) list \<Rightarrow> bool" where
  "iter_entries W start dir L =
    (distinct (map fst L)
     \<and> (case dir of
          Forward \<Rightarrow> sorted (map fst L) \<and> set L = {(k, v). W k = Some v \<and> start \<le> k}
        | Reverse \<Rightarrow> sorted (rev (map fst L)) \<and> set L = {(k, v). W k = Some v \<and> k \<le> start}))"

definition rocksdb_ok :: "'db rocksdb \<Rightarrow> ('db \<Rightarrow> view) \<Rightarrow> bool" where
  "rocksdb_ok R V =
    ((\<forall>db c k v. db_get_cf R db c k = Inr v \<longrightarrow> v = V db c k)
     \<and> (\<forall>sync ops db db'. db_write_opt R sync ops db = (Inr (), db') \<longrightarrow> V db' = apply_batch ops (V db))
     \<and> (\<forall>sync ops db e db'. db_write_opt R sync ops db = (Inl e, db') \<longrightarrow> V db' = V db)
     \<and> (\<forall>db c start dir. \<exists>L. iter_entries (V db c) start dir L \<and>
          (db_iterator R db c start dir = map Inr L
           \<or> (\<exists>n e rest. db_iterator R db c start dir = map Inr (take n L) @ Inl e # rest))))"

section \<open>The store\<close>

record 'db store_env =
  st_rocksdb :: "'db rocksdb"
  st_serde :: serde_json
  st_sync_writes :: bool
  st_cipher :: "aead option"
  st_nonce :: "nat \<Rightarrow> 96 word"

(* src/crates/aura-store-db/src/rocks_store/mod.rs:55-86 RocksStore *)
record 'db rocks_state =
  rk_db :: 'db
  rk_draws :: nat

type_synonym ('db, 'a) store_act = "('db rocks_state, store_error, 'a) act"

(* src/crates/aura-store-db/src/rocks_store/mod.rs:189-197 RocksStore::seal_value *)
definition seal_value :: "'db store_env \<Rightarrow> bytes \<Rightarrow> ('db, bytes) store_act" where
  "seal_value E plain = (\<lambda>s.
    case st_cipher E of
      Some cipher \<Rightarrow>
        (res_map_err (\<lambda>e. StoreError_Serialization (''sealing value: '' @ seal_error_display e))
           (seal cipher (st_nonce E (rk_draws s)) plain),
         s \<lparr> rk_draws := Suc (rk_draws s) \<rparr>)
    | None \<Rightarrow> (Inr plain, s))"

(* src/crates/aura-store-db/src/rocks_store/mod.rs:199-208 RocksStore::open_value *)
definition open_value :: "'db store_env \<Rightarrow> bytes \<Rightarrow> (store_error, bytes) result" where
  "open_value E bs =
    (case st_cipher E of
      Some cipher \<Rightarrow>
        res_map_err (\<lambda>e. StoreError_Deserialization (''opening sealed value: '' @ seal_error_display e))
          (open_sealed cipher bs)
    | None \<Rightarrow> Inr bs)"

(* src/crates/aura-store-db/src/rocks_store/mod.rs:210-215 RocksStore::cf *)
definition cf_handle :: "'db store_env \<Rightarrow> cf \<Rightarrow> ('db, cf) store_act" where
  "cf_handle E c = (\<lambda>s.
    if db_cf_handle (st_rocksdb E) (rk_db s) c then (Inr c, s)
    else (Inl (StoreError_ColumnFamilyNotFound (cf_name c)), s))"

definition get_cf :: "'db store_env \<Rightarrow> cf \<Rightarrow> bytes \<Rightarrow> ('db, bytes option) store_act" where
  "get_cf E c k = (\<lambda>s. (res_map_err StoreError_RocksDb (db_get_cf (st_rocksdb E) (rk_db s) c k), s))"

(* src/crates/aura-store-db/src/rocks_store/mod.rs:224-229 RocksStore::write_opts *)
definition write_batch :: "'db store_env \<Rightarrow> batch_op list \<Rightarrow> ('db, unit) store_act" where
  "write_batch E ops = (\<lambda>s.
    case db_write_opt (st_rocksdb E) (st_sync_writes E) ops (rk_db s) of
      (r, db') \<Rightarrow> (res_map_err StoreError_RocksDb r, s \<lparr> rk_db := db' \<rparr>))"

definition encode_value :: "'db store_env \<Rightarrow> 'a codec \<Rightarrow> 'a \<Rightarrow> ('db, bytes) store_act" where
  "encode_value E c x =
    try_then (lift_res (res_map_err store_error_of_serde (to_vec c x))) (seal_value E)"

definition decode_value :: "'db store_env \<Rightarrow> 'a codec \<Rightarrow> (string \<Rightarrow> string) \<Rightarrow> bytes \<Rightarrow> (store_error, 'a) result" where
  "decode_value E c msg bs =
    res_bind (open_value E bs) (\<lambda>plain.
      res_map_err (\<lambda>e. StoreError_Deserialization (msg (serde_message e))) (from_slice c plain))"

(* src/crates/aura-store-db/src/rocks_store/mod.rs:270-285 RocksStore::read_meta_u64 *)
definition read_meta_u64 :: "'db store_env \<Rightarrow> agent_meta_key \<Rightarrow> ('db, u64) store_act" where
  "read_meta_u64 E key =
    try_then (cf_handle E CF_AGENT_META) (\<lambda>c.
    try_then (get_cf E c (agent_meta_key_encode key)) (\<lambda>v.
      case v of
        Some bs \<Rightarrow>
          if length bs \<noteq> 8 then err (StoreError_Deserialization ''invalid u64 bytes'')
          else ok (u64_from_be_bytes bs)
      | None \<Rightarrow> ok 0))"

(* src/crates/aura-store-db/src/rocks_store/mod.rs:287-289 RocksStore::runtime_capability_key *)
definition runtime_capability_key :: "agent_id \<Rightarrow> bytes" where
  "runtime_capability_key a = agent_id_as_bytes a"

(* src/crates/aura-store-db/src/rocks_store/mod.rs:512-516 RocksStore::get_head_seq *)
definition get_head_seq :: "'db store_env \<Rightarrow> agent_id \<Rightarrow> ('db, u64) store_act" where
  "get_head_seq E a = read_meta_u64 E (AgentMetaKey a MetaField_HeadSeq)"

(* src/crates/aura-store-db/src/rocks_store/mod.rs:291-305 RocksStore::assert_next_seq *)
definition assert_next_seq :: "'db store_env \<Rightarrow> agent_id \<Rightarrow> u64 \<Rightarrow> ('db, unit) store_act" where
  "assert_next_seq E a next_seq =
    try_then (get_head_seq E a) (\<lambda>current_head.
      if next_seq \<noteq> current_head + 1
      then err (StoreError_SequenceMismatch (current_head + 1) next_seq)
      else ok ())"

(* src/crates/aura-store-db/src/rocks_store/mod.rs:307-329 RocksStore::append_record_and_head_to_batch *)
definition append_record_and_head_to_batch ::
  "'db store_env \<Rightarrow> batch_op list \<Rightarrow> agent_id \<Rightarrow> u64 \<Rightarrow> record_entry \<Rightarrow> ('db, batch_op list) store_act" where
  "append_record_and_head_to_batch E batch a next_seq entry =
    try_then (cf_handle E CF_RECORD) (\<lambda>cf_record.
    try_then (cf_handle E CF_AGENT_META) (\<lambda>cf_meta.
    try_then (encode_value E (sj_record_entry (st_serde E)) entry) (\<lambda>entry_bytes.
      ok (batch @
        [Put cf_record (record_key_encode (RecordKey a next_seq)) entry_bytes,
         Put cf_meta (agent_meta_key_encode (AgentMetaKey a MetaField_HeadSeq)) (u64_to_be_bytes next_seq)]))))"

(* src/crates/aura-store-db/src/rocks_store/mod.rs:331-363 RocksStore::apply_runtime_capability_ops_to_batch *)
definition apply_runtime_capability_ops_to_batch ::
  "'db store_env \<Rightarrow> batch_op list \<Rightarrow> agent_id \<Rightarrow> runtime_capability_install option \<Rightarrow> bool \<Rightarrow>
   ('db, batch_op list) store_act" where
  "apply_runtime_capability_ops_to_batch E batch a runtime_capabilities clear =
    try_then (cf_handle E CF_RUNTIME_CAPABILITIES) (\<lambda>cf_rc.
      let batch1 = (if clear then batch @ [Delete cf_rc (runtime_capability_key a)] else batch) in
      case runtime_capabilities of
        Some rc \<Rightarrow>
          try_then (encode_value E (sj_runtime_capability (st_serde E)) rc) (\<lambda>bs.
            ok (batch1 @ [Put cf_rc (runtime_capability_key a) bs]))
      | None \<Rightarrow> ok batch1)"

(* src/crates/aura-store-db/src/rocks_store/mod.rs:365-391 RocksStore::append_entry_direct_internal *)
definition append_entry_direct_internal ::
  "'db store_env \<Rightarrow> agent_id \<Rightarrow> u64 \<Rightarrow> record_entry \<Rightarrow> runtime_capability_install option \<Rightarrow> bool \<Rightarrow>
   ('db, unit) store_act" where
  "append_entry_direct_internal E a next_seq entry rc clear =
    try_then (assert_next_seq E a next_seq) (\<lambda>_.
    try_then (append_record_and_head_to_batch E [] a next_seq entry) (\<lambda>batch.
    try_then (apply_runtime_capability_ops_to_batch E batch a rc clear) (\<lambda>batch.
      write_batch E batch)))"

(* src/crates/aura-store-db/src/rocks_store/mod.rs:393-435 RocksStore::append_entry_atomic_internal *)
definition append_entry_atomic_internal ::
  "'db store_env \<Rightarrow> agent_id \<Rightarrow> u64 \<Rightarrow> record_entry \<Rightarrow> u64 \<Rightarrow> runtime_capability_install option \<Rightarrow> bool \<Rightarrow>
   ('db, unit) store_act" where
  "append_entry_atomic_internal E a next_seq entry dequeued_inbox_seq rc clear =
    try_then (cf_handle E CF_AGENT_META) (\<lambda>cf_meta.
    try_then (cf_handle E CF_INBOX) (\<lambda>cf_inbox.
    try_then (assert_next_seq E a next_seq) (\<lambda>_.
    try_then (append_record_and_head_to_batch E [] a next_seq entry) (\<lambda>batch.
      let batch = batch @
        [Delete cf_inbox (inbox_key_encode (InboxKey a dequeued_inbox_seq)),
         Put cf_meta (agent_meta_key_encode (AgentMetaKey a MetaField_InboxHead))
           (u64_to_be_bytes (dequeued_inbox_seq + 1))] in
    try_then (apply_runtime_capability_ops_to_batch E batch a rc clear) (\<lambda>batch.
      write_batch E batch)))))"

section \<open>Inbox\<close>

(* src/crates/aura-store-db/src/store.rs:34-49 DequeueToken *)
datatype dequeue_token = DequeueToken (token_inbox_seq: u64)

(* src/crates/aura-store-db/src/rocks_store/mod.rs:449-466 RocksStore::enqueue_tx *)
definition enqueue_tx_prepare :: "'db store_env \<Rightarrow> transaction \<Rightarrow> ('db, batch_op list) store_act" where
  "enqueue_tx_prepare E tx =
    try_then (cf_handle E CF_INBOX) (\<lambda>cf_inbox.
    try_then (cf_handle E CF_AGENT_META) (\<lambda>cf_meta.
      let tail_key = AgentMetaKey (tx_agent_id tx) MetaField_InboxTail in
    try_then (read_meta_u64 E tail_key) (\<lambda>tail.
    try_then (encode_value E (sj_transaction (st_serde E)) tx) (\<lambda>tx_bytes.
      ok [Put cf_inbox (inbox_key_encode (InboxKey (tx_agent_id tx) tail)) tx_bytes,
          Put cf_meta (agent_meta_key_encode tail_key) (u64_to_be_bytes (tail + 1))]))))"

(* src/crates/aura-store-db/src/rocks_store/mod.rs:449-472 RocksStore::enqueue_tx *)
definition enqueue_tx :: "'db store_env \<Rightarrow> transaction \<Rightarrow> ('db, unit) store_act" where
  "enqueue_tx E tx = try_then (enqueue_tx_prepare E tx) (write_batch E)"

(* src/crates/aura-store-db/src/rocks_store/mod.rs:474-510 RocksStore::dequeue_tx *)
definition dequeue_tx ::
  "'db store_env \<Rightarrow> agent_id \<Rightarrow> ('db, (dequeue_token \<times> transaction) option) store_act" where
  "dequeue_tx E a =
    try_then (cf_handle E CF_INBOX) (\<lambda>cf_inbox.
    try_then (read_meta_u64 E (AgentMetaKey a MetaField_InboxHead)) (\<lambda>head.
    try_then (read_meta_u64 E (AgentMetaKey a MetaField_InboxTail)) (\<lambda>tail.
      if tail \<le> head then ok None
      else
        try_then (get_cf E cf_inbox (inbox_key_encode (InboxKey a head))) (\<lambda>v.
          case v of
            Some bs \<Rightarrow>
              try_then (lift_res (decode_value E (sj_transaction (st_serde E)) id bs)) (\<lambda>tx.
                ok (Some (DequeueToken head, tx)))
          | None \<Rightarrow> err (StoreError_InboxCorruption a head)))))"

(* src/crates/aura-store-db/src/rocks_store/mod.rs:673-678 RocksStore::has_pending_tx *)
definition has_pending_tx :: "'db store_env \<Rightarrow> agent_id \<Rightarrow> ('db, bool) store_act" where
  "has_pending_tx E a =
    try_then (read_meta_u64 E (AgentMetaKey a MetaField_InboxHead)) (\<lambda>head.
    try_then (read_meta_u64 E (AgentMetaKey a MetaField_InboxTail)) (\<lambda>tail.
      ok (head < tail)))"

(* src/crates/aura-store-db/src/rocks_store/mod.rs:680-685 RocksStore::get_inbox_depth *)
definition get_inbox_depth :: "'db store_env \<Rightarrow> agent_id \<Rightarrow> ('db, u64) store_act" where
  "get_inbox_depth E a =
    try_then (read_meta_u64 E (AgentMetaKey a MetaField_InboxHead)) (\<lambda>head.
    try_then (read_meta_u64 E (AgentMetaKey a MetaField_InboxTail)) (\<lambda>tail.
      ok (if head \<le> tail then tail - head else 0)))"

section \<open>Reading the record log\<close>

text \<open>
  The loop over the iterator, shared by the two scans, which differ in the key test that ends it
  (at or past the agent's end key going forward, below its first key going backward).
\<close>

(* src/crates/aura-store-db/src/rocks_store/mod.rs:534-561 RocksStore::scan_record *)
fun scan_loop ::
  "'db store_env \<Rightarrow> agent_id \<Rightarrow> (bytes \<Rightarrow> bool) \<Rightarrow> nat \<Rightarrow> record_entry list \<Rightarrow>
   (string, bytes \<times> bytes) result list \<Rightarrow> (store_error, record_entry list) result" where
  "scan_loop E a past limit entries [] = Inr entries"
| "scan_loop E a past limit entries (Inl e # items) = Inl (StoreError_RocksDb e)"
| "scan_loop E a past limit entries (Inr (key, value) # items) =
    (if past key then Inr entries
     else
       res_bind (record_key_decode key) (\<lambda>record_key.
         if rk_agent_id record_key \<noteq> a then Inr entries
         else
           res_bind (decode_value E (sj_record_entry (st_serde E))
                       (\<lambda>m. ''record seq='' @ nat_str (unat (rk_seq record_key)) @ '': '' @ m) value) (\<lambda>entry.
             if limit \<le> length (entries @ [entry]) then Inr (entries @ [entry])
             else scan_loop E a past limit (entries @ [entry]) items)))"

(* src/crates/aura-store-db/src/rocks_store/mod.rs:518-562 RocksStore::scan_record *)
definition scan_record :: "'db store_env \<Rightarrow> agent_id \<Rightarrow> u64 \<Rightarrow> nat \<Rightarrow> ('db, record_entry list) store_act" where
  "scan_record E a from_seq limit =
    try_then (cf_handle E CF_RECORD) (\<lambda>c. \<lambda>s.
      (scan_loop E a (\<lambda>key. scan_end a \<le> key) limit []
         (db_iterator (st_rocksdb E) (rk_db s) c (scan_from a from_seq) Forward), s))"

(* src/crates/aura-store-db/src/rocks_store/mod.rs:564-609 RocksStore::scan_record_descending *)
definition scan_record_descending ::
  "'db store_env \<Rightarrow> agent_id \<Rightarrow> u64 \<Rightarrow> nat \<Rightarrow> ('db, record_entry list) store_act" where
  "scan_record_descending E a from_seq limit =
    (if from_seq = 0 \<or> limit = 0 then ok []
     else
       try_then (cf_handle E CF_RECORD) (\<lambda>c. \<lambda>s.
         (scan_loop E a (\<lambda>key. key < scan_from a 1) limit []
            (db_iterator (st_rocksdb E) (rk_db s) c (scan_from a from_seq) Reverse), s)))"

(* src/crates/aura-store-db/src/rocks_store/mod.rs:611-625 RocksStore::get_record_entry *)
definition get_record_entry :: "'db store_env \<Rightarrow> agent_id \<Rightarrow> u64 \<Rightarrow> ('db, record_entry) store_act" where
  "get_record_entry E a seq =
    try_then (cf_handle E CF_RECORD) (\<lambda>c.
    try_then (get_cf E c (record_key_encode (RecordKey a seq))) (\<lambda>v.
      case v of
        Some bs \<Rightarrow> lift_res (decode_value E (sj_record_entry (st_serde E)) id bs)
      | None \<Rightarrow> err (StoreError_RecordEntryNotFound a seq)))"

section \<open>Agent metadata and defaults\<close>

(* src/crates/aura-store-db/src/rocks_store/mod.rs:627-642 RocksStore::get_agent_status *)
definition get_agent_status :: "'db store_env \<Rightarrow> agent_id \<Rightarrow> ('db, agent_status) store_act" where
  "get_agent_status E a =
    try_then (cf_handle E CF_AGENT_META) (\<lambda>c.
    try_then (get_cf E c (agent_meta_key_encode (AgentMetaKey a MetaField_Status))) (\<lambda>v.
      case v of
        Some bs \<Rightarrow>
          if bs = [] then ok AgentStatus_Active
          else lift_res (ok_or (StoreError_Deserialization ''invalid agent status'')
                 (status_from_byte (bs ! 0)))
      | None \<Rightarrow> ok AgentStatus_Active))"

(* src/crates/aura-store-db/src/rocks_store/mod.rs:663-671 RocksStore::set_agent_status *)
definition set_agent_status :: "'db store_env \<Rightarrow> agent_id \<Rightarrow> agent_status \<Rightarrow> ('db, unit) store_act" where
  "set_agent_status E a status =
    try_then (cf_handle E CF_AGENT_META) (\<lambda>c.
      write_batch E [Put c (agent_meta_key_encode (AgentMetaKey a MetaField_Status)) [status_as_byte status]])"

(* src/crates/aura-store-db/src/rocks_store/mod.rs:644-661 RocksStore::get_runtime_capabilities *)
definition get_runtime_capabilities ::
  "'db store_env \<Rightarrow> agent_id \<Rightarrow> ('db, runtime_capability_install option) store_act" where
  "get_runtime_capabilities E a =
    try_then (cf_handle E CF_RUNTIME_CAPABILITIES) (\<lambda>c.
    try_then (get_cf E c (runtime_capability_key a)) (\<lambda>v.
      case v of
        Some bs \<Rightarrow>
          try_then (lift_res (decode_value E (sj_runtime_capability (st_serde E)) id bs)) (\<lambda>rc. ok (Some rc))
      | None \<Rightarrow> ok None))"

(* src/crates/aura-store-db/src/rocks_store/mod.rs:687-702 RocksStore::get_user_tool_defaults *)
definition get_user_tool_defaults ::
  "'db store_env \<Rightarrow> string \<Rightarrow> ('db, user_tool_defaults option) store_act" where
  "get_user_tool_defaults E user_id =
    try_then (cf_handle E CF_USER_TOOL_DEFAULTS) (\<lambda>c.
    try_then (get_cf E c (str_bytes user_id)) (\<lambda>v.
      case v of
        Some bs \<Rightarrow>
          try_then (lift_res (decode_value E (sj_user_tool_defaults (st_serde E)) id bs)) (\<lambda>d. ok (Some d))
      | None \<Rightarrow> ok None))"

(* src/crates/aura-store-db/src/rocks_store/mod.rs:704-715 RocksStore::put_user_tool_defaults *)
definition put_user_tool_defaults ::
  "'db store_env \<Rightarrow> string \<Rightarrow> user_tool_defaults \<Rightarrow> ('db, unit) store_act" where
  "put_user_tool_defaults E user_id defaults =
    try_then (cf_handle E CF_USER_TOOL_DEFAULTS) (\<lambda>c.
    try_then (encode_value E (sj_user_tool_defaults (st_serde E)) defaults) (\<lambda>bs.
      write_batch E [Put c (str_bytes user_id) bs]))"

(* src/crates/aura-store-db/src/rocks_store/mod.rs:717-723 RocksStore::delete_user_tool_defaults *)
definition delete_user_tool_defaults :: "'db store_env \<Rightarrow> string \<Rightarrow> ('db, unit) store_act" where
  "delete_user_tool_defaults E user_id =
    try_then (cf_handle E CF_USER_TOOL_DEFAULTS) (\<lambda>c. write_batch E [Delete c (str_bytes user_id)])"

section \<open>Processing claims\<close>

(* src/crates/aura-store-db/src/rocks_store/mod.rs:437-439 RocksStore::processing_claim_key *)
definition processing_claim_key :: "agent_id \<Rightarrow> bytes" where
  "processing_claim_key a = agent_meta_key_encode (AgentMetaKey a MetaField_ProcessingClaim)"

(* src/crates/aura-store-db/src/rocks_store/mod.rs:725-740 RocksStore::try_claim_agent_processing *)
definition try_claim_agent_processing :: "'db store_env \<Rightarrow> agent_id \<Rightarrow> ('db, bool) store_act" where
  "try_claim_agent_processing E a =
    try_then (cf_handle E CF_AGENT_META) (\<lambda>c.
    try_then (get_cf E c (processing_claim_key a)) (\<lambda>v.
      if v \<noteq> None then ok False
      else try_then (write_batch E [Put c (processing_claim_key a) [1]]) (\<lambda>_. ok True)))"

(* src/crates/aura-store-db/src/rocks_store/mod.rs:742-752 RocksStore::release_agent_processing *)
definition release_agent_processing :: "'db store_env \<Rightarrow> agent_id \<Rightarrow> ('db, unit) store_act" where
  "release_agent_processing E a =
    try_then (cf_handle E CF_AGENT_META) (\<lambda>c. write_batch E [Delete c (processing_claim_key a)])"

(* src/crates/aura-store-db/src/rocks_store/mod.rs:754-759 RocksStore::is_agent_processing *)
definition is_agent_processing :: "'db store_env \<Rightarrow> agent_id \<Rightarrow> ('db, bool) store_act" where
  "is_agent_processing E a =
    try_then (cf_handle E CF_AGENT_META) (\<lambda>c.
    try_then (get_cf E c (processing_claim_key a)) (\<lambda>v. ok (v \<noteq> None)))"

section \<open>Appending to the record log\<close>

(* src/crates/aura-store-db/src/rocks_store/mod.rs:762-779 RocksStore::append_entry_atomic *)
definition append_entry_atomic ::
  "'db store_env \<Rightarrow> agent_id \<Rightarrow> u64 \<Rightarrow> record_entry \<Rightarrow> u64 \<Rightarrow> ('db, unit) store_act" where
  "append_entry_atomic E a next_seq entry dequeued_inbox_seq =
    append_entry_atomic_internal E a next_seq entry dequeued_inbox_seq None False"

(* src/crates/aura-store-db/src/store.rs:268-276 WriteStore::append_entry_dequeued *)
definition append_entry_dequeued ::
  "'db store_env \<Rightarrow> agent_id \<Rightarrow> u64 \<Rightarrow> record_entry \<Rightarrow> dequeue_token \<Rightarrow> ('db, unit) store_act" where
  "append_entry_dequeued E a next_seq entry token =
    append_entry_atomic E a next_seq entry (token_inbox_seq token)"

(* src/crates/aura-store-db/src/rocks_store/mod.rs:781-799 RocksStore::append_entry_dequeued_with_runtime_capabilities *)
definition append_entry_dequeued_with_runtime_capabilities ::
  "'db store_env \<Rightarrow> agent_id \<Rightarrow> u64 \<Rightarrow> record_entry \<Rightarrow> dequeue_token \<Rightarrow>
   runtime_capability_install option \<Rightarrow> bool \<Rightarrow> ('db, unit) store_act" where
  "append_entry_dequeued_with_runtime_capabilities E a next_seq entry token rc clear =
    append_entry_atomic_internal E a next_seq entry (token_inbox_seq token) rc clear"

(* src/crates/aura-store-db/src/rocks_store/mod.rs:801-809 RocksStore::append_entry_direct *)
definition append_entry_direct ::
  "'db store_env \<Rightarrow> agent_id \<Rightarrow> u64 \<Rightarrow> record_entry \<Rightarrow> ('db, unit) store_act" where
  "append_entry_direct E a next_seq entry = append_entry_direct_internal E a next_seq entry None False"

(* src/crates/aura-store-db/src/rocks_store/mod.rs:811-827 RocksStore::append_entry_direct_with_runtime_capabilities *)
definition append_entry_direct_with_runtime_capabilities ::
  "'db store_env \<Rightarrow> agent_id \<Rightarrow> u64 \<Rightarrow> record_entry \<Rightarrow> runtime_capability_install option \<Rightarrow> bool \<Rightarrow>
   ('db, unit) store_act" where
  "append_entry_direct_with_runtime_capabilities E a next_seq entry rc clear =
    append_entry_direct_internal E a next_seq entry rc clear"

(* src/crates/aura-store-db/src/rocks_store/mod.rs:858-863 RocksStore::append_entries_batch *)
primrec batch_puts ::
  "'db store_env \<Rightarrow> cf \<Rightarrow> agent_id \<Rightarrow> u64 \<Rightarrow> batch_op list \<Rightarrow> record_entry list \<Rightarrow>
   ('db, batch_op list) store_act" where
  "batch_puts E cf_record a seq batch [] = ok batch"
| "batch_puts E cf_record a seq batch (entry # entries) =
    try_then (encode_value E (sj_record_entry (st_serde E)) entry) (\<lambda>entry_bytes.
      batch_puts E cf_record a (seq + 1)
        (batch @ [Put cf_record (record_key_encode (RecordKey a seq)) entry_bytes]) entries)"

(* src/crates/aura-store-db/src/rocks_store/mod.rs:829-872 RocksStore::append_entries_batch *)
definition append_entries_batch ::
  "'db store_env \<Rightarrow> agent_id \<Rightarrow> u64 \<Rightarrow> record_entry list \<Rightarrow> ('db, unit) store_act" where
  "append_entries_batch E a base_seq entries =
    (if entries = [] then ok ()
     else
       try_then (cf_handle E CF_RECORD) (\<lambda>cf_record.
       try_then (cf_handle E CF_AGENT_META) (\<lambda>cf_meta.
       try_then (get_head_seq E a) (\<lambda>current_head.
         if base_seq \<noteq> current_head + 1
         then err (StoreError_SequenceMismatch (current_head + 1) base_seq)
         else
           try_then (batch_puts E cf_record a base_seq [] entries) (\<lambda>batch.
             let last_seq = base_seq + of_nat (length entries) - 1 in
             write_batch E (batch @
               [Put cf_meta (agent_meta_key_encode (AgentMetaKey a MetaField_HeadSeq))
                  (u64_to_be_bytes last_seq)]))))))"

end
