(* ===== verification/Store_Spec.thy ===== *)
theory Store_Spec
  imports Rocks_Store
begin

text \<open>
  What the store promises, stated over the logical contents of the database and proved of the
  operations of \<open>Rocks_Store\<close>.

  The abstraction reads, per agent, the record log (\<open>log_view\<close>: the decoded entries at sequence
  numbers 1 to head) and the inbox (\<open>inbox_view\<close>: the decoded transactions between the two cursors).
  \<open>view_inv\<close> is the invariant that makes the abstraction meaningful: cursors are readable and
  ordered, every slot they cover decodes, and the record family holds nothing else.  The locale
  \<open>rocks_env\<close> collects the hypotheses on the libraries; inside it every operation is shown to act on
  the abstraction as its specification says, on every branch, failures included.
\<close>

section \<open>Abstraction\<close>

definition store_ok :: "'db store_env \<Rightarrow> ('db \<Rightarrow> view) \<Rightarrow> bool" where
  "store_ok E V =
    (rocksdb_ok (st_rocksdb E) V
     \<and> codec_ok (sj_record_entry (st_serde E))
     \<and> codec_ok (sj_transaction (st_serde E))
     \<and> codec_ok (sj_runtime_capability (st_serde E))
     \<and> codec_ok (sj_user_tool_defaults (st_serde E))
     \<and> (\<forall>A. st_cipher E = Some A \<longrightarrow> aead_ok A))"

definition stored :: "'db store_env \<Rightarrow> 'a codec \<Rightarrow> bytes \<Rightarrow> 'a option" where
  "stored E c bs = (case decode_value E c id bs of Inr x \<Rightarrow> Some x | Inl _ \<Rightarrow> None)"

definition meta_raw :: "view \<Rightarrow> agent_id \<Rightarrow> meta_field \<Rightarrow> bytes option" where
  "meta_raw W a f = W CF_AGENT_META (agent_meta_key_encode (AgentMetaKey a f))"

definition meta_at :: "view \<Rightarrow> agent_id \<Rightarrow> meta_field \<Rightarrow> u64" where
  "meta_at W a f = (case meta_raw W a f of None \<Rightarrow> 0 | Some bs \<Rightarrow> u64_from_be_bytes bs)"

definition meta_wf :: "view \<Rightarrow> agent_id \<Rightarrow> meta_field \<Rightarrow> bool" where
  "meta_wf W a f = (case meta_raw W a f of None \<Rightarrow> True | Some bs \<Rightarrow> length bs = 8)"

definition entry_at :: "'db store_env \<Rightarrow> view \<Rightarrow> agent_id \<Rightarrow> u64 \<Rightarrow> record_entry option" where
  "entry_at E W a seq =
    Option.bind (W CF_RECORD (record_key_encode (RecordKey a seq))) (stored E (sj_record_entry (st_serde E)))"

definition tx_at :: "'db store_env \<Rightarrow> view \<Rightarrow> agent_id \<Rightarrow> u64 \<Rightarrow> transaction option" where
  "tx_at E W a i =
    Option.bind (W CF_INBOX (inbox_key_encode (InboxKey a i))) (stored E (sj_transaction (st_serde E)))"

definition head_len :: "view \<Rightarrow> agent_id \<Rightarrow> nat" where
  "head_len W a = unat (meta_at W a MetaField_HeadSeq)"

definition log_view :: "'db store_env \<Rightarrow> view \<Rightarrow> agent_id \<Rightarrow> record_entry list" where
  "log_view E W a = map (\<lambda>i. the (entry_at E W a (of_nat (Suc i)))) [0..<head_len W a]"

definition inbox_head :: "view \<Rightarrow> agent_id \<Rightarrow> nat" where
  "inbox_head W a = unat (meta_at W a MetaField_InboxHead)"

definition inbox_tail :: "view \<Rightarrow> agent_id \<Rightarrow> nat" where
  "inbox_tail W a = unat (meta_at W a MetaField_InboxTail)"

definition inbox_view :: "'db store_env \<Rightarrow> view \<Rightarrow> agent_id \<Rightarrow> transaction list" where
  "inbox_view E W a = map (\<lambda>i. the (tx_at E W a (of_nat i))) [inbox_head W a..<inbox_tail W a]"

definition caps_view :: "'db store_env \<Rightarrow> view \<Rightarrow> agent_id \<Rightarrow> runtime_capability_install option" where
  "caps_view E W a =
    Option.bind (W CF_RUNTIME_CAPABILITIES (runtime_capability_key a))
      (stored E (sj_runtime_capability (st_serde E)))"

definition log_inv :: "'db store_env \<Rightarrow> view \<Rightarrow> bool" where
  "log_inv E W =
    ((\<forall>a. meta_wf W a MetaField_HeadSeq)
     \<and> (\<forall>a i. i < head_len W a \<longrightarrow> entry_at E W a (of_nat (Suc i)) \<noteq> None)
     \<and> (\<forall>k v. W CF_RECORD k = Some v \<longrightarrow>
          (\<exists>a i. i < head_len W a \<and> k = record_key_encode (RecordKey a (of_nat (Suc i))))))"

definition inbox_inv :: "'db store_env \<Rightarrow> view \<Rightarrow> bool" where
  "inbox_inv E W =
    ((\<forall>a. meta_wf W a MetaField_InboxHead \<and> meta_wf W a MetaField_InboxTail)
     \<and> (\<forall>a. inbox_head W a \<le> inbox_tail W a)
     \<and> (\<forall>a i. inbox_head W a \<le> i \<and> i < inbox_tail W a \<longrightarrow> tx_at E W a (of_nat i) \<noteq> None))"

definition view_inv :: "'db store_env \<Rightarrow> view \<Rightarrow> bool" where
  "view_inv E W = (log_inv E W \<and> inbox_inv E W)"

section \<open>Views\<close>

lemma head_len_bound: "head_len W a < 2 ^ 64"
  unfolding head_len_def using unat_bound [of "meta_at W a MetaField_HeadSeq"] by simp

lemma inbox_tail_bound: "inbox_tail W a < 2 ^ 64"
  unfolding inbox_tail_def using unat_bound [of "meta_at W a MetaField_InboxTail"] by simp

lemma unat_of_nat_u64: "i < 2 ^ 64 \<Longrightarrow> unat (of_nat i :: u64) = i"
  by (simp add: unat_of_nat)

lemma unat_max_u64: "unat (- 1 :: u64) = 2 ^ 64 - 1"
  by (simp add: unsigned_minus_1_eq_mask mask_eq_exp_minus_1)

lemma of_nat_u64_eq_iff: "i < 2 ^ 64 \<Longrightarrow> j < 2 ^ 64 \<Longrightarrow> (of_nat i :: u64) = of_nat j \<longleftrightarrow> i = j"
  by (metis unat_of_nat_u64)

lemma unat_plus_one: "w \<noteq> - 1 \<Longrightarrow> unat (w + 1 :: u64) = Suc (unat w)"
  by (metis add.commute max_word_wrap unatSuc)

lemma length_log_view [simp]: "length (log_view E W a) = head_len W a"
  by (simp add: log_view_def)

lemma length_inbox_view [simp]: "length (inbox_view E W a) = inbox_tail W a - inbox_head W a"
  by (simp add: inbox_view_def)

lemma stored_iff: "decode_value E c msg bs = Inr x \<longleftrightarrow> stored E c bs = Some x"
  by (auto simp: stored_def decode_value_def res_bind_def res_map_err_def split: sum.splits)

lemma apply_batch_simps [simp]:
  "apply_batch [] W = W"
  "apply_batch (op1 # ops) W = apply_batch ops (apply_op op1 W)"
  by (simp_all add: apply_batch_def)

lemma apply_batch_append: "apply_batch (xs @ ys) W = apply_batch ys (apply_batch xs W)"
  by (simp add: apply_batch_def)

lemma meta_raw_upd [simp]:
  "meta_raw (W(c := m)) a f =
    (if c = CF_AGENT_META then m (agent_meta_key_encode (AgentMetaKey a f)) else meta_raw W a f)"
  by (simp add: meta_raw_def)

lemma meta_at_cong: "meta_raw W a f = meta_raw W' b g \<Longrightarrow> meta_at W a f = meta_at W' b g"
  by (simp add: meta_at_def)

lemmas view_simps = meta_at_def meta_wf_def head_len_def entry_at_def tx_at_def inbox_head_def
  inbox_tail_def caps_view_def

text \<open>Extending one agent's log by the entries \<open>es\<close>, stored as \<open>bss\<close>, leaves every other log alone.\<close>

lemma log_extend_view:
  assumes inv: "log_inv E W" and h: "h = head_len W a" and bound: "h + length es < 2 ^ 64"
    and st: "list_all2 (\<lambda>bs e. stored E (sj_record_entry (st_serde E)) bs = Some e) bss es"
    and R1: "\<And>i. i < length es \<Longrightarrow>
        W' CF_RECORD (record_key_encode (RecordKey a (of_nat (Suc (h + i))))) = Some (bss ! i)"
    and R2: "\<And>k. (\<And>i. i < length es \<Longrightarrow> k \<noteq> record_key_encode (RecordKey a (of_nat (Suc (h + i))))) \<Longrightarrow>
        W' CF_RECORD k = W CF_RECORD k"
    and M1: "meta_raw W' a MetaField_HeadSeq = Some (u64_to_be_bytes (of_nat (h + length es)))"
    and M2: "\<And>b. b \<noteq> a \<Longrightarrow> meta_raw W' b MetaField_HeadSeq = meta_raw W b MetaField_HeadSeq"
  shows "log_inv E W' \<and> log_view E W' a = log_view E W a @ es
    \<and> (\<forall>b. b \<noteq> a \<longrightarrow> log_view E W' b = log_view E W b)"
proof -
  have len_a: "head_len W' a = h + length es"
    using bound by (simp add: head_len_def meta_at_def M1 unat_of_nat_u64 del: of_nat_add)
  have len_b: "head_len W' b = head_len W b" if "b \<noteq> a" for b
    using M2 [OF that] by (simp add: head_len_def meta_at_def)
  have old: "entry_at E W' b (of_nat (Suc i)) = entry_at E W b (of_nat (Suc i))"
    if "i < head_len W b" for b i
  proof -
    have "W' CF_RECORD (record_key_encode (RecordKey b (of_nat (Suc i)))) =
          W CF_RECORD (record_key_encode (RecordKey b (of_nat (Suc i))))"
    proof (rule R2)
      fix j assume j: "j < length es"
      have "b = a \<Longrightarrow> of_nat (Suc i) \<noteq> (of_nat (Suc (h + j)) :: u64)"
        using that j bound h by (subst of_nat_u64_eq_iff) auto
      then show "record_key_encode (RecordKey b (of_nat (Suc i))) \<noteq>
                 record_key_encode (RecordKey a (of_nat (Suc (h + j))))"
        by auto
    qed
    then show ?thesis by (simp add: entry_at_def)
  qed
  have new: "entry_at E W' a (of_nat (Suc (h + i))) = Some (es ! i)" if "i < length es" for i
    using R1 [OF that] st that by (simp add: entry_at_def list_all2_conv_all_nth)
  have "log_view E W' a = log_view E W a @ es"
  proof (rule nth_equalityI)
    fix i assume "i < length (log_view E W' a)"
    then show "log_view E W' a ! i = (log_view E W a @ es) ! i"
      using old [of i a] new [of "i - h"] len_a h by (cases "i < h") (auto simp: log_view_def nth_append)
  qed (simp add: len_a h)
  moreover have "log_view E W' b = log_view E W b" if "b \<noteq> a" for b
    using that old by (simp add: log_view_def len_b)
  moreover have "log_inv E W'"
    unfolding log_inv_def
  proof (intro conjI allI impI)
    show "meta_wf W' b MetaField_HeadSeq" for b
      using inv M1 M2 [of b] by (cases "b = a") (auto simp: meta_wf_def log_inv_def)
    show "entry_at E W' b (of_nat (Suc i)) \<noteq> None" if "i < head_len W' b" for b i
    proof (cases "i < head_len W b")
      case True
      with inv old show ?thesis by (auto simp: log_inv_def)
    next
      case False
      with that len_b have "b = a" by metis
      with that False len_a h new [of "i - h"] show ?thesis by auto
    qed
    show "\<exists>b i. i < head_len W' b \<and> k = record_key_encode (RecordKey b (of_nat (Suc i)))"
      if "W' CF_RECORD k = Some v" for k v
    proof (cases "\<exists>i < length es. k = record_key_encode (RecordKey a (of_nat (Suc (h + i))))")
      case True
      then show ?thesis using len_a by (metis nat_add_left_cancel_less)
    next
      case False
      with that R2 [of k] have "W CF_RECORD k = Some v" by auto
      then obtain b i where "i < head_len W b" "k = record_key_encode (RecordKey b (of_nat (Suc i)))"
        using inv by (auto simp: log_inv_def)
      moreover have "head_len W b \<le> head_len W' b"
        using len_a len_b [of b] h by (cases "b = a") auto
      ultimately show ?thesis by (metis order_less_le_trans)
    qed
  qed
  ultimately show ?thesis by blast
qed

lemma log_frame:
  assumes "W' CF_RECORD = W CF_RECORD" "\<And>b. meta_raw W' b MetaField_HeadSeq = meta_raw W b MetaField_HeadSeq"
  shows "log_inv E W' = log_inv E W" "log_view E W' b = log_view E W b"
  using assms by (simp_all add: log_inv_def log_view_def meta_wf_def head_len_def meta_at_def entry_at_def)

lemma inbox_frame:
  assumes "W' CF_INBOX = W CF_INBOX"
    and "\<And>b f. f \<in> {MetaField_InboxHead, MetaField_InboxTail} \<Longrightarrow> meta_raw W' b f = meta_raw W b f"
  shows "inbox_inv E W' = inbox_inv E W" "inbox_view E W' b = inbox_view E W b"
  using assms
  by (simp_all add: inbox_inv_def inbox_view_def meta_wf_def inbox_head_def inbox_tail_def meta_at_def tx_at_def)

text \<open>Adding one transaction at the tail of an agent's inbox.\<close>

lemma inbox_enqueue_view:
  assumes inv: "inbox_inv E W" and t: "t = inbox_tail W a" and bound: "Suc t < 2 ^ 64"
    and st: "stored E (sj_transaction (st_serde E)) bs = Some tx"
    and I: "W' CF_INBOX = (W CF_INBOX)(inbox_key_encode (InboxKey a (of_nat t)) := Some bs)"
    and M1: "meta_raw W' a MetaField_InboxTail = Some (u64_to_be_bytes (of_nat (Suc t)))"
    and M2: "\<And>b. b \<noteq> a \<Longrightarrow> meta_raw W' b MetaField_InboxTail = meta_raw W b MetaField_InboxTail"
    and M3: "\<And>b. meta_raw W' b MetaField_InboxHead = meta_raw W b MetaField_InboxHead"
  shows "inbox_inv E W' \<and> inbox_view E W' a = inbox_view E W a @ [tx]
    \<and> (\<forall>b. b \<noteq> a \<longrightarrow> inbox_view E W' b = inbox_view E W b)"
proof -
  have tail_a: "inbox_tail W' a = Suc t"
    using bound by (simp add: inbox_tail_def meta_at_def M1 unat_of_nat_u64 del: of_nat_Suc)
  have tail_b: "inbox_tail W' b = inbox_tail W b" if "b \<noteq> a" for b
    using M2 [OF that] by (simp add: inbox_tail_def meta_at_def)
  have head: "inbox_head W' b = inbox_head W b" for b
    using M3 by (simp add: inbox_head_def meta_at_def)
  have new: "tx_at E W' a (of_nat t) = Some tx"
    using st by (simp add: tx_at_def I)
  have old: "tx_at E W' b (of_nat i) = tx_at E W b (of_nat i)" if "i < inbox_tail W b" for b i
  proof -
    have "b = a \<Longrightarrow> (of_nat i :: u64) \<noteq> of_nat t"
      using that t bound by (subst of_nat_u64_eq_iff) auto
    then show ?thesis by (auto simp: tx_at_def I)
  qed
  have le: "inbox_head W b \<le> inbox_tail W b" for b
    using inv by (simp add: inbox_inv_def)
  have "inbox_view E W' a = inbox_view E W a @ [tx]"
    using le [of a] old t new by (auto simp: inbox_view_def tail_a head)
  moreover have "inbox_view E W' b = inbox_view E W b" if "b \<noteq> a" for b
    using that old by (auto simp: inbox_view_def tail_b head)
  moreover have "inbox_inv E W'"
    unfolding inbox_inv_def
  proof (intro conjI allI impI)
    show "meta_wf W' b MetaField_InboxHead" for b
      using inv M3 [of b] by (simp add: meta_wf_def inbox_inv_def)
    show "meta_wf W' b MetaField_InboxTail" for b
      using inv M1 M2 [of b] by (cases "b = a") (auto simp: meta_wf_def inbox_inv_def)
    show "inbox_head W' b \<le> inbox_tail W' b" for b
      using le [of b] tail_a tail_b [of b] t by (cases "b = a") (auto simp: head)
    show "tx_at E W' b (of_nat i) \<noteq> None" if "inbox_head W' b \<le> i \<and> i < inbox_tail W' b" for b i
    proof (cases "i < inbox_tail W b")
      case True
      with that inv old show ?thesis by (auto simp: inbox_inv_def head)
    next
      case False
      with that tail_a tail_b t have "b = a \<and> i = t" by (metis less_antisym)
      with new show ?thesis by simp
    qed
  qed
  ultimately show ?thesis by blast
qed

text \<open>Consuming the transaction at the head of an agent's inbox.\<close>

lemma inbox_consume_view:
  assumes inv: "inbox_inv E W" and h: "h = inbox_head W a" and ne: "h < inbox_tail W a"
    and I: "W' CF_INBOX = (W CF_INBOX)(inbox_key_encode (InboxKey a (of_nat h)) := None)"
    and M1: "meta_raw W' a MetaField_InboxHead = Some (u64_to_be_bytes (of_nat (Suc h)))"
    and M2: "\<And>b. b \<noteq> a \<Longrightarrow> meta_raw W' b MetaField_InboxHead = meta_raw W b MetaField_InboxHead"
    and M3: "\<And>b. meta_raw W' b MetaField_InboxTail = meta_raw W b MetaField_InboxTail"
  shows "inbox_inv E W' \<and> inbox_view E W' a = tl (inbox_view E W a)
    \<and> (\<forall>b. b \<noteq> a \<longrightarrow> inbox_view E W' b = inbox_view E W b)"
proof -
  have bound: "Suc h < 2 ^ 64"
    using ne inbox_tail_bound [of W a] by simp
  have head_a: "inbox_head W' a = Suc h"
    using bound by (simp add: inbox_head_def meta_at_def M1 unat_of_nat_u64 del: of_nat_Suc)
  have head_b: "inbox_head W' b = inbox_head W b" if "b \<noteq> a" for b
    using M2 [OF that] by (simp add: inbox_head_def meta_at_def)
  have tail: "inbox_tail W' b = inbox_tail W b" for b
    using M3 by (simp add: inbox_tail_def meta_at_def)
  have old: "tx_at E W' b (of_nat i) = tx_at E W b (of_nat i)"
    if "i < inbox_tail W b" "b = a \<Longrightarrow> i \<noteq> h" for b i
  proof -
    have "b = a \<Longrightarrow> (of_nat i :: u64) \<noteq> of_nat h"
      using that bound inbox_tail_bound [of W b] by (subst of_nat_u64_eq_iff) auto
    then show ?thesis by (auto simp: tx_at_def I)
  qed
  have "inbox_view E W' a = tl (inbox_view E W a)"
    using ne old [of _ a] h by (auto simp: inbox_view_def head_a tail upt_conv_Cons)
  moreover have "inbox_view E W' b = inbox_view E W b" if "b \<noteq> a" for b
    using that old [of _ b] by (auto simp: inbox_view_def tail head_b)
  moreover have "inbox_inv E W'"
    unfolding inbox_inv_def
  proof (intro conjI allI impI)
    show "meta_wf W' b MetaField_InboxTail" for b
      using inv M3 [of b] by (simp add: meta_wf_def inbox_inv_def)
    show "meta_wf W' b MetaField_InboxHead" for b
      using inv M1 M2 [of b] by (cases "b = a") (auto simp: meta_wf_def inbox_inv_def)
    show "inbox_head W' b \<le> inbox_tail W' b" for b
      using inv ne head_a head_b [of b] by (cases "b = a") (auto simp: tail inbox_inv_def)
    show "tx_at E W' b (of_nat i) \<noteq> None" if "inbox_head W' b \<le> i \<and> i < inbox_tail W' b" for b i
    proof -
      have "b = a \<Longrightarrow> i \<noteq> h" "inbox_head W b \<le> i"
        using that head_a head_b [of b] h by (cases "b = a"; auto)+
      with that inv old [of i b] show ?thesis by (auto simp: inbox_inv_def tail)
    qed
  qed
  ultimately show ?thesis by blast
qed

section \<open>Steps of an operation\<close>

text \<open>
  The two shapes every operation is built from: actions that leave the contents alone whatever
  they return, and actions that leave them alone when they fail.
\<close>

definition reads :: "('db \<Rightarrow> view) \<Rightarrow> ('db, 'a) store_act \<Rightarrow> bool" where
  "reads V m = (\<forall>s r s'. m s = (r, s') \<longrightarrow> V (rk_db s') = V (rk_db s))"

definition fails_clean :: "('db \<Rightarrow> view) \<Rightarrow> ('db, 'a) store_act \<Rightarrow> bool" where
  "fails_clean V m = (\<forall>s e s'. m s = (Inl e, s') \<longrightarrow> V (rk_db s') = V (rk_db s))"

lemma reads_imp_fails_clean: "reads V m \<Longrightarrow> fails_clean V m"
  by (auto simp: reads_def fails_clean_def)

lemma reads_ok [intro]: "reads V (ok x)" "reads V (err e)" "reads V (lift_res r)"
  by (auto simp: reads_def)

lemma reads_try [intro]: "reads V m \<Longrightarrow> (\<And>x. reads V (k x)) \<Longrightarrow> reads V (try_then m k)"
  unfolding reads_def try_then_def by (auto split: prod.splits sum.splits)

lemma fails_clean_try [intro]:
  "reads V m \<Longrightarrow> (\<And>x. fails_clean V (k x)) \<Longrightarrow> fails_clean V (try_then m k)"
  unfolding reads_def fails_clean_def try_then_def by (auto split: prod.splits sum.splits)

lemma reads_cf_handle [intro]: "reads V (cf_handle E c)"
  by (auto simp: reads_def cf_handle_def split: if_splits)

lemma reads_get_cf [intro]: "reads V (get_cf E c k)"
  by (auto simp: reads_def get_cf_def)

lemma reads_seal_value [intro]: "reads V (seal_value E bs)"
  by (auto simp: reads_def seal_value_def split: option.splits)

lemma reads_encode_value [intro]: "reads V (encode_value E c x)"
  unfolding encode_value_def by (intro reads_try reads_ok reads_seal_value)

lemma reads_read_meta [intro]: "reads V (read_meta_u64 E k)"
  unfolding read_meta_u64_def
  by (intro reads_try reads_cf_handle reads_get_cf) (auto split: option.splits)

lemma reads_assert_next_seq [intro]: "reads V (assert_next_seq E a n)"
  unfolding assert_next_seq_def get_head_seq_def by (intro reads_try reads_read_meta) auto

lemma reads_append_record [intro]: "reads V (append_record_and_head_to_batch E b a n e)"
  unfolding append_record_and_head_to_batch_def by (intro reads_try reads_cf_handle) auto

lemma reads_apply_caps [intro]: "reads V (apply_runtime_capability_ops_to_batch E b a rc cl)"
  unfolding apply_runtime_capability_ops_to_batch_def Let_def
  by (intro reads_try reads_cf_handle) (auto split: option.splits)

lemma reads_enqueue_prepare [intro]: "reads V (enqueue_tx_prepare E tx)"
  unfolding enqueue_tx_prepare_def Let_def by (intro reads_try reads_cf_handle) auto

lemma reads_batch_puts [intro]: "reads V (batch_puts E c a n b es)"
  by (induction es arbitrary: n b) auto

lemma readsD: "reads V m \<Longrightarrow> m s = (r, s') \<Longrightarrow> V (rk_db s') = V (rk_db s)"
  by (auto simp: reads_def)

lemma fails_cleanD: "fails_clean V m \<Longrightarrow> m s = (Inl e, s') \<Longrightarrow> V (rk_db s') = V (rk_db s)"
  by (auto simp: fails_clean_def)

lemma cf_handle_InrD: "cf_handle E c s = (Inr c', s') \<Longrightarrow> c' = c \<and> s' = s"
  by (auto simp: cf_handle_def split: if_splits)

section \<open>The scan loop\<close>

definition good_item :: "'db store_env \<Rightarrow> agent_id \<Rightarrow> (bytes \<Rightarrow> bool) \<Rightarrow> bytes \<times> bytes \<Rightarrow> record_entry \<Rightarrow> bool" where
  "good_item E a past p e =
    (\<not> past (fst p) \<and> (\<exists>n. fst p = record_key_encode (RecordKey a n))
     \<and> stored E (sj_record_entry (st_serde E)) (snd p) = Some e)"

lemma scan_loop_good:
  "list_all2 (good_item E a past) L es \<Longrightarrow> length acc < max 1 limit \<Longrightarrow>
   scan_loop E a past limit acc (map Inr L @ rest) =
    (if max 1 limit \<le> length acc + length es then Inr (acc @ take (max 1 limit - length acc) es)
     else scan_loop E a past limit (acc @ es) rest)"
proof (induction L es arbitrary: acc rule: list_all2_induct)
  case (Cons p L e es)
  obtain n v where p: "p = (record_key_encode (RecordKey a n), v)"
    and lt: "\<not> past (record_key_encode (RecordKey a n))"
    and dec: "\<And>m. decode_value E (sj_record_entry (st_serde E)) m v = Inr e"
    using Cons.hyps(1) by (cases p) (auto simp: good_item_def stored_iff)
  show ?case
  proof (cases "limit \<le> Suc (length acc)")
    case True
    moreover have "max 1 limit - length acc = Suc 0"
      using Cons.prems True by linarith
    ultimately show ?thesis
      using Cons.prems by (simp add: p lt dec rec_key.decode_encode)
  next
    case False
    then have "max 1 limit - length acc = Suc (max 1 limit - length (acc @ [e]))"
      by simp
    with False Cons.IH [of "acc @ [e]"] show ?thesis
      by (simp add: p lt dec rec_key.decode_encode)
  qed
qed (auto simp: max_def split: if_splits)

lemma scan_loop_past:
  assumes "\<And>p. p \<in> set L \<Longrightarrow> past (fst p)"
  shows "scan_loop E a past limit acc (map Inr L) = Inr acc"
    "scan_loop E a past limit acc (map Inr L @ Inl e # rest) = Inr r \<Longrightarrow> r = acc"
proof -
  have "past (fst p)" if "L = p # L'" for p L' using assms that by simp
  then show "scan_loop E a past limit acc (map Inr L) = Inr acc"
    "scan_loop E a past limit acc (map Inr L @ Inl e # rest) = Inr r \<Longrightarrow> r = acc"
    by (cases L; fastforce)+
qed

lemma scan_loop_total:
  assumes "list_all2 (good_item E a past) L1 es" and "\<And>p. p \<in> set L2 \<Longrightarrow> past (fst p)"
  shows "scan_loop E a past limit [] (map Inr (L1 @ L2)) = Inr (take (max 1 limit) es)"
  using scan_loop_good [OF assms(1), of "[]" limit "map Inr L2"] scan_loop_past(1) [of L2 past, OF assms(2)]
  by auto

text \<open>
  A scan that succeeds returns the decoded entries before the end, cut to the limit (and to one
  entry for a limit of zero), whether or not the iterator failed later on.
\<close>

lemma scan_loop_result:
  assumes g1: "list_all2 (good_item E a past) L1 es"
    and past: "\<And>p. p \<in> set L2 \<Longrightarrow> past (fst p)" and L: "L = L1 @ L2"
    and items: "items = map Inr L \<or> (\<exists>n e rest. items = map Inr (take n L) @ Inl e # rest)"
    and run: "scan_loop E a past limit [] items = Inr r"
  shows "r = take (max 1 limit) es"
proof -
  have len: "length L1 = length es" using g1 by (rule list_all2_lengthD)
  consider "items = map Inr L1 @ map Inr L2"
    | n e rest where "items = map Inr (take n L1) @ Inl e # rest" "n < length L1"
    | n e rest where "items = map Inr L1 @ map Inr (take n L2) @ Inl e # rest"
  proof -
    note cases = that
    show ?thesis
    proof (rule disjE [OF items])
      assume "\<exists>n e rest. items = map Inr (take n L) @ Inl e # rest"
      then obtain n e rest where i: "items = map Inr (take n L) @ Inl e # rest" by blast
      show ?thesis
        using cases(2) [of n e rest] cases(3) [of "n - length L1" e rest]
        by (cases "n < length L1") (simp_all add: i L)
    qed (use cases(1) L in simp)
  qed
  then show ?thesis
  proof cases
    case 1
    have "scan_loop E a past limit es (map Inr L2) = Inr es"
      by (rule scan_loop_past(1)) (rule past)
    with 1 run scan_loop_good [OF g1, of "[]" limit "map Inr L2"] show ?thesis
      by (auto split: if_splits)
  next
    case 2
    have "list_all2 (good_item E a past) (take n L1) (take n es)"
      using g1 by (rule list_all2_takeI)
    from scan_loop_good [OF this, of "[]" limit] 2 run len show ?thesis
      by (auto simp: min_def split: if_splits)
  next
    case 3
    have "r = es" if "\<not> max 1 limit \<le> length es"
    proof -
      have "scan_loop E a past limit es (map Inr (take n L2) @ Inl e # rest) = Inr r"
        using scan_loop_good [OF g1, of "[]" limit "map Inr (take n L2) @ Inl e # rest"] 3 run that
        by (auto split: if_splits)
      then show ?thesis
        using scan_loop_past(2) [of "take n L2" past] past in_set_takeD by metis
    qed
    moreover have "r = take (max 1 limit) es" if "max 1 limit \<le> length es"
      using scan_loop_good [OF g1, of "[]" limit "map Inr (take n L2) @ Inl e # rest"] 3 run that
      by (auto split: if_splits)
    ultimately show ?thesis by fastforce
  qed
qed

text \<open>Sorted lists split at a threshold; used for both scan directions.\<close>

lemma sorted_split:
  fixes k :: "'a::linorder"
  assumes "sorted (map fst L)"
  shows "L = filter (\<lambda>q. fst q < k) L @ filter (\<lambda>q. \<not> fst q < k) L"
  using assms
proof (induction L)
  case (Cons p L)
  show ?case
  proof (cases "fst p < k")
    case False
    with Cons.prems have "\<forall>q \<in> set L. \<not> fst q < k" by auto
    then have "filter (\<lambda>q. fst q < k) L = []" "filter (\<lambda>q. \<not> fst q < k) L = L"
      by (simp_all add: filter_empty_conv filter_id_conv)
    with False show ?thesis by simp
  qed (use Cons in simp)
qed simp

lemma rev_sorted_split:
  fixes k :: "'a::linorder"
  assumes "sorted (rev (map fst L))"
  shows "L = filter (\<lambda>q. \<not> fst q < k) L @ filter (\<lambda>q. fst q < k) L"
proof -
  have "rev L = filter (\<lambda>q. fst q < k) (rev L) @ filter (\<lambda>q. \<not> fst q < k) (rev L)"
    using assms by (intro sorted_split) (simp add: rev_map)
  then have "rev (rev L) = rev (filter (\<lambda>q. fst q < k) (rev L) @ filter (\<lambda>q. \<not> fst q < k) (rev L))"
    by (rule arg_cong)
  then show ?thesis by (simp add: rev_filter)
qed

text \<open>The record keys of one agent, from a sequence number to the head, in order.\<close>

lemma agent_keys_sorted:
  assumes "n < 2 ^ 64"
  shows "sorted (map (\<lambda>i. record_key_encode (RecordKey a (of_nat (Suc i)))) [m..<n])"
    "distinct (map (\<lambda>i. record_key_encode (RecordKey a (of_nat (Suc i)))) [m..<n])"
proof -
  have "record_key_encode (RecordKey a (of_nat (Suc i))) \<le> record_key_encode (RecordKey a (of_nat (Suc j)))"
    if "i \<le> j" "j < n" for i j
    using that assms
    by (subst rec_key.encode_le_iff)
      (simp add: word_le_nat_alt unat_of_nat_u64 del: of_nat_Suc)
  then show "sorted (map (\<lambda>i. record_key_encode (RecordKey a (of_nat (Suc i)))) [m..<n])"
    by (auto simp: sorted_iff_nth_mono simp del: of_nat_Suc of_nat_add)
  show "distinct (map (\<lambda>i. record_key_encode (RecordKey a (of_nat (Suc i)))) [m..<n])"
    using assms by (auto simp: distinct_map inj_on_def of_nat_u64_eq_iff simp del: of_nat_Suc)
qed

text \<open>The raw entries of one agent's log between two positions.\<close>

definition raw_log :: "view \<Rightarrow> agent_id \<Rightarrow> nat \<Rightarrow> nat \<Rightarrow> (bytes \<times> bytes) list" where
  "raw_log W a m n =
    map (\<lambda>i. (record_key_encode (RecordKey a (of_nat (Suc i))),
              the (W CF_RECORD (record_key_encode (RecordKey a (of_nat (Suc i))))))) [m..<n]"

lemma mem_raw_log:
  assumes inv: "log_inv E W" and n: "n \<le> head_len W a"
  shows "(k, v) \<in> set (raw_log W a m n) \<longleftrightarrow>
    (\<exists>i. m \<le> i \<and> i < n \<and> k = record_key_encode (RecordKey a (of_nat (Suc i))) \<and> W CF_RECORD k = Some v)"
proof -
  have "\<exists>v. W CF_RECORD (record_key_encode (RecordKey a (of_nat (Suc i)))) = Some v" if "i < n" for i
  proof -
    have "entry_at E W a (of_nat (Suc i)) \<noteq> None"
      using inv n that by (simp add: log_inv_def)
    then show ?thesis by (auto simp: entry_at_def bind_eq_Some_conv simp del: of_nat_Suc)
  qed
  then show ?thesis
    by (auto simp: raw_log_def image_iff simp del: of_nat_Suc)
qed

lemma raw_log_sorted:
  assumes "n \<le> head_len W a"
  shows "sorted (map fst (raw_log W a m n))" "distinct (map fst (raw_log W a m n))"
  using agent_keys_sorted [of n a m] assms head_len_bound [of W a]
  by (simp_all add: raw_log_def comp_def del: of_nat_Suc)

lemma raw_log_good:
  assumes inv: "log_inv E W" and n: "n \<le> head_len W a"
    and np: "\<And>i. i < n \<Longrightarrow> m \<le> i \<Longrightarrow> \<not> past (record_key_encode (RecordKey a (of_nat (Suc i))))"
  shows "list_all2 (good_item E a past) (raw_log W a m n) (drop m (take n (log_view E W a)))"
proof (unfold list_all2_conv_all_nth, intro conjI allI impI)
  fix j assume "j < length (raw_log W a m n)"
  then have j: "m + j < n" by (simp add: raw_log_def)
  have "entry_at E W a (of_nat (Suc (m + j))) \<noteq> None"
    using inv n j by (simp add: log_inv_def del: of_nat_Suc of_nat_add)
  with j n np [of "m + j"]
  show "good_item E a past (raw_log W a m n ! j) (drop m (take n (log_view E W a)) ! j)"
    by (auto simp: good_item_def raw_log_def log_view_def entry_at_def bind_eq_Some_conv
        simp del: of_nat_Suc of_nat_add)
qed (use n in \<open>simp add: raw_log_def\<close>)

lemma sorted_assoc_unique:
  assumes "sorted (map fst xs)" "distinct (map fst xs)" "sorted (map fst ys)" "distinct (map fst ys)"
    and "set xs = set ys"
  shows "xs = (ys :: ('a::linorder \<times> 'b) list)"
  using assms by (intro map_sorted_distinct_set_unique [where f = fst])
    (auto simp: inj_on_def distinct_map)

lemma record_keys_only:
  "log_inv E W \<Longrightarrow> W CF_RECORD k = Some v \<Longrightarrow>
   \<exists>b i. i < head_len W b \<and> k = record_key_encode (RecordKey b (of_nat (Suc i)))"
  unfolding log_inv_def by blast

lemma forward_entries:
  assumes inv: "log_inv E W" and bound: "Suc (head_len W a) < 2 ^ 64"
    and it: "iter_entries (W CF_RECORD) (scan_from a from) Forward L"
  shows "filter (\<lambda>q. fst q < scan_end a) L = raw_log W a (unat from - 1) (head_len W a)"
proof (rule sorted_assoc_unique)
  have seqs: "from \<le> of_nat (Suc i) \<longleftrightarrow> unat from - 1 \<le> i" "(of_nat (Suc i) :: u64) < - 1"
    if "i < head_len W a" for i
    using that bound by (auto simp: word_le_nat_alt word_less_nat_alt unat_max_u64 unat_of_nat_u64 simp del: of_nat_Suc)
  have "(k, v) \<in> set (filter (\<lambda>q. fst q < scan_end a) L) \<longleftrightarrow> (k, v) \<in> set (raw_log W a (unat from - 1) (head_len W a))"
    for k v
  proof (cases "W CF_RECORD k = Some v")
    case True
    then obtain b i where "i < head_len W b" and k: "k = record_key_encode (RecordKey b (of_nat (Suc i)))"
      using record_keys_only [OF inv] by blast
    with True it scan_range_bounds [of a "from" "RecordKey b (of_nat (Suc i))"] seqs
    show ?thesis
      by (auto simp: iter_entries_def mem_raw_log [OF inv] simp del: of_nat_Suc)
  next
    case False
    with it show ?thesis
      by (auto simp: iter_entries_def mem_raw_log [OF inv] simp del: of_nat_Suc)
  qed
  then show "set (filter (\<lambda>q. fst q < scan_end a) L) = set (raw_log W a (unat from - 1) (head_len W a))"
    by (intro set_eqI) (simp only: split_paired_all)
qed (use it raw_log_sorted in \<open>auto simp: iter_entries_def sorted_filter distinct_map_filter\<close>)

lemma backward_entries:
  assumes inv: "log_inv E W" and nz: "from \<noteq> 0"
    and it: "iter_entries (W CF_RECORD) (scan_from a from) Reverse L"
  shows "filter (\<lambda>q. \<not> fst q < scan_from a 1) L = rev (raw_log W a 0 (min (unat from) (head_len W a)))"
proof -
  have seqs: "of_nat (Suc i) \<le> from \<longleftrightarrow> i < unat from" "1 \<le> (of_nat (Suc i) :: u64)"
    if "i < head_len W b" for i b
    using that head_len_bound [of W b]
    by (auto simp: word_le_nat_alt unat_of_nat_u64 simp del: of_nat_Suc)
  have dist: "distinct (map fst (rev L))"
    using it by (simp add: iter_entries_def rev_map [symmetric])
  have "rev (filter (\<lambda>q. \<not> fst q < scan_from a 1) L) = raw_log W a 0 (min (unat from) (head_len W a))"
  proof (rule sorted_assoc_unique)
    have "(k, v) \<in> set (rev (filter (\<lambda>q. \<not> fst q < scan_from a 1) L)) \<longleftrightarrow>
        (k, v) \<in> set (raw_log W a 0 (min (unat from) (head_len W a)))" for k v
    proof (cases "W CF_RECORD k = Some v")
      case True
      then obtain b i where i: "i < head_len W b" and k: "k = record_key_encode (RecordKey b (of_nat (Suc i)))"
        using record_keys_only [OF inv] by blast
      have "k \<le> scan_from a from \<and> scan_from a 1 \<le> k \<longleftrightarrow> b = a \<and> i < unat from"
        using rec_key.between_same_agent [of "RecordKey a 1" a "RecordKey a from" "RecordKey b (of_nat (Suc i))"]
          rec_key.encode_le_iff [of "RecordKey b (of_nat (Suc i))" "RecordKey a from"]
          rec_key.encode_le_iff [of "RecordKey a 1" "RecordKey b (of_nat (Suc i))"] seqs [OF i]
        by (auto simp: k scan_from_def simp del: of_nat_Suc)
      moreover have "(k, v) \<in> set (raw_log W a 0 (min (unat from) (head_len W a))) \<longleftrightarrow> b = a \<and> i < unat from"
      proof -
        have "(of_nat (Suc i) :: u64) = of_nat (Suc j) \<longleftrightarrow> i = j" if "j < head_len W a" for j
          using that i head_len_bound [of W a] head_len_bound [of W b] by (subst of_nat_u64_eq_iff) auto
        with True i show ?thesis
          by (auto simp: mem_raw_log [OF inv] k simp del: of_nat_Suc)
      qed
      ultimately show ?thesis
        using True it by (auto simp: iter_entries_def not_less)
    next
      case False
      with it show ?thesis
        by (auto simp: iter_entries_def mem_raw_log [OF inv] simp del: of_nat_Suc)
    qed
    then show "set (rev (filter (\<lambda>q. \<not> fst q < scan_from a 1) L)) =
        set (raw_log W a 0 (min (unat from) (head_len W a)))"
      by (intro set_eqI) (simp only: split_paired_all)
  qed (use it dist raw_log_sorted in \<open>auto simp: iter_entries_def rev_map rev_filter sorted_filter distinct_map_filter\<close>)
  then show ?thesis by (metis rev_rev_ident)
qed

section \<open>Batches of record entries\<close>

primrec record_puts :: "agent_id \<Rightarrow> nat \<Rightarrow> bytes list \<Rightarrow> batch_op list" where
  "record_puts a m [] = []"
| "record_puts a m (bs # bss) =
    Put CF_RECORD (record_key_encode (RecordKey a (of_nat m))) bs # record_puts a (Suc m) bss"

lemma record_puts_frame: "c \<noteq> CF_RECORD \<Longrightarrow> apply_batch (record_puts a m bss) W c = W c"
  by (induction bss arbitrary: m W) simp_all

lemma record_puts_other:
  "(\<And>i. i < length bss \<Longrightarrow> k \<noteq> record_key_encode (RecordKey a (of_nat (m + i)))) \<Longrightarrow>
   apply_batch (record_puts a m bss) W CF_RECORD k = W CF_RECORD k"
proof (induction bss arbitrary: m W)
  case (Cons bs bss)
  have "k \<noteq> record_key_encode (RecordKey a (of_nat (Suc m + i)))" if "i < length bss" for i
    using Cons.prems [of "Suc i"] that by simp
  then have "apply_batch (record_puts a (Suc m) bss) W' CF_RECORD k = W' CF_RECORD k" for W'
    by (rule Cons.IH)
  with Cons.prems [of 0] show ?case by simp
qed simp

lemma record_puts_at:
  "m + length bss \<le> 2 ^ 64 \<Longrightarrow> i < length bss \<Longrightarrow>
   apply_batch (record_puts a m bss) W CF_RECORD (record_key_encode (RecordKey a (of_nat (m + i)))) = Some (bss ! i)"
proof (induction bss arbitrary: m W i)
  case (Cons bs bss)
  show ?case
  proof (cases i)
    case 0
    have "apply_batch (record_puts a (Suc m) bss) W' CF_RECORD (record_key_encode (RecordKey a (of_nat m))) =
          W' CF_RECORD (record_key_encode (RecordKey a (of_nat m)))" for W'
      using Cons.prems by (intro record_puts_other) (simp add: of_nat_u64_eq_iff del: of_nat_add of_nat_Suc)
    with 0 show ?thesis by simp
  next
    case (Suc j)
    with Cons.IH [of "Suc m" j] Cons.prems show ?thesis by simp
  qed
qed simp

section \<open>The operations against the abstraction\<close>

locale rocks_env =
  fixes E :: "'db store_env" and V :: "'db \<Rightarrow> view"
  assumes env_ok: "store_ok E V"
begin

abbreviation view_of :: "'db rocks_state \<Rightarrow> view" where
  "view_of s \<equiv> V (rk_db s)"

lemma get_cf_InrD: "get_cf E c k s = (Inr v, s') \<Longrightarrow> v = view_of s c k \<and> s' = s"
  using env_ok by (auto simp: get_cf_def res_map_err_def store_ok_def rocksdb_ok_def split: sum.splits)

lemma write_batch_InrD: "write_batch E ops s = (Inr u, s') \<Longrightarrow> view_of s' = apply_batch ops (view_of s)"
  using env_ok by (auto simp: write_batch_def res_map_err_def store_ok_def rocksdb_ok_def split: sum.splits prod.splits)

lemma write_batch_fails_clean [intro]: "fails_clean V (write_batch E ops)"
  using env_ok
  by (auto simp: fails_clean_def write_batch_def res_map_err_def store_ok_def rocksdb_ok_def
      split: sum.splits prod.splits)

lemma encode_value_stored:
  assumes "codec_ok c" "encode_value E c x s = (Inr bs, s')"
  shows "stored E c bs = Some x"
proof -
  obtain plain where plain: "to_vec c x = Inr plain" and bs: "seal_value E plain s = (Inr bs, s')"
    using assms(2) by (auto simp: encode_value_def res_map_err_def elim!: try_then_InrE split: sum.splits)
  have "open_value E bs = Inr plain"
  proof (cases "st_cipher E")
    case None
    with bs show ?thesis by (simp add: seal_value_def open_value_def)
  next
    case (Some A)
    then have "seal A (st_nonce E (rk_draws s)) plain = Inr bs"
      using bs by (auto simp: seal_value_def res_map_err_def split: sum.splits)
    moreover have "aead_ok A"
      using env_ok Some by (simp add: store_ok_def)
    ultimately have "open_sealed A bs = Inr plain"
      by (rule open_seal [rotated])
    with Some show ?thesis by (simp add: open_value_def res_map_err_def)
  qed
  with plain assms(1) show ?thesis
    by (simp add: stored_def decode_value_def res_map_err_def codec_okD)
qed

lemma read_meta_InrD:
  "read_meta_u64 E (AgentMetaKey a f) s = (Inr x, s') \<Longrightarrow> x = meta_at (view_of s) a f \<and> s' = s"
  by (auto simp: read_meta_u64_def meta_at_def meta_raw_def elim!: try_then_InrE
      dest!: cf_handle_InrD get_cf_InrD split: option.splits if_splits)

lemma assert_next_InrD:
  "assert_next_seq E a n s = (Inr u, s') \<Longrightarrow> n = meta_at (view_of s) a MetaField_HeadSeq + 1 \<and> s' = s"
  by (auto simp: assert_next_seq_def get_head_seq_def elim!: try_then_InrE dest!: read_meta_InrD split: if_splits)

lemma codecs_ok:
  "codec_ok (sj_record_entry (st_serde E))" "codec_ok (sj_transaction (st_serde E))"
  "codec_ok (sj_runtime_capability (st_serde E))" "codec_ok (sj_user_tool_defaults (st_serde E))"
  using env_ok by (simp_all add: store_ok_def)

text \<open>The capability operations of a batch touch the agent's capability slot only.\<close>

lemma apply_caps_InrD:
  assumes "apply_runtime_capability_ops_to_batch E b a rc cl s = (Inr b', s')"
  shows "\<exists>ops. b' = b @ ops \<and> (\<forall>W c. c \<noteq> CF_RUNTIME_CAPABILITIES \<longrightarrow> apply_batch ops W c = W c)
    \<and> (\<forall>W. caps_view E (apply_batch ops W) a =
          (case rc of Some r \<Rightarrow> Some r | None \<Rightarrow> if cl then None else caps_view E W a))
    \<and> (\<forall>W x. x \<noteq> a \<longrightarrow> caps_view E (apply_batch ops W) x = caps_view E W x)"
proof (cases rc)
  case None
  with assms show ?thesis
    by (intro exI [of _ "if cl then [Delete CF_RUNTIME_CAPABILITIES (runtime_capability_key a)] else []"])
      (auto simp: apply_runtime_capability_ops_to_batch_def Let_def caps_view_def runtime_capability_key_def
        elim!: try_then_InrE dest!: cf_handle_InrD)
next
  case (Some r)
  with assms obtain bs s1 where
    "encode_value E (sj_runtime_capability (st_serde E)) r s = (Inr bs, s1)"
    "b' = b @ (if cl then [Delete CF_RUNTIME_CAPABILITIES (runtime_capability_key a)] else []) @
       [Put CF_RUNTIME_CAPABILITIES (runtime_capability_key a) bs]"
    by (auto simp: apply_runtime_capability_ops_to_batch_def Let_def
        elim!: try_then_InrE dest!: cf_handle_InrD split: if_splits)
  with Some encode_value_stored [OF codecs_ok(3)] show ?thesis
    by (intro exI [of _ "(if cl then [Delete CF_RUNTIME_CAPABILITIES (runtime_capability_key a)] else []) @
       [Put CF_RUNTIME_CAPABILITIES (runtime_capability_key a) bs]"])
      (auto simp: caps_view_def runtime_capability_key_def)
qed

lemma append_record_InrD:
  assumes "append_record_and_head_to_batch E b a n e s = (Inr b', s')"
  shows "\<exists>bs. stored E (sj_record_entry (st_serde E)) bs = Some e
    \<and> b' = b @ [Put CF_RECORD (record_key_encode (RecordKey a n)) bs,
               Put CF_AGENT_META (agent_meta_key_encode (AgentMetaKey a MetaField_HeadSeq)) (u64_to_be_bytes n)]"
  using assms encode_value_stored [OF codecs_ok(1)]
  by (auto simp: append_record_and_head_to_batch_def elim!: try_then_InrE dest!: cf_handle_InrD)

lemma next_seq_of_nat:
  "n = meta_at W a MetaField_HeadSeq + 1 \<Longrightarrow> n = of_nat (Suc (head_len W a))"
  by (simp add: head_len_def add.commute)

subsection \<open>Direct append\<close>

lemma append_direct_fails_clean: "fails_clean V (append_entry_direct_internal E a n e rc cl)"
  unfolding append_entry_direct_internal_def by blast

lemma append_direct_spec:
  assumes inv: "view_inv E (view_of s)" and bound: "Suc (head_len (view_of s) a) < 2 ^ 64"
    and run: "append_entry_direct_internal E a n e rc cl s = (Inr u, s')"
  shows "n = of_nat (Suc (length (log_view E (view_of s) a)))
    \<and> view_inv E (view_of s') \<and> log_view E (view_of s') a = log_view E (view_of s) a @ [e]
    \<and> (\<forall>b. b \<noteq> a \<longrightarrow> log_view E (view_of s') b = log_view E (view_of s) b)
    \<and> (\<forall>b. inbox_view E (view_of s') b = inbox_view E (view_of s) b)
    \<and> caps_view E (view_of s') a =
        (case rc of Some r \<Rightarrow> Some r | None \<Rightarrow> if cl then None else caps_view E (view_of s) a)
    \<and> (\<forall>b. b \<noteq> a \<longrightarrow> caps_view E (view_of s') b = caps_view E (view_of s) b)"
proof -
  let ?W = "view_of s"
  obtain s1 s2 b1 b2 where n: "n = meta_at ?W a MetaField_HeadSeq + 1"
    and r1: "append_record_and_head_to_batch E [] a n e s = (Inr b1, s1)"
    and r2: "apply_runtime_capability_ops_to_batch E b1 a rc cl s1 = (Inr b2, s2)"
    and w: "write_batch E b2 s2 = (Inr u, s')"
    using run by (auto simp: append_entry_direct_internal_def elim!: try_then_InrE dest!: assert_next_InrD)
  have same: "view_of s2 = ?W"
    using readsD [OF reads_append_record r1] readsD [OF reads_apply_caps r2] by simp
  obtain bs where bs: "stored E (sj_record_entry (st_serde E)) bs = Some e"
    and b1: "b1 = [Put CF_RECORD (record_key_encode (RecordKey a n)) bs,
      Put CF_AGENT_META (agent_meta_key_encode (AgentMetaKey a MetaField_HeadSeq)) (u64_to_be_bytes n)]"
    using append_record_InrD [OF r1] by auto
  obtain ops where b2: "b2 = b1 @ ops"
    and oc: "\<forall>W c. c \<noteq> CF_RUNTIME_CAPABILITIES \<longrightarrow> apply_batch ops W c = W c"
    and cv: "\<forall>W. caps_view E (apply_batch ops W) a =
          (case rc of Some r \<Rightarrow> Some r | None \<Rightarrow> if cl then None else caps_view E W a)"
    and cx: "\<forall>W x. x \<noteq> a \<longrightarrow> caps_view E (apply_batch ops W) x = caps_view E W x"
    using apply_caps_InrD [OF r2] by blast
  define W1 where "W1 = apply_batch b1 ?W"
  have W': "view_of s' = apply_batch ops W1"
    using write_batch_InrD [OF w] by (simp add: b2 apply_batch_append same W1_def)
  have nn: "n = of_nat (Suc (head_len ?W a))"
    using n by (rule next_seq_of_nat)
  have L: "log_inv E (view_of s') \<and> log_view E (view_of s') a = log_view E ?W a @ [e]
    \<and> (\<forall>b. b \<noteq> a \<longrightarrow> log_view E (view_of s') b = log_view E ?W b)"
    using inv bound bs
    by (intro log_extend_view [where bss = "[bs]"])
      (auto simp: view_inv_def W' W1_def b1 oc meta_raw_def nn simp del: of_nat_Suc)
  have I: "inbox_inv E (view_of s') = inbox_inv E ?W" "inbox_view E (view_of s') b = inbox_view E ?W b" for b
    by (rule inbox_frame; auto simp: W' W1_def b1 oc meta_raw_def)+
  have C: "caps_view E W1 x = caps_view E ?W x" for x
    by (simp add: W1_def b1 caps_view_def)
  show ?thesis
    using L I inv nn cv cx C by (simp add: W' view_inv_def split: option.split)
qed

subsection \<open>Append coupled with a dequeue\<close>

lemma append_atomic_fails_clean: "fails_clean V (append_entry_atomic_internal E a n e q rc cl)"
  unfolding append_entry_atomic_internal_def Let_def by blast

lemma append_atomic_spec:
  assumes inv: "view_inv E (view_of s)" and bound: "Suc (head_len (view_of s) a) < 2 ^ 64"
    and q: "q = meta_at (view_of s) a MetaField_InboxHead" and ne: "inbox_view E (view_of s) a \<noteq> []"
    and run: "append_entry_atomic_internal E a n e q rc cl s = (Inr u, s')"
  shows "n = of_nat (Suc (length (log_view E (view_of s) a)))
    \<and> view_inv E (view_of s') \<and> log_view E (view_of s') a = log_view E (view_of s) a @ [e]
    \<and> inbox_view E (view_of s') a = tl (inbox_view E (view_of s) a)
    \<and> (\<forall>b. b \<noteq> a \<longrightarrow> log_view E (view_of s') b = log_view E (view_of s) b
                    \<and> inbox_view E (view_of s') b = inbox_view E (view_of s) b)
    \<and> caps_view E (view_of s') a =
        (case rc of Some r \<Rightarrow> Some r | None \<Rightarrow> if cl then None else caps_view E (view_of s) a)"
proof -
  let ?W = "view_of s"
  obtain s1 s2 b1 b2 where n: "n = meta_at ?W a MetaField_HeadSeq + 1"
    and r1: "append_record_and_head_to_batch E [] a n e s = (Inr b1, s1)"
    and r2: "apply_runtime_capability_ops_to_batch E
        (b1 @ [Delete CF_INBOX (inbox_key_encode (InboxKey a q)),
               Put CF_AGENT_META (agent_meta_key_encode (AgentMetaKey a MetaField_InboxHead))
                 (u64_to_be_bytes (q + 1))]) a rc cl s1 = (Inr b2, s2)"
    and w: "write_batch E b2 s2 = (Inr u, s')"
    using run by (auto simp: append_entry_atomic_internal_def Let_def elim!: try_then_InrE
        dest!: assert_next_InrD cf_handle_InrD)
  have same: "view_of s2 = ?W"
    using readsD [OF reads_append_record r1] readsD [OF reads_apply_caps r2] by simp
  obtain bs where bs: "stored E (sj_record_entry (st_serde E)) bs = Some e"
    and b1: "b1 = [Put CF_RECORD (record_key_encode (RecordKey a n)) bs,
      Put CF_AGENT_META (agent_meta_key_encode (AgentMetaKey a MetaField_HeadSeq)) (u64_to_be_bytes n)]"
    using append_record_InrD [OF r1] by auto
  obtain ops where b2: "b2 = (b1 @ [Delete CF_INBOX (inbox_key_encode (InboxKey a q)),
               Put CF_AGENT_META (agent_meta_key_encode (AgentMetaKey a MetaField_InboxHead))
                 (u64_to_be_bytes (q + 1))]) @ ops"
    and oc: "\<forall>W c. c \<noteq> CF_RUNTIME_CAPABILITIES \<longrightarrow> apply_batch ops W c = W c"
    and cv: "\<forall>W. caps_view E (apply_batch ops W) a =
          (case rc of Some r \<Rightarrow> Some r | None \<Rightarrow> if cl then None else caps_view E W a)"
    using apply_caps_InrD [OF r2] by blast
  define W1 where "W1 = apply_batch (b1 @ [Delete CF_INBOX (inbox_key_encode (InboxKey a q)),
               Put CF_AGENT_META (agent_meta_key_encode (AgentMetaKey a MetaField_InboxHead))
                 (u64_to_be_bytes (q + 1))]) ?W"
  have W': "view_of s' = apply_batch ops W1"
    using write_batch_InrD [OF w] by (simp add: b2 apply_batch_append same W1_def)
  have nn: "n = of_nat (Suc (head_len ?W a))"
    using n by (rule next_seq_of_nat)
  have qq: "q = of_nat (inbox_head ?W a)" "q + 1 = of_nat (Suc (inbox_head ?W a))"
    by (simp_all add: q inbox_head_def add.commute)
  have L: "log_inv E (view_of s') \<and> log_view E (view_of s') a = log_view E ?W a @ [e]
    \<and> (\<forall>b. b \<noteq> a \<longrightarrow> log_view E (view_of s') b = log_view E ?W b)"
    using inv bound bs
    by (intro log_extend_view [where bss = "[bs]"])
      (auto simp: view_inv_def W' W1_def b1 oc meta_raw_def nn simp del: of_nat_Suc)
  have ne': "inbox_head ?W a < inbox_tail ?W a"
    using ne by (auto simp: inbox_view_def)
  have I: "inbox_inv E (view_of s') \<and> inbox_view E (view_of s') a = tl (inbox_view E ?W a)
    \<and> (\<forall>b. b \<noteq> a \<longrightarrow> inbox_view E (view_of s') b = inbox_view E ?W b)"
    using inv ne'
    by (intro inbox_consume_view [OF _ refl])
      (auto simp: view_inv_def W' W1_def b1 oc meta_raw_def qq(2) simp del: of_nat_Suc, simp add: qq(1) fun_upd_def)
  have C: "caps_view E W1 a = caps_view E ?W a"
    by (simp add: W1_def b1 caps_view_def)
  show ?thesis
    using L I inv nn cv C by (simp add: W' view_inv_def split: option.split)
qed

subsection \<open>Inbox\<close>

lemma enqueue_fails_clean: "fails_clean V (enqueue_tx E tx)"
  unfolding enqueue_tx_def by blast

lemma enqueue_prepare_InrD:
  assumes "enqueue_tx_prepare E tx s = (Inr ops, s')"
  shows "\<exists>bs. stored E (sj_transaction (st_serde E)) bs = Some tx
    \<and> ops = [Put CF_INBOX (inbox_key_encode (InboxKey (tx_agent_id tx)
               (meta_at (view_of s) (tx_agent_id tx) MetaField_InboxTail))) bs,
             Put CF_AGENT_META (agent_meta_key_encode (AgentMetaKey (tx_agent_id tx) MetaField_InboxTail))
               (u64_to_be_bytes (meta_at (view_of s) (tx_agent_id tx) MetaField_InboxTail + 1))]"
  using assms encode_value_stored [OF codecs_ok(2)]
  by (auto simp: enqueue_tx_prepare_def Let_def elim!: try_then_InrE dest!: cf_handle_InrD read_meta_InrD)

lemma enqueue_spec:
  assumes inv: "view_inv E (view_of s)" and a: "a = tx_agent_id tx"
    and bound: "Suc (inbox_tail (view_of s) a) < 2 ^ 64" and run: "enqueue_tx E tx s = (Inr u, s')"
  shows "view_inv E (view_of s') \<and> inbox_view E (view_of s') a = inbox_view E (view_of s) a @ [tx]
    \<and> (\<forall>b. b \<noteq> a \<longrightarrow> inbox_view E (view_of s') b = inbox_view E (view_of s) b)
    \<and> (\<forall>b. log_view E (view_of s') b = log_view E (view_of s) b)"
proof -
  let ?W = "view_of s"
  let ?t = "meta_at ?W a MetaField_InboxTail"
  obtain s1 bs where p: "enqueue_tx_prepare E tx s = (Inr [Put CF_INBOX (inbox_key_encode (InboxKey a ?t)) bs,
      Put CF_AGENT_META (agent_meta_key_encode (AgentMetaKey a MetaField_InboxTail)) (u64_to_be_bytes (?t + 1))], s1)"
    and bs: "stored E (sj_transaction (st_serde E)) bs = Some tx"
    and w: "write_batch E [Put CF_INBOX (inbox_key_encode (InboxKey a ?t)) bs,
      Put CF_AGENT_META (agent_meta_key_encode (AgentMetaKey a MetaField_InboxTail)) (u64_to_be_bytes (?t + 1))] s1
      = (Inr u, s')"
  proof -
    obtain ops s2 where r: "enqueue_tx_prepare E tx s = (Inr ops, s2)" "write_batch E ops s2 = (Inr u, s')"
      using run by (auto simp: enqueue_tx_def elim!: try_then_InrE)
    then show ?thesis
      using enqueue_prepare_InrD [OF r(1)] that a by auto
  qed
  have W': "view_of s' = apply_batch [Put CF_INBOX (inbox_key_encode (InboxKey a ?t)) bs,
      Put CF_AGENT_META (agent_meta_key_encode (AgentMetaKey a MetaField_InboxTail)) (u64_to_be_bytes (?t + 1))] ?W"
    using write_batch_InrD [OF w] readsD [OF reads_enqueue_prepare p] by simp
  have tt: "?t = of_nat (inbox_tail ?W a)" "?t + 1 = of_nat (Suc (inbox_tail ?W a))"
    by (simp_all add: inbox_tail_def add.commute)
  have I: "inbox_inv E (view_of s') \<and> inbox_view E (view_of s') a = inbox_view E ?W a @ [tx]
    \<and> (\<forall>b. b \<noteq> a \<longrightarrow> inbox_view E (view_of s') b = inbox_view E ?W b)"
    using inv bound bs
    by (intro inbox_enqueue_view [OF _ refl])
      (auto simp: view_inv_def W' meta_raw_def tt(2) simp del: of_nat_Suc, simp add: tt(1))
  have L: "log_inv E (view_of s') = log_inv E ?W" "log_view E (view_of s') b = log_view E ?W b" for b
    by (rule log_frame; auto simp: W' meta_raw_def)+
  show ?thesis
    using I L inv by (simp add: view_inv_def)
qed

lemma dequeue_reads: "reads V (dequeue_tx E a)"
  unfolding dequeue_tx_def
  by (intro reads_try reads_cf_handle reads_read_meta)
    (auto split: option.splits intro!: reads_try)

lemma dequeue_spec:
  assumes inv: "view_inv E (view_of s)" and run: "dequeue_tx E a s = (Inr r, s')"
  shows "case r of
      None \<Rightarrow> inbox_view E (view_of s) a = []
    | Some (token, tx) \<Rightarrow>
        token_inbox_seq token = meta_at (view_of s) a MetaField_InboxHead
        \<and> inbox_view E (view_of s) a \<noteq> [] \<and> tx = hd (inbox_view E (view_of s) a)"
proof (cases "inbox_head (view_of s) a < inbox_tail (view_of s) a")
  case True
  then have lt: "\<not> meta_at (view_of s) a MetaField_InboxTail \<le> meta_at (view_of s) a MetaField_InboxHead"
    by (simp add: inbox_head_def inbox_tail_def word_le_nat_alt)
  then obtain bs where
    "view_of s CF_INBOX (inbox_key_encode (InboxKey a (meta_at (view_of s) a MetaField_InboxHead))) = Some bs"
    "\<exists>tx. r = Some (DequeueToken (meta_at (view_of s) a MetaField_InboxHead), tx)
       \<and> stored E (sj_transaction (st_serde E)) bs = Some tx"
    using run by (auto simp: dequeue_tx_def stored_iff elim!: try_then_InrE dest!: cf_handle_InrD
        read_meta_InrD get_cf_InrD split: if_splits option.splits)
  with True show ?thesis
    by (auto simp: inbox_view_def upt_conv_Cons tx_at_def inbox_head_def)
next
  case False
  then have ge: "\<not> meta_at (view_of s) a MetaField_InboxHead < meta_at (view_of s) a MetaField_InboxTail"
    by (simp add: inbox_head_def inbox_tail_def word_less_nat_alt)
  then have "r = None"
    using run by (auto simp: dequeue_tx_def not_less elim!: try_then_InrE dest!: cf_handle_InrD
        read_meta_InrD split: if_splits)
  with False show ?thesis by (simp add: inbox_view_def)
qed

lemma read_meta_not_corrupt: "read_meta_u64 E k s \<noteq> (Inl (StoreError_InboxCorruption b i), s')"
  by (auto simp: read_meta_u64_def cf_handle_def get_cf_def res_map_err_def elim!: try_then_InlE
      split: if_splits option.splits sum.splits)

lemma decode_not_corrupt: "decode_value E c m bs \<noteq> Inl (StoreError_InboxCorruption b i)"
  by (auto simp: decode_value_def open_value_def res_map_err_def res_bind_def
      split: option.splits sum.splits)

lemma get_cf_not_corrupt: "get_cf E c k s \<noteq> (Inl (StoreError_InboxCorruption b i), s')"
  by (auto simp: get_cf_def res_map_err_def split: sum.splits)

lemma cf_handle_not_corrupt: "cf_handle E c s \<noteq> (Inl (StoreError_InboxCorruption b i), s')"
  by (auto simp: cf_handle_def split: if_splits)

lemmas not_corrupt = read_meta_not_corrupt decode_not_corrupt get_cf_not_corrupt cf_handle_not_corrupt

lemma dequeue_never_corrupt:
  assumes inv: "view_inv E (view_of s)" and run: "dequeue_tx E a s = (Inl e, s')"
  shows "e \<noteq> StoreError_InboxCorruption b i"
proof -
  let ?h = "meta_at (view_of s) a MetaField_InboxHead" and ?t = "meta_at (view_of s) a MetaField_InboxTail"
  have "\<not> ?t \<le> ?h \<Longrightarrow> view_of s CF_INBOX (inbox_key_encode (InboxKey a ?h)) \<noteq> None"
  proof -
    assume "\<not> ?t \<le> ?h"
    then have "inbox_head (view_of s) a < inbox_tail (view_of s) a"
      by (simp add: inbox_head_def inbox_tail_def word_le_nat_alt)
    then have "tx_at E (view_of s) a (of_nat (inbox_head (view_of s) a)) \<noteq> None"
      using inv by (simp add: view_inv_def inbox_inv_def)
    then show "view_of s CF_INBOX (inbox_key_encode (InboxKey a ?h)) \<noteq> None"
      by (auto simp: tx_at_def inbox_head_def bind_eq_Some_conv)
  qed
  with run show ?thesis
    by (auto simp: dequeue_tx_def not_corrupt elim!: try_then_InlE try_then_InrE
        dest!: read_meta_InrD cf_handle_InrD get_cf_InrD split: if_splits option.splits)
qed

subsection \<open>Scans\<close>

lemma iterator_ok:
  "\<exists>L. iter_entries (view_of s c) start dir L \<and>
    (db_iterator (st_rocksdb E) (rk_db s) c start dir = map Inr L
     \<or> (\<exists>n e rest. db_iterator (st_rocksdb E) (rk_db s) c start dir = map Inr (take n L) @ Inl e # rest))"
  using env_ok by (auto simp: store_ok_def rocksdb_ok_def)

lemma scan_reads: "reads V (scan_record E a f n)" "reads V (scan_record_descending E a f n)"
  by (auto simp: scan_record_def scan_record_descending_def reads_def try_then_def cf_handle_def
      split: prod.splits sum.splits if_splits)

text \<open>The entries a forward iterator yields for an agent: its raw log, then keys past its end.\<close>

lemma forward_shape:
  assumes li: "log_inv E W" and bound: "Suc (head_len W a) < 2 ^ 64"
    and it: "iter_entries (W CF_RECORD) (scan_from a from) Forward L"
  shows "L = raw_log W a (unat from - 1) (head_len W a) @ filter (\<lambda>q. \<not> fst q < scan_end a) L"
    and "list_all2 (good_item E a (\<lambda>key. scan_end a \<le> key)) (raw_log W a (unat from - 1) (head_len W a))
      (drop (unat from - 1) (log_view E W a))"
proof -
  show "L = raw_log W a (unat from - 1) (head_len W a) @ filter (\<lambda>q. \<not> fst q < scan_end a) L"
    using sorted_split [of L "scan_end a"] forward_entries [OF li bound it] it
    by (simp add: iter_entries_def)
  have "list_all2 (good_item E a (\<lambda>key. scan_end a \<le> key)) (raw_log W a (unat from - 1) (head_len W a))
      (drop (unat from - 1) (take (head_len W a) (log_view E W a)))"
  proof (rule raw_log_good [OF li order.refl])
    fix i assume "i < head_len W a"
    with bound show "\<not> scan_end a \<le> record_key_encode (RecordKey a (of_nat (Suc i)))"
      by (simp add: not_le scan_end_def rec_key.encode_less_iff word_less_nat_alt unat_max_u64
          unat_of_nat_u64 del: of_nat_Suc)
  qed
  then show "list_all2 (good_item E a (\<lambda>key. scan_end a \<le> key)) (raw_log W a (unat from - 1) (head_len W a))
      (drop (unat from - 1) (log_view E W a))" by simp
qed

lemma scan_spec:
  assumes inv: "view_inv E (view_of s)" and bound: "Suc (head_len (view_of s) a) < 2 ^ 64"
    and run: "scan_record E a from limit s = (Inr r, s')"
  shows "r = take (max 1 limit) (drop (unat from - 1) (log_view E (view_of s) a))"
proof -
  let ?W = "view_of s" and ?past = "\<lambda>key. scan_end a \<le> key"
  have li: "log_inv E ?W" using inv by (simp add: view_inv_def)
  obtain L where it: "iter_entries (?W CF_RECORD) (scan_from a from) Forward L"
    and items: "db_iterator (st_rocksdb E) (rk_db s) CF_RECORD (scan_from a from) Forward = map Inr L
      \<or> (\<exists>n e rest. db_iterator (st_rocksdb E) (rk_db s) CF_RECORD (scan_from a from) Forward
            = map Inr (take n L) @ Inl e # rest)"
    using iterator_ok by blast
  have l: "scan_loop E a ?past limit [] (db_iterator (st_rocksdb E) (rk_db s) CF_RECORD (scan_from a from) Forward) = Inr r"
    using run by (auto simp: scan_record_def elim!: try_then_InrE dest!: cf_handle_InrD)
  show ?thesis
    by (rule scan_loop_result [OF forward_shape(2) [OF li bound it] _ forward_shape(1) [OF li bound it] items l])
      (simp add: not_less)
qed

text \<open>The entries a backward iterator yields for an agent: its raw log from the start down, then keys before it.\<close>

lemma backward_shape:
  assumes li: "log_inv E W" and nz: "from \<noteq> 0"
    and it: "iter_entries (W CF_RECORD) (scan_from a from) Reverse L"
  shows "L = rev (raw_log W a 0 (min (unat from) (head_len W a))) @ filter (\<lambda>q. fst q < scan_from a 1) L"
    and "list_all2 (good_item E a (\<lambda>key. key < scan_from a 1)) (rev (raw_log W a 0 (min (unat from) (head_len W a))))
      (rev (take (unat from) (log_view E W a)))"
proof -
  let ?n = "min (unat from) (head_len W a)"
  show "L = rev (raw_log W a 0 ?n) @ filter (\<lambda>q. fst q < scan_from a 1) L"
    using rev_sorted_split [of L "scan_from a 1"] backward_entries [OF li nz it] it
    by (simp add: iter_entries_def)
  have "list_all2 (good_item E a (\<lambda>key. key < scan_from a 1)) (raw_log W a 0 ?n) (drop 0 (take ?n (log_view E W a)))"
  proof (rule raw_log_good [OF li])
    fix i assume "i < ?n"
    then show "\<not> record_key_encode (RecordKey a (of_nat (Suc i))) < scan_from a 1"
      using head_len_bound [of W a]
      by (simp add: not_less scan_from_def rec_key.encode_le_iff word_le_nat_alt unat_of_nat_u64 del: of_nat_Suc)
  qed simp
  moreover have "take ?n (log_view E W a) = take (unat from) (log_view E W a)"
    by (simp add: min_def)
  ultimately show "list_all2 (good_item E a (\<lambda>key. key < scan_from a 1)) (rev (raw_log W a 0 ?n))
      (rev (take (unat from) (log_view E W a)))"
    by (simp add: list_all2_rev)
qed

lemma scan_desc_spec:
  assumes inv: "view_inv E (view_of s)"
    and run: "scan_record_descending E a from limit s = (Inr r, s')"
  shows "r = take limit (rev (take (unat from) (log_view E (view_of s) a)))"
proof (cases "from = 0 \<or> limit = 0")
  case True
  with run show ?thesis by (auto simp: scan_record_descending_def)
next
  case False
  let ?W = "view_of s" and ?past = "\<lambda>key. key < scan_from a 1"
  have li: "log_inv E ?W" using inv by (simp add: view_inv_def)
  obtain L where it: "iter_entries (?W CF_RECORD) (scan_from a from) Reverse L"
    and items: "db_iterator (st_rocksdb E) (rk_db s) CF_RECORD (scan_from a from) Reverse = map Inr L
      \<or> (\<exists>n e rest. db_iterator (st_rocksdb E) (rk_db s) CF_RECORD (scan_from a from) Reverse
            = map Inr (take n L) @ Inl e # rest)"
    using iterator_ok by blast
  have l: "scan_loop E a ?past limit [] (db_iterator (st_rocksdb E) (rk_db s) CF_RECORD (scan_from a from) Reverse) = Inr r"
    using run False by (auto simp: scan_record_descending_def elim!: try_then_InrE dest!: cf_handle_InrD)
  have "from \<noteq> 0" using False by simp
  note shape = backward_shape [OF li this it]
  have "r = take (max 1 limit) (rev (take (unat from) (log_view E ?W a)))"
    by (rule scan_loop_result [OF shape(2) _ shape(1) items l]) simp
  with False show ?thesis by simp
qed

subsection \<open>Batch append\<close>

lemma batch_puts_InrD:
  "batch_puts E CF_RECORD a (of_nat m) b es s = (Inr b', s') \<Longrightarrow>
   \<exists>bss. list_all2 (\<lambda>bs e. stored E (sj_record_entry (st_serde E)) bs = Some e) bss es
     \<and> b' = b @ record_puts a m bss"
proof (induction es arbitrary: m b s)
  case (Cons e es)
  obtain bs s1 where enc: "encode_value E (sj_record_entry (st_serde E)) e s = (Inr bs, s1)"
    and rest: "batch_puts E CF_RECORD a (of_nat (Suc m))
        (b @ [Put CF_RECORD (record_key_encode (RecordKey a (of_nat m))) bs]) es s1 = (Inr b', s')"
    using Cons.prems by (auto simp: add.commute elim!: try_then_InrE)
  obtain bss where "list_all2 (\<lambda>bs e. stored E (sj_record_entry (st_serde E)) bs = Some e) bss es"
    "b' = (b @ [Put CF_RECORD (record_key_encode (RecordKey a (of_nat m))) bs]) @ record_puts a (Suc m) bss"
    using Cons.IH [OF rest] by blast
  with encode_value_stored [OF codecs_ok(1) enc] show ?case
    by (intro exI [of _ "bs # bss"]) simp
qed simp

lemma batch_fails_clean: "fails_clean V (append_entries_batch E a n es)"
  unfolding append_entries_batch_def Let_def get_head_seq_def
  by (auto intro!: fails_clean_try reads_imp_fails_clean [OF reads_ok(1)] reads_imp_fails_clean [OF reads_ok(2)])

lemma batch_spec:
  assumes inv: "view_inv E (view_of s)" and bound: "head_len (view_of s) a + length es < 2 ^ 64"
    and run: "append_entries_batch E a n es s = (Inr u, s')" and ne: "es \<noteq> []"
  shows "n = of_nat (Suc (length (log_view E (view_of s) a)))
    \<and> view_inv E (view_of s') \<and> log_view E (view_of s') a = log_view E (view_of s) a @ es
    \<and> (\<forall>b. b \<noteq> a \<longrightarrow> log_view E (view_of s') b = log_view E (view_of s) b)
    \<and> (\<forall>b. inbox_view E (view_of s') b = inbox_view E (view_of s) b)"
proof -
  let ?W = "view_of s" and ?h = "head_len (view_of s) a"
  let ?hk = "agent_meta_key_encode (AgentMetaKey a MetaField_HeadSeq)"
  obtain s1 b1 where n: "n = meta_at ?W a MetaField_HeadSeq + 1"
    and r1: "batch_puts E CF_RECORD a n [] es s = (Inr b1, s1)"
    and w: "write_batch E (b1 @ [Put CF_AGENT_META ?hk (u64_to_be_bytes (n + of_nat (length es) - 1))]) s1 = (Inr u, s')"
    using run ne by (auto simp: append_entries_batch_def get_head_seq_def Let_def elim!: try_then_InrE
        dest!: cf_handle_InrD read_meta_InrD split: if_splits)
  have nn: "n = of_nat (Suc ?h)" using n by (rule next_seq_of_nat)
  obtain bss where bss: "list_all2 (\<lambda>bs e. stored E (sj_record_entry (st_serde E)) bs = Some e) bss es"
    and b1: "b1 = record_puts a (Suc ?h) bss"
    using batch_puts_InrD [of a "Suc ?h" "[]" es s b1 s1] r1 nn by (auto simp del: of_nat_Suc)
  have len: "length bss = length es" using bss by (rule list_all2_lengthD)
  have last: "n + of_nat (length es) - 1 = of_nat (?h + length es)"
    by (simp add: nn)
  define W1 where "W1 = apply_batch b1 ?W"
  have W': "view_of s' = W1(CF_AGENT_META := (W1 CF_AGENT_META)(?hk := Some (u64_to_be_bytes (of_nat (?h + length es)))))"
    using write_batch_InrD [OF w] readsD [OF reads_batch_puts r1]
    by (simp add: apply_batch_append W1_def last)
  have fr: "W1 c = ?W c" if "c \<noteq> CF_RECORD" for c
    using that by (simp add: W1_def b1 record_puts_frame)
  have L: "log_inv E (view_of s') \<and> log_view E (view_of s') a = log_view E ?W a @ es
    \<and> (\<forall>b. b \<noteq> a \<longrightarrow> log_view E (view_of s') b = log_view E ?W b)"
  proof (rule log_extend_view [where bss = bss, OF _ refl bound bss])
    show "log_inv E ?W" using inv by (simp add: view_inv_def)
    show "view_of s' CF_RECORD (record_key_encode (RecordKey a (of_nat (Suc (?h + i))))) = Some (bss ! i)"
      if "i < length es" for i
      using record_puts_at [of "Suc ?h" bss i a ?W] bound that len
      by (simp add: W' W1_def b1 del: of_nat_Suc of_nat_add)
    show "view_of s' CF_RECORD k = ?W CF_RECORD k"
      if "\<And>i. i < length es \<Longrightarrow> k \<noteq> record_key_encode (RecordKey a (of_nat (Suc (?h + i))))" for k
      using record_puts_other [of bss k a "Suc ?h" ?W] that len
      by (simp add: W' W1_def b1 del: of_nat_Suc of_nat_add)
  qed (auto simp: W' meta_raw_def fr)
  have I: "inbox_inv E (view_of s') = inbox_inv E ?W" "inbox_view E (view_of s') b = inbox_view E ?W b" for b
    by (rule inbox_frame; auto simp: W' fr meta_raw_def)+
  show ?thesis
    using L I inv nn by (simp add: view_inv_def)
qed

subsection \<open>Point reads, claims and defaults\<close>

lemma get_entry_spec:
  assumes inv: "view_inv E (view_of s)" and run: "get_record_entry E a (of_nat (Suc i)) s = (Inr e, s')"
    and i: "i < length (log_view E (view_of s) a)"
  shows "e = log_view E (view_of s) a ! i"
  using run i
  by (auto simp: get_record_entry_def stored_iff log_view_def entry_at_def elim!: try_then_InrE
      dest!: cf_handle_InrD get_cf_InrD split: option.splits simp del: of_nat_Suc)

lemma claim_spec:
  assumes "try_claim_agent_processing E a s = (Inr r, s')"
  shows "r = (view_of s CF_AGENT_META (processing_claim_key a) = None)
    \<and> view_of s' CF_AGENT_META (processing_claim_key a) \<noteq> None
    \<and> (\<forall>b. b \<noteq> a \<longrightarrow> view_of s' CF_AGENT_META (processing_claim_key b) = view_of s CF_AGENT_META (processing_claim_key b))"
  using assms
  by (auto simp: try_claim_agent_processing_def processing_claim_key_def elim!: try_then_InrE
      dest!: cf_handle_InrD get_cf_InrD write_batch_InrD split: if_splits)

lemma release_spec:
  assumes "release_agent_processing E a s = (Inr u, s')"
  shows "view_of s' CF_AGENT_META (processing_claim_key a) = None
    \<and> (\<forall>b. b \<noteq> a \<longrightarrow> view_of s' CF_AGENT_META (processing_claim_key b) = view_of s CF_AGENT_META (processing_claim_key b))"
  using assms
  by (auto simp: release_agent_processing_def processing_claim_key_def elim!: try_then_InrE
      dest!: cf_handle_InrD write_batch_InrD)

lemma claim_keeps_views:
  assumes "try_claim_agent_processing E a s = (r, s') \<or> release_agent_processing E a s = (r', s')"
  shows "(view_inv E (view_of s') \<longleftrightarrow> view_inv E (view_of s))
    \<and> log_view E (view_of s') b = log_view E (view_of s) b
    \<and> inbox_view E (view_of s') b = inbox_view E (view_of s) b"
proof -
  have "\<exists>m. view_of s' = (view_of s)(CF_AGENT_META := m) \<and>
     (\<forall>k. k \<noteq> processing_claim_key a \<longrightarrow> m k = view_of s CF_AGENT_META k)"
  proof -
    have wr: "\<exists>m. view_of t' = (view_of t)(CF_AGENT_META := m) \<and>
     (\<forall>k. k \<noteq> processing_claim_key a \<longrightarrow> m k = view_of t CF_AGENT_META k)"
      if "write_batch E [op1] t = (r2, t')"
        "op1 = Put CF_AGENT_META (processing_claim_key a) v \<or> op1 = Delete CF_AGENT_META (processing_claim_key a)"
      for op1 t r2 t' v
    proof (cases r2)
      case (Inl e)
      with that(1) fails_cleanD [OF write_batch_fails_clean] have "view_of t' = view_of t" by blast
      then show ?thesis by (intro exI [of _ "view_of t CF_AGENT_META"]) simp
    next
      case (Inr u)
      with that write_batch_InrD [of "[op1]" t u t'] show ?thesis by auto
    qed
    have same: "\<exists>m. view_of t = (view_of t)(CF_AGENT_META := m) \<and>
     (\<forall>k. k \<noteq> processing_claim_key a \<longrightarrow> m k = view_of t CF_AGENT_META k)" for t
      by (intro exI [of _ "view_of t CF_AGENT_META"]) simp
    from assms show ?thesis
      by (auto simp: try_claim_agent_processing_def release_agent_processing_def try_then_def
          cf_handle_def get_cf_def split: prod.splits sum.splits if_splits dest: wr intro: same)
  qed
  then obtain m where m: "view_of s' = (view_of s)(CF_AGENT_META := m)"
    and mk: "\<And>k. k \<noteq> processing_claim_key a \<Longrightarrow> m k = view_of s CF_AGENT_META k" by blast
  have raw: "meta_raw (view_of s') b f = meta_raw (view_of s) b f" if "f \<noteq> MetaField_ProcessingClaim" for b f
    using mk that by (simp add: m processing_claim_key_def meta_raw_def)
  have "log_inv E (view_of s') = log_inv E (view_of s)" "log_view E (view_of s') b = log_view E (view_of s) b"
    by (rule log_frame; use raw in \<open>auto simp: m\<close>)+
  moreover have "inbox_inv E (view_of s') = inbox_inv E (view_of s)"
    "inbox_view E (view_of s') b = inbox_view E (view_of s) b"
    by (rule inbox_frame; use raw in \<open>auto simp: m\<close>)+
  ultimately show ?thesis by (simp add: view_inv_def)
qed

lemma user_defaults_roundtrip:
  assumes "put_user_tool_defaults E user d s = (Inr u, s1)" "get_user_tool_defaults E user s1 = (Inr r, s2)"
  shows "r = Some d"
  using assms encode_value_stored [OF codecs_ok(4)]
  by (auto simp: put_user_tool_defaults_def get_user_tool_defaults_def stored_iff elim!: try_then_InrE
      dest!: cf_handle_InrD get_cf_InrD write_batch_InrD split: option.splits)

lemma status_roundtrip:
  assumes "set_agent_status E a st s = (Inr u, s1)" "get_agent_status E a s1 = (Inr r, s2)"
  shows "r = st"
  using assms
  by (auto simp: set_agent_status_def get_agent_status_def elim!: try_then_InrE
      dest!: cf_handle_InrD get_cf_InrD write_batch_InrD split: option.splits if_splits)

end

end
