(* ===== verification/Record_Log.thy ===== *)
theory Record_Log
  imports Store_Spec
begin

text \<open>
  The crates \<open>aura-store-record\<close> and \<open>aura-store-snapshot\<close> and the bridge from the durable store to
  them: payload summaries, record kinds, the \<open>RecordLog\<close> trait as the locale \<open>record_log\<close>, and its
  implementation by \<open>RocksStore\<close>.  The locale's client lemmas say what a caller of the trait may rely
  on; the sublocale from \<open>rocks_env\<close> discharges its laws for the store, and the interpretation at the
  end does so for a concrete in-memory database, which also serves the witnesses.
\<close>

section \<open>Payloads\<close>

(* src/crates/aura-store-record/src/payload.rs:54-54 DEFAULT_SUMMARY_CHUNK_BYTES *)
definition DEFAULT_SUMMARY_CHUNK_BYTES :: nat where
  "DEFAULT_SUMMARY_CHUNK_BYTES = 1024"

(* src/crates/aura-store-record/src/payload.rs:60-94 RecordPayload *)
datatype record_payload =
    Payload_Inline (inline_bytes: bytes)
  | Payload_Summary (sum_head: bytes) (sum_tail: bytes) (sum_full_hash: string) (sum_full_len: nat)

(* src/crates/aura-store-record/src/payload.rs:96-122 summarize_payload *)
definition summarize_payload ::
  "(bytes \<Rightarrow> array32) \<Rightarrow> (bytes \<Rightarrow> string) \<Rightarrow> bytes \<Rightarrow> nat \<Rightarrow> record_payload" where
  "summarize_payload blake3 to_hex bs threshold =
    (if length bs \<le> threshold then Payload_Inline bs
     else
       let chunk = min DEFAULT_SUMMARY_CHUNK_BYTES (length bs div 2) in
       Payload_Summary (take chunk bs) (drop (length bs - chunk) bs)
         (to_hex (array32_bytes (blake3 bs))) (length bs))"

(* src/crates/aura-store-record/src/kind.rs:37-98 RecordKind *)
datatype record_kind =
    RecordKind_ModelProposal
  | RecordKind_ToolEffect
  | RecordKind_SpawnChild
  | RecordKind_Compaction
  | RecordKind_SteeringDecision
  | RecordKind_PolicyVerdict
  | RecordKind_PermissionsUpdate
  | RecordKind_SubagentSpawn
  | RecordKind_ChildCancelledByParentDeath
  | RecordKind_ChildOrphanedByParentDeath
  | RecordKind_OrphanReaped
  | RecordKind_SessionStop
  | RecordKind_ToolCallBlockedByHook
  | RecordKind_Unknown

section \<open>Snapshots\<close>

(* src/crates/aura-store-snapshot/src/lib.rs:41-46 SnapshotError *)
datatype snapshot_error = SnapshotError_Backend string

text \<open>The trait \<open>SnapshotStore\<close> as a table of operations on the state it works on.\<close>

(* src/crates/aura-store-snapshot/src/lib.rs:48-73 SnapshotStore *)
record 's snapshot_ops =
  snap_put :: "string \<Rightarrow> bytes \<Rightarrow> ('s, snapshot_error, unit) act"
  snap_get :: "string \<Rightarrow> ('s, snapshot_error, bytes option) act"

(* src/crates/aura-store-snapshot/src/lib.rs:75-92 NoopSnapshotStore *)
definition noop_snapshot_store :: "'s snapshot_ops" where
  "noop_snapshot_store = \<lparr> snap_put = (\<lambda>_ _. ok ()), snap_get = (\<lambda>_. ok None) \<rparr>"

section \<open>The record log\<close>

(* src/crates/aura-store-record/src/log.rs:54-71 RecordLogError *)
datatype record_log_error =
    RecordLogError_Backend string
  | RecordLogError_SeqOutOfOrder agent_id u64 u64

text \<open>The two printers the error messages of the bridge use are parameters.\<close>

record printers =
  show_agent :: "agent_id \<Rightarrow> string"
  show_store_error :: "store_error \<Rightarrow> string"

(* src/crates/aura-store-db/src/record_log_bridge.rs:37-48 map_append_error *)
definition map_append_error :: "printers \<Rightarrow> agent_id \<Rightarrow> u64 \<Rightarrow> store_error \<Rightarrow> record_log_error" where
  "map_append_error P agent_id entry_seq e =
    (case e of
       StoreError_SequenceMismatch expected actual \<Rightarrow> RecordLogError_SeqOutOfOrder agent_id expected actual
     | _ \<Rightarrow> RecordLogError_Backend
         (''RocksStore::append_entry_direct(agent_id='' @ show_agent P agent_id @ '', seq='' @
          nat_str (unat entry_seq) @ ''): '' @ show_store_error P e))"

(* src/crates/aura-store-db/src/record_log_bridge.rs:50-54 map_head_seq_error *)
definition map_head_seq_error :: "printers \<Rightarrow> agent_id \<Rightarrow> store_error \<Rightarrow> record_log_error" where
  "map_head_seq_error P agent_id e = RecordLogError_Backend
    (''RocksStore::get_head_seq(agent_id='' @ show_agent P agent_id @ ''): '' @ show_store_error P e)"

(* src/crates/aura-store-db/src/record_log_bridge.rs:56-60 map_scan_error *)
definition map_scan_error :: "printers \<Rightarrow> agent_id \<Rightarrow> u64 \<Rightarrow> store_error \<Rightarrow> record_log_error" where
  "map_scan_error P agent_id from_seq e = RecordLogError_Backend
    (''RocksStore::scan_record(agent_id='' @ show_agent P agent_id @ '', from_seq='' @
     nat_str (unat from_seq) @ ''): '' @ show_store_error P e)"

(* src/crates/aura-store-db/src/record_log_bridge.rs:62-66 RecordLog::append *)
definition rl_append ::
  "'db store_env \<Rightarrow> printers \<Rightarrow> agent_id \<Rightarrow> record_entry \<Rightarrow> ('db rocks_state, record_log_error, unit) act" where
  "rl_append E P a entry =
    map_err (map_append_error P a (re_seq entry)) (append_entry_direct E a (re_seq entry) entry)"

(* src/crates/aura-store-db/src/record_log_bridge.rs:68-71 RecordLog::head_seq *)
definition rl_head_seq ::
  "'db store_env \<Rightarrow> printers \<Rightarrow> agent_id \<Rightarrow> ('db rocks_state, record_log_error, u64) act" where
  "rl_head_seq E P a = map_err (map_head_seq_error P a) (get_head_seq E a)"

(* src/crates/aura-store-db/src/record_log_bridge.rs:73-82 RecordLog::scan *)
definition rl_scan ::
  "'db store_env \<Rightarrow> printers \<Rightarrow> agent_id \<Rightarrow> u64 \<Rightarrow> nat \<Rightarrow>
   ('db rocks_state, record_log_error, record_entry list) act" where
  "rl_scan E P a from_seq limit = map_err (map_scan_error P a from_seq) (scan_record E a from_seq limit)"

text \<open>A log whose entries carry the sequence number of their position.\<close>

definition contiguous :: "record_entry list \<Rightarrow> bool" where
  "contiguous es = (\<forall>i < length es. re_seq (es ! i) = of_nat (Suc i))"

lemma contiguous_Nil [simp]: "contiguous []"
  by (simp add: contiguous_def)

lemma contiguous_snoc: "contiguous (es @ [e]) \<longleftrightarrow> contiguous es \<and> re_seq e = of_nat (Suc (length es))"
  by (auto simp: contiguous_def nth_append less_Suc_eq)

locale record_log =
  fixes append :: "agent_id \<Rightarrow> record_entry \<Rightarrow> ('s, record_log_error, unit) act"
    and head_seq :: "agent_id \<Rightarrow> ('s, record_log_error, u64) act"
    and scan :: "agent_id \<Rightarrow> u64 \<Rightarrow> nat \<Rightarrow> ('s, record_log_error, record_entry list) act"
    and log :: "'s \<Rightarrow> agent_id \<Rightarrow> record_entry list"
    and inv :: "'s \<Rightarrow> bool"
  assumes append_ok: "inv s \<Longrightarrow> Suc (length (log s a)) < 2 ^ 64 \<Longrightarrow> append a e s = (Inr u, s') \<Longrightarrow>
      inv s' \<and> re_seq e = of_nat (Suc (length (log s a)))
      \<and> log s' a = log s a @ [e] \<and> (\<forall>b. b \<noteq> a \<longrightarrow> log s' b = log s b)"
    and append_err: "inv s \<Longrightarrow> append a e s = (Inl x, s') \<Longrightarrow> inv s' \<and> log s' = log s"
    and head_ok: "inv s \<Longrightarrow> head_seq a s = (Inr n, s') \<Longrightarrow> n = of_nat (length (log s a))"
    and scan_ok: "inv s \<Longrightarrow> Suc (length (log s a)) < 2 ^ 64 \<Longrightarrow> scan a from lim s = (Inr es, s') \<Longrightarrow>
      es = take (max 1 lim) (drop (unat from - 1) (log s a))"
begin

text \<open>Appending through the trait, as a sequence of attempts that may each fail.\<close>

primrec append_all :: "(agent_id \<times> record_entry) list \<Rightarrow> 's \<Rightarrow> 's" where
  "append_all [] s = s"
| "append_all (p # ps) s = append_all ps (snd (append (fst p) (snd p) s))"

lemma append_step:
  assumes "inv s" "\<And>b. Suc (length (log s b)) < 2 ^ 64"
  shows "inv (snd (append a e s)) \<and> prefix (log s b) (log (snd (append a e s)) b)
    \<and> length (log (snd (append a e s)) b) \<le> Suc (length (log s b))
    \<and> (contiguous (log s b) \<longrightarrow> contiguous (log (snd (append a e s)) b))"
proof -
  obtain r s' where run: "append a e s = (r, s')" by (cases "append a e s")
  show ?thesis
  proof (cases r)
    case (Inl x)
    with run append_err [OF assms(1)] show ?thesis by fastforce
  next
    case (Inr u)
    with run append_ok [OF assms(1) assms(2)] show ?thesis
      by (cases "b = a") (auto simp: contiguous_snoc)
  qed
qed

text \<open>
  Whatever the callers attempt, in whatever order, every log only grows at its end and stays
  contiguous.
\<close>

lemma append_all_contiguous:
  assumes "inv s" "\<And>b. length (log s b) + length ps + 1 < 2 ^ 64" "\<And>b. contiguous (log s b)"
  shows "inv (append_all ps s) \<and> prefix (log s b) (log (append_all ps s) b)
    \<and> contiguous (log (append_all ps s) b)"
  using assms
proof (induction ps arbitrary: s)
  case (Cons p ps)
  let ?s = "snd (append (fst p) (snd p) s)"
  have bound: "Suc (length (log s c)) < 2 ^ 64" for c using Cons.prems(2) [of c] by simp
  note step = append_step [OF Cons.prems(1) bound, of "fst p" "snd p"]
  have "length (log ?s c) + length ps + 1 < 2 ^ 64" for c
    using step [of c] Cons.prems(2) [of c] by simp
  moreover have "inv ?s" "contiguous (log ?s c)" for c
    using step Cons.prems(3) by blast+
  ultimately have "inv (append_all ps ?s) \<and> prefix (log ?s b) (log (append_all ps ?s) b)
      \<and> contiguous (log (append_all ps ?s) b)"
    using Cons.IH [of ?s] by blast
  with step [of b] show ?case by (auto intro: prefix_order.trans)
qed simp

end

context rocks_env
begin

lemma head_spec: "get_head_seq E a s = (Inr n, s') \<Longrightarrow> n = of_nat (length (log_view E (view_of s) a))"
  by (auto simp: get_head_seq_def head_len_def dest!: read_meta_InrD)

lemma append_direct_seq_mismatch:
  assumes "append_entry_direct_internal E a n e rc cl s = (Inl (StoreError_SequenceMismatch x y), s')"
  shows "x = of_nat (Suc (length (log_view E (view_of s) a))) \<and> y = n \<and> n \<noteq> x"
proof -
  have enc: "encode_value E c z t \<noteq> (Inl (StoreError_SequenceMismatch p q), t')" for c z t p q t'
    by (auto simp: encode_value_def seal_value_def res_map_err_def store_error_of_serde_def
        elim!: try_then_InlE split: sum.splits option.splits)
  have wr: "write_batch E ops t \<noteq> (Inl (StoreError_SequenceMismatch p q), t')" for ops t p q t'
    by (auto simp: write_batch_def res_map_err_def split: sum.splits prod.splits)
  have hd: "cf_handle E c t \<noteq> (Inl (StoreError_SequenceMismatch p q), t')" for c t p q t'
    by (auto simp: cf_handle_def)
  have rec1: "append_record_and_head_to_batch E b1 a m e t \<noteq> (Inl (StoreError_SequenceMismatch p q), t')" for b1 m t p q t'
    by (auto simp: append_record_and_head_to_batch_def hd enc elim!: try_then_InlE)
  have cap: "apply_runtime_capability_ops_to_batch E b1 a rc cl t \<noteq> (Inl (StoreError_SequenceMismatch p q), t')" for b1 t p q t'
    by (auto simp: apply_runtime_capability_ops_to_batch_def Let_def hd enc elim!: try_then_InlE split: option.splits)
  have gc: "get_cf E c k t \<noteq> (Inl (StoreError_SequenceMismatch p q), t')" for c k t p q t'
    by (auto simp: get_cf_def res_map_err_def split: sum.splits)
  have rd: "read_meta_u64 E k t \<noteq> (Inl (StoreError_SequenceMismatch p q), t')" for k t p q t'
    by (auto simp: read_meta_u64_def hd gc elim!: try_then_InlE split: option.splits if_splits)
  show ?thesis
    using assms
    by (auto simp: append_entry_direct_internal_def assert_next_seq_def get_head_seq_def rec1 cap wr rd
        head_len_def add.commute elim!: try_then_InlE dest!: read_meta_InrD split: if_splits)
qed

end

sublocale rocks_env \<subseteq> rl: record_log "rl_append E P" "rl_head_seq E P" "rl_scan E P"
  "\<lambda>s. log_view E (V (rk_db s))" "\<lambda>s. view_inv E (V (rk_db s))"
proof unfold_locales
  fix s a e u s'
  assume "view_inv E (V (rk_db s))" "Suc (length (log_view E (V (rk_db s)) a)) < 2 ^ 64"
    "rl_append E P a e s = (Inr u, s')"
  then show "view_inv E (V (rk_db s')) \<and> re_seq e = of_nat (Suc (length (log_view E (V (rk_db s)) a)))
      \<and> log_view E (V (rk_db s')) a = log_view E (V (rk_db s)) a @ [e]
      \<and> (\<forall>b. b \<noteq> a \<longrightarrow> log_view E (V (rk_db s')) b = log_view E (V (rk_db s)) b)"
    using append_direct_spec [of s a "re_seq e" e None False u s']
    by (simp add: rl_append_def append_entry_direct_def)
next
  fix s a e x s'
  assume "view_inv E (V (rk_db s))" "rl_append E P a e s = (Inl x, s')"
  then show "view_inv E (V (rk_db s')) \<and> log_view E (V (rk_db s')) = log_view E (V (rk_db s))"
    using fails_cleanD [OF append_direct_fails_clean]
    by (auto simp: rl_append_def append_entry_direct_def map_err_Inl_iff)
next
  fix s a n s'
  assume "rl_head_seq E P a s = (Inr n, s')"
  then show "n = of_nat (length (log_view E (V (rk_db s)) a))"
    using head_spec [of a s n s'] by (simp add: rl_head_seq_def)
next
  fix s a "from" n es s'
  assume "view_inv E (V (rk_db s))" "Suc (length (log_view E (V (rk_db s)) a)) < 2 ^ 64"
    "rl_scan E P a from n s = (Inr es, s')"
  then show "es = take (max 1 n) (drop (unat from - 1) (log_view E (V (rk_db s)) a))"
    using scan_spec [of s a "from" n es s'] by (simp add: rl_scan_def)
qed

end
