(* ===== verification/Store_Memory.thy ===== *)
theory Store_Memory
  imports Record_Log
begin

text \<open>
  An in-memory database that meets the hypotheses of \<open>rocksdb_ok\<close>, and the table codecs of
  \<open>Core_Types\<close>: the instance of the library parameters at which \<open>rocks_env\<close> is
  interpreted and the witnesses of the store, the kernel and the replayer are evaluated.  Then the
  properties of the store, stated of \<open>RocksStore\<close> over every library that meets the hypotheses.
\<close>

section \<open>In-memory libraries\<close>

type_synonym memdb = "cf \<Rightarrow> (bytes \<times> bytes) list"

fun mem_op :: "batch_op \<Rightarrow> memdb \<Rightarrow> memdb" where
  "mem_op (Put c k v) db = db(c := (k, v) # db c)"
| "mem_op (Delete c k) db = db(c := filter (\<lambda>p. fst p \<noteq> k) (db c))"

definition mem_view :: "memdb \<Rightarrow> view" where
  "mem_view db c k = map_of (db c) k"

definition mem_entries :: "memdb \<Rightarrow> cf \<Rightarrow> bytes list \<Rightarrow> (bytes \<times> bytes) list" where
  "mem_entries db c ks = map (\<lambda>k. (k, the (map_of (db c) k))) ks"

definition mem_iterator :: "memdb \<Rightarrow> cf \<Rightarrow> bytes \<Rightarrow> direction \<Rightarrow> (bytes \<times> bytes) list" where
  "mem_iterator db c start dir =
    (case dir of
       Forward \<Rightarrow> mem_entries db c (filter (\<lambda>k. start \<le> k) (sort (remdups (map fst (db c)))))
     | Reverse \<Rightarrow> mem_entries db c (rev (filter (\<lambda>k. k \<le> start) (sort (remdups (map fst (db c)))))))"

definition mem_rocksdb :: "memdb rocksdb" where
  "mem_rocksdb =
    \<lparr> db_cf_handle = (\<lambda>db c. True),
      db_get_cf = (\<lambda>db c k. Inr (map_of (db c) k)),
      db_write_opt = (\<lambda>sync ops db. (Inr (), fold mem_op ops db)),
      db_iterator = (\<lambda>db c start dir. map Inr (mem_iterator db c start dir)) \<rparr>"

definition mem_serde :: "transaction list \<Rightarrow> record_entry list \<Rightarrow> serde_json" where
  "mem_serde txs es =
    table_serde \<lparr> sj_transaction := list_codec txs, sj_record_entry := list_codec es \<rparr>"

definition mem_env :: "serde_json \<Rightarrow> memdb store_env" where
  "mem_env J =
    \<lparr> st_rocksdb = mem_rocksdb, st_serde = J, st_sync_writes = True, st_cipher = None, st_nonce = of_nat \<rparr>"

definition mem_init :: "memdb rocks_state" where
  "mem_init = \<lparr> rk_db = (\<lambda>_. []), rk_draws = 0 \<rparr>"

section \<open>The instance meets the hypotheses\<close>

lemma mem_view_op: "mem_view (mem_op op1 db) = apply_op op1 (mem_view db)"
proof (cases op1)
  case (Delete c k)
  have "map_of (filter (\<lambda>p. fst p \<noteq> k) xs) j = (if j = k then None else map_of xs j)" for xs :: "(bytes \<times> bytes) list" and j
    by (induction xs) auto
  then show ?thesis by (auto simp: Delete mem_view_def fun_eq_iff)
qed (auto simp: mem_view_def fun_eq_iff)

lemma mem_view_batch: "mem_view (fold mem_op ops db) = apply_batch ops (mem_view db)"
  by (induction ops arbitrary: db) (simp_all add: mem_view_op)

lemma mem_iter_ok: "iter_entries (mem_view db c) start dir (mem_iterator db c start dir)"
proof -
  have mem: "k \<in> set (sort (remdups (map fst (db c)))) \<longleftrightarrow> (\<exists>v. map_of (db c) k = Some v)" for k
    using map_of_eq_None_iff [of "db c" k] by auto
  have fsts: "map fst (mem_entries db c ks) = ks" for ks
    by (simp add: mem_entries_def comp_def)
  have ents: "set (mem_entries db c ks) = {(k, v). k \<in> set ks \<and> map_of (db c) k = Some v}"
    if "set ks \<subseteq> set (sort (remdups (map fst (db c))))" for ks
    using that mem by (fastforce simp: mem_entries_def image_iff)
  have srt: "sorted (filter P (sort (remdups (map fst (db c)))))" "distinct (filter P (sort (remdups (map fst (db c)))))" for P
    by (simp_all add: sorted_filter [where f = id, simplified])
  show ?thesis
  proof (cases dir)
    case Forward
    have "set (mem_iterator db c start dir) = {(k, v). mem_view db c k = Some v \<and> start \<le> k}"
      unfolding mem_iterator_def Forward direction.case
      by (subst ents) (use mem in \<open>auto simp: mem_view_def\<close>)
    then show ?thesis
      by (simp add: iter_entries_def Forward mem_iterator_def fsts srt)
  next
    case Reverse
    have "set (mem_iterator db c start dir) = {(k, v). mem_view db c k = Some v \<and> k \<le> start}"
      unfolding mem_iterator_def Reverse direction.case
      by (subst ents) (use mem in \<open>auto simp: mem_view_def\<close>)
    then show ?thesis
      by (simp add: iter_entries_def Reverse mem_iterator_def fsts srt)
  qed
qed

lemma mem_rocksdb_ok: "rocksdb_ok mem_rocksdb mem_view"
proof -
  have "\<exists>L. iter_entries (mem_view db c) start dir L \<and> mem_iterator db c start dir = L" for db c start dir
    using mem_iter_ok by blast
  then show ?thesis
    by (fastforce simp: rocksdb_ok_def mem_rocksdb_def mem_view_batch mem_view_def)
qed

lemma mem_store_ok:
  assumes "codec_ok (sj_transaction J)" "codec_ok (sj_record_entry J)"
    "codec_ok (sj_runtime_capability J)" "codec_ok (sj_user_tool_defaults J)"
  shows "store_ok (mem_env J) mem_view"
  using assms by (simp add: store_ok_def mem_env_def mem_rocksdb_ok)

lemma mem_serde_ok: "store_ok (mem_env (mem_serde txs es)) mem_view"
  by (rule mem_store_ok) (simp_all add: mem_serde_def table_serde_def)

interpretation mem: rocks_env "mem_env (mem_serde txs es)" mem_view for txs es
  by unfold_locales (rule mem_serde_ok)

lemma rocks_envI: "store_ok E V \<Longrightarrow> rocks_env E V"
  by (rule rocks_env.intro)

lemma mem_init_inv: "view_inv E (mem_view (rk_db mem_init))"
  by (simp add: view_inv_def log_inv_def inbox_inv_def mem_init_def mem_view_def meta_wf_def meta_raw_def
      head_len_def inbox_head_def inbox_tail_def meta_at_def)

lemma mem_init_empty:
  "head_len (mem_view (rk_db mem_init)) a = 0" "log_view E (mem_view (rk_db mem_init)) a = []"
  "inbox_head (mem_view (rk_db mem_init)) a = 0" "inbox_tail (mem_view (rk_db mem_init)) a = 0"
  "inbox_view E (mem_view (rk_db mem_init)) a = []"
  by (simp_all add: log_view_def inbox_view_def mem_init_def mem_view_def meta_raw_def head_len_def
      inbox_head_def inbox_tail_def meta_at_def)

section \<open>Running the store on the instance\<close>

lemma mem_env_simps [simp]:
  "st_rocksdb (mem_env J) = mem_rocksdb" "st_serde (mem_env J) = J" "st_cipher (mem_env J) = None"
  by (simp_all add: mem_env_def)

lemma mem_cf_handle: "cf_handle (mem_env J) c s = (Inr c, s)"
  by (simp add: cf_handle_def mem_rocksdb_def)

lemma mem_get_cf: "get_cf (mem_env J) c k s = (Inr (map_of (rk_db s c) k), s)"
  by (simp add: get_cf_def mem_rocksdb_def res_map_err_def)

lemma mem_write_batch: "write_batch (mem_env J) ops s = (Inr (), s \<lparr> rk_db := fold mem_op ops (rk_db s) \<rparr>)"
  by (simp add: write_batch_def mem_rocksdb_def res_map_err_def)

lemma mem_encode_value:
  "to_vec c x = Inr bs \<Longrightarrow> encode_value (mem_env J) c x s = (Inr bs, s)"
  by (simp add: encode_value_def try_then_def seal_value_def res_map_err_def)

lemma mem_read_meta:
  "read_meta_u64 (mem_env J) k s =
    (case map_of (rk_db s CF_AGENT_META) (agent_meta_key_encode k) of
       None \<Rightarrow> (Inr 0, s)
     | Some bs \<Rightarrow> if length bs \<noteq> 8 then (Inl (StoreError_Deserialization ''invalid u64 bytes''), s)
                 else (Inr (u64_from_be_bytes bs), s))"
  by (simp add: read_meta_u64_def try_then_def mem_cf_handle mem_get_cf split: option.split)

lemma mem_decode_value:
  "decode_value (mem_env J) c m bs =
    res_map_err (\<lambda>e. StoreError_Deserialization (m (serde_message e))) (from_slice c bs)"
  by (simp add: decode_value_def open_value_def)

lemmas mem_run = mem_cf_handle mem_get_cf mem_write_batch mem_encode_value mem_read_meta try_then_def

lemma list_codec_hit: "index_of x xs = Some i \<Longrightarrow> to_vec (list_codec xs) x = Inr (replicate i 0)"
  by (simp add: list_codec_def)

definition demo_agent :: agent_id where "demo_agent = AgentId 7"

definition demo_tx :: "u64 \<Rightarrow> transaction" where
  "demo_tx n =
    \<lparr> tx_hash = Hash (ucast n), tx_agent_id = demo_agent, tx_ts_ms = n, tx_type = TxType_UserPrompt,
      tx_payload = [], tx_reference = None \<rparr>"

definition demo_entry :: "u64 \<Rightarrow> record_entry" where
  "demo_entry n = record_entry_builder n (demo_tx n)"

abbreviation demo_env :: "memdb store_env" where
  "demo_env \<equiv> mem_env (mem_serde [demo_tx 1, demo_tx 2] [demo_entry 1, demo_entry 2])"

lemma demo_tx_eq [simp]: "demo_tx m = demo_tx n \<longleftrightarrow> m = n"
  by (auto simp: demo_tx_def)

lemma demo_tx_agent [simp]: "tx_agent_id (demo_tx n) = demo_agent"
  by (simp add: demo_tx_def)

lemma demo_entry_eq [simp]: "demo_entry m = demo_entry n \<longleftrightarrow> m = n"
  by (auto simp: demo_entry_def record_entry_builder_def)

lemma demo_vec [simp]:
  "to_vec (sj_record_entry (mem_serde [demo_tx 1, demo_tx 2] [demo_entry 1, demo_entry 2])) (demo_entry 1) = Inr []"
  "to_vec (sj_transaction (mem_serde [demo_tx 1, demo_tx 2] [demo_entry 1, demo_entry 2])) (demo_tx 1) = Inr []"
  "to_vec (sj_transaction (mem_serde [demo_tx 1, demo_tx 2] [demo_entry 1, demo_entry 2])) (demo_tx 2) = Inr [0]"
  by (simp_all add: mem_serde_def table_serde_def list_codec_def)

lemma demo_append_run:
  "\<exists>s'. append_entry_direct demo_env demo_agent 1 (demo_entry 1) mem_init = (Inr (), s')"
  by (simp add: append_entry_direct_def append_entry_direct_internal_def assert_next_seq_def get_head_seq_def
      append_record_and_head_to_batch_def apply_runtime_capability_ops_to_batch_def mem_run mem_init_def)

lemma demo_enqueue_run: "\<exists>s'. enqueue_tx demo_env (demo_tx 1) mem_init = (Inr (), s')"
  by (simp add: enqueue_tx_def enqueue_tx_prepare_def Let_def mem_run mem_init_def)

lemma demo_slice [simp]:
  "from_slice (sj_transaction (mem_serde [demo_tx 1, demo_tx 2] [demo_entry 1, demo_entry 2])) [] = Inr (demo_tx 1)"
  by (simp add: mem_serde_def table_serde_def list_codec_def)

lemmas store_op_defs = append_entry_direct_def append_entry_direct_internal_def assert_next_seq_def get_head_seq_def
  append_record_and_head_to_batch_def apply_runtime_capability_ops_to_batch_def
  append_entry_dequeued_with_runtime_capabilities_def append_entry_atomic_internal_def
  enqueue_tx_def enqueue_tx_prepare_def dequeue_tx_def Let_def

section \<open>Properties of the store\<close>

text \<open>
  Property C34: a direct append is atomic and sequenced.  When it succeeds the requested sequence
  number was the next one, the agent's log grew by exactly that entry, no other agent's log and no
  inbox changed, and the store invariant holds again; when it fails nothing in the database
  changed; and a sequence mismatch is reported with the number that was expected.
\<close>

theorem append_direct_atomic:
  assumes "store_ok E V" "view_inv E (V (rk_db s))" "Suc (length (log_view E (V (rk_db s)) a)) < 2 ^ 64"
    and "append_entry_direct E a n e s = (r, s')"
  shows "case r of
      Inr _ \<Rightarrow> n = of_nat (Suc (length (log_view E (V (rk_db s)) a)))
        \<and> view_inv E (V (rk_db s')) \<and> log_view E (V (rk_db s')) a = log_view E (V (rk_db s)) a @ [e]
        \<and> (\<forall>b. b \<noteq> a \<longrightarrow> log_view E (V (rk_db s')) b = log_view E (V (rk_db s)) b)
        \<and> (\<forall>b. inbox_view E (V (rk_db s')) b = inbox_view E (V (rk_db s)) b)
    | Inl x \<Rightarrow> V (rk_db s') = V (rk_db s)
        \<and> (\<forall>p q. x = StoreError_SequenceMismatch p q \<longrightarrow>
             p = of_nat (Suc (length (log_view E (V (rk_db s)) a))) \<and> q = n \<and> n \<noteq> p)"
proof (cases r)
  case (Inl x)
  with assms(4) have run: "append_entry_direct_internal E a n e None False s = (Inl x, s')"
    by (simp add: append_entry_direct_def)
  show ?thesis
    using fails_cleanD [OF rocks_env.append_direct_fails_clean [OF rocks_envI [OF assms(1)]] run]
      rocks_env.append_direct_seq_mismatch [OF rocks_envI [OF assms(1)]] run Inl by fastforce
next
  case (Inr u)
  with assms rocks_env.append_direct_spec [OF rocks_envI [OF assms(1)], of s a n e None False u s'] show ?thesis
    by (simp add: append_entry_direct_def)
qed

theorem append_direct_atomic_witness:
  "\<exists>s'. append_entry_direct demo_env demo_agent 1 (demo_entry 1) mem_init = (Inr (), s')
    \<and> log_view demo_env (mem_view (rk_db s')) demo_agent = [demo_entry 1]"
proof -
  obtain s' where run: "append_entry_direct demo_env demo_agent 1 (demo_entry 1) mem_init = (Inr (), s')"
    using demo_append_run by blast
  show ?thesis
    using append_direct_atomic [OF mem_serde_ok mem_init_inv _ run] run by (simp add: mem_init_empty)
qed

text \<open>
  Property C35: processing an inbox transaction is all or nothing.  The transaction a dequeue hands
  out is the oldest one of the agent's inbox; appending its record entry with the token either
  appends the entry to the log and removes that transaction from the inbox, or changes nothing at
  all.  No other agent is affected.
\<close>

theorem dequeue_append_atomic:
  assumes "store_ok E V" "view_inv E (V (rk_db s))" "Suc (length (log_view E (V (rk_db s)) a)) < 2 ^ 64"
    and "dequeue_tx E a s = (Inr (Some (token, tx)), s1)"
    and "append_entry_dequeued_with_runtime_capabilities E a n e token rc clear s1 = (r, s2)"
  shows "inbox_view E (V (rk_db s)) a \<noteq> [] \<and> tx = hd (inbox_view E (V (rk_db s)) a)
    \<and> (case r of
         Inr _ \<Rightarrow> view_inv E (V (rk_db s2)) \<and> log_view E (V (rk_db s2)) a = log_view E (V (rk_db s)) a @ [e]
           \<and> inbox_view E (V (rk_db s2)) a = tl (inbox_view E (V (rk_db s)) a)
           \<and> (\<forall>b. b \<noteq> a \<longrightarrow> log_view E (V (rk_db s2)) b = log_view E (V (rk_db s)) b
                             \<and> inbox_view E (V (rk_db s2)) b = inbox_view E (V (rk_db s)) b)
       | Inl _ \<Rightarrow> V (rk_db s2) = V (rk_db s))"
proof -
  note R = rocks_envI [OF assms(1)]
  have same: "V (rk_db s1) = V (rk_db s)"
    by (rule readsD [OF rocks_env.dequeue_reads [OF R] assms(4)])
  have d: "token_inbox_seq token = meta_at (V (rk_db s)) a MetaField_InboxHead"
    "inbox_view E (V (rk_db s)) a \<noteq> []" "tx = hd (inbox_view E (V (rk_db s)) a)"
    using rocks_env.dequeue_spec [OF R assms(2,4)] by simp_all
  have run: "append_entry_atomic_internal E a n e (token_inbox_seq token) rc clear s1 = (r, s2)"
    using assms(5) by (simp add: append_entry_dequeued_with_runtime_capabilities_def)
  show ?thesis
  proof (cases r)
    case (Inl x)
    with run fails_cleanD [OF rocks_env.append_atomic_fails_clean [OF R]] same d show ?thesis by fastforce
  next
    case (Inr u)
    with run have "append_entry_atomic_internal E a n e (token_inbox_seq token) rc clear s1 = (Inr u, s2)" by simp
    from rocks_env.append_atomic_spec [OF R _ _ _ _ this] assms(2,3) same d Inr show ?thesis by simp
  qed
qed

theorem dequeue_append_atomic_witness:
  "\<exists>s token s1 s2. dequeue_tx demo_env demo_agent s = (Inr (Some (token, demo_tx 1)), s1)
     \<and> append_entry_dequeued_with_runtime_capabilities demo_env demo_agent 1 (demo_entry 1) token None False s1 = (Inr (), s2)
     \<and> log_view demo_env (mem_view (rk_db s2)) demo_agent = [demo_entry 1]
     \<and> inbox_view demo_env (mem_view (rk_db s2)) demo_agent = []"
proof -
  obtain s where enq: "enqueue_tx demo_env (demo_tx 1) mem_init = (Inr (), s)"
    using demo_enqueue_run by blast
  have s: "s = mem_init \<lparr> rk_db := (\<lambda>_. [])(CF_INBOX := [(inbox_key_encode (InboxKey demo_agent 0), [])],
      CF_AGENT_META := [(agent_meta_key_encode (AgentMetaKey demo_agent MetaField_InboxTail), u64_to_be_bytes 1)]) \<rparr>"
    using enq by (simp add: store_op_defs mem_run mem_init_def)
  have deq: "dequeue_tx demo_env demo_agent s = (Inr (Some (DequeueToken 0, demo_tx 1)), s)"
    by (simp add: store_op_defs mem_run mem_init_def s mem_decode_value res_map_err_def)
  obtain s2 where app: "append_entry_dequeued_with_runtime_capabilities demo_env demo_agent 1 (demo_entry 1)
      (DequeueToken 0) None False s = (Inr (), s2)"
    by (simp add: store_op_defs mem_run mem_init_def s)
  have E: "view_inv demo_env (mem_view (rk_db s))" "inbox_view demo_env (mem_view (rk_db s)) demo_agent = [demo_tx 1]"
    "log_view demo_env (mem_view (rk_db s)) demo_agent = []"
    using mem.enqueue_spec [OF mem_init_inv refl _ enq] by (simp_all add: mem_init_empty)
  show ?thesis
    using dequeue_append_atomic [OF mem_serde_ok E(1) _ deq app] deq app E by auto
qed

text \<open>
  An enqueue that returns puts the transaction at the end of its agent's inbox and
  changes no log and no other inbox; a failed enqueue changes nothing.  Together with the previous
  property the inbox is a first-in first-out queue.
\<close>

theorem enqueue_fifo:
  assumes "store_ok E V" "view_inv E (V (rk_db s))" "Suc (inbox_tail (V (rk_db s)) (tx_agent_id tx)) < 2 ^ 64"
    and "enqueue_tx E tx s = (r, s')"
  shows "case r of
      Inr _ \<Rightarrow> view_inv E (V (rk_db s'))
        \<and> inbox_view E (V (rk_db s')) (tx_agent_id tx) = inbox_view E (V (rk_db s)) (tx_agent_id tx) @ [tx]
        \<and> (\<forall>b. b \<noteq> tx_agent_id tx \<longrightarrow> inbox_view E (V (rk_db s')) b = inbox_view E (V (rk_db s)) b)
        \<and> (\<forall>b. log_view E (V (rk_db s')) b = log_view E (V (rk_db s)) b)
    | Inl _ \<Rightarrow> V (rk_db s') = V (rk_db s)"
proof (cases r)
  case (Inl x)
  with assms(4) fails_cleanD [OF rocks_env.enqueue_fails_clean [OF rocks_envI [OF assms(1)]]] show ?thesis by fastforce
next
  case (Inr u)
  with assms rocks_env.enqueue_spec [OF rocks_envI [OF assms(1)] assms(2) refl assms(3)] show ?thesis by simp
qed

theorem enqueue_fifo_witness:
  "\<exists>s'. enqueue_tx demo_env (demo_tx 1) mem_init = (Inr (), s')
    \<and> inbox_view demo_env (mem_view (rk_db s')) demo_agent = [demo_tx 1]"
proof -
  obtain s' where run: "enqueue_tx demo_env (demo_tx 1) mem_init = (Inr (), s')"
    using demo_enqueue_run by blast
  show ?thesis
    using enqueue_fifo [OF mem_serde_ok mem_init_inv _ run] run
    by (simp add: mem_init_empty)
qed

text \<open>
  A scan that returns yields the agent's log from the requested sequence number on, in
  order, cut to the limit; a descending scan yields it from that number down, newest first.  A limit
  of zero still yields one entry in the ascending scan, and none in the descending one.
\<close>

theorem scan_returns_window:
  assumes "store_ok E V" "view_inv E (V (rk_db s))" "Suc (length (log_view E (V (rk_db s)) a)) < 2 ^ 64"
  shows "(scan_record E a from limit s = (Inr es, s') \<longrightarrow>
           es = take (max 1 limit) (drop (unat from - 1) (log_view E (V (rk_db s)) a)))
    \<and> (scan_record_descending E a from limit s = (Inr es, s') \<longrightarrow>
           es = take limit (rev (take (unat from) (log_view E (V (rk_db s)) a))))"
  using rocks_env.scan_spec [OF rocks_envI [OF assms(1)] assms(2)]
    rocks_env.scan_desc_spec [OF rocks_envI [OF assms(1)] assms(2)] assms(3)
  by (metis length_log_view)

theorem scan_returns_window_witness:
  "\<exists>es. fst (scan_record demo_env demo_agent 1 10 mem_init) = Inr es \<and> es = []"
proof -
  have "\<exists>es s'. scan_record demo_env demo_agent 1 10 mem_init = (Inr es, s')"
    by (simp add: scan_record_def try_then_def mem_cf_handle mem_rocksdb_def mem_iterator_def mem_entries_def mem_init_def)
  then obtain es s' where run: "scan_record demo_env demo_agent 1 10 mem_init = (Inr es, s')" by blast
  then show ?thesis
    using scan_returns_window [of demo_env mem_view mem_init demo_agent 1 10 es s']
    by (simp add: mem_serde_ok mem_init_inv mem_init_empty)
qed

text \<open>
  A batch append is one step.  When it succeeds the whole list is at the end of the
  agent's log, in order and starting at the next sequence number, with nothing else changed; when
  it fails nothing changed.  The entries' own sequence fields play no part in it.
\<close>

theorem batch_append_atomic:
  assumes "store_ok E V" "view_inv E (V (rk_db s))"
    and "length (log_view E (V (rk_db s)) a) + length es < 2 ^ 64" "es \<noteq> []"
    and "append_entries_batch E a n es s = (r, s')"
  shows "case r of
      Inr _ \<Rightarrow> n = of_nat (Suc (length (log_view E (V (rk_db s)) a)))
        \<and> view_inv E (V (rk_db s')) \<and> log_view E (V (rk_db s')) a = log_view E (V (rk_db s)) a @ es
        \<and> (\<forall>b. b \<noteq> a \<longrightarrow> log_view E (V (rk_db s')) b = log_view E (V (rk_db s)) b)
        \<and> (\<forall>b. inbox_view E (V (rk_db s')) b = inbox_view E (V (rk_db s)) b)
    | Inl _ \<Rightarrow> V (rk_db s') = V (rk_db s)"
proof (cases r)
  case (Inl x)
  with assms(5) fails_cleanD [OF rocks_env.batch_fails_clean [OF rocks_envI [OF assms(1)]]] show ?thesis by fastforce
next
  case (Inr u)
  with assms rocks_env.batch_spec [OF rocks_envI [OF assms(1)] assms(2), of a es n u s'] show ?thesis by simp
qed

theorem batch_append_atomic_witness:
  "\<exists>s'. append_entries_batch demo_env demo_agent 1 [demo_entry 1] mem_init = (Inr (), s')
    \<and> log_view demo_env (mem_view (rk_db s')) demo_agent = [demo_entry 1]"
proof -
  obtain s' where run: "append_entries_batch demo_env demo_agent 1 [demo_entry 1] mem_init = (Inr (), s')"
    by (simp add: append_entries_batch_def get_head_seq_def mem_run mem_init_def)
  show ?thesis
    using batch_append_atomic [OF mem_serde_ok mem_init_inv _ _ run] run by (simp add: mem_init_empty)
qed

text \<open>
  Of any number of attempts to claim an agent without a release in between exactly the
  first succeeds; a release lets the next attempt succeed; claims on other agents, logs and inboxes
  are untouched.
\<close>

theorem claim_exclusive:
  assumes "store_ok E V" "try_claim_agent_processing E a s = (Inr r, s1)"
  shows "(r \<longleftrightarrow> V (rk_db s) CF_AGENT_META (processing_claim_key a) = None)
    \<and> (try_claim_agent_processing E a s1 = (Inr r2, s2) \<longrightarrow> \<not> r2)
    \<and> (release_agent_processing E a s1 = (Inr u, s3) \<longrightarrow> try_claim_agent_processing E a s3 = (Inr r3, s4) \<longrightarrow> r3)
    \<and> (b \<noteq> a \<longrightarrow> is_agent_processing E b s = (Inr x, s5) \<longrightarrow> is_agent_processing E b s1 = (Inr y, s6) \<longrightarrow> x = y)
    \<and> log_view E (V (rk_db s1)) b = log_view E (V (rk_db s)) b
    \<and> inbox_view E (V (rk_db s1)) b = inbox_view E (V (rk_db s)) b"
proof -
  note R = rocks_envI [OF assms(1)]
  note c = rocks_env.claim_spec [OF R]
  have isp: "is_agent_processing E b t = (Inr z, t') \<Longrightarrow> z = (V (rk_db t) CF_AGENT_META (processing_claim_key b) \<noteq> None)"
    for t z t'
    by (auto simp: is_agent_processing_def elim!: try_then_InrE dest!: cf_handle_InrD rocks_env.get_cf_InrD [OF R])
  show ?thesis
    using c [OF assms(2)] c [of a s1 r2 s2] c [of a s3 r3 s4] rocks_env.release_spec [OF R, of a s1 u s3]
      rocks_env.claim_keeps_views [OF R, of a s "Inr r" s1 undefined b] assms(2) isp [of s x s5] isp [of s1 y s6]
    by auto
qed

theorem claim_exclusive_witness:
  "fst (try_claim_agent_processing demo_env demo_agent mem_init) = Inr True
   \<and> (\<exists>s1. snd (try_claim_agent_processing demo_env demo_agent mem_init) = s1
        \<and> fst (try_claim_agent_processing demo_env demo_agent s1) = Inr False)"
proof -
  obtain s1 where c: "try_claim_agent_processing demo_env demo_agent mem_init = (Inr True, s1)"
    by (simp add: try_claim_agent_processing_def mem_run mem_init_def)
  have "\<exists>r2 s2. try_claim_agent_processing demo_env demo_agent s1 = (Inr r2, s2)"
    by (cases "map_of (rk_db s1 CF_AGENT_META) (processing_claim_key demo_agent)")
      (auto simp: try_claim_agent_processing_def mem_run)
  then obtain r2 s2 where c2: "try_claim_agent_processing demo_env demo_agent s1 = (Inr r2, s2)" by blast
  have "\<not> r2" using claim_exclusive [OF mem_serde_ok c] c2 by blast
  with c c2 show ?thesis by simp
qed

text \<open>
  The inbox cursor is read and written back without a lock, so two enqueues for one
  agent that interleave lose a transaction: when both read before either writes, both calls succeed
  and the inbox holds only the second transaction.
\<close>

theorem enqueue_race_loses_tx:
  assumes "store_ok E V" "view_inv E (V (rk_db s))" "tx_agent_id tx1 = a" "tx_agent_id tx2 = a"
    and "Suc (inbox_tail (V (rk_db s)) a) < 2 ^ 64"
    and "enqueue_tx_prepare E tx1 s = (Inr ops1, s1)" "enqueue_tx_prepare E tx2 s1 = (Inr ops2, s2)"
    and "write_batch E ops1 s2 = (Inr u, s3)" "write_batch E ops2 s3 = (Inr v, s4)"
  shows "inbox_view E (V (rk_db s4)) a = inbox_view E (V (rk_db s)) a @ [tx2]"
proof -
  note R = rocks_envI [OF assms(1)]
  let ?W = "V (rk_db s)" and ?t = "meta_at (V (rk_db s)) a MetaField_InboxTail"
  have same: "V (rk_db s1) = ?W" "V (rk_db s2) = ?W"
    using readsD [OF reads_enqueue_prepare assms(6)] readsD [OF reads_enqueue_prepare assms(7)] by simp_all
  obtain bs1 where o1: "ops1 = [Put CF_INBOX (inbox_key_encode (InboxKey a ?t)) bs1,
      Put CF_AGENT_META (agent_meta_key_encode (AgentMetaKey a MetaField_InboxTail)) (u64_to_be_bytes (?t + 1))]"
    using rocks_env.enqueue_prepare_InrD [OF R assms(6)] assms(3) by auto
  obtain bs2 where bs2: "stored E (sj_transaction (st_serde E)) bs2 = Some tx2"
    and o2: "ops2 = [Put CF_INBOX (inbox_key_encode (InboxKey a ?t)) bs2,
      Put CF_AGENT_META (agent_meta_key_encode (AgentMetaKey a MetaField_InboxTail)) (u64_to_be_bytes (?t + 1))]"
    using rocks_env.enqueue_prepare_InrD [OF R assms(7)] assms(4) same by auto
  have W4: "V (rk_db s4) = apply_batch ops2 (apply_batch ops1 ?W)"
    using rocks_env.write_batch_InrD [OF R assms(8)] rocks_env.write_batch_InrD [OF R assms(9)] same by simp
  have tt: "?t = of_nat (inbox_tail ?W a)" "?t + 1 = of_nat (Suc (inbox_tail ?W a))"
    by (simp_all add: inbox_tail_def add.commute)
  have "inbox_inv E (V (rk_db s4)) \<and> inbox_view E (V (rk_db s4)) a = inbox_view E ?W a @ [tx2]
      \<and> (\<forall>b. b \<noteq> a \<longrightarrow> inbox_view E (V (rk_db s4)) b = inbox_view E ?W b)"
    using assms(2,5) bs2
    by (intro inbox_enqueue_view [OF _ refl])
      (auto simp: view_inv_def W4 o1 o2 meta_raw_def tt(2) simp del: of_nat_Suc, simp add: tt(1) fun_upd_def)
  then show ?thesis by blast
qed

theorem enqueue_race_loses_tx_witness:
  "\<exists>ops1 s1 ops2 s2 s3 s4.
     enqueue_tx_prepare demo_env (demo_tx 1) mem_init = (Inr ops1, s1)
     \<and> enqueue_tx_prepare demo_env (demo_tx 2) s1 = (Inr ops2, s2)
     \<and> write_batch demo_env ops1 s2 = (Inr (), s3) \<and> write_batch demo_env ops2 s3 = (Inr (), s4)
     \<and> inbox_view demo_env (mem_view (rk_db s4)) demo_agent = [demo_tx 2]"
proof -
  obtain ops1 s1 where p1: "enqueue_tx_prepare demo_env (demo_tx 1) mem_init = (Inr ops1, s1)" and s1: "s1 = mem_init"
    by (simp add: store_op_defs mem_run mem_init_def)
  obtain ops2 s2 where p2: "enqueue_tx_prepare demo_env (demo_tx 2) s1 = (Inr ops2, s2)"
    by (simp add: store_op_defs mem_run mem_init_def s1)
  obtain s3 s4 where w: "write_batch demo_env ops1 s2 = (Inr (), s3)" "write_batch demo_env ops2 s3 = (Inr (), s4)"
    by (simp add: mem_write_batch)
  have "inbox_view demo_env (mem_view (rk_db s4)) demo_agent =
        inbox_view demo_env (mem_view (rk_db mem_init)) demo_agent @ [demo_tx 2]"
    by (rule enqueue_race_loses_tx [OF mem_serde_ok mem_init_inv _ _ _ p1 p2 w])
      (simp_all add: mem_init_empty)
  with p1 p2 w show ?thesis by (auto simp: mem_init_empty)
qed

end
