(* ===== verification/Store_Trait.thy ===== *)
theory Store_Trait
  imports Store_Memory
begin

text \<open>
  The trait \<open>Store\<close> of \<open>aura-store-db\<close> as its clients see it: a table of operations
  (\<open>store_ops\<close>, a \<open>dyn Store\<close> object), the table of \<open>RocksStore\<close>, and the contract \<open>log_store\<close>
  that the kernel and the replayer are written against.  The contract speaks of the record log,
  the inbox and the capability ledger of each agent; the sublocale at the end discharges it for
  \<open>RocksStore\<close> from the store's own specification.
\<close>

section \<open>The trait\<close>

(* src/crates/aura-store-db/src/store.rs:58-338 ReadStore, WriteStore, Store *)
record 's store_ops =
  so_get_head_seq :: "agent_id \<Rightarrow> ('s, store_error, u64) act"
  so_scan_record :: "agent_id \<Rightarrow> u64 \<Rightarrow> nat \<Rightarrow> ('s, store_error, record_entry list) act"
  so_get_runtime_capabilities :: "agent_id \<Rightarrow> ('s, store_error, runtime_capability_install option) act"
  so_put_user_tool_defaults :: "string \<Rightarrow> user_tool_defaults \<Rightarrow> ('s, store_error, unit) act"
  so_append_entry_direct :: "agent_id \<Rightarrow> u64 \<Rightarrow> record_entry \<Rightarrow> ('s, store_error, unit) act"
  so_append_entry_dequeued ::
    "agent_id \<Rightarrow> u64 \<Rightarrow> record_entry \<Rightarrow> dequeue_token \<Rightarrow> ('s, store_error, unit) act"
  so_append_entry_direct_with_runtime_capabilities ::
    "agent_id \<Rightarrow> u64 \<Rightarrow> record_entry \<Rightarrow> runtime_capability_install option \<Rightarrow> bool \<Rightarrow>
     ('s, store_error, unit) act"
  so_append_entry_dequeued_with_runtime_capabilities ::
    "agent_id \<Rightarrow> u64 \<Rightarrow> record_entry \<Rightarrow> dequeue_token \<Rightarrow> runtime_capability_install option \<Rightarrow> bool \<Rightarrow>
     ('s, store_error, unit) act"
  so_dequeue_tx :: "agent_id \<Rightarrow> ('s, store_error, (dequeue_token \<times> transaction) option) act"
  so_has_pending_tx :: "agent_id \<Rightarrow> ('s, store_error, bool) act"
  so_try_claim_agent_processing :: "agent_id \<Rightarrow> ('s, store_error, bool) act"
  so_release_agent_processing :: "agent_id \<Rightarrow> ('s, store_error, unit) act"

(* src/crates/aura-store-db/src/rocks_store/mod.rs:441-827 impl ReadStore for RocksStore, impl WriteStore for RocksStore *)
definition rocks_ops :: "'db store_env \<Rightarrow> 'db rocks_state store_ops" where
  "rocks_ops E =
    \<lparr> so_get_head_seq = get_head_seq E,
      so_scan_record = scan_record E,
      so_get_runtime_capabilities = get_runtime_capabilities E,
      so_put_user_tool_defaults = put_user_tool_defaults E,
      so_append_entry_direct = append_entry_direct E,
      so_append_entry_dequeued = append_entry_dequeued E,
      so_append_entry_direct_with_runtime_capabilities =
        append_entry_direct_with_runtime_capabilities E,
      so_append_entry_dequeued_with_runtime_capabilities =
        append_entry_dequeued_with_runtime_capabilities E,
      so_dequeue_tx = dequeue_tx E,
      so_has_pending_tx = has_pending_tx E,
      so_try_claim_agent_processing = try_claim_agent_processing E,
      so_release_agent_processing = release_agent_processing E \<rparr>"

section \<open>Its contract\<close>

text \<open>
  What the store keeps for each agent: the record log, the inbox, the capability ledger, and
  which dequeue token names the oldest inbox slot.
\<close>

record store_view =
  sv_log :: "agent_id \<Rightarrow> record_entry list"
  sv_inbox :: "agent_id \<Rightarrow> transaction list"
  sv_caps :: "agent_id \<Rightarrow> runtime_capability_install option"
  sv_token :: "agent_id \<Rightarrow> dequeue_token \<Rightarrow> bool"

definition caps_after ::
  "runtime_capability_install option \<Rightarrow> bool \<Rightarrow> runtime_capability_install option \<Rightarrow>
   runtime_capability_install option" where
  "caps_after rc clear old = (case rc of Some c \<Rightarrow> Some c | None \<Rightarrow> if clear then None else old)"

text \<open>
  The contract: reads change nothing and return what is kept, a failed append changes nothing, a
  successful one adds exactly one entry at the end of one log, at the next sequence number, and
  consumes the inbox slot of the token when it has one.  The short forms of the appends are the
  long ones without a capability update.
\<close>

locale log_store =
  fixes ops :: "'s store_ops" and abs :: "'s \<Rightarrow> store_view" and inv :: "'s \<Rightarrow> bool"
  assumes head_ok: "so_get_head_seq ops a s = (r, s') \<Longrightarrow>
      abs s' = abs s \<and> inv s' = inv s \<and> (\<forall>n. r = Inr n \<longrightarrow> n = of_nat (length (sv_log (abs s) a)))"
    and scan_ok: "so_scan_record ops a from lim s = (r2, s') \<Longrightarrow>
      abs s' = abs s \<and> inv s' = inv s
      \<and> (\<forall>es. r2 = Inr es \<longrightarrow> inv s \<longrightarrow> Suc (length (sv_log (abs s) a)) < 2 ^ 64 \<longrightarrow>
            es = take (max 1 lim) (drop (unat from - 1) (sv_log (abs s) a)))"
    and caps_ok: "so_get_runtime_capabilities ops a s = (r3, s') \<Longrightarrow>
      abs s' = abs s \<and> inv s' = inv s \<and> (\<forall>rc. r3 = Inr rc \<longrightarrow> rc = sv_caps (abs s) a)"
    and defaults_ok: "so_put_user_tool_defaults ops user d s = (r4, s') \<Longrightarrow>
      abs s' = abs s \<and> inv s' = inv s"
    and direct_fails: "so_append_entry_direct_with_runtime_capabilities ops a n e rc cl s = (Inl x, s') \<Longrightarrow>
      abs s' = abs s \<and> inv s' = inv s"
    and dequeued_fails: "so_append_entry_dequeued_with_runtime_capabilities ops a n e t rc cl s = (Inl x, s') \<Longrightarrow>
      abs s' = abs s \<and> inv s' = inv s"
    and append_direct: "inv s \<Longrightarrow> Suc (length (sv_log (abs s) a)) < 2 ^ 64 \<Longrightarrow>
      so_append_entry_direct_with_runtime_capabilities ops a n e rc cl s = (Inr u, s') \<Longrightarrow>
      inv s' \<and> n = of_nat (Suc (length (sv_log (abs s) a)))
      \<and> sv_log (abs s') = (sv_log (abs s))(a := sv_log (abs s) a @ [e])
      \<and> sv_inbox (abs s') = sv_inbox (abs s)
      \<and> sv_caps (abs s') a = caps_after rc cl (sv_caps (abs s) a)"
    and append_dequeued: "inv s \<Longrightarrow> Suc (length (sv_log (abs s) a)) < 2 ^ 64 \<Longrightarrow> sv_token (abs s) a t \<Longrightarrow>
      so_append_entry_dequeued_with_runtime_capabilities ops a n e t rc cl s = (Inr u, s') \<Longrightarrow>
      inv s' \<and> n = of_nat (Suc (length (sv_log (abs s) a)))
      \<and> sv_log (abs s') = (sv_log (abs s))(a := sv_log (abs s) a @ [e])
      \<and> sv_inbox (abs s') = (sv_inbox (abs s))(a := tl (sv_inbox (abs s) a))
      \<and> sv_caps (abs s') a = caps_after rc cl (sv_caps (abs s) a)"
    and direct_short: "so_append_entry_direct ops a n e =
      so_append_entry_direct_with_runtime_capabilities ops a n e None False"
    and dequeued_short: "so_append_entry_dequeued ops a n e t =
      so_append_entry_dequeued_with_runtime_capabilities ops a n e t None False"

text \<open>
  A store with an inbox: dequeuing only reads, and the token it hands out with the oldest
  transaction is the one an append may consume.
\<close>

locale inbox_store = log_store +
  assumes dequeue_ok: "so_dequeue_tx ops a s = (r, s') \<Longrightarrow>
      abs s' = abs s \<and> inv s' = inv s
      \<and> (\<forall>t tx. r = Inr (Some (t, tx)) \<longrightarrow> inv s \<longrightarrow>
           sv_token (abs s) a t \<and> sv_inbox (abs s) a = tx # tl (sv_inbox (abs s) a))"

section \<open>RocksStore meets the contract\<close>

definition rocks_view :: "'db store_env \<Rightarrow> view \<Rightarrow> store_view" where
  "rocks_view E W =
    \<lparr> sv_log = log_view E W, sv_inbox = inbox_view E W, sv_caps = caps_view E W,
      sv_token = (\<lambda>a t. token_inbox_seq t = meta_at W a MetaField_InboxHead \<and> inbox_view E W a \<noteq> []) \<rparr>"

context rocks_env
begin

lemma reads_head: "reads V (get_head_seq E a)"
  unfolding get_head_seq_def by (rule reads_read_meta)

lemma reads_caps: "reads V (get_runtime_capabilities E a)"
  unfolding get_runtime_capabilities_def
  by (intro reads_try reads_cf_handle reads_get_cf) (auto split: option.splits intro!: reads_try)

lemma caps_spec: "get_runtime_capabilities E a s = (Inr rc, s') \<Longrightarrow> rc = caps_view E (view_of s) a"
  by (auto simp: get_runtime_capabilities_def caps_view_def stored_iff elim!: try_then_InrE
      dest!: cf_handle_InrD get_cf_InrD split: option.splits)

lemma user_defaults_keep:
  assumes "put_user_tool_defaults E user d s = (r, s')"
  shows "rocks_view E (view_of s') = rocks_view E (view_of s)
    \<and> view_inv E (view_of s') = view_inv E (view_of s)"
proof (cases r)
  case (Inl e)
  have "fails_clean V (put_user_tool_defaults E user d)"
    unfolding put_user_tool_defaults_def by blast
  with assms Inl fails_cleanD show ?thesis by metis
next
  case (Inr u)
  with assms obtain s1 bs where
    "encode_value E (sj_user_tool_defaults (st_serde E)) d s = (Inr bs, s1)"
    "view_of s' = apply_batch [Put CF_USER_TOOL_DEFAULTS (str_bytes user) bs] (view_of s1)"
    by (auto simp: put_user_tool_defaults_def elim!: try_then_InrE
        dest!: cf_handle_InrD write_batch_InrD)
  then have v: "view_of s' = (view_of s)(CF_USER_TOOL_DEFAULTS :=
      (view_of s CF_USER_TOOL_DEFAULTS)(str_bytes user \<mapsto> bs))"
    by (simp add: readsD [OF reads_encode_value])
  have raw: "meta_raw (view_of s') b f = meta_raw (view_of s) b f" for b f
    by (simp add: v meta_raw_def)
  have "log_inv E (view_of s') = log_inv E (view_of s)" "log_view E (view_of s') = log_view E (view_of s)"
    by ((rule log_frame | rule ext, rule log_frame); use raw in \<open>auto simp: v\<close>)+
  moreover have "inbox_inv E (view_of s') = inbox_inv E (view_of s)"
    "inbox_view E (view_of s') = inbox_view E (view_of s)"
    by ((rule inbox_frame | rule ext, rule inbox_frame); use raw in \<open>auto simp: v\<close>)+
  moreover have "caps_view E (view_of s') = caps_view E (view_of s)"
    by (simp add: caps_view_def fun_eq_iff v)
  moreover have "meta_at (view_of s') = meta_at (view_of s)"
    by (simp add: fun_eq_iff meta_at_def raw)
  ultimately show ?thesis by (simp add: rocks_view_def view_inv_def)
qed

end

sublocale rocks_env \<subseteq> ls: log_store "rocks_ops E" "\<lambda>s. rocks_view E (V (rk_db s))"
  "\<lambda>s. view_inv E (V (rk_db s))"
proof unfold_locales
  fix a s r s'
  assume "so_get_head_seq (rocks_ops E) a s = (r, s')"
  then show "rocks_view E (V (rk_db s')) = rocks_view E (V (rk_db s))
      \<and> view_inv E (V (rk_db s')) = view_inv E (V (rk_db s))
      \<and> (\<forall>n. r = Inr n \<longrightarrow> n = of_nat (length (sv_log (rocks_view E (V (rk_db s))) a)))"
    using readsD [OF reads_head] head_spec by (auto simp: rocks_ops_def rocks_view_def)
next
  fix a "from" lim s r s'
  assume "so_scan_record (rocks_ops E) a from lim s = (r, s')"
  then show "rocks_view E (V (rk_db s')) = rocks_view E (V (rk_db s))
      \<and> view_inv E (V (rk_db s')) = view_inv E (V (rk_db s))
      \<and> (\<forall>es. r = Inr es \<longrightarrow> view_inv E (V (rk_db s)) \<longrightarrow>
            Suc (length (sv_log (rocks_view E (V (rk_db s))) a)) < 2 ^ 64 \<longrightarrow>
            es = take (max 1 lim) (drop (unat from - 1) (sv_log (rocks_view E (V (rk_db s))) a)))"
    using readsD [OF scan_reads(1)] scan_spec [of s a "from" lim _ s']
    by (auto simp: rocks_ops_def rocks_view_def)
next
  fix a s r s'
  assume "so_get_runtime_capabilities (rocks_ops E) a s = (r, s')"
  then show "rocks_view E (V (rk_db s')) = rocks_view E (V (rk_db s))
      \<and> view_inv E (V (rk_db s')) = view_inv E (V (rk_db s))
      \<and> (\<forall>rc. r = Inr rc \<longrightarrow> rc = sv_caps (rocks_view E (V (rk_db s))) a)"
    using readsD [OF reads_caps] caps_spec by (auto simp: rocks_ops_def rocks_view_def)
next
  fix user d s r s'
  assume "so_put_user_tool_defaults (rocks_ops E) user d s = (r, s')"
  then show "rocks_view E (V (rk_db s')) = rocks_view E (V (rk_db s))
      \<and> view_inv E (V (rk_db s')) = view_inv E (V (rk_db s))"
    using user_defaults_keep by (simp add: rocks_ops_def)
next
  fix a n e rc cl s x s'
  assume "so_append_entry_direct_with_runtime_capabilities (rocks_ops E) a n e rc cl s = (Inl x, s')"
  then show "rocks_view E (V (rk_db s')) = rocks_view E (V (rk_db s))
      \<and> view_inv E (V (rk_db s')) = view_inv E (V (rk_db s))"
    using fails_cleanD [OF append_direct_fails_clean]
    by (auto simp: rocks_ops_def append_entry_direct_with_runtime_capabilities_def)
next
  fix a n e t rc cl s x s'
  assume "so_append_entry_dequeued_with_runtime_capabilities (rocks_ops E) a n e t rc cl s = (Inl x, s')"
  then show "rocks_view E (V (rk_db s')) = rocks_view E (V (rk_db s))
      \<and> view_inv E (V (rk_db s')) = view_inv E (V (rk_db s))"
    using fails_cleanD [OF append_atomic_fails_clean]
    by (auto simp: rocks_ops_def append_entry_dequeued_with_runtime_capabilities_def)
next
  fix s a n e rc cl u s'
  assume "view_inv E (V (rk_db s))" "Suc (length (sv_log (rocks_view E (V (rk_db s))) a)) < 2 ^ 64"
    "so_append_entry_direct_with_runtime_capabilities (rocks_ops E) a n e rc cl s = (Inr u, s')"
  then show "view_inv E (V (rk_db s')) \<and> n = of_nat (Suc (length (sv_log (rocks_view E (V (rk_db s))) a)))
      \<and> sv_log (rocks_view E (V (rk_db s'))) =
          (sv_log (rocks_view E (V (rk_db s))))(a := sv_log (rocks_view E (V (rk_db s))) a @ [e])
      \<and> sv_inbox (rocks_view E (V (rk_db s'))) = sv_inbox (rocks_view E (V (rk_db s)))
      \<and> sv_caps (rocks_view E (V (rk_db s'))) a = caps_after rc cl (sv_caps (rocks_view E (V (rk_db s))) a)"
    using append_direct_spec [of s a n e rc cl u s']
    by (auto simp: rocks_ops_def rocks_view_def append_entry_direct_with_runtime_capabilities_def
        caps_after_def fun_eq_iff split: option.splits)
next
  fix s a t n e rc cl u s'
  assume "view_inv E (V (rk_db s))" "Suc (length (sv_log (rocks_view E (V (rk_db s))) a)) < 2 ^ 64"
    "sv_token (rocks_view E (V (rk_db s))) a t"
    "so_append_entry_dequeued_with_runtime_capabilities (rocks_ops E) a n e t rc cl s = (Inr u, s')"
  then show "view_inv E (V (rk_db s')) \<and> n = of_nat (Suc (length (sv_log (rocks_view E (V (rk_db s))) a)))
      \<and> sv_log (rocks_view E (V (rk_db s'))) =
          (sv_log (rocks_view E (V (rk_db s))))(a := sv_log (rocks_view E (V (rk_db s))) a @ [e])
      \<and> sv_inbox (rocks_view E (V (rk_db s'))) =
          (sv_inbox (rocks_view E (V (rk_db s))))(a := tl (sv_inbox (rocks_view E (V (rk_db s))) a))
      \<and> sv_caps (rocks_view E (V (rk_db s'))) a = caps_after rc cl (sv_caps (rocks_view E (V (rk_db s))) a)"
    using append_atomic_spec [of s a "token_inbox_seq t" n e rc cl u s']
    by (auto simp: rocks_ops_def rocks_view_def append_entry_dequeued_with_runtime_capabilities_def
        caps_after_def fun_eq_iff split: option.splits)
qed (simp_all add: rocks_ops_def append_entry_direct_def append_entry_dequeued_def append_entry_atomic_def
    append_entry_direct_with_runtime_capabilities_def append_entry_dequeued_with_runtime_capabilities_def
    fun_eq_iff)


sublocale rocks_env \<subseteq> ibs: inbox_store "rocks_ops E" "\<lambda>s. rocks_view E (V (rk_db s))"
  "\<lambda>s. view_inv E (V (rk_db s))"
proof unfold_locales
  fix a s r s'
  assume "so_dequeue_tx (rocks_ops E) a s = (r, s')"
  then have run: "dequeue_tx E a s = (r, s')" by (simp add: rocks_ops_def)
  have "sv_token (rocks_view E (V (rk_db s))) a t
      \<and> sv_inbox (rocks_view E (V (rk_db s))) a = tx # tl (sv_inbox (rocks_view E (V (rk_db s))) a)"
    if "r = Inr (Some (t, tx))" "view_inv E (V (rk_db s))" for t tx
    using dequeue_spec [OF that(2)] run that(1) by (fastforce simp: rocks_view_def)
  with readsD [OF dequeue_reads run]
  show "rocks_view E (V (rk_db s')) = rocks_view E (V (rk_db s))
      \<and> view_inv E (V (rk_db s')) = view_inv E (V (rk_db s))
      \<and> (\<forall>t tx. r = Inr (Some (t, tx)) \<longrightarrow> view_inv E (V (rk_db s)) \<longrightarrow>
           sv_token (rocks_view E (V (rk_db s))) a t
           \<and> sv_inbox (rocks_view E (V (rk_db s))) a = tx # tl (sv_inbox (rocks_view E (V (rk_db s))) a))"
    by auto
qed

context rocks_env
begin

lemma rocks_inbox_store:
  "inbox_store (rocks_ops E) (\<lambda>s. rocks_view E (V (rk_db s))) (\<lambda>s. view_inv E (V (rk_db s)))"
  by (rule ibs.inbox_store_axioms)

end

end
