(* ===== verification/Policy.thy ===== *)
theory Policy
  imports Core_Types
begin

text \<open>
  The policy engine of \<open>aura-agent-kernel\<close> (\<open>policy/\<close>): the configuration, the verdict and its
  explanation, the mode classification of tools, the hard gates (action kind, mode, agent
  capability and scope, integrations), the tool permission gate with its session grants, and the
  evaluation of a proposal that composes them.

  The engine's state is \<open>policy\<close>: its immutable configuration and the session grants behind a
  mutex.  A trace that the source grows through a mutable vector is returned with the verdict.  The
  hash of the configuration, which is only copied into decisions, is stored as given.
\<close>

section \<open>Prompts\<close>

(* src/crates/aura-agent-kernel/src/kernel/mod.rs:212-221 ToolApprovalRemember *)
datatype tool_approval_remember = Remember_Once | Remember_Session | Remember_Forever

(* src/crates/aura-agent-kernel/src/kernel/mod.rs:230-238 PendingToolPrompt *)
record pending_tool_prompt =
  ptp_request_id :: string
  ptp_tool_name :: string
  ptp_args :: json
  ptp_agent_id :: agent_id
  ptp_remember_options :: "tool_approval_remember list"

section \<open>Verdicts\<close>

(* src/crates/aura-agent-kernel/src/policy/check/verdict.rs:14-30 PolicyVerdict *)
datatype policy_verdict =
    Verdict_Allow
  | Verdict_RequireApproval (vd_reason: string) (vd_prompt: "pending_tool_prompt option")
  | Verdict_Deny (vd_reason: string)

(* src/crates/aura-agent-kernel/src/policy/check/verdict.rs:33-37 PolicyVerdict::is_allowed *)
fun verdict_is_allowed :: "policy_verdict \<Rightarrow> bool" where
  "verdict_is_allowed Verdict_Allow = True"
| "verdict_is_allowed (Verdict_RequireApproval _ _) = False"
| "verdict_is_allowed (Verdict_Deny _) = False"

(* src/crates/aura-agent-kernel/src/policy/check/verdict.rs:39-46 PolicyVerdict::reason *)
fun verdict_reason :: "policy_verdict \<Rightarrow> string option" where
  "verdict_reason Verdict_Allow = None"
| "verdict_reason (Verdict_RequireApproval reason _) = Some reason"
| "verdict_reason (Verdict_Deny reason) = Some reason"

(* src/crates/aura-agent-kernel/src/policy/check/verdict.rs:94-102 outcome_of *)
fun outcome_of :: "policy_verdict \<Rightarrow> policy_check_outcome" where
  "outcome_of Verdict_Allow = Outcome_Allow"
| "outcome_of (Verdict_RequireApproval _ _) = Outcome_Ask"
| "outcome_of (Verdict_Deny _) = Outcome_Deny"

(* src/crates/aura-agent-kernel/src/policy/check/verdict.rs:49-77 PolicyEvaluation *)
record policy_evaluation =
  ev_verdict :: policy_verdict
  ev_decided_by :: policy_rule
  ev_trace :: "policy_check list"
  ev_approval :: "policy_approval option"

definition evaluation_new :: "policy_verdict \<Rightarrow> policy_rule \<Rightarrow> policy_check list \<Rightarrow> policy_evaluation" where
  "evaluation_new verdict decided_by trace1 =
    \<lparr> ev_verdict = verdict, ev_decided_by = decided_by, ev_trace = trace1, ev_approval = None \<rparr>"

(* src/crates/aura-agent-kernel/src/policy/check/verdict.rs:79-91 PolicyEvaluation::decide *)
definition evaluation_decide :: "policy_evaluation \<Rightarrow> policy_verdict \<Rightarrow> policy_rule \<Rightarrow> policy_evaluation" where
  "evaluation_decide ev verdict rule =
    (let check = \<lparr> pc_rule = rule, pc_outcome = outcome_of verdict \<rparr> in
     ev \<lparr> ev_trace := (if ev_trace ev \<noteq> [] \<and> last (ev_trace ev) = check then ev_trace ev
                       else ev_trace ev @ [check]),
          ev_verdict := verdict, ev_decided_by := rule \<rparr>)"

(* src/crates/aura-agent-kernel/src/policy/check/verdict.rs:104-132 PolicyResult *)
record policy_result =
  pres_allowed :: bool
  pres_reason :: "string option"
  pres_verdict :: policy_verdict

definition policy_result_of :: "policy_verdict \<Rightarrow> policy_result" where
  "policy_result_of verdict =
    \<lparr> pres_allowed = verdict_is_allowed verdict, pres_reason = verdict_reason verdict,
      pres_verdict = verdict \<rparr>"

section \<open>Configuration\<close>

(* src/crates/aura-agent-kernel/src/policy/config.rs:17-56 PolicyConfig *)
record policy_config =
  cfg_allowed_action_kinds :: "action_kind set"
  cfg_max_proposals :: nat
  cfg_installed_integrations :: "installed_integration list"
  cfg_tool_integration_requirements :: "(string, integration_requirement) btree_map"
  cfg_agent_permissions :: permissions
  cfg_tool_capability_requirements :: "(string, capability) btree_map"
  cfg_user_default :: user_tool_defaults
  cfg_agent_override :: "agent_tool_permissions option"
  cfg_mode :: agent_mode

(* src/crates/aura-agent-kernel/src/policy/config.rs:58-93 PolicyConfig::default *)
definition policy_config_default :: policy_config where
  "policy_config_default =
    \<lparr> cfg_allowed_action_kinds =
        {ActionKind_Reason, ActionKind_Memorize, ActionKind_Decide, ActionKind_Delegate},
      cfg_max_proposals = 8,
      cfg_installed_integrations = [],
      cfg_tool_integration_requirements = [],
      cfg_agent_permissions = pm_full_access,
      cfg_tool_capability_requirements =
        fold (\<lambda>(k, v). btm_insert k v)
          [(''spawn_agent'', Cap_SpawnAgent), (''task'', Cap_SpawnAgent),
           (''send_to_agent'', Cap_ControlAgent), (''agent_lifecycle'', Cap_ControlAgent),
           (''delegate_task'', Cap_ControlAgent), (''get_agent_state'', Cap_ReadAgent),
           (''list_agents'', Cap_ListAgents), (''run_command'', Cap_InvokeProcess),
           (''post_to_feed'', Cap_PostToFeed), (''check_budget'', Cap_ManageBilling),
           (''record_usage'', Cap_ManageBilling), (''computer'', Cap_ComputerUse)] [],
      cfg_user_default = \<lparr> utd_mode = UserDefault_FullAccess \<rparr>,
      cfg_agent_override = None,
      cfg_mode = AgentMode_Agent \<rparr>"

(* src/crates/aura-agent-kernel/src/policy/config.rs:119-124 PolicyConfig::with_tool_capability *)
definition with_tool_capability :: "policy_config \<Rightarrow> string \<Rightarrow> capability \<Rightarrow> policy_config" where
  "with_tool_capability c tool cap =
    c \<lparr> cfg_tool_capability_requirements := btm_insert tool cap (cfg_tool_capability_requirements c) \<rparr>"

(* src/crates/aura-agent-kernel/src/policy/check/mod.rs:45-75 Policy *)
record policy =
  pol_config :: policy_config
  pol_session_tool_states :: "(string, tool_state) btree_map"
  pol_snapshot_hash :: string

definition policy_new :: "(policy_config \<Rightarrow> string) \<Rightarrow> policy_config \<Rightarrow> policy" where
  "policy_new snapshot_hash config =
    \<lparr> pol_config = config, pol_session_tool_states = [], pol_snapshot_hash = snapshot_hash config \<rparr>"

(* src/crates/aura-agent-kernel/src/policy/check/mod.rs:77-83 Policy::remember_tool_state_for_session *)
definition remember_tool_state_for_session :: "policy \<Rightarrow> string \<Rightarrow> tool_state \<Rightarrow> policy" where
  "remember_tool_state_for_session P tool state =
    P \<lparr> pol_session_tool_states := btm_insert tool state (pol_session_tool_states P) \<rparr>"

(* src/crates/aura-agent-kernel/src/policy/check/mod.rs:85-93 Policy::clear_session_approvals *)
definition clear_session_approvals :: "policy \<Rightarrow> policy" where
  "clear_session_approvals P = P \<lparr> pol_session_tool_states := [] \<rparr>"

(* src/crates/aura-agent-kernel/src/policy/check/mod.rs:172-178 Policy::session_tool_state *)
definition session_tool_state :: "policy \<Rightarrow> string \<Rightarrow> tool_state option" where
  "session_tool_state P tool = btm_get tool (pol_session_tool_states P)"

section \<open>Printing\<close>

fun mode_debug :: "agent_mode \<Rightarrow> string" where
  "mode_debug AgentMode_Agent = ''Agent''"
| "mode_debug AgentMode_Plan = ''Plan''"
| "mode_debug AgentMode_Ask = ''Ask''"
| "mode_debug AgentMode_Debug = ''Debug''"

(* src/crates/aura-agent-kernel/src/policy/check/delegate_gate.rs:86-89 mode_label *)
definition mode_label :: "agent_mode \<Rightarrow> string" where
  "mode_label mode = map ascii_lower (mode_debug mode)"

fun action_kind_debug :: "action_kind \<Rightarrow> string" where
  "action_kind_debug ActionKind_Reason = ''Reason''"
| "action_kind_debug ActionKind_Memorize = ''Memorize''"
| "action_kind_debug ActionKind_Decide = ''Decide''"
| "action_kind_debug ActionKind_Delegate = ''Delegate''"

definition debug_char :: "char \<Rightarrow> string" where
  "debug_char c =
    (if c = CHR 0x22 \<or> c = CHR 0x5C then [CHR 0x5C, c]
     else if c = CHR 0x0A then [CHR 0x5C, CHR ''n'']
     else if c = CHR 0x0D then [CHR 0x5C, CHR ''r'']
     else if c = CHR 0x09 then [CHR 0x5C, CHR ''t'']
     else if c = CHR 0x00 then [CHR 0x5C, CHR ''0'']
     else [c])"

definition debug_string :: "string \<Rightarrow> string" where
  "debug_string s = [CHR 0x22] @ concat (map debug_char s) @ [CHR 0x22]"

fun capability_debug :: "capability \<Rightarrow> string" where
  "capability_debug Cap_SpawnAgent = ''SpawnAgent''"
| "capability_debug Cap_ControlAgent = ''ControlAgent''"
| "capability_debug Cap_ReadAgent = ''ReadAgent''"
| "capability_debug Cap_ListAgents = ''ListAgents''"
| "capability_debug Cap_ManageOrgMembers = ''ManageOrgMembers''"
| "capability_debug Cap_ManageBilling = ''ManageBilling''"
| "capability_debug Cap_InvokeProcess = ''InvokeProcess''"
| "capability_debug Cap_PostToFeed = ''PostToFeed''"
| "capability_debug Cap_GenerateMedia = ''GenerateMedia''"
| "capability_debug Cap_ComputerUse = ''ComputerUse''"
| "capability_debug (Cap_ReadProject i) = ''ReadProject { id: '' @ debug_string i @ '' }''"
| "capability_debug (Cap_WriteProject i) = ''WriteProject { id: '' @ debug_string i @ '' }''"
| "capability_debug Cap_ReadAllProjects = ''ReadAllProjects''"
| "capability_debug Cap_WriteAllProjects = ''WriteAllProjects''"

(* src/crates/aura-agent-kernel/src/policy/check/mod.rs:375-382 tool_state_label *)
fun tool_state_label :: "tool_state \<Rightarrow> string" where
  "tool_state_label ToolState_Allow = ''on''"
| "tool_state_label ToolState_Deny = ''off''"
| "tool_state_label ToolState_Ask = ''ask''"

(* src/crates/aura-agent-kernel/src/policy/check/mod.rs:384-389 session_rule *)
definition session_rule :: "string \<Rightarrow> tool_state \<Rightarrow> policy_rule" where
  "session_rule tool state =
    \<lparr> rule_source = PolicySource_SessionGrant, rule_rule = tool @ ''='' @ tool_state_label state \<rparr>"

(* src/crates/aura-agent-kernel/src/policy/check/mod.rs:391-412 permission_rule *)
fun permission_rule :: "string \<Rightarrow> tool_state \<Rightarrow> permission_layer \<Rightarrow> policy_rule" where
  "permission_rule tool state Layer_AgentOverride =
    \<lparr> rule_source = PolicySource_AgentOverride,
      rule_rule = ''per_tool['' @ tool @ '']='' @ tool_state_label state \<rparr>"
| "permission_rule tool state Layer_UserFullAccess =
    \<lparr> rule_source = PolicySource_UserDefault, rule_rule = ''full_access'' \<rparr>"
| "permission_rule tool state Layer_UserAutoReview =
    \<lparr> rule_source = PolicySource_UserDefault, rule_rule = ''auto_review'' \<rparr>"
| "permission_rule tool state Layer_UserPerTool =
    \<lparr> rule_source = PolicySource_UserDefault,
      rule_rule = ''per_tool['' @ tool @ '']='' @ tool_state_label state \<rparr>"
| "permission_rule tool state Layer_UserFallback =
    \<lparr> rule_source = PolicySource_UserDefault, rule_rule = ''fallback='' @ tool_state_label state \<rparr>"

section \<open>The mode gate of tool calls\<close>

(* src/crates/aura-agent-kernel/src/policy/check/mode_gate.rs:19-38 ToolModeClass *)
datatype tool_mode_class =
    ModeClass_Read
  | ModeClass_FileWrite
  | ModeClass_MarkdownDocument
  | ModeClass_WorkspaceMutation
  | ModeClass_Subprocess
  | ModeClass_Network
  | ModeClass_Spawn
  | ModeClass_Invoke

(* src/crates/aura-agent-kernel/src/policy/check/mode_gate.rs:40-99 tool_mode_class *)
definition tool_mode_class_of :: "string \<Rightarrow> tool_mode_class option" where
  "tool_mode_class_of tool =
    (if tool \<in> {''read_file'', ''list_files'', ''stat_file'', ''find_files'', ''search_code'',
                ''get_agent_state'', ''list_agents''} then Some ModeClass_Read
     else if tool \<in> {''write_file'', ''edit_file'', ''delete_file''} then Some ModeClass_FileWrite
     else if tool \<in> {''create_spec'', ''update_spec'', ''update_spec_section'',
                     ''append_to_spec'', ''delete_spec''} then Some ModeClass_MarkdownDocument
     else if tool = ''git_commit'' then Some ModeClass_WorkspaceMutation
     else if tool = ''run_command'' then Some ModeClass_Subprocess
     else if tool \<in> {''git_push'', ''git_commit_push'', ''orbit_push'', ''orbit_create_repo'',
                     ''orbit_create_branch'', ''orbit_create_pr'', ''orbit_merge_pr'',
                     ''post_to_feed'', ''record_usage'', ''create_task'', ''update_task'',
                     ''delete_task'', ''transition_task'', ''update_project'',
                     ''computer''} then Some ModeClass_Network
     else if tool \<in> {''spawn_agent'', ''task'', ''delegate_task'', ''send_to_agent'',
                     ''agent_lifecycle'', ''run_task'', ''start_dev_loop'', ''pause_dev_loop'',
                     ''stop_dev_loop''} then Some ModeClass_Spawn
     else if tool \<in> {''list_specs'', ''get_spec'', ''list_tasks'', ''list_projects'',
                     ''get_project'', ''check_budget'', ''orbit_list_repos'',
                     ''orbit_list_branches'', ''orbit_list_commits'', ''orbit_get_diff'',
                     ''orbit_list_prs'', ''get_task_context'', ''task_done'',
                     ''submit_plan''} then Some ModeClass_Invoke
     else None)"

text \<open>
  \<open>std::path::Path::extension\<close> on Unix: the last component
  (empty and \<open>.\<close> components do not count) unless it is \<open>..\<close>, and of it what follows the last
  dot, when something precedes that dot.
\<close>

fun split_at :: "char \<Rightarrow> string \<Rightarrow> string list" where
  "split_at c [] = [[]]"
| "split_at c (x # xs) =
    (if x = c then [] # split_at c xs
     else (case split_at c xs of [] \<Rightarrow> [[x]] | y # ys \<Rightarrow> (x # y) # ys))"

definition path_file_name :: "string \<Rightarrow> string option" where
  "path_file_name path =
    (let comps = filter (\<lambda>c. c \<noteq> [] \<and> c \<noteq> ''.'') (split_at (CHR ''/'') path) in
     if comps = [] \<or> last comps = ''..'' then None else Some (last comps))"

definition path_extension :: "string \<Rightarrow> string option" where
  "path_extension path =
    (case path_file_name path of
       None \<Rightarrow> None
     | Some name \<Rightarrow>
        (let parts = split_at (CHR ''.'') name in
         if length parts \<le> 1 \<or> (length parts = 2 \<and> hd parts = []) then None
         else Some (last parts)))"

(* src/crates/aura-agent-kernel/src/policy/check/mode_gate.rs:124-130 targets_markdown *)
definition targets_markdown :: "json \<Rightarrow> bool" where
  "targets_markdown args =
    (case Option.bind (Option.bind (json_get args ''path'') json_as_str) path_extension of
       None \<Rightarrow> False
     | Some ext \<Rightarrow> eq_ignore_ascii_case ext ''md'' \<or> eq_ignore_ascii_case ext ''markdown'')"

(* src/crates/aura-agent-kernel/src/policy/check/mode_gate.rs:101-122 gated_action *)
definition gated_action_of :: "tool_call \<Rightarrow> gated_action" where
  "gated_action_of call =
    (case tool_mode_class_of (tc_tool call) of
       Some ModeClass_Read \<Rightarrow> GA_ReadFile
     | Some ModeClass_FileWrite \<Rightarrow>
        (if targets_markdown (tc_args call) then GA_WriteMarkdown else GA_WriteNonMarkdown)
     | Some ModeClass_MarkdownDocument \<Rightarrow> GA_WriteMarkdown
     | Some ModeClass_WorkspaceMutation \<Rightarrow> GA_WriteNonMarkdown
     | Some ModeClass_Subprocess \<Rightarrow> GA_Subprocess
     | Some ModeClass_Network \<Rightarrow> GA_Network
     | None \<Rightarrow> GA_Network
     | Some ModeClass_Spawn \<Rightarrow> GA_SpawnAgent
     | Some ModeClass_Invoke \<Rightarrow> GA_ToolInvoke (tc_tool call))"

(* src/crates/aura-agent-kernel/src/policy/check/mode_gate.rs:132-150 Policy::check_mode *)
definition check_mode :: "policy \<Rightarrow> tool_call \<Rightarrow> policy_verdict option" where
  "check_mode P call =
    (let mode = cfg_mode (pol_config P) in
     if mode = AgentMode_Agent then None
     else (case mode_check mode (gated_action_of call) of
             Inr _ \<Rightarrow> None
           | Inl violation \<Rightarrow>
              Some (Verdict_Deny (''Tool '' @ quoted (tc_tool call) @ '' denied by '' @ mode_debug mode
                                  @ '' mode: '' @ mode_violation_message violation))))"

section \<open>Agent capabilities and scope\<close>

(* src/crates/aura-agent-kernel/src/policy/check/scope.rs:6-30 scope_violation *)
definition axis_violation :: "string \<Rightarrow> string list \<Rightarrow> string option \<Rightarrow> string option" where
  "axis_violation label axis target =
    (case target of
       None \<Rightarrow> None
     | Some i \<Rightarrow> if axis \<noteq> [] \<and> \<not> list_ex (\<lambda>o1. o1 = i) axis
                then Some (''permissions: target out of scope ('' @ label @ '' '' @ quoted i @ '')'')
                else None)"

definition json_target :: "(string \<times> json) list \<Rightarrow> string \<Rightarrow> string option" where
  "json_target obj key = Option.bind (map_of obj key) json_as_str"

(* src/crates/aura-agent-kernel/src/policy/check/scope.rs:3-30 scope_violation *)
definition scope_violation :: "agent_scope \<Rightarrow> json \<Rightarrow> string option" where
  "scope_violation scope args =
    (if is_universe scope then None
     else (case args of
             J_Object obj \<Rightarrow>
               (case axis_violation ''org'' (sc_orgs scope) (json_target obj ''target_org_id'') of
                  Some reason \<Rightarrow> Some reason
                | None \<Rightarrow>
                   (case axis_violation ''project'' (sc_projects scope)
                           (json_target obj ''target_project_id'') of
                      Some reason \<Rightarrow> Some reason
                    | None \<Rightarrow> axis_violation ''agent'' (sc_agent_ids scope)
                                (json_target obj ''target_agent_id'')))
           | _ \<Rightarrow> None))"

(* src/crates/aura-agent-kernel/src/policy/check/agent_permissions.rs:26-34 Policy::resolve_tool_state_with_source *)
definition resolve_tool_state_with_source :: "policy \<Rightarrow> string \<Rightarrow> tool_state \<times> permission_layer" where
  "resolve_tool_state_with_source P tool =
    resolve_effective_permission_with_source (cfg_user_default (pol_config P))
      (cfg_agent_override (pol_config P)) tool"

(* src/crates/aura-agent-kernel/src/policy/check/agent_permissions.rs:16-24 Policy::resolve_tool_state *)
definition resolve_tool_state :: "policy \<Rightarrow> string \<Rightarrow> tool_state" where
  "resolve_tool_state P tool = fst (resolve_tool_state_with_source P tool)"

(* src/crates/aura-agent-kernel/src/policy/check/agent_permissions.rs:36-75 Policy::check_agent_permissions *)
definition check_agent_permissions :: "policy \<Rightarrow> tool_call \<Rightarrow> policy_result option" where
  "check_agent_permissions P call =
    (let perms = cfg_agent_permissions (pol_config P);
         scope_check = (case scope_violation (pm_scope perms) (tc_args call) of
                          Some reason \<Rightarrow> Some (policy_result_of (Verdict_Deny reason))
                        | None \<Rightarrow> None) in
     case btm_get (tc_tool call) (cfg_tool_capability_requirements (pol_config P)) of
       Some required \<Rightarrow>
         if \<not> list_ex (\<lambda>held. satisfies held required) (pm_capabilities perms)
         then Some (policy_result_of
                (Verdict_Deny (''permissions: requires capability '' @ capability_debug required)))
         else scope_check
     | None \<Rightarrow> scope_check)"

section \<open>Integrations\<close>

(* src/crates/aura-agent-kernel/src/policy/check/integration_gate.rs:50-66 Policy::integration_requirement_satisfied *)
definition integration_reason :: "string \<Rightarrow> integration_requirement \<Rightarrow> string" where
  "integration_reason tool req =
    ''Tool '' @ quoted tool @ '' requires an installed integration''
    @ (case ir_provider req of Some p \<Rightarrow> '' with provider '' @ quoted p | None \<Rightarrow> [])
    @ (case ir_kind req of Some k \<Rightarrow> '' and kind '' @ quoted k | None \<Rightarrow> [])
    @ (case ir_integration_id req of Some i \<Rightarrow> '' (integration_id '' @ quoted i @ '')'' | None \<Rightarrow> [])"

definition integration_installed ::
  "policy \<Rightarrow> runtime_capability_install option \<Rightarrow> integration_requirement \<Rightarrow> bool" where
  "integration_installed P rc req =
    (case rc of
       None \<Rightarrow> installed_integrations_satisfy req (cfg_installed_integrations (pol_config P))
     | Some r \<Rightarrow> integration_requirement_satisfied r req)"

(* src/crates/aura-agent-kernel/src/policy/check/integration_gate.rs:8-68 Policy::integration_requirement_satisfied *)
definition policy_integration_gate ::
  "policy \<Rightarrow> string \<Rightarrow> runtime_capability_install option \<Rightarrow> string option" where
  "policy_integration_gate P tool rc =
    (let configured = btm_get tool (cfg_tool_integration_requirements (pol_config P));
         verify = (\<lambda>required. case required of
             None \<Rightarrow> None
           | Some req \<Rightarrow> if integration_installed P rc req then None
                        else Some (integration_reason tool req)) in
     case rc of
       None \<Rightarrow> verify configured
     | Some r \<Rightarrow>
        (case tool_capability r tool of
           Some cap \<Rightarrow> verify (itc_required_integration cap)
         | None \<Rightarrow>
            (if configured \<noteq> None
             then Some (''Tool '' @ quoted tool
                        @ '' is not installed in the kernel runtime capability ledger'')
             else verify configured)))"

section \<open>The tool gate\<close>

fun tool_verdict :: "string \<Rightarrow> string \<Rightarrow> tool_state \<Rightarrow> policy_verdict" where
  "tool_verdict tool denied ToolState_Allow = Verdict_Allow"
| "tool_verdict tool denied ToolState_Deny = Verdict_Deny (''Tool '' @ quoted tool @ denied)"
| "tool_verdict tool denied ToolState_Ask =
    Verdict_RequireApproval (''Tool '' @ quoted tool @ '' is set to ask'') None"

(* src/crates/aura-agent-kernel/src/policy/check/mod.rs:237-290 Policy::tool_gate_explained *)
definition tool_gate_explained ::
  "policy \<Rightarrow> string \<Rightarrow> runtime_capability_install option \<Rightarrow> policy_check list \<Rightarrow>
   policy_verdict \<times> policy_rule \<times> policy_check list" where
  "tool_gate_explained P tool rc trace1 =
    (let integration_rule =
           \<lparr> rule_source = PolicySource_Integration, rule_rule = ''requirements'' \<rparr> in
     case policy_integration_gate P tool rc of
       Some reason \<Rightarrow>
         (Verdict_Deny reason, integration_rule,
          trace1 @ [\<lparr> pc_rule = integration_rule, pc_outcome = Outcome_Deny \<rparr>])
     | None \<Rightarrow>
         (let trace2 = trace1 @ [\<lparr> pc_rule = integration_rule, pc_outcome = Outcome_Allow \<rparr>];
              (verdict, rule) =
                (case session_tool_state P tool of
                   Some state \<Rightarrow>
                     (tool_verdict tool '' was denied for this session'' state, session_rule tool state)
                 | None \<Rightarrow>
                     (let (state, layer) = resolve_tool_state_with_source P tool in
                      (tool_verdict tool '' is not allowed'' state, permission_rule tool state layer)))
          in (verdict, rule, trace2 @ [\<lparr> pc_rule = rule, pc_outcome = outcome_of verdict \<rparr>])))"

(* src/crates/aura-agent-kernel/src/policy/check/mod.rs:341-353 Policy::check_tool_with_runtime_capabilities_verdict *)
definition check_tool_with_runtime_capabilities_verdict ::
  "policy \<Rightarrow> string \<Rightarrow> json \<Rightarrow> runtime_capability_install option \<Rightarrow> policy_verdict" where
  "check_tool_with_runtime_capabilities_verdict P tool input rc = fst (tool_gate_explained P tool rc [])"

(* src/crates/aura-agent-kernel/src/policy/check/mod.rs:327-339 Policy::check_tool_with_runtime_capabilities *)
definition check_tool_with_runtime_capabilities ::
  "policy \<Rightarrow> string \<Rightarrow> json \<Rightarrow> runtime_capability_install option \<Rightarrow> policy_result" where
  "check_tool_with_runtime_capabilities P tool input rc =
    policy_result_of (check_tool_with_runtime_capabilities_verdict P tool input rc)"

section \<open>Proposals\<close>

(* src/crates/aura-agent-kernel/src/policy/check/delegate_gate.rs:54-63 Policy::evaluate_delegate_explained *)
definition capability_rule :: "policy \<Rightarrow> tool_call \<Rightarrow> policy_rule" where
  "capability_rule P call =
    \<lparr> rule_source = PolicySource_AgentCapability,
      rule_rule = (case btm_get (tc_tool call) (cfg_tool_capability_requirements (pol_config P)) of
                     None \<Rightarrow> ''no_requirement''
                   | Some cap \<Rightarrow> ''requires '' @ capability_debug cap) \<rparr>"

(* src/crates/aura-agent-kernel/src/policy/check/delegate_gate.rs:15-83 Policy::evaluate_delegate_explained *)
definition evaluate_delegate_explained ::
  "serde_json \<Rightarrow> policy \<Rightarrow> bytes \<Rightarrow> runtime_capability_install option \<Rightarrow> policy_check list \<Rightarrow>
   policy_verdict \<times> policy_rule \<times> policy_check list" where
  "evaluate_delegate_explained J P payload rc trace1 =
    (case from_slice (sj_tool_call J) payload of
       Inl _ \<Rightarrow>
         (let rule = \<lparr> rule_source = PolicySource_MalformedProposal, rule_rule = ''delegate_payload'' \<rparr> in
          (Verdict_Deny ''Malformed delegate payload'', rule,
           trace1 @ [\<lparr> pc_rule = rule, pc_outcome = Outcome_Deny \<rparr>]))
     | Inr call \<Rightarrow>
         (let mode_rule = \<lparr> rule_source = PolicySource_Mode,
                            rule_rule = mode_label (cfg_mode (pol_config P)) \<rparr> in
          case check_mode P call of
            Some verdict \<Rightarrow>
              (verdict, mode_rule,
               trace1 @ [\<lparr> pc_rule = mode_rule, pc_outcome = outcome_of verdict \<rparr>])
          | None \<Rightarrow>
              (let trace2 = trace1 @ [\<lparr> pc_rule = mode_rule, pc_outcome = Outcome_Allow \<rparr>];
                   cap_rule = capability_rule P call;
                   admitted = tool_gate_explained P (tc_tool call) rc
                     (trace2 @ [\<lparr> pc_rule = cap_rule, pc_outcome = Outcome_Allow \<rparr>]) in
               case check_agent_permissions P call of
                 Some result \<Rightarrow>
                   (if \<not> pres_allowed result
                    then (Verdict_Deny (case pres_reason result of
                            Some r \<Rightarrow> r | None \<Rightarrow> ''Policy denied''),
                          cap_rule, trace2 @ [\<lparr> pc_rule = cap_rule, pc_outcome = Outcome_Deny \<rparr>])
                    else admitted)
               | None \<Rightarrow> admitted)))"

(* src/crates/aura-agent-kernel/src/policy/check/mod.rs:180-235 Policy::evaluate_proposal *)
definition evaluate_proposal ::
  "serde_json \<Rightarrow> policy \<Rightarrow> proposal \<Rightarrow> runtime_capability_install option \<Rightarrow> policy_evaluation" where
  "evaluate_proposal J P p rc =
    (let kind = pr_action_kind p;
         kind_rule = \<lparr> rule_source = PolicySource_ActionKind,
                       rule_rule = map ascii_lower (action_kind_debug kind) \<rparr> in
     if kind \<notin> cfg_allowed_action_kinds (pol_config P)
     then evaluation_new (Verdict_Deny (''Action kind '' @ action_kind_debug kind @ '' not allowed''))
            kind_rule [\<lparr> pc_rule = kind_rule, pc_outcome = Outcome_Deny \<rparr>]
     else (let trace1 = [\<lparr> pc_rule = kind_rule, pc_outcome = Outcome_Allow \<rparr>] in
           if kind = ActionKind_Delegate
           then (case evaluate_delegate_explained J P (pr_payload p) rc trace1 of
                   (verdict, rule, trace2) \<Rightarrow>
                     if \<not> verdict_is_allowed verdict then evaluation_new verdict rule trace2
                     else evaluation_new Verdict_Allow rule trace2)
           else evaluation_new Verdict_Allow kind_rule trace1))"

(* src/crates/aura-agent-kernel/src/policy/check/mod.rs:310-322 Policy::check_with_runtime_capabilities_verdict *)
definition check_with_runtime_capabilities_verdict ::
  "serde_json \<Rightarrow> policy \<Rightarrow> proposal \<Rightarrow> runtime_capability_install option \<Rightarrow> policy_verdict" where
  "check_with_runtime_capabilities_verdict J P p rc = ev_verdict (evaluate_proposal J P p rc)"

(* src/crates/aura-agent-kernel/src/policy/check/mod.rs:292-308 Policy::check_with_runtime_capabilities *)
definition check_with_runtime_capabilities ::
  "serde_json \<Rightarrow> policy \<Rightarrow> proposal \<Rightarrow> runtime_capability_install option \<Rightarrow> policy_result" where
  "check_with_runtime_capabilities J P p rc =
    policy_result_of (check_with_runtime_capabilities_verdict J P p rc)"

section \<open>Live prompts\<close>

(* src/crates/aura-agent-kernel/src/policy/check/mod.rs:119-170 Policy::live_tool_prompt_explained *)
definition live_tool_prompt_explained ::
  "policy \<Rightarrow> string \<Rightarrow> json \<Rightarrow> agent_id \<Rightarrow> string \<Rightarrow> bool \<Rightarrow> tool_approval_remember list \<Rightarrow>
   (policy_verdict \<times> policy_rule) option" where
  "live_tool_prompt_explained P tool args agent_id request_id has_live_session remember_options =
    (case session_tool_state P tool of
       Some ToolState_Deny \<Rightarrow>
         Some (Verdict_Deny (''Tool '' @ quoted tool @ '' was denied for this session''),
               session_rule tool ToolState_Deny)
     | Some _ \<Rightarrow> None
     | None \<Rightarrow>
         (let (state, layer) = resolve_tool_state_with_source P tool in
          if state \<noteq> ToolState_Ask then None
          else if \<not> has_live_session
          then Some (Verdict_Deny (''tool '' @ tool @ '' is set to ask; no session to prompt''),
                     \<lparr> rule_source = PolicySource_NoLiveSession, rule_rule = tool @ ''=ask'' \<rparr>)
          else Some (Verdict_RequireApproval (''Tool '' @ quoted tool @ '' is set to ask'')
                       (Some \<lparr> ptp_request_id = request_id, ptp_tool_name = tool, ptp_args = args,
                               ptp_agent_id = agent_id, ptp_remember_options = remember_options \<rparr>),
                     permission_rule tool state layer)))"

(* src/crates/aura-agent-kernel/src/policy/check/mod.rs:95-117 Policy::live_tool_prompt_verdict *)
definition live_tool_prompt_verdict ::
  "policy \<Rightarrow> string \<Rightarrow> json \<Rightarrow> agent_id \<Rightarrow> string \<Rightarrow> bool \<Rightarrow> tool_approval_remember list \<Rightarrow>
   policy_verdict option" where
  "live_tool_prompt_verdict P tool args agent_id request_id has_live_session remember_options =
    map_option fst
      (live_tool_prompt_explained P tool args agent_id request_id has_live_session remember_options)"

section \<open>The pipeline as a list of gates\<close>

text \<open>
  The abstract specification of the engine.  A gate is the check it would record, rule and
  outcome, computed on its own; a list of gates is decided by its first refusal.  The trace of a
  decision is the admitted gates before it and the deciding gate itself.
\<close>

definition gate_admits :: "policy_check \<Rightarrow> bool" where
  "gate_admits g = (pc_outcome g = Outcome_Allow)"

fun first_refusal :: "policy_check list \<Rightarrow> policy_check list" where
  "first_refusal [] = []"
| "first_refusal (g # gs) = (if gate_admits g then g # first_refusal gs else [g])"

definition kind_gate :: "policy \<Rightarrow> action_kind \<Rightarrow> policy_check" where
  "kind_gate P kind =
    \<lparr> pc_rule = \<lparr> rule_source = PolicySource_ActionKind,
                  rule_rule = map ascii_lower (action_kind_debug kind) \<rparr>,
      pc_outcome = (if kind \<in> cfg_allowed_action_kinds (pol_config P) then Outcome_Allow else Outcome_Deny) \<rparr>"

definition mode_gate_check :: "policy \<Rightarrow> tool_call \<Rightarrow> policy_check" where
  "mode_gate_check P call =
    \<lparr> pc_rule = \<lparr> rule_source = PolicySource_Mode, rule_rule = mode_label (cfg_mode (pol_config P)) \<rparr>,
      pc_outcome = (if is_ok (mode_check (cfg_mode (pol_config P)) (gated_action_of call))
                    then Outcome_Allow else Outcome_Deny) \<rparr>"

text \<open>The required capability is held, and every target the arguments name is in scope.\<close>

definition capability_held :: "policy \<Rightarrow> string \<Rightarrow> bool" where
  "capability_held P tool =
    (case btm_get tool (cfg_tool_capability_requirements (pol_config P)) of
       None \<Rightarrow> True
     | Some cap \<Rightarrow> allows (cfg_agent_permissions (pol_config P)) cap)"

definition target_in_scope :: "string list \<Rightarrow> json \<Rightarrow> string \<Rightarrow> bool" where
  "target_in_scope axis args key =
    (axis = [] \<or> (case Option.bind (json_get args key) json_as_str of
                     None \<Rightarrow> True | Some target \<Rightarrow> target \<in> set axis))"

definition targets_in_scope :: "agent_scope \<Rightarrow> json \<Rightarrow> bool" where
  "targets_in_scope scope args =
    (target_in_scope (sc_orgs scope) args ''target_org_id''
     \<and> target_in_scope (sc_projects scope) args ''target_project_id''
     \<and> target_in_scope (sc_agent_ids scope) args ''target_agent_id'')"

definition capability_gate :: "policy \<Rightarrow> tool_call \<Rightarrow> policy_check" where
  "capability_gate P call =
    \<lparr> pc_rule = capability_rule P call,
      pc_outcome = (if capability_held P (tc_tool call)
                       \<and> targets_in_scope (pm_scope (cfg_agent_permissions (pol_config P))) (tc_args call)
                    then Outcome_Allow else Outcome_Deny) \<rparr>"

definition integration_check :: "policy \<Rightarrow> string \<Rightarrow> runtime_capability_install option \<Rightarrow> policy_check" where
  "integration_check P tool rc =
    \<lparr> pc_rule = \<lparr> rule_source = PolicySource_Integration, rule_rule = ''requirements'' \<rparr>,
      pc_outcome = (if policy_integration_gate P tool rc = None then Outcome_Allow else Outcome_Deny) \<rparr>"

fun state_outcome :: "tool_state \<Rightarrow> policy_check_outcome" where
  "state_outcome ToolState_Allow = Outcome_Allow"
| "state_outcome ToolState_Deny = Outcome_Deny"
| "state_outcome ToolState_Ask = Outcome_Ask"

text \<open>The state that decides a tool: its session grant, else the resolved permission.\<close>

definition decisive_state :: "policy \<Rightarrow> string \<Rightarrow> tool_state" where
  "decisive_state P tool =
    (case session_tool_state P tool of Some st \<Rightarrow> st | None \<Rightarrow> resolve_tool_state P tool)"

definition state_gate :: "policy \<Rightarrow> string \<Rightarrow> policy_check" where
  "state_gate P tool =
    \<lparr> pc_rule = (case session_tool_state P tool of
                   Some st \<Rightarrow> session_rule tool st
                 | None \<Rightarrow> (let (st, layer) = resolve_tool_state_with_source P tool
                           in permission_rule tool st layer)),
      pc_outcome = state_outcome (decisive_state P tool) \<rparr>"

definition malformed_gate :: policy_check where
  "malformed_gate =
    \<lparr> pc_rule = \<lparr> rule_source = PolicySource_MalformedProposal, rule_rule = ''delegate_payload'' \<rparr>,
      pc_outcome = Outcome_Deny \<rparr>"

definition proposal_gates ::
  "serde_json \<Rightarrow> policy \<Rightarrow> proposal \<Rightarrow> runtime_capability_install option \<Rightarrow> policy_check list" where
  "proposal_gates J P p rc =
    kind_gate P (pr_action_kind p) #
    (if pr_action_kind p = ActionKind_Delegate
     then (case from_slice (sj_tool_call J) (pr_payload p) of
             Inl _ \<Rightarrow> [malformed_gate]
           | Inr call \<Rightarrow> [mode_gate_check P call, capability_gate P call,
                         integration_check P (tc_tool call) rc, state_gate P (tc_tool call)])
     else [])"

section \<open>Lemmas\<close>

lemmas gate_defs = kind_gate_def mode_gate_check_def capability_gate_def integration_check_def
  state_gate_def malformed_gate_def gate_admits_def

lemma outcome_allow_iff [simp]: "outcome_of v = Outcome_Allow \<longleftrightarrow> v = Verdict_Allow"
  by (cases v) simp_all

lemma is_allowed_iff [simp]: "verdict_is_allowed v \<longleftrightarrow> v = Verdict_Allow"
  by (cases v) simp_all

lemma outcome_tool_verdict [simp]: "outcome_of (tool_verdict tool d st) = state_outcome st"
  by (cases st) simp_all

lemma state_outcome_allow [simp]: "state_outcome st = Outcome_Allow \<longleftrightarrow> st = ToolState_Allow"
  by (cases st) simp_all

lemma tool_verdict_allow [simp]: "tool_verdict tool d st = Verdict_Allow \<longleftrightarrow> st = ToolState_Allow"
  by (cases st) simp_all

lemma axis_violation_none:
  "axis_violation l axis target = None \<longleftrightarrow>
   axis = [] \<or> (case target of None \<Rightarrow> True | Some t \<Rightarrow> t \<in> set axis)"
  by (auto simp: axis_violation_def list_ex_iff split: option.splits)

lemma target_in_universe [simp]: "target_in_scope [] args key"
  by (simp add: target_in_scope_def)

lemma axis_violation_target:
  "axis_violation l axis (json_target obj key) = None \<longleftrightarrow> target_in_scope axis (J_Object obj) key"
  by (simp add: target_in_scope_def axis_violation_none json_target_def)

lemma case_option_or_None: "(case x of Some r \<Rightarrow> Some r | None \<Rightarrow> y) = None \<longleftrightarrow> x = None \<and> y = None"
  by (cases x) simp_all

lemma target_not_object: "(\<And>obj. args \<noteq> J_Object obj) \<Longrightarrow> target_in_scope axis args key"
  by (cases args) (auto simp: target_in_scope_def)

lemma scope_violation_none: "scope_violation scope args = None \<longleftrightarrow> targets_in_scope scope args"
proof (cases "is_universe scope")
  case True
  then show ?thesis
    by (simp add: scope_violation_def targets_in_scope_def is_universe_def)
next
  case False
  show ?thesis
  proof (cases "\<exists>obj. args = J_Object obj")
    case True
    with False show ?thesis
      by (auto simp: scope_violation_def targets_in_scope_def case_option_or_None
          axis_violation_target)
  next
    case no: False
    then have "scope_violation scope args = None"
      using False by (cases args) (simp_all add: scope_violation_def)
    with no show ?thesis
      by (simp add: targets_in_scope_def target_not_object)
  qed
qed

lemma check_mode_none:
  "check_mode P call = None \<longleftrightarrow> is_ok (mode_check (cfg_mode (pol_config P)) (gated_action_of call))"
  by (cases "mode_check (cfg_mode (pol_config P)) (gated_action_of call)")
    (auto simp: check_mode_def Let_def)

lemma check_mode_some: "check_mode P call = Some v \<Longrightarrow> \<exists>r. v = Verdict_Deny r"
  by (auto simp: check_mode_def Let_def split: if_splits sum.splits)

lemma check_agent_permissions_none:
  "check_agent_permissions P call = None \<longleftrightarrow>
   capability_held P (tc_tool call)
   \<and> targets_in_scope (pm_scope (cfg_agent_permissions (pol_config P))) (tc_args call)"
  by (auto simp: check_agent_permissions_def Let_def capability_held_def allows_def
      scope_violation_none [symmetric] split: option.splits)

lemma check_agent_permissions_some:
  "check_agent_permissions P call = Some r \<Longrightarrow> \<not> pres_allowed r \<and> (\<exists>why. pres_reason r = Some why)"
  by (auto simp: check_agent_permissions_def Let_def policy_result_of_def split: option.splits if_splits)

text \<open>The tool gate, as the last two gates of the list.\<close>

lemma tool_gate_refines:
  assumes "tool_gate_explained P tool rc tr = (v, rule, tr')"
  shows "tr' = tr @ first_refusal [integration_check P tool rc, state_gate P tool]
         \<and> last tr' = \<lparr> pc_rule = rule, pc_outcome = outcome_of v \<rparr>"
  using assms
  by (auto simp: tool_gate_explained_def Let_def gate_defs decisive_state_def resolve_tool_state_def
      split: option.splits prod.splits)

lemma delegate_refines:
  assumes "evaluate_delegate_explained J P payload rc tr = (v, rule, tr')"
  shows "tr' = tr @ first_refusal (case from_slice (sj_tool_call J) payload of
            Inl _ \<Rightarrow> [malformed_gate]
          | Inr call \<Rightarrow> [mode_gate_check P call, capability_gate P call,
                        integration_check P (tc_tool call) rc, state_gate P (tc_tool call)])
         \<and> last tr' = \<lparr> pc_rule = rule, pc_outcome = outcome_of v \<rparr>"
proof (cases "from_slice (sj_tool_call J) payload")
  case (Inl e)
  with assms show ?thesis
    by (auto simp: evaluate_delegate_explained_def Let_def malformed_gate_def gate_admits_def)
next
  case call: (Inr call)
  show ?thesis
  proof (cases "check_mode P call")
    case (Some verdict)
    then obtain why where "verdict = Verdict_Deny why"
      using check_mode_some by blast
    moreover have "\<not> is_ok (mode_check (cfg_mode (pol_config P)) (gated_action_of call))"
      using Some check_mode_none [of P call] by simp
    ultimately show ?thesis
      using assms call Some
      by (auto simp: evaluate_delegate_explained_def Let_def mode_gate_check_def gate_admits_def)
  next
    case None
    then have m: "is_ok (mode_check (cfg_mode (pol_config P)) (gated_action_of call))"
      by (simp add: check_mode_none)
    show ?thesis
    proof (cases "check_agent_permissions P call")
      case (Some r)
      with check_agent_permissions_some [OF Some] assms call None m
        check_agent_permissions_none [of P call]
      show ?thesis
        by (auto simp: evaluate_delegate_explained_def Let_def mode_gate_check_def
            capability_gate_def gate_admits_def)
    next
      case ok: None
      with assms call None m check_agent_permissions_none [of P call] show ?thesis
        by (auto simp: evaluate_delegate_explained_def Let_def mode_gate_check_def
            capability_gate_def gate_admits_def dest!: tool_gate_refines)
    qed
  qed
qed

lemma evaluation_refines:
  "ev_trace (evaluate_proposal J P p rc) = first_refusal (proposal_gates J P p rc)
   \<and> last (ev_trace (evaluate_proposal J P p rc)) =
      \<lparr> pc_rule = ev_decided_by (evaluate_proposal J P p rc),
        pc_outcome = outcome_of (ev_verdict (evaluate_proposal J P p rc)) \<rparr>"
proof -
  obtain v rule tr where d: "evaluate_delegate_explained J P (pr_payload p) rc
      [\<lparr> pc_rule = \<lparr> rule_source = PolicySource_ActionKind,
                     rule_rule = map ascii_lower (action_kind_debug (pr_action_kind p)) \<rparr>,
         pc_outcome = Outcome_Allow \<rparr>] = (v, rule, tr)"
    by (metis prod_cases3)
  show ?thesis
    using delegate_refines [OF d] d
    by (auto simp: evaluate_proposal_def Let_def proposal_gates_def kind_gate_def gate_admits_def
        evaluation_new_def)
qed

lemma first_refusal_prefix: "\<exists>rest. gs = first_refusal gs @ rest"
  by (induction gs) auto

lemma first_refusal_admits:
  "gs \<noteq> [] \<Longrightarrow> (gate_admits (last (first_refusal gs)) \<longleftrightarrow> list_all gate_admits gs)
   \<and> list_all gate_admits (butlast (first_refusal gs)) \<and> first_refusal gs \<noteq> []"
proof (induction gs)
  case (Cons g gs)
  then show ?case by (cases gs) auto
qed simp

lemma proposal_gates_nonempty [simp]: "proposal_gates J P p rc \<noteq> []"
  by (simp add: proposal_gates_def)

lemma evaluation_allows_iff:
  "ev_verdict (evaluate_proposal J P p rc) = Verdict_Allow \<longleftrightarrow>
   list_all gate_admits (proposal_gates J P p rc)"
  using evaluation_refines [of J P p rc] first_refusal_admits [of "proposal_gates J P p rc"]
  by (metis gate_admits_def outcome_allow_iff policy_check.select_convs(2) proposal_gates_nonempty)

lemma remember_config [simp]:
  "pol_config (remember_tool_state_for_session P tool st) = pol_config P"
  "session_tool_state (remember_tool_state_for_session P tool st) t =
    (if t = tool then Some st else session_tool_state P t)"
  by (simp_all add: remember_tool_state_for_session_def session_tool_state_def)

lemma clear_config [simp]:
  "pol_config (clear_session_approvals P) = pol_config P"
  "session_tool_state (clear_session_approvals P) t = None"
  by (simp_all add: clear_session_approvals_def session_tool_state_def btm_get_def)

text \<open>
  The hard gates read the configuration only; what a session remembered is read by the last gate.
\<close>

lemma integration_gate_config:
  assumes "pol_config P = pol_config Q"
  shows "policy_integration_gate P tool rc = policy_integration_gate Q tool rc"
  unfolding policy_integration_gate_def integration_installed_def assms by (rule refl)

lemma check_mode_config: "pol_config P = pol_config Q \<Longrightarrow> check_mode P call = check_mode Q call"
  by (simp add: check_mode_def)

lemma check_agent_permissions_config:
  "pol_config P = pol_config Q \<Longrightarrow> check_agent_permissions P call = check_agent_permissions Q call"
  by (simp add: check_agent_permissions_def)

lemma capability_rule_config: "pol_config P = pol_config Q \<Longrightarrow> capability_rule P call = capability_rule Q call"
  by (simp add: capability_rule_def)

lemma resolve_config:
  "pol_config P = pol_config Q \<Longrightarrow>
   resolve_tool_state_with_source P tool = resolve_tool_state_with_source Q tool"
  by (simp add: resolve_tool_state_with_source_def)

lemmas config_only =
  integration_gate_config check_mode_config check_agent_permissions_config capability_rule_config
  resolve_config

definition hard_source :: "policy_source \<Rightarrow> bool" where
  "hard_source src = (src \<in> {PolicySource_ActionKind, PolicySource_MalformedProposal,
     PolicySource_Mode, PolicySource_AgentCapability, PolicySource_Integration})"

lemma hard_rules [simp]:
  "\<not> hard_source (rule_source (session_rule tool st))"
  "\<not> hard_source (rule_source (permission_rule tool st layer))"
  by (cases layer; simp add: hard_source_def session_rule_def)+

lemma tool_gate_other_session:
  assumes "pol_config P = pol_config Q" and "session_tool_state P tool = session_tool_state Q tool"
  shows "tool_gate_explained P tool rc tr = tool_gate_explained Q tool rc tr"
  unfolding tool_gate_explained_def config_only [OF assms(1)] assms(2) by (rule refl)

lemma tool_gate_hard:
  assumes "pol_config P = pol_config Q"
    and "hard_source (rule_source (fst (snd (tool_gate_explained P tool rc tr))))"
  shows "tool_gate_explained P tool rc tr = tool_gate_explained Q tool rc tr"
proof (cases "policy_integration_gate P tool rc")
  case None
  with assms(2) show ?thesis
    by (auto simp: tool_gate_explained_def Let_def split: option.splits prod.splits)
next
  case (Some reason)
  then show ?thesis
    using integration_gate_config [OF assms(1)] by (simp add: tool_gate_explained_def)
qed

lemma delegate_eq:
  assumes "pol_config P = pol_config Q"
    and "\<And>call. from_slice (sj_tool_call J) payload = Inr call \<Longrightarrow> check_mode P call = None \<Longrightarrow>
           check_agent_permissions P call = None \<Longrightarrow>
           tool_gate_explained P (tc_tool call) rc
             (tr @ [mode_gate_check P call] @ [capability_gate P call]) =
           tool_gate_explained Q (tc_tool call) rc
             (tr @ [mode_gate_check P call] @ [capability_gate P call])"
  shows "evaluate_delegate_explained J P payload rc tr = evaluate_delegate_explained J Q payload rc tr"
proof (cases "from_slice (sj_tool_call J) payload")
  case (Inr call)
  then show ?thesis
    using assms(2) [OF Inr] check_mode_none [of P call] check_agent_permissions_none [of P call]
    by (auto simp: evaluate_delegate_explained_def config_only [OF assms(1), symmetric]
        assms(1) [symmetric] Let_def mode_gate_check_def capability_gate_def
        dest: check_agent_permissions_some split: option.splits)
qed (simp add: evaluate_delegate_explained_def)

lemma delegate_hard:
  assumes "pol_config P = pol_config Q"
    and "hard_source (rule_source (fst (snd (evaluate_delegate_explained J P payload rc tr))))"
  shows "evaluate_delegate_explained J P payload rc tr = evaluate_delegate_explained J Q payload rc tr"
proof (rule delegate_eq [OF assms(1)])
  fix call
  assume "from_slice (sj_tool_call J) payload = Inr call" "check_mode P call = None"
    "check_agent_permissions P call = None"
  moreover from this have "evaluate_delegate_explained J P payload rc tr =
      tool_gate_explained P (tc_tool call) rc (tr @ [mode_gate_check P call] @ [capability_gate P call])"
    using check_mode_none [of P call] check_agent_permissions_none [of P call]
    by (simp add: evaluate_delegate_explained_def Let_def mode_gate_check_def capability_gate_def)
  ultimately show "tool_gate_explained P (tc_tool call) rc
        (tr @ [mode_gate_check P call] @ [capability_gate P call]) =
      tool_gate_explained Q (tc_tool call) rc (tr @ [mode_gate_check P call] @ [capability_gate P call])"
    using assms(2) tool_gate_hard [OF assms(1)] by simp
qed

lemma evaluate_eq:
  assumes "pol_config P = pol_config Q"
    and "\<And>tr. pr_action_kind p = ActionKind_Delegate \<Longrightarrow>
           ActionKind_Delegate \<in> cfg_allowed_action_kinds (pol_config P) \<Longrightarrow>
           evaluate_proposal J P p rc = (case evaluate_delegate_explained J P (pr_payload p) rc tr of
             (v, rule, tr') \<Rightarrow> evaluation_new v rule tr') \<Longrightarrow>
           evaluate_delegate_explained J P (pr_payload p) rc tr =
           evaluate_delegate_explained J Q (pr_payload p) rc tr"
  shows "evaluate_proposal J P p rc = evaluate_proposal J Q p rc"
proof (cases "pr_action_kind p = ActionKind_Delegate
    \<and> ActionKind_Delegate \<in> cfg_allowed_action_kinds (pol_config P)")
  case True
  let ?tr = "[kind_gate P ActionKind_Delegate]"
  have P: "evaluate_proposal J P p rc = (case evaluate_delegate_explained J P (pr_payload p) rc ?tr of
             (v, rule, tr') \<Rightarrow> evaluation_new v rule tr')"
    using True by (auto simp: evaluate_proposal_def Let_def kind_gate_def split: prod.splits)
  have "evaluate_proposal J Q p rc = (case evaluate_delegate_explained J Q (pr_payload p) rc ?tr of
             (v, rule, tr') \<Rightarrow> evaluation_new v rule tr')"
    using True assms(1) by (auto simp: evaluate_proposal_def Let_def kind_gate_def split: prod.splits)
  with P assms(2) [of ?tr] True show ?thesis by simp
qed (auto simp: evaluate_proposal_def Let_def assms(1))

section \<open>A concrete session\<close>

text \<open>
  A read and a call to a tool the table does not list, their codec, and the default policy in a
  given mode: the concrete values at which the properties are instantiated.
\<close>

definition demo_read :: tool_call where
  "demo_read = \<lparr> tc_tool = ''read_file'', tc_args = J_Object [(''path'', J_String ''src/lib.rs'')] \<rparr>"

definition demo_mcp :: tool_call where
  "demo_mcp = \<lparr> tc_tool = ''mcp_fetch'', tc_args = J_Null \<rparr>"

definition demo_policy_serde :: serde_json where
  "demo_policy_serde = table_serde \<lparr> sj_tool_call := list_codec [demo_read, demo_read, demo_mcp] \<rparr>"

definition demo_policy :: "agent_mode \<Rightarrow> policy" where
  "demo_policy mode = policy_new (\<lambda>_. []) (policy_config_default \<lparr> cfg_mode := mode \<rparr>)"

definition demo_proposal :: "nat \<Rightarrow> proposal" where
  "demo_proposal i =
    \<lparr> pr_action_kind = ActionKind_Delegate, pr_payload = replicate i 0, pr_rationale = None \<rparr>"

lemma demo_decode:
  "from_slice (sj_tool_call demo_policy_serde) (pr_payload (demo_proposal 0)) = Inr demo_read"
  "from_slice (sj_tool_call demo_policy_serde) (pr_payload (demo_proposal 2)) = Inr demo_mcp"
  by (simp_all add: demo_policy_serde_def list_codec_def demo_proposal_def table_serde_def numeral_2_eq_2)

lemma demo_policy_mode [simp]: "cfg_mode (pol_config (demo_policy m)) = m"
  by (simp add: demo_policy_def policy_new_def)

lemma demo_kind [simp]: "pr_action_kind (demo_proposal i) = ActionKind_Delegate"
  by (simp add: demo_proposal_def)

lemma demo_capability: "capability_held (demo_policy m) ''read_file''"
  by (simp add: capability_held_def demo_policy_def policy_new_def policy_config_default_def
      btm_get_def)

lemma demo_read_admitted:
  "targets_in_scope (pm_scope (cfg_agent_permissions (pol_config (demo_policy m)))) args"
  "policy_integration_gate (demo_policy m) tool None = None"
  "decisive_state (demo_policy m) tool = ToolState_Allow"
  "ActionKind_Delegate \<in> cfg_allowed_action_kinds (pol_config (demo_policy m))"
  by (simp_all add: demo_policy_def policy_new_def policy_config_default_def targets_in_scope_def
      pm_full_access_def scope_default_def policy_integration_gate_def btm_get_def decisive_state_def
      session_tool_state_def resolve_tool_state_def resolve_tool_state_with_source_def resolve_defs)

lemma demo_class: "gated_action_of demo_read = GA_ReadFile" "tc_tool demo_read = ''read_file''"
  "tool_mode_class_of (tc_tool demo_mcp) = None" "gated_action_of demo_mcp = GA_Network"
  by (simp_all add: gated_action_of_def tool_mode_class_of_def demo_read_def demo_mcp_def)

lemma demo_plan_denies:
  "ev_decided_by (evaluate_proposal demo_policy_serde (demo_policy AgentMode_Plan) (demo_proposal 2) None)
   = \<lparr> rule_source = PolicySource_Mode, rule_rule = mode_label AgentMode_Plan \<rparr>"
  using demo_read_admitted(4) [of AgentMode_Plan]
  by (simp add: evaluate_proposal_def Let_def evaluate_delegate_explained_def demo_decode check_mode_def
      demo_class evaluation_new_def)

section \<open>Properties\<close>

text \<open>
  The engine is decided by the first gate that refuses.  The recorded trace of an
  evaluation is the list of gates of the proposal (action kind, then for a delegate the payload,
  the mode, the capability and scope, the integrations and the tool state) cut after its first
  refusal; every earlier check of the trace is an allow, and the last check carries the reported
  rule and the outcome of the enforced verdict, so the recorded provenance cannot drift from it.
\<close>

theorem evaluation_first_refusal:
  "ev_trace (evaluate_proposal J P p rc) = first_refusal (proposal_gates J P p rc)
   \<and> ev_trace (evaluate_proposal J P p rc) \<noteq> []
   \<and> last (ev_trace (evaluate_proposal J P p rc)) =
      \<lparr> pc_rule = ev_decided_by (evaluate_proposal J P p rc),
        pc_outcome = outcome_of (ev_verdict (evaluate_proposal J P p rc)) \<rparr>
   \<and> list_all (\<lambda>c. pc_outcome c = Outcome_Allow) (butlast (ev_trace (evaluate_proposal J P p rc)))"
  using evaluation_refines [of J P p rc] first_refusal_admits [of "proposal_gates J P p rc"]
  by (auto simp: gate_admits_def [abs_def])

text \<open>
  Property C39: a delegated tool call is authorised exactly when its action kind is allowed, its
  payload decodes, the session mode admits its effect, the agent holds the capability the tool
  requires, every target it names lies in the agent's scope, its integrations are installed, and
  the session grant, or in its absence the resolved permission, is \<open>on\<close>.
\<close>

theorem delegate_allow_iff:
  assumes "pr_action_kind p = ActionKind_Delegate"
  shows "check_with_runtime_capabilities_verdict J P p rc = Verdict_Allow \<longleftrightarrow>
    ActionKind_Delegate \<in> cfg_allowed_action_kinds (pol_config P)
    \<and> (\<exists>call. from_slice (sj_tool_call J) (pr_payload p) = Inr call
        \<and> is_ok (mode_check (cfg_mode (pol_config P)) (gated_action_of call))
        \<and> capability_held P (tc_tool call)
        \<and> targets_in_scope (pm_scope (cfg_agent_permissions (pol_config P))) (tc_args call)
        \<and> policy_integration_gate P (tc_tool call) rc = None
        \<and> decisive_state P (tc_tool call) = ToolState_Allow)"
proof (cases "from_slice (sj_tool_call J) (pr_payload p)")
  case (Inl e)
  then show ?thesis
    by (simp add: check_with_runtime_capabilities_verdict_def evaluation_allows_iff
        proposal_gates_def assms malformed_gate_def gate_admits_def)
next
  case (Inr call)
  then show ?thesis
    by (auto simp: check_with_runtime_capabilities_verdict_def evaluation_allows_iff
        proposal_gates_def assms gate_defs)
qed

theorem delegate_allow_iff_witness:
  "check_with_runtime_capabilities_verdict demo_policy_serde (demo_policy AgentMode_Ask)
     (demo_proposal 0) None = Verdict_Allow"
proof -
  have "is_ok (mode_check (cfg_mode (pol_config (demo_policy AgentMode_Ask))) (gated_action_of demo_read))"
    by (simp add: demo_class)
  then show ?thesis
    using delegate_allow_iff [OF demo_kind, of demo_policy_serde "demo_policy AgentMode_Ask" 0 None]
      demo_capability [of AgentMode_Ask]
    by (simp add: demo_decode demo_read_admitted demo_class)
qed

text \<open>
  Nothing a user approves in a session overrides a hard gate.  When an evaluation is
  decided by the action kind, a malformed payload, the mode, the capability and scope, or the
  integrations, remembering any state for any tool, or clearing the session, leaves the whole
  evaluation as it was; and a state remembered for one tool never changes the evaluation of a call
  to another.
\<close>

theorem session_grant_confined:
  "(hard_source (rule_source (ev_decided_by (evaluate_proposal J P p rc))) \<longrightarrow>
      evaluate_proposal J (remember_tool_state_for_session P tool st) p rc = evaluate_proposal J P p rc
      \<and> evaluate_proposal J (clear_session_approvals P) p rc = evaluate_proposal J P p rc)
   \<and> ((\<forall>call. from_slice (sj_tool_call J) (pr_payload p) = Inr call \<longrightarrow> tc_tool call \<noteq> tool) \<longrightarrow>
      evaluate_proposal J (remember_tool_state_for_session P tool st) p rc = evaluate_proposal J P p rc)"
proof (intro conjI impI)
  have hard: "evaluate_proposal J P p rc = evaluate_proposal J Q p rc"
    if "pol_config P = pol_config Q" "hard_source (rule_source (ev_decided_by (evaluate_proposal J P p rc)))" for Q
    using that by (intro evaluate_eq delegate_hard) (auto simp: evaluation_new_def split: prod.splits)
  assume "hard_source (rule_source (ev_decided_by (evaluate_proposal J P p rc)))"
  then show "evaluate_proposal J (remember_tool_state_for_session P tool st) p rc = evaluate_proposal J P p rc"
    "evaluate_proposal J (clear_session_approvals P) p rc = evaluate_proposal J P p rc"
    using hard [of "remember_tool_state_for_session P tool st"] hard [of "clear_session_approvals P"]
    by simp_all
next
  assume "\<forall>call. from_slice (sj_tool_call J) (pr_payload p) = Inr call \<longrightarrow> tc_tool call \<noteq> tool"
  then show "evaluate_proposal J (remember_tool_state_for_session P tool st) p rc = evaluate_proposal J P p rc"
    by (intro evaluate_eq delegate_eq tool_gate_other_session) auto
qed

theorem session_grant_confined_witness:
  "evaluate_proposal demo_policy_serde
     (remember_tool_state_for_session (demo_policy AgentMode_Plan) ''mcp_fetch'' ToolState_Allow)
     (demo_proposal 2) None =
   evaluate_proposal demo_policy_serde (demo_policy AgentMode_Plan) (demo_proposal 2) None"
proof -
  have "hard_source (rule_source (ev_decided_by
          (evaluate_proposal demo_policy_serde (demo_policy AgentMode_Plan) (demo_proposal 2) None)))"
    by (simp add: demo_plan_denies hard_source_def)
  then show ?thesis
    using session_grant_confined [of demo_policy_serde "demo_policy AgentMode_Plan" "demo_proposal 2"
        None "''mcp_fetch''" ToolState_Allow] by blast
qed

text \<open>
  The mode is a ceiling.  With everything else equal, what a narrower session mode
  authorises its wider mode authorises as well, and outside the \<open>Agent\<close> mode a tool that the
  classification table does not list is refused whatever its permissions and grants.
\<close>

theorem mode_is_a_ceiling:
  assumes "narrowing_allowed parent child" and "cfg_mode (pol_config P) = child"
  shows "(check_with_runtime_capabilities_verdict J P p rc = Verdict_Allow \<longrightarrow>
          check_with_runtime_capabilities_verdict J
            (P \<lparr> pol_config := (pol_config P) \<lparr> cfg_mode := parent \<rparr> \<rparr>) p rc = Verdict_Allow)
    \<and> (child \<noteq> AgentMode_Agent \<longrightarrow> pr_action_kind p = ActionKind_Delegate \<longrightarrow>
        from_slice (sj_tool_call J) (pr_payload p) = Inr call \<longrightarrow>
        tool_mode_class_of (tc_tool call) = None \<longrightarrow>
        \<not> verdict_is_allowed (check_with_runtime_capabilities_verdict J P p rc))"
proof (intro conjI impI)
  let ?Q = "P \<lparr> pol_config := (pol_config P) \<lparr> cfg_mode := parent \<rparr> \<rparr>"
  have same: "capability_held ?Q = capability_held P" "decisive_state ?Q = decisive_state P"
    "policy_integration_gate ?Q = policy_integration_gate P"
    by (simp_all add: fun_eq_iff capability_held_def decisive_state_def session_tool_state_def
        resolve_tool_state_def resolve_tool_state_with_source_def policy_integration_gate_def
        integration_installed_def cong: option.case_cong)
  have m: "is_ok (mode_check child act) \<Longrightarrow> is_ok (mode_check parent act)" for act
    using dmg.narrow_admits [OF assms(1)] .
  assume "check_with_runtime_capabilities_verdict J P p rc = Verdict_Allow"
  then show "check_with_runtime_capabilities_verdict J ?Q p rc = Verdict_Allow"
    by (auto simp: check_with_runtime_capabilities_verdict_def evaluation_allows_iff
        proposal_gates_def gate_defs same assms(2) m split: sum.splits if_splits)
next
  assume "child \<noteq> AgentMode_Agent" and d: "pr_action_kind p = ActionKind_Delegate"
    and c: "from_slice (sj_tool_call J) (pr_payload p) = Inr call"
    and "tool_mode_class_of (tc_tool call) = None"
  then have "\<not> is_ok (mode_check (cfg_mode (pol_config P)) (gated_action_of call))"
    using assms(2) by (cases child) (simp_all add: gated_action_of_def)
  with d c show "\<not> verdict_is_allowed (check_with_runtime_capabilities_verdict J P p rc)"
    by (simp add: check_with_runtime_capabilities_verdict_def evaluation_allows_iff
        proposal_gates_def mode_gate_check_def gate_admits_def)
qed

theorem mode_is_a_ceiling_witness:
  "\<not> verdict_is_allowed (check_with_runtime_capabilities_verdict demo_policy_serde
        (demo_policy AgentMode_Debug) (demo_proposal 2) None)"
  using mode_is_a_ceiling [of AgentMode_Plan AgentMode_Debug "demo_policy AgentMode_Debug"
      demo_policy_serde "demo_proposal 2" None demo_mcp] demo_class(3) demo_decode(2)
  by simp

text \<open>
  The live prompt layer can only tighten the tool gate.  Whenever it has an answer,
  that answer is not an approval and the tool gate had not approved the call either; without a
  live session the answer is a denial, and with one it asks about this very call under the
  request identifier it was given.
\<close>

theorem live_prompt_tightens:
  assumes "live_tool_prompt_explained P tool args agent_id request_id live opts = Some (v, rule)"
  shows "\<not> verdict_is_allowed v
    \<and> \<not> verdict_is_allowed (check_tool_with_runtime_capabilities_verdict P tool args rc)
    \<and> (\<not> live \<longrightarrow> (\<exists>why. v = Verdict_Deny why))
    \<and> (\<forall>why prompt. v = Verdict_RequireApproval why prompt \<longrightarrow>
        prompt = Some \<lparr> ptp_request_id = request_id, ptp_tool_name = tool, ptp_args = args,
                        ptp_agent_id = agent_id, ptp_remember_options = opts \<rparr>)"
  using assms
  by (auto simp: live_tool_prompt_explained_def check_tool_with_runtime_capabilities_verdict_def
      tool_gate_explained_def Let_def split: option.splits tool_state.splits prod.splits if_splits)

theorem live_prompt_tightens_witness:
  "live_tool_prompt_explained
     (remember_tool_state_for_session (demo_policy AgentMode_Agent) ''read_file'' ToolState_Deny)
     ''read_file'' J_Null (AgentId 0) ''r1'' True []
   = Some (Verdict_Deny (''Tool '' @ quoted ''read_file'' @ '' was denied for this session''),
           session_rule ''read_file'' ToolState_Deny)
   \<and> \<not> verdict_is_allowed (check_tool_with_runtime_capabilities_verdict
        (remember_tool_state_for_session (demo_policy AgentMode_Agent) ''read_file'' ToolState_Deny)
        ''read_file'' J_Null None)"
proof -
  have p: "live_tool_prompt_explained
     (remember_tool_state_for_session (demo_policy AgentMode_Agent) ''read_file'' ToolState_Deny)
     ''read_file'' J_Null (AgentId 0) ''r1'' True []
   = Some (Verdict_Deny (''Tool '' @ quoted ''read_file'' @ '' was denied for this session''),
           session_rule ''read_file'' ToolState_Deny)"
    by (simp add: live_tool_prompt_explained_def)
  then show ?thesis
    using live_prompt_tightens [OF p, of None] by blast
qed

end
