(* ===== verification/Plugin_Hooks.thy ===== *)
theory Plugin_Hooks
  imports Core_Types
begin

text \<open>
  The crate \<open>aura-plugin-hooks\<close> as the kernel uses it: the outcomes of hook handlers, the firing
  loop that aggregates them, the translation of a handler's exit code, and the host that fires the
  two events of the tool pipeline.  A registered handler is the function that runs its process:
  it reads the context of the event and the state \<open>'u\<close> of the outside world.
\<close>

section \<open>Outcomes\<close>

(* src/crates/aura-plugin-hooks/src/event.rs:25-48 HookEvent *)
datatype hook_event =
    HookEvent_PreToolUse
  | HookEvent_PostToolUse
  | HookEvent_SessionStart
  | HookEvent_UserPromptSubmit
  | HookEvent_SubagentStart
  | HookEvent_SubagentStop
  | HookEvent_Stop
  | HookEvent_PreCompact
  | HookEvent_PostCompact
  | HookEvent_PermissionRequest

(* src/crates/aura-plugin-hooks/src/outcome.rs:35-58 HookOutcome *)
datatype hook_outcome =
    Hook_Continue
  | Hook_Block (hook_reason: string)
  | Hook_Replace (hook_new_value: string)
  | Hook_Approve
  | Hook_Deny (hook_reason: string)
  | Hook_TimedOut

(* src/crates/aura-plugin-hooks/src/outcome.rs:60-67 HookOutcome::is_terminal *)
fun hook_is_terminal :: "hook_outcome \<Rightarrow> bool" where
  "hook_is_terminal (Hook_Block _) = True"
| "hook_is_terminal Hook_Approve = True"
| "hook_is_terminal (Hook_Deny _) = True"
| "hook_is_terminal _ = False"

(* src/crates/aura-plugin-hooks/src/outcome.rs:69-83 AggregateOutcome *)
record aggregate_outcome =
  agg_ran :: u32
  agg_timed_out :: u32
  agg_decision :: hook_outcome

(* src/crates/aura-plugin-hooks/src/outcome.rs:85-94 AggregateOutcome::empty *)
definition aggregate_empty :: aggregate_outcome where
  "aggregate_empty = \<lparr> agg_ran = 0, agg_timed_out = 0, agg_decision = Hook_Continue \<rparr>"

(* src/crates/aura-plugin-hooks/src/outcome.rs:96-100 AggregateOutcome::is_blocked *)
definition aggregate_is_blocked :: "aggregate_outcome \<Rightarrow> bool" where
  "aggregate_is_blocked agg = (case agg_decision agg of Hook_Block _ \<Rightarrow> True | _ \<Rightarrow> False)"

(* src/crates/aura-plugin-hooks/src/outcome.rs:102-111 AggregateOutcome::observe *)
definition aggregate_observe :: "aggregate_outcome \<Rightarrow> aggregate_outcome" where
  "aggregate_observe agg =
    (case agg_decision agg of
       Hook_Continue \<Rightarrow> agg
     | Hook_TimedOut \<Rightarrow> agg
     | _ \<Rightarrow> agg \<lparr> agg_decision := Hook_Continue \<rparr>)"

section \<open>Firing\<close>

datatype hook_ctx =
    Ctx_PreToolUse (ctx_tool_name: string) (ctx_tool_args: string) (ctx_tool_use_id: string)
  | Ctx_PermissionRequest (ctx_tool_name: string) (ctx_tool_args: string)
      (ctx_risk_level: string) (ctx_prompt_text: string)

fun hook_ctx_event :: "hook_ctx \<Rightarrow> hook_event" where
  "hook_ctx_event (Ctx_PreToolUse _ _ _) = HookEvent_PreToolUse"
| "hook_ctx_event (Ctx_PermissionRequest _ _ _ _) = HookEvent_PermissionRequest"

type_synonym 'u hook_handler = "hook_ctx \<Rightarrow> 'u \<Rightarrow> hook_outcome \<times> 'u"

(* src/crates/aura-plugin-hooks/src/host.rs:26-43 PluginHookHost *)
record 'u plugin_hook_host =
  hh_registered :: "hook_event \<Rightarrow> 'u hook_handler list"

(* src/crates/aura-plugin-hooks/src/engine.rs:125-136 HookEngine::is_empty *)
definition hooks_is_empty :: "'u plugin_hook_host \<Rightarrow> hook_event \<Rightarrow> bool" where
  "hooks_is_empty host event = (hh_registered host event = [])"

(* src/crates/aura-plugin-hooks/src/engine.rs:222-252 HookEngine::fire_event *)
fun fire_loop ::
  "hook_ctx \<Rightarrow> aggregate_outcome \<Rightarrow> 'u hook_handler list \<Rightarrow> 'u \<Rightarrow> aggregate_outcome \<times> 'u" where
  "fire_loop ctx agg [] u = (agg, u)"
| "fire_loop ctx agg (hook # hooks) u =
    (case hook ctx u of
       (outcome, u') \<Rightarrow>
         (let agg1 = agg \<lparr> agg_ran := agg_ran agg + 1 \<rparr>;
              agg2 = (if outcome = Hook_TimedOut
                      then agg1 \<lparr> agg_timed_out := agg_timed_out agg1 + 1 \<rparr> else agg1) in
          case outcome of
            Hook_Continue \<Rightarrow> fire_loop ctx agg2 hooks u'
          | Hook_TimedOut \<Rightarrow> fire_loop ctx agg2 hooks u'
          | Hook_Replace _ \<Rightarrow> fire_loop ctx (agg2 \<lparr> agg_decision := outcome \<rparr>) hooks u'
          | Hook_Block _ \<Rightarrow> (agg2 \<lparr> agg_decision := outcome \<rparr>, u')
          | Hook_Approve \<Rightarrow> (agg2 \<lparr> agg_decision := outcome \<rparr>, u')
          | Hook_Deny _ \<Rightarrow> (agg2 \<lparr> agg_decision := outcome \<rparr>, u')))"

(* src/crates/aura-plugin-hooks/src/engine.rs:185-253 HookEngine::fire_event *)
definition fire_event :: "'u plugin_hook_host \<Rightarrow> hook_ctx \<Rightarrow> 'u \<Rightarrow> aggregate_outcome \<times> 'u" where
  "fire_event host ctx u =
    (if hooks_is_empty host (hook_ctx_event ctx) then (aggregate_empty, u)
     else fire_loop ctx aggregate_empty (hh_registered host (hook_ctx_event ctx)) u)"

(* src/crates/aura-plugin-hooks/src/host.rs:79-100 PluginHookHost::fire_pre_tool_use *)
definition fire_pre_tool_use ::
  "'u plugin_hook_host \<Rightarrow> string \<Rightarrow> string \<Rightarrow> string \<Rightarrow> 'u \<Rightarrow> aggregate_outcome \<times> 'u" where
  "fire_pre_tool_use host tool_name tool_args tool_use_id u =
    (if hooks_is_empty host HookEvent_PreToolUse then (aggregate_empty, u)
     else fire_event host (Ctx_PreToolUse tool_name tool_args tool_use_id) u)"

(* src/crates/aura-plugin-hooks/src/host.rs:183-203 PluginHookHost::fire_permission_request *)
definition fire_permission_request ::
  "'u plugin_hook_host \<Rightarrow> string \<Rightarrow> string \<Rightarrow> string \<Rightarrow> string \<Rightarrow> 'u \<Rightarrow> aggregate_outcome \<times> 'u" where
  "fire_permission_request host tool_name tool_args risk_level prompt_text u =
    (if hooks_is_empty host HookEvent_PermissionRequest then (aggregate_empty, u)
     else fire_event host (Ctx_PermissionRequest tool_name tool_args risk_level prompt_text) u)"

section \<open>Lemmas\<close>

text \<open>
  The outcomes a chain of handlers produces, each handler run in the world its predecessors left.
\<close>

fun handler_outcomes :: "hook_ctx \<Rightarrow> 'u hook_handler list \<Rightarrow> 'u \<Rightarrow> hook_outcome list" where
  "handler_outcomes ctx [] u = []"
| "handler_outcomes ctx (hook # hooks) u =
    fst (hook ctx u) # handler_outcomes ctx hooks (snd (hook ctx u))"

text \<open>
  The documented rule: the first terminal outcome wins, otherwise the last replacement, otherwise
  the handlers only observed.
\<close>

fun decide_outcomes :: "hook_outcome \<Rightarrow> hook_outcome list \<Rightarrow> hook_outcome" where
  "decide_outcomes d [] = d"
| "decide_outcomes d (out # outs) =
    (if hook_is_terminal out then out
     else decide_outcomes (case out of Hook_Replace _ \<Rightarrow> out | _ \<Rightarrow> d) outs)"

lemma fire_loop_decision:
  "agg_decision (fst (fire_loop ctx agg hooks u)) =
    decide_outcomes (agg_decision agg) (handler_outcomes ctx hooks u)"
proof (induction hooks arbitrary: agg u)
  case (Cons hook hooks)
  then show ?case
    by (cases "hook ctx u"; cases "fst (hook ctx u)") (auto simp: Let_def)
qed simp

lemma decide_outcomes_spec:
  "decide_outcomes d outs =
    (case List.find hook_is_terminal outs of
       Some out \<Rightarrow> out
     | None \<Rightarrow> (case filter (\<lambda>out. \<exists>v. out = Hook_Replace v) outs of
                [] \<Rightarrow> d | rs \<Rightarrow> last rs))"
proof (induction outs arbitrary: d)
  case (Cons out outs)
  then show ?case
    by (cases out) (auto split: list.splits option.splits)
qed simp

lemma fire_event_decision:
  "agg_decision (fst (fire_event host ctx u)) =
    decide_outcomes Hook_Continue (handler_outcomes ctx (hh_registered host (hook_ctx_event ctx)) u)"
  by (simp add: fire_event_def hooks_is_empty_def fire_loop_decision aggregate_empty_def)

section \<open>Properties\<close>

text \<open>
  Firing an event aggregates its handlers by the documented rule.  The decision is
  the first terminal outcome in registration order, otherwise the last replacement, otherwise
  \<open>Continue\<close>.
\<close>

theorem fire_event_aggregates:
  "agg_decision (fst (fire_event host ctx u)) =
    (let outs = handler_outcomes ctx (hh_registered host (hook_ctx_event ctx)) u in
     case List.find hook_is_terminal outs of
       Some out \<Rightarrow> out
     | None \<Rightarrow> (case filter (\<lambda>out. \<exists>v. out = Hook_Replace v) outs of
                [] \<Rightarrow> Hook_Continue | rs \<Rightarrow> last rs))"
  by (simp add: fire_event_decision decide_outcomes_spec Let_def)

end
