(* ===== verification/Kernel.thy ===== *)
theory Kernel
  imports Store_Trait Policy Plugin_Hooks Exec_Traits
begin

text \<open>
  The deterministic kernel of \<open>aura-agent-kernel\<close> (\<open>kernel/\<close>, \<open>context/\<close>): the configuration and
  the state of a kernel bound to one agent, the context hash, sequence numbers and windows, the
  processing of transactions, and the three recorded steps of a tool call with the single and the
  batch flow over them.

  A kernel value holds what is fixed at construction (\<open>kernel\<close>); \<open>kernel_state\<close> holds what its
  methods change: the store, the policy's session grants, the sequence counter, the world \<open>'x\<close> that
  executors act on (with its file system), the world \<open>'u\<close> that prompts, hooks and the audit
  observer act on, and the number of draws made from the clock and the identifier generator.
  Asynchronous calls are run one after the other, so the executors of a batch run in the order in
  which the batch dispatches them.
\<close>

section \<open>Errors\<close>

(* src/crates/aura-core-types/src/error/mod.rs:33-138 Display for AuraError *)
fun aura_error_message :: "(bytes \<Rightarrow> string) \<Rightarrow> aura_error \<Rightarrow> string" where
  "aura_error_message hex (AuraError_Storage m) = ''storage error: '' @ m"
| "aura_error_message hex (AuraError_AgentNotFound a) =
    ''agent not found: '' @ take 16 (hex (agent_id_as_bytes a))"
| "aura_error_message hex (AuraError_RecordEntryNotFound a n) =
    ''record entry not found: agent='' @ take 16 (hex (agent_id_as_bytes a)) @ '', seq='' @ nat_str (unat n)"
| "aura_error_message hex (AuraError_TransactionNotFound h) =
    ''transaction not found: '' @ take 16 (hex (hash_as_bytes h))"
| "aura_error_message hex (AuraError_InboxEmpty a) =
    ''inbox empty for agent: '' @ take 16 (hex (agent_id_as_bytes a))"
| "aura_error_message hex (AuraError_SequenceMismatch e n) =
    ''sequence mismatch: expected '' @ nat_str (unat e) @ '', got '' @ nat_str (unat n)"
| "aura_error_message hex (AuraError_Serialization m) = ''serialization error: '' @ m"
| "aura_error_message hex (AuraError_Deserialization m) = ''deserialization error: '' @ m"
| "aura_error_message hex (AuraError_Kernel m) = ''kernel error: '' @ m"
| "aura_error_message hex (AuraError_PolicyViolation m) = ''policy violation: '' @ m"
| "aura_error_message hex (AuraError_ActionNotAllowed m) = ''action not allowed: '' @ m"
| "aura_error_message hex (AuraError_ToolNotAllowed m) = ''tool not allowed: '' @ m"
| "aura_error_message hex (AuraError_Executor m) = ''executor error: '' @ m"
| "aura_error_message hex (AuraError_ToolExecutionFailed t m) =
    ''tool execution failed: '' @ t @ '', reason: '' @ m"
| "aura_error_message hex (AuraError_ToolTimeout t n) =
    ''tool timeout: '' @ t @ '', timeout_ms: '' @ nat_str (unat n)"
| "aura_error_message hex (AuraError_SandboxViolation m) = ''sandbox violation: '' @ m"
| "aura_error_message hex (AuraError_Reasoner m) = ''reasoner error: '' @ m"
| "aura_error_message hex (AuraError_ReasonerTimeout n) =
    ''reasoner timeout after '' @ nat_str (unat n) @ ''ms''"
| "aura_error_message hex (AuraError_ReasonerUnavailable m) = ''reasoner unavailable: '' @ m"
| "aura_error_message hex (AuraError_Validation m) = ''validation error: '' @ m"
| "aura_error_message hex (AuraError_InvalidTransaction m) = ''invalid transaction: '' @ m"
| "aura_error_message hex (AuraError_InvalidAction a m) =
    ''invalid action: '' @ hex (action_id_as_bytes a) @ '', reason: '' @ m"
| "aura_error_message hex (AuraError_Configuration m) = ''configuration error: '' @ m"
| "aura_error_message hex (AuraError_Internal m) = ''internal error: '' @ m"

(* src/crates/aura-store-db/src/error.rs:12-62 Display for StoreError *)
fun store_error_message :: "(bytes \<Rightarrow> string) \<Rightarrow> store_error \<Rightarrow> string" where
  "store_error_message hex (StoreError_RocksDb m) = ''RocksDB error: '' @ m"
| "store_error_message hex (StoreError_Serialization m) = ''serialization error: '' @ m"
| "store_error_message hex (StoreError_Deserialization m) = ''deserialization error: '' @ m"
| "store_error_message hex (StoreError_AgentNotFound a) =
    ''agent not found: '' @ take 16 (hex (agent_id_as_bytes a))"
| "store_error_message hex (StoreError_RecordEntryNotFound a n) =
    ''record entry not found: agent='' @ take 16 (hex (agent_id_as_bytes a)) @ '', seq='' @ nat_str (unat n)"
| "store_error_message hex (StoreError_TransactionNotFound h) =
    ''transaction not found: '' @ take 16 (hex (hash_as_bytes h))"
| "store_error_message hex (StoreError_InboxEmpty a) =
    ''inbox empty for agent: '' @ take 16 (hex (agent_id_as_bytes a))"
| "store_error_message hex (StoreError_SequenceMismatch e n) =
    ''sequence mismatch: expected '' @ nat_str (unat e) @ '', got '' @ nat_str (unat n)"
| "store_error_message hex (StoreError_ColumnFamilyNotFound m) = ''column family not found: '' @ m"
| "store_error_message hex (StoreError_InvalidKey m) = ''invalid key format: '' @ m"
| "store_error_message hex (StoreError_InboxCorruption a n) =
    ''inbox corruption: agent='' @ take 16 (hex (agent_id_as_bytes a)) @ '', expected seq='' @ nat_str (unat n)"

(* src/crates/aura-agent-kernel/src/replay.rs:79-129 ReplayError *)
datatype replay_error =
    ReplayError_ContextDivergence u64 string string
  | ReplayError_SnapshotMissing u64 string
  | ReplayError_Store u64 string
  | ReplayError_Deserialization u64 string

(* src/crates/aura-model-reasoner/src/types/streaming.rs:172-182 PartialToolUse *)
record partial_tool_use =
  pu_tool_use_id :: string
  pu_tool_name :: string
  pu_partial_json :: string

text \<open>The reasoner's errors, with the contract violation reduced to its message.\<close>

(* src/crates/aura-model-reasoner/src/error.rs:25-112 ReasonerError *)
datatype reasoner_error =
    ReasonerError_RateLimited string "nat option"
  | ReasonerError_InsufficientCredits string
  | ReasonerError_Transient "16 word" string "nat option"
  | ReasonerError_Api "16 word" string
  | ReasonerError_Request string
  | ReasonerError_Timeout
  | ReasonerError_Parse string
  | ReasonerError_StreamAbortedWithPartial string "partial_tool_use option"
  | ReasonerError_ModelRequestContractViolation string
  | ReasonerError_Internal string

(* src/crates/aura-agent-kernel/src/lib.rs:56-88 KernelError *)
datatype kernel_error =
    KernelError_Store string
  | KernelError_Reasoner reasoner_error
  | KernelError_Timeout string
  | KernelError_Serialization string
  | KernelError_Replay replay_error
  | KernelError_Internal string

(* src/crates/aura-agent-kernel/src/kernel/mod.rs:240-249 ToolApprovalError *)
datatype tool_approval_error = Approval_DeliveryFailed | Approval_Cancelled | Approval_Internal string

(* src/crates/aura-agent-kernel/src/kernel/mod.rs:242-249 Display for ToolApprovalError *)
fun tool_approval_error_message :: "tool_approval_error \<Rightarrow> string" where
  "tool_approval_error_message Approval_DeliveryFailed = ''approval prompt could not be delivered''"
| "tool_approval_error_message Approval_Cancelled = ''approval prompt was cancelled''"
| "tool_approval_error_message (Approval_Internal m) = m"

section \<open>Results\<close>

(* src/crates/aura-agent-kernel/src/kernel/mod.rs:202-210 ApprovalRequiredInfo *)
record approval_required_info =
  ari_tool :: string
  ari_prompt :: "pending_tool_prompt option"

(* src/crates/aura-agent-kernel/src/kernel/mod.rs:172-200 ToolOutput *)
record tool_output =
  to_tool_use_id :: string
  to_content :: string
  to_is_error :: bool
  to_kind :: tool_result_kind
  to_approval_required :: "approval_required_info option"
  to_line_diff :: "line_diff option"
  to_image :: "tool_result_image option"

(* src/crates/aura-agent-kernel/src/kernel/mod.rs:223-228 ToolApprovalResponse *)
record tool_approval_response =
  resp_decision :: tool_state
  resp_remember :: tool_approval_remember

(* src/crates/aura-agent-kernel/src/kernel/mod.rs:268-281 PolicyDecisionRef *)
record policy_decision_ref =
  pdr_proposal_seq :: u64
  pdr_proposal_tx_hash :: hash
  pdr_seq :: u64
  pdr_tx_hash :: hash
  pdr_decision :: policy_decision

(* src/crates/aura-agent-kernel/src/kernel/mod.rs:283-305 ToolDecision *)
datatype tool_decision =
    ToolDecision_Allowed
  | ToolDecision_Denied string
  | ToolDecision_NeedsApproval string "pending_tool_prompt option"

(* src/crates/aura-agent-kernel/src/kernel/mod.rs:307-327 ProcessResult *)
record process_result =
  pr_entry :: record_entry
  pr_tool_output :: "tool_output option"
  pr_had_failures :: bool
  pr_runtime_capability_update :: "runtime_capability_install option"
  pr_clear_runtime_capabilities :: bool
  pr_tool_decision :: "tool_decision option"
  pr_policy_decision :: "policy_decision_ref option"

section \<open>Configuration and state\<close>

text \<open>
  The libraries the kernel calls: the codecs, BLAKE3, the hexadecimal printer, the JSON printers,
  the codec of the payload summaries, the clock and the generator of action identifiers (each
  reading is numbered).
\<close>

record kernel_libs =
  kl_serde :: serde_json
  kl_blake3 :: "bytes \<Rightarrow> array32"
  kl_hex :: "bytes \<Rightarrow> string"
  kl_value_string :: "json \<Rightarrow> string"
  kl_to_string :: "json \<Rightarrow> (serde_error, string) result"
  kl_capability_of_value :: "json \<Rightarrow> (serde_error, runtime_capability_install) result"
  kl_payload :: "record_payload codec"
  kl_clock :: "nat \<Rightarrow> u64"
  kl_action_id :: "nat \<Rightarrow> action_id"

(* src/crates/aura-agent-kernel/src/kernel/mod.rs:58-145 KernelConfig *)
record 'u kernel_config =
  kc_record_window_size :: u64
  kc_policy :: policy_config
  kc_workspace_base :: string
  kc_use_workspace_base_as_root :: bool
  kc_replay_from :: "u64 option"
  kc_snapshot_store :: "'u snapshot_ops"
  kc_proposal_timeout_ms :: u64
  kc_tool_timeout_ms :: u64
  kc_tool_approval_prompter ::
    "(pending_tool_prompt \<Rightarrow> ('u, tool_approval_error, tool_approval_response) act) option"
  kc_originating_user_id :: "string option"
  kc_kernel_mode :: kernel_mode
  kc_audited_lite_threshold_bytes :: nat
  kc_plugin_hooks :: "'u plugin_hook_host option"
  kc_tool_audit_observer :: "(record_entry \<Rightarrow> 'u \<Rightarrow> 'u) option"

(* src/crates/aura-agent-kernel/src/kernel/mod.rs:147-166 KernelConfig::default *)
definition kernel_config_default :: "'u kernel_config" where
  "kernel_config_default =
    \<lparr> kc_record_window_size = 50, kc_policy = policy_config_default,
      kc_workspace_base = ''./workspaces'', kc_use_workspace_base_as_root = False,
      kc_replay_from = None, kc_snapshot_store = noop_snapshot_store,
      kc_proposal_timeout_ms = 120000, kc_tool_timeout_ms = 120000,
      kc_tool_approval_prompter = None, kc_originating_user_id = None,
      kc_kernel_mode = KernelMode_Audited,
      kc_audited_lite_threshold_bytes = DEFAULT_SUMMARY_CHUNK_BYTES,
      kc_plugin_hooks = None, kc_tool_audit_observer = None \<rparr>"

(* src/crates/aura-agent-kernel/src/kernel/mod.rs:341-360 Kernel *)
record ('s, 'x, 'u) kernel =
  kn_libs :: kernel_libs
  kn_ops :: "'s store_ops"
  kn_executors :: "'x executor list"
  kn_create_dir_all :: "string \<Rightarrow> ('x, string, unit) act"
  kn_config :: "'u kernel_config"
  kn_agent_id :: agent_id

record ('s, 'x, 'u) kernel_state =
  ks_store :: 's
  ks_policy :: policy
  ks_seq :: u64
  ks_exec :: 'x
  ks_ui :: 'u
  ks_draws :: nat

type_synonym ('s, 'x, 'u, 'a) kernel_act = "(('s, 'x, 'u) kernel_state, kernel_error, 'a) act"

text \<open>A call on one part of the state, and the numbered readings.\<close>

definition on_store ::
  "(store_error \<Rightarrow> kernel_error) \<Rightarrow> ('s, store_error, 'a) act \<Rightarrow> ('s, 'x, 'u, 'a) kernel_act" where
  "on_store f m k = (case m (ks_store k) of (r, s') \<Rightarrow> (res_map_err f r, k \<lparr> ks_store := s' \<rparr>))"

definition on_exec :: "('x \<Rightarrow> 'a \<times> 'x) \<Rightarrow> ('s, 'x, 'u, 'a) kernel_act" where
  "on_exec f k = (case f (ks_exec k) of (a, x') \<Rightarrow> (Inr a, k \<lparr> ks_exec := x' \<rparr>))"

definition on_ui :: "('u \<Rightarrow> 'a \<times> 'u) \<Rightarrow> ('s, 'x, 'u, 'a) kernel_act" where
  "on_ui f k = (case f (ks_ui k) of (a, u') \<Rightarrow> (Inr a, k \<lparr> ks_ui := u' \<rparr>))"

definition on_policy :: "(policy \<Rightarrow> policy) \<Rightarrow> ('s, 'x, 'u, unit) kernel_act" where
  "on_policy f k = (Inr (), k \<lparr> ks_policy := f (ks_policy k) \<rparr>)"

definition get_policy :: "('s, 'x, 'u, policy) kernel_act" where
  "get_policy k = (Inr (ks_policy k), k)"

definition draw :: "(nat \<Rightarrow> 'a) \<Rightarrow> ('s, 'x, 'u, 'a) kernel_act" where
  "draw f k = (Inr (f (ks_draws k)), k \<lparr> ks_draws := Suc (ks_draws k) \<rparr>)"

definition store_fault :: "('s, 'x, 'u) kernel \<Rightarrow> string \<Rightarrow> store_error \<Rightarrow> kernel_error" where
  "store_fault K label e = KernelError_Store (label @ '': '' @ store_error_message (kl_hex (kn_libs K)) e)"

definition saturating_sub :: "u64 \<Rightarrow> u64 \<Rightarrow> u64" where
  "saturating_sub a b = (if a < b then 0 else a - b)"

section \<open>Context hash, sequence numbers and windows\<close>

definition context_hash_bytes :: "context_hash \<Rightarrow> bytes" where
  "context_hash_bytes h = array32_bytes (context_hash_array h)"

(* src/crates/aura-agent-kernel/src/context/mod.rs:7-45 hash_tx_with_window *)
definition hash_tx_with_window ::
  "kernel_libs \<Rightarrow> transaction \<Rightarrow> record_entry list \<Rightarrow> (kernel_error, context_hash) result" where
  "hash_tx_with_window L tx window =
    res_bind (res_map_err (\<lambda>e. KernelError_Serialization (''serialize tx: '' @ serde_message e))
                (to_vec (sj_transaction (kl_serde L)) tx)) (\<lambda>tx_bytes.
      Inr (ContextHash (hasher_finalize (kl_blake3 L)
        (fold (\<lambda>entry h. hasher_update h (context_hash_bytes (re_context_hash entry))) window
          (hasher_update hasher_new tx_bytes)))))"

(* src/crates/aura-agent-kernel/src/kernel/mod.rs:451-463 Kernel::next_seq *)
definition next_seq :: "('s, 'x, 'u) kernel \<Rightarrow> ('s, 'x, 'u, u64) kernel_act" where
  "next_seq K =
    try_then (on_store (store_fault K ''get_head_seq'') (so_get_head_seq (kn_ops K) (kn_agent_id K)))
      (\<lambda>head_seq k. let next = head_seq + 1 in (Inr next, k \<lparr> ks_seq := next + 1 \<rparr>))"

definition path_join :: "string \<Rightarrow> string \<Rightarrow> string" where
  "path_join base name =
    (if base = [] then name
     else if last base = CHR ''/'' then base @ name else base @ ''/'' @ name)"

(* src/crates/aura-agent-kernel/src/kernel/mod.rs:465-473 Kernel::agent_workspace *)
definition agent_workspace :: "('s, 'x, 'u) kernel \<Rightarrow> string" where
  "agent_workspace K =
    (if kc_use_workspace_base_as_root (kn_config K) then kc_workspace_base (kn_config K)
     else path_join (kc_workspace_base (kn_config K))
            (kl_hex (kn_libs K) (agent_id_as_bytes (kn_agent_id K))))"

(* src/crates/aura-agent-kernel/src/kernel/mod.rs:479-487 Kernel::load_window *)
definition load_window :: "('s, 'x, 'u) kernel \<Rightarrow> u64 \<Rightarrow> ('s, 'x, 'u, record_entry list) kernel_act" where
  "load_window K next =
    on_store (store_fault K ''scan_record'')
      (so_scan_record (kn_ops K) (kn_agent_id K)
         (saturating_sub next (kc_record_window_size (kn_config K)))
         (unat (kc_record_window_size (kn_config K))))"

(* src/crates/aura-agent-kernel/src/kernel/mod.rs:489-495 Kernel::load_runtime_capabilities *)
definition load_runtime_capabilities ::
  "('s, 'x, 'u) kernel \<Rightarrow> ('s, 'x, 'u, runtime_capability_install option) kernel_act" where
  "load_runtime_capabilities K =
    on_store (store_fault K ''get_runtime_capabilities'')
      (so_get_runtime_capabilities (kn_ops K) (kn_agent_id K))"

(* src/crates/aura-agent-kernel/src/kernel/mod.rs:503-513 Kernel::lite_payload_threshold *)
definition lite_payload_threshold :: "('s, 'x, 'u) kernel \<Rightarrow> nat option" where
  "lite_payload_threshold K =
    (case kc_kernel_mode (kn_config K) of
       KernelMode_Audited \<Rightarrow> None
     | KernelMode_AuditedLite \<Rightarrow> Some (kc_audited_lite_threshold_bytes (kn_config K)))"

(* src/crates/aura-agent-kernel/src/kernel/mod.rs:515-534 Kernel::encode_payload *)
definition encode_payload :: "('s, 'x, 'u) kernel \<Rightarrow> bytes \<Rightarrow> record_payload" where
  "encode_payload K bs =
    (case kc_kernel_mode (kn_config K) of
       KernelMode_Audited \<Rightarrow> Payload_Inline bs
     | KernelMode_AuditedLite \<Rightarrow>
         summarize_payload (kl_blake3 (kn_libs K)) (kl_hex (kn_libs K)) bs
           (kc_audited_lite_threshold_bytes (kn_config K)))"

section \<open>Processing transactions\<close>

definition plain_result :: "record_entry \<Rightarrow> process_result" where
  "plain_result entry =
    \<lparr> pr_entry = entry, pr_tool_output = None, pr_had_failures = False,
      pr_runtime_capability_update = None, pr_clear_runtime_capabilities = False,
      pr_tool_decision = None, pr_policy_decision = None \<rparr>"

(* src/crates/aura-agent-kernel/src/kernel/process.rs:177-197 Kernel::runtime_capability_update_from_tx *)
definition runtime_capability_update_from_tx ::
  "kernel_libs \<Rightarrow> transaction \<Rightarrow> (serde_error, runtime_capability_install option) result" where
  "runtime_capability_update_from_tx L tx =
    (if tx_type tx \<noteq> TxType_System then Inr None
     else (case from_slice (sj_value (kl_serde L)) (tx_payload tx) of
             Inl _ \<Rightarrow> Inr None
           | Inr payload \<Rightarrow>
              (if Option.bind (json_get payload ''system_kind'') json_as_str = Some ''capability_install''
               then res_bind (kl_capability_of_value L payload) (\<lambda>rc. Inr (Some rc))
               else Inr None)))"

(* src/crates/aura-agent-kernel/src/kernel/process.rs:96-175 Kernel::process_tx *)
definition process_tx ::
  "('s, 'x, 'u) kernel \<Rightarrow> transaction \<Rightarrow> u64 \<Rightarrow> ('s, 'x, 'u, process_result) kernel_act" where
  "process_tx K tx seq =
    try_then (load_window K seq) (\<lambda>window.
    try_then (lift_res (hash_tx_with_window (kn_libs K) tx window)) (\<lambda>ch.
      let entry = (record_entry_builder seq tx) \<lparr> re_context_hash := ch \<rparr> in
      case tx_type tx of
        TxType_SessionStart \<Rightarrow>
          try_then (on_policy clear_session_approvals) (\<lambda>_.
            ok ((plain_result entry) \<lparr> pr_clear_runtime_capabilities := True \<rparr>))
      | TxType_System \<Rightarrow>
          try_then (lift_res (res_map_err
                (\<lambda>e. KernelError_Serialization (''deserialize capability install: '' @ serde_message e))
                (runtime_capability_update_from_tx (kn_libs K) tx))) (\<lambda>update.
            ok ((plain_result entry) \<lparr> pr_runtime_capability_update := update \<rparr>))
      | _ \<Rightarrow> ok (plain_result entry)))"

fun transaction_type_debug :: "transaction_type \<Rightarrow> string" where
  "transaction_type_debug TxType_UserPrompt = ''UserPrompt''"
| "transaction_type_debug TxType_AgentMsg = ''AgentMsg''"
| "transaction_type_debug TxType_Trigger = ''Trigger''"
| "transaction_type_debug TxType_ActionResult = ''ActionResult''"
| "transaction_type_debug TxType_System = ''System''"
| "transaction_type_debug TxType_SessionStart = ''SessionStart''"
| "transaction_type_debug TxType_ToolProposal = ''ToolProposal''"
| "transaction_type_debug TxType_ToolExecution = ''ToolExecution''"
| "transaction_type_debug TxType_PolicyDecision = ''PolicyDecision''"
| "transaction_type_debug TxType_ProcessComplete = ''ProcessComplete''"
| "transaction_type_debug TxType_Reasoning = ''Reasoning''"
| "transaction_type_debug TxType_SubagentSpawn = ''SubagentSpawn''"

(* src/crates/aura-agent-kernel/src/kernel/process.rs:80-94 Kernel::reject_kernel_only *)
definition reject_kernel_only :: "transaction \<Rightarrow> (kernel_error, unit) result" where
  "reject_kernel_only tx =
    (if tx_type tx = TxType_PolicyDecision \<or> tx_type tx = TxType_ToolExecution
     then Inl (KernelError_Internal (transaction_type_debug (tx_type tx)
                 @ '' transactions are written only by the kernel tool pipeline''))
     else Inr ())"

section \<open>Resolving live prompts\<close>

(* src/crates/aura-agent-kernel/src/kernel/tools/shared.rs:18-36 TIMEOUT_EXEMPT_TOOLS, tool_manages_own_timeout *)
definition tool_manages_own_timeout :: "string \<Rightarrow> bool" where
  "tool_manages_own_timeout tool = (tool \<in> {''run_command'', ''task''})"

(* src/crates/aura-agent-kernel/src/kernel/tools/shared.rs:38-51 Kernel::kernel_proposal_from_tool_proposal *)
definition kernel_proposal_from_tool_proposal ::
  "kernel_libs \<Rightarrow> tool_proposal \<Rightarrow> (kernel_error, proposal) result" where
  "kernel_proposal_from_tool_proposal L p =
    res_bind (res_map_err (\<lambda>e. KernelError_Serialization (serde_message e))
                (to_vec (sj_tool_call (kl_serde L)) \<lparr> tc_tool = tp_tool p, tc_args = tp_args p \<rparr>)) (\<lambda>payload.
      Inr \<lparr> pr_action_kind = ActionKind_Delegate, pr_payload = payload, pr_rationale = None \<rparr>)"

(* src/crates/aura-agent-kernel/src/kernel/tools/shared.rs:53-90 Kernel::execute_with_timeout *)
definition execute_with_timeout ::
  "('s, 'x, 'u) kernel \<Rightarrow> execute_context \<Rightarrow> action \<Rightarrow> string \<Rightarrow> ('s, 'x, 'u, effect) kernel_act" where
  "execute_with_timeout K ctx a tool_name =
    (if tool_manages_own_timeout tool_name
     then on_exec (router_execute (kn_executors K) ctx a)
     else try_then (on_exec (router_execute_until (kn_executors K) (kc_tool_timeout_ms (kn_config K)) ctx a))
       (\<lambda>r. case r of
          Some effect \<Rightarrow> ok effect
        | None \<Rightarrow> ok (effect_failed (ac_action_id a) EffectKind_Agreement
            (str_bytes (''Tool timed out after '' @ nat_str (unat (kc_tool_timeout_ms (kn_config K))) @ ''ms'')))))"

(* src/crates/aura-agent-kernel/src/kernel/tools/shared.rs:274-286 fold_tool_state_into_defaults *)
definition fold_tool_state_into_defaults ::
  "user_tool_defaults \<Rightarrow> string \<Rightarrow> tool_state \<Rightarrow> user_tool_defaults" where
  "fold_tool_state_into_defaults defaults tool_name state =
    (let (per_tool, fallback) =
       (case utd_mode defaults of
          UserDefault_FullAccess \<Rightarrow> ([], ToolState_Allow)
        | UserDefault_AutoReview \<Rightarrow> ([], ToolState_Ask)
        | UserDefault_DefaultPermissions per_tool fallback \<Rightarrow> (per_tool, fallback)) in
     \<lparr> utd_mode = UserDefault_DefaultPermissions (btm_insert tool_name state per_tool) fallback \<rparr>)"

(* src/crates/aura-agent-kernel/src/kernel/tools/shared.rs:265-272 remember_label *)
fun remember_label :: "tool_approval_remember \<Rightarrow> string" where
  "remember_label Remember_Once = ''once''"
| "remember_label Remember_Session = ''session''"
| "remember_label Remember_Forever = ''forever''"

(* src/crates/aura-agent-kernel/src/kernel/tools/shared.rs:257-263 Kernel::live_prompt_remember_options *)
definition live_prompt_remember_options :: "('s, 'x, 'u) kernel \<Rightarrow> tool_approval_remember list" where
  "live_prompt_remember_options K =
    [Remember_Once, Remember_Session]
    @ (if kc_originating_user_id (kn_config K) \<noteq> None then [Remember_Forever] else [])"

(* src/crates/aura-agent-kernel/src/kernel/tools/shared.rs:223-255 Kernel::apply_live_approval_response *)
definition apply_live_approval_response ::
  "('s, 'x, 'u) kernel \<Rightarrow> pending_tool_prompt \<Rightarrow> tool_approval_response \<Rightarrow> ('s, 'x, 'u, unit) kernel_act" where
  "apply_live_approval_response K prompt response =
    (let remember = on_policy (\<lambda>P. remember_tool_state_for_session P (ptp_tool_name prompt)
                                     (resp_decision response)) in
     case resp_remember response of
       Remember_Once \<Rightarrow> ok ()
     | Remember_Session \<Rightarrow> remember
     | Remember_Forever \<Rightarrow>
        (case kc_originating_user_id (kn_config K) of
           None \<Rightarrow> err (KernelError_Internal (''cannot remember tool '' @ quoted (ptp_tool_name prompt)
                      @ '' forever without an originating user id''))
         | Some user_id \<Rightarrow>
             try_then (on_store (store_fault K ''put_user_tool_defaults'')
                 (so_put_user_tool_defaults (kn_ops K) user_id
                    (fold_tool_state_into_defaults (cfg_user_default (kc_policy (kn_config K)))
                       (ptp_tool_name prompt) (resp_decision response)))) (\<lambda>_. remember)))"

text \<open>
  The permission hook is fired before the prompter; an approval or a denial of the hook decides,
  any other outcome falls through.
\<close>

fun hook_verdict :: "hook_outcome \<Rightarrow> (policy_verdict \<times> string) option" where
  "hook_verdict Hook_Approve = Some (Verdict_Allow, ''approve'')"
| "hook_verdict (Hook_Deny reason) = Some (Verdict_Deny reason, ''deny'')"
| "hook_verdict Hook_Continue = None"
| "hook_verdict Hook_TimedOut = None"
| "hook_verdict (Hook_Block _) = None"
| "hook_verdict (Hook_Replace _) = None"

definition args_text :: "kernel_libs \<Rightarrow> json \<Rightarrow> string" where
  "args_text L args = (case kl_to_string L args of Inr s \<Rightarrow> s | Inl _ \<Rightarrow> [])"

(* src/crates/aura-agent-kernel/src/kernel/tools/shared.rs:149-180 Kernel::resolve_prompt *)
definition ask_permission_hook ::
  "('s, 'x, 'u) kernel \<Rightarrow> pending_tool_prompt \<Rightarrow> string \<Rightarrow>
   ('s, 'x, 'u, (policy_verdict \<times> string) option) kernel_act" where
  "ask_permission_hook K prompt reason =
    (case kc_plugin_hooks (kn_config K) of
       None \<Rightarrow> ok None
     | Some host \<Rightarrow>
         try_then (on_ui (fire_permission_request host (ptp_tool_name prompt)
             (args_text (kn_libs K) (ptp_args prompt)) ''ask'' reason)) (\<lambda>outcome.
           ok (hook_verdict (agg_decision outcome))))"

(* src/crates/aura-agent-kernel/src/kernel/tools/shared.rs:182-221 Kernel::resolve_prompt *)
definition ask_prompter ::
  "('s, 'x, 'u) kernel \<Rightarrow> policy_evaluation \<Rightarrow> pending_tool_prompt \<Rightarrow> string \<Rightarrow>
   ('s, 'x, 'u, policy_evaluation) kernel_act" where
  "ask_prompter K ev prompt reason =
    (case kc_tool_approval_prompter (kn_config K) of
       None \<Rightarrow>
         ok (evaluation_decide ev (Verdict_Deny reason)
               \<lparr> rule_source = PolicySource_NoLiveSession, rule_rule = ''no_prompter'' \<rparr>)
     | Some prompter \<Rightarrow>
         try_then (try_then (on_ui (prompter prompt)) (\<lambda>r. lift_res (res_map_err
             (\<lambda>e. KernelError_Internal (''tool approval prompt failed for '' @ quoted (ptp_tool_name prompt)
                    @ '': '' @ tool_approval_error_message e)) r))) (\<lambda>response.
         try_then (apply_live_approval_response K prompt response) (\<lambda>_.
           ok (evaluation_decide
             (ev \<lparr> ev_approval := Some
                \<lparr> pa_approver = Approver_User (kc_originating_user_id (kn_config K)),
                  pa_remember = Some (remember_label (resp_remember response)),
                  pa_request_id = Some (ptp_request_id prompt) \<rparr> \<rparr>)
             (case resp_decision response of
                ToolState_Allow \<Rightarrow> Verdict_Allow
              | ToolState_Deny \<Rightarrow> Verdict_Deny (''Tool '' @ quoted (ptp_tool_name prompt)
                                   @ '' was denied by the user'')
              | ToolState_Ask \<Rightarrow> Verdict_RequireApproval reason (Some prompt))
             \<lparr> rule_source = PolicySource_User,
               rule_rule = tool_state_label (resp_decision response) \<rparr>))))"

(* src/crates/aura-agent-kernel/src/kernel/tools/shared.rs:133-221 Kernel::resolve_prompt *)
definition resolve_prompt ::
  "('s, 'x, 'u) kernel \<Rightarrow> policy_evaluation \<Rightarrow> ('s, 'x, 'u, policy_evaluation) kernel_act" where
  "resolve_prompt K ev =
    (case ev_verdict ev of
       Verdict_RequireApproval reason (Some prompt) \<Rightarrow>
         try_then (ask_permission_hook K prompt reason) (\<lambda>hook.
           case hook of
             Some (verdict, rule) \<Rightarrow>
               ok ((evaluation_decide ev verdict
                      \<lparr> rule_source = PolicySource_PermissionHook, rule_rule = rule \<rparr>)
                   \<lparr> ev_approval := Some \<lparr> pa_approver = Approver_Hook, pa_remember = None,
                                            pa_request_id = Some (ptp_request_id prompt) \<rparr> \<rparr>)
           | None \<Rightarrow> ask_prompter K ev prompt reason)
     | _ \<Rightarrow> ok ev)"

(* src/crates/aura-agent-kernel/src/kernel/tools/shared.rs:92-131 Kernel::resolve_live_ask *)
definition resolve_live_ask ::
  "('s, 'x, 'u) kernel \<Rightarrow> string \<Rightarrow> json \<Rightarrow> string \<Rightarrow> policy_evaluation \<Rightarrow>
   ('s, 'x, 'u, policy_evaluation) kernel_act" where
  "resolve_live_ask K tool_name args tool_use_id ev =
    try_then get_policy (\<lambda>P.
      let ask_without_prompt =
            (case ev_verdict ev of Verdict_RequireApproval _ None \<Rightarrow> True | _ \<Rightarrow> False) in
      if (case ev_verdict ev of Verdict_Deny _ \<Rightarrow> True | _ \<Rightarrow> False) then ok ev
      else if ask_without_prompt \<and> resolve_tool_state P tool_name \<noteq> ToolState_Ask then ok ev
      else if verdict_is_allowed (ev_verdict ev) \<or> ask_without_prompt
      then (case live_tool_prompt_explained P tool_name args (kn_agent_id K)
                   (kl_hex (kn_libs K) (agent_id_as_bytes (kn_agent_id K)) @ '':'' @ tool_use_id)
                   (kc_tool_approval_prompter (kn_config K) \<noteq> None) (live_prompt_remember_options K) of
              Some (verdict, rule) \<Rightarrow> resolve_prompt K (evaluation_decide ev verdict rule)
            | None \<Rightarrow> ok ev)
      else ok ev)"

(* src/crates/aura-agent-kernel/src/kernel/tools/shared.rs:288-309 maybe_summarise_effect_payload *)
definition maybe_summarise_effect_payload :: "kernel_libs \<Rightarrow> effect \<Rightarrow> nat option \<Rightarrow> effect" where
  "maybe_summarise_effect_payload L e lite_threshold =
    (case lite_threshold of
       None \<Rightarrow> e
     | Some threshold \<Rightarrow>
         (if threshold < length (ef_payload e)
          then e \<lparr> ef_payload :=
            (case to_vec (kl_payload L)
                    (summarize_payload (kl_blake3 L) (kl_hex L) (ef_payload e) threshold) of
               Inr encoded \<Rightarrow> encoded
             | Inl _ \<Rightarrow> ef_payload e) \<rparr>
          else e))"

section \<open>The recorded steps of a tool call\<close>

(* src/crates/aura-agent-kernel/src/kernel/tools/steps.rs:27-35 Authorized *)
record authorized =
  au_proposal :: tool_proposal
  au_evaluation :: policy_evaluation
  au_action :: "action option"
  au_decision_entry :: record_entry
  au_decision_ref :: policy_decision_ref

(* src/crates/aura-agent-kernel/src/kernel/tools/steps.rs:37-42 Executed *)
record executed =
  exd_entry :: record_entry
  exd_decoded :: decoded_tool_result
  exd_had_failures :: bool

definition notify_observer :: "('s, 'x, 'u) kernel \<Rightarrow> record_entry \<Rightarrow> ('s, 'x, 'u, unit) kernel_act" where
  "notify_observer K entry =
    (case kc_tool_audit_observer (kn_config K) of
       None \<Rightarrow> ok ()
     | Some on_tool_entry \<Rightarrow> on_ui (\<lambda>u. ((), on_tool_entry entry u)))"

(* src/crates/aura-agent-kernel/src/kernel/tools/steps.rs:45-69 Kernel::append_tool_entry *)
definition append_tool_entry ::
  "('s, 'x, 'u) kernel \<Rightarrow> transaction \<Rightarrow> (record_entry \<Rightarrow> record_entry) \<Rightarrow> dequeue_token option \<Rightarrow>
   ('s, 'x, 'u, record_entry) kernel_act" where
  "append_tool_entry K tx fill token =
    try_then (next_seq K) (\<lambda>seq.
    try_then (load_window K seq) (\<lambda>window.
    try_then (lift_res (hash_tx_with_window (kn_libs K) tx window)) (\<lambda>ch.
      let entry = fill ((record_entry_builder seq tx) \<lparr> re_context_hash := ch \<rparr>) in
      try_then (case token of
          Some t \<Rightarrow> on_store (store_fault K ''append_entry_dequeued'')
                      (so_append_entry_dequeued (kn_ops K) (kn_agent_id K) seq entry t)
        | None \<Rightarrow> on_store (store_fault K ''append_entry_direct'')
                    (so_append_entry_direct (kn_ops K) (kn_agent_id K) seq entry)) (\<lambda>_.
      try_then (notify_observer K entry) (\<lambda>_. ok entry)))))"

(* src/crates/aura-agent-kernel/src/kernel/tools/steps.rs:71-78 Kernel::record_tool_proposal *)
definition record_tool_proposal ::
  "('s, 'x, 'u) kernel \<Rightarrow> transaction \<Rightarrow> dequeue_token option \<Rightarrow> ('s, 'x, 'u, record_entry) kernel_act" where
  "record_tool_proposal K tx token = append_tool_entry K tx (\<lambda>builder. builder) token"

(* src/crates/aura-agent-kernel/src/kernel/tools/steps.rs:270-274 denial_reason *)
definition denial_reason :: "policy_verdict \<Rightarrow> string" where
  "denial_reason v = (case verdict_reason v of None \<Rightarrow> ''Policy denied'' | Some r \<Rightarrow> r)"

(* src/crates/aura-agent-kernel/src/kernel/tools/steps.rs:276-282 gate_verdict *)
fun gate_verdict :: "policy_verdict \<Rightarrow> tool_gate_verdict" where
  "gate_verdict Verdict_Allow = Gate_Approved"
| "gate_verdict (Verdict_RequireApproval _ _) = Gate_PendingApproval"
| "gate_verdict (Verdict_Deny _) = Gate_Denied"

(* src/crates/aura-agent-kernel/src/kernel/tools/steps.rs:110-121 Kernel::authorize_tool_proposal *)
definition policy_decision_of ::
  "('s, 'x, 'u) kernel \<Rightarrow> policy \<Rightarrow> tool_proposal \<Rightarrow> policy_evaluation \<Rightarrow> action option \<Rightarrow> policy_decision" where
  "policy_decision_of K P p ev act1 =
    \<lparr> pd_tool_use_id = tp_tool_use_id p, pd_tool = tp_tool p, pd_verdict = gate_verdict (ev_verdict ev),
      pd_reason = verdict_reason (ev_verdict ev), pd_decided_by = ev_decided_by ev,
      pd_trace = ev_trace ev, pd_approval = ev_approval ev,
      pd_mode = mode_label (cfg_mode (pol_config P)), pd_policy_hash = pol_snapshot_hash P,
      pd_action_id = map_option (\<lambda>a. kl_hex (kn_libs K) (action_id_as_bytes (ac_action_id a))) act1 \<rparr>"

text \<open>
  Authorising a proposal has two halves: the policy and the live prompt decide and an approved
  call gets its action; then the decision is recorded.
\<close>

(* src/crates/aura-agent-kernel/src/kernel/tools/steps.rs:88-108 Kernel::authorize_tool_proposal *)
definition gate_tool_proposal ::
  "('s, 'x, 'u) kernel \<Rightarrow> tool_proposal \<Rightarrow> runtime_capability_install option \<Rightarrow>
   ('s, 'x, 'u, proposal \<times> policy_evaluation \<times> action option) kernel_act" where
  "gate_tool_proposal K p rc =
    try_then (lift_res (kernel_proposal_from_tool_proposal (kn_libs K) p)) (\<lambda>kernel_proposal.
    try_then get_policy (\<lambda>P.
    try_then (resolve_live_ask K (tp_tool p) (tp_args p) (tp_tool_use_id p)
        (evaluate_proposal (kl_serde (kn_libs K)) P kernel_proposal rc)) (\<lambda>ev.
      if verdict_is_allowed (ev_verdict ev)
      then try_then (draw (kl_action_id (kn_libs K))) (\<lambda>i.
        ok (kernel_proposal, ev,
            Some \<lparr> ac_action_id = i, ac_kind = ActionKind_Delegate,
                   ac_payload = pr_payload kernel_proposal \<rparr>))
      else ok (kernel_proposal, ev, None))))"

(* src/crates/aura-agent-kernel/src/kernel/tools/steps.rs:110-151 Kernel::authorize_tool_proposal *)
definition record_policy_decision ::
  "('s, 'x, 'u) kernel \<Rightarrow> tool_proposal \<Rightarrow> record_entry \<Rightarrow> proposal \<times> policy_evaluation \<times> action option \<Rightarrow>
   ('s, 'x, 'u, authorized) kernel_act" where
  "record_policy_decision K p proposal_entry gated =
    (case gated of (kernel_proposal, ev, act1) \<Rightarrow>
     try_then get_policy (\<lambda>P.
     try_then (draw (kl_clock (kn_libs K))) (\<lambda>now.
     let decision1 = policy_decision_of K P p ev act1;
         kernel_decision = (case act1 of
            Some a \<Rightarrow> decision_accept decision_new (ac_action_id a)
          | None \<Rightarrow> decision_reject decision_new 0 (denial_reason (ev_verdict ev))) in
     try_then (lift_res (res_map_err
         (\<lambda>e. KernelError_Serialization (aura_error_message (kl_hex (kn_libs K)) e))
         (tx_policy_decision (kl_serde (kn_libs K)) (kl_blake3 (kn_libs K)) now (kn_agent_id K)
            decision1 (tx_hash (re_tx proposal_entry))))) (\<lambda>tx.
     try_then (append_tool_entry K tx
         (\<lambda>builder. builder \<lparr> re_proposals := with_proposals [kernel_proposal],
                             re_decision := kernel_decision \<rparr>) None) (\<lambda>decision_entry.
       ok \<lparr> au_proposal = p, au_evaluation = ev, au_action = act1,
            au_decision_entry = decision_entry,
            au_decision_ref =
              \<lparr> pdr_proposal_seq = re_seq proposal_entry, pdr_proposal_tx_hash = tx_hash (re_tx proposal_entry),
                pdr_seq = re_seq decision_entry, pdr_tx_hash = tx_hash (re_tx decision_entry),
                pdr_decision = decision1 \<rparr> \<rparr>)))))"

(* src/crates/aura-agent-kernel/src/kernel/tools/steps.rs:80-151 Kernel::authorize_tool_proposal *)
definition authorize_tool_proposal ::
  "('s, 'x, 'u) kernel \<Rightarrow> tool_proposal \<Rightarrow> record_entry \<Rightarrow> runtime_capability_install option \<Rightarrow>
   ('s, 'x, 'u, authorized) kernel_act" where
  "authorize_tool_proposal K p proposal_entry rc =
    try_then (gate_tool_proposal K p rc) (record_policy_decision K p proposal_entry)"

(* src/crates/aura-agent-kernel/src/kernel/tools/steps.rs:153-191 Kernel::record_tool_execution *)
definition record_tool_execution ::
  "('s, 'x, 'u) kernel \<Rightarrow> authorized \<Rightarrow> action \<Rightarrow> effect \<Rightarrow> ('s, 'x, 'u, executed) kernel_act" where
  "record_tool_execution K au act1 effect0 =
    (let effect1 = maybe_summarise_effect_payload (kn_libs K) effect0 (lite_payload_threshold K);
         decoded = decode_tool_effect (kl_serde (kn_libs K)) (kl_value_string (kn_libs K)) effect1;
         had_failures = (ef_status effect1 = EffectStatus_Failed \<or> dt_is_error decoded);
         execution =
           \<lparr> te_tool_use_id = tp_tool_use_id (au_proposal au), te_tool = tp_tool (au_proposal au),
             te_args = tp_args (au_proposal au), te_decision = Gate_Approved, te_reason = None,
             te_result = None, te_is_error = had_failures, te_parent_agent_id = kn_agent_id K,
             te_originating_user_id =
               (case kc_originating_user_id (kn_config K) of Some u \<Rightarrow> u | None \<Rightarrow> []) \<rparr> in
     try_then (draw (kl_clock (kn_libs K))) (\<lambda>now.
     try_then (lift_res (res_map_err
        (\<lambda>e. KernelError_Serialization (aura_error_message (kl_hex (kn_libs K)) e))
        (tx_tool_execution_for_decision (kl_serde (kn_libs K)) (kl_blake3 (kn_libs K)) now (kn_agent_id K)
           execution (tx_hash (re_tx (au_decision_entry au)))))) (\<lambda>tx.
     try_then (append_tool_entry K tx
        (\<lambda>builder. builder \<lparr> re_actions := [act1], re_effects := [effect1] \<rparr>) None) (\<lambda>entry.
       ok \<lparr> exd_entry = entry, exd_decoded = decoded, exd_had_failures = had_failures \<rparr>))))"

(* src/crates/aura-agent-kernel/src/kernel/tools/steps.rs:194-268 finish_tool_call *)
definition finish_tool_call :: "authorized \<Rightarrow> executed option \<Rightarrow> process_result" where
  "finish_tool_call au ex =
    (case ex of
       Some e \<Rightarrow>
         \<lparr> pr_entry = exd_entry e,
           pr_tool_output = Some
             \<lparr> to_tool_use_id = tp_tool_use_id (au_proposal au), to_content = dt_content (exd_decoded e),
               to_is_error = exd_had_failures e, to_kind = dt_kind (exd_decoded e),
               to_approval_required = None, to_line_diff = dt_line_diff (exd_decoded e),
               to_image = (if exd_had_failures e then None else dt_image (exd_decoded e)) \<rparr>,
           pr_had_failures = exd_had_failures e, pr_runtime_capability_update = None,
           pr_clear_runtime_capabilities = False, pr_tool_decision = Some ToolDecision_Allowed,
           pr_policy_decision = Some (au_decision_ref au) \<rparr>
     | None \<Rightarrow>
         (let verdict = ev_verdict (au_evaluation au);
              reason = denial_reason verdict;
              (approval_required, decision1) = (case verdict of
                  Verdict_RequireApproval _ prompt \<Rightarrow>
                    (Some \<lparr> ari_tool = tp_tool (au_proposal au), ari_prompt = prompt \<rparr>,
                     ToolDecision_NeedsApproval reason prompt)
                | _ \<Rightarrow> (None, ToolDecision_Denied reason)) in
          \<lparr> pr_entry = au_decision_entry au,
            pr_tool_output = Some
              \<lparr> to_tool_use_id = tp_tool_use_id (au_proposal au), to_content = reason,
                to_is_error = True, to_kind = ResultKind_AgentError,
                to_approval_required = approval_required, to_line_diff = None, to_image = None \<rparr>,
            pr_had_failures = False, pr_runtime_capability_update = None,
            pr_clear_runtime_capabilities = False, pr_tool_decision = Some decision1,
            pr_policy_decision = Some (au_decision_ref au) \<rparr>))"

section \<open>The two flows\<close>

(* src/crates/aura-agent-kernel/src/kernel/tools/single.rs:79-125 fire_pre_tool_use_and_maybe_block *)
definition fire_pre_tool_use_and_maybe_block ::
  "('s, 'x, 'u) kernel \<Rightarrow> 'u plugin_hook_host \<Rightarrow> tool_proposal \<Rightarrow> action_id \<Rightarrow>
   ('s, 'x, 'u, effect option) kernel_act" where
  "fire_pre_tool_use_and_maybe_block K host p action_id =
    (if hooks_is_empty host HookEvent_PreToolUse then ok None
     else
       try_then (on_ui (fire_pre_tool_use host (tp_tool p) (args_text (kn_libs K) (tp_args p))
           (tp_tool_use_id p))) (\<lambda>outcome.
         case agg_decision outcome of
           Hook_Block reason \<Rightarrow>
             try_then (lift_res (res_map_err
                 (\<lambda>e. KernelError_Serialization (''block payload: '' @ serde_message e))
                 (to_vec (sj_value (kl_serde (kn_libs K)))
                    (J_Object [(''kind'', J_String ''tool_call_blocked_by_hook''),
                               (''reason'', J_String reason),
                               (''tool_name'', J_String (tp_tool p)),
                               (''tool_use_id'', J_String (tp_tool_use_id p))])))) (\<lambda>bs.
               ok (Some (effect_failed action_id EffectKind_Agreement bs)))
         | _ \<Rightarrow> ok None))"

definition create_workspace :: "('s, 'x, 'u) kernel \<Rightarrow> ('s, 'x, 'u, unit) kernel_act" where
  "create_workspace K =
    try_then (on_exec (kn_create_dir_all K (agent_workspace K))) (\<lambda>r.
      lift_res (res_map_err (\<lambda>e. KernelError_Internal (''create workspace: '' @ e)) r))"

definition maybe_block ::
  "('s, 'x, 'u) kernel \<Rightarrow> tool_proposal \<Rightarrow> action_id \<Rightarrow> ('s, 'x, 'u, effect option) kernel_act" where
  "maybe_block K p action_id =
    (case kc_plugin_hooks (kn_config K) of
       Some host \<Rightarrow> fire_pre_tool_use_and_maybe_block K host p action_id
     | None \<Rightarrow> ok None)"

(* src/crates/aura-agent-kernel/src/kernel/tools/single.rs:41-71 process_one *)
definition dispatch_approved ::
  "('s, 'x, 'u) kernel \<Rightarrow> authorized \<Rightarrow> action \<Rightarrow> ('s, 'x, 'u, effect) kernel_act" where
  "dispatch_approved K au act1 =
    try_then (maybe_block K (au_proposal au) (ac_action_id act1)) (\<lambda>blocked.
      case blocked of
        Some effect0 \<Rightarrow> ok effect0
      | None \<Rightarrow>
          try_then (create_workspace K) (\<lambda>_.
            execute_with_timeout K
              (with_tool_use_id (execute_context_new (kn_agent_id K) (ac_action_id act1)
                 (agent_workspace K)) (tp_tool_use_id (au_proposal au)))
              act1 (tp_tool (au_proposal au))))"

(* src/crates/aura-agent-kernel/src/kernel/tools/single.rs:26-77 process_one *)
definition process_one ::
  "('s, 'x, 'u) kernel \<Rightarrow> transaction \<Rightarrow> dequeue_token option \<Rightarrow> ('s, 'x, 'u, process_result) kernel_act" where
  "process_one K tx token =
    try_then (lift_res (res_map_err
        (\<lambda>e. KernelError_Serialization (''deserialize ToolProposal: '' @ serde_message e))
        (from_slice (sj_tool_proposal (kl_serde (kn_libs K))) (tx_payload tx)))) (\<lambda>p.
    try_then (load_runtime_capabilities K) (\<lambda>rc.
    try_then (record_tool_proposal K tx token) (\<lambda>proposal_entry.
    try_then (authorize_tool_proposal K p proposal_entry rc) (\<lambda>au.
      case au_action au of
        None \<Rightarrow> ok (finish_tool_call au None)
      | Some act1 \<Rightarrow>
          try_then (dispatch_approved K au act1) (\<lambda>effect0.
          try_then (record_tool_execution K au act1 effect0) (\<lambda>ex.
            ok (finish_tool_call au (Some ex))))))))"

(* src/crates/aura-agent-kernel/src/kernel/tools/mod.rs:35-42 Kernel::process_tool_proposal *)
definition process_tool_proposal ::
  "('s, 'x, 'u) kernel \<Rightarrow> transaction \<Rightarrow> dequeue_token option \<Rightarrow> ('s, 'x, 'u, process_result) kernel_act" where
  "process_tool_proposal K tx token = process_one K tx token"

(* src/crates/aura-agent-kernel/src/kernel/process.rs:18-46 Kernel::process_direct *)
definition process_direct ::
  "('s, 'x, 'u) kernel \<Rightarrow> transaction \<Rightarrow> ('s, 'x, 'u, process_result) kernel_act" where
  "process_direct K tx =
    try_then (lift_res (reject_kernel_only tx)) (\<lambda>_.
      if tx_type tx = TxType_ToolProposal then process_tool_proposal K tx None
      else
        try_then (next_seq K) (\<lambda>seq.
        try_then (process_tx K tx seq) (\<lambda>result.
        try_then (on_store (store_fault K ''append_entry_direct_with_runtime_capabilities'')
            (so_append_entry_direct_with_runtime_capabilities (kn_ops K) (kn_agent_id K) seq
               (pr_entry result) (pr_runtime_capability_update result)
               (pr_clear_runtime_capabilities result))) (\<lambda>_.
          ok result))))"

(* src/crates/aura-agent-kernel/src/kernel/process.rs:48-78 Kernel::process_dequeued *)
definition process_dequeued ::
  "('s, 'x, 'u) kernel \<Rightarrow> transaction \<Rightarrow> dequeue_token \<Rightarrow> ('s, 'x, 'u, process_result) kernel_act" where
  "process_dequeued K tx token =
    try_then (lift_res (reject_kernel_only tx)) (\<lambda>_.
      if tx_type tx = TxType_ToolProposal then process_tool_proposal K tx (Some token)
      else
        try_then (next_seq K) (\<lambda>seq.
        try_then (process_tx K tx seq) (\<lambda>result.
        try_then (on_store (store_fault K ''append_entry_dequeued_with_runtime_capabilities'')
            (so_append_entry_dequeued_with_runtime_capabilities (kn_ops K) (kn_agent_id K) seq
               (pr_entry result) token (pr_runtime_capability_update result)
               (pr_clear_runtime_capabilities result))) (\<lambda>_.
          ok result))))"

text \<open>
  The loops of the batch flow, over the proposals and over the authorised slots.  The panic of an
  approved slot without an effect is an error value here; \<open>Kernel_Audit\<close> shows it is never reached.
\<close>

(* src/crates/aura-agent-kernel/src/kernel/tools/batch.rs:24-36 process_many *)
primrec authorize_all ::
  "('s, 'x, 'u) kernel \<Rightarrow> runtime_capability_install option \<Rightarrow> tool_proposal list \<Rightarrow>
   ('s, 'x, 'u, authorized list) kernel_act" where
  "authorize_all K rc [] = ok []"
| "authorize_all K rc (p # ps) =
    try_then (draw (kl_clock (kn_libs K))) (\<lambda>now.
    try_then (lift_res (res_map_err
        (\<lambda>e. KernelError_Serialization (aura_error_message (kl_hex (kn_libs K)) e))
        (tx_tool_proposal (kl_serde (kn_libs K)) (kl_blake3 (kn_libs K)) now (kn_agent_id K) p))) (\<lambda>tx.
    try_then (record_tool_proposal K tx None) (\<lambda>proposal_entry.
    try_then (authorize_tool_proposal K p proposal_entry rc) (\<lambda>au.
    try_then (authorize_all K rc ps) (\<lambda>aus. ok (au # aus))))))"

datatype batch_slot =
    Slot_Denied
  | Slot_Blocked effect
  | Slot_Dispatch execute_context action string

(* src/crates/aura-agent-kernel/src/kernel/tools/batch.rs:55-82 process_many *)
primrec plan_slots ::
  "('s, 'x, 'u) kernel \<Rightarrow> authorized list \<Rightarrow> ('s, 'x, 'u, batch_slot list) kernel_act" where
  "plan_slots K [] = ok []"
| "plan_slots K (au # aus) =
    try_then (case au_action au of
        None \<Rightarrow> ok Slot_Denied
      | Some act1 \<Rightarrow>
          try_then (maybe_block K (au_proposal au) (ac_action_id act1)) (\<lambda>blocked.
            case blocked of
              Some effect0 \<Rightarrow> ok (Slot_Blocked effect0)
            | None \<Rightarrow> ok (Slot_Dispatch
                (with_tool_use_id (execute_context_new (kn_agent_id K) (ac_action_id act1)
                   (agent_workspace K)) (tp_tool_use_id (au_proposal au)))
                act1 (tp_tool (au_proposal au))))) (\<lambda>slot.
    try_then (plan_slots K aus) (\<lambda>slots. ok (slot # slots)))"

(* src/crates/aura-agent-kernel/src/kernel/tools/batch.rs:83-92 process_many *)
primrec dispatch_slots ::
  "('s, 'x, 'u) kernel \<Rightarrow> batch_slot list \<Rightarrow> ('s, 'x, 'u, effect option list) kernel_act" where
  "dispatch_slots K [] = ok []"
| "dispatch_slots K (slot # slots) =
    try_then (case slot of
        Slot_Denied \<Rightarrow> ok None
      | Slot_Blocked effect0 \<Rightarrow> ok (Some effect0)
      | Slot_Dispatch ctx act1 tool \<Rightarrow>
          try_then (execute_with_timeout K ctx act1 tool) (\<lambda>effect0. ok (Some effect0))) (\<lambda>r.
    try_then (dispatch_slots K slots) (\<lambda>rs. ok (r # rs)))"

(* src/crates/aura-agent-kernel/src/kernel/tools/batch.rs:94-106 process_many *)
primrec record_slots ::
  "('s, 'x, 'u) kernel \<Rightarrow> (authorized \<times> effect option) list \<Rightarrow> ('s, 'x, 'u, process_result list) kernel_act" where
  "record_slots K [] = ok []"
| "record_slots K (slot # slots) =
    try_then (case au_action (fst slot) of
        Some act1 \<Rightarrow>
          (case snd slot of
             Some effect0 \<Rightarrow> try_then (record_tool_execution K (fst slot) act1 effect0) (\<lambda>ex. ok (Some ex))
           | None \<Rightarrow> err (KernelError_Internal ''allowed verdict must have produced an effect''))
      | None \<Rightarrow> ok None) (\<lambda>ex.
    try_then (record_slots K slots) (\<lambda>results. ok (finish_tool_call (fst slot) ex # results)))"

(* src/crates/aura-agent-kernel/src/kernel/tools/batch.rs:16-106 process_many *)
definition process_many ::
  "('s, 'x, 'u) kernel \<Rightarrow> tool_proposal list \<Rightarrow> ('s, 'x, 'u, process_result list) kernel_act" where
  "process_many K ps =
    (if ps = [] then ok []
     else
       try_then (load_runtime_capabilities K) (\<lambda>rc.
       try_then (authorize_all K rc ps) (\<lambda>aus.
       try_then (create_workspace K) (\<lambda>_.
       try_then (plan_slots K aus) (\<lambda>slots.
       try_then (dispatch_slots K slots) (\<lambda>effects.
         record_slots K (zip aus effects)))))))"

end
