(* ===== verification/Kernel_Audit.thy ===== *)
theory Kernel_Audit
  imports Kernel
begin

text \<open>
  What the kernel writes.  The abstract specification is an audit log: each entry carries the
  next sequence number and the context hash of the window before it, a policy decision refers to
  an earlier proposal, and an execution refers to an earlier decision that approved its action.
  The locale \<open>kernel_log\<close> takes a kernel over any store that meets \<open>log_store\<close>, follows each
  operation of the kernel through the log, and shows that all of them keep the log an audit log,
  on success and on every error.
\<close>

section \<open>Audit logs\<close>

definition window_of :: "u64 \<Rightarrow> record_entry list \<Rightarrow> record_entry list" where
  "window_of W es = drop (length es - unat W) es"

definition entry_type :: "record_entry \<Rightarrow> transaction_type" where
  "entry_type e = tx_type (re_tx e)"

text \<open>The entry is a recorded policy decision that approved the action.\<close>

definition approves :: "kernel_libs \<Rightarrow> record_entry \<Rightarrow> action_id \<Rightarrow> bool" where
  "approves L d i =
    (entry_type d = TxType_PolicyDecision
     \<and> i \<in> set (dc_accepted_action_ids (re_decision d))
     \<and> (case from_slice (sj_policy_decision (kl_serde L)) (tx_payload (re_tx d)) of
          Inr pd \<Rightarrow> pd_verdict pd = Gate_Approved | Inl _ \<Rightarrow> False))"

definition linked :: "kernel_libs \<Rightarrow> record_entry list \<Rightarrow> record_entry \<Rightarrow> bool" where
  "linked L es e =
    ((entry_type e = TxType_PolicyDecision \<longrightarrow>
        list_ex (\<lambda>p. entry_type p = TxType_ToolProposal \<and> tx_reference (re_tx e) = Some (tx_hash (re_tx p))) es)
     \<and> (entry_type e = TxType_ToolExecution \<longrightarrow>
        list_ex (\<lambda>d. tx_reference (re_tx e) = Some (tx_hash (re_tx d))
                    \<and> list_all (\<lambda>a. approves L d (ac_action_id a)) (re_actions e)) es
        \<and> re_actions e \<noteq> []))"

definition audit_entry :: "kernel_libs \<Rightarrow> u64 \<Rightarrow> record_entry list \<Rightarrow> record_entry \<Rightarrow> bool" where
  "audit_entry L W es e =
    (re_seq e = of_nat (Suc (length es))
     \<and> hash_tx_with_window L (re_tx e) (window_of W es) = Inr (re_context_hash e)
     \<and> linked L es e)"

definition audit_log :: "kernel_libs \<Rightarrow> u64 \<Rightarrow> record_entry list \<Rightarrow> bool" where
  "audit_log L W es = (\<forall>i < length es. audit_entry L W (take i es) (es ! i))"

lemma audit_log_Nil [simp]: "audit_log L W []"
  by (simp add: audit_log_def)

lemma audit_log_snoc: "audit_log L W (es @ [e]) \<longleftrightarrow> audit_log L W es \<and> audit_entry L W es e"
  by (auto simp: audit_log_def nth_append less_Suc_eq)

lemma linked_other:
  "entry_type e \<noteq> TxType_PolicyDecision \<Longrightarrow> entry_type e \<noteq> TxType_ToolExecution \<Longrightarrow> linked L es e"
  by (simp add: linked_def)

section \<open>Window arithmetic\<close>

lemma window_read:
  assumes "Suc (length es) < 2 ^ 64"
  shows "take (max 1 (unat W)) (drop (unat (saturating_sub (of_nat (Suc (length es))) W) - 1) es)
         = window_of W es"
proof -
  let ?n = "of_nat (Suc (length es)) :: u64"
  have n: "unat ?n = Suc (length es)"
    using assms by (intro unat_of_nat_u64)
  show ?thesis
  proof (cases "?n < W")
    case True
    then have "Suc (length es) < unat W" using n by (simp add: word_less_nat_alt)
    then show ?thesis using True by (simp add: saturating_sub_def window_of_def)
  next
    case False
    then have le: "unat W \<le> Suc (length es)" using n by (simp add: word_le_nat_alt not_less)
    have "unat (?n - W) = Suc (length es) - unat W"
      using False n by (simp add: unat_sub not_less)
    with False le show ?thesis
      by (cases "unat W = 0") (auto simp: saturating_sub_def window_of_def min_def max_def
          intro!: arg_cong2 [of _ _ _ _ drop])
  qed
qed

section \<open>Runs of composed operations\<close>

lemma try_then_cases [consumes 1, case_names fail run]:
  assumes "try_then m f k = (r, k')"
  obtains e where "m k = (Inl e, k')" "r = Inl e" | x k1 where "m k = (Inr x, k1)" "f x k1 = (r, k')"
  using assms by (auto simp: try_then_def split: prod.splits sum.splits)

section \<open>What an operation leaves alone\<close>

text \<open>Operations that never touch the executors' world.\<close>

definition spares_exec :: "('s, 'x, 'u, 'a) kernel_act \<Rightarrow> bool" where
  "spares_exec m = (\<forall>k. ks_exec (snd (m k)) = ks_exec k)"

named_theorems spares \<open>operations that leave the executors' world alone\<close>

lemma spares_execD: "spares_exec m \<Longrightarrow> m k = (r, k') \<Longrightarrow> ks_exec k' = ks_exec k"
  by (metis spares_exec_def snd_conv)

lemma spares_basic [spares]:
  "spares_exec (ok x)" "spares_exec (err e)" "spares_exec (lift_res r)"
  "spares_exec (on_store f m)" "spares_exec (on_ui g)" "spares_exec (on_policy h)"
  "spares_exec get_policy" "spares_exec (draw d)"
  by (simp_all add: spares_exec_def on_store_def on_ui_def on_policy_def get_policy_def draw_def
      split: prod.splits)

lemma spares_try [spares]:
  "spares_exec m \<Longrightarrow> (\<And>x. spares_exec (f x)) \<Longrightarrow> spares_exec (try_then m f)"
  by (auto simp: spares_exec_def try_then_def split: prod.splits sum.splits) (metis snd_conv)+

lemma spares_next_seq [spares]: "spares_exec (next_seq K)"
  unfolding next_seq_def by (intro spares) (simp add: spares_exec_def Let_def)

lemma spares_load [spares]:
  "spares_exec (load_window K n)" "spares_exec (load_runtime_capabilities K)"
  unfolding load_window_def load_runtime_capabilities_def by (intro spares)+

lemma spares_apply_response [spares]: "spares_exec (apply_live_approval_response K prompt response)"
  unfolding apply_live_approval_response_def Let_def
  by (auto split: tool_approval_remember.splits option.splits intro!: spares)

lemma spares_hook [spares]: "spares_exec (ask_permission_hook K prompt reason)"
  unfolding ask_permission_hook_def by (auto split: option.splits intro!: spares)

lemma spares_prompter [spares]: "spares_exec (ask_prompter K ev prompt reason)"
  unfolding ask_prompter_def by (auto split: option.splits intro!: spares)

lemma spares_resolve_prompt [spares]: "spares_exec (resolve_prompt K ev)"
  unfolding resolve_prompt_def
  by (auto split: policy_verdict.splits option.splits prod.splits intro!: spares)

lemma spares_resolve [spares]: "spares_exec (resolve_live_ask K tool args tool_use_id ev)"
  unfolding resolve_live_ask_def Let_def
  by (intro spares) (auto split: option.splits prod.splits intro!: spares)

lemma spares_append [spares]: "spares_exec (append_tool_entry K tx fill token)"
  unfolding append_tool_entry_def Let_def notify_observer_def
  by (auto split: option.splits intro!: spares)

lemma spares_gate [spares]: "spares_exec (gate_tool_proposal K p rc)"
  unfolding gate_tool_proposal_def by (intro spares) (auto intro!: spares)

lemma spares_authorize [spares]: "spares_exec (authorize_tool_proposal K p pe rc)"
  unfolding authorize_tool_proposal_def record_policy_decision_def Let_def
  by (auto intro!: spares split: prod.splits)

lemma spares_maybe_block [spares]: "spares_exec (maybe_block K p i)"
  unfolding maybe_block_def fire_pre_tool_use_and_maybe_block_def
  by (auto split: option.splits hook_outcome.splits intro!: spares)

lemma spares_record_execution [spares]: "spares_exec (record_tool_execution K au act1 e)"
  unfolding record_tool_execution_def Let_def by (intro spares)

text \<open>Operations that leave the policy and its session grants alone.\<close>

definition spares_policy :: "('s, 'x, 'u, 'a) kernel_act \<Rightarrow> bool" where
  "spares_policy m = (\<forall>k. ks_policy (snd (m k)) = ks_policy k)"

lemma spares_policyD: "spares_policy m \<Longrightarrow> m k = (r, k') \<Longrightarrow> ks_policy k' = ks_policy k"
  by (metis spares_policy_def snd_conv)

lemma spares_policy_basic [intro]:
  "spares_policy (ok x)" "spares_policy (err e)" "spares_policy (lift_res r)"
  "spares_policy (on_store f m)" "spares_policy (on_ui g)" "spares_policy (draw d)"
  by (simp_all add: spares_policy_def on_store_def on_ui_def draw_def split: prod.splits)

lemma spares_policy_try [intro]:
  "spares_policy m \<Longrightarrow> (\<And>x. spares_policy (f x)) \<Longrightarrow> spares_policy (try_then m f)"
  by (auto simp: spares_policy_def try_then_def split: prod.splits sum.splits) (metis snd_conv)+

lemma spares_policy_proposal: "spares_policy (record_tool_proposal K tx token)"
proof -
  have "spares_policy (next_seq K)"
    unfolding next_seq_def
    by (intro spares_policy_try spares_policy_basic) (simp add: spares_policy_def Let_def)
  moreover have "spares_policy (load_window K n)" for n
    unfolding load_window_def by blast
  ultimately show ?thesis
    unfolding record_tool_proposal_def append_tool_entry_def Let_def notify_observer_def
    by (auto split: option.splits intro!: spares_policy_try)
qed

section \<open>Live prompts and provenance\<close>

lemma resolve_deny:
  "ev_verdict ev = Verdict_Deny why \<Longrightarrow> resolve_live_ask K tool args tool_use_id ev k = (Inr ev, k)"
  by (simp add: resolve_live_ask_def try_then_def get_policy_def)

lemma decide_simps [simp]:
  "ev_verdict (evaluation_decide ev v rule) = v"
  "ev_decided_by (evaluation_decide ev v rule) = rule"
  "ev_approval (evaluation_decide ev v rule) = ev_approval ev"
  by (simp_all add: evaluation_decide_def Let_def)

lemma prompter_provenance:
  assumes "ask_prompter K ev prompt reason k = (Inr ev', k')" "ev_verdict ev' = Verdict_Allow"
  shows "(\<exists>ap. ev_approval ev' = Some ap) \<and> rule_source (ev_decided_by ev') = PolicySource_User
    \<and> kc_tool_approval_prompter (kn_config K) \<noteq> None"
  using assms
  by (auto simp: ask_prompter_def elim!: try_then_InrE split: option.splits)

lemma hook_verdict_allow: "hook_verdict out = Some (Verdict_Allow, rule) \<longleftrightarrow> out = Hook_Approve \<and> rule = ''approve''"
  by (cases out) auto

lemma resolve_prompt_provenance:
  assumes "resolve_prompt K ev k = (Inr ev', k')" "ev_verdict ev' = Verdict_Allow"
    and "ev_verdict ev \<noteq> Verdict_Allow"
  shows "(\<exists>ap. ev_approval ev' = Some ap)
    \<and> rule_source (ev_decided_by ev') \<in> {PolicySource_PermissionHook, PolicySource_User}"
  using assms prompter_provenance
  by (fastforce simp: resolve_prompt_def elim!: try_then_InrE
      split: policy_verdict.splits option.splits prod.splits)

text \<open>
  An approval is the policy's own, or it carries the approver; and without a prompter no layer
  can turn an \<open>ask\<close> into an approval.
\<close>

lemma live_prompt_some:
  assumes "live_tool_prompt_explained P tool args a rid live opts = Some (v, rule)"
  shows "v \<noteq> Verdict_Allow \<and> (\<not> live \<longrightarrow> (\<exists>why. v = Verdict_Deny why))"
  using assms
  by (auto simp: live_tool_prompt_explained_def Let_def split: option.splits tool_state.splits prod.splits if_splits)

lemma resolve_provenance:
  assumes "resolve_live_ask K tool args tool_use_id ev k = (Inr ev', k')" "ev_verdict ev' = Verdict_Allow"
  shows "ev' = ev \<or> (\<exists>ap. ev_approval ev' = Some ap)
    \<and> rule_source (ev_decided_by ev') \<in> {PolicySource_PermissionHook, PolicySource_User}
    \<and> kc_tool_approval_prompter (kn_config K) \<noteq> None"
proof (rule disjCI)
  assume no: "\<not> ((\<exists>ap. ev_approval ev' = Some ap)
    \<and> rule_source (ev_decided_by ev') \<in> {PolicySource_PermissionHook, PolicySource_User}
    \<and> kc_tool_approval_prompter (kn_config K) \<noteq> None)"
  show "ev' = ev"
  proof (rule ccontr)
    assume ne: "ev' \<noteq> ev"
    with assms(1) obtain v rule where lp: "live_tool_prompt_explained (ks_policy k) tool args (kn_agent_id K)
        (kl_hex (kn_libs K) (agent_id_as_bytes (kn_agent_id K)) @ '':'' @ tool_use_id)
        (kc_tool_approval_prompter (kn_config K) \<noteq> None) (live_prompt_remember_options K) = Some (v, rule)"
      and rp: "resolve_prompt K (evaluation_decide ev v rule) k = (Inr ev', k')"
      by (auto simp: resolve_live_ask_def get_policy_def Let_def elim!: try_then_InrE
          split: if_splits option.splits prod.splits)
    note prov = resolve_prompt_provenance [OF rp assms(2)] live_prompt_some [OF lp]
    then have "kc_tool_approval_prompter (kn_config K) = None" using no by auto
    with prov obtain why where "v = Verdict_Deny why" by auto
    with rp have "ev' = evaluation_decide ev v rule" by (simp add: resolve_prompt_def)
    with assms(2) \<open>v = Verdict_Deny why\<close> show False by simp
  qed
qed

section \<open>Commands\<close>

text \<open>
  What a kernel is asked to do: a transaction from a direct source, the oldest transaction of the
  inbox, or a batch of tool proposals.  Each command may fail part way; the state it leaves is the
  state the next one finds.
\<close>

datatype kernel_cmd =
    Cmd_Direct transaction
  | Cmd_Dequeue
  | Cmd_Tools "tool_proposal list"

fun exec_cmd :: "('s, 'x, 'u) kernel \<Rightarrow> kernel_cmd \<Rightarrow> ('s, 'x, 'u) kernel_state \<Rightarrow> ('s, 'x, 'u) kernel_state" where
  "exec_cmd K (Cmd_Direct tx) k = snd (process_direct K tx k)"
| "exec_cmd K Cmd_Dequeue k =
    (case so_dequeue_tx (kn_ops K) (kn_agent_id K) (ks_store k) of
       (Inr (Some (t, tx)), s') \<Rightarrow> snd (process_dequeued K tx t (k \<lparr> ks_store := s' \<rparr>))
     | (_, s') \<Rightarrow> k \<lparr> ks_store := s' \<rparr>)"
| "exec_cmd K (Cmd_Tools ps) k = snd (process_many K ps k)"

fun cmd_cost :: "kernel_cmd \<Rightarrow> nat" where
  "cmd_cost (Cmd_Tools ps) = 3 * length ps"
| "cmd_cost _ = 3"

definition exec_cmds :: "('s, 'x, 'u) kernel \<Rightarrow> kernel_cmd list \<Rightarrow> ('s, 'x, 'u) kernel_state \<Rightarrow> ('s, 'x, 'u) kernel_state" where
  "exec_cmds K cmds k = fold (exec_cmd K) cmds k"

section \<open>The kernel over a store\<close>

locale kernel_log = inbox_store "kn_ops K" abs inv
  for K :: "('s, 'x, 'u) kernel" and abs :: "'s \<Rightarrow> store_view" and inv :: "'s \<Rightarrow> bool" +
  assumes decision_codec: "codec_ok (sj_policy_decision (kl_serde (kn_libs K)))"
begin

definition klog :: "('s, 'x, 'u) kernel_state \<Rightarrow> record_entry list" where
  "klog k = sv_log (abs (ks_store k)) (kn_agent_id K)"

abbreviation audited :: "record_entry list \<Rightarrow> bool" where
  "audited es \<equiv> audit_log (kn_libs K) (kc_record_window_size (kn_config K)) es"

text \<open>Operations that leave everything the store keeps as it is.\<close>

definition quiet :: "('s, 'x, 'u, 'a) kernel_act \<Rightarrow> bool" where
  "quiet m = (\<forall>k. abs (ks_store (snd (m k))) = abs (ks_store k) \<and> inv (ks_store (snd (m k))) = inv (ks_store k))"

lemma quietD:
  "quiet m \<Longrightarrow> m k = (r, k') \<Longrightarrow>
   abs (ks_store k') = abs (ks_store k) \<and> inv (ks_store k') = inv (ks_store k)"
  by (metis quiet_def snd_conv)

lemma quiet_basic [intro]:
  "quiet (ok x)" "quiet (err e)" "quiet (lift_res r)" "quiet (on_ui g)" "quiet (on_exec h)"
  "quiet (on_policy q)" "quiet get_policy" "quiet (draw d)"
  by (simp_all add: quiet_def on_ui_def on_exec_def on_policy_def get_policy_def draw_def
      split: prod.splits)

lemma quiet_try [intro]: "quiet m \<Longrightarrow> (\<And>x. quiet (f x)) \<Longrightarrow> quiet (try_then m f)"
  by (auto simp: quiet_def try_then_def split: prod.splits sum.splits) (metis snd_conv)+

lemma quiet_store:
  "(\<And>s r s'. m s = (r, s') \<Longrightarrow> abs s' = abs s \<and> inv s' = inv s) \<Longrightarrow> quiet (on_store f m)"
  by (fastforce simp: quiet_def on_store_def split: prod.splits)

lemma quiet_loads [intro]:
  "quiet (next_seq K)" "quiet (load_window K n)" "quiet (load_runtime_capabilities K)"
proof -
  have "quiet (on_store f (so_get_head_seq (kn_ops K) a))" for f a
    by (rule quiet_store) (use head_ok in blast)
  then show "quiet (next_seq K)"
    unfolding next_seq_def by (intro quiet_try) (auto simp: quiet_def Let_def)
  show "quiet (load_window K n)"
    unfolding load_window_def by (rule quiet_store) (use scan_ok in blast)
  show "quiet (load_runtime_capabilities K)"
    unfolding load_runtime_capabilities_def by (rule quiet_store) (use caps_ok in blast)
qed

lemma quiet_notify [intro]: "quiet (notify_observer K e)"
  unfolding notify_observer_def by (auto split: option.splits)

lemma quiet_apply_response [intro]: "quiet (apply_live_approval_response K prompt response)"
proof -
  have "quiet (on_store f (so_put_user_tool_defaults (kn_ops K) u d))" for f u d
    by (rule quiet_store) (use defaults_ok in blast)
  then show ?thesis
    unfolding apply_live_approval_response_def Let_def
    by (auto split: tool_approval_remember.splits option.splits)
qed

lemma quiet_resolve [intro]: "quiet (resolve_live_ask K tool args tool_use_id ev)"
proof -
  have "quiet (ask_permission_hook K prompt reason)" for prompt reason
    unfolding ask_permission_hook_def by (auto split: option.splits)
  moreover have "quiet (ask_prompter K ev prompt reason)" for ev prompt reason
    unfolding ask_prompter_def by (auto split: option.splits)
  ultimately have "quiet (resolve_prompt K ev)" for ev
    unfolding resolve_prompt_def
    by (auto split: policy_verdict.splits option.splits prod.splits intro!: quiet_try)
  then show ?thesis
    unfolding resolve_live_ask_def Let_def
    by (intro quiet_try) (auto split: option.splits prod.splits)
qed

lemma quiet_maybe_block [intro]: "quiet (maybe_block K p i)"
  unfolding maybe_block_def fire_pre_tool_use_and_maybe_block_def
  by (auto split: option.splits hook_outcome.splits intro!: quiet_try)

lemma quiet_workspace [intro]: "quiet (create_workspace K)"
  unfolding create_workspace_def by blast

lemma quiet_execute [intro]: "quiet (execute_with_timeout K ctx a tool)"
  unfolding execute_with_timeout_def by (auto split: option.splits intro!: quiet_try)

text \<open>The log of the agent extended by some entries, every other log as it was.\<close>

definition extends :: "record_entry list \<Rightarrow> ('s, 'x, 'u) kernel_state \<Rightarrow> ('s, 'x, 'u) kernel_state \<Rightarrow> bool" where
  "extends es k k' =
    (inv (ks_store k') \<and>
     sv_log (abs (ks_store k')) = (sv_log (abs (ks_store k)))(kn_agent_id K := klog k @ es))"

definition ready :: "nat \<Rightarrow> ('s, 'x, 'u) kernel_state \<Rightarrow> bool" where
  "ready n k = (inv (ks_store k) \<and> length (klog k) + n < 2 ^ 64)"

lemma extends_refl: "ready n k \<Longrightarrow> extends [] k k"
  by (simp add: extends_def ready_def klog_def)

lemma extends_klog: "extends es k k' \<Longrightarrow> klog k' = klog k @ es"
  by (simp add: extends_def klog_def)

lemma extends_trans: "extends es k k1 \<Longrightarrow> extends es' k1 k2 \<Longrightarrow> extends (es @ es') k k2"
  by (simp add: extends_def klog_def)

lemma extends_ready: "extends es k k' \<Longrightarrow> ready (length es + n) k \<Longrightarrow> ready n k'"
  by (simp add: extends_klog ready_def) (simp add: extends_def)

lemma ready_less: "ready n k \<Longrightarrow> m \<le> n \<Longrightarrow> ready m k"
  by (simp add: ready_def)

lemma quiet_extends: "quiet m \<Longrightarrow> m k = (r, k') \<Longrightarrow> ready n k \<Longrightarrow> extends [] k k'"
  using quietD [of m k r k'] by (simp add: extends_def ready_def klog_def)

lemma quiet_ready: "quiet m \<Longrightarrow> m k = (r, k') \<Longrightarrow> ready n k \<Longrightarrow> ready n k'"
  using quietD [of m k r k'] by (simp add: ready_def klog_def)

lemma quiet_klog: "quiet m \<Longrightarrow> m k = (r, k') \<Longrightarrow> klog k' = klog k"
  using quietD [of m k r k'] by (simp add: klog_def)

text \<open>Sequence numbers and windows.\<close>

lemma next_seq_value: "next_seq K k = (Inr n, k') \<Longrightarrow> n = of_nat (Suc (length (klog k)))"
  using head_ok [of "kn_agent_id K" "ks_store k"]
  by (auto simp: next_seq_def on_store_def res_map_err_def klog_def Let_def
      elim!: try_then_InrE split: prod.splits sum.splits)

lemma load_window_value:
  assumes "load_window K (of_nat (Suc (length (klog k)))) k = (Inr es, k')" "ready 1 k"
  shows "es = window_of (kc_record_window_size (kn_config K)) (klog k)"
proof -
  let ?W = "kc_record_window_size (kn_config K)"
  have "es = take (max 1 (unat ?W))
      (drop (unat (saturating_sub (of_nat (Suc (length (klog k)))) ?W) - 1) (klog k))"
    using assms scan_ok [of "kn_agent_id K"
        "saturating_sub (of_nat (Suc (length (klog k)))) ?W" "unat ?W" "ks_store k"]
    by (auto simp: load_window_def on_store_def res_map_err_def klog_def ready_def simp del: of_nat_Suc
        split: prod.splits sum.splits)
  also have "\<dots> = window_of ?W (klog k)"
    using assms(2) by (intro window_read) (simp add: ready_def)
  finally show ?thesis .
qed

text \<open>One entry through the store.\<close>

definition token_fits :: "('s, 'x, 'u) kernel_state \<Rightarrow> dequeue_token option \<Rightarrow> bool" where
  "token_fits k token = (case token of None \<Rightarrow> True | Some t \<Rightarrow> sv_token (abs (ks_store k)) (kn_agent_id K) t)"

definition store_append ::
  "u64 \<Rightarrow> record_entry \<Rightarrow> dequeue_token option \<Rightarrow> runtime_capability_install option \<Rightarrow> bool \<Rightarrow>
   ('s, store_error, unit) act" where
  "store_append n e token rc cl =
    (case token of
       None \<Rightarrow> so_append_entry_direct_with_runtime_capabilities (kn_ops K) (kn_agent_id K) n e rc cl
     | Some t \<Rightarrow> so_append_entry_dequeued_with_runtime_capabilities (kn_ops K) (kn_agent_id K) n e t rc cl)"

lemma store_append_Inr:
  assumes "on_store f (store_append n e token rc cl) k = (Inr u, k')" "ready 1 k" "token_fits k token"
  shows "extends [e] k k' \<and> n = of_nat (Suc (length (klog k)))"
proof -
  obtain s' where run: "store_append n e token rc cl (ks_store k) = (Inr u, s')" and k': "k' = k \<lparr> ks_store := s' \<rparr>"
    using assms(1) by (auto simp: on_store_def res_map_err_def split: prod.splits sum.splits)
  show ?thesis
  proof (cases token)
    case None
    with run assms(2) append_direct [of "ks_store k" "kn_agent_id K" n e rc cl u s'] k'
    show ?thesis by (auto simp: store_append_def extends_def ready_def klog_def)
  next
    case (Some t)
    with run assms(2,3) append_dequeued [of "ks_store k" "kn_agent_id K" t n e rc cl u s'] k'
    show ?thesis by (auto simp: store_append_def extends_def ready_def klog_def token_fits_def)
  qed
qed

lemma store_append_Inl:
  assumes "on_store f (store_append n e token rc cl) k = (Inl x, k')" "ready m k"
  shows "extends [] k k'"
proof -
  obtain y s' where run: "store_append n e token rc cl (ks_store k) = (Inl y, s')" and k': "k' = k \<lparr> ks_store := s' \<rparr>"
    using assms(1) by (auto simp: on_store_def res_map_err_def split: prod.splits sum.splits)
  then have "abs s' = abs (ks_store k) \<and> inv s' = inv (ks_store k)"
    using direct_fails dequeued_fails by (cases token) (auto simp: store_append_def)
  with k' assms(2) show ?thesis by (simp add: extends_def ready_def klog_def)
qed

text \<open>A quiet operation before another one: the log is as it was when the second one starts.\<close>

lemma quiet_then [consumes 3, case_names fail run]:
  assumes "try_then m f k = (r, k')" "quiet m" "ready n k"
  obtains e where "extends [] k k'" "m k = (Inl e, k')" "r = Inl e"
  | x k1 where "m k = (Inr x, k1)" "f x k1 = (r, k')" "ready n k1" "abs (ks_store k1) = abs (ks_store k)"
      "klog k1 = klog k"
  using assms(1)
proof (cases rule: try_then_cases)
  case (fail e)
  with assms(2,3) show ?thesis using that(1) quiet_extends by blast
next
  case (run x k1)
  with assms(2,3) show ?thesis
    using that(2) quiet_ready quiet_klog quietD [OF assms(2)] by metis
qed

lemma extends_same: "extends es k1 k' \<Longrightarrow> abs (ks_store k1) = abs (ks_store k) \<Longrightarrow> extends es k k'"
  by (simp add: extends_def klog_def)

lemma token_fits_same: "token_fits k t \<Longrightarrow> abs (ks_store k1) = abs (ks_store k) \<Longrightarrow> token_fits k1 t"
  by (simp add: token_fits_def split: option.splits)

definition built :: "transaction \<Rightarrow> (record_entry \<Rightarrow> record_entry) \<Rightarrow> record_entry list \<Rightarrow> record_entry \<Rightarrow> bool" where
  "built tx fill es e =
    (\<exists>ch. e = fill ((record_entry_builder (of_nat (Suc (length es))) tx) \<lparr> re_context_hash := ch \<rparr>)
       \<and> hash_tx_with_window (kn_libs K) tx (window_of (kc_record_window_size (kn_config K)) es) = Inr ch)"

lemma append_tool_entry_spec:
  assumes "append_tool_entry K tx fill token k = (r, k')" "ready 1 k" "token_fits k token"
  shows "case r of Inl _ \<Rightarrow> extends [] k k' | Inr e \<Rightarrow> extends [e] k k' \<and> built tx fill (klog k) e"
  using assms(1) [unfolded append_tool_entry_def Let_def] quiet_loads(1) assms(2)
proof (cases rule: quiet_then)
  case (run seq k1)
  note seq = next_seq_value [OF run(1)] and same1 = run(4)
  from run(2) quiet_loads(2) run(3) show ?thesis
  proof (cases rule: quiet_then)
    case fail
    then show ?thesis using extends_same [OF _ same1] by simp
  next
    case (run window k2)
    have w: "window = window_of (kc_record_window_size (kn_config K)) (klog k)"
      using load_window_value [of k1 window k2] run(1) \<open>ready 1 k1\<close> \<open>klog k1 = klog k\<close> seq by simp
    have abs2: "abs (ks_store k2) = abs (ks_store k)" using run(4) same1 by simp
    have fits: "token_fits k2 token" using token_fits_same [OF assms(3) abs2] .
    have st: "(case token of
          Some t \<Rightarrow> on_store (store_fault K ''append_entry_dequeued'')
                      (so_append_entry_dequeued (kn_ops K) (kn_agent_id K) seq e t)
        | None \<Rightarrow> on_store (store_fault K ''append_entry_direct'')
                    (so_append_entry_direct (kn_ops K) (kn_agent_id K) seq e)) =
        on_store (store_fault K (if token = None then ''append_entry_direct'' else ''append_entry_dequeued''))
          (store_append seq e token None False)" for e
      by (simp add: store_append_def direct_short dequeued_short split: option.splits)
    from run(2) show ?thesis
      unfolding st
    proof (cases rule: try_then_cases)
      case fail
      then show ?thesis using extends_same [OF quiet_extends [OF quiet_basic(3) fail(1) run(3)] abs2] by simp
    next
      case hashed: (run ch k3)
      then have k3: "k3 = k2" and h: "hash_tx_with_window (kn_libs K) tx window = Inr ch" by simp_all
      from hashed(2) show ?thesis
        unfolding k3
      proof (cases rule: try_then_cases)
        case fail
        then show ?thesis using extends_same [OF store_append_Inl [OF fail(1) run(3)] abs2] by simp
      next
        case stored: (run u k4)
        let ?e = "fill ((record_entry_builder seq tx) \<lparr> re_context_hash := ch \<rparr>)"
        have e4: "extends [?e] k k4"
          using extends_same [OF _ abs2] store_append_Inr [OF stored(1) run(3) fits] by blast
        from stored(2) obtain k5 where k5: "notify_observer K ?e k4 = (Inr (), k5)" "r = Inr ?e" "k' = k5"
          by (cases rule: try_then_cases)
            (auto simp: notify_observer_def on_ui_def split: option.splits prod.splits)
        have "extends [?e] k k'"
          using e4 quietD [OF quiet_notify k5(1)] by (simp add: extends_def k5(3))
        with k5(2) h w seq show ?thesis
          by (auto simp: built_def)
      qed
    qed
  qed
qed simp

text \<open>The decision entry of an authorised proposal.\<close>

definition decides :: "record_entry \<Rightarrow> authorized \<Rightarrow> bool" where
  "decides pe au =
    (entry_type (au_decision_entry au) = TxType_PolicyDecision
     \<and> tx_reference (re_tx (au_decision_entry au)) = Some (tx_hash (re_tx pe))
     \<and> from_slice (sj_policy_decision (kl_serde (kn_libs K))) (tx_payload (re_tx (au_decision_entry au))) =
         Inr (pdr_decision (au_decision_ref au))
     \<and> pd_verdict (pdr_decision (au_decision_ref au)) = gate_verdict (ev_verdict (au_evaluation au))
     \<and> pd_decided_by (pdr_decision (au_decision_ref au)) = ev_decided_by (au_evaluation au)
     \<and> pd_trace (pdr_decision (au_decision_ref au)) = ev_trace (au_evaluation au)
     \<and> pd_approval (pdr_decision (au_decision_ref au)) = ev_approval (au_evaluation au)
     \<and> pdr_proposal_tx_hash (au_decision_ref au) = tx_hash (re_tx pe)
     \<and> pdr_seq (au_decision_ref au) = re_seq (au_decision_entry au)
     \<and> (au_action au \<noteq> None \<longleftrightarrow> verdict_is_allowed (ev_verdict (au_evaluation au)))
     \<and> (\<forall>a. au_action au = Some a \<longrightarrow> ac_action_id a \<in> set (dc_accepted_action_ids (re_decision (au_decision_entry au)))))"

lemma built_simps:
  assumes "built tx (\<lambda>b. b \<lparr> re_proposals := ps, re_decision := d \<rparr>) es e"
  shows "re_tx e = tx" "re_seq e = of_nat (Suc (length es))" "re_decision e = d"
    "hash_tx_with_window (kn_libs K) (re_tx e) (window_of (kc_record_window_size (kn_config K)) es) =
      Inr (re_context_hash e)"
  using assms by (auto simp: built_def record_entry_builder_def)

lemma built_exec_simps:
  assumes "built tx (\<lambda>b. b \<lparr> re_actions := as, re_effects := fs \<rparr>) es e"
  shows "re_tx e = tx" "re_seq e = of_nat (Suc (length es))" "re_actions e = as"
    "hash_tx_with_window (kn_libs K) (re_tx e) (window_of (kc_record_window_size (kn_config K)) es) =
      Inr (re_context_hash e)"
  using assms by (auto simp: built_def record_entry_builder_def)

lemma built_plain_simps:
  assumes "built tx (\<lambda>b. b) es e"
  shows "re_tx e = tx" "re_seq e = of_nat (Suc (length es))"
    "hash_tx_with_window (kn_libs K) (re_tx e) (window_of (kc_record_window_size (kn_config K)) es) =
      Inr (re_context_hash e)"
  using assms by (auto simp: built_def record_entry_builder_def)

lemma decision_tx:
  assumes "tx_policy_decision J b now a d h = Inr tx" "codec_ok (sj_policy_decision J)"
  shows "tx_type tx = TxType_PolicyDecision \<and> tx_reference tx = Some h
    \<and> from_slice (sj_policy_decision J) (tx_payload tx) = Inr d"
  using assms
  by (auto simp: tx_policy_decision_def res_bind_Inr_iff res_map_err_def tx_new_chained_def
      dest: codec_okD split: sum.splits)

lemma quiet_gate: "quiet (gate_tool_proposal K p rc)"
  unfolding gate_tool_proposal_def by (intro quiet_try) auto

lemma gate_spec:
  assumes "gate_tool_proposal K p rc k = (Inr (kp, ev, act1), k')"
  shows "kernel_proposal_from_tool_proposal (kn_libs K) p = Inr kp
    \<and> (\<exists>k1. resolve_live_ask K (tp_tool p) (tp_args p) (tp_tool_use_id p)
          (evaluate_proposal (kl_serde (kn_libs K)) (ks_policy k) kp rc) k = (Inr ev, k1))
    \<and> (act1 \<noteq> None \<longleftrightarrow> verdict_is_allowed (ev_verdict ev))"
  using assms
  by (auto simp: gate_tool_proposal_def get_policy_def draw_def elim!: try_then_InrE split: if_splits)

lemma record_decision_spec:
  assumes run: "record_policy_decision K p pe (kp, ev, act1) k = (r, k')" and ready: "ready 1 k"
    and act1: "act1 \<noteq> None \<longleftrightarrow> verdict_is_allowed (ev_verdict ev)"
  shows "case r of
      Inl _ \<Rightarrow> extends [] k k'
    | Inr au \<Rightarrow> extends [au_decision_entry au] k k' \<and> decides pe au \<and> au_proposal au = p
        \<and> au_evaluation au = ev
        \<and> (\<exists>tx ps d. built tx (\<lambda>b. b \<lparr> re_proposals := ps, re_decision := d \<rparr>) (klog k) (au_decision_entry au))"
proof -
  let ?k = "k \<lparr> ks_draws := Suc (ks_draws k) \<rparr>"
  let ?d = "policy_decision_of K (ks_policy k) p ev act1"
  let ?kd = "case act1 of Some a \<Rightarrow> decision_accept decision_new (ac_action_id a)
      | None \<Rightarrow> decision_reject decision_new 0 (denial_reason (ev_verdict ev))"
  let ?fill = "\<lambda>b. b \<lparr> re_proposals := with_proposals [kp], re_decision := ?kd \<rparr>"
  have ready': "ready 1 ?k" and log': "klog ?k = klog k" and ext: "extends es ?k k' = extends es k k'" for es
    using ready by (simp_all add: ready_def klog_def extends_def)
  let ?tx = "tx_policy_decision (kl_serde (kn_libs K)) (kl_blake3 (kn_libs K))
      (kl_clock (kn_libs K) (ks_draws k)) (kn_agent_id K) ?d (tx_hash (re_tx pe))"
  show ?thesis
  proof (cases ?tx)
    case (Inl e)
    with run ready show ?thesis
      by (auto simp: record_policy_decision_def try_then_def get_policy_def draw_def res_map_err_def
          Let_def extends_def ready_def klog_def)
  next
    case (Inr tx)
    obtain r1 k1 where app: "append_tool_entry K tx ?fill None ?k = (r1, k1)" by fastforce
    have spec: "case r1 of Inl _ \<Rightarrow> extends [] k k1 | Inr e \<Rightarrow> extends [e] k k1 \<and> built tx ?fill (klog k) e"
      using append_tool_entry_spec [OF app ready'] log'
      by (auto simp: token_fits_def extends_def klog_def split: sum.splits)
    from run Inr app have "k' = k1" and
      r: "r = (case r1 of Inl e \<Rightarrow> Inl e | Inr e \<Rightarrow> Inr \<lparr> au_proposal = p, au_evaluation = ev, au_action = act1,
            au_decision_entry = e, au_decision_ref =
              \<lparr> pdr_proposal_seq = re_seq pe, pdr_proposal_tx_hash = tx_hash (re_tx pe),
                pdr_seq = re_seq e, pdr_tx_hash = tx_hash (re_tx e), pdr_decision = ?d \<rparr> \<rparr>)"
      by (auto simp: record_policy_decision_def try_then_def get_policy_def draw_def res_map_err_def Let_def
          split: sum.splits)
    show ?thesis
    proof (cases r1)
      case (Inl e)
      with spec r \<open>k' = k1\<close> show ?thesis by simp
    next
      case (Inr e)
      with spec have "extends [e] k k1" and b: "built tx ?fill (klog k) e" by simp_all
      with r Inr \<open>k' = k1\<close> act1 decision_tx [OF \<open>?tx = Inr tx\<close> decision_codec] built_simps [OF b]
      show ?thesis
        by (fastforce simp: decides_def entry_type_def policy_decision_of_def decision_accept_def
            split: option.splits)
    qed
  qed
qed

lemma authorize_spec:
  assumes run: "authorize_tool_proposal K p pe rc k = (r, k')" and ready: "ready 1 k"
  shows "case r of
      Inl _ \<Rightarrow> extends [] k k'
    | Inr au \<Rightarrow> extends [au_decision_entry au] k k' \<and> decides pe au \<and> au_proposal au = p
        \<and> (\<exists>tx ps d. built tx (\<lambda>b. b \<lparr> re_proposals := ps, re_decision := d \<rparr>) (klog k) (au_decision_entry au))
        \<and> (\<exists>kp k1. kernel_proposal_from_tool_proposal (kn_libs K) p = Inr kp
             \<and> resolve_live_ask K (tp_tool p) (tp_args p) (tp_tool_use_id p)
                 (evaluate_proposal (kl_serde (kn_libs K)) (ks_policy k) kp rc) k = (Inr (au_evaluation au), k1))"
  using run [unfolded authorize_tool_proposal_def] quiet_gate ready
proof (cases rule: quiet_then)
  case (run gated k1)
  obtain kp ev act1 where g: "gated = (kp, ev, act1)" by (cases gated)
  note gate = gate_spec [OF run(1) [unfolded g]]
  from record_decision_spec [OF run(2) [unfolded g] run(3)] gate run(4,5) show ?thesis
    by (auto simp: extends_def klog_def split: sum.splits)
qed simp

text \<open>The execution entry of an approved call.\<close>

definition executes :: "authorized \<Rightarrow> action \<Rightarrow> record_entry \<Rightarrow> bool" where
  "executes au act1 e =
    (entry_type e = TxType_ToolExecution
     \<and> tx_reference (re_tx e) = Some (tx_hash (re_tx (au_decision_entry au)))
     \<and> re_actions e = [act1])"

lemma record_execution_spec:
  assumes run: "record_tool_execution K au act1 eff k = (r, k')" and ready: "ready 1 k"
  shows "case r of
      Inl _ \<Rightarrow> extends [] k k'
    | Inr ex \<Rightarrow> extends [exd_entry ex] k k' \<and> executes au act1 (exd_entry ex)
        \<and> (\<exists>tx as fs. built tx (\<lambda>b. b \<lparr> re_actions := as, re_effects := fs \<rparr>) (klog k) (exd_entry ex))"
  using run [unfolded record_tool_execution_def Let_def] quiet_basic(8) ready
proof (cases rule: quiet_then)
  case drawn: (run now k1)
  from drawn(2) quiet_basic(3) drawn(3) show ?thesis
  proof (cases rule: quiet_then)
    case fail
    then show ?thesis using extends_same [OF _ drawn(4)] by simp
  next
    case txr: (run tx k2)
    have tx: "tx_type tx = TxType_ToolExecution" "tx_reference tx = Some (tx_hash (re_tx (au_decision_entry au)))"
      using txr(1) by (auto simp: tx_tool_execution_for_decision_def tx_tool_execution_def res_bind_Inr_iff
          res_map_err_def tx_new_chained_def split: sum.splits)
    have abs2: "abs (ks_store k2) = abs (ks_store k)" and log2: "klog k2 = klog k"
      using txr(4,5) drawn(4,5) by simp_all
    from txr(2) show ?thesis
    proof (cases rule: try_then_cases)
      case (fail e)
      then show ?thesis
        using append_tool_entry_spec [OF fail(1) txr(3)] extends_same [OF _ abs2] by (simp add: token_fits_def)
    next
      case (run e k3)
      let ?fs = "[maybe_summarise_effect_payload (kn_libs K) eff (lite_payload_threshold K)]"
      have ext: "extends [e] k k3" and b: "built tx (\<lambda>b. b \<lparr> re_actions := [act1], re_effects := ?fs \<rparr>) (klog k) e"
        using append_tool_entry_spec [OF run(1) txr(3)] extends_same [OF _ abs2]
        by (simp_all add: token_fits_def log2)
      have "executes au act1 e"
        using tx built_exec_simps [OF b] by (simp add: executes_def entry_type_def)
      moreover have "\<exists>tx as fs. built tx (\<lambda>b. b \<lparr> re_actions := as, re_effects := fs \<rparr>) (klog k) e"
        using b by (intro exI)
      moreover obtain ex where "k' = k3" "r = Inr ex" "exd_entry ex = e" using run(2) by auto
      ultimately show ?thesis using ext by simp
    qed
  qed
qed simp

lemma record_proposal_spec:
  assumes "record_tool_proposal K tx token k = (r, k')" "ready 1 k" "token_fits k token"
  shows "case r of Inl _ \<Rightarrow> extends [] k k' | Inr e \<Rightarrow> extends [e] k k' \<and> built tx (\<lambda>b. b) (klog k) e"
  using append_tool_entry_spec [OF assms(1) [unfolded record_tool_proposal_def] assms(2,3)] .

subsection \<open>Every step keeps the audit log\<close>

definition keeps :: "nat \<Rightarrow> ('s, 'x, 'u) kernel_state \<Rightarrow> ('s, 'x, 'u) kernel_state \<Rightarrow> bool" where
  "keeps n k k' =
    (\<exists>es. length es \<le> n \<and> extends es k k' \<and> (audited (klog k) \<longrightarrow> audited (klog k')))"

lemma keeps_trans: "keeps m k k1 \<Longrightarrow> keeps n k1 k2 \<Longrightarrow> keeps (m + n) k k2"
  unfolding keeps_def by (metis add_mono extends_trans length_append)

lemma keeps_less: "keeps m k k' \<Longrightarrow> m \<le> n \<Longrightarrow> keeps n k k'"
  unfolding keeps_def by (meson le_trans)

lemma keeps_ready: "keeps m k k' \<Longrightarrow> ready (m + n) k \<Longrightarrow> ready n k'"
  unfolding keeps_def using extends_ready ready_less by (metis add_le_mono1)

lemma keeps_mem: "keeps n k k' \<Longrightarrow> e \<in> set (klog k) \<Longrightarrow> e \<in> set (klog k')"
  unfolding keeps_def using extends_klog by fastforce

lemma keeps_extends_Nil: "extends [] k k' \<Longrightarrow> keeps 0 k k'"
  using extends_klog unfolding keeps_def by fastforce

lemma keeps_entry:
  "extends [e] k k' \<Longrightarrow> audit_entry (kn_libs K) (kc_record_window_size (kn_config K)) (klog k) e \<Longrightarrow> keeps 1 k k'"
  unfolding keeps_def by (rule exI [of _ "[e]"]) (simp add: extends_klog audit_log_snoc)

lemma quiet_keeps: "quiet m \<Longrightarrow> m k = (r, k') \<Longrightarrow> ready n k \<Longrightarrow> keeps 0 k k'"
  using quiet_extends keeps_extends_Nil by blast

lemma proposal_audit:
  assumes "built tx (\<lambda>b. b) es e" "tx_type tx \<noteq> TxType_PolicyDecision" "tx_type tx \<noteq> TxType_ToolExecution"
  shows "audit_entry (kn_libs K) (kc_record_window_size (kn_config K)) es e"
  using assms built_plain_simps [OF assms(1)] linked_other [of e]
  by (simp add: audit_entry_def entry_type_def)

lemma decision_audit:
  assumes "decides pe au" "pe \<in> set es" "entry_type pe = TxType_ToolProposal"
    and "built tx (\<lambda>b. b \<lparr> re_proposals := ps, re_decision := d \<rparr>) es (au_decision_entry au)"
  shows "audit_entry (kn_libs K) (kc_record_window_size (kn_config K)) es (au_decision_entry au)"
  using assms built_simps [OF assms(4)]
  by (auto simp: audit_entry_def linked_def decides_def list_ex_iff)

lemma decision_approves:
  "decides pe au \<Longrightarrow> au_action au = Some act1 \<Longrightarrow> approves (kn_libs K) (au_decision_entry au) (ac_action_id act1)"
  by (auto simp: decides_def approves_def)

lemma execution_audit:
  assumes "decides pe au" "au_action au = Some act1" "au_decision_entry au \<in> set es"
    and "executes au act1 e"
    and "built tx (\<lambda>b. b \<lparr> re_actions := as, re_effects := fs \<rparr>) es e"
  shows "audit_entry (kn_libs K) (kc_record_window_size (kn_config K)) es e"
  using assms(3,4) built_exec_simps [OF assms(5)] decision_approves [OF assms(1,2)]
  by (auto simp: audit_entry_def linked_def executes_def list_ex_iff)

lemma proposal_keeps:
  assumes "record_tool_proposal K tx token k = (r, k')" "ready 1 k" "token_fits k token"
    and "tx_type tx = TxType_ToolProposal"
  shows "keeps 1 k k' \<and> (\<forall>pe. r = Inr pe \<longrightarrow> pe \<in> set (klog k') \<and> entry_type pe = TxType_ToolProposal)"
proof (cases r)
  case (Inr e)
  with record_proposal_spec [OF assms(1-3)]
  have ext: "extends [e] k k'" and b: "built tx (\<lambda>b. b) (klog k) e" by simp_all
  have "keeps 1 k k'"
    by (rule keeps_entry [OF ext proposal_audit [OF b]]) (simp_all add: assms(4))
  with Inr show ?thesis
    using extends_klog [OF ext] built_plain_simps(1) [OF b] assms(4) by (simp add: entry_type_def)
qed (use record_proposal_spec [OF assms(1-3)] in \<open>auto intro: keeps_less [OF keeps_extends_Nil]\<close>)

lemma authorize_keeps:
  assumes "authorize_tool_proposal K p pe rc k = (r, k')" "ready 1 k"
    and "pe \<in> set (klog k)" "entry_type pe = TxType_ToolProposal"
  shows "keeps 1 k k' \<and> (\<forall>au. r = Inr au \<longrightarrow> decides pe au \<and> au_decision_entry au \<in> set (klog k'))"
  using authorize_spec [OF assms(1,2)] assms(3,4)
  by (cases r)
    (auto simp: extends_klog intro: keeps_less [OF keeps_extends_Nil] keeps_entry decision_audit simp del: One_nat_def)

lemma execution_keeps:
  assumes "record_tool_execution K au act1 eff k = (r, k')" "ready 1 k"
    and "decides pe au" "au_action au = Some act1" "au_decision_entry au \<in> set (klog k)"
  shows "keeps 1 k k'"
  using record_execution_spec [OF assms(1,2)] assms(3-5)
  by (cases r) (auto intro: keeps_less [OF keeps_extends_Nil] keeps_entry execution_audit simp del: One_nat_def)

lemma quiet_dispatch [intro]: "quiet (dispatch_approved K au act1)"
  unfolding dispatch_approved_def by (intro quiet_try quiet_maybe_block) (auto split: option.splits)

subsection \<open>The single flow\<close>

lemma finish_simps:
  "pr_policy_decision (finish_tool_call au ex) = Some (au_decision_ref au)"
  "pr_tool_decision (finish_tool_call au (Some x)) = Some ToolDecision_Allowed"
  "pr_tool_decision (finish_tool_call au None) \<noteq> Some ToolDecision_Allowed"
  "pr_entry (finish_tool_call au (Some x)) = exd_entry x"
  "pr_entry (finish_tool_call au None) = au_decision_entry au"
  by (auto simp: finish_tool_call_def Let_def split: option.splits policy_verdict.splits)

text \<open>The part of the flow after the decision.\<close>

definition after_decision :: "authorized \<Rightarrow> ('s, 'x, 'u, process_result) kernel_act" where
  "after_decision au =
    (case au_action au of
        None \<Rightarrow> ok (finish_tool_call au None)
      | Some act1 \<Rightarrow>
          try_then (dispatch_approved K au act1) (\<lambda>effect0.
          try_then (record_tool_execution K au act1 effect0) (\<lambda>ex.
            ok (finish_tool_call au (Some ex)))))"

lemma after_decision_keeps:
  assumes run: "after_decision au k = (r, k')" and "ready 1 k"
    and "decides pe au" "au_decision_entry au \<in> set (klog k)"
  shows "keeps 1 k k'"
proof (cases "au_action au")
  case None
  with run assms(2) show ?thesis
    by (auto simp: after_decision_def intro: keeps_less [OF keeps_extends_Nil [OF extends_refl]])
next
  case (Some act1)
  from run [unfolded after_decision_def Some option.case] quiet_dispatch assms(2) show ?thesis
  proof (cases rule: quiet_then)
    case fail
    then show ?thesis by (auto intro: keeps_less [OF keeps_extends_Nil])
  next
    case d: (run eff k1)
    have mem: "au_decision_entry au \<in> set (klog k1)" using assms(4) d(5) by simp
    from d(2) obtain r2 where "record_tool_execution K au act1 eff k1 = (r2, k')"
      by (cases rule: try_then_cases) auto
    then have "keeps 1 k1 k'"
      using execution_keeps [OF _ d(3) assms(3) Some mem] by blast
    then show ?thesis
      using keeps_trans [OF quiet_keeps [OF quiet_dispatch d(1) assms(2)]] by simp
  qed
qed

lemma after_decision_trail:
  assumes run: "after_decision au k = (Inr res, k')" and "ready 1 k"
  shows "pr_policy_decision res = Some (au_decision_ref au)
    \<and> (case au_action au of
         None \<Rightarrow> extends [] k k' \<and> ks_exec k' = ks_exec k \<and> pr_tool_decision res \<noteq> Some ToolDecision_Allowed
                  \<and> pr_entry res = au_decision_entry au
       | Some act1 \<Rightarrow> \<exists>xe. extends [xe] k k' \<and> executes au act1 xe
                  \<and> pr_tool_decision res = Some ToolDecision_Allowed \<and> pr_entry res = xe)"
proof (cases "au_action au")
  case None
  with run assms(2) show ?thesis
    by (auto simp: after_decision_def finish_simps intro: extends_refl)
next
  case (Some act1)
  from run [unfolded after_decision_def Some option.case] quiet_dispatch assms(2) show ?thesis
  proof (cases rule: quiet_then)
    case d: (run eff k1)
    from d(2) obtain ex where "record_tool_execution K au act1 eff k1 = (Inr ex, k')" "res = finish_tool_call au (Some ex)"
      by (auto elim!: try_then_InrE)
    then show ?thesis
      using record_execution_spec [of au act1 eff k1 "Inr ex" k'] d(3) extends_same [OF _ d(4)] Some
      by (auto simp: finish_simps)
  qed simp
qed

text \<open>The whole flow.\<close>

lemma process_one_cases:
  assumes run: "process_one K tx token k = (r, k')" and ready: "ready 3 k" and "token_fits k token"
    and ty: "tx_type tx = TxType_ToolProposal"
  shows "keeps 3 k k' \<and> (\<forall>res. r = Inr res \<longrightarrow>
    (\<exists>p rc k0 pe k1 au k2. from_slice (sj_tool_proposal (kl_serde (kn_libs K))) (tx_payload tx) = Inr p
       \<and> ks_policy k0 = ks_policy k \<and> ks_exec k0 = ks_exec k
       \<and> rc = sv_caps (abs (ks_store k)) (kn_agent_id K)
       \<and> record_tool_proposal K tx token k0 = (Inr pe, k1) \<and> extends [pe] k k1 \<and> re_tx pe = tx
       \<and> authorize_tool_proposal K p pe rc k1 = (Inr au, k2) \<and> extends [pe, au_decision_entry au] k k2
       \<and> decides pe au \<and> ready 1 k2 \<and> after_decision au k2 = (Inr res, k')))"
  using run [unfolded process_one_def, folded after_decision_def] quiet_basic(3) ready
proof (cases rule: quiet_then)
  case dec: (run p ka)
  then have ka: "ka = k" and p: "from_slice (sj_tool_proposal (kl_serde (kn_libs K))) (tx_payload tx) = Inr p"
    by (auto simp: res_map_err_def split: sum.splits)
  from dec(2) [unfolded ka] quiet_loads(3) ready show ?thesis
  proof (cases rule: quiet_then)
    case rc: (run rc k0)
    have caps: "rc = sv_caps (abs (ks_store k)) (kn_agent_id K)" and k0: "ks_policy k0 = ks_policy k" "ks_exec k0 = ks_exec k"
      using rc(1) caps_ok [of "kn_agent_id K" "ks_store k"]
      by (auto simp: load_runtime_capabilities_def on_store_def res_map_err_def split: prod.splits sum.splits)
    have keep0: "keeps 0 k k0" using quiet_keeps [OF quiet_loads(3) rc(1) ready] .
    have ready0: "ready 1 k0" "ready (1 + 2) k0" using rc(3) ready_less [of 3 k0 1] by (simp_all add: numeral_3_eq_3)
    have fits: "token_fits k0 token" using token_fits_same [OF assms(3) rc(4)] .
    from rc(2) show ?thesis
    proof (cases rule: try_then_cases)
      case (fail e)
      then show ?thesis
        using keeps_less [OF keeps_trans [OF keep0]] proposal_keeps [OF fail(1) ready0(1) fits ty] by auto
    next
      case pe: (run pe k1)
      note kp = proposal_keeps [OF pe(1) ready0(1) fits ty]
      note sp = record_proposal_spec [OF pe(1) ready0(1) fits]
      have keep1: "keeps 1 k k1" using keeps_trans [OF keep0] kp by fastforce
      have ready1: "ready 1 k1" "ready (1 + 1) k1" using keeps_ready [OF conjunct1 [OF kp] ready0(2)]
        ready_less [of 2 k1 1] by (simp_all add: numeral_2_eq_2)
      from pe(2) show ?thesis
      proof (cases rule: try_then_cases)
        case (fail e)
        then show ?thesis
          using keeps_less [OF keeps_trans [OF keep1]] authorize_keeps [OF fail(1) ready1(1)] kp by auto
      next
        case au: (run au k2)
        note ak = authorize_keeps [OF au(1) ready1(1)]
        have dec: "decides pe au" "au_decision_entry au \<in> set (klog k2)" "keeps 1 k1 k2" using ak kp by auto
        have ready2: "ready 1 k2" using keeps_ready [OF dec(3) ready1(2)] .
        have "keeps 3 k k'"
          using keeps_trans [OF keeps_trans [OF keep1 dec(3)] after_decision_keeps [OF au(2) ready2 dec(1,2)]]
          by (simp add: numeral_3_eq_3)
        moreover have "extends [pe] k k1" using sp extends_same [OF _ rc(4)] by simp
        moreover have "extends [pe, au_decision_entry au] k k2"
          using extends_trans [OF \<open>extends [pe] k k1\<close>] authorize_spec [OF au(1) ready1(1)] by fastforce
        moreover have "re_tx pe = tx" using sp built_plain_simps(1) by auto
        ultimately show ?thesis
          using p caps k0 pe(1) au dec(1) ready2 by blast
      qed
    qed
  qed (auto intro: keeps_less [OF keeps_extends_Nil])
qed (auto intro: keeps_less [OF keeps_extends_Nil])

text \<open>A finished call: what was evaluated, what was recorded, and whether anything ran.\<close>

lemma process_one_trail:
  assumes run: "process_one K tx token k = (Inr res, k')" and ready: "ready 3 k" and "token_fits k token"
    and ty: "tx_type tx = TxType_ToolProposal"
  shows "\<exists>p kp pe au k1 k2.
      from_slice (sj_tool_proposal (kl_serde (kn_libs K))) (tx_payload tx) = Inr p
    \<and> kernel_proposal_from_tool_proposal (kn_libs K) p = Inr kp
    \<and> resolve_live_ask K (tp_tool p) (tp_args p) (tp_tool_use_id p)
        (evaluate_proposal (kl_serde (kn_libs K)) (ks_policy k) kp (sv_caps (abs (ks_store k)) (kn_agent_id K))) k1
        = (Inr (au_evaluation au), k2) \<and> ks_policy k1 = ks_policy k
    \<and> re_tx pe = tx \<and> decides pe au \<and> pr_policy_decision res = Some (au_decision_ref au)
    \<and> (case au_action au of
         None \<Rightarrow> extends [pe, au_decision_entry au] k k' \<and> ks_exec k' = ks_exec k
                  \<and> pr_tool_decision res \<noteq> Some ToolDecision_Allowed
       | Some act1 \<Rightarrow> \<exists>xe. extends [pe, au_decision_entry au, xe] k k' \<and> executes au act1 xe
                  \<and> pr_tool_decision res = Some ToolDecision_Allowed)"
proof -
  from process_one_cases [OF assms] obtain p k0 pe k1 au k2 where
    p: "from_slice (sj_tool_proposal (kl_serde (kn_libs K))) (tx_payload tx) = Inr p"
    and k0: "ks_policy k0 = ks_policy k" "ks_exec k0 = ks_exec k"
    and pe: "record_tool_proposal K tx token k0 = (Inr pe, k1)" "extends [pe] k k1" "re_tx pe = tx"
    and au: "authorize_tool_proposal K p pe (sv_caps (abs (ks_store k)) (kn_agent_id K)) k1 = (Inr au, k2)"
      "extends [pe, au_decision_entry au] k k2" "decides pe au" "ready 1 k2"
    and rest: "after_decision au k2 = (Inr res, k')"
    by blast
  have pol: "ks_policy k1 = ks_policy k"
    using spares_policyD [OF spares_policy_proposal pe(1)] k0(1) by simp
  have "ks_exec k1 = ks_exec k0"
    using spares_execD [of "record_tool_proposal K tx token" k0 "Inr pe" k1] pe(1)
    by (simp add: record_tool_proposal_def spares_append)
  then have exec2: "ks_exec k2 = ks_exec k"
    using spares_execD [OF spares_authorize au(1)] k0(2) by simp
  have "ready 1 k1" using extends_ready [OF pe(2), of 1] ready ready_less by fastforce
  from authorize_spec [OF au(1) this] pol obtain kp k3 where
    kp: "kernel_proposal_from_tool_proposal (kn_libs K) p = Inr kp"
      "resolve_live_ask K (tp_tool p) (tp_args p) (tp_tool_use_id p)
        (evaluate_proposal (kl_serde (kn_libs K)) (ks_policy k) kp (sv_caps (abs (ks_store k)) (kn_agent_id K))) k1
        = (Inr (au_evaluation au), k3)" by auto
  from after_decision_trail [OF rest au(4)]
  have fin: "pr_policy_decision res = Some (au_decision_ref au)"
    "case au_action au of
         None \<Rightarrow> extends [pe, au_decision_entry au] k k' \<and> ks_exec k' = ks_exec k
                  \<and> pr_tool_decision res \<noteq> Some ToolDecision_Allowed
       | Some act1 \<Rightarrow> \<exists>xe. extends [pe, au_decision_entry au, xe] k k' \<and> executes au act1 xe
                  \<and> pr_tool_decision res = Some ToolDecision_Allowed"
    using extends_trans [OF au(2)] exec2 by (fastforce split: option.splits)+
  show ?thesis using p kp pol pe(3) au(3) fin by blast
qed

subsection \<open>The other transactions\<close>

lemma quiet_process_tx [intro]: "quiet (process_tx K tx seq)"
  unfolding process_tx_def Let_def
  by (intro quiet_try quiet_loads) (auto split: transaction_type.splits intro!: quiet_try)

lemma process_tx_spec:
  assumes run: "process_tx K tx (of_nat (Suc (length (klog k)))) k = (Inr res, k')" and "ready 1 k"
  shows "built tx (\<lambda>b. b) (klog k) (pr_entry res)
    \<and> pr_clear_runtime_capabilities res = (tx_type tx = TxType_SessionStart)
    \<and> Inr (pr_runtime_capability_update res) = runtime_capability_update_from_tx (kn_libs K) tx
    \<and> ks_exec k' = ks_exec k
    \<and> ks_policy k' = (if tx_type tx = TxType_SessionStart then clear_session_approvals (ks_policy k) else ks_policy k)"
proof -
  obtain window k1 ch where w: "load_window K (of_nat (Suc (length (klog k)))) k = (Inr window, k1)"
    and h: "hash_tx_with_window (kn_libs K) tx window = Inr ch"
    and rest: "(let entry = (record_entry_builder (of_nat (Suc (length (klog k)))) tx) \<lparr> re_context_hash := ch \<rparr> in
      case tx_type tx of
        TxType_SessionStart \<Rightarrow>
          try_then (on_policy clear_session_approvals) (\<lambda>_.
            ok ((plain_result entry) \<lparr> pr_clear_runtime_capabilities := True \<rparr>))
      | TxType_System \<Rightarrow>
          try_then (lift_res (res_map_err
                (\<lambda>e. KernelError_Serialization (''deserialize capability install: '' @ serde_message e))
                (runtime_capability_update_from_tx (kn_libs K) tx))) (\<lambda>update.
            ok ((plain_result entry) \<lparr> pr_runtime_capability_update := update \<rparr>))
      | _ \<Rightarrow> ok (plain_result entry)) k1 = (Inr res, k')"
    using run unfolding process_tx_def by (auto elim!: try_then_InrE simp del: of_nat_Suc)
  have k1: "ks_exec k1 = ks_exec k" "ks_policy k1 = ks_policy k"
    using w by (auto simp: load_window_def on_store_def split: prod.splits)
  have "window = window_of (kc_record_window_size (kn_config K)) (klog k)"
    using load_window_value [OF w assms(2)] .
  with h rest k1 show ?thesis
    by (auto simp: built_def Let_def plain_result_def on_policy_def try_then_def res_map_err_def
        runtime_capability_update_from_tx_def simp del: of_nat_Suc
        split: transaction_type.splits sum.splits if_splits)
qed

text \<open>The plain path shared by direct and dequeued processing.\<close>

definition process_plain ::
  "string \<Rightarrow> transaction \<Rightarrow> dequeue_token option \<Rightarrow> ('s, 'x, 'u, process_result) kernel_act" where
  "process_plain label tx token =
    try_then (next_seq K) (\<lambda>seq.
    try_then (process_tx K tx seq) (\<lambda>result.
    try_then (on_store (store_fault K label)
        (store_append seq (pr_entry result) token (pr_runtime_capability_update result)
           (pr_clear_runtime_capabilities result))) (\<lambda>_.
      ok result)))"

lemma process_plain_spec:
  assumes run: "process_plain label tx token k = (r, k')" and ready: "ready 1 k" and fits: "token_fits k token"
    and ty: "tx_type tx \<noteq> TxType_PolicyDecision" "tx_type tx \<noteq> TxType_ToolExecution"
  shows "keeps 1 k k' \<and> (\<forall>res. r = Inr res \<longrightarrow> extends [pr_entry res] k k' \<and> re_tx (pr_entry res) = tx)"
  using run [unfolded process_plain_def] quiet_loads(1) ready
proof (cases rule: quiet_then)
  case s: (run seq k1)
  have seq: "seq = of_nat (Suc (length (klog k1)))" using next_seq_value [OF s(1)] s(5) by simp
  from s(2) quiet_process_tx s(3) show ?thesis
  proof (cases rule: quiet_then)
    case fail
    then show ?thesis using extends_same [OF _ s(4)] by (auto intro: keeps_less [OF keeps_extends_Nil])
  next
    case p: (run res k2)
    have abs2: "abs (ks_store k2) = abs (ks_store k)" using p(4) s(4) by simp
    have b: "built tx (\<lambda>b. b) (klog k) (pr_entry res)"
      using process_tx_spec [OF p(1) [unfolded seq] s(3)] s(5) by simp
    have audit: "audit_entry (kn_libs K) (kc_record_window_size (kn_config K)) (klog k) (pr_entry res)"
      using proposal_audit [OF b ty] .
    from p(2) show ?thesis
    proof (cases rule: try_then_cases)
      case (fail e)
      then show ?thesis
        using extends_same [OF store_append_Inl [OF fail(1) p(3)] abs2]
        by (auto intro: keeps_less [OF keeps_extends_Nil])
    next
      case (run u k3)
      then have "extends [pr_entry res] k k'"
        using extends_same [OF _ abs2] store_append_Inr [OF run(1) p(3) token_fits_same [OF fits abs2]] by auto
      then show ?thesis
        using run keeps_entry [OF _ audit] built_plain_simps(1) [OF b] by auto
    qed
  qed
qed (auto intro: keeps_less [OF keeps_extends_Nil])

lemma process_direct_plain:
  "tx_type tx \<noteq> TxType_ToolProposal \<Longrightarrow> tx_type tx \<noteq> TxType_PolicyDecision \<Longrightarrow>
   tx_type tx \<noteq> TxType_ToolExecution \<Longrightarrow>
   process_direct K tx = process_plain ''append_entry_direct_with_runtime_capabilities'' tx None"
  "tx_type tx \<noteq> TxType_ToolProposal \<Longrightarrow> tx_type tx \<noteq> TxType_PolicyDecision \<Longrightarrow>
   tx_type tx \<noteq> TxType_ToolExecution \<Longrightarrow>
   process_dequeued K tx t = process_plain ''append_entry_dequeued_with_runtime_capabilities'' tx (Some t)"
  by (simp_all add: process_direct_def process_dequeued_def process_plain_def reject_kernel_only_def
      store_append_def try_then_def [of "lift_res _"] fun_eq_iff)

lemma process_direct_tool:
  "tx_type tx = TxType_ToolProposal \<Longrightarrow> process_direct K tx = process_one K tx None"
  "tx_type tx = TxType_ToolProposal \<Longrightarrow> process_dequeued K tx t = process_one K tx (Some t)"
  by (simp_all add: process_direct_def process_dequeued_def reject_kernel_only_def process_tool_proposal_def
      try_then_def [of "lift_res _"] fun_eq_iff)

lemma process_direct_reject:
  "tx_type tx = TxType_PolicyDecision \<or> tx_type tx = TxType_ToolExecution \<Longrightarrow>
   \<exists>e. process_direct K tx k = (Inl e, k) \<and> process_dequeued K tx t k = (Inl e, k)"
  by (auto simp: process_direct_def process_dequeued_def reject_kernel_only_def try_then_def)

lemma process_keeps:
  assumes "process_direct K tx k = (r, k') \<and> token = None \<or> process_dequeued K tx t k = (r, k') \<and> token = Some t"
    and "ready 3 k" "token_fits k token"
  shows "keeps 3 k k'"
proof (cases "tx_type tx = TxType_PolicyDecision \<or> tx_type tx = TxType_ToolExecution")
  case True
  with assms(1) process_direct_reject [OF True, of k t] have "k' = k" by auto
  with assms(2) show ?thesis using keeps_less [OF keeps_extends_Nil [OF extends_refl]] by blast
next
  case False
  show ?thesis
  proof (cases "tx_type tx = TxType_ToolProposal")
    case True
    then have "process_one K tx token k = (r, k')" using assms(1) process_direct_tool [OF True] by auto
    then show ?thesis using process_one_cases [OF _ assms(2,3) True] by blast
  next
    case plain: False
    then have "\<exists>label. process_plain label tx token k = (r, k')"
      using assms(1) False process_direct_plain [OF plain] by auto
    then show ?thesis
      using process_plain_spec [OF _ ready_less [OF assms(2)] assms(3)] False keeps_less [of 1 k k' 3] by auto
  qed
qed

subsection \<open>The batch flow\<close>

definition recorded :: "('s, 'x, 'u) kernel_state \<Rightarrow> authorized \<Rightarrow> bool" where
  "recorded k au = (au_decision_entry au \<in> set (klog k) \<and> (\<exists>pe. decides pe au))"

lemma recorded_keeps: "keeps n k k' \<Longrightarrow> recorded k au \<Longrightarrow> recorded k' au"
  by (auto simp: recorded_def intro: keeps_mem)

lemma tool_proposal_tx: "tx_tool_proposal J b now a p = Inr tx \<Longrightarrow> tx_type tx = TxType_ToolProposal"
  by (auto simp: tx_tool_proposal_def res_bind_Inr_iff tx_new_chained_def)

text \<open>One proposal of the batch: drawn, encoded, recorded and decided.\<close>

definition authorize_next ::
  "runtime_capability_install option \<Rightarrow> tool_proposal \<Rightarrow> ('s, 'x, 'u, authorized) kernel_act" where
  "authorize_next rc p =
    try_then (draw (kl_clock (kn_libs K))) (\<lambda>now.
    try_then (lift_res (res_map_err
        (\<lambda>e. KernelError_Serialization (aura_error_message (kl_hex (kn_libs K)) e))
        (tx_tool_proposal (kl_serde (kn_libs K)) (kl_blake3 (kn_libs K)) now (kn_agent_id K) p))) (\<lambda>tx.
    try_then (record_tool_proposal K tx None) (\<lambda>proposal_entry.
      authorize_tool_proposal K p proposal_entry rc)))"

lemma authorize_all_Cons:
  "authorize_all K rc (p # ps) =
    try_then (authorize_next rc p) (\<lambda>au. try_then (authorize_all K rc ps) (\<lambda>aus. ok (au # aus)))"
  by (auto simp: authorize_next_def fun_eq_iff try_then_def split: prod.splits sum.splits)

lemma authorize_next_keeps:
  assumes run: "authorize_next rc p k = (r, k')" and ready: "ready 2 k"
  shows "keeps 2 k k' \<and> (\<forall>au. r = Inr au \<longrightarrow> recorded k' au)"
  using run [unfolded authorize_next_def] quiet_basic(8) ready
proof (cases rule: quiet_then)
  case d: (run now k1)
  from d(2) quiet_basic(3) d(3) show ?thesis
  proof (cases rule: quiet_then)
    case fail
    then show ?thesis using extends_same [OF _ d(4)] by (auto intro: keeps_less [OF keeps_extends_Nil])
  next
    case x: (run tx k2)
    have ty: "tx_type tx = TxType_ToolProposal"
      using x(1) by (auto simp: res_map_err_def split: sum.splits intro: tool_proposal_tx)
    have keep2: "keeps 0 k k2"
      using keeps_extends_Nil [OF extends_same [OF quiet_extends [OF quiet_basic(3) x(1) d(3)] d(4)]] .
    have ready2: "ready 1 k2" "ready (1 + 1) k2" using x(3) ready_less [of 2 k2 1] by (simp_all add: numeral_2_eq_2)
    from x(2) show ?thesis
    proof (cases rule: try_then_cases)
      case (fail e)
      then show ?thesis
        using keeps_less [OF keeps_trans [OF keep2]] proposal_keeps [OF fail(1) ready2(1) _ ty]
        by (auto simp: token_fits_def)
    next
      case pe: (run pe k3)
      have kp: "keeps 1 k2 k3" "pe \<in> set (klog k3)" "entry_type pe = TxType_ToolProposal"
        using proposal_keeps [OF pe(1) ready2(1) _ ty] by (auto simp: token_fits_def)
      have ready3: "ready 1 k3" using keeps_ready [OF kp(1) ready2(2)] .
      note ak = authorize_keeps [OF pe(2) ready3 kp(2,3)]
      have "keeps 2 k k'"
        using keeps_trans [OF keeps_trans [OF keep2 kp(1)] conjunct1 [OF ak]] by (simp add: numeral_2_eq_2)
      with ak show ?thesis by (auto simp: recorded_def)
    qed
  qed
qed (auto intro: keeps_less [OF keeps_extends_Nil])

lemma authorize_all_keeps:
  assumes "authorize_all K rc ps k = (r, k')" "ready (2 * length ps) k"
  shows "keeps (2 * length ps) k k'
    \<and> (\<forall>aus. r = Inr aus \<longrightarrow> length aus = length ps \<and> (\<forall>au \<in> set aus. recorded k' au))"
  using assms
proof (induction ps arbitrary: k r)
  case Nil
  then show ?case by (auto intro: keeps_extends_Nil [OF extends_refl])
next
  case (Cons p ps)
  have rd: "ready 2 k" "ready (2 + 2 * length ps) k" using Cons.prems(2) ready_less by fastforce+
  from Cons.prems(1) [unfolded authorize_all_Cons] show ?case
  proof (cases rule: try_then_cases)
    case (fail e)
    with authorize_next_keeps [OF fail(1) rd(1)] show ?thesis by (auto intro: keeps_less)
  next
    case (run au k1)
    note ka = authorize_next_keeps [OF run(1) rd(1)]
    have "ready (2 * length ps) k1" using keeps_ready [OF conjunct1 [OF ka] rd(2)] .
    from run(2) obtain r2 where r2: "authorize_all K rc ps k1 = (r2, k')"
      "r = (case r2 of Inl e \<Rightarrow> Inl e | Inr aus \<Rightarrow> Inr (au # aus))"
      by (cases rule: try_then_cases) auto
    note kb = Cons.IH [OF r2(1) \<open>ready (2 * length ps) k1\<close>]
    have "keeps (2 * length (p # ps)) k k'"
      using keeps_trans [OF conjunct1 [OF ka] conjunct1 [OF kb]] by simp
    moreover have "recorded k' au"
      using ka recorded_keeps [OF conjunct1 [OF kb]] by blast
    ultimately show ?thesis using kb r2(2) by (auto split: sum.splits)
  qed
qed

lemma quiet_plan [intro]: "quiet (plan_slots K aus)"
proof (induction aus)
  case (Cons au aus)
  then show ?case
    unfolding plan_slots.simps by (intro quiet_try quiet_basic) (auto split: option.splits intro!: quiet_try)
qed (unfold plan_slots.simps, rule quiet_basic)

lemma quiet_dispatch_slots [intro]: "quiet (dispatch_slots K slots)"
proof (induction slots)
  case (Cons slot slots)
  then show ?case
    unfolding dispatch_slots.simps
    by (intro quiet_try quiet_basic) (auto split: batch_slot.splits intro!: quiet_try)
qed (unfold dispatch_slots.simps, rule quiet_basic)

lemma record_slots_keeps:
  assumes "record_slots K slots k = (r, k')" "ready (length slots) k" "\<forall>slot \<in> set slots. recorded k (fst slot)"
  shows "keeps (length slots) k k'"
  using assms
proof (induction slots arbitrary: k r)
  case Nil
  then show ?case by (auto intro: keeps_extends_Nil [OF extends_refl])
next
  case (Cons slot slots)
  have rd: "ready 1 k" "ready (1 + length slots) k" using Cons.prems(2) ready_less by fastforce+
  have slot: "keeps 1 k k1" if "(case au_action (fst slot) of
        Some act1 \<Rightarrow>
          (case snd slot of
             Some effect0 \<Rightarrow> try_then (record_tool_execution K (fst slot) act1 effect0) (\<lambda>ex. ok (Some ex))
           | None \<Rightarrow> err (KernelError_Internal ''allowed verdict must have produced an effect''))
      | None \<Rightarrow> ok None) k = (r1, k1)" for r1 k1
  proof (cases "\<exists>act1 eff r2. au_action (fst slot) = Some act1 \<and> record_tool_execution K (fst slot) act1 eff k = (r2, k1)")
    case True
    then show ?thesis
      using execution_keeps [OF _ rd(1)] Cons.prems(3) by (auto simp: recorded_def)
  next
    case False
    then have "k1 = k" using that
      by (auto simp: try_then_def split: option.splits prod.splits sum.splits)
    then show ?thesis using keeps_less [OF keeps_extends_Nil [OF extends_refl [OF rd(1)]]] by auto
  qed
  from Cons.prems(1) [unfolded record_slots.simps] show ?case
  proof (cases rule: try_then_cases)
    case (fail e)
    then show ?thesis using slot keeps_less by fastforce
  next
    case (run ex k1)
    note ks = slot [OF run(1)]
    from run(2) obtain r2 where "record_slots K slots k1 = (r2, k')"
      by (cases rule: try_then_cases) auto
    then have "keeps (length slots) k1 k'"
      using Cons.IH keeps_ready [OF ks rd(2)] recorded_keeps [OF ks] Cons.prems(3) by simp
    then show ?thesis using keeps_trans [OF ks] by fastforce
  qed
qed

lemma process_many_keeps:
  assumes run: "process_many K ps k = (r, k')" and ready: "ready (3 * length ps) k"
  shows "keeps (3 * length ps) k k'"
proof (cases "ps = []")
  case True
  with run ready show ?thesis by (auto simp: process_many_def intro: keeps_extends_Nil [OF extends_refl])
next
  case False
  let ?n = "length ps"
  from run [unfolded process_many_def] False
  have "try_then (load_runtime_capabilities K) (\<lambda>rc.
       try_then (authorize_all K rc ps) (\<lambda>aus.
       try_then (create_workspace K) (\<lambda>_.
       try_then (plan_slots K aus) (\<lambda>slots.
       try_then (dispatch_slots K slots) (\<lambda>effects.
         record_slots K (zip aus effects)))))) k = (r, k')" by simp
  then show ?thesis
    using quiet_loads(3) ready
  proof (cases rule: quiet_then)
    case fail
    then show ?thesis by (auto intro: keeps_less [OF keeps_extends_Nil])
  next
    case rc: (run rc k1)
    have keep1: "keeps 0 k k1" using quiet_keeps [OF quiet_loads(3) rc(1) ready] .
    have rd: "ready (2 * ?n) k1" "ready (2 * ?n + ?n) k1" using rc(3) ready_less by fastforce+
    from rc(2) show ?thesis
    proof (cases rule: try_then_cases)
      case (fail e)
      then show ?thesis
        using keeps_trans [OF keep1 conjunct1 [OF authorize_all_keeps [OF fail(1) rd(1)]]]
        by (auto intro: keeps_less)
    next
      case au: (run aus k2)
      note ka = authorize_all_keeps [OF au(1) rd(1)]
      have keep2: "keeps (2 * ?n) k k2" using keeps_trans [OF keep1 conjunct1 [OF ka]] by simp
      have rd2: "ready ?n k2" using keeps_ready [OF conjunct1 [OF ka] rd(2)] .
      have q: "quiet (try_then (create_workspace K) (\<lambda>_. try_then (plan_slots K aus) (dispatch_slots K)))" by blast
      have "try_then (try_then (create_workspace K) (\<lambda>_. try_then (plan_slots K aus) (dispatch_slots K)))
          (\<lambda>effects. record_slots K (zip aus effects)) k2 = (r, k')"
        using au(2) by (auto simp: try_then_def split: prod.splits sum.splits)
      then show ?thesis
        using q rd2
      proof (cases rule: quiet_then)
        case fail
        then show ?thesis
          using keeps_less [OF keeps_trans [OF keep2 keeps_extends_Nil], of k' "3 * ?n"] by simp
      next
        case (run effects k3)
        have "ready (length (zip aus effects)) k3" using run(3) ready_less ka by fastforce
        moreover have "\<forall>slot \<in> set (zip aus effects). recorded k3 (fst slot)"
          using ka run(5) by (auto simp: recorded_def dest: set_zip_leftD)
        ultimately have "keeps (length (zip aus effects)) k3 k'"
          using record_slots_keeps [OF run(2)] by blast
        then have "keeps ?n k3 k'" using ka keeps_less by fastforce
        moreover have "keeps 0 k2 k3"
          using run(3-5) by (intro keeps_extends_Nil) (auto simp: extends_def ready_def klog_def)
        ultimately show ?thesis
          using keeps_trans [OF keeps_trans [OF keep2]] by fastforce
      qed
    qed
  qed
qed

text \<open>Every approved slot has an effect when it is recorded, so the batch cannot panic.\<close>

lemma plan_shape:
  "plan_slots K aus k = (Inr slots, k') \<Longrightarrow>
   list_all2 (\<lambda>au slot. slot = Slot_Denied \<longleftrightarrow> au_action au = None) aus slots"
proof (induction aus arbitrary: k slots)
  case (Cons au aus)
  from Cons.prems obtain slot k1 rest where "plan_slots K aus k1 = (Inr rest, k')" "slots = slot # rest"
    "slot = Slot_Denied \<longleftrightarrow> au_action au = None"
    by (fastforce elim!: try_then_InrE split: option.splits)
  with Cons.IH show ?case by simp
qed simp

lemma dispatch_shape:
  "dispatch_slots K slots k = (Inr effects, k') \<Longrightarrow>
   list_all2 (\<lambda>slot effect. effect = None \<longleftrightarrow> slot = Slot_Denied) slots effects"
proof (induction slots arbitrary: k effects)
  case (Cons slot slots)
  from Cons.prems obtain eff k1 rest where "dispatch_slots K slots k1 = (Inr rest, k')" "effects = eff # rest"
    "eff = None \<longleftrightarrow> slot = Slot_Denied"
    by (fastforce elim!: try_then_InrE split: batch_slot.splits)
  with Cons.IH show ?case by simp
qed simp

lemma approved_has_effect:
  assumes "plan_slots K aus k = (Inr slots, k1)" "dispatch_slots K slots k1 = (Inr effects, k2)"
  shows "length effects = length aus"
    "\<forall>(au, eff) \<in> set (zip aus effects). au_action au \<noteq> None \<longrightarrow> eff \<noteq> None"
  using plan_shape [OF assms(1)] dispatch_shape [OF assms(2)]
  by (auto simp: list_all2_conv_all_nth set_zip)

subsection \<open>Runs of commands\<close>

lemma exec_cmd_keeps:
  assumes "ready (cmd_cost cmd) k"
  shows "keeps (cmd_cost cmd) k (exec_cmd K cmd k)"
proof (cases cmd)
  case (Cmd_Direct tx)
  obtain r k' where "process_direct K tx k = (r, k')" by fastforce
  with Cmd_Direct assms show ?thesis
    using process_keeps [of tx k r k' None] by (simp add: token_fits_def)
next
  case Cmd_Dequeue
  obtain r s' where d: "so_dequeue_tx (kn_ops K) (kn_agent_id K) (ks_store k) = (r, s')" by fastforce
  let ?k = "k \<lparr> ks_store := s' \<rparr>"
  have same: "abs (ks_store ?k) = abs (ks_store k)" and i: "inv (ks_store ?k) = inv (ks_store k)"
    using dequeue_ok [OF d] by simp_all
  have rd: "ready 3 ?k" using assms same i by (simp add: Cmd_Dequeue ready_def klog_def)
  have k0: "keeps 0 k ?k"
    using rd same by (intro keeps_extends_Nil) (simp add: extends_def ready_def klog_def)
  show ?thesis
  proof (cases "\<exists>t tx. r = Inr (Some (t, tx))")
    case True
    then obtain t tx where r: "r = Inr (Some (t, tx))" by blast
    obtain r2 k2 where p: "process_dequeued K tx t ?k = (r2, k2)" by fastforce
    have "token_fits ?k (Some t)"
      using dequeue_ok [OF d] r assms same by (auto simp: token_fits_def ready_def)
    with p have "keeps 3 ?k k2" using process_keeps [OF _ rd, of tx r2 k2 "Some t" t] by blast
    with d r p show ?thesis using keeps_trans [OF k0] by (fastforce simp: Cmd_Dequeue)
  next
    case False
    then have "exec_cmd K cmd k = ?k"
      using d by (auto simp: Cmd_Dequeue split: sum.splits option.splits)
    with k0 show ?thesis by (auto intro: keeps_less)
  qed
next
  case (Cmd_Tools ps)
  obtain r k' where "process_many K ps k = (r, k')" by fastforce
  with Cmd_Tools assms show ?thesis using process_many_keeps [of ps k r k'] by simp
qed

lemma exec_cmds_keep:
  assumes "ready (sum_list (map cmd_cost cmds)) k"
  shows "keeps (sum_list (map cmd_cost cmds)) k (exec_cmds K cmds k)"
  using assms
proof (induction cmds arbitrary: k)
  case Nil
  then show ?case by (auto simp: exec_cmds_def intro: keeps_extends_Nil [OF extends_refl])
next
  case (Cons cmd cmds)
  have rd: "ready (cmd_cost cmd + sum_list (map cmd_cost cmds)) k" using Cons.prems by simp
  then have k1: "keeps (cmd_cost cmd) k (exec_cmd K cmd k)"
    by (intro exec_cmd_keeps) (auto intro: ready_less)
  from keeps_trans [OF k1 Cons.IH [OF keeps_ready [OF k1 rd]]]
  show ?case by (simp add: exec_cmds_def)
qed

end

section \<open>The kernel over RocksStore\<close>

lemma kernel_logI:
  assumes "store_ok E V" "kn_ops K = rocks_ops E" "codec_ok (sj_policy_decision (kl_serde (kn_libs K)))"
  shows "kernel_log K (\<lambda>s. rocks_view E (V (rk_db s))) (\<lambda>s. view_inv E (V (rk_db s)))"
proof (rule kernel_log.intro)
  show "inbox_store (kn_ops K) (\<lambda>s. rocks_view E (V (rk_db s))) (\<lambda>s. view_inv E (V (rk_db s)))"
    using rocks_env.rocks_inbox_store [OF rocks_envI [OF assms(1)]] by (simp add: assms(2))
  show "kernel_log_axioms K"
    by (rule kernel_log_axioms.intro) (rule assms(3))
qed

lemma rocks_view_simps [simp]:
  "sv_log (rocks_view E W) = log_view E W" "sv_caps (rocks_view E W) = caps_view E W"
  "sv_inbox (rocks_view E W) = inbox_view E W"
  by (simp_all add: rocks_view_def)

text \<open>The agent's record log, as the store keeps it.\<close>

definition kernel_log_of :: "'db store_env \<Rightarrow> ('db \<Rightarrow> view) \<Rightarrow> ('db rocks_state, 'x, 'u) kernel_state \<Rightarrow>
    agent_id \<Rightarrow> record_entry list" where
  "kernel_log_of E V k a = log_view E (V (rk_db (ks_store k))) a"

text \<open>
  Property C1: whatever a kernel over RocksStore is asked to do (transactions from direct sources,
  transactions from the inbox, batches of tool proposals, in any order and with any of them
  failing), its agent's record log stays an audit log: it only grows, each entry carries the next
  sequence number and the context hash of the window before it, a policy decision refers to an
  earlier proposal, and an execution refers to an earlier recorded decision that approved its
  action.  No other agent's log changes.
\<close>

theorem kernel_keeps_audit_log:
  assumes "store_ok E V" and "kn_ops K = rocks_ops E"
    and "codec_ok (sj_policy_decision (kl_serde (kn_libs K)))"
    and "view_inv E (V (rk_db (ks_store k)))"
    and "audit_log (kn_libs K) (kc_record_window_size (kn_config K)) (kernel_log_of E V k (kn_agent_id K))"
    and "length (kernel_log_of E V k (kn_agent_id K)) + sum_list (map cmd_cost cmds) < 2 ^ 64"
  shows "view_inv E (V (rk_db (ks_store (exec_cmds K cmds k))))
    \<and> audit_log (kn_libs K) (kc_record_window_size (kn_config K))
        (kernel_log_of E V (exec_cmds K cmds k) (kn_agent_id K))
    \<and> prefix (kernel_log_of E V k (kn_agent_id K)) (kernel_log_of E V (exec_cmds K cmds k) (kn_agent_id K))
    \<and> (\<forall>b. b \<noteq> kn_agent_id K \<longrightarrow> kernel_log_of E V (exec_cmds K cmds k) b = kernel_log_of E V k b)"
proof -
  note kl = kernel_logI [OF assms(1-3)]
  note defs = kernel_log.klog_def [OF kl] kernel_log.ready_def [OF kl] kernel_log.keeps_def [OF kl]
    kernel_log.extends_def [OF kl]
  have "kernel_log.ready K (\<lambda>s. rocks_view E (V (rk_db s))) (\<lambda>s. view_inv E (V (rk_db s)))
      (sum_list (map cmd_cost cmds)) k"
    using assms(4,6) by (simp add: defs kernel_log_of_def)
  from kernel_log.exec_cmds_keep [OF kl this] show ?thesis
    using assms(5) by (auto simp: defs kernel_log_of_def prefix_def)
qed

text \<open>
  A tool call submitted to a kernel over RocksStore and finished by it, with the facts of the
  locale written out over the store.
\<close>

lemma gate_approved_iff: "gate_verdict v = Gate_Approved \<longleftrightarrow> v = Verdict_Allow"
  by (cases v) simp_all

text \<open>What a finished call has appended, and what the caller is told, given its decision.\<close>

definition settled ::
  "('s, 'x, 'u) kernel_state \<Rightarrow> ('s, 'x, 'u) kernel_state \<Rightarrow> process_result \<Rightarrow> record_entry \<Rightarrow> authorized \<Rightarrow>
   record_entry list \<Rightarrow> record_entry list \<Rightarrow> bool" where
  "settled k k' res pe au es es' =
    (case au_action au of
       None \<Rightarrow> es' = es @ [pe, au_decision_entry au] \<and> ks_exec k' = ks_exec k
         \<and> pr_tool_decision res \<noteq> Some ToolDecision_Allowed
     | Some act1 \<Rightarrow> (\<exists>xe. es' = es @ [pe, au_decision_entry au, xe] \<and> entry_type xe = TxType_ToolExecution
         \<and> tx_reference (re_tx xe) = Some (tx_hash (re_tx (au_decision_entry au)))
         \<and> re_actions xe = [act1]) \<and> pr_tool_decision res = Some ToolDecision_Allowed)"

lemma direct_trail:
  assumes "store_ok E V" and "kn_ops K = rocks_ops E"
    and "codec_ok (sj_policy_decision (kl_serde (kn_libs K)))"
    and "view_inv E (V (rk_db (ks_store k)))" "length (kernel_log_of E V k (kn_agent_id K)) + 3 < 2 ^ 64"
    and ty: "tx_type tx = TxType_ToolProposal" and run: "process_direct K tx k = (Inr res, k')"
  obtains p kp pe au k1 k2 where
    "from_slice (sj_tool_proposal (kl_serde (kn_libs K))) (tx_payload tx) = Inr p"
    "kernel_proposal_from_tool_proposal (kn_libs K) p = Inr kp"
    "resolve_live_ask K (tp_tool p) (tp_args p) (tp_tool_use_id p)
       (evaluate_proposal (kl_serde (kn_libs K)) (ks_policy k) kp
          (caps_view E (V (rk_db (ks_store k))) (kn_agent_id K))) k1 = (Inr (au_evaluation au), k2)"
    "ks_policy k1 = ks_policy k" "re_tx pe = tx" "kernel_log.decides K pe au" "pr_policy_decision res = Some (au_decision_ref au)"
    "settled k k' res pe au (kernel_log_of E V k (kn_agent_id K)) (kernel_log_of E V k' (kn_agent_id K))"
proof -
  note kl = kernel_logI [OF assms(1-3)]
  note defs = kernel_log.klog_def [OF kl] kernel_log.extends_def [OF kl] kernel_log.executes_def [OF kl]
    kernel_log.ready_def [OF kl] kernel_log.token_fits_def [OF kl] kernel_log_of_def
  from run ty have one: "process_one K tx None k = (Inr res, k')"
    by (simp add: process_direct_def process_tool_proposal_def reject_kernel_only_def try_then_def)
  have fin: "settled k k' res pe au (kernel_log_of E V k (kn_agent_id K)) (kernel_log_of E V k' (kn_agent_id K))"
    if "case au_action au of
         None \<Rightarrow> kernel_log.extends K (\<lambda>s. rocks_view E (V (rk_db s))) (\<lambda>s. view_inv E (V (rk_db s)))
                    [pe, au_decision_entry au] k k' \<and> ks_exec k' = ks_exec k
                  \<and> pr_tool_decision res \<noteq> Some ToolDecision_Allowed
       | Some act1 \<Rightarrow> \<exists>xe. kernel_log.extends K (\<lambda>s. rocks_view E (V (rk_db s))) (\<lambda>s. view_inv E (V (rk_db s)))
                    [pe, au_decision_entry au, xe] k k' \<and> kernel_log.executes au act1 xe
                  \<and> pr_tool_decision res = Some ToolDecision_Allowed" for pe au
    using that by (auto simp: defs settled_def split: option.splits)
  have "kernel_log.ready K (\<lambda>s. rocks_view E (V (rk_db s))) (\<lambda>s. view_inv E (V (rk_db s))) 3 k"
    "kernel_log.token_fits K (\<lambda>s. rocks_view E (V (rk_db s))) k None"
    using assms(4,5) by (simp_all add: defs)
  from kernel_log.process_one_trail [OF kl one this ty] show thesis
    using fin that by (simp only: rocks_view_simps) blast
qed

text \<open>
  Property C2: a tool call that the kernel finishes leaves its whole trail.  The proposal is
  recorded as it was submitted; the decision that follows refers to it and its payload is the
  decision the caller is told; and then either the decision approved the call, and one execution
  entry with the accepted action refers back to that decision, or it did not, and no executor was
  touched and the caller is not told that the call was allowed.
\<close>

theorem tool_call_trail:
  assumes "store_ok E V" and "kn_ops K = rocks_ops E"
    and "codec_ok (sj_policy_decision (kl_serde (kn_libs K)))"
    and "view_inv E (V (rk_db (ks_store k)))" "length (kernel_log_of E V k (kn_agent_id K)) + 3 < 2 ^ 64"
    and ty: "tx_type tx = TxType_ToolProposal" and run: "process_direct K tx k = (Inr res, k')"
  shows "\<exists>pe de ref. pr_policy_decision res = Some ref
    \<and> re_tx pe = tx \<and> entry_type de = TxType_PolicyDecision
    \<and> tx_reference (re_tx de) = Some (tx_hash tx) \<and> pdr_seq ref = re_seq de
    \<and> from_slice (sj_policy_decision (kl_serde (kn_libs K))) (tx_payload (re_tx de)) = Inr (pdr_decision ref)
    \<and> (if pd_verdict (pdr_decision ref) = Gate_Approved
       then \<exists>xe act1. kernel_log_of E V k' (kn_agent_id K) = kernel_log_of E V k (kn_agent_id K) @ [pe, de, xe]
              \<and> entry_type xe = TxType_ToolExecution \<and> tx_reference (re_tx xe) = Some (tx_hash (re_tx de))
              \<and> re_actions xe = [act1] \<and> ac_action_id act1 \<in> set (dc_accepted_action_ids (re_decision de))
              \<and> pr_tool_decision res = Some ToolDecision_Allowed
       else kernel_log_of E V k' (kn_agent_id K) = kernel_log_of E V k (kn_agent_id K) @ [pe, de]
              \<and> ks_exec k' = ks_exec k \<and> pr_tool_decision res \<noteq> Some ToolDecision_Allowed)"
proof -
  from direct_trail [OF assms] obtain pe au where
    d: "re_tx pe = tx" "kernel_log.decides K pe au" "pr_policy_decision res = Some (au_decision_ref au)"
    and s: "settled k k' res pe au (kernel_log_of E V k (kn_agent_id K)) (kernel_log_of E V k' (kn_agent_id K))"
    by metis
  note dec = d(2) [unfolded kernel_log.decides_def [OF kernel_logI [OF assms(1-3)]]]
  then have "au_action au \<noteq> None \<longleftrightarrow> pd_verdict (pdr_decision (au_decision_ref au)) = Gate_Approved"
    by (simp add: gate_approved_iff)
  then show ?thesis
    using dec d(1,3) s
    by - (rule exI [of _ pe], rule exI [of _ "au_decision_entry au"], rule exI [of _ "au_decision_ref au"],
      auto simp: settled_def split: option.splits)
qed

text \<open>
  Property C3: a denial of the policy is final.  When the policy evaluation of the proposal denies
  it, no hook, prompt or remembered approval changes that: the recorded decision is a denial by the
  same rule with the same trace, no executor is touched and only proposal and decision are appended.
\<close>

theorem policy_denial_final:
  assumes "store_ok E V" and "kn_ops K = rocks_ops E"
    and "codec_ok (sj_policy_decision (kl_serde (kn_libs K)))"
    and "view_inv E (V (rk_db (ks_store k)))" "length (kernel_log_of E V k (kn_agent_id K)) + 3 < 2 ^ 64"
    and "tx_type tx = TxType_ToolProposal" and "process_direct K tx k = (Inr res, k')"
    and p: "from_slice (sj_tool_proposal (kl_serde (kn_libs K))) (tx_payload tx) = Inr p"
    and kp: "kernel_proposal_from_tool_proposal (kn_libs K) p = Inr kp"
    and ev: "evaluate_proposal (kl_serde (kn_libs K)) (ks_policy k) kp
        (caps_view E (V (rk_db (ks_store k))) (kn_agent_id K)) = ev"
    and deny: "ev_verdict ev = Verdict_Deny why"
  shows "\<exists>pe de pd. kernel_log_of E V k' (kn_agent_id K) = kernel_log_of E V k (kn_agent_id K) @ [pe, de]
    \<and> ks_exec k' = ks_exec k \<and> pr_tool_decision res \<noteq> Some ToolDecision_Allowed
    \<and> from_slice (sj_policy_decision (kl_serde (kn_libs K))) (tx_payload (re_tx de)) = Inr pd
    \<and> pd_verdict pd = Gate_Denied \<and> pd_decided_by pd = ev_decided_by ev \<and> pd_trace pd = ev_trace ev"
proof -
  from direct_trail [OF assms(1-7)] p kp ev obtain pe au k1 k2 where
    r: "resolve_live_ask K (tp_tool p) (tp_args p) (tp_tool_use_id p) ev k1 = (Inr (au_evaluation au), k2)"
    and d: "kernel_log.decides K pe au"
    and s: "settled k k' res pe au (kernel_log_of E V k (kn_agent_id K)) (kernel_log_of E V k' (kn_agent_id K))"
    by (metis sum.inject(2))
  note dec = d [unfolded kernel_log.decides_def [OF kernel_logI [OF assms(1-3)]]]
  have "au_evaluation au = ev" using r by (simp add: resolve_deny [OF deny])
  with dec deny have "au_action au = None" "pd_verdict (pdr_decision (au_decision_ref au)) = Gate_Denied"
    "pd_decided_by (pdr_decision (au_decision_ref au)) = ev_decided_by ev"
    "pd_trace (pdr_decision (au_decision_ref au)) = ev_trace ev"
    by simp_all
  with s dec show ?thesis by (auto simp: settled_def)
qed

text \<open>
  Property C4: nothing is allowed without an author.  When the caller is told that a call was
  allowed, either the policy's own evaluation allowed it, or a live session with a prompter was
  asked: then the recorded decision names the approver and was decided by the user or by a
  permission hook.
\<close>

theorem approval_has_author:
  assumes "store_ok E V" and "kn_ops K = rocks_ops E"
    and "codec_ok (sj_policy_decision (kl_serde (kn_libs K)))"
    and "view_inv E (V (rk_db (ks_store k)))" "length (kernel_log_of E V k (kn_agent_id K)) + 3 < 2 ^ 64"
    and "tx_type tx = TxType_ToolProposal" and "process_direct K tx k = (Inr res, k')"
    and p: "from_slice (sj_tool_proposal (kl_serde (kn_libs K))) (tx_payload tx) = Inr p"
    and kp: "kernel_proposal_from_tool_proposal (kn_libs K) p = Inr kp"
    and allowed: "pr_tool_decision res = Some ToolDecision_Allowed"
  shows "verdict_is_allowed (ev_verdict (evaluate_proposal (kl_serde (kn_libs K)) (ks_policy k) kp
           (caps_view E (V (rk_db (ks_store k))) (kn_agent_id K))))
    \<or> (\<exists>ref ap. pr_policy_decision res = Some ref \<and> pd_approval (pdr_decision ref) = Some ap
         \<and> rule_source (pd_decided_by (pdr_decision ref)) \<in> {PolicySource_PermissionHook, PolicySource_User}
         \<and> kc_tool_approval_prompter (kn_config K) \<noteq> None)"
proof -
  let ?ev = "evaluate_proposal (kl_serde (kn_libs K)) (ks_policy k) kp
    (caps_view E (V (rk_db (ks_store k))) (kn_agent_id K))"
  from direct_trail [OF assms(1-7)] p kp obtain pe au k1 k2 where
    r: "resolve_live_ask K (tp_tool p) (tp_args p) (tp_tool_use_id p) ?ev k1 = (Inr (au_evaluation au), k2)"
    and d: "kernel_log.decides K pe au" "pr_policy_decision res = Some (au_decision_ref au)"
    and s: "settled k k' res pe au (kernel_log_of E V k (kn_agent_id K)) (kernel_log_of E V k' (kn_agent_id K))"
    by (metis sum.inject(2))
  note dec = d(1) [unfolded kernel_log.decides_def [OF kernel_logI [OF assms(1-3)]]]
  from s allowed have "au_action au \<noteq> None" by (auto simp: settled_def split: option.splits)
  with dec have "ev_verdict (au_evaluation au) = Verdict_Allow" by simp
  from resolve_provenance [OF r this] dec d(2) this show ?thesis by auto
qed

end
