(* ===== verification/Store_Live.thy ===== *)
theory Store_Live
  imports Store_Trait
begin

text \<open>
  The store does its work.  The specifications of \<open>Store_Spec\<close> say what an operation of
  \<open>RocksStore\<close> has done when it returns; here the database is assumed not to report errors
  (\<open>db_live\<close>), and the operations are shown to return: reads, scans and appends at the next
  sequence number.  \<open>live_store\<close> is that part of the contract for the clients of the trait.
\<close>

section \<open>A database that reports no errors\<close>

definition db_live :: "'db rocksdb \<Rightarrow> bool" where
  "db_live R =
    ((\<forall>db c. db_cf_handle R db c)
     \<and> (\<forall>db c k. \<exists>v. db_get_cf R db c k = Inr v)
     \<and> (\<forall>sync ops db. \<exists>db'. db_write_opt R sync ops db = (Inr (), db'))
     \<and> (\<forall>db c start dir. \<exists>L. db_iterator R db c start dir = map Inr L))"

text \<open>The value can be serialised, and sealed when the store has a cipher.\<close>

definition encodable :: "'db store_env \<Rightarrow> 'a codec \<Rightarrow> 'a \<Rightarrow> bool" where
  "encodable E c x = (\<forall>s. \<exists>bs s'. encode_value E c x s = (Inr bs, s'))"

definition caps_readable :: "'db store_env \<Rightarrow> view \<Rightarrow> agent_id \<Rightarrow> bool" where
  "caps_readable E W a =
    (case W CF_RUNTIME_CAPABILITIES (runtime_capability_key a) of
       None \<Rightarrow> True | Some bs \<Rightarrow> stored E (sj_runtime_capability (st_serde E)) bs \<noteq> None)"

locale live_env = rocks_env +
  assumes live: "db_live (st_rocksdb E)"
begin

lemma cf_handle_live [simp]: "cf_handle E c s = (Inr c, s)"
  using live by (simp add: cf_handle_def db_live_def)

lemma get_cf_live [simp]: "get_cf E c k s = (Inr (view_of s c k), s)"
proof -
  obtain v where "db_get_cf (st_rocksdb E) (rk_db s) c k = Inr v"
    using live unfolding db_live_def by blast
  then have "get_cf E c k s = (Inr v, s)" by (simp add: get_cf_def res_map_err_def)
  with get_cf_InrD show ?thesis by metis
qed

lemma write_live: "\<exists>s'. write_batch E ops s = (Inr (), s')"
proof -
  obtain db' where "db_write_opt (st_rocksdb E) (st_sync_writes E) ops (rk_db s) = (Inr (), db')"
    using live unfolding db_live_def by blast
  then show ?thesis by (simp add: write_batch_def res_map_err_def)
qed

lemma read_meta_live:
  "meta_wf (view_of s) a f \<Longrightarrow> read_meta_u64 E (AgentMetaKey a f) s = (Inr (meta_at (view_of s) a f), s)"
  by (auto simp: read_meta_u64_def try_then_def meta_wf_def meta_at_def meta_raw_def split: option.splits)

lemma head_live:
  assumes "view_inv E (view_of s)"
  shows "get_head_seq E a s = (Inr (of_nat (head_len (view_of s) a)), s)"
  using assms by (simp add: get_head_seq_def read_meta_live view_inv_def log_inv_def head_len_def)

lemma iterator_live:
  obtains L where "iter_entries (view_of s c) start dir L"
    "db_iterator (st_rocksdb E) (rk_db s) c start dir = map Inr L"
proof -
  let ?it = "db_iterator (st_rocksdb E) (rk_db s) c start dir"
  obtain M where M: "?it = map Inr M" using live unfolding db_live_def by blast
  obtain L where L: "iter_entries (view_of s c) start dir L"
    "?it = map Inr L \<or> (\<exists>n e rest. ?it = map Inr (take n L) @ Inl e # rest)"
    using iterator_ok by blast
  have "?it \<noteq> map Inr (take n L) @ Inl e # rest" for n e rest
    unfolding M by (metis imageE in_set_conv_decomp list.set_map sum.distinct(1))
  with L that show thesis by blast
qed

lemma scan_live:
  assumes inv: "view_inv E (view_of s)" and bound: "Suc (head_len (view_of s) a) < 2 ^ 64"
  shows "scan_record E a from limit s =
    (Inr (take (max 1 limit) (drop (unat from - 1) (log_view E (view_of s) a))), s)"
proof -
  obtain L where it: "iter_entries (view_of s CF_RECORD) (scan_from a from) Forward L"
    and items: "db_iterator (st_rocksdb E) (rk_db s) CF_RECORD (scan_from a from) Forward = map Inr L"
    using iterator_live .
  have li: "log_inv E (view_of s)" using inv by (simp add: view_inv_def)
  note shape = forward_shape [OF li bound it]
  have "scan_loop E a (\<lambda>key. scan_end a \<le> key) limit [] (map Inr L) =
      Inr (take (max 1 limit) (drop (unat from - 1) (log_view E (view_of s) a)))"
    by (subst shape(1), rule scan_loop_total [OF shape(2)]) (simp add: not_less)
  then show ?thesis by (simp add: scan_record_def try_then_def items)
qed

lemma scan_desc_live:
  assumes inv: "view_inv E (view_of s)"
  shows "scan_record_descending E a from limit s =
    (Inr (take limit (rev (take (unat from) (log_view E (view_of s) a)))), s)"
proof (cases "from = 0 \<or> limit = 0")
  case True
  then show ?thesis by (auto simp: scan_record_descending_def)
next
  case False
  obtain L where it: "iter_entries (view_of s CF_RECORD) (scan_from a from) Reverse L"
    and items: "db_iterator (st_rocksdb E) (rk_db s) CF_RECORD (scan_from a from) Reverse = map Inr L"
    using iterator_live .
  have li: "log_inv E (view_of s)" using inv by (simp add: view_inv_def)
  have "from \<noteq> 0" using False by simp
  note shape = backward_shape [OF li this it]
  have "scan_loop E a (\<lambda>key. key < scan_from a 1) limit [] (map Inr L) =
      Inr (take (max 1 limit) (rev (take (unat from) (log_view E (view_of s) a))))"
    by (subst shape(1), rule scan_loop_total [OF shape(2)]) simp
  with False show ?thesis by (simp add: scan_record_descending_def try_then_def items max_def)
qed

lemma caps_live:
  assumes "caps_readable E (view_of s) a"
  shows "get_runtime_capabilities E a s = (Inr (caps_view E (view_of s) a), s)"
proof (cases "view_of s CF_RUNTIME_CAPABILITIES (runtime_capability_key a)")
  case (Some bs)
  with assms obtain rc where rc: "stored E (sj_runtime_capability (st_serde E)) bs = Some rc"
    by (auto simp: caps_readable_def)
  then have "decode_value E (sj_runtime_capability (st_serde E)) id bs = Inr rc" by (simp add: stored_iff)
  with Some rc show ?thesis by (simp add: get_runtime_capabilities_def try_then_def caps_view_def)
qed (simp add: get_runtime_capabilities_def try_then_def caps_view_def)

lemma append_live:
  assumes inv: "view_inv E (view_of s)" and enc: "encodable E (sj_record_entry (st_serde E)) e"
    and caps: "\<forall>r. rc = Some r \<longrightarrow> encodable E (sj_runtime_capability (st_serde E)) r"
  shows "\<exists>s'. append_entry_direct_internal E a (of_nat (Suc (head_len (view_of s) a))) e rc cl s = (Inr (), s')"
proof -
  obtain bs s1 where e: "encode_value E (sj_record_entry (st_serde E)) e s = (Inr bs, s1)"
    using enc unfolding encodable_def by blast
  have "\<exists>b s2. apply_runtime_capability_ops_to_batch E b0 a rc cl s1 = (Inr b, s2)" for b0
  proof (cases rc)
    case (Some r)
    with caps obtain bs s2 where "encode_value E (sj_runtime_capability (st_serde E)) r s1 = (Inr bs, s2)"
      unfolding encodable_def by blast
    with Some show ?thesis by (simp add: apply_runtime_capability_ops_to_batch_def try_then_def Let_def)
  qed (simp add: apply_runtime_capability_ops_to_batch_def try_then_def Let_def)
  then show ?thesis
    using write_live
    by (simp add: append_entry_direct_internal_def assert_next_seq_def head_live [OF inv]
        append_record_and_head_to_batch_def try_then_def e add.commute split: prod.splits sum.splits)
      (metis sum.distinct(1) sum.inject(2) prod.inject)
qed

end

section \<open>What a client can rely on\<close>

locale live_store = inbox_store ops abs inv
  for ops :: "'s store_ops" and abs :: "'s \<Rightarrow> store_view" and inv :: "'s \<Rightarrow> bool" +
  fixes enc :: "record_entry \<Rightarrow> bool"
  assumes head_returns: "inv s \<Longrightarrow> \<exists>n s'. so_get_head_seq ops a s = (Inr n, s')"
    and scan_returns: "inv s \<Longrightarrow> Suc (length (sv_log (abs s) a)) < 2 ^ 64 \<Longrightarrow>
      \<exists>es s'. so_scan_record ops a from lim s = (Inr es, s')"
    and append_returns: "inv s \<Longrightarrow> enc e \<Longrightarrow>
      \<exists>s'. so_append_entry_direct ops a (of_nat (Suc (length (sv_log (abs s) a)))) e s = (Inr (), s')"
begin

text \<open>What was appended is what a scan from the beginning finds.\<close>

lemma append_scan:
  assumes inv: "inv s" and enc: "enc e" and bound: "length (sv_log (abs s) a) + 2 < 2 ^ 64"
    and lim: "length (sv_log (abs s) a) < lim"
  shows "\<exists>s' s''. so_append_entry_direct ops a (of_nat (Suc (length (sv_log (abs s) a)))) e s = (Inr (), s')
    \<and> so_scan_record ops a 1 lim s' = (Inr (sv_log (abs s) a @ [e]), s'')"
proof -
  obtain s' where run: "so_append_entry_direct ops a (of_nat (Suc (length (sv_log (abs s) a)))) e s = (Inr (), s')"
    using append_returns [OF inv enc] by blast
  have s': "inv s'" "sv_log (abs s') a = sv_log (abs s) a @ [e]"
    using append_direct [OF inv, of a _ e None False "()" s'] run bound by (auto simp: direct_short)
  obtain es s'' where scan: "so_scan_record ops a 1 lim s' = (Inr es, s'')"
    using scan_returns [of s' a 1 lim] s' bound by auto
  have "es = sv_log (abs s) a @ [e]"
    using scan_ok [OF scan] s' bound lim by (auto simp: max_def)
  with run scan show ?thesis by blast
qed

end

sublocale live_env \<subseteq> lvs: live_store "rocks_ops E" "\<lambda>s. rocks_view E (V (rk_db s))"
  "\<lambda>s. view_inv E (V (rk_db s))" "encodable E (sj_record_entry (st_serde E))"
proof unfold_locales
  fix s :: "'a rocks_state" and a
  assume "view_inv E (V (rk_db s))"
  then show "\<exists>n s'. so_get_head_seq (rocks_ops E) a s = (Inr n, s')"
    using head_live by (auto simp: rocks_ops_def)
next
  fix s :: "'a rocks_state" and a "from" lim
  assume "view_inv E (V (rk_db s))" "Suc (length (sv_log (rocks_view E (V (rk_db s))) a)) < 2 ^ 64"
  then show "\<exists>es s'. so_scan_record (rocks_ops E) a from lim s = (Inr es, s')"
    using scan_live by (auto simp: rocks_ops_def rocks_view_def)
next
  fix s :: "'a rocks_state" and e a
  assume "view_inv E (V (rk_db s))" "encodable E (sj_record_entry (st_serde E)) e"
  then show "\<exists>s'. so_append_entry_direct (rocks_ops E) a
      (of_nat (Suc (length (sv_log (rocks_view E (V (rk_db s))) a)))) e s = (Inr (), s')"
    using append_live [of s e None] by (simp add: rocks_ops_def rocks_view_def append_entry_direct_def)
qed

context live_env
begin

lemma rocks_live_store:
  "live_store (rocks_ops E) (\<lambda>s. rocks_view E (V (rk_db s))) (\<lambda>s. view_inv E (V (rk_db s)))
    (encodable E (sj_record_entry (st_serde E)))"
  by (rule lvs.live_store_axioms)

end

lemma live_envI: "store_ok E V \<Longrightarrow> db_live (st_rocksdb E) \<Longrightarrow> live_env E V"
  by (simp add: live_env_def live_env_axioms_def rocks_envI)

lemma mem_db_live: "db_live mem_rocksdb"
  by (auto simp: db_live_def mem_rocksdb_def)

lemma mem_live_env: "store_ok (mem_env J) mem_view \<Longrightarrow> live_env (mem_env J) mem_view"
  by (rule live_envI) (simp_all add: mem_db_live)

interpretation mem_live: live_env "mem_env (mem_serde txs es)" mem_view for txs es
  by (rule mem_live_env) (rule mem_serde_ok)

lemma mem_encodable: "to_vec c x = Inr bs \<Longrightarrow> encodable (mem_env J) c x"
  by (simp add: encodable_def mem_encode_value)

text \<open>
  Property C36: the record log keeps what it is given.  On a database that reports no errors, an
  append of a serialisable entry at the next sequence number returns, and a scan from the first
  sequence number then returns the whole log with that entry at its end.
\<close>

theorem append_then_scan:
  assumes "store_ok E V" "db_live (st_rocksdb E)" "view_inv E (V (rk_db s))"
    and "encodable E (sj_record_entry (st_serde E)) e"
    and "length (log_view E (V (rk_db s)) a) + 2 < 2 ^ 64" "length (log_view E (V (rk_db s)) a) < lim"
  shows "\<exists>s' s''. append_entry_direct E a (of_nat (Suc (length (log_view E (V (rk_db s)) a)))) e s = (Inr (), s')
    \<and> scan_record E a 1 lim s' = (Inr (log_view E (V (rk_db s)) a @ [e]), s'')"
proof -
  note live = live_envI [OF assms(1,2)]
  show ?thesis
    using live_store.append_scan [OF live_env.rocks_live_store [OF live], of s e a lim] assms(3-)
    by (simp add: rocks_view_def rocks_ops_def)
qed

theorem append_then_scan_witness:
  "\<exists>s' s''. append_entry_direct demo_env demo_agent 1 (demo_entry 1) mem_init = (Inr (), s')
    \<and> scan_record demo_env demo_agent 1 5 s' = (Inr [demo_entry 1], s'')"
  using append_then_scan [of demo_env mem_view mem_init "demo_entry 1" demo_agent 5]
    mem_encodable [OF demo_vec(1)]
  by (simp add: mem_init_empty mem_db_live mem_serde_ok mem_init_inv)

end
