(* ===== verification/Codec_Total.thy ===== *)
theory Codec_Total
  imports Core_Types "HOL-Library.Countable"
begin

text \<open>
  A codec that serialises every value.  The values of the data model are finite trees over words
  and strings, so each of its types is countable; numbering them gives a codec that never fails
  and that reads back what it wrote.  It stands in for \<open>serde_json\<close> where a theorem asks for
  serialisation that always succeeds.
\<close>

section \<open>The data model is countable\<close>

instance word :: (len) countable
  by (rule countable_classI [of unat]) (simp add: word_unat_eq_iff)

instance json_number :: countable by countable_datatype
instance json :: countable by countable_datatype
instance agent_id :: countable by countable_datatype
instance hash :: countable by countable_datatype
instance action_id :: countable by countable_datatype
instance context_hash :: countable by countable_datatype
instance transaction_type :: countable by countable_datatype
instance action_kind :: countable by countable_datatype
instance effect_kind :: countable by countable_datatype
instance effect_status :: countable by countable_datatype
instance tool_gate_verdict :: countable by countable_datatype
instance policy_source :: countable by countable_datatype
instance policy_check_outcome :: countable by countable_datatype
instance policy_approver :: countable by countable_datatype

instance transaction_ext :: (countable) countable
  by (rule countable_classI [of "\<lambda>r. to_nat (tx_hash r, tx_agent_id r, tx_ts_ms r, tx_type r,
      tx_payload r, tx_reference r, transaction.more r)"]) simp

instance proposal_ext :: (countable) countable
  by (rule countable_classI [of "\<lambda>r. to_nat (pr_action_kind r, pr_payload r, pr_rationale r,
      proposal.more r)"]) simp

instance trace_ext :: (countable) countable
  by (rule countable_classI [of "\<lambda>r. to_nat (tr_model r, tr_latency_ms r, tr_metadata r, trace.more r)"]) simp

instance proposal_set_ext :: (countable) countable
  by (rule countable_classI [of "\<lambda>r. to_nat (ps_proposals r, ps_trace r, proposal_set.more r)"]) simp

instance rejected_proposal_ext :: (countable) countable
  by (rule countable_classI [of "\<lambda>r. to_nat (rp_proposal_index r, rp_reason r, rejected_proposal.more r)"]) simp

instance decision_ext :: (countable) countable
  by (rule countable_classI [of "\<lambda>r. to_nat (dc_accepted_action_ids r, dc_rejected r, decision.more r)"]) simp

instance action_ext :: (countable) countable
  by (rule countable_classI [of "\<lambda>r. to_nat (ac_action_id r, ac_kind r, ac_payload r, action.more r)"]) simp

instance effect_ext :: (countable) countable
  by (rule countable_classI [of "\<lambda>r. to_nat (ef_action_id r, ef_kind r, ef_status r, ef_payload r,
      effect.more r)"]) simp

instance record_entry_ext :: (countable) countable
  by (rule countable_classI [of "\<lambda>r. to_nat (re_seq r, re_tx r, re_kernel_version r, re_context_hash r,
      re_proposals r, re_decision r, re_actions r, re_effects r, record_entry.more r)"]) simp

instance tool_call_ext :: (countable) countable
  by (rule countable_classI [of "\<lambda>r. to_nat (tc_tool r, tc_args r, tool_call.more r)"]) simp

instance tool_proposal_ext :: (countable) countable
  by (rule countable_classI [of "\<lambda>r. to_nat (tp_tool_use_id r, tp_tool r, tp_args r, tp_source r,
      tool_proposal.more r)"]) simp

instance tool_execution_ext :: (countable) countable
  by (rule countable_classI [of "\<lambda>r. to_nat (te_tool_use_id r, te_tool r, te_args r, te_decision r,
      te_reason r, te_result r, te_is_error r, te_parent_agent_id r, te_originating_user_id r,
      tool_execution.more r)"]) simp

instance policy_rule_ext :: (countable) countable
  by (rule countable_classI [of "\<lambda>r. to_nat (rule_source r, rule_rule r, policy_rule.more r)"]) simp

instance policy_check_ext :: (countable) countable
  by (rule countable_classI [of "\<lambda>r. to_nat (pc_rule r, pc_outcome r, policy_check.more r)"]) simp

instance policy_approval_ext :: (countable) countable
  by (rule countable_classI [of "\<lambda>r. to_nat (pa_approver r, pa_remember r, pa_request_id r,
      policy_approval.more r)"]) simp

instance policy_decision_ext :: (countable) countable
  by (rule countable_classI [of "\<lambda>r. to_nat (pd_tool_use_id r, pd_tool r, pd_verdict r, pd_reason r,
      pd_decided_by r, pd_trace r, pd_approval r, pd_mode r, pd_policy_hash r, pd_action_id r,
      policy_decision.more r)"]) simp

section \<open>The codec\<close>

definition number_codec :: "'a::countable codec" where
  "number_codec =
    \<lparr> to_vec = (\<lambda>x. Inr (replicate (to_nat x) 0)),
      from_slice = (\<lambda>bs. Inr (from_nat (length bs))) \<rparr>"

lemma number_codec_ok [simp]: "codec_ok number_codec"
  by (simp add: codec_ok_def number_codec_def)

lemma number_codec_total [simp]: "codec_total number_codec"
  by (simp add: codec_total_def number_codec_def is_ok_def)

definition number_serde :: serde_json where
  "number_serde =
    table_serde \<lparr> sj_transaction := number_codec, sj_record_entry := number_codec,
      sj_tool_call := number_codec, sj_tool_proposal := number_codec,
      sj_tool_execution := number_codec, sj_policy_decision := number_codec,
      sj_value := number_codec \<rparr>"

lemma number_serde_simps [simp]:
  "sj_transaction number_serde = number_codec" "sj_record_entry number_serde = number_codec"
  "sj_tool_call number_serde = number_codec" "sj_tool_proposal number_serde = number_codec"
  "sj_tool_execution number_serde = number_codec" "sj_policy_decision number_serde = number_codec"
  "sj_value number_serde = number_codec"
  by (simp_all add: number_serde_def)

end
