(* ===== verification/Kernel_Live.thy ===== *)
theory Kernel_Live
  imports Kernel_Audit Store_Live Codec_Total
begin

text \<open>
  The kernel finishes tool calls.  Over a store that reports no errors, with serialisation that
  never fails, a workspace that can be created and a prompter that answers, a tool proposal is
  processed to the end.  The demonstration kernel at the end meets all of this, so it interprets
  the locales of the kernel and carries the witnesses of its properties.
\<close>

section \<open>Operations that return\<close>

definition returns :: "('s, 'x, 'u, 'a) kernel_act \<Rightarrow> ('s, 'x, 'u) kernel_state \<Rightarrow> bool" where
  "returns m k = (\<exists>x k'. m k = (Inr x, k'))"

lemma returns_try:
  "returns m k \<Longrightarrow> (\<And>x k'. m k = (Inr x, k') \<Longrightarrow> returns (f x) k') \<Longrightarrow> returns (try_then m f) k"
  by (auto simp: returns_def try_then_def)

lemma returns_basic [simp]:
  "returns (ok x) k" "returns (draw d) k" "returns get_policy k" "returns (on_policy q) k"
  "returns (on_ui g) k" "returns (on_exec h) k"
  by (simp_all add: returns_def on_ui_def on_exec_def get_policy_def on_policy_def draw_def split: prod.split)

lemma returns_lift [simp]: "returns (lift_res r) k \<longleftrightarrow> is_ok r"
  by (auto simp: returns_def is_ok_def split: sum.splits)

lemma is_ok_map_err [simp]: "is_ok (res_map_err f r) \<longleftrightarrow> is_ok r"
  by (cases r) (simp_all add: res_map_err_def)

lemma is_ok_bind: "is_ok r \<Longrightarrow> (\<And>x. r = Inr x \<Longrightarrow> is_ok (f x)) \<Longrightarrow> is_ok (res_bind r f)"
  by (cases r) (simp_all add: res_bind_def)

lemma codec_totalD: "codec_total c \<Longrightarrow> is_ok (to_vec c x)"
  by (simp add: codec_total_def)

section \<open>What a finishing call needs\<close>

definition codecs_total :: "serde_json \<Rightarrow> bool" where
  "codecs_total J =
    (codec_total (sj_transaction J) \<and> codec_total (sj_tool_call J) \<and> codec_total (sj_policy_decision J)
     \<and> codec_total (sj_tool_execution J) \<and> codec_total (sj_value J))"

text \<open>A prompter, when there is one, answers and does not ask for its answer to be kept forever.\<close>

definition prompter_answers :: "'u kernel_config \<Rightarrow> bool" where
  "prompter_answers c =
    (case kc_tool_approval_prompter c of
       None \<Rightarrow> True
     | Some f \<Rightarrow> \<forall>prompt u. \<exists>response u'. f prompt u = (Inr response, u') \<and> resp_remember response \<noteq> Remember_Forever)"

definition workspace_creatable :: "('s, 'x, 'u) kernel \<Rightarrow> bool" where
  "workspace_creatable K = (\<forall>path x. \<exists>x'. kn_create_dir_all K path x = (Inr (), x'))"

lemma hash_returns: "codecs_total (kl_serde L) \<Longrightarrow> is_ok (hash_tx_with_window L tx window)"
  by (simp add: hash_tx_with_window_def codecs_total_def codec_totalD is_ok_bind)

lemma apply_response_returns:
  "resp_remember response \<noteq> Remember_Forever \<Longrightarrow> returns (apply_live_approval_response K prompt response) k"
  by (simp add: apply_live_approval_response_def Let_def split: tool_approval_remember.split)

lemma ask_prompter_returns:
  assumes "prompter_answers (kn_config K)"
  shows "returns (ask_prompter K ev prompt reason) k"
proof (cases "kc_tool_approval_prompter (kn_config K)")
  case (Some f)
  with assms have "\<exists>response u'. f prompt (ks_ui k) = (Inr response, u') \<and> resp_remember response \<noteq> Remember_Forever"
    by (simp add: prompter_answers_def)
  then obtain response u' where
    "f prompt (ks_ui k) = (Inr response, u')" "resp_remember response \<noteq> Remember_Forever" by blast
  moreover from this(2) obtain k1 where
    "apply_live_approval_response K prompt response (k \<lparr> ks_ui := u' \<rparr>) = (Inr (), k1)"
    using apply_response_returns unfolding returns_def by fastforce
  ultimately show ?thesis
    using Some by (simp add: ask_prompter_def returns_def try_then_def res_map_err_def on_ui_def)
qed (simp add: ask_prompter_def)


lemma resolve_returns:
  assumes "prompter_answers (kn_config K)"
  shows "returns (resolve_live_ask K tool args tool_use_id ev) k"
proof -
  have hook: "returns (ask_permission_hook K prompt reason) k" for prompt reason k
    by (cases "kc_plugin_hooks (kn_config K)") (simp_all add: ask_permission_hook_def returns_try)
  have "returns (resolve_prompt K ev) k" for ev k
    unfolding resolve_prompt_def
    by (auto split: policy_verdict.split option.split prod.split
        intro!: returns_try [OF hook] ask_prompter_returns [OF assms])
  then show ?thesis
    unfolding resolve_live_ask_def Let_def
    by (auto intro!: returns_try split: option.split prod.split)
qed

lemma gate_returns:
  assumes "codecs_total (kl_serde (kn_libs K))" "prompter_answers (kn_config K)"
  shows "returns (gate_tool_proposal K p rc) k"
proof -
  have "is_ok (kernel_proposal_from_tool_proposal (kn_libs K) p)"
    using assms(1) by (simp add: kernel_proposal_from_tool_proposal_def codecs_total_def codec_totalD is_ok_bind)
  then show ?thesis
    unfolding gate_tool_proposal_def
    by (intro returns_try resolve_returns [OF assms(2)]) (auto intro!: returns_try)
qed

lemma maybe_block_returns:
  assumes "codecs_total (kl_serde (kn_libs K))"
  shows "returns (maybe_block K p i) k"
  using assms unfolding maybe_block_def fire_pre_tool_use_and_maybe_block_def
  by (auto simp: codecs_total_def codec_totalD split: option.split hook_outcome.split intro!: returns_try)

lemma dispatch_returns:
  assumes "codecs_total (kl_serde (kn_libs K))" "workspace_creatable K"
  shows "returns (dispatch_approved K au act1) k"
proof -
  have "returns (create_workspace K) k" for k
  proof -
    obtain x' where "kn_create_dir_all K (agent_workspace K) (ks_exec k) = (Inr (), x')"
      using assms(2) unfolding workspace_creatable_def by blast
    then show ?thesis
      by (simp add: create_workspace_def returns_def try_then_def on_exec_def res_map_err_def)
  qed
  moreover have "returns (execute_with_timeout K ctx a tool) k" for ctx a tool k
    unfolding execute_with_timeout_def by (auto split: option.split intro!: returns_try)
  ultimately show ?thesis
    unfolding dispatch_approved_def
    by (intro returns_try maybe_block_returns [OF assms(1)]) (auto split: option.split intro!: returns_try)
qed

section \<open>Over a store that reports no errors\<close>

text \<open>A kernel whose writes succeed, and one that can also ask and execute.\<close>

locale kernel_writes = kernel_log K abs inv + live_store "kn_ops K" abs inv enc
  for K :: "('s, 'x, 'u) kernel" and abs :: "'s \<Rightarrow> store_view" and inv :: "'s \<Rightarrow> bool"
    and enc :: "record_entry \<Rightarrow> bool" +
  assumes codecs: "codecs_total (kl_serde (kn_libs K))" and entries: "enc e"
begin

lemma next_seq_returns: "ready n k \<Longrightarrow> returns (next_seq K) k"
  unfolding next_seq_def
  by (rule returns_try)
    (use head_returns [of "ks_store k" "kn_agent_id K"] in
      \<open>auto simp: returns_def on_store_def res_map_err_def ready_def Let_def\<close>)

lemma load_window_returns:
  assumes "ready 1 k"
  shows "returns (load_window K n) k"
proof -
  have "\<exists>es s'. so_scan_record (kn_ops K) (kn_agent_id K) from lim (ks_store k) = (Inr es, s')" for "from" lim
    using assms by (intro scan_returns) (simp_all add: ready_def klog_def)
  then obtain es s' where "so_scan_record (kn_ops K) (kn_agent_id K)
      (saturating_sub n (kc_record_window_size (kn_config K)))
      (unat (kc_record_window_size (kn_config K))) (ks_store k) = (Inr es, s')" by blast
  then show ?thesis by (simp add: load_window_def returns_def on_store_def res_map_err_def)
qed

lemma append_tool_entry_returns:
  assumes ready: "ready 1 k"
  shows "returns (append_tool_entry K tx fill None) k"
  unfolding append_tool_entry_def Let_def
proof (rule returns_try [OF next_seq_returns [OF ready]], rule returns_try, goal_cases)
  case (1 seq k1)
  then show ?case
    using quiet_ready [OF quiet_loads(1)] ready by (blast intro: load_window_returns)
next
  case (2 seq k1 window k2)
  have seq: "seq = of_nat (Suc (length (klog k2)))" and rd: "ready 1 k2"
    using next_seq_value [OF 2(1)] quiet_klog [OF quiet_loads(1) 2(1)] quiet_klog [OF quiet_loads(2) 2(2)]
      quiet_ready [OF quiet_loads(1) 2(1) ready] quiet_ready [OF quiet_loads(2) 2(2)] by simp_all
  show ?case
  proof (rule returns_try, simp add: hash_returns codecs, rule returns_try, goal_cases)
    case (1 ch k3)
    then have "k3 = k2" by simp
    with rd obtain s' where "so_append_entry_direct (kn_ops K) (kn_agent_id K) seq
        (fill ((record_entry_builder seq tx) \<lparr> re_context_hash := ch \<rparr>)) (ks_store k3) = (Inr (), s')"
      using append_returns [OF _ entries, of "ks_store k2" "kn_agent_id K"]
      by (auto simp: ready_def klog_def seq simp del: of_nat_Suc)
    then show ?case by (simp add: returns_def on_store_def res_map_err_def)
  next
    case (2 ch k3 u k4)
    show ?case
      by (rule returns_try) (simp_all add: notify_observer_def split: option.split)
  qed
qed

end

locale kernel_live = kernel_writes +
  assumes answers: "prompter_answers (kn_config K)" and workspace: "workspace_creatable K"
begin

lemma authorize_returns:
  assumes ready: "ready 1 k"
  shows "returns (authorize_tool_proposal K p pe rc) k"
  unfolding authorize_tool_proposal_def
proof (rule returns_try [OF gate_returns [OF codecs answers]])
  fix gated k1
  assume "gate_tool_proposal K p rc k = (Inr gated, k1)"
  then have rd: "ready 1 k1" using quiet_ready [OF quiet_gate] ready by blast
  obtain kp ev act1 where g: "gated = (kp, ev, act1)" by (cases gated)
  have tx: "is_ok (tx_policy_decision (kl_serde (kn_libs K)) (kl_blake3 (kn_libs K)) now (kn_agent_id K) d h)" for now d h
    using codecs by (simp add: tx_policy_decision_def codecs_total_def codec_totalD is_ok_bind)
  show "returns (record_policy_decision K p pe gated) k1"
    unfolding record_policy_decision_def g prod.case Let_def
  proof (rule returns_try, simp, rule returns_try, simp, rule returns_try, simp add: tx, rule returns_try, goal_cases)
    case (1 P k2 now k3 tx1 k4)
    have "ready 1 k2" "ready 1 k3" "k4 = k3"
      using 1 quiet_ready [OF quiet_basic(7) 1(1)] quiet_ready [OF quiet_basic(8) 1(2)] rd by simp_all
    then show ?case by (auto intro: append_tool_entry_returns)
  qed simp
qed

lemma record_execution_returns:
  assumes ready: "ready 1 k"
  shows "returns (record_tool_execution K au act1 eff) k"
  unfolding record_tool_execution_def Let_def
proof (rule returns_try, simp, rule returns_try, goal_cases)
  case (1 now k1)
  show ?case
    using codecs
    by (simp add: tx_tool_execution_for_decision_def tx_tool_execution_def codecs_total_def codec_totalD is_ok_bind)
next
  case (2 now k1 tx k2)
  then have "ready 1 k2" using quiet_ready [OF quiet_basic(8) 2(1)] ready by simp
  then show ?case by (intro returns_try append_tool_entry_returns) simp_all
qed

text \<open>A proposal that can be decoded is processed to the end.\<close>

lemma process_one_returns:
  assumes ready: "ready 3 k"
    and p: "from_slice (sj_tool_proposal (kl_serde (kn_libs K))) (tx_payload tx) = Inr p"
    and caps: "returns (load_runtime_capabilities K) k"
  shows "returns (process_one K tx None) k"
  unfolding process_one_def
proof (rule returns_try, simp add: p, rule returns_try, goal_cases)
  case (1 p k0)
  then show ?case using caps by simp
next
  case (2 p k0 rc k1)
  have "ready 3 k1" using 2 quiet_ready [OF quiet_loads(3), of k0] ready by simp
  show ?case
  proof (rule returns_try, goal_cases)
    case 1
    show ?case using \<open>ready 3 k1\<close> ready_less
      by (auto simp: record_tool_proposal_def intro!: append_tool_entry_returns)
  next
    case (2 pe k2)
    then have e2: "extends [pe] k1 k2"
      using append_tool_entry_spec [of tx "\<lambda>b. b" None k1 "Inr pe" k2] ready_less [OF \<open>ready 3 k1\<close>]
      by (simp add: record_tool_proposal_def token_fits_def)
    have rd2: "ready 2 k2" using extends_ready [OF e2, of 2] \<open>ready 3 k1\<close> by (simp add: eval_nat_numeral)
    show ?case
    proof (rule returns_try [OF authorize_returns], goal_cases)
      case 1
      show ?case using rd2 ready_less by fastforce
    next
      case (2 au k3)
      have "extends [au_decision_entry au] k2 k3"
        using authorize_spec [OF 2 ready_less [OF rd2]] by simp
      then have rd3: "ready 1 k3" using extends_ready [of "[au_decision_entry au]" k2 k3 1] rd2
        by (simp add: eval_nat_numeral)
      show ?case
      proof (cases "au_action au")
        case (Some act1)
        then show ?thesis
          using rd3 quiet_ready [OF quiet_dispatch]
          by (auto intro!: returns_try dispatch_returns [OF codecs workspace] record_execution_returns)
      qed simp
    qed
  qed
qed

end

section \<open>A demonstration kernel\<close>

text \<open>
  RocksStore over the in-memory database with total codecs, the default configuration, the default
  policy in a given mode, and one executor that counts its runs.
\<close>

definition demo_store_env :: "memdb store_env" where
  "demo_store_env = mem_env number_serde"

definition demo_libs :: kernel_libs where
  "demo_libs =
    \<lparr> kl_serde = number_serde, kl_blake3 = (\<lambda>bs. if even (length bs) then 1 else 2), kl_hex = (\<lambda>_. ''00''),
      kl_value_string = (\<lambda>_. []), kl_to_string = (\<lambda>_. Inr []),
      kl_capability_of_value = (\<lambda>_. Inl (SerdeData [])), kl_payload = list_codec [],
      kl_clock = of_nat, kl_action_id = (\<lambda>n. ActionId (of_nat n)) \<rparr>"

definition demo_executor :: "nat executor" where
  "demo_executor =
    \<lparr> ex_name = ''count'', ex_can_handle = (\<lambda>_. True),
      ex_execute = (\<lambda>_ a n. (Inr (committed_agreement (ac_action_id a) []), Suc n)),
      ex_execute_until = (\<lambda>_ _ a n. (Some (Inr (committed_agreement (ac_action_id a) [])), Suc n)) \<rparr>"

definition demo_kernel :: "(memdb rocks_state, nat, unit) kernel" where
  "demo_kernel =
    \<lparr> kn_libs = demo_libs, kn_ops = rocks_ops demo_store_env, kn_executors = [demo_executor],
      kn_create_dir_all = (\<lambda>_. ok ()), kn_config = kernel_config_default, kn_agent_id = demo_agent \<rparr>"

definition demo_start :: "agent_mode \<Rightarrow> (memdb rocks_state, nat, unit) kernel_state" where
  "demo_start mode =
    \<lparr> ks_store = mem_init, ks_policy = demo_policy mode, ks_seq = 0, ks_exec = 0, ks_ui = (), ks_draws = 0 \<rparr>"

definition demo_call :: "tool_call \<Rightarrow> tool_proposal" where
  "demo_call c = \<lparr> tp_tool_use_id = ''t1'', tp_tool = tc_tool c, tp_args = tc_args c, tp_source = None \<rparr>"

definition demo_call_tx :: "tool_call \<Rightarrow> transaction" where
  "demo_call_tx c =
    \<lparr> tx_hash = Hash 9, tx_agent_id = demo_agent, tx_ts_ms = 1, tx_type = TxType_ToolProposal,
      tx_payload = replicate (to_nat (demo_call c)) 0, tx_reference = None \<rparr>"

definition demo_kernel_proposal :: "tool_call \<Rightarrow> proposal" where
  "demo_kernel_proposal c =
    \<lparr> pr_action_kind = ActionKind_Delegate, pr_payload = replicate (to_nat c) 0, pr_rationale = None \<rparr>"

lemma demo_kernel_simps [simp]:
  "kn_libs demo_kernel = demo_libs" "kn_ops demo_kernel = rocks_ops demo_store_env"
  "kl_serde demo_libs = number_serde" "kn_agent_id demo_kernel = demo_agent"
  "kn_config demo_kernel = kernel_config_default" "ks_store (demo_start m) = mem_init"
  "ks_policy (demo_start m) = demo_policy m" "ks_exec (demo_start m) = 0"
  "tx_type (demo_call_tx c) = TxType_ToolProposal"
  by (simp_all add: demo_kernel_def demo_libs_def demo_start_def demo_call_tx_def)

lemma demo_kernel_proposal_kind [simp]: "pr_action_kind (demo_kernel_proposal c) = ActionKind_Delegate"
  by (simp add: demo_kernel_proposal_def)

lemma demo_store_ok: "store_ok demo_store_env mem_view"
  unfolding demo_store_env_def
  by (rule mem_store_ok) (simp_all add: number_serde_def table_serde_def)

lemma demo_meets:
  "codecs_total number_serde" "prompter_answers (kernel_config_default :: unit kernel_config)"
  "workspace_creatable demo_kernel" "db_live (st_rocksdb demo_store_env)"
  by (simp_all add: codecs_total_def prompter_answers_def kernel_config_default_def workspace_creatable_def
      demo_kernel_def ok_def demo_store_env_def mem_db_live)

lemma demo_init:
  "view_inv demo_store_env (mem_view (rk_db mem_init))"
  "kernel_log_of demo_store_env mem_view (demo_start m) a = []"
  by (simp_all add: mem_init_inv kernel_log_of_def mem_init_empty)

lemma demo_caps:
  "caps_readable demo_store_env (mem_view (rk_db mem_init)) a"
  "caps_view demo_store_env (mem_view (rk_db mem_init)) a = None"
  by (simp_all add: caps_readable_def caps_view_def mem_view_def mem_init_def)

lemma demo_encodable: "encodable demo_store_env (sj_record_entry (st_serde demo_store_env)) e"
  unfolding demo_store_env_def
  by (rule mem_encodable [of _ _ "replicate (to_nat e) 0"]) (simp add: number_codec_def)

lemma demo_decodes:
  "from_slice number_codec (tx_payload (demo_call_tx c)) = Inr (demo_call c)"
  "kernel_proposal_from_tool_proposal demo_libs (demo_call c) = Inr (demo_kernel_proposal c)"
  "from_slice number_codec (pr_payload (demo_kernel_proposal c)) = Inr c"
  by (simp_all add: number_codec_def demo_call_tx_def kernel_proposal_from_tool_proposal_def res_bind_def
      res_map_err_def demo_call_def demo_kernel_proposal_def)

section \<open>Tool calls finish\<close>

lemma kernel_writesI:
  assumes "store_ok E V" "db_live (st_rocksdb E)" "kn_ops K = rocks_ops E"
    and "codec_ok (sj_policy_decision (kl_serde (kn_libs K)))" "codecs_total (kl_serde (kn_libs K))"
    and "\<forall>e. encodable E (sj_record_entry (st_serde E)) e"
  shows "kernel_writes K (\<lambda>s. rocks_view E (V (rk_db s))) (\<lambda>s. view_inv E (V (rk_db s)))
    (encodable E (sj_record_entry (st_serde E)))"
  using kernel_logI [OF assms(1,3,4)] live_env.rocks_live_store [OF live_envI [OF assms(1,2)]] assms(3,5-)
  by (simp add: kernel_writes_def kernel_writes_axioms_def)

lemma kernel_liveI:
  assumes "store_ok E V" "db_live (st_rocksdb E)" "kn_ops K = rocks_ops E"
    and "codec_ok (sj_policy_decision (kl_serde (kn_libs K)))" "codecs_total (kl_serde (kn_libs K))"
    and "\<forall>e. encodable E (sj_record_entry (st_serde E)) e"
    and "prompter_answers (kn_config K)" "workspace_creatable K"
  shows "kernel_live K (\<lambda>s. rocks_view E (V (rk_db s))) (\<lambda>s. view_inv E (V (rk_db s)))
    (encodable E (sj_record_entry (st_serde E)))"
  using kernel_writesI [OF assms(1-6)] assms(7,8) by (simp add: kernel_live_def kernel_live_axioms_def)

interpretation demo: kernel_live demo_kernel "\<lambda>s. rocks_view demo_store_env (mem_view (rk_db s))"
  "\<lambda>s. view_inv demo_store_env (mem_view (rk_db s))"
  "encodable demo_store_env (sj_record_entry (st_serde demo_store_env))"
  by (rule kernel_liveI) (simp_all add: demo_store_ok demo_meets demo_encodable)



section \<open>The properties of the kernel at the demonstration kernel\<close>

lemma demo_runs:
  "\<exists>res k'. process_direct demo_kernel (demo_call_tx c) (demo_start m) = (Inr res, k')"
proof -
  have "demo.ready 3 (demo_start m)"
    using demo_init by (simp add: demo.ready_def demo.klog_def kernel_log_of_def)
  moreover have "returns (load_runtime_capabilities demo_kernel) (demo_start m)"
    using live_env.caps_live [OF live_envI [OF demo_store_ok demo_meets(4)] demo_caps(1)]
    by (simp add: load_runtime_capabilities_def returns_def on_store_def rocks_ops_def res_map_err_def)
  ultimately have "returns (process_one demo_kernel (demo_call_tx c) None) (demo_start m)"
    using demo.process_one_returns [of "demo_start m" "demo_call_tx c" "demo_call c"] by (simp add: demo_decodes)
  then show ?thesis
    by (simp add: returns_def process_direct_def process_tool_proposal_def reject_kernel_only_def try_then_def)
qed

theorem tool_call_trail_witness:
  "\<exists>res k' pe de. process_direct demo_kernel (demo_call_tx demo_read) (demo_start AgentMode_Ask) = (Inr res, k')
    \<and> re_tx pe = demo_call_tx demo_read \<and> entry_type de = TxType_PolicyDecision
    \<and> tx_reference (re_tx de) = Some (Hash 9)
    \<and> take 2 (kernel_log_of demo_store_env mem_view k' demo_agent) = [pe, de]"
proof -
  obtain res k' where run: "process_direct demo_kernel (demo_call_tx demo_read) (demo_start AgentMode_Ask) = (Inr res, k')"
    using demo_runs by blast
  from tool_call_trail [OF demo_store_ok _ _ _ _ _ run] obtain pe de where
    "re_tx pe = demo_call_tx demo_read" "entry_type de = TxType_PolicyDecision"
    "tx_reference (re_tx de) = Some (tx_hash (demo_call_tx demo_read))"
    "\<exists>rest. kernel_log_of demo_store_env mem_view k' demo_agent = pe # de # rest"
    by (auto simp: demo_init split: if_splits)
  with run show ?thesis by (fastforce simp: demo_call_tx_def)
qed

lemma demo_plan_denies_mcp:
  "\<exists>why. ev_verdict (evaluate_proposal number_serde (demo_policy AgentMode_Plan) (demo_kernel_proposal demo_mcp) None)
     = Verdict_Deny why"
  using demo_read_admitted(4) [of AgentMode_Plan]
  by (simp add: evaluate_proposal_def Let_def evaluate_delegate_explained_def demo_decodes check_mode_def
      demo_class evaluation_new_def)

theorem policy_denial_final_witness:
  "\<exists>res k' pe de. process_direct demo_kernel (demo_call_tx demo_mcp) (demo_start AgentMode_Plan) = (Inr res, k')
    \<and> kernel_log_of demo_store_env mem_view k' demo_agent = [pe, de] \<and> ks_exec k' = 0
    \<and> pr_tool_decision res \<noteq> Some ToolDecision_Allowed"
proof -
  obtain res k' where run: "process_direct demo_kernel (demo_call_tx demo_mcp) (demo_start AgentMode_Plan) = (Inr res, k')"
    using demo_runs by blast
  obtain why where why: "ev_verdict (evaluate_proposal number_serde (demo_policy AgentMode_Plan)
      (demo_kernel_proposal demo_mcp) None) = Verdict_Deny why" using demo_plan_denies_mcp by blast
  from policy_denial_final [OF demo_store_ok _ _ _ _ _ run, of "demo_call demo_mcp" "demo_kernel_proposal demo_mcp" _ why] why run
  show ?thesis by (auto simp: demo_init demo_decodes demo_caps)
qed

lemma demo_ask_allows_read:
  "ev_verdict (evaluate_proposal number_serde (demo_policy AgentMode_Ask) (demo_kernel_proposal demo_read) None)
     = Verdict_Allow"
  using demo_capability [of AgentMode_Ask]
  by (simp add: evaluation_allows_iff proposal_gates_def gate_defs demo_decodes
      demo_class demo_read_admitted)

lemma demo_no_prompt:
  "resolve_live_ask demo_kernel tool args i ev k = (Inr ev', k') \<Longrightarrow> ks_policy k = demo_policy m \<Longrightarrow>
   ev_verdict ev = Verdict_Allow \<Longrightarrow> ev' = ev"
  using demo_read_admitted(3) [of m tool]
  by (simp add: resolve_live_ask_def try_then_def get_policy_def live_tool_prompt_explained_def demo_policy_def
      policy_new_def decisive_state_def session_tool_state_def btm_get_def resolve_tool_state_def Let_def
      split: prod.splits)

text \<open>A read in ask mode is executed.\<close>

lemma demo_read_allowed:
  assumes run: "process_direct demo_kernel (demo_call_tx demo_read) (demo_start AgentMode_Ask) = (Inr res, k')"
  shows "pr_tool_decision res = Some ToolDecision_Allowed"
proof -
  obtain p kp pe au k1 k2 where p: "p = demo_call demo_read" "kp = demo_kernel_proposal demo_read"
    and r: "resolve_live_ask demo_kernel (tp_tool p) (tp_args p) (tp_tool_use_id p)
       (evaluate_proposal number_serde (demo_policy AgentMode_Ask) kp None) k1 = (Inr (au_evaluation au), k2)"
    and k1: "ks_policy k1 = demo_policy AgentMode_Ask" and d: "demo.decides pe au"
    and s: "settled (demo_start AgentMode_Ask) k' res pe au [] (kernel_log_of demo_store_env mem_view k' demo_agent)"
    by (rule direct_trail [OF demo_store_ok _ _ _ _ _ run]) (auto simp: demo_init demo_decodes demo_caps)
  have "ev_verdict (au_evaluation au) = Verdict_Allow"
    using demo_no_prompt [OF r k1] demo_ask_allows_read by (simp add: p)
  with d have "au_action au \<noteq> None" by (simp add: demo.decides_def)
  with s show ?thesis by (auto simp: settled_def split: option.splits)
qed

theorem approval_has_author_witness:
  "\<exists>res k'. process_direct demo_kernel (demo_call_tx demo_read) (demo_start AgentMode_Ask) = (Inr res, k')
    \<and> verdict_is_allowed (ev_verdict (evaluate_proposal number_serde (demo_policy AgentMode_Ask)
        (demo_kernel_proposal demo_read) None))"
proof -
  obtain res k' where run: "process_direct demo_kernel (demo_call_tx demo_read) (demo_start AgentMode_Ask) = (Inr res, k')"
    using demo_runs by blast
  from approval_has_author [OF demo_store_ok _ _ _ _ _ run, of "demo_call demo_read" "demo_kernel_proposal demo_read"]
    demo_read_allowed [OF run] run
  show ?thesis by (auto simp: demo_init demo_decodes demo_caps kernel_config_default_def)
qed

theorem kernel_keeps_audit_log_witness:
  "\<exists>cmds. cmds = [Cmd_Direct (demo_call_tx demo_read), Cmd_Dequeue, Cmd_Tools [demo_call demo_mcp]]
    \<and> audit_log demo_libs 50 (kernel_log_of demo_store_env mem_view
         (exec_cmds demo_kernel cmds (demo_start AgentMode_Agent)) demo_agent)"
  using kernel_keeps_audit_log [OF demo_store_ok, of demo_kernel "demo_start AgentMode_Agent"
      "[Cmd_Direct (demo_call_tx demo_read), Cmd_Dequeue, Cmd_Tools [demo_call demo_mcp]]"]
  by (simp add: demo_init kernel_config_default_def)

end
