(* ===== verification/Replay.thy ===== *)
theory Replay
  imports Kernel_Live
begin

text \<open>
  The replay consumer of \<open>aura-agent-kernel\<close> (\<open>replay.rs\<close>) and the constructor of the kernel that
  runs it.  A replay walks the record log of an agent, recomputes the context hash of each entry
  from the window before it and asks the snapshot store for the payloads that were summarised.
  The lemmas say what an answer of the consumer means for the log, and that every audit log is
  accepted; with \<open>Kernel_Audit\<close> this closes the loop from what the kernel writes to what the
  next kernel accepts.

  The state is a pair: the store, and the world the snapshot store acts on.
\<close>

section \<open>The consumer\<close>

(* src/crates/aura-agent-kernel/src/replay.rs:131-154 ReplayReport *)
record replay_report =
  rr_replayed_seqs :: "u64 list"
  rr_decisions :: "decision list"
  rr_final_state_hash :: context_hash

(* src/crates/aura-agent-kernel/src/replay.rs:156-199 ReplayConsumer, ReplayConsumer::new *)
record ('s, 'u) replay_consumer =
  rc_libs :: kernel_libs
  rc_store :: "'s store_ops"
  rc_snapshot_store :: "'u snapshot_ops"
  rc_agent_id :: agent_id
  rc_from_seq :: u64
  rc_window_size :: u64

type_synonym ('s, 'u, 'a) replay_act = "('s \<times> 'u, replay_error, 'a) act"

definition replay_store :: "(store_error \<Rightarrow> replay_error) \<Rightarrow> ('s, store_error, 'a) act \<Rightarrow> ('s, 'u, 'a) replay_act" where
  "replay_store f m = (\<lambda>(s, u). case m s of (r, s') \<Rightarrow> (res_map_err f r, (s', u)))"

definition replay_snapshot :: "('u, snapshot_error, 'a) act \<Rightarrow> ('s, 'u, (snapshot_error, 'a) result) replay_act" where
  "replay_snapshot m = (\<lambda>(s, u). case m u of (r, u') \<Rightarrow> (Inr r, (s, u')))"

text \<open>The text of the kernel errors that hashing can give.\<close>

fun hash_error_text :: "kernel_error \<Rightarrow> string" where
  "hash_error_text (KernelError_Serialization m) = ''serialization error: '' @ m"
| "hash_error_text _ = []"

(* src/crates/aura-agent-kernel/src/replay.rs:281-327 ReplayConsumer::validate_entry *)
definition validate_entry :: "('s, 'u) replay_consumer \<Rightarrow> record_entry \<Rightarrow> ('s, 'u, unit) replay_act" where
  "validate_entry C entry =
    try_then (replay_store (\<lambda>e. ReplayError_Store (re_seq entry)
          (''scan_record(window): '' @ store_error_message (kl_hex (rc_libs C)) e))
        (so_scan_record (rc_store C) (rc_agent_id C) (saturating_sub (re_seq entry) (rc_window_size C))
           (unat (rc_window_size C)))) (\<lambda>window.
    try_then (lift_res (res_map_err (\<lambda>e. ReplayError_Store (re_seq entry)
          (''hash_tx_with_window: '' @ hash_error_text e))
        (hash_tx_with_window (rc_libs C) (re_tx entry)
           (filter (\<lambda>e. re_seq e < re_seq entry) window)))) (\<lambda>recomputed.
      if recomputed \<noteq> re_context_hash entry
      then err (ReplayError_ContextDivergence (re_seq entry)
             (kl_hex (rc_libs C) (context_hash_bytes (re_context_hash entry)))
             (kl_hex (rc_libs C) (context_hash_bytes recomputed)))
      else ok ()))"

(* src/crates/aura-agent-kernel/src/replay.rs:341-381 ReplayConsumer::resolve_effect_snapshot *)
definition resolve_effect_snapshot ::
  "('s, 'u) replay_consumer \<Rightarrow> u64 \<Rightarrow> effect \<Rightarrow> ('s, 'u, unit) replay_act" where
  "resolve_effect_snapshot C seq e =
    (case from_slice (kl_payload (rc_libs C)) (ef_payload e) of
       Inr (Payload_Summary _ _ full_hash full_len) \<Rightarrow>
         try_then (replay_snapshot (snap_get (rc_snapshot_store C) full_hash)) (\<lambda>found.
           case found of
             Inr (Some bs) \<Rightarrow>
               (if length bs \<noteq> full_len
                then err (ReplayError_Store seq (''snapshot length mismatch for full_hash='' @ full_hash
                       @ '': expected '' @ nat_str full_len @ '', got '' @ nat_str (length bs)))
                else (let digest = kl_hex (rc_libs C) (array32_bytes (kl_blake3 (rc_libs C) bs)) in
                      if digest \<noteq> full_hash
                      then err (ReplayError_Store seq (''snapshot hash mismatch: recorded '' @ full_hash
                             @ '', fetched '' @ digest))
                      else ok ()))
           | Inr None \<Rightarrow> err (ReplayError_SnapshotMissing seq full_hash)
           | Inl (SnapshotError_Backend message) \<Rightarrow>
               err (ReplayError_Store seq (''snapshot_store.get('' @ full_hash @ ''): '' @ message)))
     | _ \<Rightarrow> ok ())"

(* src/crates/aura-agent-kernel/src/replay.rs:329-339 ReplayConsumer::resolve_snapshots *)
primrec resolve_snapshots ::
  "('s, 'u) replay_consumer \<Rightarrow> u64 \<Rightarrow> effect list \<Rightarrow> ('s, 'u, unit) replay_act" where
  "resolve_snapshots C seq [] = ok ()"
| "resolve_snapshots C seq (e # es) =
    try_then (resolve_effect_snapshot C seq e) (\<lambda>_. resolve_snapshots C seq es)"

(* src/crates/aura-agent-kernel/src/replay.rs:255-266 ReplayConsumer::run *)
primrec replay_loop :: "('s, 'u) replay_consumer \<Rightarrow> record_entry list \<Rightarrow> ('s, 'u, unit) replay_act" where
  "replay_loop C [] = ok ()"
| "replay_loop C (entry # entries) =
    try_then (validate_entry C entry) (\<lambda>_.
    try_then (resolve_snapshots C (re_seq entry) (re_effects entry)) (\<lambda>_.
      replay_loop C entries))"

definition report_of :: "record_entry list \<Rightarrow> replay_report" where
  "report_of es =
    \<lparr> rr_replayed_seqs = map re_seq es, rr_decisions = map re_decision es,
      rr_final_state_hash = (if es = [] then context_hash_zero else re_context_hash (last es)) \<rparr>"

(* src/crates/aura-agent-kernel/src/replay.rs:201-279 ReplayConsumer::run *)
definition replay_run :: "('s, 'u) replay_consumer \<Rightarrow> ('s, 'u, replay_report) replay_act" where
  "replay_run C =
    try_then (replay_store (\<lambda>e. ReplayError_Store 0
          (''get_head_seq: '' @ store_error_message (kl_hex (rc_libs C)) e))
        (so_get_head_seq (rc_store C) (rc_agent_id C))) (\<lambda>head_seq.
      if head_seq < rc_from_seq C then ok (report_of [])
      else
        (let start = max (rc_from_seq C) 1;
             expected_count = unat (saturating_sub head_seq start + 1) in
         try_then (replay_store (\<lambda>e. ReplayError_Store start
               (''scan_record: '' @ store_error_message (kl_hex (rc_libs C)) e))
             (so_scan_record (rc_store C) (rc_agent_id C) start expected_count)) (\<lambda>entries.
         try_then (replay_loop C entries) (\<lambda>_. ok (report_of entries)))))"

section \<open>The constructor of the kernel\<close>

(* src/crates/aura-agent-kernel/src/kernel/mod.rs:380-419 Kernel::new *)
definition kernel_new ::
  "(policy_config \<Rightarrow> string) \<Rightarrow> ('s, 'x, 'u) kernel \<Rightarrow> 's \<Rightarrow> 'x \<Rightarrow> 'u \<Rightarrow>
   (kernel_error, ('s, 'x, 'u) kernel_state \<times> replay_report option) result" where
  "kernel_new snapshot_hash K s x u =
    (case so_get_head_seq (kn_ops K) (kn_agent_id K) s of
       (Inl e, s1) \<Rightarrow> Inl (store_fault K ''get_head_seq'' e)
     | (Inr head_seq, s1) \<Rightarrow>
         (let built = (\<lambda>s' u' report.
            (\<lparr> ks_store = s', ks_policy = policy_new snapshot_hash (kc_policy (kn_config K)),
               ks_seq = head_seq + 1, ks_exec = x, ks_ui = u', ks_draws = 0 \<rparr>, report)) in
          case kc_replay_from (kn_config K) of
            None \<Rightarrow> Inr (built s1 u None)
          | Some from_seq \<Rightarrow>
              (case replay_run \<lparr> rc_libs = kn_libs K, rc_store = kn_ops K,
                      rc_snapshot_store = kc_snapshot_store (kn_config K), rc_agent_id = kn_agent_id K,
                      rc_from_seq = from_seq, rc_window_size = kc_record_window_size (kn_config K) \<rparr> (s1, u) of
                 (Inl e, _) \<Rightarrow> Inl (KernelError_Replay e)
               | (Inr report, (s2, u2)) \<Rightarrow> Inr (built s2 u2 (Some report)))))"

section \<open>Windows of a log, read back\<close>

text \<open>
  What the kernel hashed when entry \<open>i\<close> was written is what the consumer reads for it later:
  the entries at or after \<open>i\<close> that the scan also returns are filtered out.
\<close>

lemma prior_window:
  assumes seqs: "contiguous es" and i: "i < length es" and bound: "Suc (length es) < 2 ^ 64"
  shows "filter (\<lambda>e. re_seq e < of_nat (Suc i))
      (take (max 1 (unat W)) (drop (unat (saturating_sub (of_nat (Suc i)) W) - 1) es)) =
    window_of W (take i es)"
proof -
  let ?d = "unat (saturating_sub (of_nat (Suc i)) W) - 1" and ?m = "max 1 (unat W)"
  have seq: "re_seq (es ! j) < of_nat (Suc i) \<longleftrightarrow> j < i" if "j < length es" for j
    using that i bound seqs
    by (simp add: contiguous_def word_less_nat_alt unat_of_nat_u64 del: of_nat_Suc)
  have low: "filter (\<lambda>e. re_seq e < of_nat (Suc i)) (take ?m (drop ?d (take i es))) = take ?m (drop ?d (take i es))"
    using seq i by (intro filter_True ballI) (auto simp: in_set_conv_nth dest!: in_set_takeD in_set_dropD)
  have high: "filter (\<lambda>e. re_seq e < of_nat (Suc i)) xs = []" if "set xs \<subseteq> set (drop i es)" for xs
  proof (rule filter_False, rule ballI)
    fix e assume "e \<in> set xs"
    with that have "e \<in> set (drop i es)" by blast
    then obtain j where "j < length (drop i es)" "e = drop i es ! j" by (metis in_set_conv_nth)
    with seq [of "i + j"] show "\<not> re_seq e < of_nat (Suc i)" by simp
  qed
  have split: "take ?m (drop ?d es) = take ?m (drop ?d (take i es)) @
      take (?m - length (drop ?d (take i es))) (drop (?d - length (take i es)) (drop i es))"
    by (metis append_take_drop_id drop_append take_append)
  have "filter (\<lambda>e. re_seq e < of_nat (Suc i)) (take ?m (drop ?d es)) = take ?m (drop ?d (take i es))"
    unfolding split filter_append low
    by (subst high) (meson order_trans set_drop_subset set_take_subset, rule append_Nil2)
  also have "\<dots> = window_of W (take i es)"
    using window_read [of "take i es" W] i bound by simp
  finally show ?thesis .
qed

section \<open>What an answer means\<close>

text \<open>The recorded context hash of entry \<open>i\<close> is the one its window gives.\<close>

definition hash_agrees :: "kernel_libs \<Rightarrow> u64 \<Rightarrow> record_entry list \<Rightarrow> nat \<Rightarrow> bool" where
  "hash_agrees L W es i =
    (hash_tx_with_window L (re_tx (es ! i)) (window_of W (take i es)) = Inr (re_context_hash (es ! i)))"

lemma audit_log_contiguous: "audit_log L W es \<Longrightarrow> contiguous es"
  by (auto simp: audit_log_def contiguous_def audit_entry_def)

lemma audit_log_agrees: "audit_log L W es \<Longrightarrow> i < length es \<Longrightarrow> hash_agrees L W es i"
  by (simp add: audit_log_def audit_entry_def hash_agrees_def)

text \<open>Resolving snapshots never touches the store and never reports a divergence.\<close>

lemma resolve_effect_store:
  "resolve_effect_snapshot C n e (s, u) = (r, (s', u')) \<Longrightarrow>
   s' = s \<and> r \<noteq> Inl (ReplayError_ContextDivergence m x y)"
  by (auto simp: resolve_effect_snapshot_def replay_snapshot_def try_then_def err_def ok_def Let_def
      split: sum.splits record_payload.splits option.splits prod.splits snapshot_error.splits if_splits)

lemma resolve_snapshots_store:
  "resolve_snapshots C n es (s, u) = (r, (s', u')) \<Longrightarrow>
   s' = s \<and> r \<noteq> Inl (ReplayError_ContextDivergence m x y)"
proof (induction es arbitrary: s u)
  case (Cons e es)
  from Cons.prems show ?case
    unfolding resolve_snapshots.simps
  proof (cases rule: try_then_cases)
    case (fail err)
    with resolve_effect_store [of C n e s u] show ?thesis by blast
  next
    case (run v k1)
    obtain s1 u1 where "k1 = (s1, u1)" by (cases k1)
    with run resolve_effect_store [of C n e s u "Inr v" s1 u1] Cons.IH show ?thesis by blast
  qed
qed auto

context log_store
begin

definition rlog :: "('s, 'u) replay_consumer \<Rightarrow> 's \<Rightarrow> record_entry list" where
  "rlog C s = sv_log (abs s) (rc_agent_id C)"

definition readable :: "('s, 'u) replay_consumer \<Rightarrow> 's \<Rightarrow> bool" where
  "readable C s = (rc_store C = ops \<and> inv s \<and> Suc (length (rlog C s)) < 2 ^ 64 \<and> contiguous (rlog C s))"

lemma validate_spec:
  assumes run: "validate_entry C (rlog C s ! i) (s, u) = (r, (s', u'))"
    and ready: "readable C s" and i: "i < length (rlog C s)"
  shows "abs s' = abs s \<and> inv s' \<and> u' = u
    \<and> (r = Inr () \<longrightarrow> hash_agrees (rc_libs C) (rc_window_size C) (rlog C s) i)
    \<and> (\<forall>n x y. r = Inl (ReplayError_ContextDivergence n x y) \<longrightarrow>
         n = of_nat (Suc i) \<and> \<not> hash_agrees (rc_libs C) (rc_window_size C) (rlog C s) i)"
proof -
  let ?e = "rlog C s ! i" and ?W = "rc_window_size C"
  have seq: "re_seq ?e = of_nat (Suc i)" using ready i by (simp add: readable_def contiguous_def)
  obtain q s1 where scan: "so_scan_record ops (rc_agent_id C) (saturating_sub (re_seq ?e) ?W) (unat ?W) s = (q, s1)"
    by fastforce
  note facts = scan_ok [OF scan]
  show ?thesis
  proof (cases q)
    case (Inl e)
    with run scan ready facts show ?thesis
      by (auto simp: validate_entry_def replay_store_def try_then_def readable_def res_map_err_def)
  next
    case (Inr window)
    then have "filter (\<lambda>e. re_seq e < re_seq ?e) window = window_of ?W (take i (rlog C s))"
      using facts ready prior_window [of "rlog C s" i ?W] i
      by (simp add: readable_def rlog_def seq [unfolded rlog_def] del: of_nat_Suc)
    with run scan ready facts Inr show ?thesis
      by (auto simp: validate_entry_def replay_store_def try_then_def readable_def res_map_err_def err_def ok_def
          hash_agrees_def lift_res_def seq simp del: of_nat_Suc split: sum.splits if_splits)
  qed
qed

lemma abs_rlog: "abs s' = abs s \<Longrightarrow> rlog C s' = rlog C s"
  by (simp add: rlog_def)

lemma readable_same: "readable C s \<Longrightarrow> abs s' = abs s \<Longrightarrow> inv s' \<Longrightarrow> readable C s'"
  by (simp add: readable_def rlog_def)

lemma reads_keep:
  "readable C s \<Longrightarrow> abs s' = abs s \<Longrightarrow> inv s' = inv s \<Longrightarrow> readable C s'"
  "abs s' = abs s \<Longrightarrow> inv s' = inv s \<Longrightarrow> rlog C s' = rlog C s"
  by (simp_all add: readable_def rlog_def)

text \<open>The loop over the entries from position \<open>i\<close> on.\<close>

lemma loop_spec:
  assumes "replay_loop C (drop i (take n (rlog C s))) (s, u) = (r, (s', u'))"
    and "readable C s" and "n \<le> length (rlog C s)"
  shows "abs s' = abs s \<and> inv s'
    \<and> (r = Inr () \<longrightarrow> (\<forall>j. i \<le> j \<and> j < n \<longrightarrow> hash_agrees (rc_libs C) (rc_window_size C) (rlog C s) j))
    \<and> (\<forall>m x y. r = Inl (ReplayError_ContextDivergence m x y) \<longrightarrow>
         (\<exists>j. i \<le> j \<and> j < n \<and> m = of_nat (Suc j) \<and> \<not> hash_agrees (rc_libs C) (rc_window_size C) (rlog C s) j
            \<and> (\<forall>k. i \<le> k \<and> k < j \<longrightarrow> hash_agrees (rc_libs C) (rc_window_size C) (rlog C s) k)))"
  using assms
proof (induction "n - i" arbitrary: i s u)
  case 0
  then have "n \<le> i" by simp
  with 0 show ?case by (auto simp: readable_def)
next
  case (Suc d)
  let ?A = "hash_agrees (rc_libs C) (rc_window_size C) (rlog C s)"
  have i: "i < n" "i < length (rlog C s)" using Suc.hyps(2) Suc.prems(3) by simp_all
  then have cons: "drop i (take n (rlog C s)) = rlog C s ! i # drop (Suc i) (take n (rlog C s))"
    by (simp add: Cons_nth_drop_Suc [symmetric])
  obtain q t v where vrun: "validate_entry C (rlog C s ! i) (s, u) = (q, (t, v))" by (metis prod.exhaust)
  note V = validate_spec [OF vrun Suc.prems(2) i(2)]
  show ?case
  proof (cases q)
    case (Inl e)
    with vrun Suc.prems(1) have "r = Inl e" "s' = t" by (simp_all add: cons try_then_def)
    with V Inl i show ?thesis by (auto intro: exI [of _ i])
  next
    case (Inr unit)
    obtain p t2 w where srun: "resolve_snapshots C (re_seq (rlog C s ! i)) (re_effects (rlog C s ! i)) (t, v) = (p, (t2, w))"
      by (metis prod.exhaust)
    note S = resolve_snapshots_store [OF srun]
    have ag: "?A i" using V Inr by simp
    show ?thesis
    proof (cases p)
      case (Inl e)
      with vrun srun Inr Suc.prems(1) have "r = Inl e" "s' = t2" by (simp_all add: cons try_then_def)
      with V S Inl show ?thesis by auto
    next
      case p: (Inr unit2)
      have same: "rlog C t = rlog C s" using V abs_rlog by blast
      have t2: "t2 = t" using S by blast
      have run: "replay_loop C (drop (Suc i) (take n (rlog C t))) (t, w) = (r, (s', u'))"
        using Suc.prems(1) by (simp add: cons try_then_def vrun [unfolded Inr] srun [unfolded p t2] same)
      have rd: "readable C t" using readable_same [OF Suc.prems(2)] V by blast
      have "d = n - Suc i" "n \<le> length (rlog C t)" using Suc.hyps(2) Suc.prems(3) same by simp_all
      note IH0 = Suc.hyps(1) [OF this(1) run rd this(2), unfolded same]
      then have IH: "abs s' = abs s \<and> inv s'"
        "r = Inr () \<longrightarrow> (\<forall>j. Suc i \<le> j \<and> j < n \<longrightarrow> ?A j)"
        "\<forall>m x y. r = Inl (ReplayError_ContextDivergence m x y) \<longrightarrow>
           (\<exists>j. Suc i \<le> j \<and> j < n \<and> m = of_nat (Suc j) \<and> \<not> ?A j \<and> (\<forall>k. Suc i \<le> k \<and> k < j \<longrightarrow> ?A k))"
        using V by (simp, blast, blast)
      show ?thesis
      proof (intro conjI allI impI)
        fix j assume "r = Inr ()" "i \<le> j \<and> j < n"
        then show "?A j" using IH(2) ag by (cases "j = i") auto
      next
        fix m x y assume "r = Inl (ReplayError_ContextDivergence m x y)"
        then obtain j where j: "Suc i \<le> j" "j < n" "m = of_nat (Suc j)" "\<not> ?A j" "\<forall>k. Suc i \<le> k \<and> k < j \<longrightarrow> ?A k"
          using IH(3) by blast
        moreover have "\<forall>k. i \<le> k \<and> k < j \<longrightarrow> ?A k" using j(5) ag by (metis Suc_leI le_neq_implies_less)
        ultimately show "\<exists>j. i \<le> j \<and> j < n \<and> m = of_nat (Suc j) \<and> \<not> ?A j \<and> (\<forall>k. i \<le> k \<and> k < j \<longrightarrow> ?A k)"
          using Suc_leD by blast
      qed (use IH(1) in blast)+
    qed
  qed
qed

definition start_at :: "('s, 'u) replay_consumer \<Rightarrow> nat" where
  "start_at C = unat (max (rc_from_seq C) 1) - 1"

lemma expected_count_enough:
  assumes "n < 2 ^ 64" and "\<not> (of_nat n :: u64) < from"
  shows "n - (unat (max from 1) - 1) \<le> max 1 (unat (saturating_sub (of_nat n) (max from 1) + 1 :: u64))"
proof (cases "(of_nat n :: u64) < max from 1")
  case True
  with assms have "n = 0" by (auto simp: max_def word_less_nat_alt unat_of_nat_u64 split: if_splits)
  then show ?thesis by simp
next
  case False
  let ?s = "max from 1 :: u64"
  have le: "unat ?s \<le> n" using False assms(1) by (simp add: word_less_nat_alt unat_of_nat_u64)
  have pos: "0 < unat ?s" by (auto simp: max_def word_le_nat_alt word_less_nat_alt split: if_splits)
  have d: "unat (of_nat n - ?s) = n - unat ?s"
    using False assms(1) by (simp add: unat_sub not_less unat_of_nat_u64)
  then have "(of_nat n - ?s :: u64) \<noteq> - 1"
    using pos assms(1) le by (auto simp: word_unat_eq_iff unat_max_u64)
  then have "unat (of_nat n - ?s + 1 :: u64) = Suc (n - unat ?s)"
    using d unat_plus_one by metis
  with False pos le show ?thesis by (simp add: saturating_sub_def)
qed

lemma run_spec:
  assumes run: "replay_run C (s, u) = (r, (s', u'))" and ready: "readable C s"
  shows "abs s' = abs s \<and> inv s'
    \<and> (\<forall>rep. r = Inr rep \<longrightarrow> rep = report_of (drop (start_at C) (rlog C s))
         \<and> (\<forall>j. start_at C \<le> j \<and> j < length (rlog C s) \<longrightarrow>
              hash_agrees (rc_libs C) (rc_window_size C) (rlog C s) j))
    \<and> (\<forall>m x y. r = Inl (ReplayError_ContextDivergence m x y) \<longrightarrow>
         (\<exists>j. start_at C \<le> j \<and> j < length (rlog C s) \<and> m = of_nat (Suc j)
            \<and> \<not> hash_agrees (rc_libs C) (rc_window_size C) (rlog C s) j
            \<and> (\<forall>k. start_at C \<le> k \<and> k < j \<longrightarrow> hash_agrees (rc_libs C) (rc_window_size C) (rlog C s) k)))"
proof -
  let ?n = "length (rlog C s)"
  have n: "?n < 2 ^ 64" and ops: "rc_store C = ops" using ready by (simp_all add: readable_def)
  obtain q s1 where head: "so_get_head_seq ops (rc_agent_id C) s = (q, s1)" by fastforce
  note H = head_ok [OF head]
  have rd1: "readable C s1" and same1: "rlog C s1 = rlog C s"
    using H ready reads_keep by blast+
  show ?thesis
  proof (cases q)
    case (Inl e)
    with run head rd1 H show ?thesis
      by (auto simp: replay_run_def replay_store_def try_then_def res_map_err_def ops readable_def)
  next
    case (Inr h)
    then have h: "h = of_nat ?n" using H by (simp add: rlog_def)
    show ?thesis
    proof (cases "h < rc_from_seq C")
      case True
      then have "?n < unat (rc_from_seq C)" using n h by (simp add: word_less_nat_alt unat_of_nat_u64)
      moreover have "unat (rc_from_seq C) \<le> unat (max (rc_from_seq C) 1)"
        using word_le_nat_alt max.cobounded1 by blast
      ultimately have "?n \<le> start_at C" by (simp add: start_at_def)
      with run head True Inr rd1 H show ?thesis
        by (auto simp: replay_run_def replay_store_def try_then_def res_map_err_def ops readable_def)
    next
      case False
      let ?start = "max (rc_from_seq C) 1"
      obtain q2 s2 where scan: "so_scan_record ops (rc_agent_id C) ?start
          (unat (saturating_sub h ?start + 1)) s1 = (q2, s2)" by fastforce
      note S = scan_ok [OF scan]
      have rd2: "readable C s2" and same2: "rlog C s2 = rlog C s"
        using S rd1 same1 reads_keep by (blast, metis)
      show ?thesis
      proof (cases q2)
        case (Inl e)
        with run head scan False Inr rd2 H S show ?thesis
          by (auto simp: replay_run_def replay_store_def try_then_def res_map_err_def ops readable_def Let_def)
      next
        case entries: (Inr es)
        have "es = take (max 1 (unat (saturating_sub h ?start + 1))) (drop (start_at C) (rlog C s))"
          using S entries rd1 same1 by (simp add: readable_def rlog_def start_at_def)
        then have es: "es = drop (start_at C) (take ?n (rlog C s2))"
          using expected_count_enough [OF n, of "rc_from_seq C"] False
          by (simp add: h start_at_def same2)
        obtain q3 s3 u3 where loop: "replay_loop C es (s2, u) = (q3, (s3, u3))" by (metis prod.exhaust)
        have r: "s' = s3" "r = (case q3 of Inl e \<Rightarrow> Inl e | Inr _ \<Rightarrow> Inr (report_of es))"
          using run head scan loop False Inr entries
          by (auto simp: replay_run_def replay_store_def try_then_def res_map_err_def ops Let_def split: sum.splits)
        have "abs s3 = abs s" using loop_spec [OF loop [unfolded es] rd2] same2 H S by simp
        with loop_spec [OF loop [unfolded es] rd2] same2 r show ?thesis
          by (cases q3) (auto simp: es)
      qed
    qed
  qed
qed

end

section \<open>Audit logs are accepted\<close>

text \<open>An entry whose effects carry their payloads (the full-fidelity mode of the kernel).\<close>

definition inline_effects :: "kernel_libs \<Rightarrow> record_entry \<Rightarrow> bool" where
  "inline_effects L e =
    list_all (\<lambda>f. case from_slice (kl_payload L) (ef_payload f) of
        Inr (Payload_Summary _ _ _ _) \<Rightarrow> False | _ \<Rightarrow> True) (re_effects e)"

lemma inline_resolves: "inline_effects (rc_libs C) e \<Longrightarrow> resolve_snapshots C n (re_effects e) k = (Inr (), k)"
proof -
  have "list_all (\<lambda>f. case from_slice (kl_payload (rc_libs C)) (ef_payload f) of
        Inr (Payload_Summary _ _ _ _) \<Rightarrow> False | _ \<Rightarrow> True) es \<Longrightarrow> resolve_snapshots C n es k = (Inr (), k)" for es
    by (induction es) (auto simp: try_then_def resolve_effect_snapshot_def ok_def split: sum.splits record_payload.splits)
  then show "inline_effects (rc_libs C) e \<Longrightarrow> resolve_snapshots C n (re_effects e) k = (Inr (), k)"
    by (simp add: inline_effects_def)
qed

context live_store
begin

lemma validate_live:
  assumes "readable C s" "i < length (rlog C s)" "hash_agrees (rc_libs C) (rc_window_size C) (rlog C s) i"
  shows "\<exists>s'. validate_entry C (rlog C s ! i) (s, u) = (Inr (), (s', u)) \<and> abs s' = abs s \<and> inv s'"
proof -
  let ?e = "rlog C s ! i" and ?W = "rc_window_size C"
  have seq: "re_seq ?e = of_nat (Suc i)" using assms(1,2) by (simp add: readable_def contiguous_def)
  obtain es s1 where scan: "so_scan_record ops (rc_agent_id C) (saturating_sub (re_seq ?e) ?W) (unat ?W) s = (Inr es, s1)"
    using scan_returns [of s "rc_agent_id C"] assms(1) by (fastforce simp: readable_def rlog_def)
  have "filter (\<lambda>e. re_seq e < re_seq ?e) es = window_of ?W (take i (rlog C s))"
    using scan_ok [OF scan] assms(1) prior_window [of "rlog C s" i ?W] assms(2)
    by (simp add: readable_def rlog_def seq [unfolded rlog_def] del: of_nat_Suc)
  with scan scan_ok [OF scan] assms show ?thesis
    by (simp add: validate_entry_def replay_store_def try_then_def readable_def res_map_err_def hash_agrees_def
        lift_res_def)
qed

lemma loop_live:
  assumes "readable C s" "\<forall>j < length (rlog C s). hash_agrees (rc_libs C) (rc_window_size C) (rlog C s) j"
    and "list_all (inline_effects (rc_libs C)) (rlog C s)"
  shows "\<exists>s'. replay_loop C (drop i (rlog C s)) (s, u) = (Inr (), (s', u)) \<and> abs s' = abs s \<and> inv s'"
  using assms
proof (induction "length (rlog C s) - i" arbitrary: i s)
  case 0
  then show ?case by (simp add: readable_def)
next
  case (Suc d)
  then have i: "i < length (rlog C s)" by simp
  obtain t where v: "validate_entry C (rlog C s ! i) (s, u) = (Inr (), (t, u))" "abs t = abs s" "inv t"
    using validate_live [OF Suc.prems(1) i] Suc.prems(2) i by blast
  have same: "rlog C t = rlog C s" using v(2) abs_rlog by blast
  have inl: "inline_effects (rc_libs C) (rlog C s ! i)" using Suc.prems(3) i by (simp add: list_all_length)
  have "d = length (rlog C t) - Suc i" using Suc.hyps(2) same by simp
  from Suc.hyps(1) [OF this readable_same [OF Suc.prems(1) v(2,3)]] Suc.prems(2,3) same
  obtain s' where "replay_loop C (drop (Suc i) (rlog C s)) (t, u) = (Inr (), (s', u))" "abs s' = abs t" "inv s'"
    by auto
  with v inl i show ?case
    by (simp add: Cons_nth_drop_Suc [symmetric] try_then_def inline_resolves)
qed

lemma run_live:
  assumes ready: "readable C s" and aud: "audit_log (rc_libs C) (rc_window_size C) (rlog C s)"
    and inl: "list_all (inline_effects (rc_libs C)) (rlog C s)"
  shows "\<exists>s' . replay_run C (s, u) = (Inr (report_of (drop (start_at C) (rlog C s))), (s', u))
    \<and> abs s' = abs s \<and> inv s'"
proof -
  have ops: "rc_store C = ops" and inv: "inv s" using ready by (simp_all add: readable_def)
  obtain h s1 where head: "so_get_head_seq ops (rc_agent_id C) s = (Inr h, s1)"
    using head_returns [OF inv] by blast
  note H = head_ok [OF head]
  have rd1: "readable C s1" and same1: "rlog C s1 = rlog C s"
    using H ready reads_keep by blast+
  have "\<exists>r s' u'. replay_run C (s, u) = (Inr r, (s', u')) \<and> u' = u"
  proof (cases "h < rc_from_seq C")
    case True
    with head show ?thesis
      by (simp add: replay_run_def replay_store_def try_then_def res_map_err_def ops)
  next
    case False
    let ?start = "max (rc_from_seq C) 1"
    obtain es s2 where scan: "so_scan_record ops (rc_agent_id C) ?start
        (unat (saturating_sub h ?start + 1)) s1 = (Inr es, s2)"
      using scan_returns [of s1 "rc_agent_id C"] rd1 by (fastforce simp: readable_def rlog_def)
    note S = scan_ok [OF scan]
    have rd2: "readable C s2" and same2: "rlog C s2 = rlog C s"
      using S rd1 same1 reads_keep by (blast, metis)
    have "es = take (max 1 (unat (saturating_sub h ?start + 1))) (drop (start_at C) (rlog C s))"
      using S rd1 same1 by (simp add: readable_def rlog_def start_at_def)
    moreover have "length (drop (start_at C) (rlog C s)) \<le> max 1 (unat (saturating_sub h ?start + 1))"
      using expected_count_enough [of "length (rlog C s)" "rc_from_seq C"] False H ready
      by (simp add: readable_def rlog_def start_at_def)
    ultimately have es: "es = drop (start_at C) (rlog C s2)" by (simp add: same2)
    from loop_live [OF rd2, of "start_at C" u] audit_log_agrees [OF aud] inl es same2
    obtain s3 where "replay_loop C es (s2, u) = (Inr (), (s3, u))" by auto
    with head scan False show ?thesis
      by (simp add: replay_run_def replay_store_def try_then_def res_map_err_def ops Let_def)
  qed
  then obtain r s' where run: "replay_run C (s, u) = (Inr r, (s', u))" by blast
  with run_spec [OF run ready] show ?thesis by blast
qed

end

section \<open>Replay over RocksStore\<close>

lemma rocks_log_store:
  "store_ok E V \<Longrightarrow> log_store (rocks_ops E) (\<lambda>s. rocks_view E (V (rk_db s))) (\<lambda>s. view_inv E (V (rk_db s)))"
  using rocks_env.rocks_inbox_store [OF rocks_envI] by (rule inbox_store.axioms(1))

definition replay_start :: "('s, 'u) replay_consumer \<Rightarrow> nat" where
  "replay_start C = unat (max (rc_from_seq C) 1) - 1"

text \<open>
  Property C8: a replay tells the truth about the log.  A report lists exactly the entries from
  the requested sequence number on, and is only given when each of them carries the context hash
  that the window before it gives; a context divergence names the first entry from there on that
  does not.  Replaying changes nothing in the store.
\<close>

theorem replay_detects_divergence:
  assumes "store_ok E V" "rc_store C = rocks_ops E" "view_inv E (V (rk_db s))"
    and "es = log_view E (V (rk_db s)) (rc_agent_id C)" "contiguous es" "Suc (length es) < 2 ^ 64"
    and "replay_run C (s, u) = (r, (s', u'))"
  shows "rocks_view E (V (rk_db s')) = rocks_view E (V (rk_db s))
    \<and> (case r of
         Inr rep \<Rightarrow> rep = report_of (drop (replay_start C) es)
           \<and> (\<forall>j. replay_start C \<le> j \<and> j < length es \<longrightarrow> hash_agrees (rc_libs C) (rc_window_size C) es j)
       | Inl (ReplayError_ContextDivergence m _ _) \<Rightarrow>
           (\<exists>j. replay_start C \<le> j \<and> j < length es \<and> m = of_nat (Suc j)
              \<and> \<not> hash_agrees (rc_libs C) (rc_window_size C) es j
              \<and> (\<forall>i. replay_start C \<le> i \<and> i < j \<longrightarrow> hash_agrees (rc_libs C) (rc_window_size C) es i))
       | _ \<Rightarrow> True)"
proof -
  note R = rocks_log_store [OF assms(1)]
  note defs = log_store.rlog_def [OF R] log_store.readable_def [OF R] log_store.start_at_def [OF R]
  have "log_store.readable (rocks_ops E) (\<lambda>s. rocks_view E (V (rk_db s))) (\<lambda>s. view_inv E (V (rk_db s))) C s"
    using assms(2-6) by (simp add: defs)
  from log_store.run_spec [OF R assms(7) this] show ?thesis
    by (simp add: defs replay_start_def assms(4) split: sum.split replay_error.split del: of_nat_Suc)
qed


section \<open>At the demonstration kernel\<close>

lemma demo_inline: "inline_effects demo_libs e"
  by (simp add: inline_effects_def demo_libs_def list_codec_def list_all_iff)


definition demo_consumer :: "(memdb rocks_state, unit) replay_consumer" where
  "demo_consumer =
    \<lparr> rc_libs = demo_libs, rc_store = rocks_ops demo_store_env, rc_snapshot_store = noop_snapshot_store,
      rc_agent_id = demo_agent, rc_from_seq = 1, rc_window_size = 50 \<rparr>"

text \<open>An entry whose context hash was never computed: the consumer rejects it.\<close>

theorem replay_detects_divergence_witness:
  "\<exists>s es r s' u'. es = log_view demo_store_env (mem_view (rk_db s)) demo_agent \<and> es = [demo_entry 1]
    \<and> replay_run demo_consumer (s, ()) = (r, (s', u')) \<and> (\<forall>rep. r \<noteq> Inr rep)"
proof -
  obtain s where app: "append_entry_direct demo_store_env demo_agent 1 (demo_entry 1) mem_init = (Inr (), s)"
    using live_env.append_live [OF mem_live_env, of number_serde mem_init "demo_entry 1" None demo_agent False]
      demo_store_ok demo_init demo_encodable
    by (auto simp: demo_store_env_def mem_init_empty append_entry_direct_def)
  have s: "view_inv demo_store_env (mem_view (rk_db s))"
    "log_view demo_store_env (mem_view (rk_db s)) demo_agent = [demo_entry 1]"
    using rocks_env.append_direct_spec [OF rocks_envI [OF demo_store_ok], of mem_init demo_agent 1 "demo_entry 1" None False "()" s]
      app demo_init by (simp_all add: append_entry_direct_def mem_init_empty)
  obtain r s' u' where run: "replay_run demo_consumer (s, ()) = (r, (s', u'))" by (metis prod.exhaust)
  have "\<not> hash_agrees demo_libs 50 [demo_entry 1] 0"
    by (simp add: hash_agrees_def window_of_def hash_tx_with_window_def demo_entry_def record_entry_builder_def
        res_bind_def res_map_err_def number_codec_def context_hash_zero_def hasher_finalize_def hasher_update_def
        hasher_new_def demo_libs_def)
  then have "r \<noteq> Inr rep" for rep
    using replay_detects_divergence [OF demo_store_ok _ s(1) refl _ _ run] s(2)
    by (auto simp: demo_consumer_def replay_start_def contiguous_def demo_entry_def record_entry_builder_def)
  with s run show ?thesis by blast
qed

end
