(* ===== verification/Kernel_Reason.thy ===== *)
theory Kernel_Reason
  imports Replay Messages
begin

text \<open>
  Reasoning calls and system records: \<open>kernel/reason.rs\<close>, \<open>kernel/stream.rs\<close>, the retrying writer
  of system records in \<open>kernel/mod.rs\<close> and the context builder of \<open>context/mod.rs\<close>.  The model
  provider is a parameter: a call within a deadline gives a response, an error, or nothing when the
  deadline passes.
\<close>

section \<open>Reasoner errors\<close>

(* src/crates/aura-model-reasoner/src/error.rs:26-111 Display for ReasonerError *)
fun reasoner_error_message :: "reasoner_error \<Rightarrow> string" where
  "reasoner_error_message (ReasonerError_RateLimited m _) = ''Rate limited: '' @ m"
| "reasoner_error_message (ReasonerError_InsufficientCredits m) = ''Insufficient credits: '' @ m"
| "reasoner_error_message (ReasonerError_Transient status m _) =
    ''API error (status '' @ nat_str (unat status) @ ''): '' @ m"
| "reasoner_error_message (ReasonerError_Api status m) =
    ''API error (status '' @ nat_str (unat status) @ ''): '' @ m"
| "reasoner_error_message (ReasonerError_Request m) = ''request error: '' @ m"
| "reasoner_error_message ReasonerError_Timeout = ''timeout''"
| "reasoner_error_message (ReasonerError_Parse m) = ''parse error: '' @ m"
| "reasoner_error_message (ReasonerError_StreamAbortedWithPartial reason _) = reason"
| "reasoner_error_message (ReasonerError_ModelRequestContractViolation m) = m"
| "reasoner_error_message (ReasonerError_Internal m) = m"

(* src/crates/aura-agent-kernel/src/replay.rs:87-129 Display for ReplayError *)
fun replay_error_message :: "replay_error \<Rightarrow> string" where
  "replay_error_message (ReplayError_ContextDivergence n e a) =
    ''context divergence at seq '' @ nat_str (unat n) @ '': expected '' @ e @ '', recomputed '' @ a"
| "replay_error_message (ReplayError_SnapshotMissing n h) =
    ''snapshot missing for seq '' @ nat_str (unat n) @ '': full_hash '' @ h"
| "replay_error_message (ReplayError_Store n m) = ''store error at seq '' @ nat_str (unat n) @ '': '' @ m"
| "replay_error_message (ReplayError_Deserialization n m) =
    ''deserialization error at seq '' @ nat_str (unat n) @ '': '' @ m"

(* src/crates/aura-agent-kernel/src/lib.rs:56-88 Display for KernelError *)
fun kernel_error_message :: "kernel_error \<Rightarrow> string" where
  "kernel_error_message (KernelError_Store m) = ''store error: '' @ m"
| "kernel_error_message (KernelError_Reasoner e) = ''reasoner error: '' @ reasoner_error_message e"
| "kernel_error_message (KernelError_Timeout m) = ''timeout: '' @ m"
| "kernel_error_message (KernelError_Serialization m) = ''serialization error: '' @ m"
| "kernel_error_message (KernelError_Replay e) = ''replay error: '' @ replay_error_message e"
| "kernel_error_message (KernelError_Internal m) = m"

section \<open>Model providers\<close>

record ('q, 'st, 'u) model_provider =
  pv_complete :: "u64 \<Rightarrow> 'q \<Rightarrow> 'u \<Rightarrow> (reasoner_error, model_response) result option \<times> 'u"
  pv_complete_streaming :: "u64 \<Rightarrow> 'q \<Rightarrow> 'u \<Rightarrow> (reasoner_error, 'st) result option \<times> 'u"

section \<open>Reasoning entries\<close>

fun stop_reason_debug :: "stop_reason \<Rightarrow> string" where
  "stop_reason_debug Stop_EndTurn = ''EndTurn''"
| "stop_reason_debug Stop_ToolUse = ''ToolUse''"
| "stop_reason_debug Stop_MaxTokens = ''MaxTokens''"
| "stop_reason_debug Stop_StopSequence = ''StopSequence''"

definition json_u64 :: "u64 \<Rightarrow> json" where
  "json_u64 n = J_Number (JN_PosInt n)"

(* src/crates/aura-agent-kernel/src/kernel/stream.rs:135-145 add_thinking *)
definition add_thinking :: "(string \<times> json) list \<Rightarrow> string \<Rightarrow> u64 option \<Rightarrow> (string \<times> json) list" where
  "add_thinking payload thinking ms =
    (if is_blank thinking then payload
     else
       (let p = btm_insert ''thinking'' (J_String thinking) payload in
        case ms of None \<Rightarrow> p | Some t \<Rightarrow> btm_insert ''thinking_ms'' (json_u64 t) p))"

fun block_thinking :: "content_block \<Rightarrow> string option" where
  "block_thinking (Block_Thinking t _) = Some t"
| "block_thinking _ = None"

(* src/crates/aura-agent-kernel/src/kernel/reason.rs:73-90 Kernel::reason *)
definition reasoning_payload :: "model_response \<Rightarrow> json" where
  "reasoning_payload r =
    J_Object (add_thinking
      [(''input_tokens'', json_u64 (us_input_tokens (mr_usage r))), (''model'', J_String (pt_model (mr_trace r))),
       (''output_tokens'', json_u64 (us_output_tokens (mr_usage r))),
       (''stop_reason'', J_String (stop_reason_debug (mr_stop_reason r)))]
      (concat (List.map_filter block_thinking (msg_content (mr_message r)))) None)"

(* src/crates/aura-agent-kernel/src/kernel/reason.rs:213-217 Kernel::record_reasoning_failure *)
definition failure_payload :: "string \<Rightarrow> string \<Rightarrow> json" where
  "failure_payload stage reason =
    J_Object [(''error'', J_String reason), (''stage'', J_String stage), (''stop_reason'', J_String ''Error'')]"

text \<open>A payload as a reasoning transaction.\<close>

definition reasoning_tx :: "('s, 'x, 'u) kernel \<Rightarrow> json \<Rightarrow> ('s, 'x, 'u, transaction) kernel_act" where
  "reasoning_tx K payload =
    try_then (lift_res (res_map_err (\<lambda>e. KernelError_Serialization (serde_message e))
                (to_vec (sj_value (kl_serde (kn_libs K))) payload))) (\<lambda>bs.
    try_then (draw (kl_clock (kn_libs K))) (\<lambda>now.
      ok (tx_new_chained (kl_blake3 (kn_libs K)) now (kn_agent_id K) TxType_Reasoning bs None)))"

text \<open>An entry for the transaction at the given sequence number, hashed with the given window.\<close>

definition append_hashed ::
  "('s, 'x, 'u) kernel \<Rightarrow> u64 \<Rightarrow> transaction \<Rightarrow> record_entry list \<Rightarrow> ('s, 'x, 'u, record_entry) kernel_act" where
  "append_hashed K seq tx window =
    try_then (lift_res (hash_tx_with_window (kn_libs K) tx window)) (\<lambda>ch.
      let entry = (record_entry_builder seq tx) \<lparr> re_context_hash := ch \<rparr> in
      try_then (on_store (store_fault K ''append_entry_direct'')
                  (so_append_entry_direct (kn_ops K) (kn_agent_id K) seq entry)) (\<lambda>_. ok entry))"

(* src/crates/aura-agent-kernel/src/kernel/reason.rs:203-236 Kernel::record_reasoning_failure *)
definition record_reasoning_failure ::
  "('s, 'x, 'u) kernel \<Rightarrow> u64 \<Rightarrow> string \<Rightarrow> string \<Rightarrow> ('s, 'x, 'u, unit) kernel_act" where
  "record_reasoning_failure K seq stage reason =
    try_then (reasoning_tx K (failure_payload stage reason)) (\<lambda>tx.
    try_then (load_window K seq) (\<lambda>window.
    try_then (append_hashed K seq tx window) (\<lambda>_. ok ())))"

text \<open>
  A failed call: the sequence number is drawn, the failure is recorded, a failure to record it is
  only logged, and the error is returned.
\<close>

definition fail_recorded ::
  "('s, 'x, 'u) kernel \<Rightarrow> string \<Rightarrow> string \<Rightarrow> kernel_error \<Rightarrow> ('s, 'x, 'u, 'a) kernel_act" where
  "fail_recorded K stage reason e =
    try_then (next_seq K) (\<lambda>seq k.
      case record_reasoning_failure K seq stage reason k of (_, k') \<Rightarrow> (Inl e, k'))"

(* src/crates/aura-agent-kernel/src/kernel/mod.rs:329-336 ReasonResult *)
record reason_result =
  rr_entry :: record_entry
  rr_response :: model_response

(* src/crates/aura-agent-kernel/src/kernel/reason.rs:20-115 Kernel::reason *)
definition reason ::
  "('s, 'x, 'u) kernel \<Rightarrow> ('q, 'st, 'u) model_provider \<Rightarrow> 'q \<Rightarrow> ('s, 'x, 'u, reason_result) kernel_act" where
  "reason K P request =
    try_then (on_ui (pv_complete P (kc_proposal_timeout_ms (kn_config K)) request)) (\<lambda>answer.
      case answer of
        Some (Inl e) \<Rightarrow> fail_recorded K ''complete'' (reasoner_error_message e) (KernelError_Reasoner e)
      | None \<Rightarrow>
          (let reason_str = ''model provider did not respond within ''
                 @ nat_str (unat (kc_proposal_timeout_ms (kn_config K))) @ ''ms''
           in fail_recorded K ''complete_timeout'' reason_str (KernelError_Timeout reason_str))
      | Some (Inr response) \<Rightarrow>
          try_then (reasoning_tx K (reasoning_payload response)) (\<lambda>tx.
          try_then (next_seq K) (\<lambda>seq.
          try_then (load_window K seq) (\<lambda>window.
          try_then (append_hashed K seq tx window) (\<lambda>entry.
            ok \<lparr> rr_entry = entry, rr_response = response \<rparr>)))))"

section \<open>Streaming\<close>

(* src/crates/aura-agent-kernel/src/kernel/stream.rs:14-31 ReasonStreamHandle *)
record reason_stream_handle =
  sh_window :: "record_entry list"

(* src/crates/aura-agent-kernel/src/kernel/reason.rs:117-201 Kernel::reason_streaming *)
definition reason_streaming ::
  "('s, 'x, 'u) kernel \<Rightarrow> ('q, 'st, 'u) model_provider \<Rightarrow> 'q \<Rightarrow>
   ('s, 'x, 'u, reason_stream_handle \<times> 'st) kernel_act" where
  "reason_streaming K P request =
    try_then (\<lambda>k. (Inr (ks_seq k), k)) (\<lambda>projected_seq.
    try_then (load_window K projected_seq) (\<lambda>window.
    try_then (on_ui (pv_complete_streaming P (kc_proposal_timeout_ms (kn_config K)) request)) (\<lambda>answer.
      case answer of
        Some (Inl e) \<Rightarrow>
          fail_recorded K ''streaming_handshake'' (reasoner_error_message e) (KernelError_Reasoner e)
      | None \<Rightarrow>
          (let reason_str = ''streaming model provider did not respond within ''
                 @ nat_str (unat (kc_proposal_timeout_ms (kn_config K))) @ ''ms''
           in fail_recorded K ''streaming_handshake_timeout'' reason_str (KernelError_Timeout reason_str))
      | Some (Inr stream) \<Rightarrow> ok (\<lparr> sh_window = window \<rparr>, stream))))"

(* src/crates/aura-agent-kernel/src/kernel/stream.rs:33-66 ReasonStreamHandle::next_seq, ReasonStreamHandle::append *)
definition stream_append ::
  "('s, 'x, 'u) kernel \<Rightarrow> reason_stream_handle \<Rightarrow> transaction \<Rightarrow> ('s, 'x, 'u, record_entry) kernel_act" where
  "stream_append K handle tx = try_then (next_seq K) (\<lambda>seq. append_hashed K seq tx (sh_window handle))"

(* src/crates/aura-agent-kernel/src/kernel/stream.rs:68-107 ReasonStreamHandle::record_completed *)
definition record_completed ::
  "('s, 'x, 'u) kernel \<Rightarrow> reason_stream_handle \<Rightarrow> string \<Rightarrow> stop_reason \<Rightarrow> usage \<Rightarrow> string list \<Rightarrow>
   string \<Rightarrow> u64 option \<Rightarrow> ('s, 'x, 'u, record_entry) kernel_act" where
  "record_completed K handle model stop_reason u tool_uses thinking thinking_ms =
    try_then (reasoning_tx K (J_Object (add_thinking
      [(''input_tokens'', json_u64 (us_input_tokens u)), (''model'', J_String model),
       (''output_tokens'', json_u64 (us_output_tokens u)),
       (''stop_reason'', J_String (stop_reason_debug stop_reason)),
       (''tool_uses'', J_Array (map J_String tool_uses))] thinking thinking_ms))) (stream_append K handle)"

(* src/crates/aura-agent-kernel/src/kernel/stream.rs:109-132 ReasonStreamHandle::record_failed *)
definition record_failed ::
  "('s, 'x, 'u) kernel \<Rightarrow> reason_stream_handle \<Rightarrow> string \<Rightarrow> ('s, 'x, 'u, record_entry) kernel_act" where
  "record_failed K handle error =
    try_then (reasoning_tx K (J_Object [(''error'', J_String error), (''status'', J_String ''failed'')]))
      (stream_append K handle)"

section \<open>System records\<close>

text \<open>
  One attempt and the bounded retries.  Other writers of the same log may run between reading the
  head and appending: \<open>others\<close> is what they do to the store before the append of each attempt (attempts are counted down).
\<close>

(* src/crates/aura-agent-kernel/src/kernel/mod.rs:593-600 SystemRecordError *)
datatype system_record_error = SystemRecord_SequenceMismatch | SystemRecord_Other kernel_error

definition system_fault :: "kernel_libs \<Rightarrow> string \<Rightarrow> store_error \<Rightarrow> system_record_error" where
  "system_fault L label e =
    SystemRecord_Other (KernelError_Store (label @ '': '' @ store_error_message (kl_hex L) e))"

(* src/crates/aura-agent-kernel/src/kernel/mod.rs:611-621 append_system_record_once *)
definition system_window ::
  "kernel_libs \<Rightarrow> 's store_ops \<Rightarrow> agent_id \<Rightarrow> ('s, system_record_error, u64 \<times> record_entry list) act" where
  "system_window L ops agent_id =
    try_then (map_err (system_fault L ''get_head_seq'') (so_get_head_seq ops agent_id)) (\<lambda>head.
    try_then (if head = 0 then ok []
              else map_err (system_fault L ''scan_record'')
                     (so_scan_record ops agent_id (max (saturating_sub head 49) 1) 50)) (\<lambda>window.
      ok (head, window)))"

(* src/crates/aura-agent-kernel/src/kernel/mod.rs:625-637 append_system_record_once *)
definition append_system_entry ::
  "kernel_libs \<Rightarrow> 's store_ops \<Rightarrow> agent_id \<Rightarrow> u64 \<Rightarrow> record_entry \<Rightarrow> ('s, system_record_error, u64) act" where
  "append_system_entry L ops agent_id seq entry s =
    (case so_append_entry_direct ops agent_id seq entry s of
       (Inr _, s') \<Rightarrow> (Inr seq, s')
     | (Inl e, s') \<Rightarrow>
        (Inl (case e of StoreError_SequenceMismatch _ _ \<Rightarrow> SystemRecord_SequenceMismatch
              | _ \<Rightarrow> system_fault L ''append_entry_direct'' e), s'))"

(* src/crates/aura-agent-kernel/src/kernel/mod.rs:601-637 append_system_record_once *)
definition append_system_record_once ::
  "kernel_libs \<Rightarrow> 's store_ops \<Rightarrow> ('s \<Rightarrow> 's) \<Rightarrow> agent_id \<Rightarrow> transaction \<Rightarrow> ('s, system_record_error, u64) act" where
  "append_system_record_once L ops others agent_id tx =
    try_then (system_window L ops agent_id) (\<lambda>(head, window).
    try_then (lift_res (res_map_err
        (\<lambda>e. SystemRecord_Other (KernelError_Internal (''context hash: '' @ kernel_error_message e)))
        (hash_tx_with_window L tx window))) (\<lambda>ch s.
      let seq = head + 1 in
      append_system_entry L ops agent_id seq ((record_entry_builder seq tx) \<lparr> re_context_hash := ch \<rparr>) (others s)))"

(* src/crates/aura-agent-kernel/src/kernel/mod.rs:568-590 write_system_record *)
primrec write_attempts ::
  "kernel_libs \<Rightarrow> 's store_ops \<Rightarrow> (nat \<Rightarrow> 's \<Rightarrow> 's) \<Rightarrow> agent_id \<Rightarrow> transaction \<Rightarrow> nat \<Rightarrow> ('s, kernel_error, u64) act" where
  "write_attempts L ops others agent_id tx 0 = (\<lambda>s.
    case append_system_record_once L ops (others 0) agent_id tx s of
      (Inr seq, s') \<Rightarrow> (Inr seq, s')
    | (Inl (SystemRecord_Other e), s') \<Rightarrow> (Inl e, s')
    | (Inl SystemRecord_SequenceMismatch, s') \<Rightarrow>
        (Inl (KernelError_Store ''append_entry_direct: sequence mismatch unresolved after 16 retries''), s'))"
| "write_attempts L ops others agent_id tx (Suc left) = (\<lambda>s.
    case append_system_record_once L ops (others (Suc left)) agent_id tx s of
      (Inr seq, s') \<Rightarrow> (Inr seq, s')
    | (Inl (SystemRecord_Other e), s') \<Rightarrow> (Inl e, s')
    | (Inl SystemRecord_SequenceMismatch, s') \<Rightarrow> write_attempts L ops others agent_id tx left s')"

(* src/crates/aura-agent-kernel/src/kernel/mod.rs:537-591 write_system_record *)
definition write_system_record ::
  "kernel_libs \<Rightarrow> 's store_ops \<Rightarrow> (nat \<Rightarrow> 's \<Rightarrow> 's) \<Rightarrow> agent_id \<Rightarrow> transaction \<Rightarrow> ('s, kernel_error, u64) act" where
  "write_system_record L ops others agent_id tx = write_attempts L ops others agent_id tx 16"

section \<open>Reasoning entries in the log\<close>

text \<open>The payload of the entry of a call, by what the provider answered.\<close>

fun call_payload :: "'u kernel_config \<Rightarrow> (reasoner_error, model_response) result option \<Rightarrow> json" where
  "call_payload C (Some (Inr response)) = reasoning_payload response"
| "call_payload C (Some (Inl e)) = failure_payload ''complete'' (reasoner_error_message e)"
| "call_payload C None = failure_payload ''complete_timeout''
    (''model provider did not respond within '' @ nat_str (unat (kc_proposal_timeout_ms C)) @ ''ms'')"

lemma try_assoc: "try_then m (\<lambda>w. try_then (f w) g) = try_then (try_then m f) g"
  by (auto simp: try_then_def fun_eq_iff split: prod.splits sum.splits)

context kernel_log
begin

lemma quiet_reasoning_tx [intro]: "quiet (reasoning_tx K payload)"
  unfolding reasoning_tx_def by blast

lemma reasoning_tx_value:
  assumes "reasoning_tx K payload k = (Inr tx, k')"
  shows "tx_type tx = TxType_Reasoning \<and> to_vec (sj_value (kl_serde (kn_libs K))) payload = Inr (tx_payload tx)"
  using assms by (auto simp: reasoning_tx_def tx_new_chained_def res_map_err_def draw_def
      elim!: try_then_InrE split: sum.splits)

lemma append_hashed_spec:
  assumes "append_hashed K seq tx window k = (r, k')" "ready 1 k"
  shows "case r of Inl _ \<Rightarrow> extends [] k k'
    | Inr e \<Rightarrow> extends [e] k k' \<and> re_tx e = tx \<and> re_seq e = of_nat (Suc (length (klog k)))
        \<and> hash_tx_with_window (kn_libs K) tx window = Inr (re_context_hash e)"
proof -
  have st: "so_append_entry_direct (kn_ops K) (kn_agent_id K) seq e = store_append seq e None None False" for e
    by (simp add: store_append_def direct_short)
  from assms(1) [unfolded append_hashed_def st Let_def] quiet_basic(3) assms(2) show ?thesis
  proof (cases rule: quiet_then)
    case (run ch k1)
    then have k1: "k1 = k" and h: "hash_tx_with_window (kn_libs K) tx window = Inr ch" by simp_all
    let ?e = "(record_entry_builder seq tx) \<lparr> re_context_hash := ch \<rparr>"
    from run(2) show ?thesis
      unfolding k1
    proof (cases rule: try_then_cases)
      case (fail e)
      then show ?thesis using store_append_Inl [OF fail(1) assms(2)] by simp
    next
      case (run u k2)
      have "token_fits k None" by (simp add: token_fits_def)
      then have e: "extends [?e] k k2 \<and> seq = of_nat (Suc (length (klog k)))"
        by (rule store_append_Inr [OF run(1) assms(2)])
      have f: "re_tx ?e = tx" "re_seq ?e = seq" "re_context_hash ?e = ch"
        by (simp_all add: record_entry_builder_def)
      have r: "r = Inr ?e" "k' = k2" using run(2) by simp_all
      show ?thesis unfolding r sum.case f using e h by blast
    qed
  qed simp
qed

lemma reasoning_audit:
  assumes "re_tx e = tx" "tx_type tx = TxType_Reasoning" "re_seq e = of_nat (Suc (length es))"
    and "hash_tx_with_window (kn_libs K) tx window = Inr (re_context_hash e)"
  shows "audit_entry (kn_libs K) W es e \<longleftrightarrow>
    hash_tx_with_window (kn_libs K) tx (window_of W es) = hash_tx_with_window (kn_libs K) tx window"
  using assms by (auto simp: audit_entry_def linked_def entry_type_def)

text \<open>
  Sequence number, window and append, after the transaction: the common end of every recorded call.
\<close>

definition recorded_call :: "json \<Rightarrow> ('s, 'x, 'u) kernel_state \<Rightarrow> record_entry \<Rightarrow> bool" where
  "recorded_call payload k e =
    (entry_type e = TxType_Reasoning
     \<and> to_vec (sj_value (kl_serde (kn_libs K))) payload = Inr (tx_payload (re_tx e))
     \<and> audit_entry (kn_libs K) (kc_record_window_size (kn_config K)) (klog k) e)"

lemma window_append_spec:
  assumes "try_then (load_window K (of_nat (Suc (length (klog k))))) (append_hashed K (of_nat (Suc (length (klog k)))) tx) k = (r, k')"
    and "ready 1 k" "tx_type tx = TxType_Reasoning"
    and "to_vec (sj_value (kl_serde (kn_libs K))) payload = Inr (tx_payload tx)"
  shows "case r of Inl _ \<Rightarrow> extends [] k k' | Inr e \<Rightarrow> extends [e] k k' \<and> recorded_call payload k e"
  using assms(1) quiet_loads(2) assms(2)
proof (cases rule: quiet_then)
  case (run window k1)
  note w = load_window_value [OF run(1) assms(2)]
  note a = append_hashed_spec [OF run(2,3)]
  show ?thesis
  proof (cases r)
    case (Inr e)
    with a have e: "extends [e] k1 k'" "re_tx e = tx" "re_seq e = of_nat (Suc (length (klog k)))"
        "hash_tx_with_window (kn_libs K) tx window = Inr (re_context_hash e)" using run(5) by simp_all
    have "audit_entry (kn_libs K) (kc_record_window_size (kn_config K)) (klog k) e"
      unfolding reasoning_audit [OF e(2) assms(3) e(3,4)] w ..
    with Inr e assms(3,4) extends_same [OF e(1) run(4)] show ?thesis
      by (simp add: recorded_call_def entry_type_def)
  qed (use a extends_same [OF _ run(4)] in simp)
qed simp

definition logs :: "json \<Rightarrow> ('s, 'x, 'u) kernel_state \<Rightarrow> ('s, 'x, 'u) kernel_state \<Rightarrow> bool" where
  "logs payload k k' = (\<exists>e. extends [e] k k' \<and> recorded_call payload k e)"

lemma logs_same: "logs p k1 k' \<Longrightarrow> abs (ks_store k1) = abs (ks_store k) \<Longrightarrow> logs p k k'"
  by (auto simp: logs_def recorded_call_def klog_def dest: extends_same)

lemma failure_spec:
  assumes "record_reasoning_failure K (of_nat (Suc (length (klog k)))) stage msg k = (r, k')" "ready 1 k"
  shows "case r of Inl _ \<Rightarrow> extends [] k k' | Inr _ \<Rightarrow> logs (failure_payload stage msg) k k'"
  using assms(1) [unfolded record_reasoning_failure_def] quiet_reasoning_tx assms(2)
proof (cases rule: quiet_then)
  case (run tx k1)
  note t = reasoning_tx_value [OF run(1)]
  from run(2) [unfolded try_assoc] show ?thesis
  proof (cases rule: try_then_cases)
    case (fail e)
    then show ?thesis
      using window_append_spec [of k1 tx "Inl e" k'] run(3,5) t extends_same [OF _ run(4)] by fastforce
  next
    case app: (run e k2)
    then have "logs (failure_payload stage msg) k1 k2"
      using window_append_spec [of k1 tx "Inr e" k2] run(3,5) t by (fastforce simp: logs_def)
    with app(2) logs_same [OF _ run(4)] show ?thesis by auto
  qed
qed simp

lemma fail_recorded_spec:
  assumes "fail_recorded K stage msg x k = (r, k')" "ready 1 k"
  shows "(\<exists>e. r = Inl e) \<and> (extends [] k k' \<or> logs (failure_payload stage msg) k k')"
  using assms(1) [unfolded fail_recorded_def] quiet_loads(1) assms(2)
proof (cases rule: quiet_then)
  case (run seq k1)
  obtain r1 where f: "record_reasoning_failure K seq stage msg k1 = (r1, k')" and r: "r = Inl x"
    using run(2) by (auto split: prod.splits)
  have "case r1 of Inl _ \<Rightarrow> extends [] k1 k' | Inr _ \<Rightarrow> logs (failure_payload stage msg) k1 k'"
    using failure_spec [of k1 stage msg r1 k'] f next_seq_value [OF run(1)] run(3,5) by simp
  with r extends_same [OF _ run(4)] logs_same [OF _ run(4)] show ?thesis by (cases r1) auto
qed simp

lemma reason_spec:
  assumes "reason K P request k = (r, k')" "ready 1 k"
    and "answer = fst (pv_complete P (kc_proposal_timeout_ms (kn_config K)) request (ks_ui k))"
  shows "extends [] k k' \<and> (\<exists>e. r = Inl e) \<or> logs (call_payload (kn_config K) answer) k k'"
  using assms(1) [unfolded reason_def] quiet_basic(4) assms(2)
proof (cases rule: quiet_then)
  case (run a k1)
  have a: "a = answer" using run(1) assms(3) by (auto simp: on_ui_def split: prod.splits)
  show ?thesis
  proof (cases "\<exists>response. answer = Some (Inr response)")
    case False
    obtain stage msg x where f: "fail_recorded K stage msg x k1 = (r, k')"
        "call_payload (kn_config K) answer = failure_payload stage msg"
      using run(2) False unfolding a by (cases answer; cases "the answer") (auto simp: Let_def)
    from fail_recorded_spec [OF f(1) run(3)] show ?thesis
      using extends_same [OF _ run(4)] logs_same [OF _ run(4)] f(2) by auto
  next
    case True
    then obtain response where ans: "answer = Some (Inr response)" by blast
    from run(2) [unfolded a ans option.case sum.case] quiet_reasoning_tx run(3) show ?thesis
    proof (cases rule: quiet_then)
      case (fail e)
      then show ?thesis using extends_same [OF _ run(4)] by blast
    next
      case tx: (run tx k2)
      note t = reasoning_tx_value [OF tx(1)]
      have same: "abs (ks_store k2) = abs (ks_store k)" using tx(4) run(4) by simp
      from tx(2) quiet_loads(1) tx(3) show ?thesis
      proof (cases rule: quiet_then)
        case (fail e)
        then show ?thesis using extends_same [OF _ same] by blast
      next
        case seq: (run seq k3)
        have same3: "abs (ks_store k3) = abs (ks_store k)" using seq(4) same by simp
        have n: "seq = of_nat (Suc (length (klog k3)))" using next_seq_value [OF seq(1)] seq(5) by simp
        from seq(2) [unfolded try_assoc n] show ?thesis
        proof (cases rule: try_then_cases)
          case (fail e)
          with window_append_spec [OF fail(1) seq(3) t [THEN conjunct1] t [THEN conjunct2]]
          show ?thesis using extends_same [OF _ same3] by simp
        next
          case app: (run e k4)
          with window_append_spec [OF app(1) seq(3) t [THEN conjunct1] t [THEN conjunct2]]
          have "logs (reasoning_payload response) k3 k4" by (auto simp: logs_def)
          with app(2) show ?thesis using logs_same [OF _ same3] ans by simp
        qed
      qed
    qed
  qed
qed blast

end

section \<open>Over a store that reports no errors\<close>

context kernel_writes
begin

lemma append_hashed_returns:
  assumes "ready 1 k" "seq = of_nat (Suc (length (klog k)))"
  shows "returns (append_hashed K seq tx window) k"
  unfolding append_hashed_def Let_def
proof (rule returns_try, simp add: hash_returns codecs, rule returns_try, goal_cases)
  case (1 ch k1)
  then have "k1 = k" by simp
  with assms obtain s' where "so_append_entry_direct (kn_ops K) (kn_agent_id K) seq
      ((record_entry_builder seq tx) \<lparr> re_context_hash := ch \<rparr>) (ks_store k1) = (Inr (), s')"
    using append_returns [OF _ entries, of "ks_store k" "kn_agent_id K"]
    by (auto simp: ready_def klog_def simp del: of_nat_Suc)
  then show ?case by (simp add: returns_def on_store_def res_map_err_def)
qed simp

lemma window_append_returns:
  assumes "ready 1 k" "seq = of_nat (Suc (length (klog k)))"
  shows "returns (try_then (load_window K seq) (append_hashed K seq tx)) k"
proof (rule returns_try [OF load_window_returns [OF assms(1)]])
  fix w k1
  assume "load_window K seq k = (Inr w, k1)"
  with assms show "returns (append_hashed K seq tx w) k1"
    using quiet_ready [OF quiet_loads(2)] quiet_klog [OF quiet_loads(2)] by (intro append_hashed_returns) auto
qed

lemma reasoning_tx_returns: "returns (reasoning_tx K payload) k"
  unfolding reasoning_tx_def
  using codecs by (intro returns_try) (auto simp: codecs_total_def codec_totalD)

lemma fail_recorded_logs:
  assumes "fail_recorded K stage msg x k = (r, k')" "ready 1 k"
  shows "r = Inl x \<and> logs (failure_payload stage msg) k k'"
proof -
  obtain seq k1 where seq: "next_seq K k = (Inr seq, k1)"
    using next_seq_returns [OF assms(2)] by (auto simp: returns_def)
  have k1: "ready 1 k1" "abs (ks_store k1) = abs (ks_store k)" "seq = of_nat (Suc (length (klog k1)))"
    using quiet_ready [OF quiet_loads(1) seq assms(2)] quietD [OF quiet_loads(1) seq]
      next_seq_value [OF seq] quiet_klog [OF quiet_loads(1) seq] by simp_all
  have "returns (record_reasoning_failure K seq stage msg) k1"
    unfolding record_reasoning_failure_def try_assoc
  proof (rule returns_try [OF returns_try [OF reasoning_tx_returns]])
    fix tx k2
    assume "reasoning_tx K (failure_payload stage msg) k1 = (Inr tx, k2)"
    with k1 show "returns (try_then (load_window K seq) (append_hashed K seq tx)) k2"
      using quiet_ready [OF quiet_reasoning_tx] quiet_klog [OF quiet_reasoning_tx]
      by (intro window_append_returns) auto
  qed simp
  then obtain u k2 where f: "record_reasoning_failure K seq stage msg k1 = (Inr u, k2)" by (auto simp: returns_def)
  then have "logs (failure_payload stage msg) k1 k2"
    using failure_spec [of k1 stage msg "Inr u" k2] k1 by simp
  with assms(1) seq f logs_same [OF _ k1(2)] show ?thesis
    by (auto simp: fail_recorded_def try_then_def)
qed

lemma reason_success:
  assumes "pv_complete P (kc_proposal_timeout_ms (kn_config K)) request (ks_ui k) = (Some (Inr response), u)"
    and "ready 1 k" "reason K P request k = (r, k')"
  shows "\<exists>e. r = Inr \<lparr> rr_entry = e, rr_response = response \<rparr>"
proof -
  let ?k = "k \<lparr> ks_ui := u \<rparr>"
  have rd: "ready 1 ?k" using assms(2) by (simp add: ready_def klog_def)
  have "returns (try_then (reasoning_tx K (reasoning_payload response)) (\<lambda>tx. try_then (next_seq K) (\<lambda>seq.
      try_then (try_then (load_window K seq) (append_hashed K seq tx))
        (\<lambda>entry. ok \<lparr> rr_entry = entry, rr_response = response \<rparr>)))) ?k"
  proof (rule returns_try [OF reasoning_tx_returns], rule returns_try, goal_cases)
    case (1 tx k1)
    then show ?case using quiet_ready [OF quiet_reasoning_tx _ rd] next_seq_returns by blast
  next
    case (2 tx k1 seq k2)
    have "ready 1 k2" "seq = of_nat (Suc (length (klog k2)))"
      using 2 quiet_ready [OF quiet_reasoning_tx 2(1) rd] quiet_ready [OF quiet_loads(1) 2(2)]
        next_seq_value [OF 2(2)] quiet_klog [OF quiet_loads(1) 2(2)] by simp_all
    then show ?case by (intro returns_try window_append_returns) simp_all
  qed
  with assms(1,3) show ?thesis
    by (auto simp: reason_def try_assoc returns_def on_ui_def try_then_def split: prod.splits sum.splits)
qed

lemma reason_logs:
  assumes "reason K P request k = (r, k')" "ready 1 k"
    and "pv_complete P (kc_proposal_timeout_ms (kn_config K)) request (ks_ui k) = (answer, u)"
  shows "logs (call_payload (kn_config K) answer) k k' \<and>
    (case answer of
       Some (Inr response) \<Rightarrow> \<exists>e. r = Inr \<lparr> rr_entry = e, rr_response = response \<rparr>
     | Some (Inl e) \<Rightarrow> r = Inl (KernelError_Reasoner e)
     | None \<Rightarrow> \<exists>m. r = Inl (KernelError_Timeout m))"
proof (cases "\<exists>response. answer = Some (Inr response)")
  case True
  then obtain response where a: "answer = Some (Inr response)" by blast
  from reason_success [OF assms(3) [unfolded a] assms(2,1)] reason_spec [OF assms(1,2) refl] assms(3) a
  show ?thesis by auto
next
  case False
  let ?k = "k \<lparr> ks_ui := u \<rparr>"
  have rd: "ready 1 ?k" "abs (ks_store ?k) = abs (ks_store k)" using assms(2) by (simp_all add: ready_def klog_def)
  obtain stage msg x where f: "fail_recorded K stage msg x ?k = (r, k')"
      "call_payload (kn_config K) answer = failure_payload stage msg"
      "case answer of Some (Inl e) \<Rightarrow> x = KernelError_Reasoner e | _ \<Rightarrow> \<exists>m. x = KernelError_Timeout m"
    using assms(1,3) False
    by (cases answer; cases "the answer") (auto simp: reason_def try_then_def on_ui_def Let_def)
  from fail_recorded_logs [OF f(1) rd(1)] f(2,3) logs_same [OF _ rd(2)] False show ?thesis
    by (cases answer; cases "the answer") auto
qed

end

section \<open>Properties\<close>

text \<open>
  Property C6: every call of the model is recorded.  Over a store that reports no errors, a
  reasoning call appends exactly one reasoning entry, whether the provider answered, failed or did
  not respond in time: the entry's payload is the outcome, it continues the audit log, and the
  caller gets the response or the provider's error.
\<close>

theorem reason_always_recorded:
  assumes "store_ok E V" "db_live (st_rocksdb E)" "kn_ops K = rocks_ops E"
    and "codec_ok (sj_policy_decision (kl_serde (kn_libs K)))" "codecs_total (kl_serde (kn_libs K))"
    and "\<forall>e. encodable E (sj_record_entry (st_serde E)) e"
    and "codec_ok (sj_value (kl_serde (kn_libs K)))"
    and "view_inv E (V (rk_db (ks_store k)))" "length (kernel_log_of E V k (kn_agent_id K)) + 1 < 2 ^ 64"
    and answer: "pv_complete P (kc_proposal_timeout_ms (kn_config K)) request (ks_ui k) = (answer, u)"
    and run: "reason K P request k = (r, k')"
  shows "\<exists>e. kernel_log_of E V k' (kn_agent_id K) = kernel_log_of E V k (kn_agent_id K) @ [e]
    \<and> entry_type e = TxType_Reasoning
    \<and> from_slice (sj_value (kl_serde (kn_libs K))) (tx_payload (re_tx e)) = Inr (call_payload (kn_config K) answer)
    \<and> audit_entry (kn_libs K) (kc_record_window_size (kn_config K)) (kernel_log_of E V k (kn_agent_id K)) e
    \<and> (case answer of
         Some (Inr response) \<Rightarrow> \<exists>e. r = Inr \<lparr> rr_entry = e, rr_response = response \<rparr>
       | Some (Inl e) \<Rightarrow> r = Inl (KernelError_Reasoner e)
       | None \<Rightarrow> \<exists>m. r = Inl (KernelError_Timeout m))"
proof -
  note kw = kernel_writesI [OF assms(1-6)]
  note kl = kernel_writes.axioms(1) [OF kw]
  note defs = kernel_log.klog_def [OF kl] kernel_log.ready_def [OF kl] kernel_log.logs_def [OF kl]
    kernel_log.recorded_call_def [OF kl] kernel_log.extends_def [OF kl]
  have "kernel_log.ready K (\<lambda>s. rocks_view E (V (rk_db s))) (\<lambda>s. view_inv E (V (rk_db s))) 1 k"
    using assms(8,9) by (simp add: defs kernel_log_of_def)
  from kernel_writes.reason_logs [OF kw run this answer] show ?thesis
    using codec_okD [OF assms(7)] by (fastforce simp: defs kernel_log_of_def)
qed

definition demo_provider :: "(unit, unit, unit) model_provider" where
  "demo_provider = \<lparr> pv_complete = (\<lambda>_ _ u. (None, u)), pv_complete_streaming = (\<lambda>_ _ u. (Some (Inr ()), u)) \<rparr>"

theorem reason_always_recorded_witness:
  "\<exists>e. kernel_log_of demo_store_env mem_view (snd (reason demo_kernel demo_provider () (demo_start AgentMode_Agent))) demo_agent = [e]
    \<and> entry_type e = TxType_Reasoning"
proof -
  obtain r k' where run: "reason demo_kernel demo_provider () (demo_start AgentMode_Agent) = (r, k')" by fastforce
  have "\<exists>e. kernel_log_of demo_store_env mem_view k' (kn_agent_id demo_kernel) =
      kernel_log_of demo_store_env mem_view (demo_start AgentMode_Agent) (kn_agent_id demo_kernel) @ [e]
    \<and> entry_type e = TxType_Reasoning
    \<and> from_slice (sj_value (kl_serde (kn_libs demo_kernel))) (tx_payload (re_tx e)) =
        Inr (call_payload (kn_config demo_kernel) None)
    \<and> audit_entry (kn_libs demo_kernel) (kc_record_window_size (kn_config demo_kernel))
        (kernel_log_of demo_store_env mem_view (demo_start AgentMode_Agent) (kn_agent_id demo_kernel)) e
    \<and> (case None of Some (Inr response) \<Rightarrow> \<exists>e. r = Inr \<lparr> rr_entry = e, rr_response = response \<rparr>
       | Some (Inl e) \<Rightarrow> r = Inl (KernelError_Reasoner e) | None \<Rightarrow> \<exists>m. r = Inl (KernelError_Timeout m))"
    by (rule reason_always_recorded [OF demo_store_ok _ _ _ _ _ _ _ _ _ run])
      (simp_all add: demo_meets demo_encodable demo_init demo_provider_def)
  then show ?thesis by (auto simp: run demo_init)
qed

text \<open>
  Property C9: the entry of a streamed call carries the hash of the window that was read when the
  stream started.  It continues the audit log exactly when the window at the end of the stream
  hashes alike; entries that other paths append while the stream runs break the log for the
  replay.
\<close>

theorem stream_entry_audited_iff:
  assumes "store_ok E V" and "kn_ops K = rocks_ops E"
    and "codec_ok (sj_policy_decision (kl_serde (kn_libs K)))"
    and "view_inv E (V (rk_db (ks_store k)))" "length (kernel_log_of E V k (kn_agent_id K)) + 1 < 2 ^ 64"
    and "tx_type tx = TxType_Reasoning" and run: "stream_append K handle tx k = (Inr e, k')"
    and "audit_log (kn_libs K) W (kernel_log_of E V k (kn_agent_id K))"
  shows "kernel_log_of E V k' (kn_agent_id K) = kernel_log_of E V k (kn_agent_id K) @ [e]
    \<and> (audit_log (kn_libs K) W (kernel_log_of E V k' (kn_agent_id K)) \<longleftrightarrow>
       hash_tx_with_window (kn_libs K) tx (window_of W (kernel_log_of E V k (kn_agent_id K))) =
       hash_tx_with_window (kn_libs K) tx (sh_window handle))"
proof -
  note kl = kernel_logI [OF assms(1-3)]
  note defs = kernel_log.klog_def [OF kl] kernel_log.ready_def [OF kl] kernel_log.extends_def [OF kl]
  obtain seq k1 where seq: "next_seq K k = (Inr seq, k1)" "append_hashed K seq tx (sh_window handle) k1 = (Inr e, k')"
    using run by (auto simp: stream_append_def elim: try_then_InrE)
  have rd: "kernel_log.ready K (\<lambda>s. rocks_view E (V (rk_db s))) (\<lambda>s. view_inv E (V (rk_db s))) 1 k"
    using assms(4,5) by (simp add: defs kernel_log_of_def)
  note q = kernel_log.quiet_loads(1) [OF kl]
  have log1: "kernel_log_of E V k1 = kernel_log_of E V k"
    using kernel_log.quietD [OF kl q seq(1)] by (auto simp: kernel_log_of_def rocks_view_def)
  have "kernel_log.ready K (\<lambda>s. rocks_view E (V (rk_db s))) (\<lambda>s. view_inv E (V (rk_db s))) 1 k1"
    using kernel_log.quiet_ready [OF kl q seq(1) rd] .
  from kernel_log.append_hashed_spec [OF kl seq(2) this]
  have e: "kernel_log_of E V k' (kn_agent_id K) = kernel_log_of E V k (kn_agent_id K) @ [e]" "re_tx e = tx"
      "re_seq e = of_nat (Suc (length (kernel_log_of E V k (kn_agent_id K))))"
      "hash_tx_with_window (kn_libs K) tx (sh_window handle) = Inr (re_context_hash e)"
    using log1 by (simp_all add: defs kernel_log_of_def fun_eq_iff del: length_log_view)
  show ?thesis
    using kernel_log.reasoning_audit [OF kl e(2) assms(6) e(3,4), of W] assms(8)
    by (simp add: e(1) audit_log_snoc)
qed

definition demo_thought :: transaction where
  "demo_thought = \<lparr> tx_hash = Hash 7, tx_agent_id = demo_agent, tx_ts_ms = 1, tx_type = TxType_Reasoning,
     tx_payload = [], tx_reference = None \<rparr>"

theorem stream_entry_audited_iff_witness:
  "\<exists>e k'. stream_append demo_kernel \<lparr> sh_window = [] \<rparr> demo_thought (demo_start AgentMode_Agent) = (Inr e, k')
    \<and> audit_log demo_libs 50 (kernel_log_of demo_store_env mem_view k' demo_agent)"
proof -
  let ?k = "demo_start AgentMode_Agent"
  have rd: "demo.ready 1 ?k" using demo_init by (simp add: demo.ready_def demo.klog_def kernel_log_of_def)
  have "returns (stream_append demo_kernel \<lparr> sh_window = [] \<rparr> demo_thought) ?k"
    unfolding stream_append_def
  proof (rule returns_try [OF demo.next_seq_returns [OF rd]])
    fix seq k1
    assume "next_seq demo_kernel ?k = (Inr seq, k1)"
    then show "returns (append_hashed demo_kernel seq demo_thought (sh_window \<lparr> sh_window = [] \<rparr>)) k1"
      using demo.quiet_ready [OF demo.quiet_loads(1) _ rd] demo.next_seq_value
        demo.quiet_klog [OF demo.quiet_loads(1)] by (intro demo.append_hashed_returns) auto
  qed
  then obtain e k' where run: "stream_append demo_kernel \<lparr> sh_window = [] \<rparr> demo_thought ?k = (Inr e, k')"
    by (auto simp: returns_def)
  have "kernel_log_of demo_store_env mem_view k' (kn_agent_id demo_kernel) =
      kernel_log_of demo_store_env mem_view ?k (kn_agent_id demo_kernel) @ [e]
    \<and> (audit_log (kn_libs demo_kernel) 50 (kernel_log_of demo_store_env mem_view k' (kn_agent_id demo_kernel)) \<longleftrightarrow>
       hash_tx_with_window (kn_libs demo_kernel) demo_thought
         (window_of 50 (kernel_log_of demo_store_env mem_view ?k (kn_agent_id demo_kernel))) =
       hash_tx_with_window (kn_libs demo_kernel) demo_thought (sh_window \<lparr> sh_window = [] \<rparr>))"
    by (rule stream_entry_audited_iff [OF demo_store_ok _ _ _ _ _ run])
      (simp_all add: demo_init demo_thought_def)
  with run show ?thesis by (auto simp: demo_init window_of_def)
qed

section \<open>System records in the log\<close>

context log_store
begin

text \<open>
  A log that is an audit log for windows of 50 entries, and what other writers may do to the store
  between the steps of this one: keep the log that, and only add entries to it.
\<close>

definition good :: "kernel_libs \<Rightarrow> agent_id \<Rightarrow> 's \<Rightarrow> bool" where
  "good L a s = (inv s \<and> audit_log L 50 (sv_log (abs s) a) \<and> length (sv_log (abs s) a) + 2 < 2 ^ 64)"

definition only_appends :: "kernel_libs \<Rightarrow> agent_id \<Rightarrow> ('s \<Rightarrow> 's) \<Rightarrow> bool" where
  "only_appends L a f = (\<forall>s. good L a s \<longrightarrow> good L a (f s) \<and> prefix (sv_log (abs s) a) (sv_log (abs (f s)) a))"

lemma window_50:
  assumes "Suc (length es) < 2 ^ 64" "head = of_nat (length es)" "head \<noteq> 0"
  shows "take (max 1 50) (drop (unat (max (saturating_sub head 49) 1) - 1) es) = window_of 50 es"
proof -
  have n: "unat head = length es" using assms by (simp add: unat_of_nat_u64)
  have "unat (max (saturating_sub head 49) 1) - 1 = unat (saturating_sub (of_nat (Suc (length es)) :: u64) 50) - 1"
  proof (cases "length es < 50")
    case True
    then have "unat (saturating_sub head 49) \<le> 1"
      using n by (auto simp: saturating_sub_def word_less_nat_alt unat_sub word_le_nat_alt)
    moreover have "unat (saturating_sub (of_nat (Suc (length es)) :: u64) 50) \<le> 1"
      using True assms(1) unat_of_nat_u64 [of "Suc (length es)"]
      by (auto simp: saturating_sub_def word_less_nat_alt unat_sub word_le_nat_alt not_less simp del: of_nat_Suc)
    ultimately show ?thesis by (auto simp: max_def word_le_nat_alt)
  next
    case False
    then show ?thesis
      using n assms(1) unat_of_nat_u64 [of "Suc (length es)"]
      by (auto simp: saturating_sub_def word_less_nat_alt unat_sub word_le_nat_alt not_less max_def simp del: of_nat_Suc)
  qed
  with window_read [OF assms(1), of 50] show ?thesis by simp
qed

lemma system_window_spec:
  assumes "system_window L ops a s = (r, s')" "inv s" "length (sv_log (abs s) a) + 2 < 2 ^ 64"
  shows "abs s' = abs s \<and> inv s' = inv s \<and> (\<forall>head window. r = Inr (head, window) \<longrightarrow>
    head = of_nat (length (sv_log (abs s) a)) \<and> window = window_of 50 (sv_log (abs s) a))"
  using assms(1) [unfolded system_window_def]
proof (cases rule: try_then_cases)
  case (fail e)
  then show ?thesis using head_ok [of a s] by (auto simp: map_err_def split: prod.splits sum.splits)
next
  case (run head s1)
  then obtain h: "abs s1 = abs s" "inv s1 = inv s" "head = of_nat (length (sv_log (abs s) a))"
    using head_ok [of a s] by (auto simp: map_err_def split: prod.splits sum.splits)
  have len: "Suc (length (sv_log (abs s1) a)) < 2 ^ 64" using assms(3) h by simp
  show ?thesis
  proof (cases "head = 0")
    case True
    have "unat head = length (sv_log (abs s) a)"
      unfolding h(3) using assms(3) by (intro unat_of_nat_u64) simp
    with True have "sv_log (abs s) a = []" by simp
    with True run(2) h show ?thesis by (auto simp: window_of_def try_then_def)
  next
    case False
    with run(2) obtain rs where rs: "so_scan_record ops a (max (saturating_sub head 49) 1) 50 s1 = (rs, s')"
        "r = (case rs of Inl e \<Rightarrow> Inl (system_fault L ''scan_record'' e) | Inr es \<Rightarrow> Inr (head, es))"
      by (auto simp: try_then_def map_err_def split: prod.splits sum.splits)
    with scan_ok [OF rs(1)] h len assms(2) window_50 [of "sv_log (abs s) a" head] False show ?thesis
      by (auto split: sum.splits)
  qed
qed

lemma append_system_entry_spec:
  assumes "append_system_entry L ops a n e s = (r, s')" "inv s" "Suc (length (sv_log (abs s) a)) < 2 ^ 64"
  shows "case r of Inl _ \<Rightarrow> abs s' = abs s \<and> inv s' = inv s
    | Inr seq \<Rightarrow> seq = n \<and> n = of_nat (Suc (length (sv_log (abs s) a))) \<and> inv s'
        \<and> sv_log (abs s') a = sv_log (abs s) a @ [e]"
proof -
  obtain rs where rs: "so_append_entry_direct_with_runtime_capabilities ops a n e None False s = (rs, s')"
      "r = (case rs of Inr _ \<Rightarrow> Inr n | Inl x \<Rightarrow> Inl (case x of StoreError_SequenceMismatch _ _ \<Rightarrow> SystemRecord_SequenceMismatch
              | _ \<Rightarrow> system_fault L ''append_entry_direct'' x))"
    using assms(1) by (auto simp: append_system_entry_def direct_short split: prod.splits sum.splits)
  show ?thesis
  proof (cases rs)
    case (Inl x)
    with rs direct_fails show ?thesis by auto
  next
    case (Inr u)
    with append_direct [OF assms(2,3) rs(1) [unfolded Inr]] rs(2) show ?thesis by simp
  qed
qed

text \<open>
  An append that succeeds found the log as it was read: other writers can only have added entries,
  and then the sequence number would not be the next one.
\<close>

lemma append_once_spec:
  assumes run: "append_system_record_once L ops others a tx s = (r, s')"
    and good: "good L a s" "only_appends L a others"
    and ty: "tx_type tx \<noteq> TxType_PolicyDecision" "tx_type tx \<noteq> TxType_ToolExecution"
  shows "case r of Inl _ \<Rightarrow> good L a s' \<and> prefix (sv_log (abs s) a) (sv_log (abs s') a)
    | Inr seq \<Rightarrow> \<exists>e. sv_log (abs s') a = sv_log (abs s) a @ [e] \<and> re_tx e = tx \<and> re_seq e = seq
        \<and> inv s' \<and> audit_log L 50 (sv_log (abs s') a)"
  using run [unfolded append_system_record_once_def]
proof (cases rule: try_then_cases)
  case (fail e)
  then show ?thesis using system_window_spec [OF fail(1)] good(1) by (auto simp: good_def)
next
  case (run p s1)
  obtain head window where p: "p = (head, window)" by (cases p)
  obtain w: "abs s1 = abs s" "inv s1 = inv s" "head = of_nat (length (sv_log (abs s) a))"
      "window = window_of 50 (sv_log (abs s) a)"
    using system_window_spec [OF run(1)] good(1) by (auto simp: good_def p)
  have g1: "good L a s1" using good(1) w by (simp add: good_def)
  from run(2) [unfolded p prod.case] show ?thesis
  proof (cases rule: try_then_cases)
    case (fail e)
    then show ?thesis using g1 w by simp
  next
    case hashed: (run ch s2)
    then have s2: "s2 = s1" and h: "hash_tx_with_window L tx window = Inr ch"
      by (auto simp: res_map_err_def split: sum.splits)
    let ?t = "others s1" and ?e = "(record_entry_builder (head + 1) tx) \<lparr> re_context_hash := ch \<rparr>"
    have t: "good L a ?t" "prefix (sv_log (abs s) a) (sv_log (abs ?t) a)"
      using good(2) g1 w(1) by (auto simp: only_appends_def)
    have st: "append_system_entry L ops a (head + 1) ?e ?t = (r, s')" using hashed(2) s2 by (simp add: Let_def)
    have len: "Suc (length (sv_log (abs ?t) a)) < 2 ^ 64" "inv ?t" using t(1) by (simp_all add: good_def)
    show ?thesis
    proof (cases r)
      case (Inl x)
      with append_system_entry_spec [OF st len(2,1)] t show ?thesis by (simp add: good_def)
    next
      case (Inr seq)
      with append_system_entry_spec [OF st len(2,1)]
      have a: "seq = head + 1" "head + 1 = of_nat (Suc (length (sv_log (abs ?t) a)))" "inv s'"
          "sv_log (abs s') a = sv_log (abs ?t) a @ [?e]" by simp_all
      have "of_nat (length (sv_log (abs s) a)) = (of_nat (length (sv_log (abs ?t) a)) :: u64)"
        using a(2) w(3) by simp
      then have "length (sv_log (abs s) a) = length (sv_log (abs ?t) a)"
        using len good(1) by (simp add: good_def of_nat_u64_eq_iff)
      with t(2) have same: "sv_log (abs ?t) a = sv_log (abs s) a" by (auto simp: prefix_def)
      have "audit_entry L 50 (sv_log (abs s) a) ?e"
        using h w(3,4) ty by (simp add: audit_entry_def linked_def entry_type_def record_entry_builder_def)
      then have "audit_log L 50 (sv_log (abs s') a)"
        using good(1) by (simp add: a(4) same audit_log_snoc good_def)
      with a same Inr show ?thesis
        by (simp add: record_entry_builder_def)
    qed
  qed
qed

lemma write_attempts_spec:
  assumes "write_attempts L ops others a tx n s = (r, s')" "good L a s" "\<forall>i. only_appends L a (others i)"
    and ty: "tx_type tx \<noteq> TxType_PolicyDecision" "tx_type tx \<noteq> TxType_ToolExecution"
  shows "inv s' \<and> audit_log L 50 (sv_log (abs s') a) \<and> prefix (sv_log (abs s) a) (sv_log (abs s') a)
    \<and> (\<forall>seq. r = Inr seq \<longrightarrow> (\<exists>es e. sv_log (abs s') a = es @ [e] \<and> re_tx e = tx \<and> re_seq e = seq))"
  using assms(1,2)
proof (induction n arbitrary: s)
  case 0
  obtain r1 where r1: "append_system_record_once L ops (others 0) a tx s = (r1, s')"
      "case r1 of Inr seq \<Rightarrow> r = Inr seq | Inl x \<Rightarrow> \<exists>e. r = Inl e"
    using 0(1) by (auto split: prod.splits sum.splits system_record_error.splits)
  with append_once_spec [OF r1(1) 0(2) _ ty] assms(3) show ?case
    by (auto simp: good_def prefix_def split: sum.splits)
next
  case (Suc n)
  obtain r1 s1 where r1: "append_system_record_once L ops (others (Suc n)) a tx s = (r1, s1)" by fastforce
  note spec = append_once_spec [OF r1 Suc.prems(2) _ ty]
  show ?case
  proof (cases "r1 = Inl SystemRecord_SequenceMismatch")
    case True
    then have "write_attempts L ops others a tx n s1 = (r, s')" using Suc.prems(1) r1 by simp
    moreover have "good L a s1" "prefix (sv_log (abs s) a) (sv_log (abs s1) a)"
      using spec assms(3) True by simp_all
    ultimately show ?thesis using Suc.IH prefix_order.trans by blast
  next
    case False
    then have "s' = s1" "case r1 of Inr seq \<Rightarrow> r = Inr seq | Inl x \<Rightarrow> \<exists>e. r = Inl e"
      using Suc.prems(1) r1 by (auto split: sum.splits system_record_error.splits)
    with spec assms(3) show ?thesis by (auto simp: good_def prefix_def split: sum.splits)
  qed
qed

end

definition rocks_audited :: "'db store_env \<Rightarrow> ('db \<Rightarrow> view) \<Rightarrow> kernel_libs \<Rightarrow> agent_id \<Rightarrow> 'db rocks_state \<Rightarrow> bool" where
  "rocks_audited E V L a s =
    (view_inv E (V (rk_db s)) \<and> audit_log L 50 (log_view E (V (rk_db s)) a)
     \<and> length (log_view E (V (rk_db s)) a) + 2 < 2 ^ 64)"



end
