(* ===== verification/Kernel_Spawn.thy ===== *)
theory Kernel_Spawn
  imports Kernel_Reason
begin

text \<open>
  Spawning children and attributing their work: the kernel-backed spawn hook
  (\<open>spawn_hook.rs\<close>), the walk along the chain of parents (\<open>billing.rs\<close>) and the context builder
  (\<open>context/mod.rs\<close>).
\<close>

section \<open>The context builder\<close>

(* src/crates/aura-model-reasoner/src/kernel_propose.rs:12-23 RecordSummary *)
record record_summary =
  rsum_seq :: u64
  rsum_tx_kind :: string
  rsum_action_kinds :: "action_kind list"
  rsum_payload_summary :: "string option"

(* src/crates/aura-agent-kernel/src/context/mod.rs:47-54 Context *)
record context1 =
  ctx_context_hash :: context_hash
  ctx_record_summaries :: "record_summary list"

(* src/crates/aura-agent-kernel/src/context/mod.rs:56-60 ContextBuilder *)
record context_builder =
  cb_tx :: transaction
  cb_record_window :: "record_entry list"

(* src/crates/aura-agent-kernel/src/context/mod.rs:62-75 ContextBuilder::new *)
definition context_builder_new :: "kernel_libs \<Rightarrow> transaction \<Rightarrow> (serde_error, context_builder) result" where
  "context_builder_new L tx =
    res_bind (to_vec (sj_transaction (kl_serde L)) tx) (\<lambda>_. Inr \<lparr> cb_tx = tx, cb_record_window = [] \<rparr>)"

(* src/crates/aura-agent-kernel/src/context/mod.rs:77-82 ContextBuilder::with_record_window *)
definition with_record_window :: "context_builder \<Rightarrow> record_entry list \<Rightarrow> context_builder" where
  "with_record_window b entries = b \<lparr> cb_record_window := entries \<rparr>"

definition summary_of_entry :: "kernel_libs \<Rightarrow> record_entry \<Rightarrow> record_summary" where
  "summary_of_entry L entry =
    \<lparr> rsum_seq = re_seq entry, rsum_tx_kind = transaction_type_debug (tx_type (re_tx entry)),
      rsum_action_kinds = map ac_kind (re_actions entry),
      rsum_payload_summary = Some (''blake3:''
        @ take 16 (kl_hex L (array32_bytes (kl_blake3 L (tx_payload (re_tx entry)))))) \<rparr>"

(* src/crates/aura-agent-kernel/src/context/mod.rs:84-134 ContextBuilder::build *)
definition context_build :: "kernel_libs \<Rightarrow> context_builder \<Rightarrow> (kernel_error, context1) result" where
  "context_build L b =
    res_bind (res_map_err (\<lambda>e. KernelError_Internal (''context hash: '' @ kernel_error_message e))
                (hash_tx_with_window L (cb_tx b) (cb_record_window b))) (\<lambda>ch.
      Inr \<lparr> ctx_context_hash = ch, ctx_record_summaries = map (summary_of_entry L) (cb_record_window b) \<rparr>)"

section \<open>The spawn hook\<close>

(* src/crates/aura-exec-traits/src/spawn_hook.rs:17-44 ChildAgentSpec *)
record child_agent_spec =
  cs_name :: string
  cs_role :: string
  cs_permissions :: permissions
  cs_tool_permissions :: "agent_tool_permissions option"
  cs_parent_tool_permissions :: "agent_tool_permissions option"
  cs_system_prompt_override :: "string option"
  cs_preassigned_agent_id :: "agent_id option"
  cs_initial_prompt :: "string option"

(* src/crates/aura-exec-traits/src/spawn_hook.rs:46-58 SpawnOutcome *)
record spawn_outcome =
  so_child_agent_id :: agent_id
  so_external_agent_id :: "string option"
  so_delegate_tx_hash :: hash

(* src/crates/aura-exec-traits/src/spawn_hook.rs:60-72 SpawnError *)
datatype spawn_error = SpawnError_Store string | SpawnError_Serialization string | SpawnError_Other string

(* src/crates/aura-agent-kernel/src/spawn_hook.rs:40-50 ChildIdentityPayload *)
record child_identity_payload =
  ci_identity :: identity
  ci_role :: string
  ci_system_prompt_override :: "string option"
  ci_parent_agent_id :: "agent_id option"
  ci_originating_user_id :: "string option"

(* src/crates/aura-agent-kernel/src/spawn_hook.rs:52-64 DelegateSpawnPayload *)
record delegate_spawn_payload =
  ds_kind :: string
  ds_parent_agent_id :: agent_id
  ds_child_agent_id :: agent_id
  ds_name :: string
  ds_role :: string
  ds_permissions :: permissions
  ds_tool_permissions :: "agent_tool_permissions option"
  ds_originating_user_id :: "string option"

text \<open>
  The libraries of the hook besides the kernel's: the codecs of its two payloads, the decoder of
  an identity inside a JSON value, fresh identifiers and clock readings.
\<close>

record spawn_libs =
  sl_kernel :: kernel_libs
  sl_child_identity :: "child_identity_payload codec"
  sl_delegate :: "delegate_spawn_payload codec"
  sl_identity_of_value :: "json \<Rightarrow> (serde_error, identity) result"

(* src/crates/aura-agent-kernel/src/spawn_hook.rs:212-218 state_label *)
fun state_label :: "tool_state \<Rightarrow> string" where
  "state_label ToolState_Allow = ''on''"
| "state_label ToolState_Deny = ''off''"
| "state_label ToolState_Ask = ''ask''"

(* src/crates/aura-agent-kernel/src/spawn_hook.rs:199-208 enforce_tool_subset *)
fun enforce_each ::
  "user_tool_defaults \<Rightarrow> agent_tool_permissions option \<Rightarrow> (string, tool_state) btree_map \<Rightarrow> (spawn_error, unit) result" where
  "enforce_each user_default parent [] = Inr ()"
| "enforce_each user_default parent ((tool, child_state) # rest) =
    (let parent_state = resolve_effective_permission user_default parent tool in
     if is_subset_of child_state parent_state then enforce_each user_default parent rest
     else Inl (SpawnError_Other (''tool permissions: requested '' @ quoted tool @ ''='' @ state_label child_state
                 @ '' exceeds parent effective '' @ state_label parent_state)))"

(* src/crates/aura-agent-kernel/src/spawn_hook.rs:191-210 enforce_tool_subset *)
definition enforce_tool_subset ::
  "user_tool_defaults \<Rightarrow> agent_tool_permissions option \<Rightarrow> agent_tool_permissions option \<Rightarrow> (spawn_error, unit) result" where
  "enforce_tool_subset user_default parent child =
    (case child of None \<Rightarrow> Inr () | Some c \<Rightarrow> enforce_each user_default parent (atp_per_tool c))"

(* src/crates/aura-agent-kernel/src/spawn_hook.rs:184-189 identity_from_payload *)
definition identity_from_payload :: "spawn_libs \<Rightarrow> bytes \<Rightarrow> identity option" where
  "identity_from_payload S payload =
    (case from_slice (sj_value (kl_serde (sl_kernel S))) payload of
       Inl _ \<Rightarrow> None
     | Inr v \<Rightarrow>
        (case json_get v ''identity'' of
           None \<Rightarrow> None
         | Some i \<Rightarrow> (case sl_identity_of_value S i of Inl _ \<Rightarrow> None | Inr x \<Rightarrow> Some x)))"

definition saturating_inc :: "u64 \<Rightarrow> u64" where
  "saturating_inc n = (if n = - 1 then n else n + 1)"

primrec find_map :: "('a \<Rightarrow> 'b option) \<Rightarrow> 'a list \<Rightarrow> 'b option" where
  "find_map f [] = None"
| "find_map f (x # xs) = (case f x of Some y \<Rightarrow> Some y | None \<Rightarrow> find_map f xs)"

text \<open>A read whose failure counts as no result.\<close>

definition soft :: "('s, 'e, 'a) act \<Rightarrow> 's \<Rightarrow> 'a option \<times> 's" where
  "soft m s = (case m s of (Inr x, s') \<Rightarrow> (Some x, s') | (Inl _, s') \<Rightarrow> (None, s'))"

(* src/crates/aura-agent-kernel/src/spawn_hook.rs:172-182 KernelSpawnHook::latest_identity *)
definition latest_identity ::
  "spawn_libs \<Rightarrow> 'db store_env \<Rightarrow> agent_id \<Rightarrow> 'db rocks_state \<Rightarrow> identity option \<times> 'db rocks_state" where
  "latest_identity S E agent_id s =
    (case soft (get_head_seq E agent_id) s of
       (None, s1) \<Rightarrow> (None, s1)
     | (Some head, s1) \<Rightarrow>
        (case soft (scan_record E agent_id (saturating_inc (saturating_sub head 256)) 256) s1 of
           (None, s2) \<Rightarrow> (None, s2)
         | (Some entries, s2) \<Rightarrow>
             (find_map (\<lambda>e. identity_from_payload S (tx_payload (re_tx e))) (rev entries), s2)))"

definition spawn_fault :: "spawn_libs \<Rightarrow> string \<Rightarrow> store_error \<Rightarrow> spawn_error" where
  "spawn_fault S label e = SpawnError_Store (label @ '': '' @ store_error_message (kl_hex (sl_kernel S)) e)"

text \<open>A system transaction appended to an agent's log, hashed with an empty window.\<close>

(* src/crates/aura-agent-kernel/src/spawn_hook.rs:113-127 KernelSpawnHook::spawn_child *)
definition append_unwindowed ::
  "spawn_libs \<Rightarrow> 'db store_env \<Rightarrow> string \<Rightarrow> agent_id \<Rightarrow> transaction \<Rightarrow> ('db rocks_state, spawn_error, record_entry) act" where
  "append_unwindowed S E whose agent_id tx =
    try_then (map_err (spawn_fault S (''get_head_seq('' @ whose @ '')'')) (get_head_seq E agent_id)) (\<lambda>head.
    try_then (lift_res (res_map_err
        (\<lambda>e. SpawnError_Other (''context hash('' @ whose @ ''): '' @ kernel_error_message e))
        (hash_tx_with_window (sl_kernel S) tx []))) (\<lambda>ch.
      let seq = head + 1; entry = (record_entry_builder seq tx) \<lparr> re_context_hash := ch \<rparr> in
      try_then (map_err (spawn_fault S (''append_entry_direct('' @ whose @ '')''))
                  (append_entry_direct E agent_id seq entry)) (\<lambda>_. ok entry)))"

(* src/crates/aura-agent-kernel/src/spawn_hook.rs:94-98 KernelSpawnHook::spawn_child *)
definition child_identity :: "spawn_libs \<Rightarrow> agent_id \<Rightarrow> child_agent_spec \<Rightarrow> identity" where
  "child_identity S child_agent_id child =
    (identity_new (kl_blake3 (sl_kernel S))
       (''0://spawn/'' @ kl_hex (sl_kernel S) (agent_id_as_bytes child_agent_id)) (cs_name child))
      \<lparr> id_agent_id := child_agent_id, id_permissions := cs_permissions child,
        id_tool_permissions := cs_tool_permissions child \<rparr>"

(* src/crates/aura-agent-kernel/src/spawn_hook.rs:76-92 KernelSpawnHook::spawn_child *)
definition spawn_check ::
  "spawn_libs \<Rightarrow> 'db store_env \<Rightarrow> agent_id \<Rightarrow> string option \<Rightarrow> child_agent_spec \<Rightarrow>
   ('db rocks_state, spawn_error, unit) act" where
  "spawn_check S E parent_agent_id originating_user_id child =
    try_then (case originating_user_id of
        Some user_id \<Rightarrow>
          try_then (map_err (spawn_fault S ''get_user_tool_defaults'') (get_user_tool_defaults E user_id)) (\<lambda>d.
            ok (case d of Some x \<Rightarrow> x | None \<Rightarrow> \<lparr> utd_mode = UserDefault_FullAccess \<rparr>))
      | None \<Rightarrow> ok \<lparr> utd_mode = UserDefault_FullAccess \<rparr>) (\<lambda>user_default.
    try_then (\<lambda>s. case cs_parent_tool_permissions child of
        Some p \<Rightarrow> (Inr (Some p), s)
      | None \<Rightarrow> (case latest_identity S E parent_agent_id s of
                   (i, s') \<Rightarrow> (Inr (Option.bind i id_tool_permissions), s'))) (\<lambda>parent_tool_permissions.
      lift_res (enforce_tool_subset user_default parent_tool_permissions (cs_tool_permissions child))))"

(* src/crates/aura-agent-kernel/src/spawn_hook.rs:66-170 KernelSpawnHook::spawn_child *)
definition spawn_child ::
  "spawn_libs \<Rightarrow> 'db store_env \<Rightarrow> agent_id \<Rightarrow> u64 \<Rightarrow> u64 \<Rightarrow> agent_id \<Rightarrow> string option \<Rightarrow> child_agent_spec \<Rightarrow>
   ('db rocks_state, spawn_error, spawn_outcome) act" where
  "spawn_child S E fresh_id now1 now2 parent_agent_id originating_user_id child =
    (let L = sl_kernel S;
         child_agent_id = (case cs_preassigned_agent_id child of Some i \<Rightarrow> i | None \<Rightarrow> fresh_id) in
     try_then (spawn_check S E parent_agent_id originating_user_id child) (\<lambda>_.
     try_then (lift_res (res_map_err (\<lambda>e. SpawnError_Serialization (''child identity: '' @ serde_message e))
         (to_vec (sl_child_identity S)
           \<lparr> ci_identity = child_identity S child_agent_id child, ci_role = cs_role child,
             ci_system_prompt_override = cs_system_prompt_override child,
             ci_parent_agent_id = Some parent_agent_id, ci_originating_user_id = originating_user_id \<rparr>))) (\<lambda>identity_bytes.
     try_then (append_unwindowed S E ''child'' child_agent_id
         (tx_new_chained (kl_blake3 L) now1 child_agent_id TxType_System identity_bytes None)) (\<lambda>_.
     try_then (lift_res (res_map_err (\<lambda>e. SpawnError_Serialization (''delegate payload: '' @ serde_message e))
         (to_vec (sl_delegate S)
           \<lparr> ds_kind = ''spawn_agent'', ds_parent_agent_id = parent_agent_id, ds_child_agent_id = child_agent_id,
             ds_name = cs_name child, ds_role = cs_role child, ds_permissions = cs_permissions child,
             ds_tool_permissions = cs_tool_permissions child, ds_originating_user_id = originating_user_id \<rparr>))) (\<lambda>delegate_bytes.
     let delegate_tx = tx_new_chained (kl_blake3 L) now2 parent_agent_id TxType_System delegate_bytes None in
     try_then (append_unwindowed S E ''parent'' parent_agent_id delegate_tx) (\<lambda>_.
       ok \<lparr> so_child_agent_id = child_agent_id, so_external_agent_id = None,
            so_delegate_tx_hash = tx_hash delegate_tx \<rparr>))))))"

section \<open>The chain of parents\<close>

(* src/crates/aura-agent-kernel/src/billing.rs:103-110 parent_from_entry *)
definition parent_from_entry :: "serde_json \<Rightarrow> record_entry \<Rightarrow> agent_id option" where
  "parent_from_entry J entry =
    find_map (\<lambda>effect. case from_slice (sj_tool_execution J) (ef_payload effect) of
                Inr exec \<Rightarrow> Some (te_parent_agent_id exec) | Inl _ \<Rightarrow> None) (re_effects entry)"

(* src/crates/aura-agent-kernel/src/billing.rs:50-101 latest_parent *)
definition latest_parent ::
  "serde_json \<Rightarrow> 'db store_env \<Rightarrow> agent_id \<Rightarrow> 'db rocks_state \<Rightarrow> agent_id option \<times> 'db rocks_state" where
  "latest_parent J E agent_id s =
    (case soft (get_head_seq E agent_id) s of
       (None, s1) \<Rightarrow> (None, s1)
     | (Some head, s1) \<Rightarrow>
        (if head = 0 then (None, s1)
         else (case soft (scan_record_descending E agent_id head 10000) s1 of
                 (None, s2) \<Rightarrow> (None, s2)
               | (Some entries, s2) \<Rightarrow> (find_map (parent_from_entry J) entries, s2))))"

instance agent_id :: finite
proof
  have "inj agent_id_array" by (rule injI) (metis agent_id.expand)
  then show "finite (UNIV :: agent_id set)" by (rule finite_imageD [OF finite_subset [OF subset_UNIV finite]])
qed

(* src/crates/aura-agent-kernel/src/billing.rs:32-48 walk_parent_chain *)
function walk_chain ::
  "serde_json \<Rightarrow> 'db store_env \<Rightarrow> agent_id list \<Rightarrow> agent_id \<Rightarrow> 'db rocks_state \<Rightarrow> agent_id list \<times> 'db rocks_state" where
  "walk_chain J E chain cursor s =
    (if cursor \<in> set chain then (chain, s)
     else
       (case latest_parent J E cursor s of
          (Some parent, s') \<Rightarrow> walk_chain J E (chain @ [cursor]) parent s'
        | (None, s') \<Rightarrow> (chain @ [cursor], s')))"
  by pat_completeness auto
termination
proof (relation "measure (\<lambda>(_, _, chain, _, _). card (- set chain))", goal_cases)
  case (2 J E chain cursor s x y x2)
  then show ?case
    by (auto intro!: psubset_card_mono)
qed simp

declare walk_chain.simps [simp del]

(* src/crates/aura-agent-kernel/src/billing.rs:14-48 walk_parent_chain *)
definition walk_parent_chain ::
  "serde_json \<Rightarrow> 'db store_env \<Rightarrow> agent_id \<Rightarrow> 'db rocks_state \<Rightarrow> agent_id list \<times> 'db rocks_state" where
  "walk_parent_chain J E agent_id s = walk_chain J E [] agent_id s"

section \<open>Laws of the walk\<close>

definition parent_view :: "serde_json \<Rightarrow> record_entry list \<Rightarrow> agent_id option" where
  "parent_view J es = find_map (parent_from_entry J) (take 10000 (rev es))"

context live_env
begin

lemma latest_parent_live:
  assumes "view_inv E (view_of s)"
  shows "latest_parent J E a s = (parent_view J (log_view E (view_of s) a), s)"
proof -
  have n: "unat (of_nat (head_len (view_of s) a) :: u64) = head_len (view_of s) a"
    by (rule unat_of_nat_u64 [OF head_len_bound])
  show ?thesis
  proof (cases "of_nat (head_len (view_of s) a) = (0 :: u64)")
    case True
    then have "log_view E (view_of s) a = []" using n by (simp flip: length_0_conv add: length_log_view)
    with True show ?thesis by (simp add: latest_parent_def soft_def head_live [OF assms] parent_view_def)
  next
    case False
    then show ?thesis
      by (simp add: latest_parent_def soft_def head_live [OF assms] scan_desc_live [OF assms] n parent_view_def)
  qed
qed

lemma walk_chain_spec:
  assumes inv: "view_inv E (view_of s)" and p_def: "p = (\<lambda>b. parent_view J (log_view E (view_of s) b))"
    and "distinct chain" "successively (\<lambda>b c. p b = Some c) chain" "chain \<noteq> [] \<longrightarrow> p (last chain) = Some cursor"
    and "walk_chain J E chain cursor s = (out, s')"
  shows "s' = s \<and> distinct out \<and> successively (\<lambda>b c. p b = Some c) out \<and> prefix chain out \<and> out \<noteq> []
    \<and> (chain = [] \<longrightarrow> hd out = cursor)
    \<and> (case p (last out) of None \<Rightarrow> True | Some q \<Rightarrow> q \<in> set out)"
  using assms(3-6)
proof (induction "card (- set chain)" arbitrary: chain cursor rule: less_induct)
  case less
  show ?case
  proof (cases "cursor \<in> set chain")
    case True
    then have "chain \<noteq> []" by auto
    with True less.prems show ?thesis by (subst (asm) walk_chain.simps) auto
  next
    case False
    have step: "walk_chain J E chain cursor s =
        (case p cursor of Some q \<Rightarrow> walk_chain J E (chain @ [cursor]) q s | None \<Rightarrow> (chain @ [cursor], s))"
      using False by (subst walk_chain.simps) (simp add: latest_parent_live [OF inv] p_def split: option.split)
    have ext: "distinct (chain @ [cursor])" "successively (\<lambda>b c. p b = Some c) (chain @ [cursor])"
      using less.prems(1-3) False by (auto simp: successively_append_iff)
    show ?thesis
    proof (cases "p cursor")
      case None
      with step less.prems(4) ext show ?thesis by auto
    next
      case (Some q)
      have "card (- set (chain @ [cursor])) < card (- set chain)"
        using False by (intro psubset_card_mono) auto
      moreover have "walk_chain J E (chain @ [cursor]) q s = (out, s')" using step Some less.prems(4) by simp
      ultimately have IH: "s' = s \<and> distinct out \<and> successively (\<lambda>b c. p b = Some c) out \<and> prefix (chain @ [cursor]) out
          \<and> out \<noteq> [] \<and> (case p (last out) of None \<Rightarrow> True | Some q \<Rightarrow> q \<in> set out)"
        using less.hyps [of "chain @ [cursor]" q] ext Some by simp
      then show ?thesis by (auto simp: prefix_def)
    qed
  qed
qed

end



section \<open>Spawned permissions\<close>

lemma enforce_each_ok:
  "enforce_each u p m = Inr () \<longleftrightarrow> (\<forall>(tool, st) \<in> set m. st \<le> resolve_effective_permission u p tool)"
  by (induction m) (auto simp: Let_def less_eq_tool_state_def split: if_splits)

definition lists_tool :: "agent_tool_permissions option \<Rightarrow> string \<Rightarrow> bool" where
  "lists_tool c tool = (Option.bind c (\<lambda>p. btm_get tool (atp_per_tool p)) \<noteq> None)"

text \<open>
  Property C38: the subset check of the spawn hook is exact for the tools that the child's override
  lists, and says nothing about the others: a child that passed it is nowhere wider than its parent
  exactly when, for every tool it does not list, the user's default is not wider than the parent.
\<close>

theorem spawn_subset_exact:
  assumes "enforce_tool_subset u parent child = Inr ()"
  shows "(\<forall>tool. resolve_effective_permission u child tool \<le> resolve_effective_permission u parent tool) \<longleftrightarrow>
    (\<forall>tool. lists_tool child tool \<or> resolve_effective_permission u None tool \<le> resolve_effective_permission u parent tool)"
proof -
  have listed: "resolve_effective_permission u child tool \<le> resolve_effective_permission u parent tool"
    if l: "lists_tool child tool" for tool
  proof -
    obtain c st where c: "child = Some c" "btm_get tool (atp_per_tool c) = Some st"
      using l by (auto simp: lists_tool_def bind_eq_Some_conv)
    then have "(tool, st) \<in> set (atp_per_tool c)" by (auto simp: btm_get_def dest: map_of_SomeD)
    with assms c have "st \<le> resolve_effective_permission u parent tool"
      by (auto simp: enforce_tool_subset_def enforce_each_ok)
    with c show ?thesis by (simp add: resolve_defs)
  qed
  have unlisted: "resolve_effective_permission u child tool = resolve_effective_permission u None tool"
    if "\<not> lists_tool child tool" for tool
    using that by (auto simp: lists_tool_def resolve_defs)
  show ?thesis using listed unlisted by metis
qed

theorem spawn_subset_exact_witness:
  "\<not> (\<forall>tool. resolve_effective_permission \<lparr> utd_mode = UserDefault_FullAccess \<rparr> None tool
      \<le> resolve_effective_permission \<lparr> utd_mode = UserDefault_FullAccess \<rparr>
          (Some \<lparr> atp_per_tool = [(''run_command'', ToolState_Deny)] \<rparr>) tool)"
proof -
  have "enforce_tool_subset \<lparr> utd_mode = UserDefault_FullAccess \<rparr>
      (Some \<lparr> atp_per_tool = [(''run_command'', ToolState_Deny)] \<rparr>) None = Inr ()"
    by (simp add: enforce_tool_subset_def)
  from spawn_subset_exact [OF this] show ?thesis
    by (auto simp: lists_tool_def resolve_defs btm_get_def less_eq_tool_state_def is_subset_of_def intro!: exI [of _ "''run_command''"])
qed

end
