(* ===== verification/Subagent.thy ===== *)
theory Subagent
  imports Policy Text_Utf8
begin

text \<open>
  What a child agent gets from its parent (\<open>aura-agent-subagent\<close>, the data of \<open>subagent.rs\<close> in
  \<open>aura-core-types\<close>, and \<open>setup.rs\<close> of \<open>aura-engine\<close>): overrides, the derivation of a child's
  specification, the kinds of subagents, and the tool permissions and policy of a child.
\<close>

section \<open>Data\<close>

(* src/crates/aura-core-types/src/types/subagent.rs:10-10 DEFAULT_SUBAGENT_TIMEOUT_MS *)
definition DEFAULT_SUBAGENT_TIMEOUT_MS :: u64 where
  "DEFAULT_SUBAGENT_TIMEOUT_MS = 300000"

(* src/crates/aura-core-types/src/types/subagent.rs:31-31 MAX_TURNS *)
definition MAX_TURNS :: u32 where
  "MAX_TURNS = 300"

(* src/crates/aura-core-types/src/types/subagent.rs:34-44 SubagentBudget *)
record kind_budget =
  kb_max_iterations :: u32
  kb_max_tokens :: "u32 option"
  kb_timeout_ms :: u64

(* src/crates/aura-core-types/src/types/subagent.rs:57-75 SubagentKindSpec *)
record subagent_kind_spec =
  sk_name :: string
  sk_description :: string
  sk_system_prompt :: string
  sk_allowed_tools :: "string list"
  sk_allowed_capabilities :: "capability list"
  sk_readonly :: bool
  sk_default_model :: "string option"
  sk_budget :: kind_budget

(* src/crates/aura-core-types/src/types/subagent.rs:84-168 SubagentDispatchRequest *)
record subagent_dispatch_request =
  dr_parent_agent_id :: agent_id
  dr_subagent_type :: string
  dr_prompt :: string
  dr_originating_user_id :: "string option"
  dr_parent_chain :: "agent_id list"
  dr_model_override :: "string option"
  dr_reasoning_effort_override :: "string option"
  dr_system_prompt_addendum :: "string option"
  dr_parent_permissions :: permissions
  dr_parent_tool_permissions :: "agent_tool_permissions option"
  dr_user_tool_defaults :: user_tool_defaults
  dr_tool_call_id :: "string option"
  dr_parent_mode :: "agent_mode option"
  dr_parent_kernel_mode :: "kernel_mode option"
  dr_parent_model_id :: "string option"
  dr_override_mode :: "agent_mode option"
  dr_override_permissions :: "permissions option"
  dr_override_tool_subset :: "string list option"
  dr_override_isolation_id :: "string option"
  dr_override_budget :: "kind_budget option"
  dr_spawn_mode :: "spawn_mode option"
  dr_council_index :: "u32 option"
  dr_council_parent_tool_use_id :: "string option"

(* src/crates/aura-core-types/src/types/subagent.rs:171-179 SubagentExit *)
datatype subagent_exit =
    Exit_Completed
  | Exit_Failed string
  | Exit_Cancelled
  | Exit_Timeout
  | Exit_Rejected string

(* src/crates/aura-core-types/src/types/subagent.rs:182-194 SubagentResult *)
record subagent_result =
  sr_child_agent_id :: "agent_id option"
  sr_final_message :: string
  sr_total_input_tokens :: u64
  sr_total_output_tokens :: u64
  sr_files_changed :: "string list"
  sr_exit :: subagent_exit

(* src/crates/aura-core-types/src/types/subagent.rs:197-210 SubagentResult::rejected *)
definition result_rejected :: "string \<Rightarrow> subagent_result" where
  "result_rejected reason =
    \<lparr> sr_child_agent_id = None, sr_final_message = [], sr_total_input_tokens = 0,
      sr_total_output_tokens = 0, sr_files_changed = [], sr_exit = Exit_Rejected reason \<rparr>"

(* src/crates/aura-core-types/src/types/subagent.rs:212-222 SubagentResult::completed *)
definition result_completed :: "agent_id \<Rightarrow> string \<Rightarrow> subagent_result" where
  "result_completed child final_message =
    \<lparr> sr_child_agent_id = Some child, sr_final_message = final_message, sr_total_input_tokens = 0,
      sr_total_output_tokens = 0, sr_files_changed = [], sr_exit = Exit_Completed \<rparr>"

(* src/crates/aura-agent-subagent/src/errors.rs:13-69 DerivationError *)
datatype derivation_error =
    Derivation_DepthExceeded (de_parent_depth: u32) (de_max_depth: u32)
  | Derivation_PermissionsWiden (de_capability: capability)
  | Derivation_ModeWidens (de_parent: agent_mode) (de_requested: agent_mode)
  | Derivation_SpawnNotAllowed agent_mode
  | Derivation_KernelModeDowngradeForbidden (de_parent_kernel: kernel_mode) (de_requested_kernel: kernel_mode)
  | Derivation_InvalidOverride string

fun kernel_mode_debug :: "kernel_mode \<Rightarrow> string" where
  "kernel_mode_debug KernelMode_Audited = ''Audited''"
| "kernel_mode_debug KernelMode_AuditedLite = ''AuditedLite''"

(* src/crates/aura-agent-subagent/src/errors.rs:18-68 Display for DerivationError *)
fun derivation_error_message :: "derivation_error \<Rightarrow> string" where
  "derivation_error_message (Derivation_DepthExceeded parent_depth max_depth) =
    ''subagent depth exceeded: parent depth '' @ nat_str (unat parent_depth) @ '', max '' @ nat_str (unat max_depth)"
| "derivation_error_message (Derivation_PermissionsWiden c) =
    ''derived permissions widen parent's: requested capability '' @ capability_debug c @ '' not in parent bundle''"
| "derivation_error_message (Derivation_ModeWidens parent requested) =
    ''mode widens parent's: parent='' @ mode_debug parent @ '', requested='' @ mode_debug requested"
| "derivation_error_message (Derivation_SpawnNotAllowed m) = ''spawn not allowed in parent mode '' @ mode_debug m"
| "derivation_error_message (Derivation_KernelModeDowngradeForbidden parent requested) =
    ''kernel-mode downgrade forbidden: requested='' @ kernel_mode_debug requested
      @ '', parent='' @ kernel_mode_debug parent"
| "derivation_error_message (Derivation_InvalidOverride s) = ''invalid override: '' @ s"

(* src/crates/aura-agent-subagent/src/manifest.rs:17-81 OverriddenField *)
datatype overridden_field =
    Overridden_Mode agent_mode agent_mode
  | Overridden_Permissions nat
  | Overridden_KernelMode kernel_mode kernel_mode
  | Overridden_ModelId string string
  | Overridden_Kind string
  | Overridden_SpawnMode spawn_mode
  | Overridden_ReplayMode replay_mode
  | Overridden_Budget
  | Overridden_ToolSubset nat
  | Overridden_IsolationId string
  | Overridden_SubagentType string
  | Overridden_SystemPromptAddendum nat
  | Overridden_ParentToolPermissions nat
  | Overridden_UserToolDefaults

(* src/crates/aura-agent-subagent/src/manifest.rs:89-93 OverrideManifest *)
type_synonym override_manifest = "overridden_field list"

(* src/crates/aura-agent-subagent/src/overrides.rs:12-20 SubagentBudget *)
record subagent_budget =
  sb_max_tokens :: u32
  sb_max_iterations :: u32
  sb_timeout_ms :: u64

(* src/crates/aura-agent-subagent/src/overrides.rs:25-32 SubagentBudget::default_for_phase_6a *)
definition subagent_budget_default :: subagent_budget where
  "subagent_budget_default = \<lparr> sb_max_tokens = 64000, sb_max_iterations = 50, sb_timeout_ms = 300000 \<rparr>"

(* src/crates/aura-agent-subagent/src/overrides.rs:38-83 SubagentOverrides *)
record subagent_overrides =
  ov_mode :: "agent_mode option"
  ov_permissions :: "permissions option"
  ov_kernel_mode :: "kernel_mode option"
  ov_model_id :: "string option"
  ov_reasoning_effort :: "string option"
  ov_response_max_tokens :: "u32 option"
  ov_kind :: "string option"
  ov_spawn_mode :: "spawn_mode option"
  ov_replay_mode :: "replay_mode option"
  ov_budget :: "subagent_budget option"
  ov_tool_subset :: "string list option"
  ov_isolation_id :: "string option"
  ov_subagent_type :: "string option"
  ov_system_prompt_addendum :: "string option"
  ov_parent_tool_permissions :: "agent_tool_permissions option"
  ov_user_tool_defaults :: "user_tool_defaults option"

(* src/crates/aura-agent-subagent/src/spec.rs:20-27 SubagentLineage *)
record subagent_lineage =
  ln_root_agent_id :: agent_id
  ln_chain :: "agent_id list"

(* src/crates/aura-agent-subagent/src/spec.rs:32-38 SubagentLineage::from_root *)
definition lineage_from_root :: "agent_id \<Rightarrow> subagent_lineage" where
  "lineage_from_root root_agent_id = \<lparr> ln_root_agent_id = root_agent_id, ln_chain = [root_agent_id] \<rparr>"

(* src/crates/aura-agent-subagent/src/parent.rs:23-43 ParentContext *)
record parent_context =
  pc_agent_id :: agent_id
  pc_depth :: u32
  pc_mode :: agent_mode
  pc_mode_profile :: mode_profile
  pc_permissions :: permissions
  pc_model_id :: string
  pc_lineage :: subagent_lineage

(* src/crates/aura-agent-subagent/src/parent.rs:48-51 ParentContext::kernel_mode *)
definition pc_kernel_mode :: "parent_context \<Rightarrow> kernel_mode" where
  "pc_kernel_mode parent = mp_kernel (pc_mode_profile parent)"

(* src/crates/aura-agent-subagent/src/spec.rs:43-94 SubagentSpec *)
record subagent_spec =
  ss_parent :: agent_id
  ss_depth :: u32
  ss_mode :: agent_mode
  ss_mode_profile :: mode_profile
  ss_permissions :: permissions
  ss_kernel_mode :: kernel_mode
  ss_model_id :: string
  ss_reasoning_effort :: "string option"
  ss_response_max_tokens :: "u32 option"
  ss_kind :: string
  ss_spawn_mode :: spawn_mode
  ss_replay_mode :: replay_mode
  ss_budget :: subagent_budget
  ss_tool_subset :: "string list option"
  ss_isolation_id :: "string option"
  ss_lineage :: subagent_lineage
  ss_audit_parent_agent_id :: agent_id
  ss_overridden_fields :: override_manifest
  ss_subagent_type :: "string option"
  ss_system_prompt_addendum :: "string option"
  ss_parent_tool_permissions :: "agent_tool_permissions option"
  ss_user_tool_defaults :: "user_tool_defaults option"

section \<open>The derivation\<close>

(* src/crates/aura-agent-subagent/src/derivation.rs:14-24 SubagentDerivationConfig *)
record subagent_derivation_config =
  dc_max_depth :: u32
  dc_default_kernel_mode_for_subagents :: kernel_mode
  dc_default_budget :: subagent_budget

(* src/crates/aura-agent-subagent/src/derivation.rs:26-43 SubagentDerivationConfig::default_for_phase_6a *)
definition derivation_config_default :: subagent_derivation_config where
  "derivation_config_default =
    \<lparr> dc_max_depth = 8, dc_default_kernel_mode_for_subagents = KernelMode_AuditedLite,
      dc_default_budget = subagent_budget_default \<rparr>"

(* src/crates/aura-agent-subagent/src/derivation.rs:323-333 first_widening_capability *)
definition first_widening_capability :: "permissions \<Rightarrow> permissions \<Rightarrow> capability option" where
  "first_widening_capability parent requested =
    List.find (\<lambda>requested_cap. \<not> list_ex (\<lambda>held. satisfies held requested_cap) (pm_capabilities parent))
      (pm_capabilities requested)"

(* src/crates/aura-agent-subagent/src/derivation.rs:341-347 downgrades_kernel *)
definition downgrades_kernel :: "kernel_mode \<Rightarrow> kernel_mode \<Rightarrow> bool" where
  "downgrades_kernel parent requested = (parent = KernelMode_Audited \<and> requested = KernelMode_AuditedLite)"

text \<open>Each section of \<open>derive\<close> yields the resolved value and what it adds to the manifest.\<close>

(* src/crates/aura-agent-subagent/src/derivation.rs:108-124 DefaultDerivation::derive *)
definition derive_mode ::
  "parent_context \<Rightarrow> agent_mode option \<Rightarrow> (derivation_error, agent_mode \<times> override_manifest) result" where
  "derive_mode parent requested =
    (case requested of
       None \<Rightarrow> Inr (pc_mode parent, [])
     | Some m \<Rightarrow>
        if \<not> narrowing_allowed (pc_mode parent) m then Inl (Derivation_ModeWidens (pc_mode parent) m)
        else Inr (m, if m \<noteq> pc_mode parent then [Overridden_Mode (pc_mode parent) m] else []))"

(* src/crates/aura-agent-subagent/src/derivation.rs:137-150 DefaultDerivation::derive *)
definition derive_permissions ::
  "parent_context \<Rightarrow> permissions option \<Rightarrow> (derivation_error, permissions \<times> override_manifest) result" where
  "derive_permissions parent requested =
    (case requested of
       None \<Rightarrow> Inr (pc_permissions parent, [])
     | Some p \<Rightarrow>
        (case first_widening_capability (pc_permissions parent) p of
           Some cap \<Rightarrow> Inl (Derivation_PermissionsWiden cap)
         | None \<Rightarrow>
            (let narrowed = narrow (pc_permissions parent) p in
             Inr (narrowed, [Overridden_Permissions (length (pm_capabilities narrowed))]))))"

(* src/crates/aura-agent-subagent/src/derivation.rs:156-174 DefaultDerivation::derive *)
definition derive_kernel_mode ::
  "subagent_derivation_config \<Rightarrow> parent_context \<Rightarrow> kernel_mode option \<Rightarrow>
   (derivation_error, kernel_mode \<times> override_manifest) result" where
  "derive_kernel_mode config parent requested =
    (let default = dc_default_kernel_mode_for_subagents config in
     case requested of
       None \<Rightarrow> Inr (default, [])
     | Some k \<Rightarrow>
        if downgrades_kernel (pc_kernel_mode parent) k
        then Inl (Derivation_KernelModeDowngradeForbidden (pc_kernel_mode parent) k)
        else Inr (k, if k \<noteq> default then [Overridden_KernelMode default k] else []))"

definition from_override :: "('a \<Rightarrow> overridden_field) \<Rightarrow> 'a option \<Rightarrow> override_manifest" where
  "from_override f v = (case v of Some x \<Rightarrow> [f x] | None \<Rightarrow> [])"

(* src/crates/aura-agent-subagent/src/derivation.rs:178-250 DefaultDerivation::derive *)
definition derive_additive :: "parent_context \<Rightarrow> subagent_overrides \<Rightarrow> override_manifest" where
  "derive_additive parent ov =
    (case ov_model_id ov of
       Some m \<Rightarrow> if m \<noteq> pc_model_id parent then [Overridden_ModelId (pc_model_id parent) m] else []
     | None \<Rightarrow> [])
    @ from_override Overridden_Kind (ov_kind ov)
    @ from_override Overridden_SpawnMode (ov_spawn_mode ov)
    @ from_override Overridden_ReplayMode (ov_replay_mode ov)
    @ from_override (\<lambda>_. Overridden_Budget) (ov_budget ov)
    @ from_override (\<lambda>ts. Overridden_ToolSubset (length ts)) (ov_tool_subset ov)
    @ from_override Overridden_IsolationId (ov_isolation_id ov)
    @ from_override Overridden_SubagentType (ov_subagent_type ov)
    @ from_override (\<lambda>a. Overridden_SystemPromptAddendum (length (chars a))) (ov_system_prompt_addendum ov)
    @ from_override (\<lambda>p. Overridden_ParentToolPermissions (length (atp_per_tool p))) (ov_parent_tool_permissions ov)
    @ from_override (\<lambda>_. Overridden_UserToolDefaults) (ov_user_tool_defaults ov)"

(* src/crates/aura-agent-subagent/src/derivation.rs:263-270 DefaultDerivation::derive *)
definition extend_lineage :: "parent_context \<Rightarrow> subagent_lineage" where
  "extend_lineage parent =
    (let chain = ln_chain (pc_lineage parent) in
     \<lparr> ln_root_agent_id = ln_root_agent_id (pc_lineage parent),
       ln_chain = (if chain \<noteq> [] \<and> last chain = pc_agent_id parent then chain else chain @ [pc_agent_id parent]) \<rparr>)"

definition option_or :: "'a option \<Rightarrow> 'a \<Rightarrow> 'a" where
  "option_or x d = (case x of Some y \<Rightarrow> y | None \<Rightarrow> d)"

(* src/crates/aura-agent-subagent/src/derivation.rs:255-297 DefaultDerivation::derive *)
definition derived_spec ::
  "subagent_derivation_config \<Rightarrow> parent_context \<Rightarrow> subagent_overrides \<Rightarrow> u32 \<Rightarrow> agent_mode \<Rightarrow> permissions \<Rightarrow>
   kernel_mode \<Rightarrow> override_manifest \<Rightarrow> subagent_spec" where
  "derived_spec config parent ov new_depth mode perms kernel_mode manifest =
    \<lparr> ss_parent = pc_agent_id parent,
      ss_depth = new_depth,
      ss_mode = mode,
      ss_mode_profile = (pc_mode_profile parent) \<lparr> mp_agent := mode, mp_kernel := kernel_mode \<rparr>,
      ss_permissions = perms,
      ss_kernel_mode = kernel_mode,
      ss_model_id = option_or (ov_model_id ov) (pc_model_id parent),
      ss_reasoning_effort = ov_reasoning_effort ov,
      ss_response_max_tokens = ov_response_max_tokens ov,
      ss_kind = option_or (ov_kind ov) ''task'',
      ss_spawn_mode = option_or (ov_spawn_mode ov) SpawnMode_Wait,
      ss_replay_mode = option_or (ov_replay_mode ov) ReplayMode_Live,
      ss_budget = option_or (ov_budget ov) (dc_default_budget config),
      ss_tool_subset = ov_tool_subset ov,
      ss_isolation_id = ov_isolation_id ov,
      ss_lineage = extend_lineage parent,
      ss_audit_parent_agent_id = pc_agent_id parent,
      ss_overridden_fields = manifest,
      ss_subagent_type = ov_subagent_type ov,
      ss_system_prompt_addendum = ov_system_prompt_addendum ov,
      ss_parent_tool_permissions = ov_parent_tool_permissions ov,
      ss_user_tool_defaults = ov_user_tool_defaults ov \<rparr>"

definition saturating_add_u32 :: "u32 \<Rightarrow> u32 \<Rightarrow> u32" where
  "saturating_add_u32 a b = (if 2 ^ 32 \<le> unat a + unat b then - 1 else a + b)"

(* src/crates/aura-agent-subagent/src/derivation.rs:86-300 DefaultDerivation::derive *)
definition derive ::
  "subagent_derivation_config \<Rightarrow> parent_context \<Rightarrow> subagent_overrides \<Rightarrow>
   (derivation_error, subagent_spec \<times> override_manifest) result" where
  "derive config parent ov =
    (let new_depth = saturating_add_u32 (pc_depth parent) 1 in
     if dc_max_depth config < new_depth
     then Inl (Derivation_DepthExceeded (pc_depth parent) (dc_max_depth config))
     else
       res_bind (derive_mode parent (ov_mode ov)) (\<lambda>(mode, m1).
       if \<not> allows_spawn (pc_mode parent) then Inl (Derivation_SpawnNotAllowed (pc_mode parent))
       else
         res_bind (derive_permissions parent (ov_permissions ov)) (\<lambda>(perms, m2).
         res_bind (derive_kernel_mode config parent (ov_kernel_mode ov)) (\<lambda>(kernel_mode, m3).
           let manifest = m1 @ m2 @ m3 @ derive_additive parent ov in
           Inr (derived_spec config parent ov new_depth mode perms kernel_mode manifest, manifest)))))"

section \<open>The kinds of subagents\<close>

(* src/crates/aura-agent-subagent/src/registry.rs:13-19 READ_TOOLS *)
definition READ_TOOLS :: "string list" where
  "READ_TOOLS = [''list_files'', ''read_file'', ''stat_file'', ''find_files'', ''search_code'']"

(* src/crates/aura-agent-subagent/src/registry.rs:101-139 general_purpose *)
definition general_purpose :: subagent_kind_spec where
  "general_purpose =
    \<lparr> sk_name = ''general_purpose'',
      sk_description = ''General-purpose subagent for multi-step codebase work.'',
      sk_system_prompt = ''You are a focused coding subagent. Complete the delegated task and return a concise final summary.'',
      sk_allowed_tools =
        [''list_files'', ''read_file'', ''stat_file'', ''find_files'', ''search_code'', ''edit_file'',
         ''write_file'', ''delete_file'', ''run_command'', ''task'', ''spawn_agent'', ''send_to_agent'',
         ''delegate_task'', ''agent_lifecycle'', ''get_agent_state'', ''list_agents''],
      sk_allowed_capabilities =
        [Cap_ReadAgent, Cap_InvokeProcess, Cap_SpawnAgent, Cap_ControlAgent, Cap_ListAgents],
      sk_readonly = False, sk_default_model = None,
      sk_budget = \<lparr> kb_max_iterations = MAX_TURNS, kb_max_tokens = None, kb_timeout_ms = 300000 \<rparr> \<rparr>"

(* src/crates/aura-agent-subagent/src/registry.rs:180-200 readonly_kind *)
definition readonly_kind :: "string \<Rightarrow> string \<Rightarrow> string \<Rightarrow> subagent_kind_spec" where
  "readonly_kind name description system_prompt =
    \<lparr> sk_name = name, sk_description = description, sk_system_prompt = system_prompt,
      sk_allowed_tools = READ_TOOLS @ [''run_command''],
      sk_allowed_capabilities = [Cap_InvokeProcess],
      sk_readonly = True, sk_default_model = None,
      sk_budget = \<lparr> kb_max_iterations = MAX_TURNS, kb_max_tokens = None, kb_timeout_ms = 180000 \<rparr> \<rparr>"

(* src/crates/aura-agent-subagent/src/registry.rs:141-147 explore *)
definition explore :: subagent_kind_spec where
  "explore = readonly_kind ''explore'' ''Read-only codebase exploration subagent.''
    ''Explore the codebase using read/search tools and safe verification commands only. Return relevant files, symbols, and conclusions.''"

(* src/crates/aura-agent-subagent/src/registry.rs:149-155 code_reviewer *)
definition code_reviewer :: subagent_kind_spec where
  "code_reviewer = readonly_kind ''code_reviewer''
    ''Read-only code review subagent focused on bugs, regressions, and missing tests.''
    ''Review the requested code for correctness risks. Lead with findings and cite concrete files.''"

(* src/crates/aura-agent-subagent/src/registry.rs:157-178 shell *)
definition shell :: subagent_kind_spec where
  "shell =
    \<lparr> sk_name = ''shell'',
      sk_description = ''Command-focused subagent with tightly configured shell access.'',
      sk_system_prompt = ''Run only the requested safe shell/read operations and summarize the result.'',
      sk_allowed_tools = READ_TOOLS @ [''run_command''],
      sk_allowed_capabilities = [Cap_InvokeProcess],
      sk_readonly = False, sk_default_model = None,
      sk_budget = \<lparr> kb_max_iterations = MAX_TURNS, kb_max_tokens = None, kb_timeout_ms = 180000 \<rparr> \<rparr>"

(* src/crates/aura-agent-subagent/src/registry.rs:33-43 SubagentRegistry::bundled *)
definition bundled_kinds :: "subagent_kind_spec list" where
  "bundled_kinds = [general_purpose, explore, shell, code_reviewer]"

(* src/crates/aura-agent-subagent/src/registry.rs:45-48 SubagentRegistry::get *)
definition registry_get :: "subagent_kind_spec list \<Rightarrow> string \<Rightarrow> subagent_kind_spec option" where
  "registry_get kinds name = List.find (\<lambda>kind. sk_name kind = name) kinds"

(* src/crates/aura-agent-subagent/src/registry.rs:63-77 registry_chars *)
definition registry_chars :: "subagent_kind_spec list \<Rightarrow> nat" where
  "registry_chars kinds =
    sum_list (map (\<lambda>kind. length (sk_name kind) + length (sk_description kind) + length (sk_system_prompt kind)
      + sum_list (map (\<lambda>t. length t + 1) (sk_allowed_tools kind))) kinds)"

section \<open>Requests\<close>

(* src/crates/aura-agent-subagent/src/adapters.rs:24-59 parent_context_from_request *)
definition parent_context_from_request :: "subagent_dispatch_request \<Rightarrow> parent_context" where
  "parent_context_from_request request =
    (let chain = dr_parent_chain request;
         mode = option_or (dr_parent_mode request) AgentMode_Agent in
     \<lparr> pc_agent_id = dr_parent_agent_id request,
       pc_depth = (if length chain < 2 ^ 32 then of_nat (length chain) else - 1),
       pc_mode = mode,
       pc_mode_profile =
         \<lparr> mp_agent = mode, mp_kernel = option_or (dr_parent_kernel_mode request) KernelMode_Audited,
           mp_sandbox = SandboxMode_Standard, mp_replay = ReplayMode_Live \<rparr>,
       pc_permissions = dr_parent_permissions request,
       pc_model_id = option_or (dr_parent_model_id request) [],
       pc_lineage =
         (if chain = [] then lineage_from_root (dr_parent_agent_id request)
          else \<lparr> ln_root_agent_id = last chain, ln_chain = chain \<rparr>) \<rparr>)"

(* src/crates/aura-agent-subagent/src/adapters.rs:131-147 narrow_permissions *)
definition narrow_permissions :: "permissions \<Rightarrow> subagent_kind_spec \<Rightarrow> permissions" where
  "narrow_permissions parent kind =
    \<lparr> pm_scope = pm_scope parent,
      pm_capabilities =
        filter (\<lambda>held. list_ex (\<lambda>allowed. satisfies held allowed) (sk_allowed_capabilities kind))
          (pm_capabilities parent) \<rparr>"

(* src/crates/aura-agent-subagent/src/adapters.rs:74-126 overrides_from_request *)
definition overrides_from_request :: "subagent_dispatch_request \<Rightarrow> subagent_kind_spec \<Rightarrow> subagent_overrides" where
  "overrides_from_request request kind =
    \<lparr> ov_mode = dr_override_mode request,
      ov_permissions =
        Some (narrow_permissions (option_or (dr_override_permissions request) (dr_parent_permissions request)) kind),
      ov_kernel_mode = None,
      ov_model_id = (case dr_model_override request of Some m \<Rightarrow> Some m | None \<Rightarrow> sk_default_model kind),
      ov_reasoning_effort = dr_reasoning_effort_override request,
      ov_response_max_tokens = Option.bind (dr_override_budget request) kb_max_tokens,
      ov_kind = Some (sk_name kind),
      ov_spawn_mode = dr_spawn_mode request,
      ov_replay_mode = None,
      ov_budget =
        map_option (\<lambda>b. \<lparr> sb_max_tokens = option_or (kb_max_tokens b) 64000,
                          sb_max_iterations = kb_max_iterations b, sb_timeout_ms = kb_timeout_ms b \<rparr>)
          (dr_override_budget request),
      ov_tool_subset = Some (option_or (dr_override_tool_subset request) (sk_allowed_tools kind)),
      ov_isolation_id = dr_override_isolation_id request,
      ov_subagent_type = Some (sk_name kind),
      ov_system_prompt_addendum = dr_system_prompt_addendum request,
      ov_parent_tool_permissions = dr_parent_tool_permissions request,
      ov_user_tool_defaults = Some (dr_user_tool_defaults request) \<rparr>"

section \<open>Tool permissions and policy of a child\<close>

(* src/crates/aura-engine/src/agents/setup.rs:16-28 narrowed_tool_permissions *)
definition narrowed_tool_permissions ::
  "agent_tool_permissions option \<Rightarrow> user_tool_defaults \<Rightarrow> string list \<Rightarrow> agent_tool_permissions" where
  "narrowed_tool_permissions parent_tool_permissions user_tool_defaults allowed_tools =
    \<lparr> atp_per_tool =
        fold (\<lambda>tool. btm_insert tool (resolve_effective_permission user_tool_defaults parent_tool_permissions tool))
          allowed_tools [] \<rparr>"

(* src/crates/aura-engine/src/agents/setup.rs:32-48 task_policy *)
definition task_policy ::
  "permissions \<Rightarrow> agent_tool_permissions \<Rightarrow> user_tool_defaults \<Rightarrow> agent_mode \<Rightarrow> policy_config" where
  "task_policy perms tool_permissions user_tool_defaults mode =
    (let fallback = (case utd_mode user_tool_defaults of UserDefault_AutoReview \<Rightarrow> ToolState_Ask | _ \<Rightarrow> ToolState_Deny) in
     policy_config_default
       \<lparr> cfg_agent_permissions := perms,
         cfg_user_default := \<lparr> utd_mode = UserDefault_DefaultPermissions [] fallback \<rparr>,
         cfg_agent_override := Some tool_permissions,
         cfg_mode := mode \<rparr>)"

(* src/crates/aura-engine/src/agents/setup.rs:52-63 agent_policy *)
definition agent_policy ::
  "permissions \<Rightarrow> agent_tool_permissions option \<Rightarrow> user_tool_defaults \<Rightarrow> agent_mode \<Rightarrow> policy_config" where
  "agent_policy perms tool_permissions user_tool_defaults mode =
    policy_config_default
      \<lparr> cfg_agent_permissions := perms, cfg_user_default := user_tool_defaults,
        cfg_agent_override := tool_permissions, cfg_mode := mode \<rparr>"

(* src/crates/aura-engine/src/agents/setup.rs:90-97 kind_system_prompt *)
definition kind_system_prompt :: "subagent_kind_spec \<Rightarrow> string option \<Rightarrow> string" where
  "kind_system_prompt kind addendum =
    (case addendum of
       Some a \<Rightarrow> if \<not> is_blank a then sk_system_prompt kind @ newlines2 @ a else sk_system_prompt kind
     | None \<Rightarrow> sk_system_prompt kind)"

(* src/crates/aura-engine/src/agents/setup.rs:101-113 spawned_agent_prompt *)
definition spawned_agent_prompt :: "string \<Rightarrow> string \<Rightarrow> string \<Rightarrow> string" where
  "spawned_agent_prompt base name role =
    (let about = ''You are '' @ name @ '', an agent with the role: '' @ role
           @ ''. Another agent started you and sends you messages. Your final answer to each message is ''
           @ ''delivered back to its sender. You can start agents of your own with spawn_agent or task, ''
           @ ''and message other agents with send_to_agent.'' in
     if is_blank base then about else base @ newlines2 @ about)"

section \<open>Laws of the derivation\<close>

lemma first_widening_None:
  "first_widening_capability p q = None \<longleftrightarrow> (\<forall>c \<in> set (pm_capabilities q). allows p c)"
  by (auto simp: first_widening_capability_def find_None_iff allows_def)

lemma saturating_succ:
  "saturating_add_u32 d 1 = (if d = - 1 then - 1 else d + 1)"
  "d \<noteq> - 1 \<Longrightarrow> unat (saturating_add_u32 d 1) = unat d + 1"
proof -
  have "unat d < 2 ^ LENGTH(32)" by (rule unsigned_less)
  then have top: "unat d + 1 < 2 ^ 32 \<longleftrightarrow> d \<noteq> - 1" by (auto simp: unsigned_minus_1_eq_mask mask_eq_exp_minus_1 word_unat_eq_iff)
  then show "saturating_add_u32 d 1 = (if d = - 1 then - 1 else d + 1)"
    by (auto simp: saturating_add_u32_def)
  show "unat (saturating_add_u32 d 1) = unat d + 1" if "d \<noteq> - 1"
    using that top by (simp add: saturating_add_u32_def unat_word_ariths)
qed

lemma derive_Inr:
  "derive config parent ov = Inr (spec, manifest) \<longleftrightarrow>
   (\<exists>mode m1 perms m2 kernel m3.
      saturating_add_u32 (pc_depth parent) 1 \<le> dc_max_depth config
      \<and> derive_mode parent (ov_mode ov) = Inr (mode, m1) \<and> allows_spawn (pc_mode parent)
      \<and> derive_permissions parent (ov_permissions ov) = Inr (perms, m2)
      \<and> derive_kernel_mode config parent (ov_kernel_mode ov) = Inr (kernel, m3)
      \<and> manifest = m1 @ m2 @ m3 @ derive_additive parent ov
      \<and> spec = derived_spec config parent ov (saturating_add_u32 (pc_depth parent) 1) mode perms kernel manifest)"
  by (auto simp: derive_def Let_def not_less res_bind_def split: sum.splits prod.splits if_splits)

lemma derive_mode_ok:
  "derive_mode parent r = Inr (mode, m) \<Longrightarrow>
   mode = option_or r (pc_mode parent) \<and> narrowing_allowed (pc_mode parent) mode \<and> (m = [] \<longleftrightarrow> mode = pc_mode parent)"
  by (cases "pc_mode parent") (auto simp: derive_mode_def option_or_def split: option.splits if_splits)

lemma derive_permissions_ok:
  "derive_permissions parent r = Inr (perms, m) \<Longrightarrow>
   (case r of None \<Rightarrow> perms = pc_permissions parent \<and> m = []
    | Some p \<Rightarrow> perms = narrow (pc_permissions parent) p \<and> m \<noteq> [] \<and> (\<forall>c \<in> set (pm_capabilities p). allows (pc_permissions parent) c))"
  by (auto simp: derive_permissions_def Let_def first_widening_None split: option.splits)

lemma derive_kernel_ok:
  "derive_kernel_mode config parent r = Inr (k, m) \<Longrightarrow>
   k = option_or r (dc_default_kernel_mode_for_subagents config)
   \<and> (r \<noteq> None \<longrightarrow> \<not> downgrades_kernel (pc_kernel_mode parent) k)"
  by (auto simp: derive_kernel_mode_def option_or_def Let_def split: option.splits if_splits)

lemma derivation_succeeds:
  "(\<exists>spec manifest. derive config parent ov = Inr (spec, manifest)) \<longleftrightarrow>
   saturating_add_u32 (pc_depth parent) 1 \<le> dc_max_depth config
   \<and> narrowing_allowed (pc_mode parent) (option_or (ov_mode ov) (pc_mode parent))
   \<and> pc_mode parent = AgentMode_Agent
   \<and> (case ov_permissions ov of None \<Rightarrow> True | Some p \<Rightarrow> list_all (allows (pc_permissions parent)) (pm_capabilities p))
   \<and> \<not> (ov_kernel_mode ov = Some KernelMode_AuditedLite \<and> pc_kernel_mode parent = KernelMode_Audited)"
proof -
  have mode: "(\<exists>r. derive_mode parent (ov_mode ov) = Inr r) \<longleftrightarrow>
      narrowing_allowed (pc_mode parent) (option_or (ov_mode ov) (pc_mode parent))"
    by (cases "pc_mode parent") (auto simp: derive_mode_def option_or_def split: option.splits)
  have perms: "(\<exists>r. derive_permissions parent (ov_permissions ov) = Inr r) \<longleftrightarrow>
      (case ov_permissions ov of None \<Rightarrow> True | Some p \<Rightarrow> list_all (allows (pc_permissions parent)) (pm_capabilities p))"
    by (cases "ov_permissions ov")
      (auto simp: derive_permissions_def Let_def list_all_iff first_widening_None [symmetric] split: option.splits)
  have kernel: "(\<exists>r. derive_kernel_mode config parent (ov_kernel_mode ov) = Inr r) \<longleftrightarrow>
      \<not> (ov_kernel_mode ov = Some KernelMode_AuditedLite \<and> pc_kernel_mode parent = KernelMode_Audited)"
    by (auto simp: derive_kernel_mode_def downgrades_kernel_def Let_def split: option.splits)
  have spawn: "allows_spawn (pc_mode parent) \<longleftrightarrow> pc_mode parent = AgentMode_Agent"
    by (cases "pc_mode parent") simp_all
  show ?thesis
    unfolding derive_Inr mode [symmetric] perms [symmetric] kernel [symmetric] spawn [symmetric] by fastforce
qed

text \<open>
  A child is derived exactly when nothing of the request is refused: the depth limit
  leaves room, the requested mode narrows the parent's, the parent's mode may spawn, the parent holds
  every requested capability, and no weaker audit is requested.
\<close>

theorem derivation_succeeds_iff:
  "(\<exists>spec manifest. derive config parent ov = Inr (spec, manifest)) \<longleftrightarrow>
   saturating_add_u32 (pc_depth parent) 1 \<le> dc_max_depth config
   \<and> narrowing_allowed (pc_mode parent) (option_or (ov_mode ov) (pc_mode parent))
   \<and> pc_mode parent = AgentMode_Agent
   \<and> (case ov_permissions ov of None \<Rightarrow> True | Some p \<Rightarrow> list_all (allows (pc_permissions parent)) (pm_capabilities p))
   \<and> \<not> (ov_kernel_mode ov = Some KernelMode_AuditedLite \<and> pc_kernel_mode parent = KernelMode_Audited)"
  by (rule derivation_succeeds)

lemma derivation_narrows_core:
  assumes "derive config parent ov = Inr (spec, manifest)"
  shows "unat (ss_depth spec) \<le> unat (dc_max_depth config)
    \<and> (pc_depth parent \<noteq> - 1 \<longrightarrow> unat (ss_depth spec) = unat (pc_depth parent) + 1)
    \<and> narrowing_allowed (pc_mode parent) (ss_mode spec)
    \<and> set (pm_capabilities (ss_permissions spec)) =
        (case ov_permissions ov of None \<Rightarrow> set (pm_capabilities (pc_permissions parent))
         | Some p \<Rightarrow> set (pm_capabilities (pc_permissions parent)) \<inter> set (pm_capabilities p))
    \<and> (pm_contains (pc_permissions parent) (ss_permissions spec) \<longleftrightarrow>
        (case ov_permissions ov of None \<Rightarrow> True
         | Some p \<Rightarrow> scope_overlap (pm_scope (pc_permissions parent)) (pm_scope p)))
    \<and> (downgrades_kernel (pc_kernel_mode parent) (ss_kernel_mode spec) \<longrightarrow> ov_kernel_mode ov = None)
    \<and> ss_parent spec = pc_agent_id parent \<and> ss_audit_parent_agent_id spec = pc_agent_id parent"
proof -
  from assms obtain mode m1 perms m2 kernel m3 where d:
    "saturating_add_u32 (pc_depth parent) 1 \<le> dc_max_depth config"
    "derive_mode parent (ov_mode ov) = Inr (mode, m1)"
    "derive_permissions parent (ov_permissions ov) = Inr (perms, m2)"
    "derive_kernel_mode config parent (ov_kernel_mode ov) = Inr (kernel, m3)"
    "spec = derived_spec config parent ov (saturating_add_u32 (pc_depth parent) 1) mode perms kernel manifest"
    unfolding derive_Inr by blast
  have contained: "pm_contains (pc_permissions parent) perms \<longleftrightarrow>
      (case ov_permissions ov of None \<Rightarrow> True | Some p \<Rightarrow> scope_overlap (pm_scope (pc_permissions parent)) (pm_scope p))"
    using derive_permissions_ok [OF d(3)]
    by (auto simp: perm_order.refl pm_contains_iff scope_intersect_left allows_iff intro: satisfies_refl split: option.splits)
  show ?thesis
    using derive_mode_ok [OF d(2)] derive_permissions_ok [OF d(3)] derive_kernel_ok [OF d(4)] d(1) contained
      saturating_succ(2) [of "pc_depth parent"]
    by (auto simp: d(5) derived_spec_def word_le_nat_alt split: option.splits)
qed

text \<open>
  A derived child has no more than its parent.  Its mode narrows the parent's, its
  capabilities are exactly those of the parent that were requested (the parent's when nothing was
  requested), it is attributed to the parent, and a child is never less audited than its parent
  because of a request, only because of the configured default.  Its whole bundle is contained in the
  parent's exactly when the requested scope overlaps the parent's on every axis; disjoint scopes
  widen to the universe.
\<close>

theorem derivation_narrows:
  assumes "derive config parent ov = Inr (spec, manifest)"
  shows "unat (ss_depth spec) \<le> unat (dc_max_depth config)
    \<and> (pc_depth parent \<noteq> - 1 \<longrightarrow> unat (ss_depth spec) = unat (pc_depth parent) + 1)
    \<and> narrowing_allowed (pc_mode parent) (ss_mode spec)
    \<and> set (pm_capabilities (ss_permissions spec)) =
        (case ov_permissions ov of None \<Rightarrow> set (pm_capabilities (pc_permissions parent))
         | Some p \<Rightarrow> set (pm_capabilities (pc_permissions parent)) \<inter> set (pm_capabilities p))
    \<and> (pm_contains (pc_permissions parent) (ss_permissions spec) \<longleftrightarrow>
        (case ov_permissions ov of None \<Rightarrow> True
         | Some p \<Rightarrow> scope_overlap (pm_scope (pc_permissions parent)) (pm_scope p)))
    \<and> (downgrades_kernel (pc_kernel_mode parent) (ss_kernel_mode spec) \<longrightarrow> ov_kernel_mode ov = None)
    \<and> ss_parent spec = pc_agent_id parent \<and> ss_audit_parent_agent_id spec = pc_agent_id parent"
  using derivation_narrows_core [OF assms] .

definition sample_parent :: parent_context where
  "sample_parent =
    \<lparr> pc_agent_id = AgentId 1, pc_depth = 1, pc_mode = AgentMode_Agent,
      pc_mode_profile = default_profile AgentMode_Agent,
      pc_permissions = \<lparr> pm_scope = scope_default \<lparr> sc_orgs := [''a'', ''b''] \<rparr>,
                         pm_capabilities = [Cap_ReadAgent, Cap_InvokeProcess] \<rparr>,
      pc_model_id = ''m'', pc_lineage = lineage_from_root (AgentId 1) \<rparr>"

definition no_overrides :: subagent_overrides where
  "no_overrides =
    \<lparr> ov_mode = None, ov_permissions = None, ov_kernel_mode = None, ov_model_id = None,
      ov_reasoning_effort = None, ov_response_max_tokens = None, ov_kind = None, ov_spawn_mode = None,
      ov_replay_mode = None, ov_budget = None, ov_tool_subset = None, ov_isolation_id = None,
      ov_subagent_type = None, ov_system_prompt_addendum = None, ov_parent_tool_permissions = None,
      ov_user_tool_defaults = None \<rparr>"

lemmas sample_defs = sample_parent_def no_overrides_def scope_default_def derivation_config_default_def

theorem derivation_narrows_witness:
  "\<not> pm_contains (pc_permissions sample_parent)
     (ss_permissions (fst (projr (derive derivation_config_default sample_parent
       (no_overrides \<lparr> ov_permissions := Some \<lparr> pm_scope = scope_default \<lparr> sc_orgs := [''c''] \<rparr>,
                                                  pm_capabilities = [Cap_ReadAgent] \<rparr> \<rparr>)))))"
proof -
  let ?ov = "no_overrides \<lparr> ov_permissions := Some \<lparr> pm_scope = scope_default \<lparr> sc_orgs := [''c''] \<rparr>,
                                                  pm_capabilities = [Cap_ReadAgent] \<rparr> \<rparr>"
  have "\<exists>spec manifest. derive derivation_config_default sample_parent ?ov = Inr (spec, manifest)"
    unfolding derivation_succeeds
    by (simp add: sample_defs option_or_def saturating_add_u32_def allows_def)
  then obtain spec manifest where d: "derive derivation_config_default sample_parent ?ov = Inr (spec, manifest)" by blast
  from derivation_narrows [OF d] have "\<not> pm_contains (pc_permissions sample_parent) (ss_permissions spec)"
    by (simp add: sample_defs scope_overlap_def axis_overlap_def)
  then show ?thesis by (simp add: d)
qed

section \<open>Laws of dispatched tasks\<close>

lemma narrow_permissions_caps:
  "set (pm_capabilities (narrow_permissions p kind)) =
   {c \<in> set (pm_capabilities p). \<exists>a \<in> set (sk_allowed_capabilities kind). satisfies c a}"
  "pm_scope (narrow_permissions p kind) = pm_scope p"
  by (auto simp: narrow_permissions_def list_ex_iff)

lemma scope_overlap_refl [simp]: "scope_overlap s s"
  by (auto simp: scope_overlap_def axis_overlap_def list_ex_iff neq_Nil_conv)

text \<open>
  Property C29: a task's child is confined by its parent and by its kind.  Every capability it keeps
  is held by the parent and satisfies one that the kind allows, and its bundle is contained in the
  parent's, unless the caller passes explicit permissions whose scope is disjoint from the parent's
  on some axis.
\<close>

theorem task_child_confined:
  assumes "derive config (parent_context_from_request r) (overrides_from_request r kind) = Inr (spec, manifest)"
    and "child = narrow_permissions (ss_permissions spec) kind"
  shows "(\<forall>c \<in> set (pm_capabilities child).
        c \<in> set (pm_capabilities (dr_parent_permissions r)) \<and> (\<exists>a \<in> set (sk_allowed_capabilities kind). satisfies c a))
    \<and> (pm_contains (dr_parent_permissions r) child \<longleftrightarrow>
        (case dr_override_permissions r of None \<Rightarrow> True
         | Some p \<Rightarrow> scope_overlap (pm_scope (dr_parent_permissions r)) (pm_scope p)))"
proof -
  have parent: "pc_permissions (parent_context_from_request r) = dr_parent_permissions r"
    by (simp add: parent_context_from_request_def Let_def)
  have ov: "ov_permissions (overrides_from_request r kind) =
      Some (narrow_permissions (option_or (dr_override_permissions r) (dr_parent_permissions r)) kind)"
    by (simp add: overrides_from_request_def)
  note n = derivation_narrows_core [OF assms(1), unfolded parent ov]
  have caps: "set (pm_capabilities child) \<subseteq> set (pm_capabilities (dr_parent_permissions r))
      \<and> (\<forall>c \<in> set (pm_capabilities child). \<exists>a \<in> set (sk_allowed_capabilities kind). satisfies c a)"
    using n by (auto simp: assms(2) narrow_permissions_caps)
  have "pm_contains (dr_parent_permissions r) child \<longleftrightarrow> scope_contains (pm_scope (dr_parent_permissions r)) (pm_scope child)"
    using caps by (auto simp: pm_contains_iff allows_iff intro: satisfies_refl)
  also have "\<dots> \<longleftrightarrow> pm_contains (dr_parent_permissions r) (ss_permissions spec)"
    using n by (auto simp: assms(2) narrow_permissions_caps pm_contains_iff allows_iff intro: satisfies_refl)
  finally show ?thesis
    using caps n by (auto simp: narrow_permissions_caps option_or_def split: option.splits)
qed

definition sample_request :: subagent_dispatch_request where
  "sample_request =
    \<lparr> dr_parent_agent_id = AgentId 1, dr_subagent_type = ''explore'', dr_prompt = ''look'',
      dr_originating_user_id = None, dr_parent_chain = [AgentId 1], dr_model_override = None,
      dr_reasoning_effort_override = None, dr_system_prompt_addendum = None,
      dr_parent_permissions = pc_permissions sample_parent, dr_parent_tool_permissions = None,
      dr_user_tool_defaults = \<lparr> utd_mode = UserDefault_FullAccess \<rparr>, dr_tool_call_id = None,
      dr_parent_mode = None, dr_parent_kernel_mode = None, dr_parent_model_id = None,
      dr_override_mode = None, dr_override_permissions = None, dr_override_tool_subset = None,
      dr_override_isolation_id = None, dr_override_budget = None, dr_spawn_mode = None,
      dr_council_index = None, dr_council_parent_tool_use_id = None \<rparr>"

lemma sample_derives:
  "\<exists>spec m. derive derivation_config_default (parent_context_from_request sample_request)
     (overrides_from_request sample_request explore) = Inr (spec, m)"
  unfolding derivation_succeeds
  by (simp add: sample_defs sample_request_def parent_context_from_request_def overrides_from_request_def
      narrow_permissions_def explore_def readonly_kind_def option_or_def saturating_add_u32_def allows_def
      satisfies_def Let_def)

theorem task_child_confined_witness:
  "pm_contains (pc_permissions sample_parent)
     (narrow_permissions (ss_permissions (fst (projr (derive derivation_config_default
        (parent_context_from_request sample_request) (overrides_from_request sample_request explore))))) explore)"
proof -
  obtain spec m where d: "derive derivation_config_default (parent_context_from_request sample_request)
     (overrides_from_request sample_request explore) = Inr (spec, m)"
    using sample_derives by blast
  show ?thesis using task_child_confined [OF d refl] by (simp add: d) (simp add: sample_request_def)
qed

text \<open>
  The tools of a task's child.  A tool on its list has the parent's state; any other
  tool is denied, or asked about when the user reviews everything.  So the child is nowhere wider
  than its parent, except that under automatic review it may ask for an unlisted tool which the
  parent is denied.
\<close>

theorem task_tools_confined:
  assumes "cfg = task_policy perms (narrowed_tool_permissions parent user allowed) user mode"
  shows "resolve_effective_permission (cfg_user_default cfg) (cfg_agent_override cfg) tool =
      (if tool \<in> set allowed then resolve_effective_permission user parent tool
       else if utd_mode user = UserDefault_AutoReview then ToolState_Ask else ToolState_Deny)
    \<and> (resolve_effective_permission (cfg_user_default cfg) (cfg_agent_override cfg) tool
         \<le> resolve_effective_permission user parent tool \<longleftrightarrow>
       \<not> (tool \<notin> set allowed \<and> utd_mode user = UserDefault_AutoReview
          \<and> resolve_effective_permission user parent tool = ToolState_Deny))"
proof -
  have get: "btm_get tool (fold (\<lambda>t. btm_insert t (f t)) allowed m) =
      (if tool \<in> set allowed then Some (f tool) else btm_get tool m)" for f and m :: "(string, tool_state) btree_map"
    by (induction allowed arbitrary: m) auto
  have listed: "resolve_effective_permission \<lparr> utd_mode = UserDefault_DefaultPermissions [] fb \<rparr>
      (Some \<lparr> atp_per_tool = fold (\<lambda>t. btm_insert t (f t)) allowed [] \<rparr>) tool =
      (if tool \<in> set allowed then f tool else fb)" for f fb
    by (simp add: resolve_effective_permission_def resolve_effective_permission_with_source_def get)
      (simp add: btm_get_def)
  have "resolve_effective_permission (cfg_user_default cfg) (cfg_agent_override cfg) tool =
      (if tool \<in> set allowed then resolve_effective_permission user parent tool
       else if utd_mode user = UserDefault_AutoReview then ToolState_Ask else ToolState_Deny)"
    unfolding assms by (simp add: task_policy_def narrowed_tool_permissions_def listed Let_def split: user_default_mode.splits)
  then show ?thesis
    by (cases "resolve_effective_permission user parent tool")
      (auto simp: less_eq_tool_state_def is_subset_of_def)
qed

theorem task_tools_confined_witness:
  "\<not> resolve_effective_permission
       (cfg_user_default (task_policy pm_empty (narrowed_tool_permissions (Some \<lparr> atp_per_tool = [(''run_command'', ToolState_Deny)] \<rparr>)
          \<lparr> utd_mode = UserDefault_AutoReview \<rparr> READ_TOOLS) \<lparr> utd_mode = UserDefault_AutoReview \<rparr> AgentMode_Agent))
       (cfg_agent_override (task_policy pm_empty (narrowed_tool_permissions (Some \<lparr> atp_per_tool = [(''run_command'', ToolState_Deny)] \<rparr>)
          \<lparr> utd_mode = UserDefault_AutoReview \<rparr> READ_TOOLS) \<lparr> utd_mode = UserDefault_AutoReview \<rparr> AgentMode_Agent))
       ''run_command'' \<le> ToolState_Deny"
  using task_tools_confined [OF refl, of pm_empty "Some \<lparr> atp_per_tool = [(''run_command'', ToolState_Deny)] \<rparr>"
      "\<lparr> utd_mode = UserDefault_AutoReview \<rparr>" READ_TOOLS AgentMode_Agent "''run_command''"]
  by (simp add: READ_TOOLS_def resolve_defs btm_get_def less_eq_tool_state_def is_subset_of_def)

text \<open>
  The lineage of a nested task names the parent twice: the request lists the ancestors nearest first,
  with the parent at the head, and the derivation looks for the parent at the end.  The parent's depth
  counts the parent itself, so the children of a root are at depth two.
\<close>

lemma nested_lineage:
  assumes "dr_parent_chain r = dr_parent_agent_id r # ancestors" "ancestors \<noteq> []"
    "dr_parent_agent_id r \<notin> set ancestors"
  shows "ln_chain (extend_lineage (parent_context_from_request r)) =
      dr_parent_agent_id r # ancestors @ [dr_parent_agent_id r]"
proof -
  have "last ancestors \<noteq> dr_parent_agent_id r" using assms(2,3) by (metis last_in_set)
  then show ?thesis using assms(1,2) by (simp add: extend_lineage_def parent_context_from_request_def Let_def)
qed

lemma root_child_depth:
  "dr_parent_chain r = [dr_parent_agent_id r] \<Longrightarrow>
   derive config (parent_context_from_request r) ov = Inr (spec, m) \<Longrightarrow> ss_depth spec = 2"
  by (auto simp: derive_Inr derived_spec_def parent_context_from_request_def saturating_add_u32_def Let_def)

text \<open>
  A read-only kind does not restrict an explicit list of tools.
\<close>

lemma explicit_tools_ignore_kind:
  "dr_override_tool_subset r = Some ts \<Longrightarrow> ov_tool_subset (overrides_from_request r explore) = Some ts"
  by (simp add: overrides_from_request_def option_or_def)

end
