(* ===== verification/Agent_Host.thy ===== *)
theory Agent_Host
  imports Kernel_Spawn Subagent "HOL-Library.AList" "HOL-Library.Product_Lexorder"
begin

text \<open>
  The agent host (\<open>aura-engine/src/agents\<close>): the table of live agents, the messages between them, the
  turns they run, and how agents are spawned, paused, restarted and removed.

  The host is shared by many asynchronous tasks.  Its table is guarded by a mutex, so every critical
  section is one function on \<open>host_state\<close>, and a function of the code that takes the mutex several
  times is a composition of sections.  What the code hands to the runtime is part of the state: turns in
  flight, deliveries to roots, the answers sent to waiting callers.  The channel that copies a turn's
  events to an observer is left out.
\<close>

section \<open>Data\<close>

(* src/crates/aura-engine/src/agents/inbox.rs:13-20 MessageKind *)
datatype message_kind = Message_Request | Message_Reply

(* src/crates/aura-engine/src/agents/inbox.rs:24-35 InboxMessage *)
record inbox_message =
  im_to :: agent_id
  im_from :: agent_id
  im_from_name :: string
  im_kind :: message_kind
  im_text :: string

(* src/crates/aura-engine/src/agents/host.rs:37-53 AgentHostConfig *)
record agent_host_config =
  ahc_max_depth :: u32
  ahc_max_running :: nat

(* src/crates/aura-engine/src/agents/host.rs:46-53 AgentHostConfig::default *)
definition agent_host_config_default :: agent_host_config where
  "agent_host_config_default = \<lparr> ahc_max_depth = 8, ahc_max_running = 32 \<rparr>"

text \<open>
  The environment of a tree: \<open>ae_rest\<close> stands for the tool factory, the workspace and the remote hooks,
  which the host only passes on.
\<close>

(* src/crates/aura-engine/src/agents/host.rs:57-76 AgentEnv *)
record 'x agent_env =
  ae_user_tool_defaults :: user_tool_defaults
  ae_originating_user_id :: "string option"
  ae_rest :: 'x

(* src/crates/aura-engine/src/agents/host.rs:95-106 RootAgent *)
record ('x, 'n) root_agent =
  ra_agent_id :: agent_id
  ra_name :: string
  ra_permissions :: permissions
  ra_tool_permissions :: "agent_tool_permissions option"
  ra_mode :: agent_mode
  ra_model :: string
  ra_env :: "'x agent_env"
  ra_inbox :: "'n option"

(* src/crates/aura-engine/src/agents/host.rs:109-119 AgentState *)
datatype agent_state = AgentState_Root | AgentState_Idle | AgentState_Running | AgentState_Paused

(* src/crates/aura-engine/src/agents/host.rs:170-177 LifecycleAction *)
datatype lifecycle_action = Lifecycle_Pause | Lifecycle_Resume | Lifecycle_Stop | Lifecycle_Restart

(* src/crates/aura-engine/src/agents/host.rs:181-190 LifecycleAction::parse *)
definition lifecycle_parse :: "string \<Rightarrow> lifecycle_action option" where
  "lifecycle_parse action =
    (if action = ''pause'' then Some Lifecycle_Pause
     else if action = ''resume'' then Some Lifecycle_Resume
     else if action = ''stop'' then Some Lifecycle_Stop
     else if action = ''restart'' then Some Lifecycle_Restart
     else None)"

(* src/crates/aura-model-reasoner/src/types/request.rs:36-63 ThinkingEffort *)
datatype thinking_effort =
    Effort_Off | Effort_Minimal | Effort_Low | Effort_Medium | Effort_High | Effort_XHigh | Effort_Max

(* src/crates/aura-model-reasoner/src/types/request.rs:73-84 ThinkingEffort::from_wire *)
definition effort_from_wire :: "string \<Rightarrow> thinking_effort option" where
  "effort_from_wire s =
    map_of [(''off'', Effort_Off), (''minimal'', Effort_Minimal), (''low'', Effort_Low), (''medium'', Effort_Medium),
            (''high'', Effort_High), (''xhigh'', Effort_XHigh), (''max'', Effort_Max)] (map ascii_lower (trim s))"

text \<open>What the host reads and sets of the identity of an agent and of the configuration of its loop.\<close>

(* src/crates/aura-engine/src/scheduler.rs:100-130 AgentIdentity *)
record 'x agent_identity =
  ai_model :: string
  ai_reasoning_effort :: "thinking_effort option"
  ai_max_tokens :: u32
  ai_system_prompt :: string
  ai_rest :: 'x

record 'x loop_config =
  lc_model :: string
  lc_max_iterations :: nat
  lc_max_tokens :: u32
  lc_user_thinking_effort :: "thinking_effort option"
  lc_system_prompt :: string
  lc_rest :: "'x option"

(* src/crates/aura-engine/src/agents/host.rs:194-202 RunSetup *)
record 'x run_setup =
  rs_loop_config :: "'x loop_config"
  rs_policy :: policy_config
  rs_tools :: "string list"
  rs_timeout_ms :: "u64 option"

(* src/crates/aura-engine/src/agents/host.rs:205-216 Envelope *)
record 't envelope =
  en_from :: "agent_id option"
  en_from_name :: string
  en_kind :: message_kind
  en_text :: string
  en_waiter :: "nat option"
  en_cancel :: "'t option"

(* src/crates/aura-engine/src/agents/host.rs:218-227 Body *)
datatype ('x, 't, 'n) body =
    Body_Root "'n option"
  | Body_Hosted (bd_setup: "'x run_setup") (bd_history: "message list") (bd_queue: "'t envelope list")

(* src/crates/aura-engine/src/agents/host.rs:229-249 AgentEntry *)
record ('x, 't, 'n) agent_entry =
  ag_name :: string
  ag_role :: string
  ag_chain :: "agent_id list"
  ag_permissions :: permissions
  ag_tool_permissions :: "agent_tool_permissions option"
  ag_mode :: agent_mode
  ag_model :: string
  ag_env :: "'x agent_env"
  ag_stop :: 't
  ag_one_shot :: bool
  ag_running :: bool
  ag_paused :: bool
  ag_turns :: u32
  ag_last_reply :: "string option"
  ag_body :: "('x, 't, 'n) body"

(* src/crates/aura-engine/src/agents/host.rs:252-254 AgentEntry::parent *)
definition ag_parent :: "('x, 't, 'n) agent_entry \<Rightarrow> agent_id option" where
  "ag_parent e = (case ag_chain e of [] \<Rightarrow> None | p # _ \<Rightarrow> Some p)"

(* src/crates/aura-engine/src/agents/host.rs:256-258 AgentEntry::root *)
definition ag_root :: "('x, 't, 'n) agent_entry \<Rightarrow> agent_id \<Rightarrow> agent_id" where
  "ag_root e own_id = (if ag_chain e = [] then own_id else last (ag_chain e))"

(* src/crates/aura-engine/src/agents/host.rs:260-270 AgentEntry::state *)
definition ag_state :: "('x, 't, 'n) agent_entry \<Rightarrow> agent_state" where
  "ag_state e =
    (case ag_body e of
       Body_Root _ \<Rightarrow> AgentState_Root
     | _ \<Rightarrow> if ag_running e then AgentState_Running else if ag_paused e then AgentState_Paused else AgentState_Idle)"

definition queue_of :: "('x, 't, 'n) agent_entry \<Rightarrow> 't envelope list" where
  "queue_of e = (case ag_body e of Body_Root _ \<Rightarrow> [] | Body_Hosted _ _ q \<Rightarrow> q)"

(* src/crates/aura-engine/src/agents/host.rs:134-149 AgentInfo *)
record agent_info =
  nf_agent_id :: agent_id
  nf_name :: string
  nf_role :: string
  nf_parent :: "agent_id option"
  nf_depth :: nat
  nf_state :: agent_state
  nf_model :: string
  nf_turns :: u32
  nf_queued :: nat
  nf_last_reply :: "string option"

(* src/crates/aura-engine/src/agents/host.rs:272-288 AgentEntry::info *)
definition ag_info :: "('x, 't, 'n) agent_entry \<Rightarrow> agent_id \<Rightarrow> agent_info" where
  "ag_info e agent_id =
    \<lparr> nf_agent_id = agent_id, nf_name = ag_name e, nf_role = ag_role e, nf_parent = ag_parent e,
      nf_depth = length (ag_chain e), nf_state = ag_state e, nf_model = ag_model e, nf_turns = ag_turns e,
      nf_queued = length (queue_of e), nf_last_reply = ag_last_reply e \<rparr>"

(* src/crates/aura-engine/src/agents/host.rs:1338-1345 Turn *)
record ('x, 't) turn =
  tn_envelope :: "'t envelope"
  tn_prompt :: string
  tn_history :: "message list"
  tn_setup :: "'x run_setup"
  tn_env :: "'x agent_env"
  tn_stop :: 't

text \<open>
  A turn in flight, by the section of \<open>run_turn\<close> it has reached: the model runs, the result is to be
  sent, the agent is to be retired or woken up.
\<close>

datatype ('x, 't) flight =
    Executing (fl_agent: agent_id) (fl_turn: "('x, 't) turn")
  | Replying (fl_agent: agent_id) (fl_waiter: "nat option") (fl_reply_to: "agent_id option") (fl_result: subagent_result)
  | Retiring (fl_agent: agent_id)

(* src/crates/aura-engine/src/agents/host.rs:323-332 HostInner *)
record ('db, 'x, 't, 'n, 'c) host_state =
  hs_store :: "'db rocks_state"
  hs_identities :: "agent_id \<rightharpoonup> 'x agent_identity"
  hs_agents :: "(agent_id \<times> ('x, 't, 'n) agent_entry) list"
  hs_tokens :: 'c
  hs_flights :: "('x, 't) flight list"
  hs_deliveries :: "('n option \<times> inbox_message) list"
  hs_answers :: "(nat \<times> subagent_result) list"
  hs_dropped :: "nat list"

text \<open>
  What the host takes from elsewhere: the kernel's libraries and the store, cancellation tokens, the
  parser of hexadecimal identifiers, the serialised records, the tools of a child.
\<close>

record ('t, 'c) token_lib =
  tl_new :: "'c \<Rightarrow> 't \<times> 'c"
  tl_child :: "'t \<Rightarrow> 'c \<Rightarrow> 't \<times> 'c"
  tl_cancel :: "'t \<Rightarrow> 'c \<Rightarrow> 'c"
  tl_is_cancelled :: "'t \<Rightarrow> 'c \<Rightarrow> bool"

(* src/crates/aura-engine/src/agents/factory.rs:15-31 ChildKernelRequest *)
record child_kernel_request =
  ck_child_agent_id :: agent_id
  ck_permissions :: permissions
  ck_tool_permissions :: agent_tool_permissions
  ck_user_tool_defaults :: user_tool_defaults
  ck_parent_chain :: "agent_id list"
  ck_originating_user_id :: "string option"
  ck_model_id :: string

record ('db, 'x, 't, 'c) host_libs =
  hl_spawn :: spawn_libs
  hl_store :: "'db store_env"
  hl_config :: agent_host_config
  hl_tokens :: "('t, 'c) token_lib"
  hl_from_hex :: "string \<Rightarrow> agent_id option"
  hl_spawn_record :: "agent_id \<Rightarrow> agent_id \<Rightarrow> override_manifest \<Rightarrow> spawn_mode \<Rightarrow> bytes"
  hl_message_record :: "inbox_message \<Rightarrow> bytes"
  hl_build_tools :: "'x \<Rightarrow> child_kernel_request \<Rightarrow> string list"

abbreviation agent_hex :: "('db, 'x, 't, 'c) host_libs \<Rightarrow> agent_id \<Rightarrow> string" where
  "agent_hex H a \<equiv> kl_hex (sl_kernel (hl_spawn H)) (agent_id_as_bytes a)"

definition agent_display :: "('db, 'x, 't, 'c) host_libs \<Rightarrow> agent_id \<Rightarrow> string" where
  "agent_display H a = take 16 (agent_hex H a)"

section \<open>Reading the table\<close>

abbreviation agent_at :: "('db, 'x, 't, 'n, 'c) host_state \<Rightarrow> agent_id \<Rightarrow> ('x, 't, 'n) agent_entry option" where
  "agent_at s a \<equiv> map_of (hs_agents s) a"

definition modify :: "'k \<Rightarrow> ('v \<Rightarrow> 'v) \<Rightarrow> ('k \<times> 'v) list \<Rightarrow> ('k \<times> 'v) list" where
  "modify k f m = map (\<lambda>(j, v). (j, if j = k then f v else v)) m"

(* src/crates/aura-engine/src/agents/host.rs:435-444 HostInner::tree *)
definition tree :: "('db, 'x, 't, 'n, 'c) host_state \<Rightarrow> agent_id \<Rightarrow> agent_info list" where
  "tree s root =
    sort_key (\<lambda>i. (nf_depth i, nf_name i)) (map (\<lambda>(a, e). ag_info e a) (filter (\<lambda>(a, e). ag_root e a = root) (hs_agents s)))"

definition unique_match :: "'a list \<Rightarrow> 'a option" where
  "unique_match xs = (case xs of [x] \<Rightarrow> Some x | _ \<Rightarrow> None)"

definition is_ascii_hexdigit :: "char \<Rightarrow> bool" where
  "is_ascii_hexdigit c = (c \<in> set ''0123456789abcdefABCDEF'')"

(* src/crates/aura-engine/src/agents/host.rs:460-486 HostInner::resolve *)
definition resolve ::
  "('db, 'x, 't, 'c) host_libs \<Rightarrow> ('db, 'x, 't, 'n, 'c) host_state \<Rightarrow> agent_id \<Rightarrow> string \<Rightarrow> agent_id option" where
  "resolve H s caller target0 =
    (let target = trim target0 in
     case agent_at s caller of
       None \<Rightarrow> None
     | Some c \<Rightarrow>
        (let root = ag_root c caller;
             in_tree = filter (\<lambda>(a, e). ag_root e a = root) (hs_agents s);
             lower = map ascii_lower target;
             by_name = unique_match (map fst (filter (\<lambda>(a, e). ag_name e = target) in_tree)) in
         case hl_from_hex H target of
           Some a \<Rightarrow> (case agent_at s a of Some e \<Rightarrow> if ag_root e a = root then Some a else None | None \<Rightarrow> None)
         | None \<Rightarrow>
            if 8 \<le> length lower \<and> list_all is_ascii_hexdigit lower
            then (case unique_match (map fst (filter (\<lambda>(a, e). prefix lower (agent_hex H a)) in_tree)) of
                    Some a \<Rightarrow> Some a
                  | None \<Rightarrow> by_name)
            else by_name))"

(* src/crates/aura-engine/src/agents/host.rs:495-497 HostInner::running_count *)
definition running_count :: "('db, 'x, 't, 'n, 'c) host_state \<Rightarrow> nat" where
  "running_count s = length (filter (\<lambda>(a, e). ag_running e) (hs_agents s))"

(* src/crates/aura-engine/src/agents/host.rs:1320-1325 HostInner::is_descendant *)
definition is_descendant :: "('db, 'x, 't, 'n, 'c) host_state \<Rightarrow> agent_id \<Rightarrow> agent_id \<Rightarrow> bool" where
  "is_descendant s agent ancestor =
    (case agent_at s agent of Some e \<Rightarrow> ancestor \<in> set (ag_chain e) | None \<Rightarrow> False)"

section \<open>Results\<close>

(* src/crates/aura-engine/src/agents/host.rs:1399-1408 ended *)
definition ended :: "agent_id \<Rightarrow> subagent_exit \<Rightarrow> subagent_result" where
  "ended agent_id exit =
    \<lparr> sr_child_agent_id = Some agent_id, sr_final_message = [], sr_total_input_tokens = 0,
      sr_total_output_tokens = 0, sr_files_changed = [], sr_exit = exit \<rparr>"

(* src/crates/aura-engine/src/agents/host.rs:1410-1412 cancelled *)
definition cancelled :: "agent_id \<Rightarrow> subagent_result" where
  "cancelled agent_id = ended agent_id Exit_Cancelled"

(* src/crates/aura-engine/src/agents/host.rs:1423-1425 failed *)
definition failed :: "agent_id \<Rightarrow> string \<Rightarrow> subagent_result" where
  "failed agent_id why = ended agent_id (Exit_Failed why)"

(* src/crates/aura-engine/src/agents/host.rs:1366-1377 reply_text *)
definition reply_text :: "subagent_result \<Rightarrow> string" where
  "reply_text r =
    (case sr_exit r of
       Exit_Completed \<Rightarrow> if is_blank (sr_final_message r) then ''(finished without a reply)'' else sr_final_message r
     | Exit_Failed why \<Rightarrow> ''failed: '' @ why
     | Exit_Cancelled \<Rightarrow> ''was cancelled''
     | Exit_Timeout \<Rightarrow> ''timed out''
     | Exit_Rejected why \<Rightarrow> ''rejected: '' @ why)"

(* src/crates/aura-engine/src/agents/host.rs:1349-1364 render_for_hosted *)
definition render_for_hosted :: "('db, 'x, 't, 'c) host_libs \<Rightarrow> 't envelope \<Rightarrow> agent_id option \<Rightarrow> string" where
  "render_for_hosted H env parent =
    (case en_from env of
       None \<Rightarrow> en_text env
     | Some from \<Rightarrow>
        (case en_kind env of
           Message_Request \<Rightarrow>
             if Some from = parent then en_text env
             else ''Message from agent '' @ en_from_name env @ '' ('' @ agent_display H from @ ''):'' @ newlines2
                    @ en_text env @ newlines2 @ ''Your final answer is sent back to '' @ en_from_name env @ ''.''
         | Message_Reply \<Rightarrow>
             ''Agent '' @ en_from_name env @ '' ('' @ agent_display H from @ '') reported back:'' @ newlines2
               @ en_text env))"

text \<open>
  What the scheduler made of a turn: the first of a stop of the agent, a cancellation of the turn, the
  time limit, and the run itself.
\<close>

(* src/crates/aura-agent/src/types.rs:228-275 AgentLoopResult *)
record agent_loop_result =
  alr_output_truncated :: bool
  alr_timed_out :: bool
  alr_insufficient_credits :: bool
  alr_stalled :: bool
  alr_llm_error :: "string option"
  alr_total_text :: string
  alr_total_input_tokens :: u64
  alr_total_output_tokens :: u64
  alr_file_changes :: "string list"
  alr_messages :: "message list"

datatype turn_race =
    Race_Stopped
  | Race_Cancelled
  | Race_TimedOut
  | Race_Failed string
  | Race_Processed "agent_loop_result option"

(* src/crates/aura-engine/src/agents/host.rs:1229-1242 HostInner::execute *)
definition loop_exit :: "agent_loop_result \<Rightarrow> subagent_exit" where
  "loop_exit r =
    (if alr_output_truncated r \<or> alr_insufficient_credits r \<or> alr_stalled r
     then Exit_Failed ''child execution stopped before completion''
     else if alr_timed_out r then Exit_Timeout
     else (case alr_llm_error r of None \<Rightarrow> Exit_Completed | Some why \<Rightarrow> Exit_Failed why))"

(* src/crates/aura-engine/src/agents/host.rs:1214-1258 HostInner::execute *)
fun race_result :: "agent_id \<Rightarrow> turn_race \<Rightarrow> subagent_result \<times> message list option" where
  "race_result agent_id Race_Stopped = (cancelled agent_id, None)"
| "race_result agent_id Race_Cancelled = (cancelled agent_id, None)"
| "race_result agent_id Race_TimedOut = (ended agent_id Exit_Timeout, None)"
| "race_result agent_id (Race_Failed e) = (failed agent_id (''schedule: '' @ e), None)"
| "race_result agent_id (Race_Processed None) = (failed agent_id ''the turn produced no result'', None)"
| "race_result agent_id (Race_Processed (Some r)) =
    (\<lparr> sr_child_agent_id = Some agent_id, sr_final_message = alr_total_text r,
       sr_total_input_tokens = alr_total_input_tokens r, sr_total_output_tokens = alr_total_output_tokens r,
       sr_files_changed = alr_file_changes r, sr_exit = loop_exit r \<rparr>, Some (alr_messages r))"

(* src/crates/aura-engine/src/agents/host.rs:1179-1258 HostInner::execute *)
definition execute ::
  "('db, 'x, 't, 'c) host_libs \<Rightarrow> u64 \<Rightarrow> agent_id \<Rightarrow> ('x, 't) turn \<Rightarrow> turn_race \<Rightarrow>
   'db rocks_state \<Rightarrow> (subagent_result \<times> message list option) \<times> 'db rocks_state" where
  "execute H now agent_id turn race st =
    (if rs_timeout_ms (tn_setup turn) = Some 0 then ((ended agent_id Exit_Timeout, None), st)
     else
       (case enqueue_tx (hl_store H)
               (tx_user_prompt (kl_blake3 (sl_kernel (hl_spawn H))) now agent_id (str_bytes (tn_prompt turn))) st of
          (Inl e, st') \<Rightarrow>
            ((failed agent_id (''enqueue prompt: '' @ store_error_message (kl_hex (sl_kernel (hl_spawn H))) e), None), st')
        | (Inr _, st') \<Rightarrow> (race_result agent_id race, st')))"

section \<open>Messages\<close>

(* src/crates/aura-engine/src/agents/host.rs:948-969 HostInner::envelope *)
definition make_envelope ::
  "('db, 'x, 't, 'n, 'c) host_state \<Rightarrow> agent_id option \<Rightarrow> message_kind \<Rightarrow> string \<Rightarrow> nat option \<Rightarrow> 't option \<Rightarrow> 't envelope" where
  "make_envelope s from kind text waiter cancel =
    \<lparr> en_from = from,
      en_from_name = (case Option.bind from (agent_at s) of Some e \<Rightarrow> ag_name e | None \<Rightarrow> ''user''),
      en_kind = kind, en_text = text, en_waiter = waiter, en_cancel = cancel \<rparr>"

definition waiters :: "'t envelope list \<Rightarrow> nat list" where
  "waiters es = concat (map (\<lambda>e. case en_waiter e of None \<Rightarrow> [] | Some w \<Rightarrow> [w]) es)"

text \<open>Start the next queued turn if the agent is free to run one.\<close>

(* src/crates/aura-engine/src/agents/host.rs:1031-1065 HostInner::pump *)
definition pump ::
  "('db, 'x, 't, 'c) host_libs \<Rightarrow> agent_id \<Rightarrow> ('db, 'x, 't, 'n, 'c) host_state \<Rightarrow> ('db, 'x, 't, 'n, 'c) host_state" where
  "pump H agent_id s =
    (case agent_at s agent_id of
       None \<Rightarrow> s
     | Some e \<Rightarrow>
        if ag_running e \<or> ag_paused e then s
        else
          (case ag_body e of
             Body_Hosted setup history (env # queue) \<Rightarrow>
               s \<lparr> hs_agents := modify agent_id
                       (\<lambda>e. e \<lparr> ag_running := True, ag_body := Body_Hosted setup history queue \<rparr>) (hs_agents s),
                   hs_flights := hs_flights s @
                     [Executing agent_id
                        \<lparr> tn_envelope = env, tn_prompt = render_for_hosted H env (ag_parent e), tn_history = history,
                          tn_setup = setup, tn_env = ag_env e, tn_stop = ag_stop e \<rparr>] \<rparr>
           | _ \<Rightarrow> s))"

text \<open>
  A message for a root is handed to a task of its own; a waiter that comes with a refused message or a
  message for a root is dropped with it.
\<close>

(* src/crates/aura-engine/src/agents/host.rs:984-1028 HostInner::enqueue *)
definition enqueue ::
  "('db, 'x, 't, 'c) host_libs \<Rightarrow> agent_id \<Rightarrow> 't envelope \<Rightarrow> (('db, 'x, 't, 'n, 'c) host_state, string, unit) act" where
  "enqueue H to env s =
    (case agent_at s to of
       None \<Rightarrow> (Inl (''unknown agent '' @ agent_display H to), s \<lparr> hs_dropped := hs_dropped s @ waiters [env] \<rparr>)
     | Some e \<Rightarrow>
        (case ag_body e of
           Body_Root inbox \<Rightarrow>
             (case en_from env of
                None \<Rightarrow> (Inl ''roots only accept messages from agents'', s \<lparr> hs_dropped := hs_dropped s @ waiters [env] \<rparr>)
              | Some from \<Rightarrow>
                 (Inr (), s \<lparr> hs_dropped := hs_dropped s @ waiters [env],
                              hs_deliveries := hs_deliveries s @
                                [(inbox, \<lparr> im_to = to, im_from = from, im_from_name = en_from_name env,
                                           im_kind = en_kind env, im_text = en_text env \<rparr>)] \<rparr>))
         | Body_Hosted setup history queue \<Rightarrow>
             (Inr (), pump H to (s \<lparr> hs_agents := modify to
                (\<lambda>e. e \<lparr> ag_body := Body_Hosted setup history (queue @ [env]) \<rparr>) (hs_agents s) \<rparr>))))"

(* src/crates/aura-engine/src/agents/host.rs:971-980 HostInner::deliver_message *)
definition deliver_message ::
  "('db, 'x, 't, 'c) host_libs \<Rightarrow> agent_id option \<Rightarrow> agent_id \<Rightarrow> message_kind \<Rightarrow> string \<Rightarrow>
   (('db, 'x, 't, 'n, 'c) host_state, string, unit) act" where
  "deliver_message H from to kind text s = enqueue H to (make_envelope s from kind text None None) s"

(* src/crates/aura-engine/src/agents/host.rs:411-414 AgentHost::send *)
definition send ::
  "('db, 'x, 't, 'c) host_libs \<Rightarrow> agent_id option \<Rightarrow> agent_id \<Rightarrow> string \<Rightarrow> (('db, 'x, 't, 'n, 'c) host_state, string, unit) act" where
  "send H from to text = deliver_message H from to Message_Request text"

(* src/crates/aura-engine/src/agents/inbox.rs:40-51 InboxMessage::render *)
definition inbox_render :: "('db, 'x, 't, 'c) host_libs \<Rightarrow> inbox_message \<Rightarrow> string" where
  "inbox_render H m =
    (case im_kind m of
       Message_Request \<Rightarrow>
         ''Message from agent '' @ im_from_name m @ '' ('' @ agent_display H (im_from m) @ ''):'' @ newlines2 @ im_text m
           @ newlines2 @ ''To answer, call send_to_agent with agent_id '' @ [CHR 0x22] @ agent_display H (im_from m)
           @ [CHR 0x22] @ ''.''
     | Message_Reply \<Rightarrow>
         ''Agent '' @ im_from_name m @ '' ('' @ agent_display H (im_from m) @ '') reported back:'' @ newlines2 @ im_text m)"

text \<open>
  The end of a delivery to a root: a message the root's inbox did not take is appended to its record.
  Sequence conflicts with other writers of the root's log are what \<open>others\<close> is for.
\<close>

(* src/crates/aura-engine/src/agents/host.rs:1380-1397 record_message *)
definition record_message ::
  "('db, 'x, 't, 'c) host_libs \<Rightarrow> (nat \<Rightarrow> 'db rocks_state \<Rightarrow> 'db rocks_state) \<Rightarrow> u64 \<Rightarrow> inbox_message \<Rightarrow>
   'db rocks_state \<Rightarrow> 'db rocks_state" where
  "record_message H others now m st =
    snd (write_system_record (sl_kernel (hl_spawn H)) (rocks_ops (hl_store H)) others (im_to m)
      (tx_new_chained (kl_blake3 (sl_kernel (hl_spawn H))) now (im_to m) TxType_System (hl_message_record H m) None) st)"

(* src/crates/aura-engine/src/agents/host.rs:1014-1023 HostInner::enqueue *)
definition finish_delivery ::
  "('db, 'x, 't, 'c) host_libs \<Rightarrow> (nat \<Rightarrow> 'db rocks_state \<Rightarrow> 'db rocks_state) \<Rightarrow> u64 \<Rightarrow> ('n \<Rightarrow> inbox_message \<Rightarrow> bool) \<Rightarrow>
   'n option \<Rightarrow> inbox_message \<Rightarrow> 'db rocks_state \<Rightarrow> 'db rocks_state" where
  "finish_delivery H others now delivers inbox m st =
    (if (case inbox of Some n \<Rightarrow> delivers n m | None \<Rightarrow> False) then st else record_message H others now m st)"

section \<open>Removal, lifecycle and roots\<close>

definition in_subtree :: "agent_id \<Rightarrow> bool \<Rightarrow> agent_id \<times> ('x, 't, 'n) agent_entry \<Rightarrow> bool" where
  "in_subtree target include_target = (\<lambda>(a, e). include_target \<and> a = target \<or> target \<in> set (ag_chain e))"

(* src/crates/aura-engine/src/agents/host.rs:1152-1176 HostInner::remove_subtree *)
definition remove_subtree ::
  "('db, 'x, 't, 'c) host_libs \<Rightarrow> agent_id \<Rightarrow> bool \<Rightarrow> ('db, 'x, 't, 'n, 'c) host_state \<Rightarrow>
   (agent_id \<times> 't envelope) list \<times> ('db, 'x, 't, 'n, 'c) host_state" where
  "remove_subtree H target include_target s =
    (let gone = filter (in_subtree target include_target) (hs_agents s) in
     (concat (map (\<lambda>(a, e). map (Pair a) (queue_of e)) gone),
      s \<lparr> hs_agents := filter (\<lambda>p. \<not> in_subtree target include_target p) (hs_agents s),
          hs_tokens := fold (\<lambda>(a, e). tl_cancel (hl_tokens H) (ag_stop e)) gone (hs_tokens s),
          hs_identities := (\<lambda>a. if list_ex (\<lambda>(b, e). b = a \<and> (case ag_body e of Body_Hosted _ _ _ \<Rightarrow> True | _ \<Rightarrow> False)) gone
                                then None else hs_identities s a) \<rparr>))"

(* src/crates/aura-engine/src/agents/host.rs:1415-1421 notify_dropped *)
definition notify_dropped ::
  "(agent_id \<times> 't envelope) list \<Rightarrow> ('db, 'x, 't, 'n, 'c) host_state \<Rightarrow> ('db, 'x, 't, 'n, 'c) host_state" where
  "notify_dropped dropped s =
    s \<lparr> hs_answers := hs_answers s @ concat (map (\<lambda>(a, env). map (\<lambda>w. (w, cancelled a)) (waiters [env])) dropped) \<rparr>"

definition drop_subtree ::
  "('db, 'x, 't, 'c) host_libs \<Rightarrow> agent_id \<Rightarrow> bool \<Rightarrow> ('db, 'x, 't, 'n, 'c) host_state \<Rightarrow> ('db, 'x, 't, 'n, 'c) host_state" where
  "drop_subtree H target include_target s =
    (case remove_subtree H target include_target s of (dropped, s') \<Rightarrow> notify_dropped dropped s')"

(* src/crates/aura-engine/src/agents/host.rs:425-431 AgentHost::remove_root *)
definition remove_root ::
  "('db, 'x, 't, 'c) host_libs \<Rightarrow> agent_id \<Rightarrow> ('db, 'x, 't, 'n, 'c) host_state \<Rightarrow> ('db, 'x, 't, 'n, 'c) host_state" where
  "remove_root H root s = drop_subtree H root True s"

(* src/crates/aura-engine/src/agents/host.rs:356-384 AgentHost::register_root *)
definition register_root ::
  "('db, 'x, 't, 'c) host_libs \<Rightarrow> ('x, 'n) root_agent \<Rightarrow> ('db, 'x, 't, 'n, 'c) host_state \<Rightarrow> ('db, 'x, 't, 'n, 'c) host_state" where
  "register_root H root s =
    (let old = agent_at s (ra_agent_id root);
         (stop, tokens) = (case old of Some e \<Rightarrow> (ag_stop e, hs_tokens s) | None \<Rightarrow> tl_new (hl_tokens H) (hs_tokens s)) in
     s \<lparr> hs_tokens := tokens,
         hs_dropped := hs_dropped s @ (case old of Some e \<Rightarrow> waiters (queue_of e) | None \<Rightarrow> []),
         hs_agents := AList.update (ra_agent_id root)
           \<lparr> ag_name = ra_name root, ag_role = ''root'', ag_chain = [], ag_permissions = ra_permissions root,
             ag_tool_permissions = ra_tool_permissions root, ag_mode = ra_mode root, ag_model = ra_model root,
             ag_env = ra_env root, ag_stop = stop, ag_one_shot = False, ag_running = False, ag_paused = False,
             ag_turns = (case old of Some e \<Rightarrow> ag_turns e | None \<Rightarrow> 0),
             ag_last_reply = Option.bind old ag_last_reply, ag_body = Body_Root (ra_inbox root) \<rparr> (hs_agents s) \<rparr>)"

(* src/crates/aura-engine/src/agents/host.rs:1282-1290 HostInner::lifecycle *)
definition set_paused ::
  "agent_id \<Rightarrow> bool \<Rightarrow> ('db, 'x, 't, 'n, 'c) host_state \<Rightarrow> ('db, 'x, 't, 'n, 'c) host_state" where
  "set_paused target paused s =
    s \<lparr> hs_agents := map (\<lambda>(a, e). (a, if in_subtree target True (a, e) then e \<lparr> ag_paused := paused \<rparr> else e)) (hs_agents s) \<rparr>"

fun clear_history :: "('x, 't, 'n) body \<Rightarrow> ('x, 't, 'n) body" where
  "clear_history (Body_Hosted setup history queue) = Body_Hosted setup [] queue"
| "clear_history (Body_Root inbox) = Body_Root inbox"

(* src/crates/aura-engine/src/agents/host.rs:1292-1305 HostInner::lifecycle *)
definition restart ::
  "('db, 'x, 't, 'c) host_libs \<Rightarrow> agent_id \<Rightarrow> ('x, 't, 'n) agent_entry \<Rightarrow> ('db, 'x, 't, 'n, 'c) host_state \<Rightarrow>
   ('db, 'x, 't, 'n, 'c) host_state" where
  "restart H target e s =
    (let parent_stop = map_option ag_stop (Option.bind (ag_parent e) (agent_at s));
         s1 = drop_subtree H target False s in
     case agent_at s1 target of
       None \<Rightarrow> s1
     | Some e1 \<Rightarrow>
        (let tokens = tl_cancel (hl_tokens H) (ag_stop e1) (hs_tokens s1);
             (stop, tokens') = (case parent_stop of
                                  None \<Rightarrow> tl_new (hl_tokens H) tokens
                                | Some p \<Rightarrow> tl_child (hl_tokens H) p tokens) in
         s1 \<lparr> hs_tokens := tokens',
              hs_agents := modify target (\<lambda>e. e \<lparr> ag_paused := False, ag_stop := stop, ag_body := clear_history (ag_body e) \<rparr>)
                (hs_agents s1) \<rparr>))"

(* src/crates/aura-engine/src/agents/host.rs:1310-1315 HostInner::lifecycle *)
definition pump_all ::
  "('db, 'x, 't, 'c) host_libs \<Rightarrow> ('db, 'x, 't, 'n, 'c) host_state \<Rightarrow> ('db, 'x, 't, 'n, 'c) host_state" where
  "pump_all H s = fold (pump H) (map fst (hs_agents s)) s"

(* src/crates/aura-engine/src/agents/host.rs:1264-1317 HostInner::lifecycle *)
definition lifecycle ::
  "('db, 'x, 't, 'c) host_libs \<Rightarrow> agent_id \<Rightarrow> lifecycle_action \<Rightarrow> (('db, 'x, 't, 'n, 'c) host_state, string, unit) act" where
  "lifecycle H target action s =
    (case agent_at s target of
       None \<Rightarrow> (Inl (''unknown agent '' @ agent_display H target), s)
     | Some e \<Rightarrow>
        (case ag_body e of
           Body_Root _ \<Rightarrow> (Inl ''root agents are controlled by their surface'', s)
         | _ \<Rightarrow>
            (Inr (),
             case action of
               Lifecycle_Pause \<Rightarrow> set_paused target True s
             | Lifecycle_Resume \<Rightarrow> pump_all H (set_paused target False s)
             | Lifecycle_Stop \<Rightarrow> drop_subtree H target True s
             | Lifecycle_Restart \<Rightarrow> pump_all H (restart H target e s))))"

section \<open>The end of a turn\<close>

fun set_history :: "message list option \<Rightarrow> ('x, 't, 'n) body \<Rightarrow> ('x, 't, 'n) body" where
  "set_history (Some messages) (Body_Hosted setup history queue) = Body_Hosted setup messages queue"
| "set_history _ body = body"

(* src/crates/aura-engine/src/agents/host.rs:1092-1110 HostInner::run_turn *)
definition turn_ended ::
  "agent_id \<Rightarrow> 't envelope \<Rightarrow> subagent_result \<Rightarrow> message list option \<Rightarrow> ('db, 'x, 't, 'n, 'c) host_state \<Rightarrow>
   agent_id option \<times> ('db, 'x, 't, 'n, 'c) host_state" where
  "turn_ended agent_id env result messages s =
    (case agent_at s agent_id of
       None \<Rightarrow> (None, s)
     | Some e \<Rightarrow>
        (case en_kind env of Message_Request \<Rightarrow> en_from env | Message_Reply \<Rightarrow> ag_parent e,
         s \<lparr> hs_agents := modify agent_id (\<lambda>e. e
               \<lparr> ag_running := False, ag_turns := ag_turns e + 1,
                 ag_last_reply := (if \<not> is_blank (sr_final_message result) then Some (sr_final_message result) else ag_last_reply e),
                 ag_body := set_history messages (ag_body e) \<rparr>) (hs_agents s) \<rparr>))"

(* src/crates/aura-engine/src/agents/host.rs:1112-1125 HostInner::run_turn *)
definition turn_reply ::
  "('db, 'x, 't, 'c) host_libs \<Rightarrow> agent_id \<Rightarrow> nat option \<Rightarrow> agent_id option \<Rightarrow> subagent_result \<Rightarrow>
   ('db, 'x, 't, 'n, 'c) host_state \<Rightarrow> ('db, 'x, 't, 'n, 'c) host_state" where
  "turn_reply H agent_id waiter reply_to result s =
    (case waiter of
       Some w \<Rightarrow> s \<lparr> hs_answers := hs_answers s @ [(w, result)] \<rparr>
     | None \<Rightarrow>
        (case reply_to of
           Some to \<Rightarrow> snd (deliver_message H (Some agent_id) to Message_Reply (reply_text result) s)
         | None \<Rightarrow> s))"

(* src/crates/aura-engine/src/agents/host.rs:1133-1148 HostInner::retire_if_done *)
definition retire_if_done ::
  "('db, 'x, 't, 'c) host_libs \<Rightarrow> agent_id \<Rightarrow> ('db, 'x, 't, 'n, 'c) host_state \<Rightarrow> bool \<times> ('db, 'x, 't, 'n, 'c) host_state" where
  "retire_if_done H agent_id s =
    (if (case agent_at s agent_id of
           None \<Rightarrow> False
         | Some e \<Rightarrow> ag_one_shot e \<and> \<not> ag_running e
             \<and> (case ag_body e of Body_Hosted _ _ queue \<Rightarrow> queue = [] | _ \<Rightarrow> False))
     then (True, drop_subtree H agent_id True s)
     else (False, s))"

(* src/crates/aura-engine/src/agents/host.rs:1126-1128 HostInner::run_turn *)
definition turn_retire ::
  "('db, 'x, 't, 'c) host_libs \<Rightarrow> agent_id \<Rightarrow> ('db, 'x, 't, 'n, 'c) host_state \<Rightarrow> ('db, 'x, 't, 'n, 'c) host_state" where
  "turn_retire H agent_id s =
    (case retire_if_done H agent_id s of (True, s') \<Rightarrow> s' | (False, s') \<Rightarrow> pump H agent_id s')"

text \<open>The whole turn, when nothing else runs in between.\<close>

(* src/crates/aura-engine/src/agents/host.rs:1067-1129 HostInner::run_turn *)
definition run_turn ::
  "('db, 'x, 't, 'c) host_libs \<Rightarrow> u64 \<Rightarrow> turn_race \<Rightarrow> agent_id \<Rightarrow> ('x, 't) turn \<Rightarrow>
   ('db, 'x, 't, 'n, 'c) host_state \<Rightarrow> ('db, 'x, 't, 'n, 'c) host_state" where
  "run_turn H now race agent_id turn s =
    (case execute H now agent_id turn race (hs_store s) of
       ((result, messages), st) \<Rightarrow>
        (case turn_ended agent_id (tn_envelope turn) result messages (s \<lparr> hs_store := st \<rparr>) of
           (reply_to, s1) \<Rightarrow>
             turn_retire H agent_id (turn_reply H agent_id (en_waiter (tn_envelope turn)) reply_to result s1)))"

section \<open>Spawning\<close>

(* src/crates/aura-exec-traits/src/spawn_hook.rs:60-72 Display for SpawnError *)
fun spawn_error_message :: "spawn_error \<Rightarrow> string" where
  "spawn_error_message (SpawnError_Store e) = ''store error: '' @ e"
| "spawn_error_message (SpawnError_Serialization e) = ''serialization error: '' @ e"
| "spawn_error_message (SpawnError_Other e) = e"

(* src/crates/aura-engine/src/agents/host.rs:1328-1336 ParentSnapshot *)
record ('x, 't) parent_snapshot =
  ps_chain :: "agent_id list"
  ps_env :: "'x agent_env"
  ps_mode :: agent_mode
  ps_model :: string
  ps_permissions :: permissions
  ps_tool_permissions :: "agent_tool_permissions option"
  ps_stop :: 't

(* src/crates/aura-engine/src/agents/host.rs:775-787 HostInner::parent_snapshot *)
definition snapshot_of :: "('db, 'x, 't, 'n, 'c) host_state \<Rightarrow> agent_id \<Rightarrow> ('x, 't) parent_snapshot option" where
  "snapshot_of s parent =
    map_option (\<lambda>e. \<lparr> ps_chain = ag_chain e, ps_env = ag_env e, ps_mode = ag_mode e, ps_model = ag_model e,
                      ps_permissions = ag_permissions e, ps_tool_permissions = ag_tool_permissions e,
                      ps_stop = ag_stop e \<rparr>) (agent_at s parent)"

(* src/crates/aura-engine/src/agents/host.rs:292-310 ChildPlan *)
record child_plan =
  cp_child_id :: agent_id
  cp_parent :: agent_id
  cp_name :: string
  cp_role :: string
  cp_permissions :: permissions
  cp_tool_permissions :: agent_tool_permissions
  cp_allowed_tools :: "string list option"
  cp_mode :: agent_mode
  cp_model :: string
  cp_system_prompt :: string
  cp_reasoning_effort :: "thinking_effort option"
  cp_response_max_tokens :: "u32 option"
  cp_kind :: "subagent_kind_spec option"
  cp_iteration_cap :: "u32 option"
  cp_token_cap :: "u32 option"
  cp_timeout_ms :: "u64 option"
  cp_policy :: policy_config

(* src/crates/aura-config/src/agent.rs:21-21 MAX_ITERATIONS *)
definition MAX_ITERATIONS :: nat where
  "MAX_ITERATIONS = unat MAX_TURNS"

(* src/crates/aura-agent/src/agent_loop/config.rs:299-302 AgentLoopConfig::for_agent *)
definition loop_config_for_agent :: "string \<Rightarrow> 'x loop_config" where
  "loop_config_for_agent model =
    \<lparr> lc_model = model, lc_max_iterations = MAX_ITERATIONS, lc_max_tokens = 16384,
      lc_user_thinking_effort = None, lc_system_prompt = [], lc_rest = None \<rparr>"

(* src/crates/aura-engine/src/scheduler.rs:139-160 AgentIdentity::into_loop_config *)
definition into_loop_config :: "'x agent_identity \<Rightarrow> 'x loop_config" where
  "into_loop_config i =
    (loop_config_for_agent (ai_model i))
      \<lparr> lc_user_thinking_effort := ai_reasoning_effort i, lc_system_prompt := ai_system_prompt i,
        lc_max_tokens := ai_max_tokens i, lc_rest := Some (ai_rest i) \<rparr>"

(* src/crates/aura-engine/src/agents/setup.rs:68-80 loop_config_for *)
definition loop_config_for :: "string \<Rightarrow> string \<Rightarrow> 'x agent_identity option \<Rightarrow> 'x loop_config" where
  "loop_config_for model system_prompt identity =
    (case identity of
       Some i \<Rightarrow> into_loop_config i
     | None \<Rightarrow> (loop_config_for_agent model) \<lparr> lc_system_prompt := system_prompt \<rparr>)"

(* src/crates/aura-engine/src/agents/setup.rs:83-88 apply_kind_budget *)
definition apply_kind_budget :: "subagent_kind_spec \<Rightarrow> 'x loop_config \<Rightarrow> 'x loop_config" where
  "apply_kind_budget kind config =
    config \<lparr> lc_max_iterations := unat (kb_max_iterations (sk_budget kind)),
             lc_max_tokens := (case kb_max_tokens (sk_budget kind) of
                                 Some m \<Rightarrow> min (lc_max_tokens config) m | None \<Rightarrow> lc_max_tokens config) \<rparr>"

(* src/crates/aura-engine/src/agents/host.rs:837-855 HostInner::create_child *)
definition child_agent_identity :: "child_plan \<Rightarrow> 'x agent_identity \<Rightarrow> 'x agent_identity" where
  "child_agent_identity plan i =
    i \<lparr> ai_model := cp_model plan,
        ai_reasoning_effort := (case cp_reasoning_effort plan of Some e \<Rightarrow> Some e | None \<Rightarrow> ai_reasoning_effort i),
        ai_max_tokens := option_or (cp_response_max_tokens plan) (ai_max_tokens i),
        ai_system_prompt := cp_system_prompt plan \<rparr>"

(* src/crates/aura-engine/src/agents/host.rs:856-871 HostInner::create_child *)
definition child_loop_config :: "child_plan \<Rightarrow> 'x agent_identity option \<Rightarrow> 'x loop_config" where
  "child_loop_config plan identity =
    (let c0 = loop_config_for (cp_model plan) (cp_system_prompt plan) identity;
         c1 = (case cp_kind plan of Some kind \<Rightarrow> apply_kind_budget kind c0 | None \<Rightarrow> c0);
         c2 = (case cp_reasoning_effort plan of Some e \<Rightarrow> c1 \<lparr> lc_user_thinking_effort := Some e \<rparr> | None \<Rightarrow> c1);
         c3 = (case cp_response_max_tokens plan of Some m \<Rightarrow> c2 \<lparr> lc_max_tokens := m \<rparr> | None \<Rightarrow> c2);
         c4 = (case cp_iteration_cap plan of
                 Some cap \<Rightarrow> c3 \<lparr> lc_max_iterations := min (lc_max_iterations c3) (unat cap) \<rparr> | None \<Rightarrow> c3) in
     case cp_token_cap plan of Some cap \<Rightarrow> c4 \<lparr> lc_max_tokens := min (lc_max_tokens c4) cap \<rparr> | None \<Rightarrow> c4)"

text \<open>The last critical section of \<open>create_child\<close>: the child enters the table, idle.\<close>

(* src/crates/aura-engine/src/agents/host.rs:872-940 HostInner::create_child *)
definition insert_child ::
  "('db, 'x, 't, 'c) host_libs \<Rightarrow> child_plan \<Rightarrow> ('x, 't) parent_snapshot \<Rightarrow> string option \<Rightarrow>
   ('db, 'x, 't, 'n, 'c) host_state \<Rightarrow> ('db, 'x, 't, 'n, 'c) host_state" where
  "insert_child H plan parent user s =
    (let chain = cp_parent plan # ps_chain parent;
         identity = map_option (child_agent_identity plan) (hs_identities s (cp_parent plan));
         tools = hl_build_tools H (ae_rest (ps_env parent))
           \<lparr> ck_child_agent_id = cp_child_id plan, ck_permissions = cp_permissions plan,
             ck_tool_permissions = cp_tool_permissions plan,
             ck_user_tool_defaults = ae_user_tool_defaults (ps_env parent), ck_parent_chain = chain,
             ck_originating_user_id = user, ck_model_id = cp_model plan \<rparr>;
         setup = \<lparr> rs_loop_config = child_loop_config plan identity, rs_policy = cp_policy plan,
                   rs_tools = (case cp_allowed_tools plan of
                                 Some allowed \<Rightarrow> filter (\<lambda>t. t \<in> set allowed) tools | None \<Rightarrow> tools),
                   rs_timeout_ms = cp_timeout_ms plan \<rparr>;
         (stop, tokens) = tl_child (hl_tokens H) (ps_stop parent) (hs_tokens s) in
     s \<lparr> hs_tokens := tokens,
         hs_identities := (case identity of Some i \<Rightarrow> (hs_identities s)(cp_child_id plan \<mapsto> i) | None \<Rightarrow> hs_identities s),
         hs_dropped := hs_dropped s @ (case agent_at s (cp_child_id plan) of Some e \<Rightarrow> waiters (queue_of e) | None \<Rightarrow> []),
         hs_agents := AList.update (cp_child_id plan)
           \<lparr> ag_name = cp_name plan, ag_role = cp_role plan, ag_chain = chain, ag_permissions = cp_permissions plan,
             ag_tool_permissions = Some (cp_tool_permissions plan), ag_mode = cp_mode plan, ag_model = cp_model plan,
             ag_env = ps_env parent, ag_stop = stop, ag_one_shot = (cp_kind plan \<noteq> None), ag_running = False,
             ag_paused = False, ag_turns = 0, ag_last_reply = None, ag_body = Body_Hosted setup [] [] \<rparr> (hs_agents s) \<rparr>)"

text \<open>
  The records of a new child.  The lock of the parent serialises the host's own spawns; other writers
  of the parent's log are \<open>others\<close>.
\<close>

definition with_store ::
  "('db rocks_state, 'e, 'a) act \<Rightarrow> (('db, 'x, 't, 'n, 'c) host_state, 'e, 'a) act" where
  "with_store m s = (case m (hs_store s) of (r, st) \<Rightarrow> (r, s \<lparr> hs_store := st \<rparr>))"

(* src/crates/aura-engine/src/agents/host.rs:798-831 HostInner::create_child *)
definition record_child ::
  "('db, 'x, 't, 'c) host_libs \<Rightarrow> (nat \<Rightarrow> 'db rocks_state \<Rightarrow> 'db rocks_state) \<Rightarrow> u64 \<times> u64 \<times> u64 \<Rightarrow> child_plan \<Rightarrow>
   ('x, 't) parent_snapshot \<Rightarrow> bytes option \<Rightarrow> string option \<Rightarrow> ('db rocks_state, string, spawn_outcome) act" where
  "record_child H others = (\<lambda>(now0, now1, now2) plan parent spawn_record user.
    let L = sl_kernel (hl_spawn H) in
    try_then (case spawn_record of
        None \<Rightarrow> ok ()
      | Some bs \<Rightarrow>
          try_then (map_err (\<lambda>e. ''spawn record: '' @ kernel_error_message e)
            (write_system_record L (rocks_ops (hl_store H)) others (cp_parent plan)
              (tx_new_chained (kl_blake3 L) now0 (cp_parent plan) TxType_SubagentSpawn bs None))) (\<lambda>_. ok ())) (\<lambda>_.
    map_err (\<lambda>e. ''spawn child: '' @ spawn_error_message e)
      (spawn_child (hl_spawn H) (hl_store H) (cp_child_id plan) now1 now2 (cp_parent plan) user
        \<lparr> cs_name = cp_name plan, cs_role = cp_role plan, cs_permissions = cp_permissions plan,
          cs_tool_permissions = Some (cp_tool_permissions plan),
          cs_parent_tool_permissions = ps_tool_permissions parent,
          cs_system_prompt_override = Some (cp_system_prompt plan),
          cs_preassigned_agent_id = Some (cp_child_id plan), cs_initial_prompt = None \<rparr>)))"

(* src/crates/aura-engine/src/agents/host.rs:791-942 HostInner::create_child *)
definition create_child ::
  "('db, 'x, 't, 'c) host_libs \<Rightarrow> (nat \<Rightarrow> 'db rocks_state \<Rightarrow> 'db rocks_state) \<Rightarrow> u64 \<times> u64 \<times> u64 \<Rightarrow> child_plan \<Rightarrow>
   ('x, 't) parent_snapshot \<Rightarrow> bytes option \<Rightarrow> string option \<Rightarrow> (('db, 'x, 't, 'n, 'c) host_state, string, spawn_outcome) act" where
  "create_child H others nows plan parent spawn_record originating_user_id =
    (let user = (case originating_user_id of Some u \<Rightarrow> Some u | None \<Rightarrow> ae_originating_user_id (ps_env parent)) in
     try_then (with_store (record_child H others nows plan parent spawn_record user)) (\<lambda>outcome s.
       (Inr outcome, insert_child H plan parent user s)))"

(* src/crates/aura-model-reasoner/src/anthropic/config.rs:92-92 ENV_FALLBACK_MODEL *)
definition ENV_FALLBACK_MODEL :: string where
  "ENV_FALLBACK_MODEL = ''claude-opus-4-6''"

(* src/crates/aura-engine/src/agents/host.rs:335-352 AgentHost::new *)
definition host_derivation :: "('db, 'x, 't, 'c) host_libs \<Rightarrow> subagent_derivation_config" where
  "host_derivation H = derivation_config_default \<lparr> dc_max_depth := ahc_max_depth (hl_config H) \<rparr>"

(* src/crates/aura-engine/src/agents/host.rs:557-613 HostInner::dispatch_task *)
definition task_plan ::
  "agent_id \<Rightarrow> subagent_dispatch_request \<Rightarrow> subagent_kind_spec \<Rightarrow> subagent_spec \<Rightarrow> thinking_effort option \<Rightarrow>
   ('x, 't) parent_snapshot \<Rightarrow> child_plan" where
  "task_plan child_id request kind spec effort parent =
    (let perms = narrow_permissions (ss_permissions spec) kind;
         user_tool_defaults = option_or (ss_user_tool_defaults spec) (ae_user_tool_defaults (ps_env parent));
         allowed_tools = option_or (ss_tool_subset spec) (sk_allowed_tools kind);
         tool_permissions = narrowed_tool_permissions (ss_parent_tool_permissions spec) user_tool_defaults allowed_tools in
     \<lparr> cp_child_id = child_id, cp_parent = dr_parent_agent_id request, cp_name = sk_name kind,
       cp_role = ''subagent:'' @ sk_name kind, cp_permissions = perms, cp_tool_permissions = tool_permissions,
       cp_allowed_tools = Some allowed_tools, cp_mode = ss_mode spec,
       cp_model = (if ss_model_id spec = [] then option_or (sk_default_model kind) ENV_FALLBACK_MODEL else ss_model_id spec),
       cp_system_prompt = kind_system_prompt kind (ss_system_prompt_addendum spec),
       cp_reasoning_effort = effort, cp_response_max_tokens = ss_response_max_tokens spec, cp_kind = Some kind,
       cp_iteration_cap = Some (sb_max_iterations (ss_budget spec)), cp_token_cap = Some (sb_max_tokens (ss_budget spec)),
       cp_timeout_ms = Some (case dr_override_budget request of Some b \<Rightarrow> kb_timeout_ms b
                             | None \<Rightarrow> kb_timeout_ms (sk_budget kind)),
       cp_policy = task_policy perms tool_permissions user_tool_defaults (ss_mode spec) \<rparr>)"

(* src/crates/aura-engine/src/agents/host.rs:511-556 HostInner::dispatch_task *)
definition admit_task ::
  "('db, 'x, 't, 'c) host_libs \<Rightarrow> agent_id \<Rightarrow> subagent_dispatch_request \<Rightarrow> ('db, 'x, 't, 'n, 'c) host_state \<Rightarrow>
   (string, child_plan \<times> ('x, 't) parent_snapshot \<times> override_manifest) result" where
  "admit_task H child_id request s =
    (case registry_get bundled_kinds (dr_subagent_type request) of
       None \<Rightarrow> Inl (''unknown subagent type '' @ quoted (dr_subagent_type request))
     | Some kind \<Rightarrow>
    (case snapshot_of s (dr_parent_agent_id request) of
       None \<Rightarrow> Inl (''agent '' @ agent_display H (dr_parent_agent_id request) @ '' is not registered with the agent host'')
     | Some parent \<Rightarrow>
    (let parent_ctx = parent_context_from_request request in
     if \<not> allows_spawn (pc_mode parent_ctx)
     then Inl (''spawn rejected: '' @ mode_debug (pc_mode parent_ctx) @ '' mode does not allow spawning agents'')
     else
    (case derive (host_derivation H) parent_ctx (overrides_from_request request kind) of
       Inl e \<Rightarrow> Inl (''spawn rejected: '' @ derivation_error_message e)
     | Inr (spec, manifest) \<Rightarrow>
        if ss_response_max_tokens spec = Some 0 \<or> sb_max_tokens (ss_budget spec) = 0 \<or> sb_max_iterations (ss_budget spec) = 0
        then Inl ''child execution limits must be positive''
        else
    (case (case ss_reasoning_effort spec of
             None \<Rightarrow> Inr None
           | Some w \<Rightarrow> (case effort_from_wire w of Some e \<Rightarrow> Inr (Some e)
                        | None \<Rightarrow> Inl (''invalid reasoning effort: '' @ w))) of
       Inl e \<Rightarrow> Inl e
     | Inr effort \<Rightarrow>
        if ahc_max_running (hl_config H) \<le> running_count s
        then Inl (''spawn rejected: '' @ nat_str (ahc_max_running (hl_config H)) @ '' agents are already running'')
        else Inr (task_plan child_id request kind spec effort parent, parent, manifest))))))"

text \<open>
  A dispatched task is answered at once or through a waiter: the caller then gets the answer sent to
  the waiter, or the cancelled result when the waiter is dropped.
\<close>

datatype dispatched = Dispatched_Result subagent_result | Dispatched_Waiting (dp_child: agent_id) (dp_waiter: nat)

(* src/crates/aura-engine/src/agents/host.rs:505-671 HostInner::dispatch_task *)
definition dispatch_task ::
  "('db, 'x, 't, 'c) host_libs \<Rightarrow> (nat \<Rightarrow> 'db rocks_state \<Rightarrow> 'db rocks_state) \<Rightarrow> u64 \<times> u64 \<times> u64 \<Rightarrow> agent_id \<Rightarrow> nat \<Rightarrow>
   subagent_dispatch_request \<Rightarrow> 't option \<Rightarrow> ('db, 'x, 't, 'n, 'c) host_state \<Rightarrow> dispatched \<times> ('db, 'x, 't, 'n, 'c) host_state" where
  "dispatch_task H others nows child_id waiter request cancel s =
    (case admit_task H child_id request s of
       Inl why \<Rightarrow> (Dispatched_Result (result_rejected why), s)
     | Inr (plan, parent, manifest) \<Rightarrow>
    (case create_child H others nows plan parent
            (Some (hl_spawn_record H (cp_parent plan) child_id manifest (option_or (dr_spawn_mode request) SpawnMode_Wait)))
            (dr_originating_user_id request) s of
       (Inl e, s1) \<Rightarrow> (Dispatched_Result (result_rejected (''spawn failed: '' @ e)), s1)
     | (Inr _, s1) \<Rightarrow>
        if dr_spawn_mode request = Some SpawnMode_Detached
        then (case enqueue H child_id (make_envelope s1 (Some (cp_parent plan)) Message_Request (dr_prompt request) None None) s1 of
                (Inl e, s2) \<Rightarrow> (Dispatched_Result (result_rejected e), s2)
              | (Inr _, s2) \<Rightarrow>
                  (Dispatched_Result (result_completed child_id
                     (''Started agent '' @ agent_display H child_id
                      @ '' in the background. Its result will be delivered to you as a message when it finishes.'')), s2))
        else (case enqueue H child_id (make_envelope s1 (Some (cp_parent plan)) Message_Request (dr_prompt request) (Some waiter) cancel) s1 of
                (Inl e, s2) \<Rightarrow> (Dispatched_Result (result_rejected e), s2)
              | (Inr _, s2) \<Rightarrow> (Dispatched_Waiting child_id waiter, s2))))"

(* src/crates/aura-engine/src/agents/host.rs:686-755 HostInner::spawn_agent *)
definition admit_agent ::
  "('db, 'x, 't, 'c) host_libs \<Rightarrow> agent_id \<Rightarrow> agent_id \<Rightarrow> child_agent_spec \<Rightarrow> ('db, 'x, 't, 'n, 'c) host_state \<Rightarrow>
   (string, child_plan \<times> ('x, 't) parent_snapshot) result" where
  "admit_agent H fresh_id parent child s =
    (case snapshot_of s parent of
       None \<Rightarrow> Inl (''agent '' @ agent_display H parent @ '' is not registered with the agent host'')
     | Some p \<Rightarrow>
        (let depth = length (ps_chain p) + 2;
             child_id = option_or (cs_preassigned_agent_id child) fresh_id;
             tool_permissions = (case cs_tool_permissions child of Some t \<Rightarrow> Some t | None \<Rightarrow> ps_tool_permissions p);
             base_prompt = (case cs_system_prompt_override child of
                              Some q \<Rightarrow> q
                            | None \<Rightarrow> (case hs_identities s parent of Some i \<Rightarrow> ai_system_prompt i | None \<Rightarrow> [])) in
         if \<not> allows_spawn (ps_mode p) then Inl (mode_debug (ps_mode p) @ '' mode does not allow spawning agents'')
         else if \<not> pm_contains (ps_permissions p) (cs_permissions child)
         then Inl ''a spawned agent cannot have more permissions than its parent''
         else if unat (ahc_max_depth (hl_config H)) < depth
         then Inl (''spawn depth '' @ nat_str depth @ '' exceeds the limit of '' @ nat_str (unat (ahc_max_depth (hl_config H))))
         else if ahc_max_running (hl_config H) \<le> running_count s
         then Inl (nat_str (ahc_max_running (hl_config H)) @ '' agents are already running'')
         else if agent_at s child_id \<noteq> None then Inl (''agent '' @ agent_display H child_id @ '' already exists'')
         else Inr (\<lparr> cp_child_id = child_id, cp_parent = parent, cp_name = cs_name child, cp_role = cs_role child,
                     cp_permissions = cs_permissions child,
                     cp_tool_permissions = option_or tool_permissions \<lparr> atp_per_tool = [] \<rparr>,
                     cp_allowed_tools = None, cp_mode = ps_mode p, cp_model = ps_model p,
                     cp_system_prompt = spawned_agent_prompt base_prompt (cs_name child) (cs_role child),
                     cp_reasoning_effort = None, cp_response_max_tokens = None, cp_kind = None,
                     cp_iteration_cap = None, cp_token_cap = None, cp_timeout_ms = None,
                     cp_policy = agent_policy (cs_permissions child) tool_permissions
                                   (ae_user_tool_defaults (ps_env p)) (ps_mode p) \<rparr>, p)))"

(* src/crates/aura-engine/src/agents/host.rs:679-768 HostInner::spawn_agent *)
definition spawn_agent ::
  "('db, 'x, 't, 'c) host_libs \<Rightarrow> (nat \<Rightarrow> 'db rocks_state \<Rightarrow> 'db rocks_state) \<Rightarrow> u64 \<times> u64 \<times> u64 \<Rightarrow> agent_id \<Rightarrow> agent_id \<Rightarrow>
   string option \<Rightarrow> child_agent_spec \<Rightarrow> string option \<Rightarrow> (('db, 'x, 't, 'n, 'c) host_state, string, spawn_outcome) act" where
  "spawn_agent H others nows fresh_id parent originating_user_id child initial_prompt s =
    (case admit_agent H fresh_id parent child s of
       Inl e \<Rightarrow> (Inl e, s)
     | Inr (plan, p) \<Rightarrow>
        try_then (create_child H others nows plan p None originating_user_id) (\<lambda>outcome.
        try_then (\<lambda>s1. case initial_prompt of
            Some prompt \<Rightarrow> if is_blank prompt then (Inr (), s1)
              else enqueue H (cp_child_id plan) (make_envelope s1 (Some parent) Message_Request prompt None None) s1
          | None \<Rightarrow> (Inr (), s1)) (\<lambda>_.
          ok \<lparr> so_child_agent_id = cp_child_id plan, so_external_agent_id = Some (agent_hex H (cp_child_id plan)),
               so_delegate_tx_hash = so_delegate_tx_hash outcome \<rparr>)) s)"

section \<open>The tools' side of the host\<close>

(* src/crates/aura-engine/src/agents/hooks.rs:96-105 AgentHooks::local_target, AgentHooks::unknown *)
definition local_target ::
  "('db, 'x, 't, 'c) host_libs \<Rightarrow> ('db, 'x, 't, 'n, 'c) host_state \<Rightarrow> agent_id \<Rightarrow> string \<Rightarrow> (string, agent_id option) result" where
  "local_target H s caller target =
    (case resolve H s caller target of
       Some a \<Rightarrow> if a = caller then Inl ''an agent cannot message itself'' else Inr (Some a)
     | None \<Rightarrow> Inr None)"

text \<open>Calls for agents outside the host go to \<open>remote\<close>; without remote hooks they are refused.\<close>

(* src/crates/aura-engine/src/agents/hooks.rs:138-173 AgentHooks::deliver_message *)
definition hook_deliver_message ::
  "('db, 'x, 't, 'c) host_libs \<Rightarrow> (string, unit) result option \<Rightarrow> agent_id \<Rightarrow> string \<Rightarrow> string \<Rightarrow>
   (('db, 'x, 't, 'n, 'c) host_state, string, unit) act" where
  "hook_deliver_message H remote caller target content s =
    (case local_target H s caller target of
       Inl e \<Rightarrow> (Inl e, s)
     | Inr (Some a) \<Rightarrow> deliver_message H (Some caller) a Message_Request content s
     | Inr None \<Rightarrow>
        (case remote of
           Some r \<Rightarrow> (r, s)
         | None \<Rightarrow> (Inl (''unknown agent '' @ quoted target @ ''; call list_agents to see the agents you can reach''), s)))"

(* src/crates/aura-engine/src/agents/hooks.rs:175-207 AgentHooks::lifecycle *)
definition hook_lifecycle ::
  "('db, 'x, 't, 'c) host_libs \<Rightarrow> (string, unit) result option \<Rightarrow> agent_id \<Rightarrow> string \<Rightarrow> string \<Rightarrow>
   (('db, 'x, 't, 'n, 'c) host_state, string, unit) act" where
  "hook_lifecycle H remote caller target action s =
    (case local_target H s caller target of
       Inl e \<Rightarrow> (Inl e, s)
     | Inr (Some a) \<Rightarrow>
        if \<not> is_descendant s a caller
        then (Inl ''agent_lifecycle only applies to agents you started, directly or indirectly'', s)
        else (case lifecycle_parse action of
                None \<Rightarrow> (Inl (''unsupported lifecycle action '' @ quoted action), s)
              | Some act \<Rightarrow> lifecycle H a act s)
     | Inr None \<Rightarrow>
        (case remote of
           Some r \<Rightarrow> (r, s)
         | None \<Rightarrow> (Inl (''unknown agent '' @ quoted target @ ''; call list_agents to see the agents you can reach''), s)))"

(* src/crates/aura-engine/src/agents/hooks.rs:117-133 AgentHooks::spawn_child *)
definition hook_spawn_child ::
  "('db, 'x, 't, 'c) host_libs \<Rightarrow> (nat \<Rightarrow> 'db rocks_state \<Rightarrow> 'db rocks_state) \<Rightarrow> u64 \<times> u64 \<times> u64 \<Rightarrow> agent_id \<Rightarrow> agent_id \<Rightarrow>
   agent_id \<Rightarrow> string option \<Rightarrow> child_agent_spec \<Rightarrow> (('db, 'x, 't, 'n, 'c) host_state, spawn_error, spawn_outcome) act" where
  "hook_spawn_child H others nows fresh_id caller parent_agent_id user child s =
    (if parent_agent_id \<noteq> caller then (Inl (SpawnError_Other ''spawn_agent: parent agent does not match the caller''), s)
     else map_err SpawnError_Other (spawn_agent H others nows fresh_id caller user child (cs_initial_prompt child)) s)"

end
