(* ===== verification/Host_Laws.thy ===== *)
theory Host_Laws
  imports Agent_Host "HOL-Library.Multiset"
begin

text \<open>
  The invariants of the agent host over every interleaving of its critical sections: the table is a
  forest, an agent runs one turn at a time, every caller that waits is answered once, and without new
  input the host comes to rest.
\<close>

section \<open>The table\<close>

lemma map_of_modify: "map_of (modify k f m) j = (if j = k then map_option f (map_of m j) else map_of m j)"
  by (induction m) (auto simp: modify_def)

lemma fst_modify [simp]: "map fst (modify k f m) = map fst m"
  by (simp add: modify_def comp_def case_prod_beta)

lemma set_modify: "distinct (map fst m) \<Longrightarrow> set (modify k f m) = (\<lambda>(j, v). (j, if j = k then f v else v)) ` set m"
  by (auto simp: modify_def)

lemma modify_none: "map_of m k = None \<Longrightarrow> modify k f m = m"
  by (induction m) (auto simp: modify_def split: if_splits)

lemma modify_same: "map_of m k = Some v \<Longrightarrow> distinct (map fst m) \<Longrightarrow> f v = v \<Longrightarrow> modify k f m = m"
  by (induction m) (auto simp: modify_def map_of_eq_None_iff [THEN iffD1] image_iff intro!: map_idI split: if_splits)

text \<open>A sum over the table changes by the entry that is modified.\<close>

lemma sum_modify:
  fixes w :: "'k \<times> 'v \<Rightarrow> 'm :: comm_monoid_add"
  assumes "distinct (map fst m)" "map_of m k = Some v"
  shows "sum_list (map w (modify k f m)) + w (k, v) = sum_list (map w m) + w (k, f v)"
  using assms
proof (induction m)
  case (Cons p m)
  obtain j u where p: "p = (j, u)" by (cases p)
  show ?case
  proof (cases "j = k")
    case True
    then have "map_of m k = None" using Cons.prems(1) p by (auto simp: map_of_eq_None_iff)
    with True Cons.prems p show ?thesis
      using modify_none [of m k f] by (simp add: modify_def algebra_simps)
  next
    case False
    with Cons p have IH: "sum_list (map w (modify k f m)) + w (k, v) = sum_list (map w m) + w (k, f v)" by simp
    have "modify k f (p # m) = p # modify k f m" using False by (simp add: modify_def p)
    with IH show ?thesis by (simp add: algebra_simps)
  qed
qed simp

lemma sum_filter_split:
  fixes w :: "'a \<Rightarrow> 'm :: comm_monoid_add"
  shows "sum_list (map w xs) = sum_list (map w (filter P xs)) + sum_list (map w (filter (\<lambda>x. \<not> P x) xs))"
  by (induction xs) (simp_all add: algebra_simps)

lemma map_of_filter_keys:
  assumes "distinct (map fst m)"
  shows "map_of (filter P m) k = (case map_of m k of Some v \<Rightarrow> if P (k, v) then Some v else None | None \<Rightarrow> None)"
  using assms
proof (induction m)
  case (Cons p m)
  then show ?case
    by (cases p) (auto simp: image_iff split: option.splits dest: map_of_SomeD)
qed simp

lemma distinct_filter_keys [intro]: "distinct (map fst m) \<Longrightarrow> distinct (map fst (filter P m))"
  by (induction m) auto

lemma map_of_map_entries: "map_of (map (\<lambda>(a, e). (a, f a e)) m) k = map_option (f k) (map_of m k)"
  by (induction m) auto

section \<open>Views of the host\<close>

text \<open>Turns that a model runs, per agent.\<close>

fun executes :: "agent_id \<Rightarrow> ('x, 't) flight \<Rightarrow> bool" where
  "executes a (Executing b _) = (a = b)"
| "executes a _ = False"

definition exec_count :: "('db, 'x, 't, 'n, 'c) host_state \<Rightarrow> agent_id \<Rightarrow> nat" where
  "exec_count s a = length (filter (executes a) (hs_flights s))"

fun wakes :: "agent_id \<Rightarrow> ('x, 't) flight \<Rightarrow> bool" where
  "wakes a (Executing b _) = False"
| "wakes a (Replying b _ _ _) = (a = b)"
| "wakes a (Retiring b) = (a = b)"

text \<open>An agent with work that nothing holds back.\<close>

definition ready :: "('x, 't, 'n) agent_entry \<Rightarrow> bool" where
  "ready e = (\<not> ag_running e \<and> \<not> ag_paused e \<and> queue_of e \<noteq> [])"

text \<open>The waiters in the host's hands and those it has dealt with.\<close>

fun flight_waiters :: "('x, 't) flight \<Rightarrow> nat list" where
  "flight_waiters (Executing _ t) = waiters [tn_envelope t]"
| "flight_waiters (Replying _ w _ _) = (case w of Some n \<Rightarrow> [n] | None \<Rightarrow> [])"
| "flight_waiters (Retiring _) = []"

definition queued_waiters :: "(agent_id \<times> ('x, 't, 'n) agent_entry) list \<Rightarrow> nat multiset" where
  "queued_waiters m = sum_list (map (\<lambda>(a, e). mset (waiters (queue_of e))) m)"

definition waiter_bag :: "('db, 'x, 't, 'n, 'c) host_state \<Rightarrow> nat multiset" where
  "waiter_bag s =
    queued_waiters (hs_agents s) + mset (concat (map flight_waiters (hs_flights s)))
    + mset (map fst (hs_answers s)) + mset (hs_dropped s)"

lemma waiters_simps [simp]:
  "waiters [] = []" "waiters (e # es) = (case en_waiter e of None \<Rightarrow> [] | Some w \<Rightarrow> [w]) @ waiters es"
  "waiters (xs @ ys) = waiters xs @ waiters ys"
  by (simp_all add: waiters_def)

section \<open>Effects of the critical sections\<close>

lemma pump_cases:
  obtains (idle) "pump H a s = s" "\<forall>e. agent_at s a = Some e \<longrightarrow> \<not> ready e"
  | (start) e su history env q t where
      "agent_at s a = Some e" "\<not> ag_running e" "\<not> ag_paused e" "ag_body e = Body_Hosted su history (env # q)"
      "tn_envelope t = env"
      "pump H a s = s \<lparr> hs_agents := modify a
           (\<lambda>e. e \<lparr> ag_running := True, ag_body := Body_Hosted su history q \<rparr>) (hs_agents s),
         hs_flights := hs_flights s @ [Executing a t] \<rparr>"
proof (cases "agent_at s a")
  case None
  then show ?thesis by (intro idle) (simp_all add: pump_def)
next
  case (Some e)
  show ?thesis
  proof (cases "ready e")
    case False
    then show ?thesis
      using Some by (intro idle) (auto simp: pump_def ready_def queue_of_def split: body.splits list.splits)
  next
    case True
    then obtain su history env q where b: "ag_body e = Body_Hosted su history (env # q)"
      by (auto simp: ready_def queue_of_def neq_Nil_conv split: body.splits)
    let ?t = "\<lparr> tn_envelope = env, tn_prompt = render_for_hosted H env (ag_parent e), tn_history = history,
                tn_setup = su, tn_env = ag_env e, tn_stop = ag_stop e \<rparr>"
    from True Some b show ?thesis
      by (intro start [of e su history env q ?t]) (simp_all add: ready_def pump_def)
  qed
qed

lemma pump_frame [simp]:
  "map fst (hs_agents (pump H a s)) = map fst (hs_agents s)"
  "hs_answers (pump H a s) = hs_answers s" "hs_dropped (pump H a s) = hs_dropped s"
  "hs_deliveries (pump H a s) = hs_deliveries s" "hs_tokens (pump H a s) = hs_tokens s"
  "hs_store (pump H a s) = hs_store s" "hs_identities (pump H a s) = hs_identities s"
  by (cases rule: pump_cases [of H a s]; simp)+

lemma exec_count_pump:
  "exec_count (pump H a s) b =
    exec_count s b + (case agent_at s a of Some e \<Rightarrow> if a = b \<and> ready e then 1 else 0 | None \<Rightarrow> 0)"
  by (cases rule: pump_cases [of H a s])
    (auto simp: exec_count_def ready_def queue_of_def split: option.splits)

lemma pump_entry:
  "agent_at (pump H a s) b = (case agent_at s b of
     None \<Rightarrow> None
   | Some e \<Rightarrow> Some (if a = b \<and> ready e
        then e \<lparr> ag_running := True, ag_body := Body_Hosted (bd_setup (ag_body e)) (bd_history (ag_body e)) (tl (queue_of e)) \<rparr>
        else e))"
  by (cases rule: pump_cases [of H a s])
    (auto simp: map_of_modify ready_def queue_of_def split: option.splits)

lemma waiter_bag_pump:
  assumes "distinct (map fst (hs_agents s))"
  shows "waiter_bag (pump H a s) = waiter_bag s"
proof (cases rule: pump_cases [of H a s])
  case (start e su history env q t)
  let ?f = "\<lambda>e. e \<lparr> ag_running := True, ag_body := Body_Hosted su history q \<rparr>"
  have "queued_waiters (modify a ?f (hs_agents s)) + mset (waiters (env # q))
      = queued_waiters (hs_agents s) + mset (waiters q)"
    using sum_modify [OF assms start(1), of "\<lambda>(a, e). mset (waiters (queue_of e))" ?f] start(4)
    by (simp add: queued_waiters_def queue_of_def)
  then have "queued_waiters (modify a ?f (hs_agents s)) + mset (waiters [env]) = queued_waiters (hs_agents s)"
    by (simp add: add.assoc [symmetric])
  then show ?thesis using start(5,6) by (simp add: waiter_bag_def)
qed simp

section \<open>The invariant\<close>

text \<open>
  The ancestors an identifier was first used with; \<open>None\<close> for unused identifiers.  An identifier is a
  root's for ever or names one child only.
\<close>

type_synonym genealogy = "agent_id \<rightharpoonup> agent_id list"

fun is_root_body :: "('x, 't, 'n) body \<Rightarrow> bool" where
  "is_root_body (Body_Root _) = True"
| "is_root_body (Body_Hosted _ _ _) = False"

definition entry_ok :: "genealogy \<Rightarrow> agent_id \<Rightarrow> ('x, 't, 'n) agent_entry \<Rightarrow> bool" where
  "entry_ok G a e = (G a = Some (ag_chain e) \<and> (ag_chain e = [] \<longleftrightarrow> is_root_body (ag_body e)) \<and> (is_root_body (ag_body e) \<longrightarrow> \<not> ag_running e))"

definition turns_ok :: "genealogy \<Rightarrow> ('db, 'x, 't, 'n, 'c) host_state \<Rightarrow> agent_id \<Rightarrow> bool" where
  "turns_ok G s a =
    ((case agent_at s a of Some e \<Rightarrow> exec_count s a = of_bool (ag_running e) | None \<Rightarrow> exec_count s a \<le> 1)
     \<and> (0 < exec_count s a \<longrightarrow> (\<exists>p cs. G a = Some (p # cs))))"

definition awake :: "('db, 'x, 't, 'n, 'c) host_state \<Rightarrow> agent_id \<Rightarrow> bool" where
  "awake s a = (\<forall>e. agent_at s a = Some e \<longrightarrow> ready e \<longrightarrow> list_ex (wakes a) (hs_flights s))"

text \<open>The invariant between the sections of one operation: the agents of \<open>A\<close> have still to be woken up.\<close>

definition inv_but :: "agent_id set \<Rightarrow> genealogy \<Rightarrow> ('db, 'x, 't, 'n, 'c) host_state \<Rightarrow> bool" where
  "inv_but A G s =
    (distinct (map fst (hs_agents s)) \<and> (\<forall>a e. agent_at s a = Some e \<longrightarrow> entry_ok G a e)
     \<and> (\<forall>a. turns_ok G s a) \<and> (\<forall>a. a \<notin> A \<longrightarrow> awake s a))"

lemma inv_butI:
  assumes "distinct (map fst (hs_agents s))" "\<And>a e. agent_at s a = Some e \<Longrightarrow> entry_ok G a e"
    "\<And>a. turns_ok G s a" "\<And>a. a \<notin> A \<Longrightarrow> awake s a"
  shows "inv_but A G s"
  using assms by (simp add: inv_but_def)

lemma inv_butD:
  assumes "inv_but A G s"
  shows "distinct (map fst (hs_agents s))" "agent_at s a = Some e \<Longrightarrow> entry_ok G a e"
    "turns_ok G s a" "a \<notin> A \<Longrightarrow> awake s a"
  using assms by (simp_all add: inv_but_def)

lemma inv_but_mono: "inv_but A G s \<Longrightarrow> A \<subseteq> B \<Longrightarrow> inv_but B G s"
  by (auto simp: inv_but_def)

lemma inv_but_awake: "inv_but (insert a A) G s \<Longrightarrow> awake s a \<Longrightarrow> inv_but A G s"
  by (auto simp: inv_but_def)

lemma ready_hosted: "ready e \<Longrightarrow> \<not> is_root_body (ag_body e)"
  by (cases "ag_body e") (auto simp: ready_def queue_of_def)

lemma queue_hosted [simp]: "queue_of (e \<lparr> ag_body := Body_Hosted su h q \<rparr>) = q"
  by (simp add: queue_of_def)

text \<open>The invariant reads only the table and the flights.\<close>

lemma inv_but_cong:
  assumes "hs_agents s = hs_agents s'" "hs_flights s = hs_flights s'"
  shows "inv_but A G s = inv_but A G s'"
proof -
  have "exec_count s = exec_count s'" by (simp add: exec_count_def fun_eq_iff assms(2))
  then show ?thesis unfolding inv_but_def turns_ok_def awake_def by (simp only: assms)
qed

lemma inv_pump:
  assumes "inv_but A G s"
  shows "inv_but (A - {a}) G (pump H a s)"
proof (rule inv_butI)
  note inv = inv_butD [OF assms]
  show "distinct (map fst (hs_agents (pump H a s)))" using inv(1) by simp
  show "entry_ok G b e" if "agent_at (pump H a s) b = Some e" for b e
    using that inv(2) [of b] ready_hosted
    by (auto simp: pump_entry entry_ok_def split: option.splits if_splits)
  show "turns_ok G (pump H a s) b" for b
  proof (cases "agent_at s b")
    case None
    then show ?thesis using inv(3) [of b] by (auto simp: turns_ok_def pump_entry exec_count_pump split: option.splits)
  next
    case (Some e)
    then have "\<exists>p cs. G b = Some (p # cs)" if "ready e"
      using inv(2) [OF Some] ready_hosted [OF that] by (auto simp: entry_ok_def neq_Nil_conv)
    with Some show ?thesis
      using inv(3) [of b] by (auto simp: turns_ok_def pump_entry exec_count_pump ready_def split: option.splits)
  qed
  show "awake (pump H a s) b" if "b \<notin> A - {a}" for b
  proof (cases "b = a")
    case True
    then show ?thesis by (auto simp: awake_def pump_entry ready_def split: option.splits)
  next
    case False
    then have "awake s b" using that inv(4) by simp
    moreover have "list_ex (wakes b) (hs_flights s) \<Longrightarrow> list_ex (wakes b) (hs_flights (pump H a s))"
      by (cases rule: pump_cases [of H a s]) auto
    ultimately show ?thesis using False by (auto simp: awake_def pump_entry split: option.splits)
  qed
qed

text \<open>Changing one entry in place.\<close>

lemma inv_modify:
  assumes "inv_but A G s"
    and same: "\<And>e. agent_at s a = Some e \<Longrightarrow>
      ag_chain (f e) = ag_chain e \<and> is_root_body (ag_body (f e)) = is_root_body (ag_body e) \<and> ag_running (f e) = ag_running e"
  shows "inv_but (insert a A) G (s \<lparr> hs_agents := modify a f (hs_agents s) \<rparr>)"
proof (rule inv_butI)
  let ?s = "s \<lparr> hs_agents := modify a f (hs_agents s) \<rparr>"
  note inv = inv_butD [OF assms(1)]
  show "distinct (map fst (hs_agents ?s))" using inv(1) by simp
  show "entry_ok G b e" if "agent_at ?s b = Some e" for b e
    using that inv(2) [of b] same by (cases "b = a") (fastforce simp: map_of_modify entry_ok_def)+
  show "turns_ok G ?s b" for b
    using inv(3) [of b] same by (auto simp: turns_ok_def exec_count_def map_of_modify split: option.splits)
  show "awake ?s b" if "b \<notin> insert a A" for b
    using that inv(4) [of b] by (simp add: awake_def map_of_modify)
qed

lemma inv_enqueue:
  assumes "inv_but A G s"
  shows "inv_but A G (snd (enqueue H to env s))"
proof (cases "agent_at s to")
  case None
  then show ?thesis using assms by (simp add: enqueue_def cong: inv_but_cong)
next
  case (Some e)
  show ?thesis
  proof (cases "ag_body e")
    case (Body_Root inbox)
    then show ?thesis
      using assms Some by (auto simp: enqueue_def cong: inv_but_cong split: option.splits)
  next
    case (Body_Hosted su history q)
    let ?f = "\<lambda>e. e \<lparr> ag_body := Body_Hosted su history (q @ [env]) \<rparr>"
    let ?s = "s \<lparr> hs_agents := modify to ?f (hs_agents s) \<rparr>"
    have "inv_but (insert to A) G ?s"
      using Some Body_Hosted by (intro inv_modify [OF assms]) simp
    from inv_pump [OF this, of to H] show ?thesis
      using Some Body_Hosted by (auto simp: enqueue_def intro: inv_but_mono)
  qed
qed

subsection \<open>Removal and lifecycle\<close>

lemma drop_subtree_frame [simp]:
  "hs_agents (drop_subtree H target i s) = filter (\<lambda>p. \<not> in_subtree target i p) (hs_agents s)"
  "hs_flights (drop_subtree H target i s) = hs_flights s"
  "hs_deliveries (drop_subtree H target i s) = hs_deliveries s"
  "hs_dropped (drop_subtree H target i s) = hs_dropped s"
  by (simp_all add: drop_subtree_def remove_subtree_def notify_dropped_def Let_def)

lemma inv_drop_subtree:
  assumes "inv_but A G s"
  shows "inv_but A G (drop_subtree H target i s)"
proof (rule inv_butI)
  let ?s = "drop_subtree H target i s"
  note inv = inv_butD [OF assms]
  have at: "agent_at ?s a = (case agent_at s a of Some e \<Rightarrow> if in_subtree target i (a, e) then None else Some e | None \<Rightarrow> None)" for a
    using inv(1) by (simp add: map_of_filter_keys split: option.splits)
  have ex: "exec_count ?s a = exec_count s a" for a by (simp add: exec_count_def)
  show "distinct (map fst (hs_agents ?s))" using inv(1) by auto
  show "entry_ok G a e" if "agent_at ?s a = Some e" for a e
    using that inv(2) [of a] unfolding at by (auto split: option.splits if_splits)
  show "turns_ok G ?s a" for a
    using inv(3) [of a] unfolding turns_ok_def at ex by (auto simp: of_bool_def split: option.splits if_splits)
  show "awake ?s a" if "a \<notin> A" for a
    using inv(4) [OF that] unfolding awake_def at by (auto split: option.splits if_splits)
qed

lemma answers_of_dropped:
  "map fst (concat (map (\<lambda>(a, env). map (\<lambda>w. (w, cancelled a)) (waiters [env])) d))
   = concat (map (\<lambda>(a, env). waiters [env]) d)"
  by (induction d) (auto simp: comp_def)

lemma waiters_pairs: "concat (map (\<lambda>(a, env). waiters [env]) (map (Pair a) q)) = waiters q"
  by (induction q) auto

lemma waiters_dropped:
  "concat (map (\<lambda>(a, env). waiters [env]) (concat (map (\<lambda>(a, e). map (Pair a) (queue_of e)) m)))
   = concat (map (\<lambda>(a, e). waiters (queue_of e)) m)"
proof (induction m)
  case (Cons p m)
  then show ?case by (cases p) (simp add: waiters_pairs del: waiters_simps map_map)
qed simp

lemma mset_concat_sum: "mset (concat (map f m)) = sum_list (map (\<lambda>x. mset (f x)) m)"
  by (induction m) simp_all

lemma waiter_bag_drop_subtree: "waiter_bag (drop_subtree H target i s) = waiter_bag s"
proof -
  let ?P = "in_subtree target i"
  let ?gone = "filter ?P (hs_agents s)"
  let ?dropped = "concat (map (\<lambda>(a, e). map (Pair a) (queue_of e)) ?gone)"
  have "map fst (hs_answers (drop_subtree H target i s)) =
      map fst (hs_answers s) @ concat (map (\<lambda>(a, e). waiters (queue_of e)) ?gone)"
    by (simp add: drop_subtree_def remove_subtree_def notify_dropped_def Let_def answers_of_dropped waiters_dropped
        del: waiters_simps)
  then have "mset (map fst (hs_answers (drop_subtree H target i s))) =
      mset (map fst (hs_answers s)) + queued_waiters ?gone"
    by (simp add: queued_waiters_def mset_concat_sum case_prod_unfold del: drop_subtree_frame)
  moreover have "queued_waiters (hs_agents s) = queued_waiters ?gone + queued_waiters (filter (\<lambda>p. \<not> ?P p) (hs_agents s))"
    unfolding queued_waiters_def by (rule sum_filter_split)
  ultimately show ?thesis by (simp add: waiter_bag_def)
qed

lemma inv_set_paused:
  assumes "inv_but A G s"
  shows "inv_but (if paused then A else UNIV) G (set_paused target paused s)"
proof (rule inv_butI)
  let ?s = "set_paused target paused s"
  note inv = inv_butD [OF assms]
  have at: "agent_at ?s a = map_option (\<lambda>e. if in_subtree target True (a, e) then e \<lparr> ag_paused := paused \<rparr> else e) (agent_at s a)" for a
    using map_of_map_entries [of "\<lambda>a e. if in_subtree target True (a, e) then e \<lparr> ag_paused := paused \<rparr> else e" "hs_agents s" a]
    by (simp add: set_paused_def)
  have fl: "hs_flights ?s = hs_flights s" by (simp add: set_paused_def)
  then have ex: "exec_count ?s a = exec_count s a" for a by (simp add: exec_count_def)
  show "distinct (map fst (hs_agents ?s))" using inv(1) by (simp add: set_paused_def comp_def case_prod_beta)
  show "entry_ok G a e" if "agent_at ?s a = Some e" for a e
    using that inv(2) [of a] unfolding at by (auto simp: entry_ok_def split: if_splits)
  show "turns_ok G ?s a" for a
    using inv(3) [of a] by (auto simp: turns_ok_def at ex split: option.splits)
  show "awake ?s a" if "a \<notin> (if paused then A else UNIV)" for a
    using that inv(4) [of a] by (auto simp: awake_def at fl ready_def queue_of_def split: if_splits)
qed

lemma waiter_bag_set_paused: "waiter_bag (set_paused target paused s) = waiter_bag s"
proof -
  have "queued_waiters (hs_agents (set_paused target paused s)) = queued_waiters (hs_agents s)"
    unfolding queued_waiters_def set_paused_def
    by (intro arg_cong [where f = sum_list]) (auto simp: queue_of_def)
  then show ?thesis by (simp add: waiter_bag_def set_paused_def)
qed

lemma inv_pump_all:
  assumes "inv_but A G s"
  shows "inv_but {} G (pump_all H s)"
proof -
  have "inv_but (A - set as) G (fold (pump H) as s) \<and> map fst (hs_agents (fold (pump H) as s)) = map fst (hs_agents s)" for as
    using assms
  proof (induction as arbitrary: A s)
    case (Cons a as)
    have "A - set (a # as) = A - {a} - set as" by auto
    with Cons.IH [OF inv_pump [OF Cons.prems, of a H]] show ?case by simp
  qed simp
  note all = this [of "map fst (hs_agents s)", folded pump_all_def]
  note inv = all [THEN conjunct1] and keys = all [THEN conjunct2]
  have "awake (pump_all H s) a" for a
  proof (cases "a \<in> set (map fst (hs_agents s))")
    case True
    then show ?thesis using inv_butD(4) [OF inv] by blast
  next
    case False
    then have "agent_at (pump_all H s) a = None" using keys by (metis map_of_eq_None_iff set_map)
    then show ?thesis by (simp add: awake_def)
  qed
  with inv show ?thesis by (simp add: inv_but_def)
qed

lemma waiter_bag_pump_all:
  assumes "distinct (map fst (hs_agents s))"
  shows "waiter_bag (pump_all H s) = waiter_bag s"
proof -
  have "waiter_bag (fold (pump H) as s) = waiter_bag s" for as
    using assms by (induction as arbitrary: s) (simp_all add: waiter_bag_pump)
  then show ?thesis by (simp add: pump_all_def)
qed

lemma modify_weight:
  assumes "\<And>e. w (a, f e) = w (a, e)"
  shows "map w (modify a f m) = map w m"
  using assms by (auto simp: modify_def)

lemma clear_history_root [simp]: "is_root_body (clear_history b) = is_root_body b"
  by (cases b) simp_all

lemma clear_history_queue [simp]: "queue_of (e \<lparr> ag_paused := p, ag_stop := st, ag_body := clear_history (ag_body e) \<rparr>) = queue_of e"
  by (cases "ag_body e") (simp_all add: queue_of_def)

lemma restart_form:
  obtains "restart H target e s = drop_subtree H target False s"
  | st tokens where "restart H target e s = (drop_subtree H target False s)
      \<lparr> hs_tokens := tokens,
        hs_agents := modify target (\<lambda>e. e \<lparr> ag_paused := False, ag_stop := st, ag_body := clear_history (ag_body e) \<rparr>)
          (hs_agents (drop_subtree H target False s)) \<rparr>"
proof (cases "agent_at (drop_subtree H target False s) target")
  case None
  then show ?thesis by (intro that(1)) (simp add: restart_def Let_def del: drop_subtree_frame)
next
  case (Some e1)
  let ?stop = "case map_option ag_stop (Option.bind (ag_parent e) (agent_at s)) of
      None \<Rightarrow> tl_new (hl_tokens H) | Some p \<Rightarrow> tl_child (hl_tokens H) p"
  obtain st tokens where "?stop (tl_cancel (hl_tokens H) (ag_stop e1) (hs_tokens (drop_subtree H target False s))) = (st, tokens)"
    by fastforce
  with Some show ?thesis
    by (intro that(2) [of st tokens])
      (simp add: restart_def Let_def del: drop_subtree_frame split: option.splits)
qed

lemma inv_restart:
  assumes "inv_but A G s"
  shows "inv_but UNIV G (restart H target e s)"
proof (cases rule: restart_form [of H target e s])
  case 1
  then show ?thesis using inv_drop_subtree [OF assms] by (auto intro: inv_but_mono)
next
  case (2 st tokens)
  let ?f = "\<lambda>e. e \<lparr> ag_paused := False, ag_stop := st, ag_body := clear_history (ag_body e) \<rparr>"
  have "inv_but (insert target A) G
      (drop_subtree H target False s \<lparr> hs_agents := modify target ?f (hs_agents (drop_subtree H target False s)) \<rparr>)"
    by (rule inv_modify [OF inv_drop_subtree [OF assms]]) simp
  then have "inv_but UNIV G
      (drop_subtree H target False s \<lparr> hs_agents := modify target ?f (hs_agents (drop_subtree H target False s)) \<rparr>)"
    by (rule inv_but_mono) simp
  moreover have "inv_but UNIV G (restart H target e s) = inv_but UNIV G
      (drop_subtree H target False s \<lparr> hs_agents := modify target ?f (hs_agents (drop_subtree H target False s)) \<rparr>)"
    by (rule inv_but_cong) (simp_all add: 2)
  ultimately show ?thesis by simp
qed

lemma waiter_bag_restart: "waiter_bag (restart H target e s) = waiter_bag s"
proof (cases rule: restart_form [of H target e s])
  case 1
  then show ?thesis by (simp add: waiter_bag_drop_subtree)
next
  case (2 st tokens)
  have "waiter_bag (restart H target e s) = waiter_bag (drop_subtree H target False s)"
    unfolding 2 waiter_bag_def queued_waiters_def by (simp add: modify_weight)
  then show ?thesis by (simp add: waiter_bag_drop_subtree)
qed

lemma inv_lifecycle:
  assumes "inv_but {} G s"
  shows "inv_but {} G (snd (lifecycle H target action s))"
proof (cases "agent_at s target")
  case (Some e)
  show ?thesis
    using assms inv_set_paused [OF assms, of True target] inv_pump_all [OF inv_set_paused [OF assms, of False target]]
      inv_drop_subtree [OF assms] inv_pump_all [OF inv_restart [OF assms]] Some
    by (cases "ag_body e"; cases action) (simp_all add: lifecycle_def)
qed (use assms in \<open>simp add: lifecycle_def\<close>)

lemma waiter_bag_lifecycle:
  assumes "inv_but {} G s"
  shows "waiter_bag (snd (lifecycle H target action s)) = waiter_bag s"
proof (cases "agent_at s target")
  case (Some e)
  note d = inv_butD(1)
  show ?thesis
    using Some d [OF inv_set_paused [OF assms, of False target]] d [OF inv_restart [OF assms]]
    by (cases "ag_body e"; cases action)
      (simp_all add: lifecycle_def waiter_bag_set_paused waiter_bag_pump_all waiter_bag_drop_subtree waiter_bag_restart)
qed (simp add: lifecycle_def)

subsection \<open>Messages and turns\<close>

lemma waiter_bag_enqueue:
  assumes "distinct (map fst (hs_agents s))"
  shows "waiter_bag (snd (enqueue H to env s)) = waiter_bag s + mset (waiters [env])"
proof (cases "agent_at s to")
  case None
  then show ?thesis by (simp add: enqueue_def waiter_bag_def del: waiters_simps(2))
next
  case (Some e)
  show ?thesis
  proof (cases "ag_body e")
    case (Body_Root inbox)
    then show ?thesis
      using Some by (cases "en_from env") (simp_all add: enqueue_def waiter_bag_def del: waiters_simps(2))
  next
    case (Body_Hosted su history q)
    let ?f = "\<lambda>e. e \<lparr> ag_body := Body_Hosted su history (q @ [env]) \<rparr>"
    let ?s = "s \<lparr> hs_agents := modify to ?f (hs_agents s) \<rparr>"
    have "queued_waiters (modify to ?f (hs_agents s)) + mset (waiters q)
        = queued_waiters (hs_agents s) + mset (waiters (q @ [env]))"
      using sum_modify [OF assms Some, of "\<lambda>(a, e). mset (waiters (queue_of e))" ?f] Body_Hosted
      by (simp add: queued_waiters_def queue_of_def)
    then have "waiter_bag ?s = waiter_bag s + mset (waiters [env])"
      by (simp add: waiter_bag_def add.assoc [symmetric] del: waiters_simps(2))
    moreover have "snd (enqueue H to env s) = pump H to ?s" using Some Body_Hosted by (simp add: enqueue_def)
    ultimately show ?thesis using assms by (simp add: waiter_bag_pump)
  qed
qed

lemma exec_count_flights:
  "hs_flights s = fs @ f # gs \<Longrightarrow> exec_count s a = of_bool (executes a f) + length (filter (executes a) (fs @ gs))"
  by (simp add: exec_count_def)

lemma set_history_root [simp]: "is_root_body (set_history m b) = is_root_body b"
  by (cases m; cases b) simp_all

lemma set_history_queue [simp]:
  "queue_of (e \<lparr> ag_running := r, ag_turns := n, ag_last_reply := l, ag_body := set_history m (ag_body e) \<rparr>) = queue_of e"
  by (cases m; cases "ag_body e") (simp_all add: queue_of_def)

lemma turn_ended_form:
  assumes "turn_ended a env result messages s = (r, s1)"
  shows "\<exists>f. s1 = s \<lparr> hs_agents := modify a f (hs_agents s) \<rparr>
    \<and> (\<forall>e. ag_chain (f e) = ag_chain e \<and> is_root_body (ag_body (f e)) = is_root_body (ag_body e)
         \<and> ag_running (f e) = False \<and> queue_of (f e) = queue_of e \<and> ag_paused (f e) = ag_paused e)"
proof (cases "agent_at s a")
  case None
  with assms modify_none [OF None] show ?thesis
    by (intro exI [of _ "\<lambda>e. e \<lparr> ag_running := False \<rparr>"]) (simp add: turn_ended_def queue_of_def)
next
  case (Some e)
  with assms show ?thesis by (fastforce simp: turn_ended_def)
qed

lemma inv_ends:
  assumes inv: "inv_but {} G s" and fl: "hs_flights s = fs @ Executing a t # gs"
    and ended: "turn_ended a env result messages (s \<lparr> hs_store := st \<rparr>) = (r, s1)"
  shows "inv_but {} G (s1 \<lparr> hs_flights := fs @ Replying a w r result # gs \<rparr>)"
proof (rule inv_butI)
  let ?s = "s1 \<lparr> hs_flights := fs @ Replying a w r result # gs \<rparr>"
  note i = inv_butD [OF inv]
  from turn_ended_form [OF ended] obtain f where f: "hs_agents s1 = modify a f (hs_agents s)"
    "\<And>e. ag_chain (f e) = ag_chain e" "\<And>e. is_root_body (ag_body (f e)) = is_root_body (ag_body e)"
    "\<And>e. \<not> ag_running (f e)" "\<And>e. queue_of (f e) = queue_of e" "\<And>e. ag_paused (f e) = ag_paused e"
    by auto
  have ex: "exec_count s b = of_bool (b = a) + exec_count ?s b" for b
    by (simp add: exec_count_def fl)
  show "distinct (map fst (hs_agents ?s))" using i(1) f(1) by simp
  show "entry_ok G b e" if "agent_at ?s b = Some e" for b e
    using that i(2) [of b] f(2-4) by (auto simp: f(1) map_of_modify entry_ok_def split: if_splits)
  show "turns_ok G ?s b" for b
  proof (cases "agent_at s b")
    case None
    with i(3) [of b] ex [of b] show ?thesis by (auto simp: turns_ok_def f(1) map_of_modify)
  next
    case (Some e)
    with i(3) [of b] ex [of b] f(4) show ?thesis by (cases "b = a") (auto simp: turns_ok_def f(1) map_of_modify of_bool_def split: if_splits)
  qed
  show "awake ?s b" for b
    using i(4) [of b] by (cases "b = a") (auto simp: awake_def f(1) map_of_modify fl)
qed

lemma waiter_bag_ends:
  assumes fl: "hs_flights s = fs @ Executing a t # gs"
    and ended: "turn_ended a (tn_envelope t) result messages (s \<lparr> hs_store := st \<rparr>) = (r, s1)"
  shows "waiter_bag (s1 \<lparr> hs_flights := fs @ Replying a (en_waiter (tn_envelope t)) r result # gs \<rparr>) = waiter_bag s"
proof -
  from turn_ended_form [OF ended] obtain f where f: "s1 = s \<lparr> hs_store := st, hs_agents := modify a f (hs_agents s) \<rparr>"
    "\<And>e. queue_of (f e) = queue_of e" by auto
  then have "queued_waiters (hs_agents s1) = queued_waiters (hs_agents s)"
    by (simp add: queued_waiters_def modify_weight)
  then show ?thesis by (simp add: waiter_bag_def f(1) fl split: option.splits)
qed

lemma inv_flights:
  assumes "inv_but A G s" "\<And>b. length (filter (executes b) fs) = exec_count s b"
    "\<And>b. b \<notin> B \<Longrightarrow> list_ex (wakes b) (hs_flights s) \<Longrightarrow> list_ex (wakes b) fs"
  shows "inv_but (A \<union> B) G (s \<lparr> hs_flights := fs \<rparr>)"
proof -
  have "exec_count (s \<lparr> hs_flights := fs \<rparr>) = exec_count s"
    using assms(2) by (simp add: exec_count_def fun_eq_iff)
  then have "turns_ok G (s \<lparr> hs_flights := fs \<rparr>) b = turns_ok G s b" for b
    unfolding turns_ok_def by (simp cong: option.case_cong)
  with assms(1,3) show ?thesis by (auto simp: inv_but_def awake_def)
qed

lemma inv_replies:
  assumes inv: "inv_but {} G s" and fl: "hs_flights s = fs @ Replying a w r result # gs"
  shows "inv_but {} G (turn_reply H a w r result (s \<lparr> hs_flights := fs @ Retiring a # gs \<rparr>))"
proof -
  let ?s = "s \<lparr> hs_flights := fs @ Retiring a # gs \<rparr>"
  have "inv_but {} G ?s"
    using inv_flights [OF inv, of "fs @ Retiring a # gs" "{}"] by (simp add: exec_count_def fl)
  moreover have "inv_but {} G (?s \<lparr> hs_answers := as \<rparr>) = inv_but {} G ?s" for as by (rule inv_but_cong) simp_all
  ultimately show ?thesis
    by (auto simp: turn_reply_def deliver_message_def inv_enqueue split: option.splits)
qed

lemma waiter_bag_replies:
  assumes "distinct (map fst (hs_agents s))" and fl: "hs_flights s = fs @ Replying a w r result # gs"
  shows "waiter_bag (turn_reply H a w r result (s \<lparr> hs_flights := fs @ Retiring a # gs \<rparr>)) = waiter_bag s"
proof -
  let ?s = "s \<lparr> hs_flights := fs @ Retiring a # gs \<rparr>"
  have "waiters [make_envelope ?s fr kind tx None None] = []" for fr kind tx
    by (simp add: make_envelope_def)
  then have "waiter_bag (snd (deliver_message H fr to kind tx ?s)) = waiter_bag ?s" for fr to kind tx
    using waiter_bag_enqueue [of ?s] assms(1) by (simp add: deliver_message_def del: waiters_simps)
  moreover have "waiter_bag s = waiter_bag ?s + mset (case w of None \<Rightarrow> [] | Some n \<Rightarrow> [n])"
    by (simp add: waiter_bag_def fl)
  ultimately show ?thesis
    by (cases w; cases r) (simp_all add: turn_reply_def waiter_bag_def)
qed

lemma inv_retires:
  assumes inv: "inv_but {} G s" and fl: "hs_flights s = fs @ Retiring a # gs"
  shows "inv_but {} G (turn_retire H a (s \<lparr> hs_flights := fs @ gs \<rparr>))"
proof -
  let ?s = "s \<lparr> hs_flights := fs @ gs \<rparr>"
  note i = inv_butD [OF inv]
  have s: "inv_but {a} G ?s"
    using inv_flights [OF inv, of "fs @ gs" "{a}"] by (simp add: exec_count_def fl)
  have gone: "agent_at (drop_subtree H a True ?s) a = None"
    using i(1) by (auto simp: map_of_filter_keys in_subtree_def split: option.splits)
  have "inv_but {} G (drop_subtree H a True ?s)"
    by (rule inv_but_awake [OF inv_drop_subtree [OF s]]) (simp add: awake_def gone del: drop_subtree_frame)
  with inv_pump [OF s, of a H] show ?thesis
    by (simp add: turn_retire_def retire_if_done_def split: if_splits)
qed

lemma waiter_bag_retires:
  assumes "distinct (map fst (hs_agents s))" and fl: "hs_flights s = fs @ Retiring a # gs"
  shows "waiter_bag (turn_retire H a (s \<lparr> hs_flights := fs @ gs \<rparr>)) = waiter_bag s"
proof -
  have "waiter_bag (s \<lparr> hs_flights := fs @ gs \<rparr>) = waiter_bag s" by (simp add: waiter_bag_def fl)
  with assms(1) show ?thesis
    by (simp add: turn_retire_def retire_if_done_def waiter_bag_drop_subtree waiter_bag_pump split: if_splits)
qed

subsection \<open>New agents\<close>

lemma map_of_update: "map_of (AList.update k v m) j = (if j = k then Some v else map_of m j)"
  by (simp add: update_conv')

lemma inv_new_entry:
  assumes inv: "inv_but {} G s" and fl: "hs_flights s' = hs_flights s" and ag: "hs_agents s' = AList.update a e (hs_agents s)"
    and e: "entry_ok (G(a \<mapsto> chain)) a e" "\<not> ag_running e" "queue_of e = []"
    and G: "G a \<in> {None, Some []}" "chain = [] \<or> G a = None"
  shows "inv_but {} (G(a \<mapsto> chain)) s'"
proof (rule inv_butI)
  note i = inv_butD [OF inv]
  have ex: "exec_count s' b = exec_count s b" for b by (simp add: exec_count_def fl)
  have none: "exec_count s a = 0" using i(3) [of a] G(1) by (auto simp: turns_ok_def)
  show "distinct (map fst (hs_agents s'))" using i(1) by (simp add: ag distinct_update)
  show "entry_ok (G(a \<mapsto> chain)) b d" if "agent_at s' b = Some d" for b d
    using that e(1) i(2) [of b d] by (auto simp: ag map_of_update entry_ok_def split: if_splits)
  show "turns_ok (G(a \<mapsto> chain)) s' b" for b
    using i(3) [of b] none e(2) by (auto simp: turns_ok_def ex ag map_of_update split: option.splits if_splits)
  show "awake s' b" for b
    using i(4) [of b] e(3) by (auto simp: awake_def fl ag map_of_update ready_def split: if_splits)
qed

lemma inv_register_root:
  assumes "inv_but {} G s" "G (ra_agent_id root) \<in> {None, Some []}"
  shows "inv_but {} (G(ra_agent_id root \<mapsto> [])) (register_root H root s)"
  using assms
  by (intro inv_new_entry [where a = "ra_agent_id root"])
    (auto simp: register_root_def Let_def entry_ok_def queue_of_def case_prod_beta split: option.splits)

lemma inv_insert_child:
  assumes "inv_but {} G s" "G (cp_child_id plan) = None"
  shows "inv_but {} (G(cp_child_id plan \<mapsto> cp_parent plan # ps_chain parent)) (insert_child H plan parent user s)"
  using assms
  by (intro inv_new_entry [where a = "cp_child_id plan"])
    (auto simp: insert_child_def Let_def entry_ok_def queue_of_def case_prod_beta)

lemma queued_waiters_update:
  assumes "distinct (map fst m)"
  shows "queued_waiters (AList.update k v m) + (case map_of m k of Some e \<Rightarrow> mset (waiters (queue_of e)) | None \<Rightarrow> {#})
    = queued_waiters m + mset (waiters (queue_of v))"
  using assms
proof (induction m)
  case (Cons p m)
  obtain j u where p: "p = (j, u)" by (cases p)
  show ?case using Cons by (auto simp: p queued_waiters_def algebra_simps split: option.splits)
qed (simp add: queued_waiters_def)

lemma waiter_bag_new_entry:
  assumes "distinct (map fst (hs_agents s))" "hs_agents s' = AList.update a e (hs_agents s)" "queue_of e = []"
    "hs_dropped s' = hs_dropped s @ (case agent_at s a of Some e \<Rightarrow> waiters (queue_of e) | None \<Rightarrow> [])"
    "hs_flights s' = hs_flights s" "hs_answers s' = hs_answers s"
  shows "waiter_bag s' = waiter_bag s"
proof -
  have "queued_waiters (hs_agents s') + mset (case agent_at s a of Some e \<Rightarrow> waiters (queue_of e) | None \<Rightarrow> [])
      = queued_waiters (hs_agents s)"
    using queued_waiters_update [OF assms(1), of a e] by (simp add: assms(2,3) split: option.splits)
  then show ?thesis by (simp add: waiter_bag_def assms(4-6) add_ac)
qed

lemma waiter_bag_register_root:
  "distinct (map fst (hs_agents s)) \<Longrightarrow> waiter_bag (register_root H root s) = waiter_bag s"
  by (rule waiter_bag_new_entry [where a = "ra_agent_id root"])
    (auto simp: register_root_def Let_def queue_of_def case_prod_beta)

lemma waiter_bag_insert_child:
  "distinct (map fst (hs_agents s)) \<Longrightarrow> waiter_bag (insert_child H plan parent user s) = waiter_bag s"
  by (rule waiter_bag_new_entry [where a = "cp_child_id plan"])
    (auto simp: insert_child_def Let_def queue_of_def case_prod_beta)

section \<open>The host as a transition system\<close>

text \<open>
  What the host does on its own: a turn that has been executed ends, its result is sent, the agent is
  retired or woken up, and a delivery to a root finishes.
\<close>

inductive internal_step ::
  "('db, 'x, 't, 'c) host_libs \<Rightarrow> ('db, 'x, 't, 'n, 'c) host_state \<Rightarrow> ('db, 'x, 't, 'n, 'c) host_state \<Rightarrow> bool" for H where
  Ends: "internal_step H s (s1 \<lparr> hs_flights := fs @ Replying a (en_waiter (tn_envelope t)) r result # gs \<rparr>)"
    if "hs_flights s = fs @ Executing a t # gs" "execute H now a t race (hs_store s) = ((result, messages), st)"
      "turn_ended a (tn_envelope t) result messages (s \<lparr> hs_store := st \<rparr>) = (r, s1)"
| Replies: "internal_step H s (turn_reply H a w r result (s \<lparr> hs_flights := fs @ Retiring a # gs \<rparr>))"
    if "hs_flights s = fs @ Replying a w r result # gs"
| Retires: "internal_step H s (turn_retire H a (s \<lparr> hs_flights := fs @ gs \<rparr>))"
    if "hs_flights s = fs @ Retiring a # gs"
| Delivers: "internal_step H s (s \<lparr> hs_deliveries := ds @ es, hs_store := finish_delivery H others now delivers inbox m (hs_store s) \<rparr>)"
    if "hs_deliveries s = ds @ (inbox, m) # es"

text \<open>
  A configuration remembers, besides the host, the genealogy of the identifiers, the snapshots of
  parents taken for spawns that are under way, and the waiters that were handed out.
\<close>

record ('db, 'x, 't, 'n, 'c) config =
  cf_host :: "('db, 'x, 't, 'n, 'c) host_state"
  cf_genealogy :: genealogy
  cf_snapshots :: "(agent_id \<times> ('x, 't) parent_snapshot) list"
  cf_issued :: "nat list"

text \<open>
  Every interleaving of critical sections.  Roots keep their identifiers; a child gets an identifier
  that was never used.  A child may be inserted long after the snapshot of its parent was taken, when
  the parent is gone or has changed.
\<close>

inductive host_step ::
  "('db, 'x, 't, 'c) host_libs \<Rightarrow> ('db, 'x, 't, 'n, 'c) config \<Rightarrow> ('db, 'x, 't, 'n, 'c) config \<Rightarrow> bool" for H where
  Internal: "host_step H c (c \<lparr> cf_host := s \<rparr>)" if "internal_step H (cf_host c) s"
| Enqueue: "host_step H c (c \<lparr> cf_host := snd (enqueue H to env (cf_host c)), cf_issued := cf_issued c @ waiters [env] \<rparr>)"
    if "set (waiters [env]) \<inter> set (cf_issued c) = {}"
| Lifecycle: "host_step H c (c \<lparr> cf_host := snd (lifecycle H target action (cf_host c)) \<rparr>)"
| Remove: "host_step H c (c \<lparr> cf_host := remove_root H root (cf_host c) \<rparr>)"
| Register: "host_step H c (c \<lparr> cf_host := register_root H root (cf_host c),
      cf_genealogy := (cf_genealogy c)(ra_agent_id root \<mapsto> []) \<rparr>)"
    if "cf_genealogy c (ra_agent_id root) \<in> {None, Some []}"
| Snapshot: "host_step H c (c \<lparr> cf_snapshots := (p, sn) # cf_snapshots c \<rparr>)" if "snapshot_of (cf_host c) p = Some sn"
| Record: "host_step H c (c \<lparr> cf_host := cf_host c \<lparr> hs_store := st \<rparr> \<rparr>)"
| Insert: "host_step H c (c \<lparr> cf_host := insert_child H plan sn user (cf_host c),
      cf_genealogy := (cf_genealogy c)(cp_child_id plan \<mapsto> cp_parent plan # ps_chain sn) \<rparr>)"
    if "(cp_parent plan, sn) \<in> set (cf_snapshots c)" "cf_genealogy c (cp_child_id plan) = None"
      "length (ps_chain sn) + 2 \<le> unat (ahc_max_depth (hl_config H))"

definition initial :: "('db, 'x, 't, 'n, 'c) config \<Rightarrow> bool" where
  "initial c =
    (hs_agents (cf_host c) = [] \<and> hs_flights (cf_host c) = [] \<and> hs_deliveries (cf_host c) = []
     \<and> hs_answers (cf_host c) = [] \<and> hs_dropped (cf_host c) = [] \<and> cf_genealogy c = Map.empty
     \<and> cf_snapshots c = [] \<and> cf_issued c = [])"

inductive reachable :: "('db, 'x, 't, 'c) host_libs \<Rightarrow> ('db, 'x, 't, 'n, 'c) config \<Rightarrow> bool" for H where
  Start: "reachable H c" if "initial c"
| Step: "reachable H c'" if "reachable H c" "host_step H c c'"

inductive_cases internal_stepE: "internal_step H s s'"
inductive_cases host_stepE: "host_step H c c'"

section \<open>The invariant of the host\<close>

definition genealogy_ok :: "nat \<Rightarrow> genealogy \<Rightarrow> bool" where
  "genealogy_ok D G =
    ((\<forall>a p cs. G a = Some (p # cs) \<longrightarrow> G p = Some cs \<and> length cs + 2 \<le> D))"

lemma genealogy_extend:
  assumes "genealogy_ok D G" "\<And>p cs. G p = Some cs \<Longrightarrow> (G(a \<mapsto> chain)) p = Some cs"
    "\<And>p cs. chain = p # cs \<Longrightarrow> G p = Some cs \<and> length cs + 2 \<le> D"
  shows "genealogy_ok D (G(a \<mapsto> chain))"
  unfolding genealogy_ok_def
proof (intro allI impI)
  fix b p cs assume b: "(G(a \<mapsto> chain)) b = Some (p # cs)"
  have "G p = Some cs \<and> length cs + 2 \<le> D"
  proof (cases "b = a")
    case True
    with b assms(3) [of p cs] show ?thesis by simp
  next
    case False
    with b have "G b = Some (p # cs)" by simp
    with assms(1) show ?thesis unfolding genealogy_ok_def by blast
  qed
  with assms(2) show "(G(a \<mapsto> chain)) p = Some cs \<and> length cs + 2 \<le> D" by blast
qed

definition host_inv :: "('db, 'x, 't, 'c) host_libs \<Rightarrow> ('db, 'x, 't, 'n, 'c) config \<Rightarrow> bool" where
  "host_inv H c =
    (inv_but {} (cf_genealogy c) (cf_host c)
     \<and> genealogy_ok (unat (ahc_max_depth (hl_config H))) (cf_genealogy c)
     \<and> (\<forall>(p, sn) \<in> set (cf_snapshots c). cf_genealogy c p = Some (ps_chain sn))
     \<and> waiter_bag (cf_host c) = mset (cf_issued c) \<and> distinct (cf_issued c))"

lemma inv_internal_step:
  assumes "internal_step H s s'" "inv_but {} G s"
  shows "inv_but {} G s' \<and> waiter_bag s' = waiter_bag s"
  using assms(1)
proof cases
  case (Ends s1 fs a t r result gs now race messages st)
  then show ?thesis using inv_ends [OF assms(2) Ends(2,4)] waiter_bag_ends [OF Ends(2,4)] by simp
next
  case (Replies a w r result fs gs)
  then show ?thesis
    using inv_replies [OF assms(2) Replies(2)] waiter_bag_replies [OF inv_butD(1) [OF assms(2)] Replies(2)] by simp
next
  case (Retires a fs gs)
  then show ?thesis
    using inv_retires [OF assms(2) Retires(2)] waiter_bag_retires [OF inv_butD(1) [OF assms(2)] Retires(2)] by simp
next
  case (Delivers ds es others now delivers inbox m)
  have "inv_but {} G s' = inv_but {} G s" by (rule inv_but_cong) (simp_all add: Delivers)
  with assms(2) Delivers(1) show ?thesis by (simp add: waiter_bag_def)
qed

lemma host_inv_step:
  assumes "host_step H c c'" "host_inv H c"
  shows "host_inv H c'"
proof -
  from assms(2) have inv: "inv_but {} (cf_genealogy c) (cf_host c)"
    and gen: "genealogy_ok (unat (ahc_max_depth (hl_config H))) (cf_genealogy c)"
    and snaps: "\<forall>(p, sn) \<in> set (cf_snapshots c). cf_genealogy c p = Some (ps_chain sn)"
    and bag: "waiter_bag (cf_host c) = mset (cf_issued c)" and dist: "distinct (cf_issued c)"
    by (auto simp: host_inv_def)
  note d = inv_butD(1) [OF inv]
  from assms(1) show ?thesis
  proof cases
    case (Internal s)
    then show ?thesis using assms(2) inv_internal_step [OF Internal(2) inv] by (simp add: host_inv_def)
  next
    case (Enqueue env to)
    have "distinct (waiters [env])" by (simp split: option.splits)
    then show ?thesis
      using assms(2) Enqueue inv_enqueue [OF inv] waiter_bag_enqueue [OF d] by (auto simp: host_inv_def simp del: waiters_simps(2))
  next
    case (Lifecycle target action)
    then show ?thesis using assms(2) inv_lifecycle [OF inv] waiter_bag_lifecycle [OF inv] by (simp add: host_inv_def)
  next
    case (Remove root)
    then show ?thesis
      using assms(2) inv_drop_subtree [OF inv] by (simp add: host_inv_def remove_root_def waiter_bag_drop_subtree)
  next
    case (Register root)
    then have keep: "cf_genealogy c p = Some cs \<Longrightarrow> ((cf_genealogy c)(ra_agent_id root \<mapsto> [])) p = Some cs" for p cs
      by auto
    have "genealogy_ok (unat (ahc_max_depth (hl_config H))) ((cf_genealogy c)(ra_agent_id root \<mapsto> []))"
      by (rule genealogy_extend [OF gen]) (use keep in auto)
    moreover have "\<forall>(p, sn) \<in> set (cf_snapshots c'). cf_genealogy c' p = Some (ps_chain sn)"
      using snaps keep by (auto simp: Register(1))
    ultimately show ?thesis
      using bag dist inv_register_root [OF inv Register(2)] by (simp add: Register(1) host_inv_def waiter_bag_register_root [OF d])
  next
    case (Snapshot p sn)
    then obtain e where e: "agent_at (cf_host c) p = Some e" "ps_chain sn = ag_chain e" by (auto simp: snapshot_of_def)
    with inv_butD(2) [OF inv e(1)] show ?thesis
      using assms(2) Snapshot(1) by (auto simp: host_inv_def entry_ok_def)
  next
    case (Record st)
    have "inv_but {} (cf_genealogy c) (cf_host c \<lparr> hs_store := st \<rparr>) = inv_but {} (cf_genealogy c) (cf_host c)"
      by (rule inv_but_cong) simp_all
    with assms(2) Record show ?thesis by (simp add: host_inv_def waiter_bag_def)
  next
    case (Insert plan sn user)
    have parent: "cf_genealogy c (cp_parent plan) = Some (ps_chain sn)" using snaps Insert(2) by auto
    have keep: "cf_genealogy c p = Some cs \<Longrightarrow> cf_genealogy c' p = Some cs" for p cs
      using Insert(3) by (auto simp: Insert(1))
    have "genealogy_ok (unat (ahc_max_depth (hl_config H)))
        ((cf_genealogy c)(cp_child_id plan \<mapsto> cp_parent plan # ps_chain sn))"
      by (rule genealogy_extend [OF gen]) (use keep parent Insert(4) in \<open>auto simp: Insert(1)\<close>)
    moreover have "\<forall>(p, sn) \<in> set (cf_snapshots c'). cf_genealogy c' p = Some (ps_chain sn)"
      using snaps keep by (auto simp: Insert(1))
    ultimately show ?thesis
      using bag dist inv_insert_child [OF inv Insert(3), of sn H user]
      by (simp add: Insert(1) host_inv_def waiter_bag_insert_child [OF d])
  qed
qed

lemma host_inv_reachable: "reachable H c \<Longrightarrow> host_inv H c"
proof (induction rule: reachable.induct)
  case (Start c)
  then show ?case
    by (auto simp: initial_def host_inv_def inv_but_def turns_ok_def awake_def genealogy_ok_def waiter_bag_def
        queued_waiters_def exec_count_def)
next
  case (Step c c')
  then show ?case by (blast intro: host_inv_step)
qed

end
