(* ===== verification/Host_Progress.thy ===== *)
theory Host_Progress
  imports Host_Laws
begin

text \<open>
  What the invariants of the agent host give: a bound on the work the host can do on its own, the
  answers its callers get, and what the operations of the tools may touch.
\<close>

section \<open>Work\<close>

text \<open>
  The steps the host can still make before it rests.  A reply climbs towards the root of its tree, with
  one turn per ancestor; a turn takes three steps and may send one reply.
\<close>

definition reply_work :: "genealogy \<Rightarrow> agent_id \<Rightarrow> nat" where
  "reply_work G a = (case G a of Some chain \<Rightarrow> 3 * length chain + 1 | None \<Rightarrow> 0)"

definition maybe_reply :: "genealogy \<Rightarrow> agent_id option \<Rightarrow> nat" where
  "maybe_reply G r = (case r of Some a \<Rightarrow> reply_work G a | None \<Rightarrow> 0)"

definition env_work :: "genealogy \<Rightarrow> agent_id \<Rightarrow> 't envelope \<Rightarrow> nat" where
  "env_work G a env =
    (case en_kind env of Message_Request \<Rightarrow> 3 + maybe_reply G (en_from env) | Message_Reply \<Rightarrow> reply_work G a)"

fun flight_work :: "genealogy \<Rightarrow> ('x, 't) flight \<Rightarrow> nat" where
  "flight_work G (Executing a t) = env_work G a (tn_envelope t)"
| "flight_work G (Replying a w r result) = 2 + maybe_reply G r"
| "flight_work G (Retiring a) = 1"

definition queued_work :: "genealogy \<Rightarrow> (agent_id \<times> ('x, 't, 'n) agent_entry) list \<Rightarrow> nat" where
  "queued_work G m = sum_list (map (\<lambda>(a, e). sum_list (map (env_work G a) (queue_of e))) m)"

definition work :: "genealogy \<Rightarrow> ('db, 'x, 't, 'n, 'c) host_state \<Rightarrow> nat" where
  "work G s = queued_work G (hs_agents s) + sum_list (map (flight_work G) (hs_flights s)) + length (hs_deliveries s)"

lemma work_pump:
  assumes "distinct (map fst (hs_agents s))"
  shows "work G (pump H a s) = work G s"
proof (cases rule: pump_cases [of H a s])
  case (start e su history env q t)
  let ?f = "\<lambda>e. e \<lparr> ag_running := True, ag_body := Body_Hosted su history q \<rparr>"
  have "queued_work G (modify a ?f (hs_agents s)) + env_work G a env = queued_work G (hs_agents s)"
    using sum_modify [OF assms start(1), of "\<lambda>(a, e). sum_list (map (env_work G a) (queue_of e))" ?f] start(4)
    by (simp add: queued_work_def queue_of_def)
  then show ?thesis using start(5,6) by (simp add: work_def)
qed simp

lemma work_drop_subtree: "work G (drop_subtree H target i s) \<le> work G s"
proof -
  have "queued_work G (filter P m) \<le> queued_work G m" for P and m :: "(agent_id \<times> ('b, 'c, 'd) agent_entry) list"
    by (induction m) (auto simp: queued_work_def)
  then show ?thesis by (simp add: work_def)
qed

lemma work_reply_enqueued:
  assumes inv: "inv_but {} G s" and env: "en_kind env = Message_Reply" "en_from env \<noteq> None"
  shows "work G (snd (enqueue H to env s)) \<le> work G s + reply_work G to"
proof (cases "agent_at s to")
  case None
  then show ?thesis by (simp add: enqueue_def work_def)
next
  case (Some e)
  have G: "G to = Some (ag_chain e)" "ag_chain e = [] \<longleftrightarrow> is_root_body (ag_body e)"
    using inv_butD(2) [OF inv Some] by (auto simp: entry_ok_def)
  show ?thesis
  proof (cases "ag_body e")
    case (Body_Root inbox)
    then show ?thesis using Some env(2) G by (auto simp: enqueue_def work_def reply_work_def)
  next
    case (Body_Hosted su history q)
    let ?f = "\<lambda>e. e \<lparr> ag_body := Body_Hosted su history (q @ [env]) \<rparr>"
    let ?s = "s \<lparr> hs_agents := modify to ?f (hs_agents s) \<rparr>"
    have "queued_work G (modify to ?f (hs_agents s)) = queued_work G (hs_agents s) + env_work G to env"
      using sum_modify [OF inv_butD(1) [OF inv] Some, of "\<lambda>(a, e). sum_list (map (env_work G a) (queue_of e))" ?f] Body_Hosted
      by (simp add: queued_work_def queue_of_def)
    then have "work G ?s = work G s + reply_work G to" by (simp add: work_def env_work_def env(1))
    moreover have "snd (enqueue H to env s) = pump H to ?s" using Some Body_Hosted by (simp add: enqueue_def)
    ultimately show ?thesis using inv_butD(1) [OF inv] by (simp add: work_pump)
  qed
qed

lemma work_ends:
  assumes inv: "inv_but {} G s" and gen: "genealogy_ok D G" and fl: "hs_flights s = fs @ Executing a t # gs"
    and ended: "turn_ended a (tn_envelope t) result messages (s \<lparr> hs_store := st \<rparr>) = (r, s1)"
  shows "work G (s1 \<lparr> hs_flights := fs @ Replying a w r result # gs \<rparr>) < work G s"
proof -
  from turn_ended_form [OF ended] obtain f where f: "s1 = s \<lparr> hs_store := st, hs_agents := modify a f (hs_agents s) \<rparr>"
    "\<And>e. queue_of (f e) = queue_of e" by auto
  then have q: "queued_work G (hs_agents s1) = queued_work G (hs_agents s)"
    by (simp add: queued_work_def modify_weight)
  have "exec_count s a > 0" by (simp add: exec_count_def fl)
  then obtain p cs where chain: "G a = Some (p # cs)" using inv_butD(3) [OF inv, of a] by (auto simp: turns_ok_def)
  then have "G p = Some cs" using gen unfolding genealogy_ok_def by blast
  with chain have up: "reply_work G a = 3 + reply_work G p" by (simp add: reply_work_def)
  have "2 + maybe_reply G r < env_work G a (tn_envelope t)"
  proof (cases "agent_at s a")
    case None
    then have "r = None" using ended by (simp add: turn_ended_def)
    then show ?thesis by (auto simp: env_work_def maybe_reply_def up split: message_kind.splits option.splits)
  next
    case (Some e)
    then have "ag_chain e = p # cs" using inv_butD(2) [OF inv Some] chain by (simp add: entry_ok_def)
    then have "r = (case en_kind (tn_envelope t) of Message_Request \<Rightarrow> en_from (tn_envelope t) | Message_Reply \<Rightarrow> Some p)"
      using ended Some by (auto simp: turn_ended_def ag_parent_def split: message_kind.splits)
    then show ?thesis by (auto simp: env_work_def maybe_reply_def up split: message_kind.splits)
  qed
  then show ?thesis by (simp add: work_def f(1) fl q [unfolded f(1), simplified])
qed

lemma work_replies:
  assumes inv: "inv_but {} G s" and fl: "hs_flights s = fs @ Replying a w r result # gs"
  shows "work G (turn_reply H a w r result (s \<lparr> hs_flights := fs @ Retiring a # gs \<rparr>)) < work G s"
proof -
  let ?s = "s \<lparr> hs_flights := fs @ Retiring a # gs \<rparr>"
  have "inv_but {} G ?s"
    using inv_flights [OF inv, of "fs @ Retiring a # gs" "{}"] by (simp add: exec_count_def fl)
  then have "work G (snd (deliver_message H (Some a) to Message_Reply tx ?s)) \<le> work G ?s + reply_work G to" for to tx
    unfolding deliver_message_def by (rule work_reply_enqueued) (simp_all add: make_envelope_def)
  note sent = this
  have less: "work G ?s + maybe_reply G r < work G s" by (simp add: work_def fl)
  show ?thesis
  proof (cases w)
    case None
    then show ?thesis
      using less sent [of _ "reply_text result"]
      by (cases r) (auto simp: turn_reply_def maybe_reply_def intro: le_less_trans)
  next
    case (Some n)
    then show ?thesis using less by (simp add: turn_reply_def work_def)
  qed
qed

lemma work_retires:
  assumes "distinct (map fst (hs_agents s))" and fl: "hs_flights s = fs @ Retiring a # gs"
  shows "work G (turn_retire H a (s \<lparr> hs_flights := fs @ gs \<rparr>)) < work G s"
proof -
  have "work G (s \<lparr> hs_flights := fs @ gs \<rparr>) < work G s" by (simp add: work_def fl)
  then show ?thesis
    using assms(1) work_drop_subtree [of G H a True "s \<lparr> hs_flights := fs @ gs \<rparr>"]
    by (auto simp: turn_retire_def retire_if_done_def work_pump split: if_splits)
qed

lemma work_internal_step:
  assumes "internal_step H s s'" "inv_but {} G s" "genealogy_ok D G"
  shows "work G s' < work G s"
  using assms(1)
proof cases
  case (Ends s1 fs a t r result gs now race messages st)
  then show ?thesis using work_ends [OF assms(2,3) Ends(2,4)] by simp
next
  case (Replies a w r result fs gs)
  then show ?thesis using work_replies [OF assms(2) Replies(2)] by simp
next
  case (Retires a fs gs)
  then show ?thesis using work_retires [OF inv_butD(1) [OF assms(2)] Retires(2)] by simp
next
  case (Delivers ds es others now delivers inbox m)
  then show ?thesis by (simp add: work_def)
qed

lemma internal_steps:
  assumes "(internal_step H ^^ n) s s'" "inv_but {} G s" "genealogy_ok D G"
  shows "inv_but {} G s' \<and> waiter_bag s' = waiter_bag s \<and> n + work G s' \<le> work G s"
  using assms(1)
proof (induction n arbitrary: s')
  case 0
  then show ?case using assms(2) by simp
next
  case (Suc n)
  then obtain u where u: "(internal_step H ^^ n) s u" "internal_step H u s'" by auto
  with Suc.IH [OF u(1)] inv_internal_step [OF u(2)] work_internal_step [OF u(2) _ assms(3)]
  show ?case by fastforce
qed

section \<open>Rest\<close>

lemma flight_moves:
  assumes "f \<in> set (hs_flights s)"
  shows "\<exists>s'. internal_step H s s'"
proof -
  from assms obtain fs gs where fl: "hs_flights s = fs @ f # gs" by (auto dest: split_list)
  show ?thesis
  proof (cases f)
    case (Executing a t)
    obtain result messages st where ex: "execute H 0 a t Race_Stopped (hs_store s) = ((result, messages), st)"
      by (metis prod.exhaust)
    obtain r s1 where "turn_ended a (tn_envelope t) result messages (s \<lparr> hs_store := st \<rparr>) = (r, s1)" by fastforce
    from internal_step.Ends [OF fl [unfolded Executing] ex this] show ?thesis by blast
  next
    case (Replying a w r result)
    from internal_step.Replies [OF fl [unfolded Replying]] show ?thesis by blast
  next
    case (Retiring a)
    from internal_step.Retires [OF fl [unfolded Retiring]] show ?thesis by blast
  qed
qed

lemma at_rest:
  assumes "\<nexists>s'. internal_step H s s'"
  shows "hs_flights s = []" "hs_deliveries s = []"
proof -
  show "hs_flights s = []" using flight_moves [of _ s H] assms by (cases "hs_flights s") auto
  show "hs_deliveries s = []"
  proof (cases "hs_deliveries s")
    case (Cons d ds)
    then have "hs_deliveries s = [] @ (fst d, snd d) # ds" by simp
    from internal_step.Delivers [OF this] assms show ?thesis by blast
  qed
qed

lemma queued_waitersD:
  "w \<in># queued_waiters m \<Longrightarrow> \<exists>a e. (a, e) \<in> set m \<and> w \<in> set (waiters (queue_of e))"
  by (fastforce simp: queued_waiters_def)

lemma rest_waiters:
  assumes inv: "inv_but {} G s" and rest: "hs_flights s = []" and w: "w \<in># waiter_bag s"
  shows "w \<in> fst ` set (hs_answers s) \<or> w \<in> set (hs_dropped s)
    \<or> (\<exists>a e. agent_at s a = Some e \<and> ag_paused e \<and> w \<in> set (waiters (queue_of e)))"
proof (cases "w \<in># queued_waiters (hs_agents s)")
  case True
  then obtain a e where e: "(a, e) \<in> set (hs_agents s)" "w \<in> set (waiters (queue_of e))" by (auto dest: queued_waitersD)
  then have at: "agent_at s a = Some e" using inv_butD(1) [OF inv] by simp
  have "exec_count s a = 0" by (simp add: exec_count_def rest)
  then have "\<not> ag_running e" using inv_butD(3) [OF inv, of a] at by (simp add: turns_ok_def)
  moreover have "\<not> ready e" using inv_butD(4) [OF inv, of a] at by (simp add: awake_def rest)
  moreover have "queue_of e \<noteq> []" using e(2) by (auto simp: waiters_def)
  ultimately have "ag_paused e" by (simp add: ready_def)
  with at e(2) show ?thesis by blast
next
  case False
  then show ?thesis using w rest by (auto simp: waiter_bag_def)
qed

section \<open>Genealogies\<close>

lemma genealogy_parent:
  "genealogy_ok D G \<Longrightarrow> G a = Some (p # cs) \<Longrightarrow> G p = Some cs"
  "genealogy_ok D G \<Longrightarrow> G a = Some (p # cs) \<Longrightarrow> length cs + 2 \<le> D"
  unfolding genealogy_ok_def by blast+

lemma chain_suffix: "genealogy_ok D G \<Longrightarrow> G a = Some (pre @ x # post) \<Longrightarrow> G x = Some post"
proof (induction pre arbitrary: a)
  case Nil
  then show ?case using genealogy_parent(1) [of D G a x post] by simp
next
  case (Cons p pre)
  from Cons.prems have "G p = Some (pre @ x # post)" using genealogy_parent(1) [of D G a p] by simp
  with Cons.IH Cons.prems(1) show ?case by blast
qed

lemma chain_distinct:
  assumes "genealogy_ok D G" "G a = Some chain"
  shows "distinct (a # chain)"
proof -
  have "a \<notin> set chain"
  proof
    assume "a \<in> set chain"
    then obtain pre post where chain: "chain = pre @ a # post" by (auto dest: split_list)
    from chain_suffix [OF assms(1) assms(2) [unfolded this]] have "chain = post" using assms(2) by simp
    with chain show False by (metis append_Cons append_self_conv2 impossible_Cons le_add2 length_append list.size(4) not_less_eq_eq)
  qed
  moreover have "distinct chain"
  proof (rule ccontr)
    assume "\<not> distinct chain"
    then obtain xs ys zs x where "chain = xs @ [x] @ ys @ [x] @ zs" by (auto dest: not_distinct_decomp)
    then have "G x = Some (ys @ x # zs)" "G x = Some zs"
      using chain_suffix [OF assms(1), of a xs x "ys @ x # zs"] chain_suffix [OF assms(1), of a "xs @ x # ys" x zs] assms(2)
      by simp_all
    then show False by simp
  qed
  ultimately show ?thesis by simp
qed

lemma chain_trans:
  assumes "genealogy_ok D G" "G a = Some ca" "b \<in> set ca" "G b = Some cb" "c \<in> set cb"
  shows "c \<in> set ca"
proof -
  from assms(3) obtain pre post where "ca = pre @ b # post" by (auto dest: split_list)
  with chain_suffix [OF assms(1), of a pre b post] assms(2,4) have "cb = post" by simp
  with \<open>ca = pre @ b # post\<close> assms(5) show ?thesis by simp
qed

lemma reachable_inv:
  assumes "reachable H c"
  shows "inv_but {} (cf_genealogy c) (cf_host c)"
    "genealogy_ok (unat (ahc_max_depth (hl_config H))) (cf_genealogy c)"
    "waiter_bag (cf_host c) = mset (cf_issued c)" "distinct (cf_issued c)"
    "distinct (map fst (hs_agents (cf_host c)))"
    "agent_at (cf_host c) a = Some e \<Longrightarrow> entry_ok (cf_genealogy c) a e"
    "turns_ok (cf_genealogy c) (cf_host c) a"
proof -
  have "host_inv H c" by (rule host_inv_reachable [OF assms])
  then show inv: "inv_but {} (cf_genealogy c) (cf_host c)"
    and "genealogy_ok (unat (ahc_max_depth (hl_config H))) (cf_genealogy c)"
    and "waiter_bag (cf_host c) = mset (cf_issued c)" and "distinct (cf_issued c)"
    by (simp_all add: host_inv_def)
  show "distinct (map fst (hs_agents (cf_host c)))" by (rule inv_butD(1) [OF inv])
  show "entry_ok (cf_genealogy c) a e" if "agent_at (cf_host c) a = Some e" using inv_butD(2) [OF inv that] .
  show "turns_ok (cf_genealogy c) (cf_host c) a" by (rule inv_butD(3) [OF inv])
qed

section \<open>Operations\<close>

lemma fold_pump_entry:
  "agent_at (fold (pump H) as s) b \<in> {agent_at s b, agent_at (pump H b s) b}"
proof (induction as arbitrary: s)
  case (Cons a as)
  from Cons.IH [of "pump H a s"] show ?case
    by (auto simp: pump_entry ready_def split: option.splits)
qed simp

lemma restart_entry:
  assumes "distinct (map fst (hs_agents s))" "b \<noteq> target" "\<forall>e. agent_at s b = Some e \<longrightarrow> target \<notin> set (ag_chain e)"
  shows "agent_at (restart H target e s) b = agent_at s b"
  using assms
  by (cases rule: restart_form [of H target e s])
    (auto simp: map_of_filter_keys map_of_modify in_subtree_def split: option.splits)

lemma pump_entry_cong: "agent_at s b = agent_at s' b \<Longrightarrow> agent_at (pump H b s) b = agent_at (pump H b s') b"
  by (simp add: pump_entry)

lemma lifecycle_frame:
  assumes "distinct (map fst (hs_agents s))" "b \<noteq> target" "\<forall>e. agent_at s b = Some e \<longrightarrow> target \<notin> set (ag_chain e)"
  shows "agent_at (snd (lifecycle H target action s)) b \<in> {agent_at s b, agent_at (pump H b s) b}"
proof (cases "agent_at s target")
  case (Some e)
  have paused: "agent_at (set_paused target p s) b = agent_at s b" for p
    using assms(2,3) map_of_map_entries [of "\<lambda>a e. if in_subtree target True (a, e) then e \<lparr> ag_paused := p \<rparr> else e" "hs_agents s" b]
    by (cases "agent_at s b") (simp_all add: set_paused_def in_subtree_def)
  have gone: "agent_at (drop_subtree H target True s) b = agent_at s b"
    using assms by (auto simp: map_of_filter_keys in_subtree_def split: option.splits)
  have all: "agent_at (pump_all H u) b \<in> {agent_at s b, agent_at (pump H b s) b}" if "agent_at u b = agent_at s b" for u
    using fold_pump_entry [of H "map fst (hs_agents u)" u b] that pump_entry_cong [OF that, of H] by (simp add: pump_all_def)
  show ?thesis
    using Some paused gone all [OF paused] all [OF restart_entry [OF assms]]
    by (cases "ag_body e"; cases action) (simp_all add: lifecycle_def del: drop_subtree_frame)
qed (simp add: lifecycle_def)

end
