(* ===== verification/Host_Properties.thy ===== *)
theory Host_Properties
  imports Host_Progress
begin

text \<open>
  The properties of the agent host, and a small host on which they are exercised: a root with one child
  that works on a request somebody waits for.
\<close>

section \<open>A demonstration host\<close>

text \<open>
  A token is its path in the tree of tokens; it is cancelled when it or one of its ancestors was.
\<close>

definition path_tokens :: "(nat list, nat \<times> nat list list) token_lib" where
  "path_tokens =
    \<lparr> tl_new = (\<lambda>(n, cs). ([n], (Suc n, cs))),
      tl_child = (\<lambda>t (n, cs). (n # t, (Suc n, cs))),
      tl_cancel = (\<lambda>t (n, cs). (n, t # cs)),
      tl_is_cancelled = (\<lambda>t (n, cs). list_ex (\<lambda>u. suffix u t) cs) \<rparr>"

definition demo_host :: "(memdb, unit, nat list, nat \<times> nat list list) host_libs" where
  "demo_host =
    \<lparr> hl_spawn = \<lparr> sl_kernel = demo_libs, sl_child_identity = list_codec [], sl_delegate = list_codec [],
                   sl_identity_of_value = (\<lambda>_. Inl (SerdeData [])) \<rparr>,
      hl_store = demo_store_env, hl_config = agent_host_config_default, hl_tokens = path_tokens,
      hl_from_hex = (\<lambda>_. None), hl_spawn_record = (\<lambda>_ _ _ _. []), hl_message_record = (\<lambda>_. []),
      hl_build_tools = (\<lambda>_ _. []) \<rparr>"

definition demo_root :: "(unit, unit) root_agent" where
  "demo_root =
    \<lparr> ra_agent_id = demo_agent, ra_name = ''main'', ra_permissions = pm_full_access, ra_tool_permissions = None,
      ra_mode = AgentMode_Agent, ra_model = ''m'',
      ra_env = \<lparr> ae_user_tool_defaults = \<lparr> utd_mode = UserDefault_FullAccess \<rparr>, ae_originating_user_id = None, ae_rest = () \<rparr>,
      ra_inbox = None \<rparr>"

definition demo_plan :: child_plan where
  "demo_plan =
    \<lparr> cp_child_id = AgentId 8, cp_parent = demo_agent, cp_name = ''helper'', cp_role = ''helper'',
      cp_permissions = pm_full_access, cp_tool_permissions = \<lparr> atp_per_tool = [] \<rparr>, cp_allowed_tools = None,
      cp_mode = AgentMode_Agent, cp_model = ''m'', cp_system_prompt = [], cp_reasoning_effort = None,
      cp_response_max_tokens = None, cp_kind = None, cp_iteration_cap = None, cp_token_cap = None, cp_timeout_ms = None,
      cp_policy = policy_config_default \<rparr>"

definition demo_request :: "nat list envelope" where
  "demo_request =
    \<lparr> en_from = Some demo_agent, en_from_name = ''main'', en_kind = Message_Request, en_text = ''work'',
      en_waiter = Some 0, en_cancel = None \<rparr>"

type_synonym demo_config = "(memdb, unit, nat list, unit, nat \<times> nat list list) config"

definition demo_empty :: demo_config where
  "demo_empty =
    \<lparr> cf_host = \<lparr> hs_store = mem_init, hs_identities = Map.empty, hs_agents = [], hs_tokens = (0, []), hs_flights = [],
                   hs_deliveries = [], hs_answers = [], hs_dropped = [] \<rparr>,
      cf_genealogy = Map.empty, cf_snapshots = [], cf_issued = [] \<rparr>"

definition demo_rooted :: demo_config where
  "demo_rooted = demo_empty \<lparr> cf_host := register_root demo_host demo_root (cf_host demo_empty),
     cf_genealogy := (cf_genealogy demo_empty)(ra_agent_id demo_root \<mapsto> []) \<rparr>"

definition demo_parent :: "(unit, nat list) parent_snapshot" where
  "demo_parent =
    \<lparr> ps_chain = [], ps_env = ra_env demo_root, ps_mode = AgentMode_Agent, ps_model = ''m'',
      ps_permissions = pm_full_access, ps_tool_permissions = None, ps_stop = [0] \<rparr>"

definition demo_spawned :: demo_config where
  "demo_spawned = demo_rooted \<lparr> cf_snapshots := [(demo_agent, demo_parent)],
     cf_host := insert_child demo_host demo_plan demo_parent None (cf_host demo_rooted),
     cf_genealogy := (cf_genealogy demo_rooted)(cp_child_id demo_plan \<mapsto> cp_parent demo_plan # ps_chain demo_parent) \<rparr>"

definition demo_busy :: demo_config where
  "demo_busy = demo_spawned \<lparr> cf_host := snd (enqueue demo_host (AgentId 8) demo_request (cf_host demo_spawned)),
     cf_issued := cf_issued demo_spawned @ waiters [demo_request] \<rparr>"

lemmas demo_host_defs = demo_empty_def demo_rooted_def demo_spawned_def demo_busy_def demo_root_def demo_plan_def
  demo_parent_def demo_request_def demo_host_def path_tokens_def register_root_def insert_child_def demo_agent_def

lemma demo_rooted_reachable: "reachable demo_host demo_rooted"
proof (rule reachable.Step)
  show "reachable demo_host demo_empty" by (rule reachable.Start) (simp add: initial_def demo_empty_def)
  show "host_step demo_host demo_empty demo_rooted"
    unfolding demo_rooted_def by (rule host_step.Register) (simp add: demo_empty_def)
qed

lemma demo_snapshot: "snapshot_of (cf_host demo_rooted) demo_agent = Some demo_parent"
  by (simp add: snapshot_of_def demo_host_defs)

lemma demo_spawned_reachable: "reachable demo_host demo_spawned"
proof (rule reachable.Step)
  let ?c = "demo_rooted \<lparr> cf_snapshots := (demo_agent, demo_parent) # cf_snapshots demo_rooted \<rparr>"
  show "reachable demo_host ?c"
    by (rule reachable.Step [OF demo_rooted_reachable host_step.Snapshot [OF demo_snapshot]])
  have "host_step demo_host ?c (?c \<lparr> cf_host := insert_child demo_host demo_plan demo_parent None (cf_host ?c),
      cf_genealogy := (cf_genealogy ?c)(cp_child_id demo_plan \<mapsto> cp_parent demo_plan # ps_chain demo_parent) \<rparr>)"
    by (rule host_step.Insert) (simp_all add: demo_plan_def demo_parent_def demo_rooted_def demo_empty_def demo_root_def
        demo_agent_def demo_host_def agent_host_config_default_def)
  then show "host_step demo_host ?c demo_spawned" by (simp add: demo_spawned_def demo_rooted_def demo_empty_def)
qed

lemma demo_busy_reachable: "reachable demo_host demo_busy"
proof (rule reachable.Step [OF demo_spawned_reachable])
  show "host_step demo_host demo_spawned demo_busy"
    unfolding demo_busy_def by (rule host_step.Enqueue) (simp add: demo_spawned_def demo_rooted_def demo_empty_def)
qed

lemma demo_busy_host:
  "agent_at (cf_host demo_busy) (AgentId 8) \<noteq> None" "ag_running (the (agent_at (cf_host demo_busy) (AgentId 8)))"
  "cf_issued demo_busy = [0]" "hs_answers (cf_host demo_busy) = []" "hs_dropped (cf_host demo_busy) = []"
  by (simp_all add: demo_host_defs enqueue_def pump_def modify_def)

section \<open>Turns\<close>



text \<open>
  Property C13: callers are answered at most once.  At every moment each waiter that was handed out is
  in exactly one place: with a queued message, with a turn in flight, among the answers, or among the
  waiters dropped unanswered, which their callers see as a cancelled run.
\<close>

theorem host_waiters_accounted:
  assumes "reachable H c"
  shows "(\<forall>w. count (waiter_bag (cf_host c)) w = of_bool (w \<in> set (cf_issued c)))
    \<and> distinct (map fst (hs_answers (cf_host c)) @ hs_dropped (cf_host c))"
proof -
  note bag = reachable_inv(3) [OF assms] and dist = reachable_inv(4) [OF assms]
  obtain rest where "mset rest = queued_waiters (hs_agents (cf_host c)) + mset (concat (map flight_waiters (hs_flights (cf_host c))))"
    using ex_mset by blast
  then have "mset (cf_issued c) = mset ((map fst (hs_answers (cf_host c)) @ hs_dropped (cf_host c)) @ rest)"
    unfolding bag [symmetric] waiter_bag_def by (simp add: add_ac)
  from mset_eq_imp_distinct_iff [OF this] dist
  have "distinct (map fst (hs_answers (cf_host c)) @ hs_dropped (cf_host c))" unfolding distinct_append by blast
  moreover have "count (waiter_bag (cf_host c)) w = of_bool (w \<in> set (cf_issued c))" for w
    unfolding bag using dist by (simp add: distinct_count_atmost_1)
  ultimately show ?thesis by blast
qed

theorem host_waiters_accounted_witness: "count (waiter_bag (cf_host demo_busy)) 0 = 1"
  using host_waiters_accounted [OF demo_busy_reachable] by (simp add: demo_busy_host)

text \<open>
  Property C12: without new input the host comes to rest, and then nobody is left waiting but for a
  paused agent.  Every run of internal steps is bounded by the work in the host; where none is
  possible, no turn is in flight, every delivery is done, and each waiter was answered, was dropped,
  or sits in the queue of a paused agent.
\<close>

theorem host_settles:
  assumes "reachable H c" "(internal_step H ^^ n) (cf_host c) s"
  shows "n \<le> work (cf_genealogy c) (cf_host c)
    \<and> ((\<nexists>s'. internal_step H s s') \<longrightarrow> hs_flights s = [] \<and> hs_deliveries s = []
       \<and> (\<forall>w \<in> set (cf_issued c). w \<in> fst ` set (hs_answers s) \<or> w \<in> set (hs_dropped s)
            \<or> (\<exists>a e. agent_at s a = Some e \<and> ag_paused e \<and> w \<in> set (waiters (queue_of e)))))"
proof (intro conjI impI ballI)
  note run = internal_steps [OF assms(2) reachable_inv(1,2) [OF assms(1)]]
  from run show "n \<le> work (cf_genealogy c) (cf_host c)" by linarith
  assume rest: "\<nexists>s'. internal_step H s s'"
  from at_rest [OF rest] show "hs_flights s = []" "hs_deliveries s = []" by blast+
  fix w assume "w \<in> set (cf_issued c)"
  then have "w \<in># waiter_bag s" using run reachable_inv(3) [OF assms(1)] by simp
  with rest_waiters [OF _ at_rest(1) [OF rest]] run
  show "w \<in> fst ` set (hs_answers s) \<or> w \<in> set (hs_dropped s)
      \<or> (\<exists>a e. agent_at s a = Some e \<and> ag_paused e \<and> w \<in> set (waiters (queue_of e)))" by blast
qed

lemma settles_somewhere:
  assumes "reachable H c"
  obtains n s where "(internal_step H ^^ n) (cf_host c) s" "\<nexists>s'. internal_step H s s'"
proof -
  have "\<exists>n s'. (internal_step H ^^ n) s s' \<and> (\<nexists>u. internal_step H s' u)"
    if "inv_but {} (cf_genealogy c) s" for s
    using that
  proof (induction "work (cf_genealogy c) s" arbitrary: s rule: less_induct)
    case less
    show ?case
    proof (cases "\<exists>u. internal_step H s u")
      case True
      then obtain u where u: "internal_step H s u" by blast
      from less.hyps [OF work_internal_step [OF u less.prems reachable_inv(2) [OF assms]]]
        inv_internal_step [OF u less.prems]
      obtain n s' where "(internal_step H ^^ n) u s'" "\<nexists>v. internal_step H s' v" by blast
      then show ?thesis using relpowp_Suc_I2 [of "internal_step H", OF u] by blast
    next
      case False
      then have "(internal_step H ^^ 0) s s \<and> (\<nexists>u. internal_step H s u)" by simp
      then show ?thesis by blast
    qed
  qed
  from this [OF reachable_inv(1) [OF assms]] that show ?thesis by blast
qed

theorem host_settles_witness:
  "\<exists>n s. (internal_step demo_host ^^ n) (cf_host demo_busy) s \<and> hs_flights s = []
     \<and> n \<le> work (cf_genealogy demo_busy) (cf_host demo_busy)"
proof -
  from settles_somewhere [OF demo_busy_reachable] obtain n s where
    run: "(internal_step demo_host ^^ n) (cf_host demo_busy) s" and rest: "\<nexists>s'. internal_step demo_host s s'" .
  from host_settles [OF demo_busy_reachable run] run rest show ?thesis by blast
qed

section \<open>The tree of agents\<close>



text \<open>What the documentation of cancellation tokens promises: a cancelled token stays cancelled.\<close>

definition cancel_ok :: "('t, 'c) token_lib \<Rightarrow> bool" where
  "cancel_ok T = ((\<forall>t c. tl_is_cancelled T t (tl_cancel T t c))
     \<and> (\<forall>t u c. tl_is_cancelled T u c \<longrightarrow> tl_is_cancelled T u (tl_cancel T t c)))"

lemma path_tokens_ok: "cancel_ok path_tokens"
  by (auto simp: cancel_ok_def path_tokens_def)

lemma fold_cancel:
  assumes "cancel_ok T"
  shows "tl_is_cancelled T t c \<Longrightarrow> tl_is_cancelled T t (fold (\<lambda>(a, e). tl_cancel T (ag_stop e)) m c)"
    "(a, e) \<in> set m \<Longrightarrow> tl_is_cancelled T (ag_stop e) (fold (\<lambda>(a, e). tl_cancel T (ag_stop e)) m c)"
proof -
  show keep: "tl_is_cancelled T t (fold (\<lambda>(a, e). tl_cancel T (ag_stop e)) m c)" if "tl_is_cancelled T t c" for t m c
    using that assms by (induction m arbitrary: c) (auto simp: cancel_ok_def)
  show "tl_is_cancelled T (ag_stop e) (fold (\<lambda>(a, e). tl_cancel T (ag_stop e)) m c)" if "(a, e) \<in> set m"
    using that
  proof (induction m arbitrary: c)
    case (Cons p m)
    have "tl_is_cancelled T (ag_stop e) (tl_cancel T (ag_stop e) c)" using assms by (simp add: cancel_ok_def)
    with Cons keep show ?case by (cases p) auto
  qed simp
qed

text \<open>
  Property C16: stopping an agent stops its whole subtree and nothing else.  Its agent and all
  descendants leave the table, their stop tokens are cancelled, whoever waits for one of their queued
  messages gets the cancelled result, and every other agent keeps its entry.
\<close>

theorem stop_removes_subtree:
  assumes "reachable H c" "cancel_ok (hl_tokens H)" "lifecycle H target Lifecycle_Stop (cf_host c) = (Inr (), s)"
    "agent_at (cf_host c) a = Some e"
  shows "if a = target \<or> target \<in> set (ag_chain e)
    then agent_at s a = None \<and> tl_is_cancelled (hl_tokens H) (ag_stop e) (hs_tokens s)
      \<and> (\<forall>w \<in> set (waiters (queue_of e)). (w, cancelled a) \<in> set (hs_answers s))
    else agent_at s a = Some e"
proof -
  let ?s = "drop_subtree H target True (cf_host c)"
  have s: "s = ?s" using assms(3) by (auto simp: lifecycle_def split: option.splits body.splits)
  have at: "agent_at ?s a = (if in_subtree target True (a, e) then None else Some e)"
    using reachable_inv(5) [OF assms(1)] assms(4) by (simp add: map_of_filter_keys)
  have gone: "(a, e) \<in> set (filter (in_subtree target True) (hs_agents (cf_host c)))" if "in_subtree target True (a, e)"
    using that assms(4) by (auto dest: map_of_SomeD)
  have "tl_is_cancelled (hl_tokens H) (ag_stop e) (hs_tokens ?s)" if "in_subtree target True (a, e)"
    using fold_cancel(2) [OF assms(2) gone [OF that]]
    by (simp add: drop_subtree_def remove_subtree_def notify_dropped_def Let_def)
  moreover have "(w, cancelled a) \<in> set (hs_answers ?s)"
    if "in_subtree target True (a, e)" "w \<in> set (waiters (queue_of e))" for w
    using gone [OF that(1)] that(2)
    by (fastforce simp: drop_subtree_def remove_subtree_def notify_dropped_def Let_def waiters_def)
  ultimately show ?thesis using at by (auto simp: s in_subtree_def)
qed

theorem stop_removes_subtree_witness:
  "agent_at (snd (lifecycle demo_host (AgentId 8) Lifecycle_Stop (cf_host demo_busy))) (AgentId 8) = None"
proof -
  obtain e where e: "agent_at (cf_host demo_busy) (AgentId 8) = Some e" using demo_busy_host(1) by auto
  have "fst (lifecycle demo_host (AgentId 8) Lifecycle_Stop (cf_host demo_busy)) = Inr ()"
    by (simp add: lifecycle_def demo_host_defs enqueue_def pump_def modify_def)
  then have "lifecycle demo_host (AgentId 8) Lifecycle_Stop (cf_host demo_busy) =
      (Inr (), snd (lifecycle demo_host (AgentId 8) Lifecycle_Stop (cf_host demo_busy)))"
    by (simp add: prod_eq_iff)
  from stop_removes_subtree [OF demo_busy_reachable _ this e] path_tokens_ok show ?thesis
    by (simp add: demo_host_def)
qed

text \<open>
  Property C17: a lifecycle call of an agent reaches only its own descendants.  For an agent that the
  caller did not start, directly or indirectly, the entry stays as it is, or its next queued turn is
  started, which resuming and restarting do for the whole table.
\<close>

theorem lifecycle_confined:
  assumes "reachable H c" "hook_lifecycle H None caller target action (cf_host c) = (r, s)"
    "\<not> is_descendant (cf_host c) b caller"
  shows "agent_at s b \<in> {agent_at (cf_host c) b, agent_at (pump H b (cf_host c)) b}"
proof (cases "s = cf_host c")
  case False
  then obtain t act where t: "is_descendant (cf_host c) t caller" "s = snd (lifecycle H t act (cf_host c))"
    using assms(2) by (auto simp: hook_lifecycle_def split: sum.splits option.splits if_splits) (metis snd_conv)
  then obtain d where d: "agent_at (cf_host c) t = Some d" "caller \<in> set (ag_chain d)"
    by (auto simp: is_descendant_def split: option.splits)
  have "t \<notin> set (ag_chain e)" if e: "agent_at (cf_host c) b = Some e" for e
  proof
    assume "t \<in> set (ag_chain e)"
    moreover have "cf_genealogy c b = Some (ag_chain e)" "cf_genealogy c t = Some (ag_chain d)"
      using reachable_inv(6) [OF assms(1)] e d(1) by (simp_all add: entry_ok_def)
    ultimately have "caller \<in> set (ag_chain e)" using chain_trans [OF reachable_inv(2) [OF assms(1)]] d(2) by blast
    with assms(3) e show False by (simp add: is_descendant_def)
  qed
  moreover have "b \<noteq> t" using t(1) assms(3) by blast
  ultimately show ?thesis using lifecycle_frame [OF reachable_inv(5) [OF assms(1)]] t(2) by simp
qed simp

theorem lifecycle_confined_witness:
  "agent_at (snd (hook_lifecycle demo_host None demo_agent ''helper'' ''stop'' (cf_host demo_busy))) demo_agent
   \<in> {agent_at (cf_host demo_busy) demo_agent, agent_at (pump demo_host demo_agent (cf_host demo_busy)) demo_agent}"
proof (rule lifecycle_confined [OF demo_busy_reachable surjective_pairing])
  show "\<not> is_descendant (cf_host demo_busy) demo_agent demo_agent"
    by (simp add: is_descendant_def demo_host_defs enqueue_def pump_def modify_def)
qed

text \<open>The entry a spawned agent may get.\<close>

definition confined_child ::
  "('db, 'x, 't, 'c) host_libs \<Rightarrow> agent_id \<Rightarrow> ('x, 't, 'n) agent_entry \<Rightarrow> ('x, 't, 'n) agent_entry \<Rightarrow> bool" where
  "confined_child H parent p e =
    (allows_spawn (ag_mode p) \<and> ag_mode e = ag_mode p \<and> pm_contains (ag_permissions p) (ag_permissions e)
     \<and> ag_chain e = parent # ag_chain p \<and> length (ag_chain e) + 1 \<le> unat (ahc_max_depth (hl_config H))
     \<and> \<not> ag_one_shot e)"

lemma admit_agentD:
  assumes "admit_agent H fresh_id parent child s = Inr (plan, sn)"
  obtains p where "agent_at s parent = Some p" "agent_at s (cp_child_id plan) = None" "cp_parent plan = parent"
    "ps_chain sn = ag_chain p" "allows_spawn (ag_mode p)" "cp_mode plan = ag_mode p" "cp_kind plan = None"
    "pm_contains (ag_permissions p) (cp_permissions plan)"
    "length (ag_chain p) + 2 \<le> unat (ahc_max_depth (hl_config H))"
  using assms
  by (auto simp: admit_agent_def snapshot_of_def Let_def not_less split: option.splits if_splits)

lemma insert_child_entry:
  "agent_at (insert_child H plan sn user s) b =
    (if b = cp_child_id plan then agent_at (insert_child H plan sn user s) b else agent_at s b)"
  "\<exists>e. agent_at (insert_child H plan sn user s) (cp_child_id plan) = Some e \<and> ag_chain e = cp_parent plan # ps_chain sn
    \<and> ag_permissions e = cp_permissions plan \<and> ag_mode e = cp_mode plan \<and> ag_one_shot e = (cp_kind plan \<noteq> None)"
  by (simp_all add: insert_child_def Let_def case_prod_beta map_of_update)

lemma enqueue_entry:
  "b \<noteq> to \<Longrightarrow> agent_at (snd (enqueue H to env s)) b = agent_at s b"
  "agent_at s to = Some e \<Longrightarrow> \<exists>e'. agent_at (snd (enqueue H to env s)) to = Some e' \<and> ag_chain e' = ag_chain e
     \<and> ag_permissions e' = ag_permissions e \<and> ag_mode e' = ag_mode e \<and> ag_one_shot e' = ag_one_shot e"
  "agent_at s to = None \<Longrightarrow> agent_at (snd (enqueue H to env s)) to = None"
  by (auto simp: enqueue_def pump_entry map_of_modify split: option.splits body.splits)

lemma create_child_entries:
  obtains st where "snd (create_child H others nows plan sn bs user s) = s \<lparr> hs_store := st \<rparr>"
  | st u where "snd (create_child H others nows plan sn bs user s) = insert_child H plan sn u (s \<lparr> hs_store := st \<rparr>)"
    "\<exists>out. fst (create_child H others nows plan sn bs user s) = Inr out"
proof -
  let ?u = "case user of Some u \<Rightarrow> Some u | None \<Rightarrow> ae_originating_user_id (ps_env sn)"
  obtain r st where run: "record_child H others nows plan sn bs ?u (hs_store s) = (r, st)" by fastforce
  show ?thesis
  proof (cases r)
    case (Inl e)
    with run show ?thesis by (intro that(1) [of st]) (simp add: create_child_def Let_def try_then_def with_store_def)
  next
    case (Inr out)
    with run show ?thesis by (intro that(2) [of ?u st]) (simp_all add: create_child_def Let_def try_then_def with_store_def)
  qed
qed


end
