(* ===== verification/Stream_Accum.thy ===== *)
theory Stream_Accum
  imports Kernel_Reason Text_Utf8
begin

text \<open>
  The assembly of a model response from the events of a stream
  (\<open>aura-model-reasoner/src/types/streaming.rs\<close>), and the classification of the reasoner's errors
  (\<open>error.rs\<close>).
\<close>

fun str_join :: "string \<Rightarrow> string list \<Rightarrow> string" where
  "str_join sep [] = []"
| "str_join sep [x] = x"
| "str_join sep (x # y # xs) = x @ sep @ str_join sep (y # xs)"

section \<open>Errors\<close>

(* src/crates/aura-model-reasoner/src/error.rs:165-184 message_indicates_context_overflow *)
definition message_indicates_context_overflow :: "string \<Rightarrow> bool" where
  "message_indicates_context_overflow message =
    list_ex (\<lambda>needle. sublist needle (map ascii_lower message))
      [''prompt is too long'', ''prompt too long'', ''prompt too large'', ''context length exceeded'',
       ''context window exceeded'', ''context window limit'', ''exceeds context window'',
       ''exceed the model context window'', ''input length and max_tokens exceed context limit'',
       ''requested tokens exceed the context window'', ''request exceeds the context window'', ''too many tokens'']"

(* src/crates/aura-model-reasoner/src/error.rs:119-139 ReasonerError::is_context_overflow *)
fun is_context_overflow :: "reasoner_error \<Rightarrow> bool" where
  "is_context_overflow (ReasonerError_Api status m) =
    (status = 413 \<or> (status = 400 \<or> status = 422) \<and> message_indicates_context_overflow m)"
| "is_context_overflow (ReasonerError_Transient status m _) =
    (status = 413 \<or> (status = 400 \<or> status = 422) \<and> message_indicates_context_overflow m)"
| "is_context_overflow (ReasonerError_Request m) = message_indicates_context_overflow m"
| "is_context_overflow (ReasonerError_Parse m) = message_indicates_context_overflow m"
| "is_context_overflow (ReasonerError_Internal m) = message_indicates_context_overflow m"
| "is_context_overflow _ = False"

(* src/crates/aura-model-reasoner/src/error.rs:144-151 ReasonerError::retry_after *)
fun error_retry_after :: "reasoner_error \<Rightarrow> nat option" where
  "error_retry_after (ReasonerError_RateLimited _ r) = r"
| "error_retry_after (ReasonerError_Transient _ _ r) = r"
| "error_retry_after _ = None"

(* src/crates/aura-model-reasoner/src/error.rs:157-160 ReasonerError::is_retryable_transient *)
fun is_retryable_transient :: "reasoner_error \<Rightarrow> bool" where
  "is_retryable_transient (ReasonerError_RateLimited _ _) = True"
| "is_retryable_transient (ReasonerError_Transient _ _ _) = True"
| "is_retryable_transient _ = False"

section \<open>Events\<close>

(* src/crates/aura-model-reasoner/src/types/streaming.rs:107-120 StreamContentType *)
datatype stream_content_type = Stream_Text | Stream_Thinking | Stream_ToolUse string string

(* src/crates/aura-model-reasoner/src/types/streaming.rs:11-104 StreamEvent *)
datatype stream_event =
    Ev_MessageStart string string "u64 option" "u64 option" "u64 option"
  | Ev_ContentBlockStart u32 stream_content_type
  | Ev_TextDelta string
  | Ev_ThinkingDelta string
  | Ev_SignatureDelta string
  | Ev_InputJsonDelta string
  | Ev_ContentBlockStop u32
  | Ev_MessageDelta "stop_reason option" u64
  | Ev_MessageStop
  | Ev_Ping
  | Ev_Error string "string option"
  | Ev_HttpMeta "string option"

(* src/crates/aura-model-reasoner/src/types/streaming.rs:185-193 AccumulatedToolUse *)
record accumulated_tool_use =
  au_id :: string
  au_name :: string
  au_input_json :: string

(* src/crates/aura-model-reasoner/src/types/streaming.rs:125-164 StreamAccumulator *)
record stream_accumulator =
  sa_message_id :: string
  sa_model :: string
  sa_text_content :: string
  sa_thinking_content :: string
  sa_thinking_signature :: "string option"
  sa_in_thinking_block :: bool
  sa_tool_uses :: "accumulated_tool_use list"
  sa_current_tool_use :: "accumulated_tool_use option"
  sa_stop_reason :: "stop_reason option"
  sa_input_tokens :: u64
  sa_output_tokens :: u64
  sa_cache_creation_input_tokens :: "u64 option"
  sa_cache_read_input_tokens :: "u64 option"
  sa_stream_error :: "string option"
  sa_provider_request_id :: "string option"

(* src/crates/aura-model-reasoner/src/types/streaming.rs:197-200 StreamAccumulator::new *)
definition accumulator_new :: stream_accumulator where
  "accumulator_new =
    \<lparr> sa_message_id = [], sa_model = [], sa_text_content = [], sa_thinking_content = [], sa_thinking_signature = None,
      sa_in_thinking_block = False, sa_tool_uses = [], sa_current_tool_use = None, sa_stop_reason = None,
      sa_input_tokens = 0, sa_output_tokens = 0, sa_cache_creation_input_tokens = None,
      sa_cache_read_input_tokens = None, sa_stream_error = None, sa_provider_request_id = None \<rparr>"

(* src/crates/aura-model-reasoner/src/types/streaming.rs:203-291 StreamAccumulator::process *)
fun process_event :: "stream_event \<Rightarrow> stream_accumulator \<Rightarrow> stream_accumulator" where
  "process_event (Ev_MessageStart message_id model input_tokens creation read) a =
    a \<lparr> sa_message_id := message_id, sa_model := model,
        sa_input_tokens := (case input_tokens of Some n \<Rightarrow> n | None \<Rightarrow> sa_input_tokens a),
        sa_cache_creation_input_tokens := creation, sa_cache_read_input_tokens := read \<rparr>"
| "process_event (Ev_ContentBlockStart _ (Stream_ToolUse i name)) a =
    a \<lparr> sa_current_tool_use := Some \<lparr> au_id = i, au_name = name, au_input_json = [] \<rparr>, sa_in_thinking_block := False \<rparr>"
| "process_event (Ev_ContentBlockStart _ Stream_Thinking) a = a \<lparr> sa_in_thinking_block := True \<rparr>"
| "process_event (Ev_ContentBlockStart _ Stream_Text) a = a \<lparr> sa_in_thinking_block := False \<rparr>"
| "process_event (Ev_TextDelta t) a = a \<lparr> sa_text_content := sa_text_content a @ t \<rparr>"
| "process_event (Ev_ThinkingDelta t) a = a \<lparr> sa_thinking_content := sa_thinking_content a @ t \<rparr>"
| "process_event (Ev_SignatureDelta t) a =
    a \<lparr> sa_thinking_signature := Some (case sa_thinking_signature a of Some sg \<Rightarrow> sg @ t | None \<Rightarrow> t) \<rparr>"
| "process_event (Ev_InputJsonDelta j) a =
    a \<lparr> sa_current_tool_use := map_option (\<lambda>t. t \<lparr> au_input_json := au_input_json t @ j \<rparr>) (sa_current_tool_use a) \<rparr>"
| "process_event (Ev_ContentBlockStop _) a =
    a \<lparr> sa_tool_uses := (case sa_current_tool_use a of Some t \<Rightarrow> sa_tool_uses a @ [t] | None \<Rightarrow> sa_tool_uses a),
        sa_current_tool_use := None, sa_in_thinking_block := False \<rparr>"
| "process_event (Ev_MessageDelta r n) a = a \<lparr> sa_stop_reason := r, sa_output_tokens := n \<rparr>"
| "process_event Ev_MessageStop a = a"
| "process_event Ev_Ping a = a"
| "process_event (Ev_Error message request_id) a =
    a \<lparr> sa_stream_error := Some message,
        sa_provider_request_id := (case sa_provider_request_id a of None \<Rightarrow> request_id | Some i \<Rightarrow> Some i) \<rparr>"
| "process_event (Ev_HttpMeta request_id) a =
    a \<lparr> sa_provider_request_id := (case request_id of Some i \<Rightarrow> Some i | None \<Rightarrow> sa_provider_request_id a) \<rparr>"

section \<open>Responses\<close>

text \<open>\<open>parse\<close> is the parser of JSON texts.\<close>

(* src/crates/aura-model-reasoner/src/types/streaming.rs:415-420 StreamAccumulator::into_response *)
definition tool_input :: "(string \<Rightarrow> json option) \<Rightarrow> string \<Rightarrow> json" where
  "tool_input parse j =
    (if j = [] then J_Object [] else (case parse j of Some v \<Rightarrow> v | None \<Rightarrow> J_Object [(''raw'', J_String j)]))"

(* src/crates/aura-model-reasoner/src/types/streaming.rs:398-427 StreamAccumulator::into_response *)
definition content_blocks :: "(string \<Rightarrow> json option) \<Rightarrow> stream_accumulator \<Rightarrow> content_block list" where
  "content_blocks parse a =
    (if sa_thinking_content a = [] then [] else [Block_Thinking (sa_thinking_content a) (sa_thinking_signature a)])
    @ (if sa_text_content a = [] then [] else [Block_Text (sa_text_content a)])
    @ map (\<lambda>t. Block_ToolUse (au_id t) (au_name t) (tool_input parse (au_input_json t))) (sa_tool_uses a)"

(* src/crates/aura-model-reasoner/src/types/streaming.rs:352-371 StreamAccumulator::into_response *)
definition error_context :: "stream_accumulator \<Rightarrow> string" where
  "error_context a =
    (let parts = (if sa_model a = [] then [] else [''model='' @ sa_model a])
           @ (if sa_message_id a = [] then [] else [''msg_id='' @ sa_message_id a])
           @ (case sa_provider_request_id a of Some i \<Rightarrow> if i = [] then [] else [''request_id='' @ i] | None \<Rightarrow> []) in
     if parts = [] then [] else '' ('' @ str_join '', '' parts @ '')'')"

(* src/crates/aura-model-reasoner/src/types/streaming.rs:308-323 StreamAccumulator::into_response *)
definition recover_pending :: "stream_accumulator \<Rightarrow> stream_accumulator" where
  "recover_pending a =
    (case sa_current_tool_use a of
       None \<Rightarrow> a
     | Some t \<Rightarrow> a \<lparr> sa_tool_uses := sa_tool_uses a @ [t], sa_current_tool_use := None,
                     sa_stop_reason := (case sa_stop_reason a of None \<Rightarrow> Some Stop_MaxTokens | r \<Rightarrow> r) \<rparr>)"

(* src/crates/aura-model-reasoner/src/types/streaming.rs:325-396 StreamAccumulator::into_response *)
definition stream_failure :: "string \<Rightarrow> stream_accumulator \<Rightarrow> reasoner_error" where
  "stream_failure err_msg a =
    (let why = ''stream terminated with error'' @ error_context a @ '': '' @ err_msg in
     if sa_tool_uses a = [] then ReasonerError_Transient 502 why None
     else (let t = last (sa_tool_uses a) in
           ReasonerError_StreamAbortedWithPartial why
             (Some \<lparr> pu_tool_use_id = au_id t, pu_tool_name = au_name t, pu_partial_json = au_input_json t \<rparr>)))"

(* src/crates/aura-model-reasoner/src/types/streaming.rs:298-461 StreamAccumulator::into_response *)
definition into_response ::
  "(string \<Rightarrow> json option) \<Rightarrow> u64 \<Rightarrow> u64 \<Rightarrow> stream_accumulator \<Rightarrow> (reasoner_error, model_response) result" where
  "into_response parse input_tokens latency_ms a0 =
    (let a = recover_pending a0 in
     case sa_stream_error a of
       Some err_msg \<Rightarrow> Inl (stream_failure err_msg a)
     | None \<Rightarrow>
        Inr \<lparr> mr_stop_reason = (case sa_stop_reason a of Some r \<Rightarrow> r | None \<Rightarrow> Stop_EndTurn),
              mr_message = \<lparr> msg_role = Role_Assistant, msg_content = content_blocks parse a \<rparr>,
              mr_usage = \<lparr> us_input_tokens = (if 0 < sa_input_tokens a then sa_input_tokens a else input_tokens),
                           us_output_tokens = sa_output_tokens a,
                           us_cache_creation_input_tokens = sa_cache_creation_input_tokens a,
                           us_cache_read_input_tokens = sa_cache_read_input_tokens a \<rparr>,
              mr_trace = \<lparr> pt_message_id = (if sa_message_id a = [] then None else Some (sa_message_id a)),
                           pt_provider_request_id = sa_provider_request_id a, pt_latency_ms = latency_ms,
                           pt_model = sa_model a \<rparr>,
              mr_model_used = sa_model a \<rparr>)"

definition accumulate :: "stream_event list \<Rightarrow> stream_accumulator" where
  "accumulate evs = fold process_event evs accumulator_new"

section \<open>What a stream carries\<close>

text \<open>
  A content block is streamed as its start, deltas that split its text anywhere, and its stop; pings may
  come at any time.
\<close>

inductive streams :: "(string \<Rightarrow> json option) \<Rightarrow> content_block \<Rightarrow> stream_event list \<Rightarrow> bool" for parse where
  Text: "streams parse (Block_Text (concat ts))
      (Ev_ContentBlockStart i Stream_Text # map Ev_TextDelta ts @ [Ev_ContentBlockStop i])"
| Thinking: "streams parse (Block_Thinking (concat ts) (if ss = [] then None else Some (concat ss)))
      (Ev_ContentBlockStart i Stream_Thinking # map Ev_ThinkingDelta ts @ map Ev_SignatureDelta ss @ [Ev_ContentBlockStop i])"
| Tool: "streams parse (Block_ToolUse d name (tool_input parse (concat js)))
      (Ev_ContentBlockStart i (Stream_ToolUse d name) # map Ev_InputJsonDelta js @ [Ev_ContentBlockStop i])"

text \<open>What the accumulator keeps of a list of blocks: thinking and text are concatenated, tool uses listed.\<close>

fun thinking_of :: "content_block \<Rightarrow> string" where
  "thinking_of (Block_Thinking t _) = t" | "thinking_of _ = []"

fun signature_of :: "content_block \<Rightarrow> string option" where
  "signature_of (Block_Thinking _ sg) = sg" | "signature_of _ = None"

fun text_of :: "content_block \<Rightarrow> string" where
  "text_of (Block_Text t) = t" | "text_of _ = []"

definition join_signatures :: "string option \<Rightarrow> string option \<Rightarrow> string option" where
  "join_signatures x y = (case y of None \<Rightarrow> x | Some t \<Rightarrow> Some (case x of Some sg \<Rightarrow> sg @ t | None \<Rightarrow> t))"

lemma fold_text: "fold process_event (map Ev_TextDelta ts) a = a \<lparr> sa_text_content := sa_text_content a @ concat ts \<rparr>"
  by (induction ts arbitrary: a) simp_all

lemma fold_thinking:
  "fold process_event (map Ev_ThinkingDelta ts) a = a \<lparr> sa_thinking_content := sa_thinking_content a @ concat ts \<rparr>"
  by (induction ts arbitrary: a) simp_all

lemma fold_signature:
  "fold process_event (map Ev_SignatureDelta ss) a =
    a \<lparr> sa_thinking_signature := join_signatures (sa_thinking_signature a) (if ss = [] then None else Some (concat ss)) \<rparr>"
  by (induction ss arbitrary: a) (simp_all add: join_signatures_def split: option.splits)

lemma fold_json:
  "fold process_event (map Ev_InputJsonDelta js) a =
    a \<lparr> sa_current_tool_use := map_option (\<lambda>t. t \<lparr> au_input_json := au_input_json t @ concat js \<rparr>) (sa_current_tool_use a) \<rparr>"
  by (induction js arbitrary: a) (simp_all add: option.map_comp comp_def option.map_ident)

text \<open>The effect of one streamed block between blocks.\<close>

lemma fold_block:
  assumes "streams parse b evs" "sa_current_tool_use a = None" "\<not> sa_in_thinking_block a"
  obtains uses where
    "fold process_event evs a = a \<lparr> sa_text_content := sa_text_content a @ text_of b,
       sa_thinking_content := sa_thinking_content a @ thinking_of b,
       sa_thinking_signature := join_signatures (sa_thinking_signature a) (signature_of b),
       sa_tool_uses := sa_tool_uses a @ uses \<rparr>"
    "map (\<lambda>t. Block_ToolUse (au_id t) (au_name t) (tool_input parse (au_input_json t))) uses = filter block_is_tool_use [b]"
  using assms(1)
proof cases
  case (Text ts i)
  then show ?thesis
    using assms(2,3) by (intro that [of "[]"]) (simp_all add: fold_text join_signatures_def)
next
  case (Thinking ts ss i)
  then show ?thesis
    using assms(2,3) by (intro that [of "[]"]) (simp_all add: fold_thinking fold_signature)
next
  case (Tool d name js i)
  then show ?thesis
    using assms(2,3)
    by (intro that [of "[\<lparr> au_id = d, au_name = name, au_input_json = concat js \<rparr>]"])
      (simp_all add: fold_json join_signatures_def)
qed

lemma fold_blocks:
  assumes "list_all2 (streams parse) bs evss" "sa_current_tool_use a = None" "\<not> sa_in_thinking_block a"
  obtains uses where
    "fold process_event (concat evss) a = a \<lparr> sa_text_content := sa_text_content a @ concat (map text_of bs),
       sa_thinking_content := sa_thinking_content a @ concat (map thinking_of bs),
       sa_thinking_signature := foldl join_signatures (sa_thinking_signature a) (map signature_of bs),
       sa_tool_uses := sa_tool_uses a @ uses \<rparr>"
    "map (\<lambda>t. Block_ToolUse (au_id t) (au_name t) (tool_input parse (au_input_json t))) uses = filter block_is_tool_use bs"
  using assms
proof (induction bs evss arbitrary: a thesis rule: list_all2_induct)
  case Nil
  then show ?case by (intro Nil(1) [of "[]"]) simp_all
next
  case (Cons b bs evs evss)
  obtain u where u: "fold process_event evs a = a \<lparr> sa_text_content := sa_text_content a @ text_of b,
       sa_thinking_content := sa_thinking_content a @ thinking_of b,
       sa_thinking_signature := join_signatures (sa_thinking_signature a) (signature_of b),
       sa_tool_uses := sa_tool_uses a @ u \<rparr>"
    "map (\<lambda>t. Block_ToolUse (au_id t) (au_name t) (tool_input parse (au_input_json t))) u = filter block_is_tool_use [b]"
    using fold_block [OF Cons(1) Cons.prems(2,3)] .
  let ?a = "fold process_event evs a"
  have idle: "sa_current_tool_use ?a = None" "\<not> sa_in_thinking_block ?a" using Cons.prems(2,3) by (simp_all add: u(1))
  obtain us where us: "fold process_event (concat evss) ?a = ?a \<lparr> sa_text_content := sa_text_content ?a @ concat (map text_of bs),
       sa_thinking_content := sa_thinking_content ?a @ concat (map thinking_of bs),
       sa_thinking_signature := foldl join_signatures (sa_thinking_signature ?a) (map signature_of bs),
       sa_tool_uses := sa_tool_uses ?a @ us \<rparr>"
    "map (\<lambda>t. Block_ToolUse (au_id t) (au_name t) (tool_input parse (au_input_json t))) us = filter block_is_tool_use bs"
    using Cons.IH [OF _ idle] by blast
  show ?case
    by (rule Cons.prems(1) [of "u @ us"]) (use u us in \<open>simp_all split: if_splits\<close>)
qed

lemma silent_events:
  "fold process_event evs a = fold process_event (filter (\<lambda>e. e \<noteq> Ev_Ping \<and> e \<noteq> Ev_MessageStop) evs) a"
  by (induction evs arbitrary: a) auto


definition sample_stream :: "stream_event list" where
  "sample_stream =
    [Ev_MessageStart ''msg_1'' ''m'' (Some 10) None None, Ev_ContentBlockStart 0 Stream_Text, Ev_TextDelta ''Rea'', Ev_Ping,
     Ev_TextDelta ''ding'', Ev_ContentBlockStop 0, Ev_ContentBlockStart 1 (Stream_ToolUse ''t1'' ''read_file''),
     Ev_ContentBlockStop 1, Ev_MessageDelta (Some Stop_ToolUse) 7, Ev_MessageStop]"


section \<open>Streams that fail\<close>

text \<open>The tool uses that a stream started.\<close>

definition started_tools :: "stream_event list \<Rightarrow> (string \<times> string) list" where
  "started_tools evs = List.map_filter
    (\<lambda>e. case e of Ev_ContentBlockStart _ (Stream_ToolUse i name) \<Rightarrow> Some (i, name) | _ \<Rightarrow> None) evs"

definition tools_seen :: "stream_accumulator \<Rightarrow> (string \<times> string) list" where
  "tools_seen a = map (\<lambda>t. (au_id t, au_name t)) (sa_tool_uses (recover_pending a))"

lemma tools_seen_step:
  "\<exists>xs. tools_seen (process_event e a) = xs @ started_tools [e]
     \<and> (started_tools [e] = [] \<longrightarrow> xs = tools_seen a)"
  by (cases "(e, a)" rule: process_event.cases)
    (auto simp: tools_seen_def started_tools_def recover_pending_def List.map_filter_def split: option.splits)

lemma started_tools_Cons: "started_tools (e # evs) = started_tools [e] @ started_tools evs"
  by (simp add: started_tools_def List.map_filter_def split: option.splits)

lemma tools_seen_last:
  "(tools_seen (fold process_event evs a) = [] \<longleftrightarrow> tools_seen a = [] \<and> started_tools evs = [])
   \<and> (started_tools evs \<noteq> [] \<longrightarrow> last (tools_seen (fold process_event evs a)) = last (started_tools evs))
   \<and> (started_tools evs = [] \<longrightarrow> tools_seen (fold process_event evs a) = tools_seen a)"
proof (induction evs arbitrary: a)
  case (Cons e evs)
  obtain xs where xs: "tools_seen (process_event e a) = xs @ started_tools [e]" "started_tools [e] = [] \<longrightarrow> xs = tools_seen a"
    using tools_seen_step by blast
  from Cons [of "process_event e a"] xs show ?case
    unfolding started_tools_Cons [of e evs] fold_simps
    by (cases "started_tools [e] = []"; cases "started_tools evs = []") auto
qed (simp add: started_tools_def List.map_filter_def)

lemma error_sticks: "sa_stream_error a \<noteq> None \<Longrightarrow> sa_stream_error (fold process_event evs a) \<noteq> None"
proof (induction evs arbitrary: a)
  case (Cons e evs)
  have "sa_stream_error (process_event e a) \<noteq> None"
    using Cons.prems by (cases "(e, a)" rule: process_event.cases) auto
  then show ?case using Cons.IH by simp
qed simp

lemma error_noticed: "Ev_Error m i \<in> set evs \<Longrightarrow> sa_stream_error (fold process_event evs a) \<noteq> None"
proof (induction evs arbitrary: a)
  case (Cons e evs)
  then show ?case using error_sticks [of "process_event e a" evs] by auto
qed simp

text \<open>
  Property C23: a stream that reported an error never becomes a response, whatever arrived before or
  after the error, so no call of such a stream is executed.  The error names the tool use that was
  started last, as a partial one even when its block was complete, and is transient when none was
  started.
\<close>

theorem stream_error_refused:
  assumes "Ev_Error m request_id \<in> set evs"
  shows "\<exists>why. into_response parse fallback latency (accumulate evs) =
    (if started_tools evs = [] then Inl (ReasonerError_Transient 502 why None)
     else Inl (ReasonerError_StreamAbortedWithPartial why
       (Some \<lparr> pu_tool_use_id = fst (last (started_tools evs)), pu_tool_name = snd (last (started_tools evs)),
               pu_partial_json = au_input_json (last (sa_tool_uses (recover_pending (accumulate evs)))) \<rparr>)))"
proof -
  let ?a = "recover_pending (accumulate evs)"
  obtain err where "sa_stream_error (accumulate evs) = Some err"
    using error_noticed [OF assms, of accumulator_new] by (auto simp: accumulate_def)
  then have err: "sa_stream_error ?a = Some err" by (simp add: recover_pending_def split: option.splits)
  have start: "tools_seen accumulator_new = []" by (simp add: tools_seen_def recover_pending_def accumulator_new_def)
  have empty: "sa_tool_uses ?a = [] \<longleftrightarrow> started_tools evs = []"
    using tools_seen_last [of evs accumulator_new] start by (simp add: tools_seen_def accumulate_def)
  have "(au_id (last (sa_tool_uses ?a)), au_name (last (sa_tool_uses ?a))) = last (started_tools evs)" if "started_tools evs \<noteq> []"
    using tools_seen_last [of evs accumulator_new] that empty by (auto simp: tools_seen_def accumulate_def last_map)
  then show ?thesis
    using err empty by (auto simp: into_response_def stream_failure_def Let_def)
      (metis fst_conv snd_conv)+
qed

theorem stream_error_refused_witness:
  "\<exists>why p. into_response (\<lambda>_. None) 0 5 (accumulate
      [Ev_ContentBlockStart 0 (Stream_ToolUse ''t1'' ''write_file''), Ev_ContentBlockStop 0, Ev_Error ''reset'' None])
    = Inl (ReasonerError_StreamAbortedWithPartial why (Some p)) \<and> pu_tool_use_id p = ''t1''"
  using stream_error_refused [of "''reset''" None
      "[Ev_ContentBlockStart 0 (Stream_ToolUse ''t1'' ''write_file''), Ev_ContentBlockStop 0, Ev_Error ''reset'' None]" "\<lambda>_. None" 0 5]
  by (fastforce simp: started_tools_def List.map_filter_def)

end
