(* ===== verification/Text_Split.thy ===== *)
theory Text_Split
  imports Stream_Accum Redaction
begin

text \<open>
  Splitting and joining of text as the standard library does it: \<open>split\<close>, \<open>split_once\<close>, \<open>lines\<close>,
  \<open>trim_end_matches\<close>, the parser of unsigned numbers and the right-aligned printer \<open>:>6\<close>.
\<close>

section \<open>Pieces\<close>

fun split_on :: "char \<Rightarrow> string \<Rightarrow> string list" where
  "split_on c [] = [[]]"
| "split_on c (x # xs) =
    (if x = c then [] # split_on c xs
     else (case split_on c xs of [] \<Rightarrow> [[x]] | p # ps \<Rightarrow> (x # p) # ps))"

definition split_once :: "char \<Rightarrow> string \<Rightarrow> (string \<times> string) option" where
  "split_once c s =
    (case dropWhile (\<lambda>x. x \<noteq> c) s of [] \<Rightarrow> None | _ # rest \<Rightarrow> Some (takeWhile (\<lambda>x. x \<noteq> c) s, rest))"

definition trim_end_char :: "char \<Rightarrow> string \<Rightarrow> string" where
  "trim_end_char c s = rev (dropWhile (\<lambda>x. x = c) (rev s))"

function trim_start_str :: "string \<Rightarrow> string \<Rightarrow> string" where
  "trim_start_str p s = (if p \<noteq> [] \<and> take (length p) s = p then trim_start_str p (drop (length p) s) else s)"
  by pat_completeness auto
termination
proof (relation "measure (\<lambda>(p, s). length s)")
  show "((p, drop (length p) s), p, s) \<in> measure (\<lambda>(p, s). length s)" if "p \<noteq> [] \<and> take (length p) s = p" for p s :: string
    using that by (cases s) (auto simp: length_greater_0_conv [symmetric] simp del: length_greater_0_conv)
qed simp

declare trim_start_str.simps [simp del]

lemma split_on_nonempty [simp]: "split_on c s \<noteq> []"
  by (induction s) (auto split: list.splits)

lemma split_on_plain: "c \<notin> set s \<Longrightarrow> split_on c s = [s]"
  by (induction s) auto

lemma split_on_append: "c \<notin> set p \<Longrightarrow> split_on c (p @ c # s) = p # split_on c s"
  by (induction p) auto

lemma split_on_join:
  assumes "xs \<noteq> []" "\<And>x. x \<in> set xs \<Longrightarrow> c \<notin> set x"
  shows "split_on c (str_join [c] xs) = xs"
  using assms
proof (induction "[c]" xs rule: str_join.induct)
  case (3 x y xs)
  then show ?case by (simp add: split_on_append)
qed (auto simp: split_on_plain)

lemma join_split_on: "str_join [c] (split_on c s) = s"
proof (induction s)
  case (Cons x xs)
  obtain p ps where p: "split_on c xs = p # ps" by (meson neq_Nil_conv split_on_nonempty)
  show ?case
    using Cons p by (cases ps) auto
qed simp

lemma split_on_free: "p \<in> set (split_on c s) \<Longrightarrow> c \<notin> set p"
proof (induction s arbitrary: p)
  case (Cons x xs)
  obtain q qs where q: "split_on c xs = q # qs" by (meson neq_Nil_conv split_on_nonempty)
  from Cons.IH q have "c \<notin> set q" "\<And>p. p \<in> set qs \<Longrightarrow> c \<notin> set p" by simp_all
  with Cons.prems q show ?case by (auto split: if_splits)
qed simp

lemma split_once_append [simp]: "c \<notin> set p \<Longrightarrow> split_once c (p @ c # s) = Some (p, s)"
proof -
  assume "c \<notin> set p"
  then have "dropWhile (\<lambda>x. x \<noteq> c) (p @ c # s) = c # s" "takeWhile (\<lambda>x. x \<noteq> c) (p @ c # s) = p"
    by (auto simp: dropWhile_append takeWhile_append)
  then show ?thesis by (simp add: split_once_def)
qed

section \<open>Lines\<close>

text \<open>A line ends at a line feed, with the carriage return before it; what follows the last line feed is a line if it is not empty.\<close>

definition strip_cr :: "string \<Rightarrow> string" where
  "strip_cr s = (if s \<noteq> [] \<and> last s = CHR 0x0D then butlast s else s)"

definition str_lines :: "string \<Rightarrow> string list" where
  "str_lines s =
    (let ps = split_on (CHR 0x0A) s in
     map strip_cr (butlast ps) @ (if last ps = [] then [] else [last ps]))"

lemma str_lines_free: "l \<in> set (str_lines s) \<Longrightarrow> CHR 0x0A \<notin> set l"
  using split_on_free [of _ "CHR 0x0A" s]
  by (auto simp: str_lines_def Let_def strip_cr_def split: if_splits dest!: in_set_butlastD)

section \<open>Numbers\<close>

definition is_digit :: "char \<Rightarrow> bool" where
  "is_digit c = (48 \<le> (of_char c :: nat) \<and> (of_char c :: nat) \<le> 57)"

definition digits_value :: "string \<Rightarrow> nat" where
  "digits_value ds = foldl (\<lambda>a d. a * 10 + (of_char d - 48)) 0 ds"

definition parse_usize :: "string \<Rightarrow> nat option" where
  "parse_usize s =
    (let ds = (case s of c # r \<Rightarrow> if c = CHR ''+'' then r else s | [] \<Rightarrow> []) in
     if ds = [] \<or> \<not> list_all is_digit ds \<or> 2 ^ 64 \<le> digits_value ds then None else Some (digits_value ds))"

definition pad6 :: "nat \<Rightarrow> string" where
  "pad6 n = replicate (6 - length (nat_str n)) (CHR '' '') @ nat_str n"

lemma is_digit_char_of [simp]: "k < (10 :: nat) \<Longrightarrow> is_digit (char_of (48 + k))"
  by (simp add: is_digit_def)

lemma nat_str_digits: "list_all is_digit (nat_str n)"
proof (induction n rule: nat_str.induct)
  case (1 n)
  show ?case
  proof (cases "n < 10")
    case True
    then show ?thesis by (subst nat_str.simps) simp
  next
    case False
    with 1 show ?thesis by (subst nat_str.simps) simp
  qed
qed

lemma digits_value_nat_str: "digits_value (nat_str n) = n"
proof (induction n rule: nat_str.induct)
  case (1 n)
  show ?case
  proof (cases "n < 10")
    case True
    then show ?thesis by (subst nat_str.simps) (simp add: digits_value_def)
  next
    case False
    with 1 show ?thesis by (subst nat_str.simps) (simp add: digits_value_def)
  qed
qed

lemma parse_nat_str: "n < 2 ^ 64 \<Longrightarrow> parse_usize (nat_str n) = Some n"
proof -
  assume n: "n < 2 ^ 64"
  obtain d ds where d: "nat_str n = d # ds" using nat_str_nonempty [of n] by (cases "nat_str n") auto
  then have "d \<noteq> CHR ''+''" using nat_str_digits [of n] by (auto simp: is_digit_def)
  with n d nat_str_digits [of n] digits_value_nat_str [of n] show ?thesis by (simp add: parse_usize_def Let_def)
qed

lemma is_digit_ascii: "is_digit c \<Longrightarrow> (of_char c :: nat) < 128"
  by (simp add: is_digit_def)

lemma digit_not_blank: "is_digit c \<Longrightarrow> \<not> is_blank [c]"
  by (auto simp: is_blank_def is_digit_def)

lemma trim_pad6: "trim (pad6 n) = nat_str n"
proof -
  let ?k = "6 - length (nat_str n)"
  have ascii: "ascii (pad6 n)"
    using nat_str_digits [of n] by (auto simp: ascii_def pad6_def list_all_iff is_digit_ascii)
  have blank: "is_blank '' ''" by (simp add: is_blank_def)
  have dig: "\<not> is_blank [c]" if "c \<in> set (nat_str n)" for c
    using that nat_str_digits [of n] digit_not_blank by (auto simp: list_all_iff)
  let ?ds = "map (\<lambda>c. [c]) (nat_str n)"
  have ne: "?ds \<noteq> []" using nat_str_nonempty by simp
  have hd: "\<not> is_blank (hd ?ds)" "\<not> is_blank (hd (rev ?ds))"
    using ne dig by (simp_all add: hd_map hd_rev last_map list.map_sel)
  have stop: "dropWhile is_blank xs = xs" if "xs \<noteq> []" "\<not> is_blank (hd xs)" for xs
    using that by (cases xs) simp_all
  have "dropWhile is_blank (chars (pad6 n)) = ?ds"
    using blank stop [OF ne hd(1)] by (subst chars_ascii [OF ascii]) (simp add: pad6_def dropWhile_append)
  moreover have "dropWhile is_blank (rev ?ds) = rev ?ds"
    by (rule stop) (use ne hd(2) in auto)
  ultimately show ?thesis by (simp add: trim_def concat_map_singleton)
qed

lemma parse_pad6: "n < 2 ^ 64 \<Longrightarrow> parse_usize (trim (pad6 n)) = Some n"
  by (simp add: trim_pad6 parse_nat_str)

lemma pad6_free: "c \<in> {CHR 0x0A, CHR ''|''} \<Longrightarrow> c \<notin> set (pad6 n)"
  using nat_str_digits [of n] by (auto simp: pad6_def list_all_iff is_digit_def split: if_splits)

section \<open>Paths\<close>

text \<open>\<open>Path::components\<close> of a Unix path: empty components and inner dots are dropped, a leading dot stays.\<close>

definition path_components :: "string \<Rightarrow> string list" where
  "path_components p =
    (let parts = split_on (CHR ''/'') p in
     (if p \<noteq> [] \<and> hd p = CHR ''/'' then [''/''] else if hd parts = ''.'' then [''.''] else [])
     @ filter (\<lambda>c. c \<noteq> [] \<and> c \<noteq> ''.'') parts)"

text \<open>A set of paths, which are compared by their components; inserting an equal path keeps the old one.\<close>

definition path_insert :: "string \<Rightarrow> string set \<Rightarrow> string set" where
  "path_insert p A = (if path_components p \<in> path_components ` A then A else insert p A)"

definition path_remove :: "string set \<Rightarrow> string set \<Rightarrow> string set" where
  "path_remove ps A = {q \<in> A. path_components q \<notin> path_components ` ps}"

end
