(* ===== verification/Agent_Steering.thy ===== *)
theory Agent_Steering
  imports Text_Split
begin

text \<open>
  Steering between the iterations of the agent loop (\<open>aura-agent-steering\<close>): tool calls and their
  results as the loop sees them, the three sources of hints, and the registry that drives them.  The
  texts of the hints are a parameter, as is the hash of the standard library.
\<close>

section \<open>Tool calls and results\<close>

(* src/crates/aura-agent-steering/src/types.rs:13-18 FileChangeKind *)
datatype file_change_kind = Change_Create | Change_Modify | Change_Delete

(* src/crates/aura-agent-steering/src/types.rs:28-34 FileChange *)
record file_change =
  fc_path :: string
  fc_kind :: file_change_kind
  fc_lines_added :: u32
  fc_lines_removed :: u32

(* src/crates/aura-agent-steering/src/types.rs:37-45 ToolCallInfo *)
record tool_call_info =
  ti_id :: string
  ti_name :: string
  ti_input :: json

(* src/crates/aura-agent-steering/src/types.rs:48-71 ToolCallResult *)
record tool_call_result =
  tr_tool_use_id :: string
  tr_content :: string
  tr_is_error :: bool
  tr_kind :: tool_result_kind
  tr_stop_loop :: bool
  tr_file_changes :: "file_change list"
  tr_image :: "tool_result_image option"

(* src/crates/aura-agent-steering/src/types.rs:75-86 ToolCallResult::success *)
definition call_success :: "string \<Rightarrow> string \<Rightarrow> tool_call_result" where
  "call_success i content =
    \<lparr> tr_tool_use_id = i, tr_content = content, tr_is_error = False, tr_kind = ResultKind_Ok, tr_stop_loop = False,
      tr_file_changes = [], tr_image = None \<rparr>"

(* src/crates/aura-agent-steering/src/types.rs:90-100 ToolCallResult::error *)
definition call_error :: "string \<Rightarrow> string \<Rightarrow> tool_call_result" where
  "call_error i content =
    \<lparr> tr_tool_use_id = i, tr_content = content, tr_is_error = True, tr_kind = ResultKind_AgentError, tr_stop_loop = False,
      tr_file_changes = [], tr_image = None \<rparr>"

(* src/crates/aura-config/src/tools.rs:40-40 WRITE_TOOLS *)
definition WRITE_TOOLS :: "string list" where
  "WRITE_TOOLS = [''write_file'', ''edit_file'', ''delete_file'']"

(* src/crates/aura-config/src/tools.rs:29-35 EXPLORATION_TOOLS *)
definition EXPLORATION_TOOLS :: "string list" where
  "EXPLORATION_TOOLS = [''read_file'', ''list_files'', ''find_files'', ''stat_file'', ''search_code'']"

(* src/crates/aura-agent-steering/src/helpers.rs:34-37 is_write_tool *)
definition is_write_tool :: "string \<Rightarrow> bool" where
  "is_write_tool name = (name \<in> set WRITE_TOOLS)"

(* src/crates/aura-agent-steering/src/helpers.rs:40-43 is_exploration_tool *)
definition is_exploration_tool :: "string \<Rightarrow> bool" where
  "is_exploration_tool name = (name \<in> set EXPLORATION_TOOLS)"

(* src/crates/aura-agent-steering/src/helpers.rs:21-31 append_warning *)
definition append_warning :: "string \<Rightarrow> message list \<Rightarrow> message list" where
  "append_warning warning ms =
    (if ms \<noteq> [] \<and> msg_role (last ms) = Role_User
     then butlast ms @ [(last ms) \<lparr> msg_content := msg_content (last ms) @ [Block_Text warning] \<rparr>]
     else ms @ [message_user warning])"

definition input_path :: "tool_call_info \<Rightarrow> string option" where
  "input_path t = Option.bind (json_get (ti_input t) ''path'') json_as_str"

section \<open>Hints\<close>

(* src/crates/aura-context-prompts/src/steering/kind.rs:79-90 StubReportView *)
record stub_report =
  sr_path :: string
  sr_line :: nat
  sr_pattern :: string
  sr_context :: string

(* src/crates/aura-context-prompts/src/steering/kind.rs:21-70 SteeringKind *)
datatype steering_kind =
    Steer_TaskDoneNoWrites
  | Steer_StubDetected "stub_report list"
  | Steer_RepeatedRead string
  | Steer_TaskAlreadySatisfied string
  | Steer_ImplementNow nat "string list"

(* src/crates/aura-context-prompts/src/steering/kind.rs:98-106 SteeringKind::label *)
fun steering_label :: "steering_kind \<Rightarrow> string" where
  "steering_label Steer_TaskDoneNoWrites = ''task_done_rejected''"
| "steering_label (Steer_StubDetected _) = ''stub_detected''"
| "steering_label (Steer_RepeatedRead _) = ''repeated_read''"
| "steering_label (Steer_TaskAlreadySatisfied _) = ''task_already_satisfied''"
| "steering_label (Steer_ImplementNow _ _) = ''implement_now''"

definition nl :: string where "nl = [CHR 0x0A]"

(* src/crates/aura-context-prompts/src/steering/kind.rs:129-133 SteeringRenderer::render *)
definition steering_render :: "(steering_kind \<Rightarrow> string) \<Rightarrow> steering_kind \<Rightarrow> string" where
  "steering_render body kind =
    ''<harness_steering kind='' @ [CHR 0x22] @ steering_label kind @ [CHR 0x22] @ ''>'' @ nl @ body kind @ nl
      @ ''</harness_steering>''"

(* src/crates/aura-agent-steering/src/inject.rs:20-24 inject *)
definition inject :: "(steering_kind \<Rightarrow> string) \<Rightarrow> steering_kind \<Rightarrow> message list \<Rightarrow> message list" where
  "inject body kind ms = append_warning (steering_render body kind) ms"

section \<open>Repeated reads\<close>

(* src/crates/aura-config/src/steering.rs:23-23 REPEATED_READ_THRESHOLD *)
definition REPEATED_READ_THRESHOLD :: nat where "REPEATED_READ_THRESHOLD = 3"

(* src/crates/aura-agent-steering/src/repeated_read.rs:34-43 RepeatedReadTracker *)
record repeated_read =
  rr_counts :: "string \<rightharpoonup> nat"
  rr_pending :: "string list"

(* src/crates/aura-agent-steering/src/repeated_read.rs:50-53 RepeatedReadTracker::new *)
definition repeated_read_new :: repeated_read where
  "repeated_read_new = \<lparr> rr_counts = Map.empty, rr_pending = [] \<rparr>"

(* src/crates/aura-agent-steering/src/repeated_read.rs:64-76 RepeatedReadTracker::record *)
definition rr_record :: "string \<Rightarrow> repeated_read \<Rightarrow> bool \<times> repeated_read" where
  "rr_record hash r =
    (if hash = [] then (False, r)
     else (let n = (case rr_counts r hash of Some k \<Rightarrow> k | None \<Rightarrow> 0) + 1;
               r' = r \<lparr> rr_counts := (rr_counts r)(hash \<mapsto> n) \<rparr> in
           if n = REPEATED_READ_THRESHOLD then (True, r' \<lparr> rr_pending := rr_pending r @ [hash] \<rparr>) else (False, r')))"

(* src/crates/aura-agent-steering/src/repeated_read.rs:107-120 RepeatedReadTracker::observe_tool *)
definition rr_observe :: "(string \<Rightarrow> string) \<Rightarrow> tool_call_info \<times> tool_call_result \<Rightarrow> repeated_read \<Rightarrow> repeated_read" where
  "rr_observe content_hash_hex = (\<lambda>(tool, result) r.
    if tr_is_error result \<or> ti_name tool \<noteq> ''read_file'' then r else snd (rr_record (content_hash_hex (tr_content result)) r))"

(* src/crates/aura-agent-steering/src/repeated_read.rs:122-128 RepeatedReadTracker::begin_turn *)
definition rr_begin :: "repeated_read \<Rightarrow> repeated_read" where
  "rr_begin r = r \<lparr> rr_counts := Map.empty \<rparr>"

(* src/crates/aura-agent-steering/src/repeated_read.rs:130-135 RepeatedReadTracker::drain_for_next_turn *)
definition rr_drain :: "repeated_read \<Rightarrow> steering_kind list \<times> repeated_read" where
  "rr_drain r = (map Steer_RepeatedRead (rr_pending r), r \<lparr> rr_pending := [] \<rparr>)"

section \<open>Implement now\<close>

(* src/crates/aura-config/src/steering.rs:32-57 SteeringConfig *)
record steering_config =
  sc_implement_now_enabled :: bool
  sc_implement_now_threshold :: nat
  sc_implement_now_hard_block :: bool

(* src/crates/aura-config/src/steering.rs:19-19 IMPLEMENT_NOW_MAX_PATHS_IN_MESSAGE *)
definition IMPLEMENT_NOW_MAX_PATHS_IN_MESSAGE :: nat where "IMPLEMENT_NOW_MAX_PATHS_IN_MESSAGE = 5"

(* src/crates/aura-agent-steering/src/implement_now.rs:51-73 ImplementNowSteering *)
record implement_now =
  in_has_phase_reset_signal :: bool
  in_fired :: bool
  in_exploration_count :: nat
  in_had_any_file_write :: bool
  in_session_read_paths :: "string set"
  in_pending :: "steering_kind list"

(* src/crates/aura-agent-steering/src/implement_now.rs:82-92 ImplementNowSteering::new *)
definition implement_now_new :: "bool \<Rightarrow> implement_now" where
  "implement_now_new signal =
    \<lparr> in_has_phase_reset_signal = signal, in_fired = False, in_exploration_count = 0, in_had_any_file_write = False,
      in_session_read_paths = {}, in_pending = [] \<rparr>"

(* src/crates/aura-agent-steering/src/implement_now.rs:24-32 sample_read_paths *)
definition sample_read_paths :: "string set \<Rightarrow> string list" where
  "sample_read_paths paths = take IMPLEMENT_NOW_MAX_PATHS_IN_MESSAGE (sorted_list_of_set paths)"

(* src/crates/aura-agent-steering/src/implement_now.rs:96-118 ImplementNowSteering::observe_tool *)
definition in_observe :: "tool_call_info \<times> tool_call_result \<Rightarrow> implement_now \<Rightarrow> implement_now" where
  "in_observe = (\<lambda>(tool, result) i.
    (let i1 = (if is_exploration_tool (ti_name tool)
               then i \<lparr> in_exploration_count := in_exploration_count i + 1,
                        in_session_read_paths := (case input_path tool of
                            Some p \<Rightarrow> if tr_is_error result then in_session_read_paths i else path_insert p (in_session_read_paths i)
                          | None \<Rightarrow> in_session_read_paths i) \<rparr>
               else i) in
     if is_write_tool (ti_name tool) \<and> \<not> tr_is_error result \<and> (input_path tool \<noteq> None \<or> tr_file_changes result \<noteq> [])
     then i1 \<lparr> in_had_any_file_write := True,
               in_session_read_paths := path_remove (set_option (input_path tool) \<union> fc_path ` set (tr_file_changes result))
                 (in_session_read_paths i1) \<rparr>
     else i1))"

(* src/crates/aura-agent-steering/src/implement_now.rs:120-142 ImplementNowSteering::begin_turn *)
definition in_begin :: "steering_config \<Rightarrow> implement_now \<Rightarrow> implement_now" where
  "in_begin cfg i =
    (if in_fired i \<or> \<not> sc_implement_now_enabled cfg \<or> \<not> in_has_phase_reset_signal i \<or> in_had_any_file_write i
        \<or> in_exploration_count i < sc_implement_now_threshold cfg
     then i
     else i \<lparr> in_pending := in_pending i @ [Steer_ImplementNow (in_exploration_count i) (sample_read_paths (in_session_read_paths i))],
              in_fired := True \<rparr>)"

(* src/crates/aura-agent-steering/src/implement_now.rs:144-146 ImplementNowSteering::drain_for_next_turn *)
definition in_drain :: "implement_now \<Rightarrow> steering_kind list \<times> implement_now" where
  "in_drain i = (in_pending i, i \<lparr> in_pending := [] \<rparr>)"

section \<open>The early test oracle\<close>

(* src/crates/aura-agent-steering/src/early_oracle.rs:48-54 OracleState *)
datatype oracle_state = Oracle_AwaitingFirstRead | Oracle_InsideFirstBatch | Oracle_HintQueued | Oracle_Done

(* src/crates/aura-agent-steering/src/early_oracle.rs:71-78 EarlyTestOracle *)
record early_oracle =
  eo_test_command :: "string option"
  eo_state :: oracle_state
  eo_pending :: "steering_kind list"

(* src/crates/aura-agent-steering/src/early_oracle.rs:87-103 EarlyTestOracle::new *)
definition early_oracle_new :: "string option \<Rightarrow> bool \<Rightarrow> early_oracle" where
  "early_oracle_new cmd enabled =
    \<lparr> eo_test_command = cmd,
      eo_state = (if enabled \<and> (case cmd of Some s \<Rightarrow> \<not> is_blank s | None \<Rightarrow> False)
                  then Oracle_AwaitingFirstRead else Oracle_Done),
      eo_pending = [] \<rparr>"

(* src/crates/aura-agent-steering/src/early_oracle.rs:121-138 EarlyTestOracle::observe_tool_name *)
definition observe_tool_name :: "string \<Rightarrow> early_oracle \<Rightarrow> early_oracle" where
  "observe_tool_name name o1 =
    (let st = (case eo_state o1 of
                 Oracle_AwaitingFirstRead \<Rightarrow>
                   if is_exploration_tool name then Oracle_InsideFirstBatch else Oracle_AwaitingFirstRead
               | Oracle_InsideFirstBatch \<Rightarrow>
                   if \<not> is_exploration_tool name then Oracle_HintQueued else Oracle_InsideFirstBatch
               | s \<Rightarrow> s) in
     o1 \<lparr> eo_state := (if st = Oracle_AwaitingFirstRead \<and> is_write_tool name then Oracle_Done else st) \<rparr>)"

definition eo_observe :: "tool_call_info \<times> tool_call_result \<Rightarrow> early_oracle \<Rightarrow> early_oracle" where
  "eo_observe = (\<lambda>(tool, _). observe_tool_name (ti_name tool))"

(* src/crates/aura-agent-steering/src/early_oracle.rs:143-147 EarlyTestOracle::close_batch *)
definition close_batch :: "early_oracle \<Rightarrow> early_oracle" where
  "close_batch o1 = (if eo_state o1 = Oracle_InsideFirstBatch then o1 \<lparr> eo_state := Oracle_HintQueued \<rparr> else o1)"

(* src/crates/aura-agent-steering/src/early_oracle.rs:151-158 EarlyTestOracle::take_hint *)
definition take_hint :: "early_oracle \<Rightarrow> steering_kind option \<times> early_oracle" where
  "take_hint o1 =
    (if eo_state o1 \<noteq> Oracle_HintQueued then (None, o1)
     else (case eo_test_command o1 of
             None \<Rightarrow> (None, o1)
           | Some cmd \<Rightarrow> (Some (Steer_TaskAlreadySatisfied cmd), o1 \<lparr> eo_state := Oracle_Done \<rparr>)))"

(* src/crates/aura-agent-steering/src/early_oracle.rs:166-177 EarlyTestOracle::begin_turn *)
definition eo_begin :: "early_oracle \<Rightarrow> early_oracle" where
  "eo_begin o1 =
    (case take_hint (close_batch o1) of
       (Some hint, o2) \<Rightarrow> o2 \<lparr> eo_pending := eo_pending o2 @ [hint] \<rparr>
     | (None, o2) \<Rightarrow> o2)"

(* src/crates/aura-agent-steering/src/early_oracle.rs:179-181 EarlyTestOracle::drain_for_next_turn *)
definition eo_drain :: "early_oracle \<Rightarrow> steering_kind list \<times> early_oracle" where
  "eo_drain o1 = (eo_pending o1, o1 \<lparr> eo_pending := [] \<rparr>)"

section \<open>The registry\<close>

text \<open>The sources in the order in which a loop registers them; the oracle is optional.\<close>

(* src/crates/aura-agent-steering/src/registry.rs:95-103 SteeringRegistry *)
record steering_registry =
  sg_repeated_read :: repeated_read
  sg_implement_now :: implement_now
  sg_early_oracle :: "early_oracle option"
  sg_implement_now_injected :: bool

(* src/crates/aura-config/src/steering.rs:127-136 EarlyTestOracleConfig *)
record early_oracle_config =
  oc_enabled :: bool
  oc_test_command :: "string option"

(* src/crates/aura-agent-steering/src/registry.rs:135-154 SteeringRegistry::for_loop *)
definition registry_for_loop :: "bool \<Rightarrow> early_oracle_config option \<Rightarrow> steering_registry" where
  "registry_for_loop signal oracle =
    \<lparr> sg_repeated_read = repeated_read_new, sg_implement_now = implement_now_new signal,
      sg_early_oracle = (case oracle of
          Some c \<Rightarrow> if oc_enabled c then Some (early_oracle_new (oc_test_command c) True) else None
        | None \<Rightarrow> None),
      sg_implement_now_injected = False \<rparr>"

(* src/crates/aura-agent-steering/src/registry.rs:166-170 SteeringRegistry::observe_tool *)
definition registry_observe ::
  "(string \<Rightarrow> string) \<Rightarrow> tool_call_info \<times> tool_call_result \<Rightarrow> steering_registry \<Rightarrow> steering_registry" where
  "registry_observe content_hash_hex call g =
    g \<lparr> sg_repeated_read := rr_observe content_hash_hex call (sg_repeated_read g),
        sg_implement_now := in_observe call (sg_implement_now g),
        sg_early_oracle := map_option (eo_observe call) (sg_early_oracle g) \<rparr>"

(* src/crates/aura-agent-steering/src/registry.rs:173-177 SteeringRegistry::begin_turn *)
definition registry_begin :: "steering_config \<Rightarrow> steering_registry \<Rightarrow> steering_registry" where
  "registry_begin cfg g =
    g \<lparr> sg_repeated_read := rr_begin (sg_repeated_read g), sg_implement_now := in_begin cfg (sg_implement_now g),
        sg_early_oracle := map_option eo_begin (sg_early_oracle g) \<rparr>"

fun is_implement_now :: "steering_kind \<Rightarrow> bool" where
  "is_implement_now (Steer_ImplementNow _ _) = True"
| "is_implement_now _ = False"

fun is_satisfied_hint :: "steering_kind \<Rightarrow> bool" where
  "is_satisfied_hint (Steer_TaskAlreadySatisfied _) = True"
| "is_satisfied_hint _ = False"

(* src/crates/aura-agent-steering/src/registry.rs:181-193 SteeringRegistry::drain_for_next_turn *)
definition registry_drain :: "steering_registry \<Rightarrow> steering_kind list \<times> steering_registry" where
  "registry_drain g =
    (let (k1, r) = rr_drain (sg_repeated_read g); (k2, i) = in_drain (sg_implement_now g);
         (k3, e) = (case sg_early_oracle g of
                      Some o1 \<Rightarrow> (case eo_drain o1 of (ks, o2) \<Rightarrow> (ks, Some o2))
                    | None \<Rightarrow> ([], None));
         out = k1 @ k2 @ k3 in
     (out, g \<lparr> sg_repeated_read := r, sg_implement_now := i, sg_early_oracle := e,
              sg_implement_now_injected := (sg_implement_now_injected g \<or> list_ex is_implement_now out) \<rparr>))"

section \<open>Hints are given once\<close>

text \<open>
  A source of hints whose allowance never grows: what it hands out over any sequence of observations,
  turns and drains is bounded by the allowance it starts with.
\<close>

datatype 'e steering_op = Op_Observe 'e | Op_Begin | Op_Drain

fun run_source ::
  "('e \<Rightarrow> 's \<Rightarrow> 's) \<Rightarrow> ('s \<Rightarrow> 's) \<Rightarrow> ('s \<Rightarrow> 'k list \<times> 's) \<Rightarrow> 'e steering_op list \<Rightarrow> 's \<Rightarrow> 'k list \<times> 's" where
  "run_source observe begin_turn drain [] s = ([], s)"
| "run_source observe begin_turn drain (Op_Observe e # ops) s = run_source observe begin_turn drain ops (observe e s)"
| "run_source observe begin_turn drain (Op_Begin # ops) s = run_source observe begin_turn drain ops (begin_turn s)"
| "run_source observe begin_turn drain (Op_Drain # ops) s =
    (case drain s of (ks, s') \<Rightarrow> case run_source observe begin_turn drain ops s' of (ks', s'') \<Rightarrow> (ks @ ks', s''))"

locale hint_source =
  fixes observe :: "'e \<Rightarrow> 's \<Rightarrow> 's" and begin_turn :: "'s \<Rightarrow> 's" and drain :: "'s \<Rightarrow> 'k list \<times> 's"
    and hint :: "'k \<Rightarrow> bool" and allowance :: "'s \<Rightarrow> nat"
  assumes observe_allowance: "allowance (observe e s) \<le> allowance s"
    and begin_allowance: "allowance (begin_turn s) \<le> allowance s"
    and drain_allowance: "length (filter hint (fst (drain s))) + allowance (snd (drain s)) \<le> allowance s"
begin

lemma hints_bounded:
  "length (filter hint (fst (run_source observe begin_turn drain ops s)))
     + allowance (snd (run_source observe begin_turn drain ops s)) \<le> allowance s"
proof (induction ops arbitrary: s)
  case (Cons op ops)
  show ?case
  proof (cases op)
    case (Op_Observe e)
    then show ?thesis using Cons [of "observe e s"] observe_allowance [of e s] by simp
  next
    case Op_Begin
    then show ?thesis using Cons [of "begin_turn s"] begin_allowance [of s] by simp
  next
    case Op_Drain
    then show ?thesis
      using Cons [of "snd (drain s)"] drain_allowance [of s] by (simp add: case_prod_beta)
  qed
qed simp

end

lemma in_observe_frame [simp]: "in_fired (in_observe c i) = in_fired i" "in_pending (in_observe c i) = in_pending i"
  by (cases c; simp add: in_observe_def Let_def)+

lemma eo_observe_frame:
  "eo_pending (eo_observe c o1) = eo_pending o1"
  "eo_state (eo_observe c o1) \<noteq> Oracle_Done \<Longrightarrow> eo_state o1 \<noteq> Oracle_Done"
  by (cases c; auto simp: eo_observe_def observe_tool_name_def Let_def split: oracle_state.splits if_splits)+

text \<open>What the registry may still hand out: pending hints, and one more from a source that has not fired.\<close>

definition pending_hints :: "(steering_kind \<Rightarrow> bool) \<Rightarrow> steering_registry \<Rightarrow> nat" where
  "pending_hints hint g =
    length (filter hint (in_pending (sg_implement_now g)))
    + length (filter hint (case sg_early_oracle g of Some o1 \<Rightarrow> eo_pending o1 | None \<Rightarrow> []))"

definition implement_now_left :: "steering_registry \<Rightarrow> nat" where
  "implement_now_left g = pending_hints is_implement_now g + of_bool (\<not> in_fired (sg_implement_now g))"

definition satisfied_left :: "steering_registry \<Rightarrow> nat" where
  "satisfied_left g = pending_hints is_satisfied_hint g
    + (case sg_early_oracle g of Some o1 \<Rightarrow> of_bool (eo_state o1 \<noteq> Oracle_Done) | None \<Rightarrow> 0)"

lemma eo_begin_cases:
  obtains "eo_begin o1 = o1" | "eo_begin o1 = o1 \<lparr> eo_state := Oracle_HintQueued \<rparr>" "eo_state o1 \<noteq> Oracle_Done"
  | cmd where "eo_begin o1 = o1 \<lparr> eo_state := Oracle_Done, eo_pending := eo_pending o1 @ [Steer_TaskAlreadySatisfied cmd] \<rparr>"
      "eo_state o1 \<noteq> Oracle_Done"
  by (cases "eo_state o1"; cases "eo_test_command o1") (auto simp: eo_begin_def close_batch_def take_hint_def)

lemma registry_drain_hints:
  assumes "\<And>h. \<not> hint (Steer_RepeatedRead h)"
  shows "length (filter hint (fst (registry_drain g))) = pending_hints hint g" "pending_hints hint (snd (registry_drain g)) = 0"
  using assms
  by (auto simp: registry_drain_def rr_drain_def in_drain_def eo_drain_def pending_hints_def Let_def case_prod_beta
      filter_map comp_def split: option.splits)

interpretation ini: hint_source "registry_observe h" "registry_begin cfg" registry_drain is_implement_now implement_now_left for h cfg
proof unfold_locales
  fix g :: steering_registry
  show "implement_now_left (registry_observe h e g) \<le> implement_now_left g" for e
    by (auto simp: implement_now_left_def pending_hints_def registry_observe_def eo_observe_frame split: option.splits)
  show "implement_now_left (registry_begin cfg g) \<le> implement_now_left g"
  proof (cases "sg_early_oracle g")
    case None
    then show ?thesis by (auto simp: implement_now_left_def pending_hints_def registry_begin_def in_begin_def)
  next
    case (Some o1)
    then show ?thesis
      by (cases rule: eo_begin_cases [of o1]) (auto simp: implement_now_left_def pending_hints_def registry_begin_def in_begin_def)
  qed
  show "length (filter is_implement_now (fst (registry_drain g))) + implement_now_left (snd (registry_drain g)) \<le> implement_now_left g"
    using registry_drain_hints [of is_implement_now g]
    by (simp add: implement_now_left_def) (simp add: registry_drain_def in_drain_def Let_def case_prod_beta)
qed

interpretation sat: hint_source "registry_observe h" "registry_begin cfg" registry_drain is_satisfied_hint satisfied_left for h cfg
proof unfold_locales
  fix g :: steering_registry
  show "satisfied_left (registry_observe h e g) \<le> satisfied_left g" for e
    using eo_observe_frame
    by (auto simp: satisfied_left_def pending_hints_def registry_observe_def of_bool_def split: option.splits)
  show "satisfied_left (registry_begin cfg g) \<le> satisfied_left g"
  proof (cases "sg_early_oracle g")
    case None
    then show ?thesis by (auto simp: satisfied_left_def pending_hints_def registry_begin_def in_begin_def)
  next
    case (Some o1)
    then show ?thesis
      by (cases rule: eo_begin_cases [of o1]) (auto simp: satisfied_left_def pending_hints_def registry_begin_def in_begin_def)
  qed
  show "length (filter is_satisfied_hint (fst (registry_drain g))) + satisfied_left (snd (registry_drain g)) \<le> satisfied_left g"
    using registry_drain_hints [of is_satisfied_hint g]
    by (simp add: satisfied_left_def)
      (auto simp: registry_drain_def eo_drain_def Let_def case_prod_beta split: option.splits)
qed

text \<open>
  Property C27: over any run of a loop, the nudge to implement and the hint that the task may already be done are
  each given at most once.
\<close>

theorem steering_hints_once:
  "length (filter is_implement_now (fst (run_source (registry_observe h) (registry_begin cfg) registry_drain ops
      (registry_for_loop signal oracle)))) \<le> 1
   \<and> length (filter is_satisfied_hint (fst (run_source (registry_observe h) (registry_begin cfg) registry_drain ops
      (registry_for_loop signal oracle)))) \<le> 1"
proof -
  let ?g = "registry_for_loop signal oracle"
  have "implement_now_left ?g \<le> 1" "satisfied_left ?g \<le> 1"
    by (auto simp: implement_now_left_def satisfied_left_def pending_hints_def registry_for_loop_def implement_now_new_def
        early_oracle_new_def split: option.splits)
  with ini.hints_bounded [of h cfg ops ?g] sat.hints_bounded [of h cfg ops ?g] show ?thesis by linarith
qed

end
