(* ===== verification/Input_Queue.thy ===== *)
theory Input_Queue
  imports Agent_Steering
begin

text \<open>
  The queue of user inputs for a running task (\<open>aura-agent/src/session/input_queue.rs\<close>).  The buffer is
  guarded by a mutex, the flag that says whether it holds anything is an atomic outside of it, so each
  operation is a sequence of sections between which other threads may run.
\<close>

(* src/crates/aura-agent/src/session/mod.rs:53-54 SessionId *)
type_synonym session_id = "128 word"

(* src/crates/aura-agent/src/agent_loop/task.rs:66-67 TaskId *)
type_synonym task_id = "128 word"

(* src/crates/aura-model-reasoner/src/response_stream.rs:89-126 StreamError *)
datatype stream_error =
    StreamError_TransportClosed string
  | StreamError_InvalidEvent string
  | StreamError_Timeout u64
  | StreamError_StreamAbortedWithPartial string "partial_tool_use option"

text \<open>The errors of the loop; the failure of a joined task is reduced to its message.\<close>

(* src/crates/aura-agent/src/lib.rs:104-199 AgentError *)
datatype agent_error =
    AgentError_Reason reasoner_error
  | AgentError_Kernel kernel_error
  | AgentError_Join string
  | AgentError_Model string
  | AgentError_ToolExecution string
  | AgentError_Timeout string
  | AgentError_BuildFailed string
  | AgentError_TurnBudgetExceeded task_id nat
  | AgentError_IterationBudgetExceeded task_id nat
  | AgentError_InputQueueClosed session_id
  | AgentError_StreamTimeout u64
  | AgentError_Stream stream_error
  | AgentError_Internal string

(* src/crates/aura-agent/src/session/input_queue.rs:69-91 UserInput *)
datatype user_input = Input_Message string | Input_Cancel | Input_Steer string

(* src/crates/aura-agent/src/session/input_queue.rs:98-118 InputQueue *)
record input_queue =
  iq_session_id :: session_id
  iq_inner :: "user_input list"
  iq_has_pending :: bool
  iq_closed :: bool
  iq_cancelled :: bool

(* src/crates/aura-agent/src/session/input_queue.rs:126-134 InputQueue::new *)
definition input_queue_new :: "session_id \<Rightarrow> input_queue" where
  "input_queue_new sid =
    \<lparr> iq_session_id = sid, iq_inner = [], iq_has_pending = False, iq_closed = False, iq_cancelled = False \<rparr>"

section \<open>Sections\<close>

(* src/crates/aura-agent/src/session/input_queue.rs:151-154 InputQueue::push *)
definition push_enqueue :: "user_input \<Rightarrow> input_queue \<Rightarrow> input_queue" where
  "push_enqueue x q = q \<lparr> iq_inner := iq_inner q @ [x] \<rparr>"

(* src/crates/aura-agent/src/session/input_queue.rs:155-162 InputQueue::push *)
definition push_flag :: "user_input \<Rightarrow> input_queue \<Rightarrow> input_queue" where
  "push_flag x q = q \<lparr> iq_has_pending := True, iq_cancelled := (iq_cancelled q \<or> x = Input_Cancel) \<rparr>"

(* src/crates/aura-agent/src/session/input_queue.rs:144-164 InputQueue::push *)
definition push_input :: "user_input \<Rightarrow> (input_queue, agent_error, unit) act" where
  "push_input x q =
    (if iq_closed q then (Inl (AgentError_InputQueueClosed (iq_session_id q)), q)
     else (Inr (), push_flag x (push_enqueue x q)))"

(* src/crates/aura-agent/src/session/input_queue.rs:171-174 InputQueue::drain *)
definition drain_take :: "input_queue \<Rightarrow> user_input list \<times> input_queue" where
  "drain_take q = (iq_inner q, q \<lparr> iq_inner := [] \<rparr>)"

(* src/crates/aura-agent/src/session/input_queue.rs:175-180 InputQueue::drain *)
definition drain_clear :: "input_queue \<Rightarrow> input_queue" where
  "drain_clear q = q \<lparr> iq_has_pending := False \<rparr>"

(* src/crates/aura-agent/src/session/input_queue.rs:170-181 InputQueue::drain *)
definition drain_inputs :: "input_queue \<Rightarrow> user_input list \<times> input_queue" where
  "drain_inputs q = (case drain_take q of (xs, q') \<Rightarrow> (xs, drain_clear q'))"

(* src/crates/aura-agent/src/session/input_queue.rs:198-200 InputQueue::close *)
definition close_queue :: "input_queue \<Rightarrow> input_queue" where
  "close_queue q = q \<lparr> iq_closed := True \<rparr>"

section \<open>Whole operations\<close>

text \<open>The flag is right: it is set exactly when the buffer holds something.\<close>

definition flag_ok :: "input_queue \<Rightarrow> bool" where
  "flag_ok q = (iq_has_pending q \<longleftrightarrow> iq_inner q \<noteq> [])"

lemma flag_ok_ops:
  "flag_ok (input_queue_new sid)" "flag_ok q \<Longrightarrow> flag_ok (snd (push_input x q))"
  "flag_ok (snd (drain_inputs q))" "flag_ok q \<Longrightarrow> flag_ok (close_queue q)"
  by (auto simp: flag_ok_def input_queue_new_def push_input_def push_flag_def push_enqueue_def drain_inputs_def
      drain_take_def drain_clear_def close_queue_def)

lemma push_then_drain:
  assumes "\<not> iq_closed q"
  shows "fst (drain_inputs (fold (\<lambda>x. snd \<circ> push_input x) xs q)) = iq_inner q @ xs"
  using assms
proof (induction xs arbitrary: q)
  case (Cons x xs)
  have "\<not> iq_closed (snd (push_input x q))" using Cons.prems by (simp add: push_input_def push_flag_def push_enqueue_def)
  from Cons.IH [OF this] Cons.prems show ?case by (simp add: push_input_def push_flag_def push_enqueue_def)
qed (simp add: drain_inputs_def drain_take_def)

section \<open>Interleaved operations\<close>

datatype queue_section = Sec_Enqueue user_input | Sec_Flag user_input | Sec_Take | Sec_Clear

fun run_section :: "queue_section \<Rightarrow> input_queue \<Rightarrow> input_queue" where
  "run_section (Sec_Enqueue x) q = push_enqueue x q"
| "run_section (Sec_Flag x) q = push_flag x q"
| "run_section Sec_Take q = snd (drain_take q)"
| "run_section Sec_Clear q = drain_clear q"

lemma sections_sequential:
  "fold run_section [Sec_Take, Sec_Clear] q = snd (drain_inputs q)"
  "\<not> iq_closed q \<Longrightarrow> fold run_section [Sec_Enqueue x, Sec_Flag x] q = snd (push_input x q)"
  by (simp_all add: drain_inputs_def push_input_def case_prod_beta)

text \<open>
  Property C28: an input can get lost between a drain and the end of a turn.  Of all interleavings of
  one drain with one push on a queue, exactly one leaves an input in the buffer while the flag says
  that nothing is pending: the push falls between the section that empties the buffer and the one
  that clears the flag.  The loop reads only the flag, so it ends without the input.
\<close>

theorem queue_loses_input:
  assumes "zs \<in> shuffles [Sec_Take, Sec_Clear] [Sec_Enqueue x, Sec_Flag x]" "flag_ok q"
  shows "iq_inner (fold run_section zs q) \<noteq> [] \<and> \<not> iq_has_pending (fold run_section zs q)
    \<longleftrightarrow> zs = [Sec_Take, Sec_Enqueue x, Sec_Flag x, Sec_Clear]"
  using assms
  by (auto simp: push_enqueue_def push_flag_def drain_take_def drain_clear_def flag_ok_def)

theorem queue_loses_input_witness:
  "\<exists>zs \<in> shuffles [Sec_Take, Sec_Clear] [Sec_Enqueue (Input_Message ''stop''), Sec_Flag (Input_Message ''stop'')].
     \<not> iq_has_pending (fold run_section zs (input_queue_new 1)) \<and> iq_inner (fold run_section zs (input_queue_new 1)) \<noteq> []"
proof -
  let ?x = "Input_Message ''stop''"
  let ?zs = "[Sec_Take, Sec_Enqueue ?x, Sec_Flag ?x, Sec_Clear]"
  have zs: "?zs \<in> shuffles [Sec_Take, Sec_Clear] [Sec_Enqueue ?x, Sec_Flag ?x]" by simp
  from queue_loses_input [OF this flag_ok_ops(1) [of 1]] zs show ?thesis by blast
qed

end
