(* ===== verification/Tool_Cache.thy ===== *)
theory Tool_Cache
  imports Input_Queue Text_Split
begin

text \<open>
  The cache of tool results that one run of the agent loop keeps
  (\<open>aura-agent/src/agent_loop/tool_execution.rs\<close>, \<open>search_cache.rs\<close>, \<open>cache.rs\<close>): exact hits, windows cut out
  of earlier reads, normalised searches, and the invalidation after writes.  \<open>read_output\<close> is the tool
  whose results the windows stand for (\<open>aura-tools/src/fs_tools/read.rs\<close>).
\<close>

section \<open>Paths\<close>

(* src/crates/aura-agent/src/agent_loop/tool_execution.rs:182-186 canonical_tool_path *)
definition canonical_tool_path :: "string \<Rightarrow> string" where
  "canonical_tool_path path =
    trim_end_char (CHR ''/'') (trim_start_str ''./'' (map (\<lambda>c. if c = CHR 0x5C then CHR ''/'' else c) path))"

(* src/crates/aura-agent/src/agent_loop/tool_execution.rs:191-197 extract_path_arg *)
definition extract_path_arg :: "json \<Rightarrow> string option" where
  "extract_path_arg input =
    (case Option.bind (json_get input ''path'') json_as_str of
       None \<Rightarrow> None
     | Some p \<Rightarrow> (let raw = trim p in if raw = [] then None else Some (canonical_tool_path raw)))"

(* src/crates/aura-agent/src/agent_loop/tool_execution.rs:427-437 paths_overlap *)
definition paths_overlap :: "string \<Rightarrow> string \<Rightarrow> bool" where
  "paths_overlap a b =
    (if a = [] \<or> b = [] then False
     else a = b \<or> prefix (path_components b) (path_components a) \<or> prefix (path_components a) (path_components b))"

section \<open>Windows of a file\<close>

(* src/crates/aura-agent/src/agent_loop/cache.rs:61-66 ReadRangeEntry *)
record read_range_entry =
  rg_start_line :: "nat option"
  rg_end_line :: "nat option"
  rg_rendered :: string

(* src/crates/aura-agent/src/agent_loop/cache.rs:33-50 ToolResultCache *)
record tool_result_cache =
  tc_exact :: "string \<rightharpoonup> string"
  tc_fuzzy :: "string \<rightharpoonup> string"
  tc_read_file_by_path :: "string \<rightharpoonup> read_range_entry list"

definition tool_result_cache_default :: tool_result_cache where
  "tool_result_cache_default = \<lparr> tc_exact = Map.empty, tc_fuzzy = Map.empty, tc_read_file_by_path = Map.empty \<rparr>"

(* src/crates/aura-agent/src/agent_loop/tool_execution.rs:202-213 read_file_window *)
definition read_file_window :: "json \<Rightarrow> (string \<times> nat option \<times> nat option) option" where
  "read_file_window input =
    map_option (\<lambda>path. (path,
      map_option unat (Option.bind (json_get input ''start_line'') json_as_u64),
      map_option unat (Option.bind (json_get input ''end_line'') json_as_u64))) (extract_path_arg input)"

definition or_default :: "'a \<Rightarrow> 'a option \<Rightarrow> 'a" where
  "or_default d x = (case x of Some y \<Rightarrow> y | None \<Rightarrow> d)"

lemma or_default_simps [simp]: "or_default d None = d" "or_default d (Some y) = y"
  by (simp_all add: or_default_def)

(* src/crates/aura-agent/src/agent_loop/tool_execution.rs:220-230 entry_covers *)
definition entry_covers :: "read_range_entry \<Rightarrow> nat option \<Rightarrow> nat option \<Rightarrow> bool" where
  "entry_covers entry req_start req_end =
    (if rg_start_line entry = None \<and> rg_end_line entry = None then True
     else or_default 1 (rg_start_line entry) \<le> max (or_default 1 req_start) 1
        \<and> or_default usize_max req_end \<le> or_default usize_max (rg_end_line entry))"

(* src/crates/aura-agent/src/agent_loop/tool_execution.rs:292-305 slice_line_numbered *)
definition slice_line_numbered :: "string \<Rightarrow> nat \<Rightarrow> nat \<Rightarrow> string option" where
  "slice_line_numbered text want_start want_end =
    (let kept = filter (\<lambda>row. case split_once (CHR ''|'') row of
                   None \<Rightarrow> False
                 | Some (p, _) \<Rightarrow> (case parse_usize (trim p) of
                                    None \<Rightarrow> False
                                  | Some n \<Rightarrow> want_start \<le> n \<and> n \<le> want_end)) (split_on (CHR 0x0A) text) in
     if kept = [] then None else Some (str_join nl kept))"

definition number_lines :: "nat \<Rightarrow> string list \<Rightarrow> string list" where
  "number_lines start ls = map (\<lambda>(i, line). pad6 (start + i) @ ''|'' @ line) (enumerate 0 ls)"

(* src/crates/aura-agent/src/agent_loop/tool_execution.rs:307-328 slice_raw_to_line_numbered *)
definition slice_raw_to_line_numbered :: "string \<Rightarrow> nat \<Rightarrow> nat \<Rightarrow> string option" where
  "slice_raw_to_line_numbered text want_start want_end =
    (let lines = str_lines text; total = length lines in
     if total = 0 \<or> total < want_start then None
     else (let e = min want_end total; s = max want_start 1 in
           if e < s then None
           else Some (str_join nl (number_lines s (take (e - (s - 1)) (drop (s - 1) lines))))))"

definition READ_TRUNCATION :: string where
  "READ_TRUNCATION = nl @ ''... [truncated''"

(* src/crates/aura-agent/src/agent_loop/tool_execution.rs:269-290 slice_entry *)
definition slice_entry :: "read_range_entry \<Rightarrow> nat option \<Rightarrow> nat option \<Rightarrow> string option" where
  "slice_entry entry req_start req_end =
    (if sublist READ_TRUNCATION (rg_rendered entry) then None
     else (let want_start = max (or_default 1 req_start) 1; want_end = or_default usize_max req_end in
           if want_end < want_start then None
           else if rg_start_line entry = None \<and> rg_end_line entry = None
           then slice_raw_to_line_numbered (rg_rendered entry) want_start want_end
           else slice_line_numbered (rg_rendered entry) want_start want_end))"

(* src/crates/aura-agent/src/agent_loop/tool_execution.rs:238-246 range_cache_lookup *)
fun first_slice :: "read_range_entry list \<Rightarrow> nat option \<Rightarrow> nat option \<Rightarrow> string option" where
  "first_slice [] s e = None"
| "first_slice (entry # rest) s e =
    (if \<not> entry_covers entry s e then first_slice rest s e
     else (case slice_entry entry s e of Some out \<Rightarrow> Some out | None \<Rightarrow> first_slice rest s e))"

(* src/crates/aura-agent/src/agent_loop/tool_execution.rs:235-247 range_cache_lookup *)
definition range_cache_lookup :: "tool_result_cache \<Rightarrow> json \<Rightarrow> string option" where
  "range_cache_lookup cache input =
    (case read_file_window input of
       None \<Rightarrow> None
     | Some (path, s, e) \<Rightarrow>
         (case tc_read_file_by_path cache path of None \<Rightarrow> None | Some entries \<Rightarrow> first_slice entries s e))"

(* src/crates/aura-agent/src/agent_loop/tool_execution.rs:364-373 entry_strictly_covers *)
definition entry_strictly_covers :: "read_range_entry \<Rightarrow> read_range_entry \<Rightarrow> bool" where
  "entry_strictly_covers outer inner =
    (if rg_start_line outer = None \<and> rg_end_line outer = None then True
     else or_default 1 (rg_start_line outer) \<le> or_default 1 (rg_start_line inner)
        \<and> or_default usize_max (rg_end_line inner) \<le> or_default usize_max (rg_end_line outer))"

(* src/crates/aura-agent/src/agent_loop/tool_execution.rs:346-358 insert_read_range_entry *)
definition insert_read_range_entry :: "json \<Rightarrow> string \<Rightarrow> tool_result_cache \<Rightarrow> tool_result_cache" where
  "insert_read_range_entry input text cache =
    (case read_file_window input of
       None \<Rightarrow> cache
     | Some (path, s, e) \<Rightarrow>
         (let new = \<lparr> rg_start_line = s, rg_end_line = e, rg_rendered = text \<rparr>;
              entries = or_default [] (tc_read_file_by_path cache path) in
          cache \<lparr> tc_read_file_by_path := (tc_read_file_by_path cache)
                    (path \<mapsto> filter (\<lambda>old. \<not> entry_strictly_covers new old) entries @ [new]) \<rparr>))"

section \<open>Normalised searches\<close>

(* src/crates/aura-agent/src/agent_loop/search_cache.rs:53-58 value_to_display *)
fun value_to_display :: "json_text \<Rightarrow> json \<Rightarrow> string" where
  "value_to_display L (J_String s) = s"
| "value_to_display L v = jt_display L v"

(* src/crates/aura-agent/src/agent_loop/search_cache.rs:60-63 normalize_scalar *)
definition normalize_scalar :: "string option \<Rightarrow> string" where
  "normalize_scalar raw = or_default [] (map_option (\<lambda>s. map ascii_lower (trim s)) raw)"

(* src/crates/aura-agent/src/agent_loop/search_cache.rs:65-75 normalize_path *)
definition normalize_path :: "string option \<Rightarrow> string" where
  "normalize_path raw =
    (case raw of
       None \<Rightarrow> []
     | Some r \<Rightarrow> (let trimmed = trim r in
         if trimmed = [] then []
         else map ascii_lower (trim_end_char (CHR ''/'') (map (\<lambda>c. if c = CHR 0x5C then CHR ''/'' else c) trimmed))))"

(* src/crates/aura-agent/src/agent_loop/search_cache.rs:87-103 normalize_pattern *)
definition normalize_pattern :: "string option \<Rightarrow> string" where
  "normalize_pattern raw =
    (case raw of
       None \<Rightarrow> []
     | Some r \<Rightarrow>
         (let pieces = filter (\<lambda>p. p \<noteq> []) (map (\<lambda>p. map ascii_lower (trim p)) (split_on (CHR ''|'') r)) in
          str_join ''|'' (sorted_list_of_set (set pieces))))"

(* src/crates/aura-agent/src/agent_loop/search_cache.rs:105-107 build_key *)
definition build_key :: "string \<Rightarrow> string \<Rightarrow> string \<Rightarrow> string \<Rightarrow> string \<Rightarrow> string" where
  "build_key tool pattern include path ctx =
    tool @ CHR 0x00 # ''pattern='' @ pattern @ CHR 0x00 # ''include='' @ include @ CHR 0x00 # ''path='' @ path
      @ CHR 0x00 # ''ctx='' @ ctx"

(* src/crates/aura-agent/src/agent_loop/search_cache.rs:26-51 normalized_search_key *)
definition normalized_search_key :: "json_text \<Rightarrow> string \<Rightarrow> json \<Rightarrow> string option" where
  "normalized_search_key L tool input =
    (let str = (\<lambda>k. Option.bind (json_get input k) json_as_str) in
     if tool = ''search_code''
     then Some (build_key ''search_code'' (normalize_pattern (str ''pattern'')) (normalize_scalar (str ''include''))
       (normalize_path (str ''path'')) (normalize_scalar (map_option (value_to_display L) (json_get input ''context_lines''))))
     else if tool = ''find_files''
     then Some (build_key ''find_files''
       (normalize_pattern (case str ''pattern'' of Some p \<Rightarrow> Some p | None \<Rightarrow> str ''glob'')) []
       (normalize_path (str ''path'')) [])
     else None)"

section \<open>Lookup\<close>

(* src/crates/aura-config/src/tools.rs:54-57 tool_result_cache_key *)
definition tool_result_cache_key :: "json_text \<Rightarrow> string \<Rightarrow> json \<Rightarrow> string" where
  "tool_result_cache_key L tool_name input =
    tool_name @ CHR 0x00 # (case jt_to_string L input of Inr t \<Rightarrow> t | Inl _ \<Rightarrow> jt_debug L input)"

(* src/crates/aura-agent/src/agent_loop/tool_execution.rs:23-25 is_cacheable *)
definition is_cacheable :: "string \<Rightarrow> bool" where
  "is_cacheable tool_name = (tool_name \<in> set CACHEABLE_TOOLS)"

(* src/crates/aura-agent/src/agent_loop/tool_execution.rs:115-125 cached_tool_result *)
definition cached_tool_result :: "tool_call_info \<Rightarrow> string \<Rightarrow> tool_call_result" where
  "cached_tool_result call content =
    \<lparr> tr_tool_use_id = ti_id call, tr_content = content, tr_is_error = False, tr_kind = ResultKind_Ok,
      tr_stop_loop = False, tr_file_changes = [], tr_image = None \<rparr>"

(* src/crates/aura-agent/src/agent_loop/tool_execution.rs:57-109 split_cached *)
definition cache_hit :: "json_text \<Rightarrow> tool_result_cache \<Rightarrow> tool_call_info \<Rightarrow> string option" where
  "cache_hit L cache call =
    (if \<not> is_cacheable (ti_name call) then None
     else (case tc_exact cache (tool_result_cache_key L (ti_name call) (ti_input call)) of
             Some hit \<Rightarrow> Some hit
           | None \<Rightarrow>
               (case (if ti_name call = ''read_file'' then range_cache_lookup cache (ti_input call) else None) of
                  Some hit \<Rightarrow> Some hit
                | None \<Rightarrow> Option.bind (normalized_search_key L (ti_name call) (ti_input call)) (tc_fuzzy cache))))"

(* src/crates/aura-agent/src/agent_loop/tool_execution.rs:50-113 split_cached *)
fun split_cached :: "json_text \<Rightarrow> tool_call_info list \<Rightarrow> tool_result_cache \<Rightarrow> tool_call_result list \<times> tool_call_info list" where
  "split_cached L [] cache = ([], [])"
| "split_cached L (call # calls) cache =
    (let (cached, uncached) = split_cached L calls cache in
     case cache_hit L cache call of
       Some content \<Rightarrow> (cached_tool_result call content # cached, uncached)
     | None \<Rightarrow> (cached, call # uncached))"

section \<open>Update\<close>

(* src/crates/aura-agent/src/agent_loop/tool_execution.rs:419-422 cached_input_path *)
definition cached_input_path :: "json_text \<Rightarrow> string \<Rightarrow> string option" where
  "cached_input_path L canonical_input =
    (case jt_from_str L canonical_input of Inr v \<Rightarrow> extract_path_arg v | Inl _ \<Rightarrow> None)"

(* src/crates/aura-agent/src/agent_loop/tool_execution.rs:392-414 invalidate_on_writes *)
definition invalidate_on_writes :: "json_text \<Rightarrow> string list \<Rightarrow> tool_result_cache \<Rightarrow> tool_result_cache" where
  "invalidate_on_writes L write_paths cache =
    cache \<lparr>
      tc_exact := (\<lambda>key. case split_once (CHR 0x00) key of
          None \<Rightarrow> tc_exact cache key
        | Some (tool_name, canonical) \<Rightarrow>
            if tool_name = ''search_code'' \<or> tool_name = ''find_files''
               \<or> (case cached_input_path L canonical of
                    Some p \<Rightarrow> list_ex (\<lambda>w. paths_overlap w p) write_paths | None \<Rightarrow> False)
            then None else tc_exact cache key),
      tc_fuzzy := Map.empty,
      tc_read_file_by_path := (\<lambda>path. if list_ex (\<lambda>w. paths_overlap w path) write_paths then None
                                        else tc_read_file_by_path cache path) \<rparr>"

(* src/crates/aura-agent/src/agent_loop/tool_execution.rs:132-146 update_cache *)
definition written_paths :: "tool_call_info list \<Rightarrow> tool_call_result list \<Rightarrow> string list" where
  "written_paths uncached executed =
    List.map_filter (\<lambda>tc. if \<not> is_write_tool (ti_name tc) then None
      else if \<not> list_ex (\<lambda>r. tr_tool_use_id r = ti_id tc \<and> \<not> tr_is_error r) executed then None
      else extract_path_arg (ti_input tc)) uncached"

(* src/crates/aura-agent/src/agent_loop/tool_execution.rs:156-169 update_cache *)
definition store_result :: "json_text \<Rightarrow> tool_call_info list \<Rightarrow> tool_call_result \<Rightarrow> tool_result_cache \<Rightarrow> tool_result_cache" where
  "store_result L uncached r cache =
    (case find (\<lambda>t. ti_id t = tr_tool_use_id r) uncached of
       None \<Rightarrow> cache
     | Some tc \<Rightarrow>
         if \<not> is_cacheable (ti_name tc) \<or> tr_is_error r then cache
         else (let c1 = cache \<lparr> tc_exact := (tc_exact cache)
                          (tool_result_cache_key L (ti_name tc) (ti_input tc) \<mapsto> tr_content r) \<rparr>;
                   c2 = (case normalized_search_key L (ti_name tc) (ti_input tc) of
                           Some k \<Rightarrow> c1 \<lparr> tc_fuzzy := (tc_fuzzy c1)(k \<mapsto> tr_content r) \<rparr>
                         | None \<Rightarrow> c1) in
               if ti_name tc = ''read_file'' then insert_read_range_entry (ti_input tc) (tr_content r) c2 else c2))"

(* src/crates/aura-agent/src/agent_loop/tool_execution.rs:127-170 update_cache *)
definition update_cache ::
  "json_text \<Rightarrow> tool_call_info list \<Rightarrow> tool_call_result list \<Rightarrow> tool_result_cache \<Rightarrow> tool_result_cache" where
  "update_cache L uncached executed cache =
    (let ws = written_paths uncached executed;
         cache' = (if ws = [] then cache else invalidate_on_writes L ws cache) in
     fold (store_result L uncached) executed cache')"

section \<open>What a read returns\<close>

(* src/crates/aura-tools/src/fs_tools/read.rs:28-32 truncation_marker *)
definition read_truncation_marker :: "nat \<Rightarrow> nat \<Rightarrow> string" where
  "read_truncation_marker dropped bytes1 =
    READ_TRUNCATION @ '' '' @ nat_str dropped @ '' of '' @ nat_str bytes1
      @ '' bytes; use start_line/end_line for slicing or pass max_bytes to read more.]''"

text \<open>
  The text that \<open>fs_read\<close> returns for a file with the given contents; \<open>None\<close> is the panic of a slice whose
  end lies before its start.  The decoder \<open>from_utf8_lossy\<close> is a parameter.
\<close>

(* src/crates/aura-tools/src/fs_tools/read.rs:61-131 fs_read *)
definition read_output :: "(string \<Rightarrow> string) \<Rightarrow> string \<Rightarrow> nat \<Rightarrow> nat option \<Rightarrow> nat option \<Rightarrow> string option" where
  "read_output lossy file max_bytes start_line end_line =
    (let size = length file; read_len = min size max_bytes;
         contents = take read_len file @ (if max_bytes < size then read_truncation_marker (size - read_len) size else []) in
     if start_line = None \<and> end_line = None then Some (lossy contents)
     else (let lines = str_lines (lossy contents); total = length lines;
               s = max (or_default 1 start_line) 1; e = min (or_default total end_line) total in
           if total < s
           then Some (''(file has '' @ nat_str total @ '' lines, requested start_line='' @ nat_str s @ '')'')
           else if e < s - 1 then None
           else (let out = str_join nl (number_lines s (take (e - (s - 1)) (drop (s - 1) lines))) in
                 if max_bytes < length out
                 then (let idx = floor_boundary out max_bytes in
                       Some (take idx out @ read_truncation_marker (length out - idx) (length out)))
                 else Some out)))"

section \<open>Windows are what a read would return\<close>

definition numbered :: "string list \<Rightarrow> nat \<Rightarrow> nat \<Rightarrow> string list" where
  "numbered L a b = map (\<lambda>i. pad6 i @ ''|'' @ L ! (i - 1)) [a..<Suc b]"

lemma number_lines_numbered:
  assumes "1 \<le> a" "a - 1 \<le> b" "b \<le> length L"
  shows "number_lines a (take (b - (a - 1)) (drop (a - 1) L)) = numbered L a b"
  by (rule nth_equalityI) (use assms in \<open>auto simp: number_lines_def numbered_def nth_enumerate_eq add.commute simp del: upt_Suc\<close>)

lemma filter_between_upt: "filter (\<lambda>i. p \<le> i \<and> i \<le> q) [a..<b] = [max a p..<min b (Suc q)]"
  by (rule sorted_distinct_set_unique) (auto intro: sorted_wrt_filter)

lemma split_once_none: "c \<notin> set s \<Longrightarrow> split_once c s = None"
  by (auto simp: split_once_def dropWhile_eq_Nil_conv split: list.splits dest: set_dropWhileD [of c]) (metis (mono_tags, lifting) dropWhile_eq_Nil_conv list.discI)

lemma slice_numbered:
  assumes "1 \<le> a" "a \<le> b" "b \<le> length L" "length L < 2 ^ 64" "\<And>l. l \<in> set L \<Longrightarrow> CHR 0x0A \<notin> set l"
  shows "slice_line_numbered (str_join nl (numbered L a b)) ws we =
    (if max a ws \<le> min b we then Some (str_join nl (numbered L (max a ws) (min b we))) else None)"
proof -
  let ?P = "\<lambda>row. case split_once (CHR ''|'') row of None \<Rightarrow> False
     | Some (p, _) \<Rightarrow> (case parse_usize (trim p) of None \<Rightarrow> False | Some n \<Rightarrow> ws \<le> n \<and> n \<le> we)"
  let ?row = "\<lambda>i. pad6 i @ ''|'' @ L ! (i - 1)"
  have rows: "split_on (CHR 0x0A) (str_join nl (numbered L a b)) = numbered L a b"
    unfolding nl_def
  proof (rule split_on_join)
    show "numbered L a b \<noteq> []" using assms by (simp add: numbered_def)
    show "CHR 0x0A \<notin> set x" if "x \<in> set (numbered L a b)" for x
      using that assms pad6_free [of "CHR 0x0A"] by (auto simp: numbered_def)
  qed
  have P: "?P (?row i) \<longleftrightarrow> ws \<le> i \<and> i \<le> we" if "i \<in> set [a..<Suc b]" for i
  proof -
    have "i \<le> length L" using that assms(2,3) by auto
    then have "i < 2 ^ 64" using assms(4) by linarith
    then show ?thesis using parse_pad6 [of i] pad6_free [of "CHR ''|''" i] by simp
  qed
  have "filter ?P (numbered L a b) = map ?row (filter (\<lambda>i. ws \<le> i \<and> i \<le> we) [a..<Suc b])"
    unfolding numbered_def filter_map comp_def by (rule arg_cong [of _ _ "map ?row"], rule filter_cong [OF refl], rule P)
  also have "\<dots> = numbered L (max a ws) (min b we)"
    by (simp only: filter_between_upt numbered_def min_Suc_Suc)
  finally show ?thesis
    by (simp add: slice_line_numbered_def rows Let_def) (simp add: numbered_def)
qed

lemma sublist_marker: "sublist READ_TRUNCATION (x @ read_truncation_marker d t)"
  by (simp add: read_truncation_marker_def sublist_append_leftI sublist_append_rightI)

lemma slice_no_rows: "CHR ''|'' \<notin> set s \<Longrightarrow> slice_line_numbered s ws we = None"
proof -
  assume "CHR ''|'' \<notin> set s"
  then have "CHR ''|'' \<notin> set r" if "r \<in> set (split_on (CHR 0x0A) s)" for r
    using that by (induction s arbitrary: r) (auto split: if_splits list.splits)
  then have "split_once (CHR ''|'') r = None" if "r \<in> set (split_on (CHR 0x0A) s)" for r
    using that by (simp add: split_once_none)
  then show ?thesis by (simp add: slice_line_numbered_def Let_def filter_empty_conv)
qed

text \<open>The window that a read numbers, and the window that a request asks of the cache.\<close>

lemma read_output_window:
  assumes "lossy file = file" "length file \<le> mb" "s \<noteq> None \<or> e \<noteq> None" "L = str_lines file"
    "a = max (or_default 1 s) 1" "b = min (or_default (length L) e) (length L)"
  shows "read_output lossy file mb s e =
    (if length L < a then Some (''(file has '' @ nat_str (length L) @ '' lines, requested start_line='' @ nat_str a @ '')'')
     else if b < a - 1 then None
     else (let out = str_join nl (numbered L a b) in
           if mb < length out
           then (let idx = floor_boundary out mb in Some (take idx out @ read_truncation_marker (length out - idx) (length out)))
           else Some out))"
proof -
  have "number_lines a (take (b - (a - 1)) (drop (a - 1) L)) = numbered L a b" if "\<not> length L < a" "\<not> b < a - 1"
    by (rule number_lines_numbered) (use that assms(5,6) in auto)
  with assms show ?thesis by (auto simp: read_output_def Let_def)
qed

lemma read_window_rows:
  assumes "lossy file = file" "length file \<le> mb" "s \<noteq> None \<or> e \<noteq> None" "L = str_lines file"
    "a = max (or_default 1 s) 1" "b = min (or_default (length L) e) (length L)"
    and "read_output lossy file mb s e = Some r" "CHR ''|'' \<in> set r" "\<not> sublist READ_TRUNCATION r"
  shows "r = str_join nl (numbered L a b) \<and> a \<le> length L \<and> a - 1 \<le> b"
proof -
  have bar: "CHR ''|'' \<notin> set (nat_str n)" for n
    using nat_str_digits [of n] by (auto simp: list_all_iff is_digit_def)
  note r = read_output_window [of lossy "file" mb s e, OF assms(1-6), unfolded assms(7)]
  have "a \<le> length L" using r assms(8) bar by (intro leI notI) simp
  moreover from r this have "a - 1 \<le> b" by (intro leI notI) simp
  moreover from r calculation sublist_marker assms(9) have "r = str_join nl (numbered L a b)"
    by (auto simp: Let_def split: if_splits)
  ultimately show ?thesis by simp
qed

lemma slice_entry_window:
  assumes "slice_entry entry s e = Some out"
  shows "\<not> sublist READ_TRUNCATION (rg_rendered entry)"
    "(if rg_start_line entry = None \<and> rg_end_line entry = None then slice_raw_to_line_numbered else slice_line_numbered)
       (rg_rendered entry) (max (or_default 1 s) 1) (or_default usize_max e) = Some out"
  using assms by (auto simp: slice_entry_def Let_def split: if_splits)

lemma slice_is_read:
  assumes fl: "lossy file = file" "length file \<le> mb0" "length file \<le> mb" "length (str_lines file) < 2 ^ 64"
    and entry: "read_output lossy file mb0 (rg_start_line entry) (rg_end_line entry) = Some (rg_rendered entry)"
    and hit: "entry_covers entry s e" "slice_entry entry s e = Some out"
    and req: "s \<noteq> None \<or> e \<noteq> None" "length out \<le> mb"
  shows "read_output lossy file mb s e = Some out"
proof -
  define L where "L = str_lines file"
  define a where "a = max (or_default 1 s) 1"
  define we where "we = or_default usize_max e"
  define b where "b = min (or_default (length L) e) (length L)"
  have b: "b = min we (length L)"
    using fl(4) by (cases e) (auto simp: b_def we_def L_def usize_max_def)
  note slice = slice_entry_window [OF hit(2), folded a_def we_def]
  have out: "out = str_join nl (numbered L a b) \<and> a \<le> b"
  proof (cases "rg_start_line entry = None \<and> rg_end_line entry = None")
    case True
    then have "rg_rendered entry = file" using entry fl(1,2) by (simp add: read_output_def Let_def)
    with slice(2) True have "\<not> length L < a" "\<not> b < a"
      "out = str_join nl (number_lines a (take (b - (a - 1)) (drop (a - 1) L)))"
      by (auto simp: slice_raw_to_line_numbered_def Let_def L_def b a_def split: if_splits)
    moreover have "1 \<le> a" "b \<le> length L" by (simp_all add: a_def b_def)
    moreover have "a - 1 \<le> b" using \<open>\<not> b < a\<close> by linarith
    ultimately show ?thesis using number_lines_numbered [of a b L] by simp
  next
    case False
    define a0 where "a0 = max (or_default 1 (rg_start_line entry)) 1"
    define b0 where "b0 = min (or_default (length L) (rg_end_line entry)) (length L)"
    have num: "slice_line_numbered (rg_rendered entry) a we = Some out" using slice(2) False by auto
    then have bar: "CHR ''|'' \<in> set (rg_rendered entry)" using slice_no_rows by fastforce
    have "rg_start_line entry \<noteq> None \<or> rg_end_line entry \<noteq> None" using False by simp
    from read_window_rows [of lossy "file" mb0, OF fl(1,2) this L_def a0_def b0_def entry bar slice(1)]
    have "rg_rendered entry = str_join nl (numbered L a0 b0)" "a0 \<le> length L" by simp_all
    moreover from this bar have ab: "a0 \<le> b0" by (rule_tac ccontr) (auto simp: numbered_def)
    ultimately have "max a0 a \<le> min b0 we" "out = str_join nl (numbered L (max a0 a) (min b0 we))"
      using slice_numbered [of a0 b0 L a we] num fl(4) str_lines_free
      by (auto simp: a0_def b0_def L_def split: if_splits)
    moreover have "max a0 a = a" "min b0 we = b"
      using hit(1) False b by (auto simp: entry_covers_def a0_def a_def b0_def we_def usize_max_def or_default_def
          split: option.splits if_splits)
    ultimately show ?thesis by simp
  qed
  then have "\<not> length L < a" "\<not> b < a - 1" "\<not> mb < length (str_join nl (numbered L a b))"
    using req(2) by (auto simp: b_def)
  with read_output_window [of lossy "file" mb, OF fl(1,3) req(1) L_def a_def b_def] out show ?thesis by (simp add: Let_def)
qed

lemma first_slice_hit:
  "first_slice entries s e = Some out \<Longrightarrow> \<exists>entry \<in> set entries. entry_covers entry s e \<and> slice_entry entry s e = Some out"
  by (induction entries s e rule: first_slice.induct) (auto split: if_splits option.splits)


definition demo_file :: string where
  "demo_file = str_join nl [''alpha'', ''beta'', ''gamma'']"

definition demo_cache :: tool_result_cache where
  "demo_cache = tool_result_cache_default \<lparr> tc_read_file_by_path :=
     [''a.txt'' \<mapsto> [\<lparr> rg_start_line = None, rg_end_line = None, rg_rendered = demo_file \<rparr>]] \<rparr>"

definition demo_read :: json where
  "demo_read = J_Object [(''path'', J_String ''./a.txt''), (''start_line'', J_Number (JN_PosInt 2)),
     (''end_line'', J_Number (JN_PosInt 3))]"

lemma demo_window: "read_file_window demo_read = Some (''a.txt'', Some 2, Some 3)"
  by (simp add: demo_read_def read_file_window_def extract_path_arg_def trim_def is_blank_def Let_def
      chars_ascii ascii_def is_continuation_def canonical_tool_path_def trim_end_char_def trim_start_str.simps)

lemma demo_hit: "range_cache_lookup demo_cache demo_read = Some (str_join nl [''     2|beta'', ''     3|gamma''])"
proof -
  have "CHR ''['' \<notin> set demo_file" "CHR ''['' \<in> set READ_TRUNCATION" by code_simp+
  then have "\<not> sublist READ_TRUNCATION demo_file" using set_mono_sublist by blast
  moreover have "slice_raw_to_line_numbered demo_file (Suc (Suc 0)) 3 = Some (str_join nl [''     2|beta'', ''     3|gamma''])"
    by code_simp
  ultimately show ?thesis
    by (simp add: range_cache_lookup_def demo_window demo_cache_def entry_covers_def slice_entry_def Let_def)
qed


section \<open>Invalidation\<close>

lemma in_map_filter: "y \<in> set (List.map_filter f xs) \<longleftrightarrow> (\<exists>x \<in> set xs. f x = Some y)"
  by (force simp: map_filter_def)

lemma cacheable_names: "is_cacheable n \<longleftrightarrow> n \<in> {''read_file'', ''list_files'', ''stat_file'', ''find_files'', ''search_code''}"
  by (auto simp: is_cacheable_def CACHEABLE_TOOLS_def)

lemma cacheable_no_nul: "is_cacheable n \<Longrightarrow> CHR 0x00 \<notin> set n"
  by (auto simp: cacheable_names)

lemma cache_key_split: "is_cacheable n \<Longrightarrow>
  split_once (CHR 0x00) (tool_result_cache_key L n input) =
    Some (n, case jt_to_string L input of Inr t \<Rightarrow> t | Inl _ \<Rightarrow> jt_debug L input)"
  by (simp add: tool_result_cache_key_def cacheable_no_nul)

lemma cache_key_other_tool:
  assumes "is_cacheable n" "is_cacheable m" "tool_result_cache_key L n x = tool_result_cache_key L m y"
  shows "n = m"
  using cache_key_split [OF assms(1), of L x] cache_key_split [OF assms(2), of L y] assms(3) by simp

lemma insert_read_range_frame [simp]:
  "tc_exact (insert_read_range_entry input text cache) = tc_exact cache"
  "tc_fuzzy (insert_read_range_entry input text cache) = tc_fuzzy cache"
  by (simp_all add: insert_read_range_entry_def Let_def split: option.splits)

definition path_scoped :: "string \<Rightarrow> bool" where
  "path_scoped name = (name \<in> {''read_file'', ''list_files'', ''stat_file''})"

lemma path_scoped_cacheable: "path_scoped n \<Longrightarrow> is_cacheable n"
  by (auto simp: path_scoped_def cacheable_names)

lemma path_scoped_no_search: "path_scoped n \<Longrightarrow> normalized_search_key L n input = None"
  by (auto simp: path_scoped_def normalized_search_key_def)

text \<open>What a lookup of a path-scoped call reads of the cache.\<close>

lemma cache_hit_path_scoped:
  assumes "path_scoped (ti_name q)"
  shows "cache_hit L cache q =
    (case tc_exact cache (tool_result_cache_key L (ti_name q) (ti_input q)) of
       Some hit \<Rightarrow> Some hit
     | None \<Rightarrow> if ti_name q = ''read_file'' then range_cache_lookup cache (ti_input q) else None)"
  using assms by (auto simp: cache_hit_def path_scoped_cacheable path_scoped_no_search split: option.splits)

lemma store_result_exact:
  assumes "find (\<lambda>t. ti_id t = tr_tool_use_id r) uncached = Some tc"
  shows "tc_exact (store_result L uncached r cache) =
    (if is_cacheable (ti_name tc) \<and> \<not> tr_is_error r
     then (tc_exact cache)(tool_result_cache_key L (ti_name tc) (ti_input tc) \<mapsto> tr_content r) else tc_exact cache)"
  unfolding store_result_def assms by (cases "normalized_search_key L (ti_name tc) (ti_input tc)") (simp_all add: Let_def)

lemma store_result_paths:
  assumes "find (\<lambda>t. ti_id t = tr_tool_use_id r) uncached = Some tc" "ti_name tc \<noteq> ''read_file''"
  shows "tc_read_file_by_path (store_result L uncached r cache) = tc_read_file_by_path cache"
  using assms(2) unfolding store_result_def assms(1)
  by (cases "normalized_search_key L (ti_name tc) (ti_input tc)") (simp_all add: Let_def)

lemma store_result_other_tool:
  assumes "path_scoped (ti_name q)"
    "\<And>tc. find (\<lambda>t. ti_id t = tr_tool_use_id r) uncached = Some tc \<Longrightarrow> ti_name tc \<noteq> ti_name q"
  shows "cache_hit L (store_result L uncached r cache) q = cache_hit L cache q"
proof (cases "find (\<lambda>t. ti_id t = tr_tool_use_id r) uncached")
  case (Some tc)
  let ?k = "tool_result_cache_key L (ti_name q) (ti_input q)"
  have other: "tool_result_cache_key L (ti_name tc) (ti_input tc) \<noteq> ?k" if "is_cacheable (ti_name tc)"
    using cache_key_other_tool [OF that path_scoped_cacheable [OF assms(1)]] assms(2) [OF Some] by (rule_tac notI) simp
  have "tc_exact (store_result L uncached r cache) ?k = tc_exact cache ?k"
    unfolding store_result_exact [OF Some]
    by (cases "is_cacheable (ti_name tc)") (simp_all only: simp_thms if_False if_True fun_upd_other [OF not_sym [OF other]] split: if_split)
  moreover have "tc_read_file_by_path (store_result L uncached r cache) = tc_read_file_by_path cache"
    if "ti_name q = ''read_file''"
    using store_result_paths [OF Some] assms(2) [OF Some] unfolding that by blast
  ultimately show ?thesis
    by (cases "ti_name q = ''read_file''") (simp_all add: cache_hit_path_scoped [OF assms(1)] range_cache_lookup_def split: option.split)
qed (simp add: store_result_def)

lemma fold_store_other_tool:
  assumes "path_scoped (ti_name q)"
    "\<And>r tc. r \<in> set rs \<Longrightarrow> find (\<lambda>t. ti_id t = tr_tool_use_id r) uncached = Some tc \<Longrightarrow> ti_name tc \<noteq> ti_name q"
  shows "cache_hit L (fold (store_result L uncached) rs cache) q = cache_hit L cache q"
  using assms(2)
proof (induction rs arbitrary: cache)
  case (Cons r rs)
  have "cache_hit L (fold (store_result L uncached) rs (store_result L uncached r cache)) q
      = cache_hit L (store_result L uncached r cache) q"
    by (rule Cons.IH) (use Cons.prems in auto)
  also have "\<dots> = cache_hit L cache q"
    by (rule store_result_other_tool [OF assms(1)], erule Cons.prems [rotated], simp)
  finally show ?case by simp
qed simp

lemma invalidate_hit:
  assumes "path_scoped (ti_name q)" "jt_to_string L (ti_input q) = Inr t" "jt_from_str L t = Inr (ti_input q)"
  shows "cache_hit L (invalidate_on_writes L ws cache) q =
    (if \<exists>w \<in> set ws. \<exists>p. extract_path_arg (ti_input q) = Some p \<and> paths_overlap w p then None else cache_hit L cache q)"
proof -
  have name: "ti_name q \<noteq> ''search_code''" "ti_name q \<noteq> ''find_files''" using assms(1) by (auto simp: path_scoped_def)
  have key: "split_once (CHR 0x00) (tool_result_cache_key L (ti_name q) (ti_input q)) = Some (ti_name q, t)"
    using cache_key_split [OF path_scoped_cacheable [OF assms(1)], of L "ti_input q"] assms(2) by simp
  show ?thesis
  proof (cases "extract_path_arg (ti_input q)")
    case None
    then show ?thesis
      using name by (auto simp: cache_hit_path_scoped [OF assms(1)] invalidate_on_writes_def key cached_input_path_def assms(3)
          range_cache_lookup_def read_file_window_def split: option.splits)
  next
    case (Some p)
    then show ?thesis
      using name by (auto simp: cache_hit_path_scoped [OF assms(1)] invalidate_on_writes_def key cached_input_path_def assms(3)
          range_cache_lookup_def read_file_window_def list_ex_iff split: option.splits)
  qed
qed


text \<open>A listing of the workspace root, kept although a file was created in it.\<close>

definition root_listing :: tool_call_info where
  "root_listing = \<lparr> ti_id = ''t1'', ti_name = ''list_files'', ti_input = J_Object [(''path'', J_String ''.'')] \<rparr>"

definition demo_write :: tool_call_info where
  "demo_write = \<lparr> ti_id = ''t2'', ti_name = ''write_file'',
     ti_input = J_Object [(''path'', J_String ''new.txt''), (''content'', J_String ''x'')] \<rparr>"

definition demo_printer :: json_text where
  "demo_printer = demo_text \<lparr> jt_to_string := (\<lambda>j. if j = ti_input root_listing then Inr ''L'' else Inr ''W''),
     jt_from_str := (\<lambda>t. if t = ''L'' then Inr (ti_input root_listing) else Inr (ti_input demo_write)) \<rparr>"


end
