(* ===== verification/Loop_State.thy ===== *)
theory Loop_State
  imports Tool_Cache Agent_Host
begin

text \<open>
  The state of one run of the agent loop (\<open>aura-agent/src/agent_loop/state.rs\<close>) with its budgets
  (\<open>budget.rs\<close>), the net changes of a run (\<open>types.rs\<close>, \<open>turn_diff.rs\<close>), the configuration it reads
  (\<open>config.rs\<close>) and the request it builds (\<open>aura-model-reasoner/src/types/request.rs\<close>).
\<close>

definition sat_add :: "'a::len word \<Rightarrow> 'a word \<Rightarrow> 'a word" where
  "sat_add a b = (if unat a + unat b < 2 ^ LENGTH('a) then a + b else - 1)"

lemma unat_sat_add: "unat (sat_add a b) = min (unat a + unat b) (2 ^ LENGTH('a) - 1)" for a b :: "'a::len word"
proof (cases "unat a + unat b < 2 ^ LENGTH('a)")
  case True
  then show ?thesis by (simp add: sat_add_def unat_word_ariths)
next
  case False
  then show ?thesis by (simp add: sat_add_def unsigned_minus_1_eq_mask mask_eq_exp_minus_1)
qed

section \<open>Errors\<close>

(* src/crates/aura-model-reasoner/src/error.rs:25-112 ReasonerError *)
fun reasoner_error_text :: "reasoner_error \<Rightarrow> string" where
  "reasoner_error_text (ReasonerError_RateLimited m _) = ''Rate limited: '' @ m"
| "reasoner_error_text (ReasonerError_InsufficientCredits m) = ''Insufficient credits: '' @ m"
| "reasoner_error_text (ReasonerError_Transient st m _) = ''API error (status '' @ nat_str (unat st) @ ''): '' @ m"
| "reasoner_error_text (ReasonerError_Api st m) = ''API error (status '' @ nat_str (unat st) @ ''): '' @ m"
| "reasoner_error_text (ReasonerError_Request m) = ''request error: '' @ m"
| "reasoner_error_text ReasonerError_Timeout = ''timeout''"
| "reasoner_error_text (ReasonerError_Parse m) = ''parse error: '' @ m"
| "reasoner_error_text (ReasonerError_StreamAbortedWithPartial m _) = m"
| "reasoner_error_text (ReasonerError_ModelRequestContractViolation m) = m"
| "reasoner_error_text (ReasonerError_Internal m) = m"

(* src/crates/aura-model-reasoner/src/response_stream.rs:89-126 StreamError *)
fun stream_error_text :: "stream_error \<Rightarrow> string" where
  "stream_error_text (StreamError_TransportClosed c) = ''transport closed before stream completed: '' @ c"
| "stream_error_text (StreamError_InvalidEvent r) = ''provider returned invalid event shape: '' @ r"
| "stream_error_text (StreamError_Timeout ms) = ''stream timed out after '' @ nat_str (unat ms) @ ''ms waiting for next event''"
| "stream_error_text (StreamError_StreamAbortedWithPartial r _) = r"

text \<open>
  Libraries of the loop: the JSON printers, the Unicode lower case, the hash of cache keys, the texts
  of the hints and prompts, the printers of identifiers and of the kernel's errors, and the
  environment the compaction policy reads.
\<close>

record loop_libs =
  ll_text :: json_text
  ll_pretty :: "json \<Rightarrow> (serde_error, string) result"
  ll_to_lowercase :: "string \<Rightarrow> string"
  ll_blake3_hex :: "string \<Rightarrow> string"
  ll_steering_body :: "steering_kind \<Rightarrow> string"
  ll_hard_block_body :: string
  ll_summary_system_prompt :: string
  ll_summary_prompt :: "summary_input \<Rightarrow> string"
  ll_uuid_text :: "128 word \<Rightarrow> string"
  ll_kernel_error_text :: "kernel_error \<Rightarrow> string"
  ll_parse_f64 :: "string \<Rightarrow> f64 option"
  ll_env :: "string \<Rightarrow> string option"

(* src/crates/aura-agent/src/lib.rs:104-199 AgentError *)
fun agent_error_text :: "loop_libs \<Rightarrow> agent_error \<Rightarrow> string" where
  "agent_error_text L (AgentError_Reason e) = reasoner_error_text e"
| "agent_error_text L (AgentError_Kernel e) = ll_kernel_error_text L e"
| "agent_error_text L (AgentError_Join m) = ''background task failed: '' @ m"
| "agent_error_text L (AgentError_Model m) = ''model error: '' @ m"
| "agent_error_text L (AgentError_ToolExecution m) = ''tool execution error: '' @ m"
| "agent_error_text L (AgentError_Timeout m) = ''timeout: '' @ m"
| "agent_error_text L (AgentError_BuildFailed m) = ''build failed: '' @ m"
| "agent_error_text L (AgentError_TurnBudgetExceeded t n) =
    ''turn budget exceeded on task '' @ ll_uuid_text L t @ '': max_turns_per_task='' @ nat_str n @ '' reached''"
| "agent_error_text L (AgentError_IterationBudgetExceeded t n) =
    ''iteration budget exceeded on task '' @ ll_uuid_text L t @ '': max_iterations='' @ nat_str n @ '' reached''"
| "agent_error_text L (AgentError_InputQueueClosed i) = ''input queue closed for session '' @ ll_uuid_text L i"
| "agent_error_text L (AgentError_StreamTimeout ms) =
    ''stream event timeout after '' @ nat_str (unat ms) @ ''ms waiting for next response event''"
| "agent_error_text L (AgentError_Stream e) = stream_error_text e"
| "agent_error_text L (AgentError_Internal m) = m"

section \<open>Budgets\<close>

(* src/crates/aura-agent/src/budget.rs:7-14 BudgetState *)
record budget_state =
  bs_warned_30 :: bool
  bs_warned_40_no_write :: bool
  bs_warned_60 :: bool

(* src/crates/aura-config/src/thinking.rs:29-35 BUDGET_WARNING_30 *)
definition budget_thresholds :: "f64 \<times> f64 \<times> f64" where
  "budget_thresholds = (round_f64 (30 / 100), round_f64 (40 / 100), round_f64 (60 / 100))"

(* src/crates/aura-agent/src/budget.rs:31-65 check_budget_warning *)
definition check_budget_warning :: "f64 \<Rightarrow> bool \<Rightarrow> budget_state \<Rightarrow> string option \<times> budget_state" where
  "check_budget_warning utilization had_any_write b =
    (case budget_thresholds of (w30, w40, w60) \<Rightarrow>
     if w60 \<le> utilization \<and> \<not> bs_warned_60 b
     then (Some (''WARNING: You have used over 60% of your iteration budget. Wrap up immediately. ''
             @ ''Complete your current changes and stop.''), b \<lparr> bs_warned_60 := True \<rparr>)
     else if w40 \<le> utilization \<and> \<not> had_any_write \<and> \<not> bs_warned_40_no_write b
     then (Some (''CRITICAL WARNING: You have used 40% of your budget without making ANY writes. ''
             @ ''Stop exploring and start implementing immediately with what you know.''), b \<lparr> bs_warned_40_no_write := True \<rparr>)
     else if w30 \<le> utilization \<and> \<not> bs_warned_30 b
     then (Some (''NOTE: You have used 30% of your iteration budget. ''
             @ ''Prioritize implementing your solution over further exploration.''), b \<lparr> bs_warned_30 := True \<rparr>)
     else (None, b))"

(* src/crates/aura-agent/src/budget.rs:74-92 should_stop_for_budget *)
definition budget_should_stop :: "nat \<Rightarrow> nat \<Rightarrow> u64 \<Rightarrow> u64 \<Rightarrow> u64 option \<Rightarrow> bool" where
  "budget_should_stop iteration max_iterations avg_tokens total_tokens credit_budget =
    (if (case credit_budget of Some budget \<Rightarrow> budget < total_tokens + avg_tokens | None \<Rightarrow> False) then True
     else if max_iterations = usize_max then False
     else max_iterations - 1 \<le> iteration)"

section \<open>The result of a run\<close>

(* src/crates/aura-agent/src/types.rs:26-42 AgentContextBreakdown *)
record context_breakdown =
  cb_system_prompt_tokens :: u64
  cb_tools_tokens :: u64
  cb_skills_tokens :: u64
  cb_mcp_tokens :: u64
  cb_subagents_tokens :: u64
  cb_conversation_tokens :: u64
  cb_cache_read_tokens :: u64
  cb_cache_creation_tokens :: u64

(* src/crates/aura-agent/src/types.rs:49-58 AgentContextSegment *)
record context_segment =
  cs_label :: string
  cs_text :: string
  cs_tokens :: u64

(* src/crates/aura-agent/src/types.rs:67-79 AgentContextContents *)
record context_contents =
  cc_system_prompt :: "string option"
  cc_tools :: "context_segment list"
  cc_skills :: "context_segment list"
  cc_subagents :: "context_segment list"
  cc_mcp :: "context_segment list"

(* src/crates/aura-agent/src/types.rs:227-275 AgentLoopResult *)
record loop_result =
  lr_output_truncated :: bool
  lr_task_done_completed :: bool
  lr_timed_out :: bool
  lr_insufficient_credits :: bool
  lr_stalled :: bool
  lr_llm_error :: "string option"
  lr_total_text :: string
  lr_total_thinking :: string
  lr_total_input_tokens :: u64
  lr_total_output_tokens :: u64
  lr_total_cache_creation_input_tokens :: u64
  lr_total_cache_read_input_tokens :: u64
  lr_estimated_context_tokens :: u64
  lr_context_breakdown :: context_breakdown
  lr_context_contents :: context_contents
  lr_file_changes :: "file_change list"
  lr_iterations :: nat
  lr_messages :: "message list"

definition loop_result_default :: loop_result where
  "loop_result_default =
    \<lparr> lr_output_truncated = False, lr_task_done_completed = False, lr_timed_out = False, lr_insufficient_credits = False,
      lr_stalled = False, lr_llm_error = None, lr_total_text = [], lr_total_thinking = [], lr_total_input_tokens = 0,
      lr_total_output_tokens = 0, lr_total_cache_creation_input_tokens = 0, lr_total_cache_read_input_tokens = 0,
      lr_estimated_context_tokens = 0,
      lr_context_breakdown = \<lparr> cb_system_prompt_tokens = 0, cb_tools_tokens = 0, cb_skills_tokens = 0, cb_mcp_tokens = 0,
        cb_subagents_tokens = 0, cb_conversation_tokens = 0, cb_cache_read_tokens = 0, cb_cache_creation_tokens = 0 \<rparr>,
      lr_context_contents = \<lparr> cc_system_prompt = None, cc_tools = [], cc_skills = [], cc_subagents = [], cc_mcp = [] \<rparr>,
      lr_file_changes = [], lr_iterations = 0, lr_messages = [] \<rparr>"

text \<open>
  The merge of a change into the list of net changes: the first entry of the path is updated in place,
  and a file created and deleted in the same run disappears.
\<close>

(* src/crates/aura-agent/src/types.rs:291-309 AgentLoopResult::record_file_change *)
fun merged_kind :: "file_change_kind \<Rightarrow> file_change_kind \<Rightarrow> file_change_kind" where
  "merged_kind Change_Create Change_Modify = Change_Create"
| "merged_kind Change_Modify Change_Modify = Change_Modify"
| "merged_kind Change_Modify Change_Delete = Change_Delete"
| "merged_kind Change_Delete Change_Create = Change_Modify"
| "merged_kind Change_Delete Change_Modify = Change_Modify"
| "merged_kind _ next = next"

(* src/crates/aura-agent/src/types.rs:287-314 AgentLoopResult::record_file_change *)
definition record_file_change :: "file_change \<Rightarrow> file_change list \<Rightarrow> file_change list" where
  "record_file_change change changes =
    (case List.extract (\<lambda>c. fc_path c = fc_path change) changes of
       Some (before, old, after) \<Rightarrow>
         if fc_kind old = Change_Create \<and> fc_kind change = Change_Delete
         then filter (\<lambda>c. fc_path c \<noteq> fc_path change) changes
         else before @ old \<lparr> fc_lines_added := sat_add (fc_lines_added old) (fc_lines_added change),
                             fc_lines_removed := sat_add (fc_lines_removed old) (fc_lines_removed change),
                             fc_kind := merged_kind (fc_kind old) (fc_kind change) \<rparr> # after
     | None \<Rightarrow> changes @ [change])"

section \<open>File operations of an iteration\<close>

(* src/crates/aura-agent/src/agent_loop/turn_diff.rs:25-32 FileOp *)
datatype file_op = Op_Created | Op_Modified nat | Op_Deleted

text \<open>Paths are compared by their components; the maps are keyed by them.\<close>

(* src/crates/aura-agent/src/agent_loop/turn_diff.rs:45-54 TurnDiff *)
record turn_diff =
  df_writes :: "string list \<rightharpoonup> file_op"
  df_read_paths :: "string set"

definition turn_diff_default :: turn_diff where
  "turn_diff_default = \<lparr> df_writes = Map.empty, df_read_paths = {} \<rparr>"

(* src/crates/aura-agent/src/agent_loop/turn_diff.rs:56-97 TurnDiff *)
fun record_op :: "file_change_kind \<Rightarrow> string list \<Rightarrow> nat \<Rightarrow> turn_diff \<Rightarrow> turn_diff" where
  "record_op Change_Create path n d = d \<lparr> df_writes := (df_writes d)(path \<mapsto> Op_Created) \<rparr>"
| "record_op Change_Modify path n d =
    d \<lparr> df_writes := (df_writes d)(path \<mapsto>
      (case df_writes d path of
         Some (Op_Modified m) \<Rightarrow> Op_Modified (min (m + n) usize_max)
       | Some other \<Rightarrow> other
       | None \<Rightarrow> Op_Modified n)) \<rparr>"
| "record_op Change_Delete path n d = d \<lparr> df_writes := (df_writes d)(path \<mapsto> Op_Deleted) \<rparr>"

(* src/crates/aura-agent/src/agent_loop/tool_pipeline.rs:889-903 record_into_turn_diff *)
definition record_into_turn_diff :: "file_change \<Rightarrow> turn_diff \<Rightarrow> turn_diff" where
  "record_into_turn_diff change d = record_op (fc_kind change) (path_components (fc_path change)) (unat (fc_lines_added change)) d"

section \<open>Configuration\<close>

(* src/crates/aura-tools/src/intent_classifier.rs:59-62 IntentClassifier *)
record intent_classifier =
  ic_tier1 :: "string list"
  ic_rules :: "(string \<times> string list) list"

(* src/crates/aura-tools/src/intent_classifier.rs:101-112 IntentClassifier::visible_domains *)
definition visible_domains :: "(string \<Rightarrow> string) \<Rightarrow> intent_classifier \<Rightarrow> string \<Rightarrow> string list" where
  "visible_domains to_lowercase c message1 =
    (let lower = to_lowercase message1 in
     remdups_adj (ic_tier1 c @ map fst (filter (\<lambda>(_, keywords). list_ex (\<lambda>k. sublist k lower) keywords) (ic_rules c))))"

(* src/crates/aura-tools/src/intent_classifier.rs:122-137 IntentClassifier::filter_tools *)
definition filter_tools ::
  "(string \<Rightarrow> string) \<Rightarrow> intent_classifier \<Rightarrow> string \<Rightarrow> (string \<times> string) list \<Rightarrow> tool_definition list \<Rightarrow> tool_definition list" where
  "filter_tools to_lowercase c message1 manifest tools =
    (let visible = visible_domains to_lowercase c message1 in
     filter (\<lambda>t. case map_of manifest (td_name t) of Some d \<Rightarrow> d \<in> set visible | None \<Rightarrow> True) tools)"

text \<open>The fields of the configuration that the loop reads; time limits in milliseconds.\<close>

(* src/crates/aura-agent/src/agent_loop/config.rs:27-276 AgentLoopConfig *)
record agent_loop_config =
  ac_max_iterations :: nat
  ac_max_tokens :: u32
  ac_thinking_budget :: "u32 option"
  ac_max_context_tokens :: "u64 option"
  ac_credit_budget :: "u64 option"
  ac_auto_build_cooldown :: nat
  ac_system_prompt :: string
  ac_model :: string
  ac_auth_token :: "string option"
  ac_upstream_provider_family :: "string option"
  ac_tool_hints :: "string list option"
  ac_aura_project_id :: "string option"
  ac_aura_agent_id :: "string option"
  ac_aura_session_id :: "string option"
  ac_aura_org_id :: "string option"
  ac_prompt_cache_key :: "string option"
  ac_prompt_cache_retention :: "string option"
  ac_request_kind :: model_request_kind
  ac_intent_classifier :: "intent_classifier option"
  ac_intent_classifier_manifest :: "(string \<times> string) list"
  ac_skills_chars :: nat
  ac_subagents_chars :: nat
  ac_skills_segments :: "(string \<times> string) list"
  ac_subagents_segments :: "(string \<times> string) list"
  ac_phase_reset_signal :: bool
  ac_disable_thinking_iteration_0 :: bool
  ac_user_thinking_effort :: "thinking_effort option"
  ac_max_turns_per_task :: u32
  ac_max_iterations_per_task :: u32
  ac_stream_event_timeout :: u64
  ac_per_tool_timeout :: nat
  ac_early_test_oracle :: "early_oracle_config option"
  ac_auto_continue_no_op_turns :: bool

(* src/crates/aura-agent/src/agent_loop/config.rs:298-362 AgentLoopConfig::for_agent *)
definition config_for_agent :: "string \<Rightarrow> agent_loop_config" where
  "config_for_agent model =
    \<lparr> ac_max_iterations = MAX_ITERATIONS, ac_max_tokens = 16384, ac_thinking_budget = None,
      ac_max_context_tokens = Some 200000, ac_credit_budget = None, ac_auto_build_cooldown = 2, ac_system_prompt = [],
      ac_model = model, ac_auth_token = None, ac_upstream_provider_family = None, ac_tool_hints = None,
      ac_aura_project_id = None, ac_aura_agent_id = None, ac_aura_session_id = None, ac_aura_org_id = None,
      ac_prompt_cache_key = None, ac_prompt_cache_retention = None, ac_request_kind = Kind_Chat,
      ac_intent_classifier = None, ac_intent_classifier_manifest = [], ac_skills_chars = 0, ac_subagents_chars = 0,
      ac_skills_segments = [], ac_subagents_segments = [], ac_phase_reset_signal = False,
      ac_disable_thinking_iteration_0 = False, ac_user_thinking_effort = None, ac_max_turns_per_task = MAX_TURNS,
      ac_max_iterations_per_task = MAX_TURNS, ac_stream_event_timeout = 90000, ac_per_tool_timeout = 300000,
      ac_early_test_oracle = None, ac_auto_continue_no_op_turns = True \<rparr>"

text \<open>Process-wide settings: steering, the switch that disables compaction, and the retries of a stream.\<close>

record loop_settings =
  st_steering :: steering_config
  st_compaction_disabled :: bool
  st_max_retries :: nat

end
