(* ===== verification/Loop_Context.thy ===== *)
theory Loop_Context
  imports Loop_State
begin

text \<open>
  What happens to the state of the loop around a call of the model: the start of an iteration and the
  request (\<open>state.rs\<close>), repair and compaction of the history (\<open>context.rs\<close>, \<open>stop_reason.rs\<close>), and the
  response that enters it (\<open>iteration/mod.rs\<close>, \<open>text_sanitize.rs\<close>).
\<close>

section \<open>State\<close>

(* src/crates/aura-agent/src/types.rs:107-111 BuildBaseline *)
record build_baseline =
  bb_error_signatures :: "string list"

(* src/crates/aura-agent/src/agent_loop/state.rs:24-29 ThinkingBudget *)
record thinking_budget =
  tb_budget :: u32
  tb_restore_next_iteration :: bool

(* src/crates/aura-agent/src/agent_loop/state.rs:32-106 LoopState *)
record loop_state =
  ls_result :: loop_result
  ls_tool_cache :: tool_result_cache
  ls_exploration_count :: nat
  ls_budget_state :: budget_state
  ls_had_any_write :: bool
  ls_had_any_file_write :: bool
  ls_task_done_completed :: bool
  ls_output_limit_recoveries :: nat
  ls_submit_plan_called :: bool
  ls_checkpoint_emitted :: bool
  ls_exploration_compaction_done :: bool
  ls_build_cooldown :: nat
  ls_thinking :: thinking_budget
  ls_last_context_tokens_estimate :: "u64 option"
  ls_messages :: "message list"
  ls_build_baseline :: "build_baseline option"
  ls_turn_diff :: turn_diff
  ls_session_read_paths :: "string set"
  ls_read_after_write_allowances :: "string list \<rightharpoonup> u8"
  ls_implement_now_injected :: bool
  ls_steering :: steering_registry
  ls_failed_edit_attempts :: "string \<rightharpoonup> u32"

(* src/crates/aura-agent/src/agent_loop/state.rs:109-152 LoopState::new *)
definition loop_state_new :: "agent_loop_config \<Rightarrow> message list \<Rightarrow> loop_state" where
  "loop_state_new config ms =
    \<lparr> ls_result = loop_result_default, ls_tool_cache = tool_result_cache_default, ls_exploration_count = 0,
      ls_budget_state = \<lparr> bs_warned_30 = False, bs_warned_40_no_write = False, bs_warned_60 = False \<rparr>,
      ls_had_any_write = False, ls_had_any_file_write = False, ls_task_done_completed = False,
      ls_output_limit_recoveries = 0, ls_submit_plan_called = False, ls_checkpoint_emitted = False,
      ls_exploration_compaction_done = False, ls_build_cooldown = 0,
      ls_thinking = \<lparr> tb_budget = min (or_default (ac_max_tokens config) (ac_thinking_budget config)) (ac_max_tokens config),
        tb_restore_next_iteration = False \<rparr>,
      ls_last_context_tokens_estimate = None, ls_messages = ms, ls_build_baseline = None,
      ls_turn_diff = turn_diff_default, ls_session_read_paths = {}, ls_read_after_write_allowances = Map.empty,
      ls_implement_now_injected = False,
      ls_steering = registry_for_loop (ac_phase_reset_signal config) (ac_early_test_oracle config),
      ls_failed_edit_attempts = Map.empty \<rparr>"

text \<open>
  The start of an iteration.  \<open>reset\<close> is the value that \<open>swap\<close> took out of the shared signal; it counts
  only if the configuration has one.
\<close>

(* src/crates/aura-agent/src/agent_loop/state.rs:165-237 LoopState::begin_iteration *)
definition begin_iteration ::
  "loop_libs \<Rightarrow> loop_settings \<Rightarrow> agent_loop_config \<Rightarrow> nat \<Rightarrow> bool \<Rightarrow> loop_state \<Rightarrow> loop_state" where
  "begin_iteration L S config iteration reset s =
    (let (kinds, steering) = registry_drain (registry_begin (st_steering S) (ls_steering s));
         s1 = s \<lparr> ls_build_cooldown := ls_build_cooldown s - 1, ls_turn_diff := turn_diff_default,
                  ls_messages := fold (inject (ll_steering_body L)) kinds (ls_messages s), ls_steering := steering,
                  ls_implement_now_injected := sg_implement_now_injected steering \<rparr>;
         s2 = (if ac_phase_reset_signal config \<and> reset
               then s1 \<lparr> ls_exploration_count := 0, ls_exploration_compaction_done := False,
                         ls_submit_plan_called := (ls_submit_plan_called s1 \<or> 0 < iteration) \<rparr>
               else s1) in
     if tb_restore_next_iteration (ls_thinking s2)
     then s2 \<lparr> ls_thinking := \<lparr> tb_budget = ac_max_tokens config, tb_restore_next_iteration = False \<rparr> \<rparr>
     else s2 \<lparr> ls_thinking := (ls_thinking s2) \<lparr> tb_budget := min (tb_budget (ls_thinking s2)) (ac_max_tokens config) \<rparr> \<rparr>)"

section \<open>The request\<close>

(* src/crates/aura-model-reasoner/src/types/tool.rs:12-22 ToolChoice *)
datatype tool_choice = Choice_Auto | Choice_None | Choice_Required | Choice_Tool string

(* src/crates/aura-model-reasoner/src/types/request.rs:270-273 PromptCacheRetention *)
datatype prompt_cache_retention = Retention_InMemory | Retention_Hours24

text \<open>The fields of a request that the loop fills in; the others keep the defaults of the builder.\<close>

(* src/crates/aura-model-reasoner/src/types/request.rs:291-357 ModelRequest *)
record model_request =
  mq_model :: string
  mq_system :: string
  mq_messages :: "message list"
  mq_tools :: "tool_definition list"
  mq_tool_choice :: tool_choice
  mq_max_tokens :: u32
  mq_thinking_effort :: "thinking_effort option"
  mq_parallel_tool_use :: bool
  mq_auth_token :: "string option"
  mq_upstream_provider_family :: "string option"
  mq_aura_project_id :: "string option"
  mq_aura_agent_id :: "string option"
  mq_aura_session_id :: "string option"
  mq_aura_org_id :: "string option"
  mq_prompt_cache_key :: "string option"
  mq_prompt_cache_retention :: "prompt_cache_retention option"
  mq_kind :: "model_request_kind option"

(* src/crates/aura-protocol/src/client.rs:130-140 clamp_prompt_cache_key *)
definition clamp_prompt_cache_key :: "(string \<Rightarrow> string) \<Rightarrow> string \<Rightarrow> string" where
  "clamp_prompt_cache_key blake3_hex key =
    (if length key \<le> 64 then key
     else (let digest = take 32 (blake3_hex key); pre = hd (split_on (CHR '':'') key) in
           concat (take (64 - length digest - 1) (chars pre)) @ '':'' @ digest))"

text \<open>The checks of the builder: a model name that is not blank, and room for output.\<close>

(* src/crates/aura-model-reasoner/src/types/request.rs:553-589 ModelRequestBuilder::try_build *)
definition try_build :: "loop_libs \<Rightarrow> model_request \<Rightarrow> (reasoner_error, model_request) result" where
  "try_build L q =
    (if is_blank (mq_model q) then Inl (ReasonerError_Internal ''model name must not be empty'')
     else if mq_max_tokens q = 0 then Inl (ReasonerError_Internal ''max_tokens must be > 0'')
     else Inr (q \<lparr> mq_prompt_cache_key := map_option (clamp_prompt_cache_key (ll_blake3_hex L)) (mq_prompt_cache_key q) \<rparr>))"

(* src/crates/aura-agent/src/agent_loop/config.rs:374-387 parse_cache_retention *)
definition parse_cache_retention :: "string option \<Rightarrow> prompt_cache_retention option" where
  "parse_cache_retention v =
    Option.bind v (\<lambda>raw. let t = trim raw in
      if t \<in> set [''24h'', ''h24'', ''hours_24'', ''Hours24''] then Some Retention_Hours24
      else if t \<in> set [''in_memory'', ''InMemory'', ''memory''] then Some Retention_InMemory
      else None)"

(* src/crates/aura-agent/src/agent_loop/state.rs:424-439 latest_user_text *)
definition latest_user_text :: "message list \<Rightarrow> string option" where
  "latest_user_text ms =
    Option.bind (find (\<lambda>m. msg_role m = Role_User \<and> list_ex (\<lambda>b. block_as_text b \<noteq> None) (msg_content m)) (rev ms))
      (\<lambda>m. Option.bind (find (\<lambda>b. block_as_text b \<noteq> None) (msg_content m)) block_as_text)"

(* src/crates/aura-agent/src/agent_loop/state.rs:334-365 scope_tools_for_iteration *)
definition scope_tools_for_iteration ::
  "loop_libs \<Rightarrow> agent_loop_config \<Rightarrow> message list \<Rightarrow> tool_definition list \<Rightarrow> tool_definition list" where
  "scope_tools_for_iteration L config ms tools =
    (let classified = (case (ac_intent_classifier config, latest_user_text ms) of
           (Some c, Some text) \<Rightarrow>
             if ac_intent_classifier_manifest config = [] then tools
             else filter_tools (ll_to_lowercase L) c text (ac_intent_classifier_manifest config) tools
         | _ \<Rightarrow> tools) in
     case ac_tool_hints config of
       Some hints \<Rightarrow>
         if hints = [] then classified
         else (let filtered = filter (\<lambda>t. td_name t \<in> set hints) classified in if filtered = [] then classified else filtered)
     | None \<Rightarrow> classified)"

(* src/crates/aura-agent/src/agent_loop/state.rs:384-417 pick_request_kind *)
definition pick_request_kind :: "tool_definition list \<Rightarrow> model_request_kind \<Rightarrow> nat \<Rightarrow> model_request_kind" where
  "pick_request_kind tools kind iteration =
    (let names = td_name ` set tools;
         has_task = (\<exists>n \<in> set [''create_task'', ''update_task'', ''list_tasks'', ''get_task'', ''delete_task'']. n \<in> names);
         has_spec = (\<exists>n \<in> set [''create_spec'', ''update_spec'', ''list_specs'', ''get_spec'', ''delete_spec'']. n \<in> names);
         dev = (kind = Kind_DevLoopBootstrap \<or> kind = Kind_DevLoopContinuation) in
     if has_task \<and> dev then Kind_ProjectToolTaskExtract
     else if has_spec \<and> dev then Kind_ProjectToolSpecGen
     else if kind = Kind_DevLoopBootstrap then (if iteration = 0 then Kind_DevLoopBootstrap else Kind_DevLoopContinuation)
     else kind)"

(* src/crates/aura-agent/src/agent_loop/state.rs:264-279 LoopState::compute_thinking_effort *)
definition compute_thinking_effort :: "agent_loop_config \<Rightarrow> nat \<Rightarrow> loop_state \<Rightarrow> thinking_effort" where
  "compute_thinking_effort config iteration s =
    (if ac_disable_thinking_iteration_0 config then Effort_Medium
     else if iteration = 0 then Effort_Medium
     else if ls_had_any_file_write s \<or> ls_submit_plan_called s then Effort_Low
     else Effort_Medium)"

(* src/crates/aura-agent/src/agent_loop/state.rs:281-327 LoopState::build_request *)
definition build_request ::
  "loop_libs \<Rightarrow> agent_loop_config \<Rightarrow> tool_definition list \<Rightarrow> nat \<Rightarrow> loop_state \<Rightarrow> (agent_error, model_request) result" where
  "build_request L config tools iteration s =
    (let effective = scope_tools_for_iteration L config (ls_messages s) tools;
         q = \<lparr> mq_model = ac_model config, mq_system = ac_system_prompt config, mq_messages = ls_messages s,
               mq_tools = effective, mq_tool_choice = Choice_Auto,
               mq_max_tokens = min (tb_budget (ls_thinking s)) (ac_max_tokens config),
               mq_thinking_effort = Some (or_default (compute_thinking_effort config iteration s) (ac_user_thinking_effort config)),
               mq_parallel_tool_use = True, mq_auth_token = ac_auth_token config,
               mq_upstream_provider_family = ac_upstream_provider_family config,
               mq_aura_project_id = ac_aura_project_id config, mq_aura_agent_id = ac_aura_agent_id config,
               mq_aura_session_id = ac_aura_session_id config, mq_aura_org_id = ac_aura_org_id config,
               mq_prompt_cache_key = ac_prompt_cache_key config,
               mq_prompt_cache_retention = parse_cache_retention (ac_prompt_cache_retention config),
               mq_kind = Some (pick_request_kind effective (ac_request_kind config) iteration) \<rparr> in
     res_map_err AgentError_Reason (try_build L q))"

section \<open>Repair and compaction\<close>

(* src/crates/aura-agent/src/agent_loop/context.rs:65-75 effective_compaction_request_kind *)
definition effective_compaction_request_kind :: "agent_loop_config \<Rightarrow> nat \<Rightarrow> model_request_kind" where
  "effective_compaction_request_kind config iteration =
    (if ac_request_kind config = Kind_DevLoopBootstrap \<and> iteration \<noteq> 0 then Kind_DevLoopContinuation else ac_request_kind config)"

(* src/crates/aura-agent/src/agent_loop/context.rs:77-79 reserved_output_tokens *)
definition reserved_output_tokens :: "agent_loop_config \<Rightarrow> u64 \<Rightarrow> u64" where
  "reserved_output_tokens config max_ctx = min (ucast (ac_max_tokens config)) max_ctx"

(* src/crates/aura-agent/src/agent_loop/context.rs:92-97 heuristic_context_tokens *)
definition heuristic_context_tokens :: "json_text \<Rightarrow> message list \<Rightarrow> u64" where
  "heuristic_context_tokens T ms = of_nat (estimate_message_chars T ms div 4)"

(* src/crates/aura-agent/src/agent_loop/context.rs:99-104 current_context_tokens *)
definition current_context_tokens :: "json_text \<Rightarrow> loop_state \<Rightarrow> u64" where
  "current_context_tokens T s = max (or_default 0 (ls_last_context_tokens_estimate s)) (heuristic_context_tokens T (ls_messages s))"

(* src/crates/aura-agent/src/agent_loop/context.rs:109-114 chars_to_tokens *)
definition chars_to_tokens :: "nat \<Rightarrow> u64" where
  "chars_to_tokens n = of_nat (n div 4)"

(* src/crates/aura-agent/src/agent_loop/context_contents.rs:30-33 render_tool_text *)
definition render_tool_text :: "loop_libs \<Rightarrow> tool_definition \<Rightarrow> string" where
  "render_tool_text L t =
    td_name t @ newlines2 @ td_description t @ newlines2 @ (case ll_pretty L (td_input_schema t) of Inr x \<Rightarrow> x | Inl _ \<Rightarrow> [])"

(* src/crates/aura-agent/src/agent_loop/context_contents.rs:54-63 segments_from_pairs *)
definition segments_from_pairs :: "(string \<times> string) list \<Rightarrow> context_segment list" where
  "segments_from_pairs pairs =
    map (\<lambda>(label, text). \<lparr> cs_label = label, cs_text = text, cs_tokens = chars_to_tokens (length text) \<rparr>) pairs"

(* src/crates/aura-agent/src/agent_loop/context_contents.rs:36-88 build_context_contents *)
definition build_context_contents :: "loop_libs \<Rightarrow> agent_loop_config \<Rightarrow> tool_definition list \<Rightarrow> context_contents" where
  "build_context_contents L config tools =
    \<lparr> cc_system_prompt = (if ac_system_prompt config = [] then None else Some (ac_system_prompt config)),
      cc_tools = segments_from_pairs (map (\<lambda>t. (td_name t, render_tool_text L t)) tools),
      cc_skills = segments_from_pairs (ac_skills_segments config),
      cc_subagents = segments_from_pairs (ac_subagents_segments config), cc_mcp = [] \<rparr>"

definition on_result :: "(loop_result \<Rightarrow> loop_result) \<Rightarrow> loop_state \<Rightarrow> loop_state" where
  "on_result f s = s \<lparr> ls_result := f (ls_result s) \<rparr>"

(* src/crates/aura-agent/src/agent_loop/context.rs:131-157 recompute_breakdown *)
definition recompute_breakdown :: "loop_libs \<Rightarrow> agent_loop_config \<Rightarrow> tool_definition list \<Rightarrow> loop_state \<Rightarrow> loop_state" where
  "recompute_breakdown L config tools s =
    on_result (\<lambda>r. r \<lparr>
      lr_context_breakdown := \<lparr>
        cb_system_prompt_tokens = chars_to_tokens (length (ac_system_prompt config) - ac_skills_chars config),
        cb_tools_tokens = chars_to_tokens (tools_chars (ll_text L) tools),
        cb_skills_tokens = chars_to_tokens (ac_skills_chars config), cb_mcp_tokens = 0,
        cb_subagents_tokens = chars_to_tokens (ac_subagents_chars config),
        cb_conversation_tokens = heuristic_context_tokens (ll_text L) (ls_messages s),
        cb_cache_read_tokens = 0, cb_cache_creation_tokens = 0 \<rparr>,
      lr_context_contents := build_context_contents L config tools \<rparr>) s"

definition on_messages :: "(message list \<Rightarrow> message list) \<Rightarrow> loop_state \<Rightarrow> loop_state" where
  "on_messages f s = s \<lparr> ls_messages := f (ls_messages s) \<rparr>"

definition set_context_estimate :: "u64 \<Rightarrow> loop_state \<Rightarrow> loop_state" where
  "set_context_estimate n s = on_result (\<lambda>r. r \<lparr> lr_estimated_context_tokens := n \<rparr>) (s \<lparr> ls_last_context_tokens_estimate := Some n \<rparr>)"

(* src/crates/aura-agent/src/agent_loop/context.rs:216-220 compact_if_needed *)
definition after_compaction :: "loop_libs \<Rightarrow> loop_state \<Rightarrow> loop_state" where
  "after_compaction L s =
    (let s1 = on_messages validate_and_repair s in
     set_context_estimate (heuristic_context_tokens (ll_text L) (ls_messages s1)) s1)"

text \<open>\<open>blocked\<close> is the verdict of the hooks that are asked before a compaction.\<close>

(* src/crates/aura-agent/src/agent_loop/context.rs:170-239 compact_if_needed *)
definition compact_if_needed ::
  "loop_libs \<Rightarrow> loop_settings \<Rightarrow> agent_loop_config \<Rightarrow> tool_definition list \<Rightarrow> nat \<Rightarrow> bool \<Rightarrow> loop_state
    \<Rightarrow> compaction_action \<times> loop_state" where
  "compact_if_needed L S config tools iteration blocked s0 =
    (let s = on_messages validate_and_repair s0; T = ll_text L in
     if st_compaction_disabled S then (Action_None, recompute_breakdown L config tools s)
     else (case ac_max_context_tokens config of
        None \<Rightarrow> (Action_None, recompute_breakdown L config tools s)
      | Some max_ctx \<Rightarrow>
         (let estimated = current_context_tokens T s;
              s1 = on_result (\<lambda>r. r \<lparr> lr_estimated_context_tokens := estimated \<rparr>) s in
          if blocked then (Action_None, recompute_breakdown L config tools s1)
          else
          (let policy = (policy_new (ll_parse_f64 L) (ll_env L) (Some max_ctx) estimated (reserved_output_tokens config max_ctx))
                 \<lparr> pol_current_context_tokens := Some estimated,
                   pol_raw_message_bytes := Some (estimate_message_chars T (ls_messages s1)),
                   pol_request_kind := Some (effective_compaction_request_kind config iteration) \<rparr>;
               (ms, report) = compact_messages T (ls_messages s1) policy;
               s2 = s1 \<lparr> ls_messages := ms \<rparr>;
               s3 = (if rep_action report = Action_None then s2 else after_compaction L s2) in
           (rep_action report, recompute_breakdown L config tools s3)))))"

(* src/crates/aura-agent/src/agent_loop/context.rs:241-265 apply_summary_output *)
definition apply_summary_output ::
  "loop_libs \<Rightarrow> loop_settings \<Rightarrow> agent_loop_config \<Rightarrow> tool_definition list \<Rightarrow> summary_output \<Rightarrow> loop_state \<Rightarrow> loop_state" where
  "apply_summary_output L S config tools summary s =
    (if st_compaction_disabled S then recompute_breakdown L config tools s
     else (let (ms, report) = apply_message_summary (ll_text L) (ls_messages s) summary;
               s1 = s \<lparr> ls_messages := ms \<rparr> in
           if \<not> report_reduced report then recompute_breakdown L config tools s1
           else recompute_breakdown L config tools (after_compaction L s1)))"

(* src/crates/aura-agent/src/agent_loop/stop_reason.rs:113-159 AgentLoop::build_summary_request *)
definition build_summary_request :: "loop_libs \<Rightarrow> agent_loop_config \<Rightarrow> summary_input \<Rightarrow> (agent_error, model_request) result" where
  "build_summary_request L config input =
    res_map_err AgentError_Reason (try_build L
      \<lparr> mq_model = ac_model config, mq_system = ll_summary_system_prompt L,
        mq_messages = [message_user (ll_summary_prompt L input)], mq_tools = [], mq_tool_choice = Choice_None,
        mq_max_tokens = of_nat (clamp 256 4096 (si_max_summary_chars input div 4)),
        mq_thinking_effort = Some Effort_Off, mq_parallel_tool_use = True, mq_auth_token = ac_auth_token config,
        mq_upstream_provider_family = ac_upstream_provider_family config, mq_aura_project_id = ac_aura_project_id config,
        mq_aura_agent_id = ac_aura_agent_id config, mq_aura_session_id = ac_aura_session_id config,
        mq_aura_org_id = ac_aura_org_id config, mq_prompt_cache_key = ac_prompt_cache_key config,
        mq_prompt_cache_retention = parse_cache_retention (ac_prompt_cache_retention config),
        mq_kind = Some Kind_Auxiliary \<rparr>)"

text \<open>
  The call of the model for a summary.  \<open>stopped\<close> is the state of the token before it, \<open>call\<close> what the
  provider returns for the request, or nothing on an error or a timeout.
\<close>

(* src/crates/aura-agent/src/agent_loop/stop_reason.rs:49-111 AgentLoop::apply_summary_compaction *)
definition apply_summary_compaction ::
  "loop_libs \<Rightarrow> loop_settings \<Rightarrow> agent_loop_config \<Rightarrow> tool_definition list \<Rightarrow> bool \<Rightarrow> (model_request \<Rightarrow> model_response option)
    \<Rightarrow> summary_input \<Rightarrow> loop_state \<Rightarrow> loop_state" where
  "apply_summary_compaction L S config tools stopped call input s =
    (if stopped then s
     else (case build_summary_request L config input of
        Inl _ \<Rightarrow> s
      | Inr q \<Rightarrow>
         (case call q of
            None \<Rightarrow> s
          | Some response \<Rightarrow>
              (let text = str_join newlines2 (List.map_filter block_as_text (msg_content (mr_message response))) in
               if is_blank text then s
               else apply_summary_output L S config tools
                 (Summary_Messages text (si_compact_start input) (si_compact_end input)) s))))"

section \<open>Warnings\<close>

(* src/crates/aura-agent/src/agent_loop/context.rs:306-320 emit_checkpoint_if_needed *)
definition emit_checkpoint_if_needed :: "loop_state \<Rightarrow> loop_state" where
  "emit_checkpoint_if_needed s =
    (if \<not> ls_had_any_write s \<or> ls_checkpoint_emitted s then s
     else on_messages (append_warning (''NOTE: You've made your first file change. Before making more changes, ''
             @ ''consider verifying your work (e.g., run the build or tests) to catch issues early.''))
            (s \<lparr> ls_checkpoint_emitted := True \<rparr>))"

(* src/crates/aura-agent/src/agent_loop/context.rs:332-347 check_budget_warnings *)
definition check_budget_warnings :: "agent_loop_config \<Rightarrow> nat \<Rightarrow> loop_state \<Rightarrow> loop_state" where
  "check_budget_warnings config iteration s =
    (if ac_max_iterations config = usize_max then s
     else (case check_budget_warning (f64_div (f64_of_nat (iteration + 1)) (f64_of_nat (ac_max_iterations config)))
                  (ls_had_any_write s) (ls_budget_state s) of
             (Some warning, b) \<Rightarrow> on_messages (append_warning warning) (s \<lparr> ls_budget_state := b \<rparr>)
           | (None, b) \<Rightarrow> s \<lparr> ls_budget_state := b \<rparr>))"

(* src/crates/aura-agent/src/agent_loop/context.rs:351-366 should_stop_for_budget *)
definition should_stop_for_budget :: "agent_loop_config \<Rightarrow> nat \<Rightarrow> loop_state \<Rightarrow> bool" where
  "should_stop_for_budget config iteration s =
    (let r = ls_result s; total_tokens = lr_total_input_tokens r + lr_total_output_tokens r;
         avg = total_tokens div max (of_nat iteration + 1) 1 in
     budget_should_stop (iteration + 1) (ac_max_iterations config) avg total_tokens (ac_credit_budget config))"

section \<open>Failures of the call\<close>

(* src/crates/aura-agent/src/agent_loop/iteration/mod.rs:25-35 LlmCallError *)
datatype llm_call_error =
    Llm_InsufficientCredits string
  | Llm_PromptTooLong string
  | Llm_RateLimited string
  | Llm_Fatal string

(* src/crates/aura-agent/src/agent_loop/iteration/mod.rs:38-84 LlmCallError::apply *)
fun llm_error_apply :: "llm_call_error \<Rightarrow> loop_result \<Rightarrow> loop_result" where
  "llm_error_apply (Llm_InsufficientCredits _) r = r \<lparr> lr_insufficient_credits := True \<rparr>"
| "llm_error_apply (Llm_RateLimited msg) r = r \<lparr> lr_llm_error := Some msg \<rparr>"
| "llm_error_apply (Llm_PromptTooLong msg) r = r \<lparr> lr_llm_error := Some msg \<rparr>"
| "llm_error_apply (Llm_Fatal msg) r = r \<lparr> lr_llm_error := Some msg \<rparr>"

(* src/crates/aura-agent/src/agent_loop/iteration/mod.rs:124-129 looks_like_rate_limited *)
definition looks_like_rate_limited :: "string \<Rightarrow> bool" where
  "looks_like_rate_limited m =
    (let lower = map ascii_lower m in
     sublist ''rate limited'' lower \<or> sublist ''rate_limited'' lower \<or> sublist ''too many requests'' lower)"

(* src/crates/aura-agent/src/agent_loop/iteration/mod.rs:94-117 LlmCallError::from_reasoner_error *)
fun from_reasoner_error :: "reasoner_error \<Rightarrow> llm_call_error" where
  "from_reasoner_error (ReasonerError_InsufficientCredits m) = Llm_InsufficientCredits m"
| "from_reasoner_error (ReasonerError_RateLimited m _) = Llm_RateLimited m"
| "from_reasoner_error e =
    (if looks_like_rate_limited (reasoner_error_text e) then Llm_RateLimited (reasoner_error_text e)
     else if is_context_overflow e then Llm_PromptTooLong (reasoner_error_text e)
     else Llm_Fatal (reasoner_error_text e))"

section \<open>Leaked tool calls\<close>

text \<open>
  Tool calls that a model wrote as text.  The scan pushes one character at a time; the openers it looks
  for begin with an ASCII character, so pushing the bytes of a character one by one finds the same.
\<close>

definition find_char :: "(char \<Rightarrow> bool) \<Rightarrow> string \<Rightarrow> nat option" where
  "find_char P s = (let n = length (takeWhile (\<lambda>c. \<not> P c) s) in if n < length s then Some n else None)"

definition ascii_alnum :: "char \<Rightarrow> bool" where
  "ascii_alnum c = (let n = (of_char c :: nat) in (48 \<le> n \<and> n \<le> 57) \<or> (65 \<le> n \<and> n \<le> 90) \<or> (97 \<le> n \<and> n \<le> 122))"

(* src/crates/aura-agent/src/agent_loop/text_sanitize.rs:22-22 XML_TOOL_TAGS *)
definition XML_TOOL_TAGS :: "string list" where
  "XML_TOOL_TAGS = [''function_calls'', ''invoke'', ''parameter'']"

(* src/crates/aura-agent/src/agent_loop/text_sanitize.rs:93-104 match_xml_tool_tag *)
definition match_xml_tool_tag :: "string \<Rightarrow> nat option" where
  "match_xml_tool_tag rest =
    (let after_lt = tl rest;
         after_slash = (case after_lt of c # cs \<Rightarrow> if c = CHR ''/'' then cs else after_lt | [] \<Rightarrow> []);
         name = takeWhile (\<lambda>c. ascii_alnum c \<or> c = CHR ''_'') after_slash in
     if name \<notin> set XML_TOOL_TAGS then None
     else map_option Suc (find_char (\<lambda>c. c = CHR ''>'') rest))"

(* src/crates/aura-agent/src/agent_loop/text_sanitize.rs:111-120 match_hybrid_tool_use *)
definition match_hybrid_tool_use :: "string \<Rightarrow> nat option" where
  "match_hybrid_tool_use rest =
    (let window = takeWhile (\<lambda>c. c \<notin> set [CHR '']'', CHR 0x0A, CHR 0x0D]) rest in
     if \<not> sublist (''name='' @ [CHR 0x22]) window then None
     else map_option Suc (find_char (\<lambda>c. c = CHR ''>'') window))"

(* src/crates/aura-agent/src/agent_loop/text_sanitize.rs:67-78 scrub_tool_markup *)
definition markup_at :: "string \<Rightarrow> nat option" where
  "markup_at rest =
    (if rest \<noteq> [] \<and> hd rest = CHR ''<'' then match_xml_tool_tag rest
     else if prefix ''[tool_use '' rest then match_hybrid_tool_use rest
     else None)"

(* src/crates/aura-agent/src/agent_loop/text_sanitize.rs:63-84 scrub_tool_markup *)
function scrub_loop :: "string \<Rightarrow> string \<times> bool" where
  "scrub_loop [] = ([], False)"
| "scrub_loop (c # cs) =
    (case markup_at (c # cs) of
       Some (Suc n) \<Rightarrow> (fst (scrub_loop (drop n cs)), True)
     | _ \<Rightarrow> (case scrub_loop cs of (out, changed) \<Rightarrow> (c # out, changed)))"
  by pat_completeness auto
termination by (relation "measure length") auto

(* src/crates/aura-agent/src/agent_loop/text_sanitize.rs:124-139 collapse_blank_lines *)
fun collapse_run :: "nat \<Rightarrow> string \<Rightarrow> string" where
  "collapse_run n [] = []"
| "collapse_run n (c # cs) =
    (if c = CHR 0x0A then (if n < 2 then c # collapse_run (Suc n) cs else collapse_run (Suc n) cs)
     else c # collapse_run 0 cs)"

(* src/crates/aura-agent/src/agent_loop/text_sanitize.rs:58-87 scrub_tool_markup *)
definition scrub_tool_markup :: "string \<Rightarrow> string \<times> bool" where
  "scrub_tool_markup text =
    (if CHR ''<'' \<notin> set text \<and> \<not> sublist ''[tool_use'' text then (text, False)
     else (case scrub_loop text of (out, changed) \<Rightarrow> (collapse_run 0 out, changed)))"

(* src/crates/aura-agent/src/agent_loop/text_sanitize.rs:33-44 sanitize_message *)
fun sanitize_block :: "content_block \<Rightarrow> content_block" where
  "sanitize_block (Block_Text text) = Block_Text (fst (scrub_tool_markup text))"
| "sanitize_block b = b"

(* src/crates/aura-agent/src/agent_loop/text_sanitize.rs:30-45 sanitize_message *)
definition sanitize_message :: "message \<Rightarrow> message \<times> bool" where
  "sanitize_message m =
    (m \<lparr> msg_content := map sanitize_block (msg_content m) \<rparr>,
     list_ex (\<lambda>b. case block_as_text b of Some t \<Rightarrow> snd (scrub_tool_markup t) | None \<Rightarrow> False) (msg_content m))"

section \<open>The response\<close>

fun block_thinking :: "content_block \<Rightarrow> string" where
  "block_thinking (Block_Thinking t _) = t"
| "block_thinking _ = []"

(* src/crates/aura-agent/src/agent_loop/iteration/mod.rs:198-263 accumulate_response *)
definition accumulate_response :: "loop_libs \<Rightarrow> model_response \<Rightarrow> loop_state \<Rightarrow> bool \<times> loop_state" where
  "accumulate_response L response s =
    (let u = mr_usage response; r = ls_result s;
         creation = or_default 0 (us_cache_creation_input_tokens u); read = or_default 0 (us_cache_read_input_tokens u);
         (m, scrubbed) = sanitize_message (mr_message response);
         r1 = r \<lparr> lr_total_input_tokens := lr_total_input_tokens r + us_input_tokens u,
                  lr_total_output_tokens := lr_total_output_tokens r + us_output_tokens u,
                  lr_total_cache_creation_input_tokens := lr_total_cache_creation_input_tokens r + creation,
                  lr_total_cache_read_input_tokens := lr_total_cache_read_input_tokens r + read,
                  lr_context_breakdown := (lr_context_breakdown r) \<lparr> cb_cache_read_tokens := read, cb_cache_creation_tokens := creation \<rparr>,
                  lr_total_text := lr_total_text r @ concat (map (\<lambda>b. or_default [] (block_as_text b)) (msg_content m)),
                  lr_total_thinking := lr_total_thinking r @ concat (map block_thinking (msg_content m)) \<rparr>;
         ms = ls_messages s @ [m];
         provider_tokens = sat_add (sat_add (sat_add (us_input_tokens u) (us_output_tokens u)) creation) read;
         estimated = max provider_tokens (heuristic_context_tokens (ll_text L) ms) in
     (scrubbed, set_context_estimate estimated (s \<lparr> ls_result := r1, ls_messages := ms \<rparr>)))"

end
