(* ===== verification/Stream_Pump.thy ===== *)
theory Stream_Pump
  imports Loop_Context "HOL-Library.Multiset"
begin

text \<open>
  The streaming pump (\<open>aura-agent/src/agent_loop/stream_pump\<close>): it drives the stream of one model
  response, starts every tool call as soon as its block is complete, collects the results in the order
  of the calls, and retries an interrupted stream only while no tool call was admitted.

  What the provider, the tools, the timers, the user and the cancellation token do during an attempt is
  the record \<open>pump_attempt\<close>: the steps of the stream, each with the inputs that were pushed before it,
  the result of each tool by the position of its call (none on a timeout), and the number of results
  after which the token fires while the results are collected.  Events for the user interface are left
  out.
\<close>

section \<open>Streams\<close>

(* src/crates/aura-model-reasoner/src/response_stream.rs:48-78 OutputItem *)
datatype output_item =
    Item_Message string
  | Item_Thinking string "string option"
  | Item_ToolUse string string json
  | Item_InvalidToolUse string string string

(* src/crates/aura-model-reasoner/src/response_stream.rs:133-148 StreamPhase *)
datatype stream_phase = Phase_Connecting | Phase_Thinking | Phase_Text | Phase_ToolInput | Phase_Ping

(* src/crates/aura-model-reasoner/src/response_stream.rs:153-202 ResponseEvent *)
datatype response_event =
    Event_OutputItemDone output_item
  | Event_Keepalive stream_phase
  | Event_OutputTextDelta string
  | Event_OutputThinkingDelta string
  | Event_Completed "bool option" "stop_reason option" usage
  | Event_Error stream_error

(* src/crates/aura-agent/src/agent_loop/stream_pump/driver.rs:586-592 StreamStep *)
datatype stream_step =
    Step_Event response_event
  | Step_End
  | Step_Cancelled
  | Step_TimedOut
  | Step_TransportErr stream_error

record pump_attempt =
  pa_cancelled :: bool
  pa_open :: "reasoner_error option"
  pa_steps :: "(user_input list \<times> stream_step) list"
  pa_tools :: "nat \<Rightarrow> tool_call_info \<Rightarrow> tool_call_result option"
  pa_drain_cancel :: "nat option"

(* src/crates/aura-agent/src/agent_loop/stream_pump/mod.rs:137-172 StreamPumpOutcome *)
datatype stream_pump_outcome =
    Pump_Completed model_response "(tool_call_info \<times> tool_call_result) list"
  | Pump_Cancelled
  | Pump_Error agent_error
  | Pump_RetryableTransport agent_error nat nat
  | Pump_AbortedWithPartial string "partial_tool_use option" nat nat

type_synonym indexed_pair = "nat \<times> tool_call_info \<times> tool_call_result"

text \<open>The local variables of the driver.\<close>

(* src/crates/aura-agent/src/agent_loop/stream_pump/driver.rs:65-94 drive_stream *)
record drive_locals =
  dl_text_chunks :: "string list"
  dl_thinking_chunks :: "(string \<times> string option) list"
  dl_text_bytes :: nat
  dl_thinking_bytes :: nat
  dl_streamed_text :: bool
  dl_streamed_thinking :: bool
  dl_tool_calls_seen :: "tool_call_info list"
  dl_cached_pairs :: "indexed_pair list"
  dl_spawned :: "(nat \<times> tool_call_info) list"

definition drive_locals_new :: drive_locals where
  "drive_locals_new =
    \<lparr> dl_text_chunks = [], dl_thinking_chunks = [], dl_text_bytes = 0, dl_thinking_bytes = 0, dl_streamed_text = False,
      dl_streamed_thinking = False, dl_tool_calls_seen = [], dl_cached_pairs = [], dl_spawned = [] \<rparr>"

section \<open>One attempt\<close>

(* src/crates/aura-agent/src/agent_loop/turn.rs:504-513 apply_user_inputs_to_messages *)
fun apply_user_input :: "user_input \<Rightarrow> message list \<Rightarrow> message list" where
  "apply_user_input (Input_Message text) ms = append_warning text ms"
| "apply_user_input (Input_Steer instruction) ms =
    append_warning (''<harness_steer>'' @ nl @ instruction @ nl @ ''</harness_steer>'') ms"
| "apply_user_input Input_Cancel ms = ms"

(* src/crates/aura-agent/src/agent_loop/turn.rs:502-515 apply_user_inputs_to_messages *)
definition apply_user_inputs_to_messages :: "user_input list \<Rightarrow> message list \<Rightarrow> message list" where
  "apply_user_inputs_to_messages inputs ms = fold apply_user_input inputs ms"

(* src/crates/aura-agent/src/agent_loop/stream_pump/driver.rs:430-455 interrupted_outcome *)
fun interrupted_outcome :: "stream_error \<Rightarrow> bool \<Rightarrow> nat \<Rightarrow> nat \<Rightarrow> stream_pump_outcome" where
  "interrupted_outcome (StreamError_TransportClosed c) no_tools t k =
    (if no_tools then Pump_RetryableTransport (AgentError_Stream (StreamError_TransportClosed c)) t k
     else Pump_Error (AgentError_Stream (StreamError_TransportClosed c)))"
| "interrupted_outcome (StreamError_StreamAbortedWithPartial r p) no_tools t k =
    (if no_tools then Pump_AbortedWithPartial r p t k
     else Pump_Error (AgentError_Stream (StreamError_StreamAbortedWithPartial r p)))"
| "interrupted_outcome e no_tools t k = Pump_Error (AgentError_Stream e)"

(* src/crates/aura-agent/src/agent_loop/stream_pump/synthesize.rs:34-46 synthesize_response *)
definition derive_stop_reason :: "bool \<Rightarrow> bool option \<Rightarrow> stop_reason option \<Rightarrow> stop_reason" where
  "derive_stop_reason has_tools end_turn stop =
    (if stop = Some Stop_MaxTokens then Stop_MaxTokens
     else if has_tools then Stop_ToolUse
     else or_default (if end_turn = Some False then Stop_ToolUse else Stop_EndTurn) stop)"

(* src/crates/aura-agent/src/agent_loop/stream_pump/synthesize.rs:7-53 synthesize_response *)
definition synthesize_response ::
  "drive_locals \<Rightarrow> bool option \<Rightarrow> stop_reason option \<Rightarrow> usage \<Rightarrow> string \<Rightarrow> model_response" where
  "synthesize_response d end_turn stop u model_name =
    model_response_new (derive_stop_reason (dl_tool_calls_seen d \<noteq> []) end_turn stop)
      \<lparr> msg_role = Role_Assistant,
        msg_content = map (\<lambda>(t, sig1). Block_Thinking t sig1) (dl_thinking_chunks d) @ map Block_Text (dl_text_chunks d)
          @ map (\<lambda>c. Block_ToolUse (ti_id c) (ti_name c) (ti_input c)) (dl_tool_calls_seen d) \<rparr>
      u \<lparr> pt_message_id = None, pt_provider_request_id = None, pt_latency_ms = 0, pt_model = model_name \<rparr>"

(* src/crates/aura-agent/src/agent_loop/tool_pipeline.rs:773-801 partition_circling_duplicate_reads *)
definition partition_circling_duplicate_reads ::
  "loop_libs \<Rightarrow> loop_settings \<Rightarrow> tool_call_info list \<Rightarrow> loop_state \<Rightarrow> tool_call_result list \<times> tool_call_info list" where
  "partition_circling_duplicate_reads L S calls s =
    (if \<not> sc_implement_now_hard_block (st_steering S) \<or> \<not> ls_implement_now_injected s \<or> ls_had_any_file_write s
     then ([], calls)
     else (map (\<lambda>c. call_error (ti_id c) (ll_hard_block_body L)) (filter (\<lambda>c. is_exploration_tool (ti_name c)) calls),
           filter (\<lambda>c. \<not> is_exploration_tool (ti_name c)) calls))"

text \<open>The inputs a user pushed are added to the queue before the step is handled.\<close>

definition push_all :: "user_input list \<Rightarrow> input_queue \<Rightarrow> input_queue" where
  "push_all xs q = fold (\<lambda>x. snd \<circ> push_input x) xs q"

(* src/crates/aura-agent/src/agent_loop/stream_pump/driver.rs:573-582 handle_tool_use_event *)
definition drain_into_messages :: "input_queue \<times> loop_state \<Rightarrow> input_queue \<times> loop_state" where
  "drain_into_messages = (\<lambda>(q, s).
    if iq_has_pending q
    then (case drain_inputs q of (xs, q') \<Rightarrow> (q', on_messages (apply_user_inputs_to_messages xs) s))
    else (q, s))"

(* src/crates/aura-agent/src/agent_loop/stream_pump/driver.rs:478-584 handle_tool_use_event *)
definition handle_tool_use_event ::
  "loop_libs \<Rightarrow> loop_settings \<Rightarrow> tool_call_info \<Rightarrow> drive_locals \<Rightarrow> input_queue \<times> loop_state
    \<Rightarrow> drive_locals \<times> input_queue \<times> loop_state" where
  "handle_tool_use_event L S call d = (\<lambda>(q, s).
    (let index = length (dl_tool_calls_seen d);
         d1 = d \<lparr> dl_tool_calls_seen := dl_tool_calls_seen d @ [call] \<rparr> in
     case partition_circling_duplicate_reads L S [call] s of
       (blocked # _, _) \<Rightarrow> (d1 \<lparr> dl_cached_pairs := dl_cached_pairs d1 @ [(index, call, blocked)] \<rparr>, q, s)
     | ([], allowed) \<Rightarrow>
         (let d2 = (case split_cached (ll_text L) allowed (ls_tool_cache s) of
                      (first # _, _) \<Rightarrow> d1 \<lparr> dl_cached_pairs := dl_cached_pairs d1 @ [(index, call, first)] \<rparr>
                    | ([], first # _) \<Rightarrow> d1 \<lparr> dl_spawned := dl_spawned d1 @ [(index, first)] \<rparr>
                    | ([], []) \<Rightarrow> d1) in
          (d2, drain_into_messages (q, s)))))"

(* src/crates/aura-agent/src/agent_loop/stream_pump/driver.rs:181-257 drive_stream *)
fun handle_item ::
  "loop_libs \<Rightarrow> loop_settings \<Rightarrow> output_item \<Rightarrow> drive_locals \<Rightarrow> input_queue \<times> loop_state
    \<Rightarrow> drive_locals \<times> input_queue \<times> loop_state" where
  "handle_item L S (Item_InvalidToolUse i name why) d qs =
    (let call = \<lparr> ti_id = i, ti_name = name, ti_input = J_Object [] \<rparr>; index = length (dl_tool_calls_seen d) in
     (d \<lparr> dl_tool_calls_seen := dl_tool_calls_seen d @ [call],
          dl_cached_pairs := dl_cached_pairs d @ [(index, call, call_error i why)] \<rparr>, qs))"
| "handle_item L S (Item_ToolUse i name input) d qs =
    handle_tool_use_event L S \<lparr> ti_id = i, ti_name = name, ti_input = input \<rparr> d qs"
| "handle_item L S (Item_Message text) d qs =
    (d \<lparr> dl_text_bytes := dl_text_bytes d + (if dl_streamed_text d then 0 else length text), dl_streamed_text := False,
         dl_text_chunks := dl_text_chunks d @ [text] \<rparr>, qs)"
| "handle_item L S (Item_Thinking thinking sig1) d qs =
    (d \<lparr> dl_thinking_bytes := dl_thinking_bytes d + (if dl_streamed_thinking d then 0 else length thinking),
         dl_streamed_thinking := False, dl_thinking_chunks := dl_thinking_chunks d @ [(thinking, sig1)] \<rparr>, qs)"

text \<open>
  How the stream ended: with a final outcome, with a cancellation while tool calls were seen, or with the
  event that completes it.
\<close>

datatype stream_end =
    Ended_Outcome stream_pump_outcome
  | Ended_Cancelled
  | Ended_Completed "bool option" "stop_reason option" usage

(* src/crates/aura-agent/src/agent_loop/stream_pump/driver.rs:113-262 drive_stream *)
fun drive_events ::
  "loop_libs \<Rightarrow> loop_settings \<Rightarrow> agent_loop_config \<Rightarrow> (user_input list \<times> stream_step) list \<Rightarrow> drive_locals
    \<Rightarrow> input_queue \<times> loop_state \<Rightarrow> stream_end \<times> drive_locals \<times> input_queue \<times> loop_state" where
  "drive_events L S config [] d qs =
    (Ended_Outcome (interrupted_outcome (StreamError_TransportClosed ''missing completed event'')
       (dl_tool_calls_seen d = []) (dl_text_bytes d) (dl_thinking_bytes d)), d, qs)"
| "drive_events L S config ((pushed, stp) # steps) d (q, s) =
    (let q = push_all pushed q in
     case stp of
       Step_Cancelled \<Rightarrow>
         (if dl_tool_calls_seen d = [] then Ended_Outcome Pump_Cancelled else Ended_Cancelled, d, q, s)
     | Step_TimedOut \<Rightarrow> (Ended_Outcome (Pump_Error (AgentError_StreamTimeout (ac_stream_event_timeout config))), d, q, s)
     | Step_TransportErr e \<Rightarrow>
         (Ended_Outcome (interrupted_outcome e (dl_tool_calls_seen d = []) (dl_text_bytes d) (dl_thinking_bytes d)), d, q, s)
     | Step_End \<Rightarrow>
         (Ended_Outcome (interrupted_outcome (StreamError_TransportClosed ''missing completed event'')
            (dl_tool_calls_seen d = []) (dl_text_bytes d) (dl_thinking_bytes d)), d, q, s)
     | Step_Event (Event_Error e) \<Rightarrow>
         (Ended_Outcome (interrupted_outcome e (dl_tool_calls_seen d = []) (dl_text_bytes d) (dl_thinking_bytes d)), d, q, s)
     | Step_Event (Event_Completed et sr u) \<Rightarrow> (Ended_Completed et sr u, d, q, s)
     | Step_Event (Event_Keepalive _) \<Rightarrow> drive_events L S config steps d (q, s)
     | Step_Event (Event_OutputTextDelta chunk) \<Rightarrow>
         drive_events L S config steps (d \<lparr> dl_text_bytes := dl_text_bytes d + length chunk, dl_streamed_text := True \<rparr>) (q, s)
     | Step_Event (Event_OutputThinkingDelta chunk) \<Rightarrow>
         drive_events L S config steps
           (d \<lparr> dl_thinking_bytes := dl_thinking_bytes d + length chunk, dl_streamed_thinking := True \<rparr>) (q, s)
     | Step_Event (Event_OutputItemDone item) \<Rightarrow>
         (case handle_item L S item d (q, s) of (d', qs') \<Rightarrow> drive_events L S config steps d' qs'))"

(* src/crates/aura-agent/src/agent_loop/stream_pump/driver.rs:758-780 spawn_tool_with_timeout *)
definition tool_outcome :: "agent_loop_config \<Rightarrow> pump_attempt \<Rightarrow> nat \<times> tool_call_info \<Rightarrow> indexed_pair" where
  "tool_outcome config a = (\<lambda>(index, call).
    (index, call, case pa_tools a index call of
       Some r \<Rightarrow> r
     | None \<Rightarrow> call_error (ti_id call) (''tool '' @ quoted (ti_name call) @ '' timed out after ''
         @ nat_str (ac_per_tool_timeout config) @ ''ms (per_tool_timeout)'')))"

(* src/crates/aura-agent/src/agent_loop/stream_pump/driver.rs:379-388 drive_stream *)
definition merge_pairs :: "indexed_pair list \<Rightarrow> indexed_pair list \<Rightarrow> (tool_call_info \<times> tool_call_result) list" where
  "merge_pairs cached spawned = map snd (sort_key fst (cached @ spawned))"

definition CANCELLED_TEXT :: string where
  "CANCELLED_TEXT = ''[CANCELLED] Tool execution was cancelled by the user before the tool returned.''"

(* src/crates/aura-agent/src/agent_loop/stream_pump/driver.rs:715-730 cancelled_outcome *)
definition cancelled_result :: "tool_call_info \<Rightarrow> tool_call_result" where
  "cancelled_result call = (call_error (ti_id call) CANCELLED_TEXT) \<lparr> tr_stop_loop := True \<rparr>"

(* src/crates/aura-agent/src/agent_loop/stream_pump/driver.rs:676-756 CancelledSnapshot, cancelled_outcome *)
definition cancelled_outcome ::
  "drive_locals \<Rightarrow> bool option \<Rightarrow> usage \<Rightarrow> string \<Rightarrow> indexed_pair list \<Rightarrow> stream_pump_outcome" where
  "cancelled_outcome d end_turn u model_name done =
    (let already = fst ` set (dl_cached_pairs d) \<union> fst ` set done;
         pending = filter (\<lambda>(i, _). i \<notin> already) (dl_spawned d);
         missing = map (\<lambda>(i, _). (i, dl_tool_calls_seen d ! i, cancelled_result (dl_tool_calls_seen d ! i)))
                     (filter (\<lambda>(i, _). i < length (dl_tool_calls_seen d)) pending) in
     Pump_Completed (synthesize_response d end_turn None u model_name) (merge_pairs (dl_cached_pairs d) (done @ missing)))"

definition usage_default :: usage where
  "usage_default = usage_new 0 0"

(* src/crates/aura-agent/src/agent_loop/stream_pump/driver.rs:379-425 drive_stream *)
definition completed_outcome ::
  "loop_libs \<Rightarrow> string \<Rightarrow> drive_locals \<Rightarrow> bool option \<Rightarrow> stop_reason option \<Rightarrow> usage \<Rightarrow> indexed_pair list
    \<Rightarrow> loop_state \<Rightarrow> stream_pump_outcome \<times> loop_state" where
  "completed_outcome L model_name d end_turn stop u done s =
    (let results = merge_pairs (dl_cached_pairs d) done; started = map snd (dl_spawned d);
         fresh = map snd (filter (\<lambda>(c, _). list_ex (\<lambda>sc. ti_id sc = ti_id c) started) results) in
     (Pump_Completed (synthesize_response d end_turn stop u model_name) results,
      s \<lparr> ls_tool_cache := update_cache (ll_text L) started fresh (ls_tool_cache s) \<rparr>))"

(* src/crates/aura-agent/src/agent_loop/stream_pump/driver.rs:335-377 drive_stream *)
definition drain_in_flight ::
  "loop_libs \<Rightarrow> agent_loop_config \<Rightarrow> string \<Rightarrow> pump_attempt \<Rightarrow> drive_locals \<Rightarrow> bool option \<Rightarrow> stop_reason option \<Rightarrow> usage
    \<Rightarrow> loop_state \<Rightarrow> stream_pump_outcome \<times> loop_state" where
  "drain_in_flight L config model_name a d end_turn stop u s =
    (let results = map (tool_outcome config a) (dl_spawned d) in
     case pa_drain_cancel a of
       Some k \<Rightarrow> if k < length results then (cancelled_outcome d end_turn u model_name (take k results), s)
                 else completed_outcome L model_name d end_turn stop u results s
     | None \<Rightarrow> completed_outcome L model_name d end_turn stop u results s)"

text \<open>Beside the outcome, the calls that were handed to the executor.\<close>

(* src/crates/aura-agent/src/agent_loop/stream_pump/driver.rs:53-164 drive_stream *)
definition drive_stream ::
  "loop_libs \<Rightarrow> loop_settings \<Rightarrow> agent_loop_config \<Rightarrow> string \<Rightarrow> pump_attempt \<Rightarrow> input_queue \<times> loop_state
    \<Rightarrow> (stream_pump_outcome \<times> tool_call_info list) \<times> input_queue \<times> loop_state" where
  "drive_stream L S config model_name a qs =
    (case drive_events L S config (pa_steps a) drive_locals_new qs of
       (fin, d, q, s) \<Rightarrow>
         (case (case fin of
                  Ended_Outcome out \<Rightarrow> (out, s)
                | Ended_Cancelled \<Rightarrow> (cancelled_outcome d None usage_default model_name [], s)
                | Ended_Completed et sr u \<Rightarrow> drain_in_flight L config model_name a d et sr u s) of
            (out, s') \<Rightarrow> ((out, map snd (dl_spawned d)), q, s')))"

section \<open>Retries\<close>

(* src/crates/aura-agent/src/agent_loop/stream_pump/retry.rs:33-37 PartialRetryState *)
record partial_retry_state =
  pr_tool_use_id :: string
  pr_tool_name :: string
  pr_reason :: string

(* src/crates/aura-agent/src/agent_loop/stream_pump/retry.rs:44-61 update_partial_retry_state *)
definition update_partial_retry_state ::
  "partial_retry_state option \<Rightarrow> string \<Rightarrow> partial_tool_use option \<Rightarrow> partial_retry_state" where
  "update_partial_retry_state previous why part =
    (let (prev_id, prev_name) = (case previous of
           Some st \<Rightarrow> (pr_tool_use_id st, pr_tool_name st) | None \<Rightarrow> (''<unknown>'', ''<unknown>''));
         (i, n) = (case part of Some p \<Rightarrow> (pu_tool_use_id p, pu_tool_name p) | None \<Rightarrow> (prev_id, prev_name)) in
     \<lparr> pr_tool_use_id = i, pr_tool_name = n, pr_reason = why \<rparr>)"

(* src/crates/aura-agent/src/agent_loop/stream_pump/mod.rs:339-369 run_stream_pump *)
definition retries_exhausted :: "partial_retry_state option \<Rightarrow> agent_error option \<Rightarrow> stream_pump_outcome" where
  "retries_exhausted retry transport =
    (case transport of
       Some e \<Rightarrow> Pump_Error e
     | None \<Rightarrow>
         Pump_Error (AgentError_Reason (ReasonerError_StreamAbortedWithPartial
           (case retry of Some st \<Rightarrow> pr_reason st | None \<Rightarrow> ''stream aborted while tool_use was in flight'') None)))"

text \<open>
  The attempts from number \<open>k\<close> on, \<open>n\<close> of them; beside the outcome, the calls that were handed to the
  executor, over all attempts.
\<close>

(* src/crates/aura-agent/src/agent_loop/stream_pump/mod.rs:199-337 run_stream_pump *)
fun pump_attempts ::
  "loop_libs \<Rightarrow> loop_settings \<Rightarrow> agent_loop_config \<Rightarrow> string \<Rightarrow> (nat \<Rightarrow> pump_attempt) \<Rightarrow> nat \<Rightarrow> nat
    \<Rightarrow> partial_retry_state option \<Rightarrow> agent_error option \<Rightarrow> input_queue \<times> loop_state
    \<Rightarrow> (stream_pump_outcome \<times> tool_call_info list) \<times> input_queue \<times> loop_state" where
  "pump_attempts L S config model_name env k 0 retry transport qs = ((retries_exhausted retry transport, []), qs)"
| "pump_attempts L S config model_name env k (Suc n) retry transport qs =
    (let a = env k in
     if pa_cancelled a then ((Pump_Cancelled, []), qs)
     else if 0 < k \<and> retry = None \<and> transport = None
     then ((Pump_Error (AgentError_Reason (ReasonerError_Internal ''stream retry requested without an interrupted request'')), []), qs)
     else (case pa_open a of
       Some (ReasonerError_StreamAbortedWithPartial why part) \<Rightarrow>
         pump_attempts L S config model_name env (Suc k) n (Some (update_partial_retry_state retry why part)) None qs
     | Some (ReasonerError_Request m) \<Rightarrow>
         pump_attempts L S config model_name env (Suc k) n None (Some (AgentError_Reason (ReasonerError_Request m))) qs
     | Some ReasonerError_Timeout \<Rightarrow>
         pump_attempts L S config model_name env (Suc k) n None (Some (AgentError_Reason ReasonerError_Timeout)) qs
     | Some e \<Rightarrow> ((Pump_Error (AgentError_Reason e), []), qs)
     | None \<Rightarrow>
         (case drive_stream L S config model_name a qs of
            ((Pump_AbortedWithPartial why part t kb, started), qs') \<Rightarrow>
              (case pump_attempts L S config model_name env (Suc k) n (Some (update_partial_retry_state retry why part)) None qs' of
                 ((out, started'), qs'') \<Rightarrow> ((out, started @ started'), qs''))
          | ((Pump_RetryableTransport e t kb, started), qs') \<Rightarrow>
              (case pump_attempts L S config model_name env (Suc k) n None (Some e) qs' of
                 ((out, started'), qs'') \<Rightarrow> ((out, started @ started'), qs''))
          | other \<Rightarrow> other)))"

(* src/crates/aura-agent/src/agent_loop/stream_pump/mod.rs:181-369 run_stream_pump *)
definition run_stream_pump ::
  "loop_libs \<Rightarrow> loop_settings \<Rightarrow> agent_loop_config \<Rightarrow> (model_request \<Rightarrow> nat \<Rightarrow> pump_attempt) \<Rightarrow> model_request
    \<Rightarrow> input_queue \<times> loop_state \<Rightarrow> (stream_pump_outcome \<times> tool_call_info list) \<times> input_queue \<times> loop_state" where
  "run_stream_pump L S config env q qs =
    pump_attempts L S config (mq_model q) (env q) 0 (Suc (st_max_retries S)) None None qs"

(* src/crates/aura-agent/src/agent_loop/transport.rs:121-137 TransportOutcome, StreamedOutcome *)
datatype transport_outcome =
    Transport_Streamed model_response "(tool_call_info \<times> tool_call_result) list"
  | Transport_Cancelled

(* src/crates/aura-agent/src/agent_loop/transport.rs:177-230 PumpTransport::sample *)
fun pump_outcome_result :: "loop_libs \<Rightarrow> stream_pump_outcome \<Rightarrow> (llm_call_error, transport_outcome) result" where
  "pump_outcome_result L (Pump_Completed response results) = Inr (Transport_Streamed response results)"
| "pump_outcome_result L Pump_Cancelled = Inr Transport_Cancelled"
| "pump_outcome_result L (Pump_Error (AgentError_Reason e)) = Inl (from_reasoner_error e)"
| "pump_outcome_result L (Pump_Error e) = Inl (Llm_Fatal (agent_error_text L e))"
| "pump_outcome_result L (Pump_AbortedWithPartial _ _ _ _) =
    Inl (Llm_Fatal ''stream pump returned an unretried partial tool-use abort'')"
| "pump_outcome_result L (Pump_RetryableTransport e _ _) = Inl (Llm_Fatal (agent_error_text L e))"

section \<open>Every call has its result\<close>

(* src/crates/aura-agent/src/agent_loop/tool_pipeline.rs:230-245 tool_calls *)
definition tool_calls :: "model_response \<Rightarrow> tool_call_info list" where
  "tool_calls response =
    List.map_filter (\<lambda>b. case b of
      Block_ToolUse i name input \<Rightarrow> Some \<lparr> ti_id = i, ti_name = name, ti_input = input \<rparr> | _ \<Rightarrow> None)
      (msg_content (mr_message response))"

text \<open>
  The books of the driver: every call seen so far has exactly one entry, a result at hand or a running
  tool, under its position; running tools are in the order of the calls.
\<close>

definition drive_ok :: "drive_locals \<Rightarrow> bool" where
  "drive_ok d =
    (mset (map fst (dl_cached_pairs d) @ map fst (dl_spawned d)) = mset [0..<length (dl_tool_calls_seen d)]
     \<and> (\<forall>(i, c, r) \<in> set (dl_cached_pairs d). c = dl_tool_calls_seen d ! i \<and> tr_tool_use_id r = ti_id c)
     \<and> (\<forall>(i, c) \<in> set (dl_spawned d). c = dl_tool_calls_seen d ! i)
     \<and> subseq (map snd (dl_spawned d)) (dl_tool_calls_seen d))"

lemma drive_ok_index:
  assumes "drive_ok d"
  shows "(i, c, r) \<in> set (dl_cached_pairs d) \<Longrightarrow> i < length (dl_tool_calls_seen d)"
    "(i, c) \<in> set (dl_spawned d) \<Longrightarrow> i < length (dl_tool_calls_seen d)"
proof -
  have "set (map fst (dl_cached_pairs d) @ map fst (dl_spawned d)) = {0..<length (dl_tool_calls_seen d)}"
    using assms unfolding drive_ok_def by (metis mset_eq_setD set_upt)
  then show "(i, c, r) \<in> set (dl_cached_pairs d) \<Longrightarrow> i < length (dl_tool_calls_seen d)"
    "(i, c) \<in> set (dl_spawned d) \<Longrightarrow> i < length (dl_tool_calls_seen d)"
    by (force simp: set_eq_iff)+
qed

lemma drive_ok_add:
  assumes "drive_ok d" "d' = d \<lparr> dl_tool_calls_seen := dl_tool_calls_seen d @ [call] \<rparr>" "n = length (dl_tool_calls_seen d)"
  shows "tr_tool_use_id r = ti_id call \<Longrightarrow> drive_ok (d' \<lparr> dl_cached_pairs := dl_cached_pairs d @ [(n, call, r)] \<rparr>)"
    "drive_ok (d' \<lparr> dl_spawned := dl_spawned d @ [(n, call)] \<rparr>)"
  using assms drive_ok_index [OF assms(1)]
  by (force simp: drive_ok_def nth_append subseq_drop_many case_prod_beta)+

lemma split_cached_single:
  obtains content where "split_cached T [call] cache = ([cached_tool_result call content], [])"
  | "split_cached T [call] cache = ([], [call])"
  by (cases "cache_hit T cache call") auto

lemma drive_ok_tool_use:
  assumes "drive_ok d" "handle_tool_use_event L S call d (q, s) = (d', qs')"
  shows "drive_ok d'"
proof (cases "partition_circling_duplicate_reads L S [call] s = ([], [call])")
  case True
  show ?thesis
  proof (cases rule: split_cached_single [of "ll_text L" call "ls_tool_cache s"])
    case (1 content)
    with True assms show ?thesis
      by (auto simp: handle_tool_use_event_def Let_def cached_tool_result_def intro!: drive_ok_add(1) [OF assms(1) refl refl])
  next
    case 2
    with True assms show ?thesis
      by (auto simp: handle_tool_use_event_def Let_def intro!: drive_ok_add(2) [OF assms(1) refl refl])
  qed
next
  case False
  then have "partition_circling_duplicate_reads L S [call] s = ([call_error (ti_id call) (ll_hard_block_body L)], [])"
    by (auto simp: partition_circling_duplicate_reads_def split: if_splits)
  with assms show ?thesis
    by (auto simp: handle_tool_use_event_def Let_def call_error_def intro!: drive_ok_add(1) [OF assms(1) refl refl])
qed

lemma drive_ok_frame [simp]:
  "drive_ok (d \<lparr> dl_text_bytes := a, dl_streamed_text := b, dl_text_chunks := c \<rparr>) = drive_ok d"
  "drive_ok (d \<lparr> dl_thinking_bytes := a, dl_streamed_thinking := b, dl_thinking_chunks := e \<rparr>) = drive_ok d"
  "drive_ok (d \<lparr> dl_text_bytes := a, dl_streamed_text := b \<rparr>) = drive_ok d"
  "drive_ok (d \<lparr> dl_thinking_bytes := a, dl_streamed_thinking := b \<rparr>) = drive_ok d"
  by (simp_all add: drive_ok_def)

lemma drive_ok_item: "drive_ok d \<Longrightarrow> handle_item L S item d (q, s) = (d', qs') \<Longrightarrow> drive_ok d'"
proof (cases item)
  case (Item_InvalidToolUse i name why)
  assume "drive_ok d" "handle_item L S item d (q, s) = (d', qs')"
  with Item_InvalidToolUse show ?thesis
    by (auto simp: Let_def call_error_def intro!: drive_ok_add(1) [OF _ refl refl])
qed (auto intro: drive_ok_tool_use)

lemma drive_events_ok:
  "drive_ok d \<Longrightarrow> drive_events L S config steps d qs = (fin, d', qs') \<Longrightarrow> drive_ok d'"
proof (induction steps arbitrary: d qs)
  case (Cons ps steps)
  obtain pushed stp q s where ps: "ps = (pushed, stp)" "qs = (q, s)" by fastforce
  show ?case
  proof (cases stp)
    case (Step_Event ev)
    show ?thesis
    proof (cases ev)
      case (Event_OutputItemDone item)
      obtain d1 qs1 where h: "handle_item L S item d (push_all pushed q, s) = (d1, qs1)" by (meson surj_pair)
      with Cons.prems(2) have "drive_events L S config steps d1 qs1 = (fin, d', qs')"
        by (simp add: ps Step_Event Event_OutputItemDone Let_def)
      with Cons.IH drive_ok_item [OF Cons.prems(1) h] show ?thesis by blast
    next
      case (Event_OutputTextDelta chunk)
      let ?d = "d \<lparr> dl_text_bytes := dl_text_bytes d + length chunk, dl_streamed_text := True \<rparr>"
      have "drive_events L S config steps ?d (push_all pushed q, s) = (fin, d', qs')"
        using Cons.prems(2) by (simp add: ps Step_Event Event_OutputTextDelta Let_def)
      with Cons.IH [of ?d] Cons.prems(1) show ?thesis by simp
    next
      case (Event_OutputThinkingDelta chunk)
      let ?d = "d \<lparr> dl_thinking_bytes := dl_thinking_bytes d + length chunk, dl_streamed_thinking := True \<rparr>"
      have "drive_events L S config steps ?d (push_all pushed q, s) = (fin, d', qs')"
        using Cons.prems(2) by (simp add: ps Step_Event Event_OutputThinkingDelta Let_def)
      with Cons.IH [of ?d] Cons.prems(1) show ?thesis by simp
    next
      case (Event_Keepalive phase)
      then show ?thesis using Cons.prems by (auto simp: ps Step_Event Let_def intro: Cons.IH)
    qed (use Cons.prems in \<open>auto simp: ps Step_Event Let_def\<close>)
  qed (use Cons.prems in \<open>auto simp: ps Let_def\<close>)
qed auto

lemma drive_ok_new: "drive_ok drive_locals_new"
  by (simp add: drive_ok_def drive_locals_new_def)

lemma merge_pairs_calls:
  assumes "mset (map fst ps) = mset [0..<length calls]" "\<And>i c r. (i, c, r) \<in> set ps \<Longrightarrow> c = calls ! i"
  shows "map (fst \<circ> snd) (sort_key fst ps) = calls"
proof -
  have keys: "map fst (sort_key fst ps) = [0..<length calls]"
  proof -
    have "mset (map fst (sort_key fst ps)) = mset [0..<length calls]" using assms(1) by simp
    moreover have "sorted (map fst (sort_key fst ps))" by (rule sorted_sort_key)
    ultimately show ?thesis using properties_for_sort [of "map fst (sort_key fst ps)" "[0..<length calls]"] by simp
  qed
  have "map (fst \<circ> snd) (sort_key fst ps) = map (nth calls \<circ> fst) (sort_key fst ps)"
    by (rule map_cong [OF refl]) (use assms(2) in auto)
  also have "\<dots> = map (nth calls) (map fst (sort_key fst ps))" by simp
  also have "\<dots> = calls" by (simp only: keys map_nth)
  finally show ?thesis .
qed

lemma in_merge_pairs: "(c, r) \<in> set (merge_pairs xs ys) \<longleftrightarrow> (\<exists>i. (i, c, r) \<in> set xs \<union> set ys)"
  by (force simp: merge_pairs_def image_iff)

text \<open>The tools answer for the call they were given.\<close>

definition tools_answer :: "pump_attempt \<Rightarrow> bool" where
  "tools_answer a = (\<forall>i call r. pa_tools a i call = Some r \<longrightarrow> tr_tool_use_id r = ti_id call)"

lemma tool_outcome_simps: "fst (tool_outcome config a x) = fst x" "fst (snd (tool_outcome config a x)) = snd x"
  by (simp_all add: tool_outcome_def case_prod_beta)

lemma completed_pairs:
  assumes "drive_ok d" "map fst done @ map fst rest = map fst (dl_spawned d)"
    "\<And>i c r. (i, c, r) \<in> set (done @ rest) \<Longrightarrow> c = dl_tool_calls_seen d ! i"
  shows "map fst (merge_pairs (dl_cached_pairs d) (done @ rest)) = dl_tool_calls_seen d"
proof -
  have "mset (map fst (dl_cached_pairs d @ done @ rest)) = mset [0..<length (dl_tool_calls_seen d)]"
    using assms(1) by (simp add: drive_ok_def flip: assms(2))
  moreover have "\<And>i c r. (i, c, r) \<in> set (dl_cached_pairs d @ done @ rest) \<Longrightarrow> c = dl_tool_calls_seen d ! i"
    using assms(1,3) by (auto simp: drive_ok_def)
  ultimately have "map (fst \<circ> snd) (sort_key fst (dl_cached_pairs d @ done @ rest)) = dl_tool_calls_seen d"
    by (rule merge_pairs_calls)
  then show ?thesis by (simp add: merge_pairs_def comp_def)
qed

text \<open>Both ways to a completed outcome, with all results or with cancelled ones, pair every call.\<close>

lemma all_results_pair:
  assumes "drive_ok d"
  shows "map fst (merge_pairs (dl_cached_pairs d) (map (tool_outcome config a) (dl_spawned d))) = dl_tool_calls_seen d"
  using completed_pairs [OF assms, of "map (tool_outcome config a) (dl_spawned d)" "[]"] assms
  by (force simp: drive_ok_def tool_outcome_def case_prod_beta comp_def)

definition cancelled_pairs :: "drive_locals \<Rightarrow> indexed_pair list \<Rightarrow> indexed_pair list" where
  "cancelled_pairs d done =
    map (\<lambda>(i, _). (i, dl_tool_calls_seen d ! i, cancelled_result (dl_tool_calls_seen d ! i)))
      (filter (\<lambda>(i, _). i < length (dl_tool_calls_seen d))
        (filter (\<lambda>(i, _). i \<notin> fst ` set (dl_cached_pairs d) \<union> fst ` set done) (dl_spawned d)))"

lemma cancelled_outcome_eq:
  "cancelled_outcome d et u m done =
    Pump_Completed (synthesize_response d et None u m) (merge_pairs (dl_cached_pairs d) (done @ cancelled_pairs d done))"
  by (simp add: cancelled_outcome_def cancelled_pairs_def Let_def)

lemma drive_ok_distinct: "drive_ok d \<Longrightarrow> distinct (map fst (dl_cached_pairs d) @ map fst (dl_spawned d))"
  unfolding drive_ok_def by (metis distinct_upt mset_eq_imp_distinct_iff)

lemma cancelled_pairs_rest:
  assumes "drive_ok d"
  shows "cancelled_pairs d (take k (map (tool_outcome config a) (dl_spawned d))) =
    map (\<lambda>(i, c). (i, c, cancelled_result c)) (drop k (dl_spawned d))"
proof -
  let ?sp = "dl_spawned d" and ?n = "length (dl_tool_calls_seen d)"
  let ?done = "take k (map (tool_outcome config a) ?sp)"
  have dist: "distinct (map fst (dl_cached_pairs d) @ map fst (take k ?sp) @ map fst (drop k ?sp))"
    using drive_ok_distinct [OF assms] by (metis append_take_drop_id map_append)
  have idx: "fst ` set ?done = fst ` set (take k ?sp)"
    by (force simp: take_map image_image tool_outcome_simps)
  have "filter (\<lambda>(i, _). i \<notin> fst ` set (dl_cached_pairs d) \<union> fst ` set ?done) ?sp
      = filter (\<lambda>x. fst x \<notin> fst ` set (dl_cached_pairs d) \<union> fst ` set (take k ?sp)) (take k ?sp @ drop k ?sp)"
    unfolding idx append_take_drop_id case_prod_unfold ..
  also have "\<dots> = drop k ?sp"
  proof -
    let ?P = "\<lambda>x. fst x \<notin> fst ` set (dl_cached_pairs d) \<union> fst ` set (take k ?sp)"
    have "filter ?P (take k ?sp) = []" by (simp add: filter_empty_conv)
    moreover have "filter ?P (drop k ?sp) = drop k ?sp"
    proof (rule filter_True, rule ballI)
      fix x assume "x \<in> set (drop k ?sp)"
      then have "fst x \<in> fst ` set (drop k ?sp)" by (rule imageI)
      with dist show "?P x" by (simp add: disjoint_iff) blast
    qed
    ultimately show ?thesis by (simp only: filter_append append_Nil)
  qed
  finally have pending: "filter (\<lambda>(i, _). i \<notin> fst ` set (dl_cached_pairs d) \<union> fst ` set ?done) ?sp = drop k ?sp" .
  have bound: "i < ?n \<and> c = dl_tool_calls_seen d ! i" if "(i, c) \<in> set (drop k ?sp)" for i c
    using that drive_ok_index(2) [OF assms] assms by (auto simp: drive_ok_def dest!: in_set_dropD)
  have "filter (\<lambda>(i, _). i < ?n) (drop k ?sp) = drop k ?sp"
    using bound by (auto simp: filter_id_conv)
  with pending show ?thesis
    unfolding cancelled_pairs_def by (auto dest: bound)
qed

lemma cancelled_results_pair:
  assumes "drive_ok d"
  shows "map fst (merge_pairs (dl_cached_pairs d)
      (take k (map (tool_outcome config a) (dl_spawned d)) @ cancelled_pairs d (take k (map (tool_outcome config a) (dl_spawned d)))))
    = dl_tool_calls_seen d"
proof (rule completed_pairs [OF assms])
  show "map fst (take k (map (tool_outcome config a) (dl_spawned d)))
      @ map fst (cancelled_pairs d (take k (map (tool_outcome config a) (dl_spawned d)))) = map fst (dl_spawned d)"
    unfolding cancelled_pairs_rest [OF assms]
    by (simp add: take_map comp_def tool_outcome_simps case_prod_beta flip: map_append)
  show "c = dl_tool_calls_seen d ! i" if "(i, c, r) \<in> set (take k (map (tool_outcome config a) (dl_spawned d))
      @ cancelled_pairs d (take k (map (tool_outcome config a) (dl_spawned d))))" for i c r
    using that assms unfolding cancelled_pairs_rest [OF assms]
    by (auto simp: drive_ok_def take_map tool_outcome_def case_prod_beta dest!: in_set_takeD in_set_dropD)
qed

text \<open>The response that is put together lists the calls that were seen.\<close>

definition call_of_block :: "content_block \<Rightarrow> tool_call_info option" where
  "call_of_block b = (case b of
    Block_ToolUse i name input \<Rightarrow> Some \<lparr> ti_id = i, ti_name = name, ti_input = input \<rparr> | _ \<Rightarrow> None)"

lemma calls_of_blocks:
  "List.map_filter call_of_block (map (\<lambda>(t, sig1). Block_Thinking t sig1) ths) = []"
  "List.map_filter call_of_block (map Block_Text txts) = []"
  "List.map_filter call_of_block (map (\<lambda>c. Block_ToolUse (ti_id c) (ti_name c) (ti_input c)) calls) = calls"
  by (induction ths, auto simp: call_of_block_def map_filter_simps)
    (induction txts, auto simp: call_of_block_def map_filter_simps, induction calls, auto simp: call_of_block_def map_filter_simps)

lemma map_filter_append_calls: "List.map_filter f (xs @ ys) = List.map_filter f xs @ List.map_filter f ys"
  by (simp add: List.map_filter_def)

lemma tool_calls_synthesize [simp]: "tool_calls (synthesize_response d et sr u m) = dl_tool_calls_seen d"
  by (simp add: tool_calls_def synthesize_response_def model_response_new_def map_filter_append_calls calls_of_blocks
      flip: call_of_block_def [abs_def])

text \<open>An interruption ends the attempt for good unless no call was seen.\<close>

lemma interrupted_final:
  "interrupted_outcome e no_tools t k \<noteq> Pump_Completed response results"
  "interrupted_outcome e no_tools t k = Pump_RetryableTransport e' t' k' \<Longrightarrow> no_tools"
  "interrupted_outcome e no_tools t k = Pump_AbortedWithPartial why part t' k' \<Longrightarrow> no_tools"
  by (cases e; auto split: if_splits)+

fun retryable_outcome :: "stream_pump_outcome \<Rightarrow> bool" where
  "retryable_outcome (Pump_RetryableTransport _ _ _) = True"
| "retryable_outcome (Pump_AbortedWithPartial _ _ _ _) = True"
| "retryable_outcome _ = False"

lemma interrupted_retryable: "retryable_outcome (interrupted_outcome e no_tools t k) \<Longrightarrow> no_tools"
  by (cases e) (auto split: if_splits)

lemma drive_events_interrupted:
  "drive_events L S config steps d qs = (Ended_Outcome out, d', qs') \<Longrightarrow>
    (\<forall>response results. out \<noteq> Pump_Completed response results) \<and> (retryable_outcome out \<longrightarrow> dl_tool_calls_seen d' = [])"
proof (induction steps arbitrary: d qs)
  case Nil
  then show ?case by (auto simp: interrupted_final split: if_splits)
next
  case (Cons ps steps)
  obtain pushed stp q s where ps: "ps = (pushed, stp)" "qs = (q, s)" by fastforce
  show ?case
  proof (cases stp)
    case (Step_Event ev)
    with Cons show ?thesis
      by (cases ev) (auto simp: ps Let_def interrupted_final dest: interrupted_retryable split: prod.splits if_splits)
  qed (use Cons.prems in \<open>auto simp: ps Let_def interrupted_final dest: interrupted_retryable split: if_splits\<close>)
qed

text \<open>What one attempt gives.\<close>

lemma tool_outcome_answers:
  "tools_answer a \<Longrightarrow> (i, c, r) \<in> tool_outcome config a ` X \<Longrightarrow> tr_tool_use_id r = ti_id c"
  by (auto simp: tool_outcome_def tools_answer_def call_error_def split: option.split)

lemma cached_answers: "drive_ok d \<Longrightarrow> (i, c, r) \<in> set (dl_cached_pairs d) \<Longrightarrow> tr_tool_use_id r = ti_id c"
  by (auto simp: drive_ok_def)

definition pairs_response :: "model_response \<Rightarrow> (tool_call_info \<times> tool_call_result) list \<Rightarrow> tool_call_info list \<Rightarrow> bool \<Rightarrow> bool" where
  "pairs_response response results started answered =
    (map fst results = tool_calls response \<and> subseq started (tool_calls response)
     \<and> (answered \<longrightarrow> (\<forall>(c, r) \<in> set results. tr_tool_use_id r = ti_id c)))"

lemma pairs_merged:
  assumes "drive_ok d" "map fst (merge_pairs (dl_cached_pairs d) done) = dl_tool_calls_seen d"
    "\<And>i c r. tools_answer a \<Longrightarrow> (i, c, r) \<in> set done \<Longrightarrow> tr_tool_use_id r = ti_id c"
  shows "pairs_response (synthesize_response d et sr u m) (merge_pairs (dl_cached_pairs d) done) (map snd (dl_spawned d))
    (tools_answer a)"
  using assms cached_answers [OF assms(1)] by (auto simp: pairs_response_def in_merge_pairs drive_ok_def)

lemma cancelled_merged:
  assumes "drive_ok d" "cancelled_outcome d et u m (take k (map (tool_outcome config a) (dl_spawned d))) = Pump_Completed response results"
  shows "pairs_response response results (map snd (dl_spawned d)) (tools_answer a)"
proof -
  have "pairs_response (synthesize_response d et None u m)
      (merge_pairs (dl_cached_pairs d) (take k (map (tool_outcome config a) (dl_spawned d))
        @ cancelled_pairs d (take k (map (tool_outcome config a) (dl_spawned d))))) (map snd (dl_spawned d)) (tools_answer a)"
  proof (rule pairs_merged [OF assms(1) cancelled_results_pair [OF assms(1)]])
    fix i c r assume "tools_answer a" "(i, c, r) \<in> set (take k (map (tool_outcome config a) (dl_spawned d))
      @ cancelled_pairs d (take k (map (tool_outcome config a) (dl_spawned d))))"
    then show "tr_tool_use_id r = ti_id c"
      unfolding cancelled_pairs_rest [OF assms(1)]
      by (auto simp: take_map cancelled_result_def call_error_def intro: tool_outcome_answers)
  qed
  with assms(2) show ?thesis by (auto simp: cancelled_outcome_eq)
qed

lemma completed_merged:
  assumes "drive_ok d" "completed_outcome L m d et sr u (map (tool_outcome config a) (dl_spawned d)) s = (Pump_Completed response results, s')"
  shows "pairs_response response results (map snd (dl_spawned d)) (tools_answer a)"
proof -
  have "pairs_response (synthesize_response d et sr u m) (merge_pairs (dl_cached_pairs d) (map (tool_outcome config a) (dl_spawned d)))
      (map snd (dl_spawned d)) (tools_answer a)"
    by (rule pairs_merged [OF assms(1) all_results_pair [OF assms(1)]]) (auto intro: tool_outcome_answers)
  with assms(2) show ?thesis by (auto simp: completed_outcome_def Let_def)
qed

lemma drained_merged:
  assumes "drive_ok d" "drain_in_flight L config m a d et sr u s = (Pump_Completed response results, s')"
  shows "pairs_response response results (map snd (dl_spawned d)) (tools_answer a)"
  using assms completed_merged [OF assms(1)] cancelled_merged [OF assms(1)]
  by (auto simp: drain_in_flight_def Let_def split: option.splits if_splits)

lemma drain_not_retryable: "drain_in_flight L config m a d et sr u s = (out, s') \<Longrightarrow> \<not> retryable_outcome out"
  by (auto simp: drain_in_flight_def Let_def cancelled_outcome_def completed_outcome_def split: option.splits if_splits)

lemma drive_stream_completed:
  assumes "drive_stream L S config m a qs = ((Pump_Completed response results, started), qs')"
  shows "pairs_response response results started (tools_answer a)"
proof -
  obtain fin d q s where ev: "drive_events L S config (pa_steps a) drive_locals_new qs = (fin, d, q, s)"
    by (metis prod_cases4)
  have ok: "drive_ok d" by (rule drive_events_ok [OF drive_ok_new ev])
  show ?thesis
  proof (cases fin)
    case (Ended_Outcome out)
    with drive_events_interrupted ev assms show ?thesis by (fastforce simp: drive_stream_def)
  next
    case Ended_Cancelled
    with assms ev cancelled_merged [OF ok, of _ _ _ 0 undefined a] show ?thesis by (auto simp: drive_stream_def)
  next
    case (Ended_Completed et sr u)
    with assms ev drained_merged [OF ok] show ?thesis by (auto simp: drive_stream_def split: prod.splits)
  qed
qed

lemma drive_stream_retryable:
  assumes "drive_stream L S config m a qs = ((out, started), qs')" "retryable_outcome out"
  shows "started = []"
proof -
  obtain fin d q s where ev: "drive_events L S config (pa_steps a) drive_locals_new qs = (fin, d, q, s)"
    by (metis prod_cases4)
  have ok: "drive_ok d" by (rule drive_events_ok [OF drive_ok_new ev])
  have "dl_tool_calls_seen d = []"
  proof (cases fin)
    case (Ended_Outcome out')
    with drive_events_interrupted ev assms show ?thesis by (fastforce simp: drive_stream_def)
  qed (use assms ev drain_not_retryable in \<open>auto simp: drive_stream_def cancelled_outcome_def Let_def split: prod.splits\<close>)
  with ok have "dl_spawned d = []" by (auto simp: drive_ok_def)
  with assms(1) ev show ?thesis by (auto simp: drive_stream_def split: prod.splits)
qed

section \<open>The whole pump\<close>

text \<open>
  Tools are started by at most one attempt, and its outcome is the outcome of the pump: every attempt
  before it was retried and so had started none.
\<close>

lemma pump_attempts_last:
  assumes "pump_attempts L S config m env k n retry transport qs = ((out, started), qs')"
    "started \<noteq> [] \<or> (\<exists>response results. out = Pump_Completed response results)"
  shows "\<exists>j qs1. k \<le> j \<and> j < k + n \<and> drive_stream L S config m (env j) qs1 = ((out, started), qs')
    \<and> (\<forall>env'. (\<forall>i \<le> j. env' i = env i) \<longrightarrow> pump_attempts L S config m env' k n retry transport qs = ((out, started), qs'))"
  using assms
proof (induction n arbitrary: k retry transport qs started)
  case 0
  then show ?case by (auto simp: retries_exhausted_def split: option.splits)
next
  case (Suc n)
  have later: ?case
    if next1: "\<And>env'. env' k = env k \<Longrightarrow>
        pump_attempts L S config m env' k (Suc n) retry transport qs = pump_attempts L S config m env' (Suc k) n retry' transport' qs1"
    for retry' transport' qs1
  proof -
    have tail: "pump_attempts L S config m env (Suc k) n retry' transport' qs1 = ((out, started), qs')"
      using next1 [of env] Suc.prems(1) by metis
    obtain j qs2 where "Suc k \<le> j" "j < Suc k + n" "drive_stream L S config m (env j) qs2 = ((out, started), qs')"
      "\<And>env'. (\<forall>i \<le> j. env' i = env i) \<Longrightarrow> pump_attempts L S config m env' (Suc k) n retry' transport' qs1 = ((out, started), qs')"
      using Suc.IH [OF tail Suc.prems(2)] by blast
    then show ?thesis by (intro exI [of _ j] exI [of _ qs2]) (simp add: next1 del: pump_attempts.simps)
  qed
  show ?case
  proof (cases "pa_cancelled (env k) \<or> 0 < k \<and> retry = None \<and> transport = None")
    case True
    with Suc.prems show ?thesis by (auto simp: Let_def split: if_splits)
  next
    case go: False
    show ?thesis
    proof (cases "pa_open (env k)")
      case None
      obtain o1 st1 qs1 where d: "drive_stream L S config m (env k) qs = ((o1, st1), qs1)" by (metis surj_pair)
      show ?thesis
      proof (cases "retryable_outcome o1")
        case True
        with drive_stream_retryable [OF d] have "st1 = []" by blast
        with True go None d obtain retry' transport' where
          "\<And>env'. env' k = env k \<Longrightarrow>
             pump_attempts L S config m env' k (Suc n) retry transport qs = pump_attempts L S config m env' (Suc k) n retry' transport' qs1"
          by (cases o1) (auto simp: Let_def)
        then show ?thesis by (rule later)
      next
        case False
        with go None d have "pump_attempts L S config m env' k (Suc n) retry transport qs = ((o1, st1), qs1)" if "env' k = env k" for env'
          using that by (cases o1) (auto simp: Let_def)
        with d Suc.prems(1) show ?thesis by (intro exI [of _ k] exI [of _ qs]) (auto simp del: pump_attempts.simps)
      qed
    next
      case (Some e)
      show ?thesis
      proof (cases "pump_attempts L S config m env k (Suc n) retry transport qs = ((Pump_Error (AgentError_Reason e), []), qs)")
        case True
        with Suc.prems show ?thesis by auto
      next
        case False
        with go Some obtain retry' transport' where
          "\<And>env'. env' k = env k \<Longrightarrow>
             pump_attempts L S config m env' k (Suc n) retry transport qs = pump_attempts L S config m env' (Suc k) n retry' transport' qs"
          by (cases e) (auto simp: Let_def)
        then show ?thesis by (rule later)
      qed
    qed
  qed
qed

text \<open>
  Property C20: when the pump completes, the results it hands on are those of the calls of the response,
  one for each and in the order of the response, also when the user cancelled half-way; the calls that
  were given to the executor, over all attempts, are calls of this response, each at most once; and if
  the tools answer for the call they were given, every result carries the id of its call.
\<close>

theorem pump_pairs_results:
  assumes "run_stream_pump L S config env q qs = ((Pump_Completed response results, started), qs')"
  shows "map fst results = tool_calls response \<and> subseq started (tool_calls response)
    \<and> ((\<forall>j \<le> st_max_retries S. tools_answer (env q j)) \<longrightarrow> (\<forall>(c, r) \<in> set results. tr_tool_use_id r = ti_id c))"
proof -
  from pump_attempts_last [OF assms [unfolded run_stream_pump_def]] obtain j qs1
    where "j \<le> st_max_retries S"
      "drive_stream L S config (mq_model q) (env q j) qs1 = ((Pump_Completed response results, started), qs')"
    by (auto simp: less_Suc_eq_le)
  then have "pairs_response response results started (tools_answer (env q j))" "j \<le> st_max_retries S"
    using drive_stream_completed by blast+
  then show ?thesis by (auto simp: pairs_response_def)
qed

text \<open>A stream that breaks before any call, then one with a call that writes a file.\<close>

definition pump_libs :: loop_libs where
  "pump_libs = \<lparr> ll_text = demo_text, ll_pretty = (\<lambda>_. Inr ''{}''), ll_to_lowercase = id, ll_blake3_hex = id,
     ll_steering_body = (\<lambda>_. ''hint''), ll_hard_block_body = ''blocked'', ll_summary_system_prompt = ''summarise'',
     ll_summary_prompt = (\<lambda>_. ''history''), ll_uuid_text = (\<lambda>_. ''id''), ll_kernel_error_text = (\<lambda>_. ''kernel''),
     ll_parse_f64 = (\<lambda>_. None), ll_env = (\<lambda>_. None) \<rparr>"

definition demo_settings :: loop_settings where
  "demo_settings = \<lparr> st_steering = \<lparr> sc_implement_now_enabled = True, sc_implement_now_threshold = 8, sc_implement_now_hard_block = True \<rparr>,
     st_compaction_disabled = False, st_max_retries = 3 \<rparr>"

definition demo_request :: model_request where
  "demo_request = \<lparr> mq_model = ''m'', mq_system = [], mq_messages = [], mq_tools = [], mq_tool_choice = Choice_Auto, mq_max_tokens = 64,
     mq_thinking_effort = None, mq_parallel_tool_use = True, mq_auth_token = None, mq_upstream_provider_family = None,
     mq_aura_project_id = None, mq_aura_agent_id = None, mq_aura_session_id = None, mq_aura_org_id = None,
     mq_prompt_cache_key = None, mq_prompt_cache_retention = None, mq_kind = None \<rparr>"

definition demo_attempts :: "model_request \<Rightarrow> nat \<Rightarrow> pump_attempt" where
  "demo_attempts q k = \<lparr> pa_cancelled = False, pa_open = None,
     pa_steps = (if k = 0 then [([], Step_Event (Event_OutputTextDelta ''hi'')), ([], Step_End)]
       else [([], Step_Event (Event_OutputItemDone (Item_Message ''writing''))),
             ([], Step_Event (Event_OutputItemDone (Item_ToolUse ''t1'' ''write_file'' J_Null))),
             ([], Step_Event (Event_OutputItemDone (Item_InvalidToolUse ''t2'' ''nothing'' ''bad arguments''))),
             ([], Step_Event (Event_OutputItemDone (Item_ToolUse ''t3'' ''delete_file'' J_Null))),
             ([], Step_Event (Event_Completed None None usage_default))]),
     pa_tools = (\<lambda>i call. Some (call_success (ti_id call) ''done'')), pa_drain_cancel = Some 1 \<rparr>"

definition pump_start :: "input_queue \<times> loop_state" where
  "pump_start = (input_queue_new 7, loop_state_new (config_for_agent ''m'') [])"

definition pump_call :: "string \<Rightarrow> string \<Rightarrow> tool_call_info" where
  "pump_call i name = \<lparr> ti_id = i, ti_name = name, ti_input = J_Null \<rparr>"

lemma demo_tool_use:
  assumes "name \<in> {''write_file'', ''delete_file''}"
  shows "handle_item pump_libs demo_settings (Item_ToolUse i name J_Null) d pump_start =
    (d \<lparr> dl_tool_calls_seen := dl_tool_calls_seen d @ [pump_call i name],
         dl_spawned := dl_spawned d @ [(length (dl_tool_calls_seen d), pump_call i name)] \<rparr>, pump_start)"
proof -
  have "\<not> is_cacheable name" using assms by (auto simp: is_cacheable_def CACHEABLE_TOOLS_def)
  then show ?thesis
    by (simp add: handle_tool_use_event_def partition_circling_duplicate_reads_def pump_start_def loop_state_new_def
        cache_hit_def drain_into_messages_def input_queue_new_def pump_call_def)
qed

lemma demo_broken:
  "drive_stream pump_libs demo_settings config m (demo_attempts q 0) pump_start =
    ((Pump_RetryableTransport (AgentError_Stream (StreamError_TransportClosed ''missing completed event'')) 2 0, []), pump_start)"
proof -
  obtain q s where start: "pump_start = (q, s)" by (meson surj_pair)
  show ?thesis by (simp add: start drive_stream_def demo_attempts_def push_all_def drive_locals_new_def)
qed

lemma demo_events:
  "\<exists>d. drive_events pump_libs demo_settings config (pa_steps (demo_attempts q (Suc 0))) drive_locals_new pump_start =
      (Ended_Completed None None usage_default, d, pump_start)
    \<and> dl_spawned d = [(0, pump_call ''t1'' ''write_file''), (2, pump_call ''t3'' ''delete_file'')]
    \<and> dl_tool_calls_seen d = [pump_call ''t1'' ''write_file'', \<lparr> ti_id = ''t2'', ti_name = ''nothing'', ti_input = J_Object [] \<rparr>,
        pump_call ''t3'' ''delete_file'']
    \<and> dl_cached_pairs d = [(1, \<lparr> ti_id = ''t2'', ti_name = ''nothing'', ti_input = J_Object [] \<rparr>, call_error ''t2'' ''bad arguments'')]"
proof -
  obtain q s where start: "pump_start = (q, s)" by (meson surj_pair)
  show ?thesis
    by (simp add: start demo_attempts_def push_all_def demo_tool_use [unfolded start] drive_locals_new_def Let_def
        del: handle_item.simps(2))
qed

lemma demo_pump:
  obtains response results where
    "run_stream_pump pump_libs demo_settings (config_for_agent ''m'') demo_attempts demo_request pump_start
       = ((Pump_Completed response results, [pump_call ''t1'' ''write_file'', pump_call ''t3'' ''delete_file'']), pump_start)"
    "map (tr_stop_loop \<circ> snd) results = [False, False, True]"
proof -
  obtain d where ev: "drive_events pump_libs demo_settings (config_for_agent ''m'') (pa_steps (demo_attempts demo_request (Suc 0)))
      drive_locals_new pump_start = (Ended_Completed None None usage_default, d, pump_start)"
    and d: "dl_spawned d = [(0, pump_call ''t1'' ''write_file''), (2, pump_call ''t3'' ''delete_file'')]"
      "dl_tool_calls_seen d = [pump_call ''t1'' ''write_file'', \<lparr> ti_id = ''t2'', ti_name = ''nothing'', ti_input = J_Object [] \<rparr>,
        pump_call ''t3'' ''delete_file'']"
      "dl_cached_pairs d = [(1, \<lparr> ti_id = ''t2'', ti_name = ''nothing'', ti_input = J_Object [] \<rparr>, call_error ''t2'' ''bad arguments'')]"
    using demo_events by blast
  let ?results = "[(pump_call ''t1'' ''write_file'', call_success ''t1'' ''done''),
    (\<lparr> ti_id = ''t2'', ti_name = ''nothing'', ti_input = J_Object [] \<rparr>, call_error ''t2'' ''bad arguments''),
    (pump_call ''t3'' ''delete_file'', cancelled_result (pump_call ''t3'' ''delete_file''))]"
  obtain q s where start: "pump_start = (q, s)" by (meson surj_pair)
  have tools: "pa_tools (demo_attempts demo_request (Suc 0)) i call = Some (call_success (ti_id call) ''done'')"
    "pa_drain_cancel (demo_attempts demo_request (Suc 0)) = Some 1" for i call
    by (simp_all add: demo_attempts_def)
  have "drive_stream pump_libs demo_settings (config_for_agent ''m'') m (demo_attempts demo_request (Suc 0)) pump_start
      = ((Pump_Completed (synthesize_response d None None usage_default m) ?results,
          [pump_call ''t1'' ''write_file'', pump_call ''t3'' ''delete_file'']), pump_start)" for m
    using ev unfolding start
    by (simp add: drive_stream_def d tools drain_in_flight_def tool_outcome_def cancelled_outcome_def merge_pairs_def pump_call_def Let_def)
  moreover have "pa_open (demo_attempts demo_request k) = None" "\<not> pa_cancelled (demo_attempts demo_request k)" for k
    by (simp_all add: demo_attempts_def)
  ultimately have "run_stream_pump pump_libs demo_settings (config_for_agent ''m'') demo_attempts demo_request pump_start
       = ((Pump_Completed (synthesize_response d None None usage_default (mq_model demo_request)) ?results,
           [pump_call ''t1'' ''write_file'', pump_call ''t3'' ''delete_file'']), pump_start)"
    by (simp add: run_stream_pump_def demo_settings_def [THEN arg_cong, of st_max_retries] numeral_3_eq_3 demo_broken)
  then show thesis by (rule that) (simp add: call_success_def call_error_def cancelled_result_def)
qed

theorem pump_pairs_results_witness:
  "\<exists>response results. run_stream_pump pump_libs demo_settings (config_for_agent ''m'') demo_attempts demo_request pump_start
       = ((Pump_Completed response results, [pump_call ''t1'' ''write_file'', pump_call ''t3'' ''delete_file'']), pump_start)
     \<and> map (tr_stop_loop \<circ> snd) results = [False, False, True]
     \<and> map fst results = tool_calls response \<and> (\<forall>(c, r) \<in> set results. tr_tool_use_id r = ti_id c)"
proof (rule demo_pump)
  fix response results
  assume run: "run_stream_pump pump_libs demo_settings (config_for_agent ''m'') demo_attempts demo_request pump_start
       = ((Pump_Completed response results, [pump_call ''t1'' ''write_file'', pump_call ''t3'' ''delete_file'']), pump_start)"
    and stops: "map (tr_stop_loop \<circ> snd) results = [False, False, True]"
  have "tools_answer (demo_attempts demo_request j)" for j
    by (auto simp: tools_answer_def demo_attempts_def call_success_def)
  with run stops pump_pairs_results [OF run] show ?thesis by (intro exI [of _ response] exI [of _ results]) simp
qed

text \<open>
  Property C21: a stream is never replayed once a tool was started.  Whatever the pump returns, if any
  call was handed to the executor then all of them were by the one attempt whose outcome is returned, and
  no attempt followed it.
\<close>

theorem pump_no_replay:
  assumes "run_stream_pump L S config env q qs = ((out, started), qs')" "started \<noteq> []"
  shows "\<exists>j \<le> st_max_retries S. \<exists>qs1. drive_stream L S config (mq_model q) (env q j) qs1 = ((out, started), qs')
    \<and> (\<forall>env'. (\<forall>i \<le> j. env' q i = env q i) \<longrightarrow> run_stream_pump L S config env' q qs = ((out, started), qs'))"
proof -
  from pump_attempts_last [OF assms(1) [unfolded run_stream_pump_def]] assms(2) obtain j qs1
    where "j < Suc (st_max_retries S)" "drive_stream L S config (mq_model q) (env q j) qs1 = ((out, started), qs')"
      "\<And>env'. (\<forall>i \<le> j. env' i = env q i) \<Longrightarrow>
         pump_attempts L S config (mq_model q) env' 0 (Suc (st_max_retries S)) None None qs = ((out, started), qs')" by auto
  then show ?thesis
    unfolding run_stream_pump_def less_Suc_eq_le by (intro exI [of _ j] conjI exI [of _ qs1]) simp_all
qed

theorem pump_no_replay_witness:
  "\<exists>j \<le> 3. \<exists>out qs1. drive_stream pump_libs demo_settings (config_for_agent ''m'') ''m'' (demo_attempts demo_request j) qs1
      = ((out, [pump_call ''t1'' ''write_file'', pump_call ''t3'' ''delete_file'']), pump_start)
    \<and> (\<forall>env'. (\<forall>i \<le> j. env' demo_request i = demo_attempts demo_request i) \<longrightarrow>
         run_stream_pump pump_libs demo_settings (config_for_agent ''m'') env' demo_request pump_start
           = ((out, [pump_call ''t1'' ''write_file'', pump_call ''t3'' ''delete_file'']), pump_start))"
proof (rule demo_pump)
  fix response results
  assume run: "run_stream_pump pump_libs demo_settings (config_for_agent ''m'') demo_attempts demo_request pump_start
       = ((Pump_Completed response results, [pump_call ''t1'' ''write_file'', pump_call ''t3'' ''delete_file'']), pump_start)"
  have "st_max_retries demo_settings = 3" "mq_model demo_request = ''m''"
    by (simp_all add: demo_settings_def demo_request_def)
  with pump_no_replay [OF run] show ?thesis by auto
qed

end
