(* ===== verification/Tool_Pipeline.thy ===== *)
theory Tool_Pipeline
  imports Stream_Pump
begin

text \<open>
  What the agent loop does with the results of a response (\<open>aura-agent/src/agent_loop/tool_pipeline.rs\<close> and
  \<open>build.rs\<close>): the effects it books in its state, the guard against repeated failed edits, the build check
  after a write, the message with the results, and the dispatch by the stop reason.  The result of the
  executor's build check is an argument; hooks that only observe and events are left out.
\<close>

section \<open>Build output\<close>

definition trim_start :: "string \<Rightarrow> string" where
  "trim_start s = concat (dropWhile is_blank (chars s))"

text \<open>\<open>str::replacen\<close> with one replacement.\<close>

fun replace_first :: "string \<Rightarrow> string \<Rightarrow> string \<Rightarrow> string" where
  "replace_first p r [] = (if p = [] then r else [])"
| "replace_first p r (c # cs) = (if prefix p (c # cs) then r @ drop (length p) (c # cs) else c # replace_first p r cs)"

(* src/crates/aura-agent/src/build.rs:42-49 normalize_error_block *)
definition normalize_error_block :: "string \<Rightarrow> string" where
  "normalize_error_block block =
    str_join nl (filter (\<lambda>l. \<not> prefix ''help:'' (trim_start l) \<and> \<not> prefix ''-->'' (trim_start l)) (str_lines block))"

(* src/crates/aura-agent/src/build.rs:11-37 extract_error_signatures *)
fun error_blocks :: "string list \<Rightarrow> string \<Rightarrow> bool \<Rightarrow> string list" where
  "error_blocks [] block in_error = (if in_error \<and> block \<noteq> [] then [normalize_error_block block] else [])"
| "error_blocks (line # ls) block in_error =
    (if prefix ''error['' line \<or> prefix ''error:'' line
     then (if in_error \<and> block \<noteq> [] then normalize_error_block block # error_blocks ls (line @ nl) True
           else error_blocks ls (block @ line @ nl) True)
     else if in_error
     then (if line = [] \<or> prefix ''warning'' line then normalize_error_block block # error_blocks ls [] False
           else error_blocks ls (block @ line @ nl) True)
     else error_blocks ls block in_error)"

(* src/crates/aura-agent/src/build.rs:9-40 extract_error_signatures *)
definition extract_error_signatures :: "string \<Rightarrow> string list" where
  "extract_error_signatures output = error_blocks (str_lines output) [] False"

(* src/crates/aura-agent/src/build.rs:60-72 annotate_build_output *)
definition annotate_signature :: "build_baseline \<Rightarrow> string \<Rightarrow> string \<Rightarrow> string" where
  "annotate_signature baseline sig1 annotated =
    (let label = (if sig1 \<in> set (bb_error_signatures baseline) then ''[PRE-EXISTING]'' else ''[NEW]'') in
     case str_lines sig1 of
       first_line # _ \<Rightarrow>
         (let n = min (length first_line) 60 in
          if is_char_boundary first_line n
          then replace_first (take n first_line) (label @ '' '' @ take n first_line) annotated
          else annotated)
     | [] \<Rightarrow> annotated)"

(* src/crates/aura-agent/src/build.rs:52-75 annotate_build_output *)
definition annotate_build_output :: "string \<Rightarrow> build_baseline \<Rightarrow> string" where
  "annotate_build_output output baseline =
    (if bb_error_signatures baseline = [] then output
     else fold (annotate_signature baseline) (extract_error_signatures output) output)"

(* src/crates/aura-agent/src/types.rs:97-104 AutoBuildResult *)
record auto_build_result =
  ab_success :: bool
  ab_output :: string
  ab_error_count :: nat

(* src/crates/aura-agent/src/agent_loop/tool_pipeline.rs:991-1011 run_auto_build *)
definition run_auto_build :: "agent_loop_config \<Rightarrow> auto_build_result option \<Rightarrow> loop_state \<Rightarrow> string option \<times> loop_state" where
  "run_auto_build config build s =
    (case build of
       None \<Rightarrow> (None, s)
     | Some b \<Rightarrow>
        (if ab_success b then None
         else Some (''Build check failed with '' @ nat_str (ab_error_count b) @ '' error(s):'' @ newlines2
           @ (case ls_build_baseline s of None \<Rightarrow> ab_output b | Some base \<Rightarrow> annotate_build_output (ab_output b) base)),
         s \<lparr> ls_build_cooldown := ac_auto_build_cooldown config \<rparr>))"

section \<open>Effects of a batch\<close>

(* src/crates/aura-config/src/tools.rs:80-80 READS_AFTER_WRITE_ALLOWANCE *)
definition READS_AFTER_WRITE_ALLOWANCE :: u8 where
  "READS_AFTER_WRITE_ALLOWANCE = 3"

(* src/crates/aura-agent/src/agent_loop/tool_pipeline.rs:928-944 track_tool_effects *)
definition track_read :: "string \<Rightarrow> loop_state \<Rightarrow> loop_state" where
  "track_read path s =
    (let key = path_components path; allowances = ls_read_after_write_allowances s in
     s \<lparr> ls_turn_diff := (ls_turn_diff s) \<lparr> df_read_paths := path_insert path (df_read_paths (ls_turn_diff s)) \<rparr>,
         ls_session_read_paths := path_insert path (ls_session_read_paths s),
         ls_read_after_write_allowances :=
           (case allowances key of
              None \<Rightarrow> allowances
            | Some left \<Rightarrow> if left \<le> 1 then allowances(key := None) else allowances(key \<mapsto> left - 1)) \<rparr>)"

(* src/crates/aura-agent/src/agent_loop/tool_pipeline.rs:958-962 track_tool_effects *)
definition track_written :: "string \<Rightarrow> loop_state \<Rightarrow> loop_state" where
  "track_written path s =
    s \<lparr> ls_session_read_paths := path_remove {path} (ls_session_read_paths s),
        ls_read_after_write_allowances :=
          (ls_read_after_write_allowances s)(path_components path \<mapsto> READS_AFTER_WRITE_ALLOWANCE) \<rparr>"

(* src/crates/aura-agent/src/agent_loop/tool_pipeline.rs:965-968 track_tool_effects *)
definition track_change :: "file_change \<Rightarrow> loop_state \<Rightarrow> loop_state" where
  "track_change change s =
    s \<lparr> ls_result := (ls_result s) \<lparr> lr_file_changes := record_file_change change (lr_file_changes (ls_result s)) \<rparr>,
        ls_turn_diff := record_into_turn_diff change (ls_turn_diff s) \<rparr>"

(* src/crates/aura-agent-steering/src/helpers.rs:56-60 content_hash_hex *)
definition content_hash_hex :: "json_text \<Rightarrow> string \<Rightarrow> string" where
  "content_hash_hex T content = hex16 (jt_default_hash T (str_bytes content))"

(* src/crates/aura-agent/src/agent_loop/tool_pipeline.rs:907-986 track_tool_effects *)
definition track_result :: "loop_libs \<Rightarrow> tool_call_info list \<Rightarrow> tool_call_result \<Rightarrow> bool \<times> loop_state \<Rightarrow> bool \<times> loop_state" where
  "track_result L calls r = (\<lambda>(any, s).
    (case find (\<lambda>t. ti_id t = tr_tool_use_id r) calls of
       None \<Rightarrow> (any, s)
     | Some tool \<Rightarrow>
        (let s1 = s \<lparr> ls_steering := registry_observe (content_hash_hex (ll_text L)) (tool, r) (ls_steering s) \<rparr>;
             s2 = (if is_exploration_tool (ti_name tool) then s1 \<lparr> ls_exploration_count := ls_exploration_count s1 + 1 \<rparr> else s1);
             s3 = (case input_path tool of
                 Some p \<Rightarrow> if is_exploration_tool (ti_name tool) \<and> \<not> tr_is_error r then track_read p s2 else s2
               | None \<Rightarrow> s2) in
         if \<not> is_write_tool (ti_name tool) \<or> tr_is_error r then (any, s3)
         else (case input_path tool of
             Some p \<Rightarrow> (True, fold track_change (tr_file_changes r) ((track_written p s3) \<lparr> ls_had_any_write := True \<rparr>))
           | None \<Rightarrow>
               if tr_file_changes r = [] then (any, s3)
               else (True, (fold (\<lambda>c. track_change c \<circ> track_written (fc_path c)) (tr_file_changes r) s3)
                             \<lparr> ls_had_any_write := True \<rparr>)))))"

(* src/crates/aura-agent/src/agent_loop/tool_pipeline.rs:881-989 track_tool_effects *)
definition track_tool_effects ::
  "loop_libs \<Rightarrow> tool_call_info list \<Rightarrow> tool_call_result list \<Rightarrow> loop_state \<Rightarrow> bool \<times> loop_state" where
  "track_tool_effects L calls results s = fold (track_result L calls) results (False, s)"

section \<open>Repeated failed edits\<close>

(* src/crates/aura-agent/src/agent_loop/tool_pipeline.rs:462-462 guard_failed_edits *)
definition EDIT_WARNING :: string where
  "EDIT_WARNING = ''The identical edit has failed three times. Do not repeat it unchanged. Read the current file, inspect the error, and use a different matching edit; if blocked, explain the blocker.''"

(* src/crates/aura-agent/src/agent_loop/tool_pipeline.rs:465-465 guard_failed_edits *)
definition EDIT_STOP :: string where
  "EDIT_STOP = ''Aura stopped a repeated failed edit loop after four identical failures. No successful edit was made by those attempts. Review the tool error and current file before restarting.''"

text \<open>What the guard sees in one result: a change that resets it, a failed edit under its key, or nothing.\<close>

datatype edit_event = Edit_Landed | Edit_Failed string | Edit_Other

(* src/crates/aura-agent/src/agent_loop/tool_pipeline.rs:446-459 guard_failed_edits *)
definition edit_event_of :: "json_text \<Rightarrow> tool_call_info list \<Rightarrow> tool_call_result \<Rightarrow> edit_event" where
  "edit_event_of T calls r =
    (case find (\<lambda>c. ti_id c = tr_tool_use_id r) calls of
       None \<Rightarrow> Edit_Other
     | Some call \<Rightarrow>
        if \<not> tr_is_error r \<and> tr_file_changes r \<noteq> [] then Edit_Landed
        else if ti_name call \<noteq> ''edit_file'' \<or> \<not> tr_is_error r \<or> tr_kind r = ResultKind_CompactionStructural then Edit_Other
        else Edit_Failed (jt_display T (ti_input call) @ nl @ tr_content r))"

text \<open>The loop over the results: the message that stops the run, the side messages, and the counters.\<close>

(* src/crates/aura-agent/src/agent_loop/tool_pipeline.rs:445-469 guard_failed_edits *)
fun guard_loop :: "edit_event list \<Rightarrow> (string \<rightharpoonup> u32) \<Rightarrow> string option \<times> string list \<times> (string \<rightharpoonup> u32)" where
  "guard_loop [] attempts = (None, [], attempts)"
| "guard_loop (Edit_Landed # es) attempts = guard_loop es Map.empty"
| "guard_loop (Edit_Other # es) attempts = guard_loop es attempts"
| "guard_loop (Edit_Failed key # es) attempts =
    (let n = sat_add (or_default 0 (attempts key)) 1; attempts' = attempts(key \<mapsto> n);
         warned = (if n = 3 then [EDIT_WARNING] else []) in
     if 4 \<le> n then (Some EDIT_STOP, warned, attempts')
     else (case guard_loop es attempts' of (stop, side, final) \<Rightarrow> (stop, warned @ side, final)))"

(* src/crates/aura-agent/src/agent_loop/tool_pipeline.rs:439-470 guard_failed_edits *)
definition guard_failed_edits ::
  "json_text \<Rightarrow> tool_call_info list \<Rightarrow> tool_call_result list \<Rightarrow> loop_state \<Rightarrow> string option \<times> string list \<times> loop_state" where
  "guard_failed_edits T calls results s =
    (case guard_loop (map (edit_event_of T calls) results) (ls_failed_edit_attempts s) of
       (stop, side, attempts) \<Rightarrow> (stop, side, s \<lparr> ls_failed_edit_attempts := attempts \<rparr>))"

section \<open>Dispatch\<close>

(* src/crates/aura-agent/src/agent_loop/tool_pipeline.rs:613-627 push_tool_result_message *)
definition result_image :: "tool_call_result \<Rightarrow> content_block option" where
  "result_image r = map_option (\<lambda>i. Block_Image
     \<lparr> img_source_type = ''base64'', img_media_type = tri_media_type i, img_data = tri_base64 i \<rparr>) (tr_image r)"

(* src/crates/aura-agent/src/agent_loop/tool_pipeline.rs:597-639 push_tool_result_message *)
definition push_tool_result_message :: "tool_call_result list \<Rightarrow> string list \<Rightarrow> message list \<Rightarrow> message list" where
  "push_tool_result_message results texts ms =
    (let blocks = map (\<lambda>r. Block_ToolResult (tr_tool_use_id r) (Content_Text (tr_content r)) (tr_is_error r)) results
           @ List.map_filter result_image results @ map Block_Text texts in
     if blocks = [] then ms else ms @ [\<lparr> msg_role = Role_User, msg_content = blocks \<rparr>])"

(* src/crates/aura-agent/src/agent_loop/tool_pipeline.rs:280-435 process_tool_results *)
definition process_tool_results ::
  "loop_libs \<Rightarrow> agent_loop_config \<Rightarrow> auto_build_result option \<Rightarrow> (tool_call_info \<times> tool_call_result) list \<Rightarrow> loop_state
    \<Rightarrow> bool \<times> loop_state" where
  "process_tool_results L config build pairs s =
    (if pairs = [] then (True, s)
     else (let calls = map fst pairs; results = map snd pairs;
               (any, s1) = track_tool_effects L calls results s;
               (stop, side, s2) = guard_failed_edits (ll_text L) calls results s1;
               (built, s3) = (if any \<and> ls_build_cooldown s2 = 0 then run_auto_build config build s2 else (None, s2));
               s4 = (if ls_had_any_write s3 then s3 \<lparr> ls_had_any_file_write := True \<rparr> else s3);
               done_ok = list_ex (\<lambda>c. ti_name c = ''task_done''
                 \<and> list_ex (\<lambda>r. tr_tool_use_id r = ti_id c \<and> \<not> tr_is_error r \<and> tr_stop_loop r) results) calls;
               s5 = (if done_ok then s4 \<lparr> ls_task_done_completed := True \<rparr> else s4);
               s6 = on_messages (push_tool_result_message results (side @ (case built of Some t \<Rightarrow> [t] | None \<Rightarrow> []))) s5;
               s7 = (case stop of
                       Some m \<Rightarrow> on_result (\<lambda>r. r \<lparr> lr_stalled := True, lr_llm_error := Some m \<rparr>) s6
                     | None \<Rightarrow> s6) in
           (stop \<noteq> None \<or> list_ex tr_stop_loop results, s7)))"

(* src/crates/aura-agent/src/agent_loop/tool_pipeline.rs:670-670 dispatch *)
definition MAX_OUTPUT_LIMIT_RECOVERIES :: nat where
  "MAX_OUTPUT_LIMIT_RECOVERIES = 2"

(* src/crates/aura-agent/src/agent_loop/tool_pipeline.rs:681-683 dispatch *)
definition OUTPUT_LIMIT_TEXT :: string where
  "OUTPUT_LIMIT_TEXT = ''Your response reached the output-token limit. Continue from the interruption without repeating prior text or completed tools. Use smaller complete tool calls if needed; finish the requested work and clearly report any remaining limitation.''"

(* src/crates/aura-agent/src/agent_loop/tool_pipeline.rs:670-685 dispatch *)
definition recover_output_limit :: "loop_state \<Rightarrow> bool \<times> loop_state" where
  "recover_output_limit s =
    (if MAX_OUTPUT_LIMIT_RECOVERIES \<le> ls_output_limit_recoveries s then (True, s)
     else (False, on_messages (\<lambda>ms. ms @ [message_user OUTPUT_LIMIT_TEXT])
             (s \<lparr> ls_output_limit_recoveries := ls_output_limit_recoveries s + 1,
                  ls_thinking := (ls_thinking s) \<lparr> tb_restore_next_iteration := True \<rparr> \<rparr>)))"

(* src/crates/aura-agent/src/agent_loop/tool_pipeline.rs:647-692 dispatch *)
definition dispatch ::
  "loop_libs \<Rightarrow> agent_loop_config \<Rightarrow> auto_build_result option \<Rightarrow> model_response \<Rightarrow> (tool_call_info \<times> tool_call_result) list
    \<Rightarrow> loop_state \<Rightarrow> bool \<times> loop_state" where
  "dispatch L config build response pairs s0 =
    (let s = on_result (\<lambda>r. r \<lparr> lr_output_truncated := (mr_stop_reason response = Stop_MaxTokens) \<rparr>) s0 in
     case mr_stop_reason response of
       Stop_EndTurn \<Rightarrow> (True, s)
     | Stop_StopSequence \<Rightarrow> (True, s)
     | Stop_MaxTokens \<Rightarrow>
         (if tool_calls response = [] then recover_output_limit s
          else (case process_tool_results L config build pairs s of
                  (stop, s1) \<Rightarrow> if stop then (True, s1) else recover_output_limit s1))
     | Stop_ToolUse \<Rightarrow> process_tool_results L config build pairs s)"

section \<open>When the guard stops a run\<close>

text \<open>How often an edit failed since a change landed last.\<close>

definition streak :: "string \<Rightarrow> edit_event list \<Rightarrow> nat" where
  "streak key es = length (filter (\<lambda>e. e = Edit_Failed key) (takeWhile (\<lambda>e. e \<noteq> Edit_Landed) (rev es)))"

lemma streak_simps [simp]:
  "streak key [] = 0" "streak key (es @ [Edit_Landed]) = 0" "streak key (es @ [Edit_Other]) = streak key es"
  "streak key (es @ [Edit_Failed k]) = (if k = key then Suc (streak key es) else streak key es)"
  by (simp_all add: streak_def)

text \<open>The counters hold the streaks of the history, which are all below the limit.\<close>

definition counts_streaks :: "(string \<rightharpoonup> u32) \<Rightarrow> edit_event list \<Rightarrow> bool" where
  "counts_streaks attempts h = (\<forall>key. unat (or_default 0 (attempts key)) = streak key h \<and> streak key h < 4)"

definition fourth_failure :: "edit_event list \<Rightarrow> edit_event list \<Rightarrow> bool" where
  "fourth_failure h es = (\<exists>pre key post. es = pre @ Edit_Failed key # post \<and> 3 \<le> streak key (h @ pre))"

lemma fourth_failure_Nil [simp]: "\<not> fourth_failure h []"
  by (simp add: fourth_failure_def)

lemma fourth_failure_Cons:
  "fourth_failure h (e # es) \<longleftrightarrow> (\<exists>key. e = Edit_Failed key \<and> 3 \<le> streak key h) \<or> fourth_failure (h @ [e]) es"
proof
  assume "fourth_failure h (e # es)"
  then obtain pre key post where "e # es = pre @ Edit_Failed key # post" "3 \<le> streak key (h @ pre)"
    by (auto simp: fourth_failure_def)
  then show "(\<exists>key. e = Edit_Failed key \<and> 3 \<le> streak key h) \<or> fourth_failure (h @ [e]) es"
    by (cases pre) (auto simp: fourth_failure_def)
next
  assume "(\<exists>key. e = Edit_Failed key \<and> 3 \<le> streak key h) \<or> fourth_failure (h @ [e]) es"
  then show "fourth_failure h (e # es)"
  proof
    assume "fourth_failure (h @ [e]) es"
    then obtain pre key post where "es = pre @ Edit_Failed key # post" "3 \<le> streak key (h @ e # pre)"
      by (auto simp: fourth_failure_def)
    then show ?thesis unfolding fourth_failure_def by (intro exI [of _ "e # pre"]) auto
  qed (fastforce simp: fourth_failure_def)
qed

lemma fourth_failure_append: "fourth_failure h (es @ fs) \<longleftrightarrow> fourth_failure h es \<or> fourth_failure (h @ es) fs"
  by (induction es arbitrary: h) (auto simp: fourth_failure_Cons)

lemma counts_failed:
  assumes "counts_streaks attempts h" "n = sat_add (or_default 0 (attempts key)) 1"
  shows "unat n = Suc (streak key h)" "3 \<le> streak key h \<longleftrightarrow> 4 \<le> n"
    "\<not> 4 \<le> n \<Longrightarrow> counts_streaks (attempts(key \<mapsto> n)) (h @ [Edit_Failed key])"
proof -
  have c: "unat (or_default 0 (attempts key)) = streak key h" "streak key h < 4"
    using assms(1) by (simp_all add: counts_streaks_def)
  then show n: "unat n = Suc (streak key h)" by (simp add: assms(2) unat_sat_add)
  have "4 \<le> n \<longleftrightarrow> 4 \<le> unat n" by (simp add: word_le_nat_alt)
  with n show four: "3 \<le> streak key h \<longleftrightarrow> 4 \<le> n" by simp
  show "counts_streaks (attempts(key \<mapsto> n)) (h @ [Edit_Failed key])" if "\<not> 4 \<le> n"
    using assms(1) n four that by (auto simp: counts_streaks_def or_default_def)
qed

lemma guard_loop_exact:
  assumes "counts_streaks attempts h" "guard_loop es attempts = (stop, side, attempts')"
  shows "(stop \<noteq> None \<longleftrightarrow> fourth_failure h es) \<and> (stop = None \<longrightarrow> counts_streaks attempts' (h @ es))"
  using assms
proof (induction es attempts arbitrary: h side rule: guard_loop.induct)
  case (2 es attempts)
  have "counts_streaks Map.empty (h @ [Edit_Landed])" by (simp add: counts_streaks_def or_default_def)
  from "2.IH" [OF this, of side] "2.prems"(2) show ?case by (simp add: fourth_failure_Cons)
next
  case (3 es attempts)
  then have "counts_streaks attempts (h @ [Edit_Other])" by (simp add: counts_streaks_def)
  from "3.IH" [OF this, of side] "3.prems"(2) show ?case by (simp add: fourth_failure_Cons)
next
  case (4 key es attempts)
  define n where "n = sat_add (or_default 0 (attempts key)) 1"
  note c = counts_failed [OF "4.prems"(1) n_def]
  show ?case
  proof (cases "4 \<le> n")
    case True
    with "4.prems"(2) c(2) show ?thesis by (auto simp: fourth_failure_Cons simp flip: n_def)
  next
    case False
    obtain stop' side' final where rest: "guard_loop es (attempts(key \<mapsto> n)) = (stop', side', final)" by (metis prod_cases3)
    with "4.prems"(2) False have "stop' = stop" "final = attempts'" by (auto simp: Let_def simp flip: n_def)
    with "4.IH" [OF n_def refl refl] False c rest show ?thesis by (fastforce simp: fourth_failure_Cons)
  qed
qed simp

text \<open>A run of batches, until the guard stops it.\<close>

fun guard_batches :: "json_text \<Rightarrow> (tool_call_info list \<times> tool_call_result list) list \<Rightarrow> loop_state \<Rightarrow> string option \<times> loop_state" where
  "guard_batches T [] s = (None, s)"
| "guard_batches T ((calls, results) # bs) s =
    (case guard_failed_edits T calls results s of
       (Some m, _, s') \<Rightarrow> (Some m, s')
     | (None, _, s') \<Rightarrow> guard_batches T bs s')"

definition batch_events :: "json_text \<Rightarrow> (tool_call_info list \<times> tool_call_result list) list \<Rightarrow> edit_event list" where
  "batch_events T bs = concat (map (\<lambda>(calls, results). map (edit_event_of T calls) results) bs)"

lemma guard_batches_exact:
  "counts_streaks (ls_failed_edit_attempts s) h \<Longrightarrow>
    fst (guard_batches T bs s) \<noteq> None \<longleftrightarrow> fourth_failure h (batch_events T bs)"
proof (induction bs arbitrary: s h)
  case Nil
  then show ?case by (simp add: batch_events_def)
next
  case (Cons b bs)
  obtain calls results where b: "b = (calls, results)" by (rule prod.exhaust)
  let ?es = "map (edit_event_of T calls) results"
  obtain stop side attempts where g: "guard_loop ?es (ls_failed_edit_attempts s) = (stop, side, attempts)" by (metis prod_cases3)
  note exact = guard_loop_exact [OF Cons.prems g]
  have events: "batch_events T ((calls, results) # bs) = ?es @ batch_events T bs" by (simp add: batch_events_def)
  show ?case
  proof (cases stop)
    case None
    with exact Cons.IH [of "s \<lparr> ls_failed_edit_attempts := attempts \<rparr>" "h @ ?es"] show ?thesis
      by (simp add: b guard_failed_edits_def g events fourth_failure_append)
  next
    case (Some m)
    with exact show ?thesis by (simp add: b guard_failed_edits_def g events fourth_failure_append)
  qed
qed

text \<open>
  Property C26: a run is stopped for a repeated failed edit exactly when the same edit failed with the
  same error four times and no change landed in between, however the results are spread over batches
  and whatever other calls come between.
\<close>

theorem edit_loop_stopped_iff:
  assumes "ls_failed_edit_attempts s = Map.empty"
  shows "fst (guard_batches T bs s) \<noteq> None \<longleftrightarrow>
    (\<exists>pre key post. batch_events T bs = pre @ Edit_Failed key # post \<and> 3 \<le> streak key pre)"
proof -
  have "counts_streaks (ls_failed_edit_attempts s) []" by (simp add: assms counts_streaks_def or_default_def)
  from guard_batches_exact [OF this] show ?thesis by (simp add: fourth_failure_def)
qed

text \<open>The same edit fails in four batches, with a read in between.\<close>

definition failing_batch :: "tool_call_info list \<times> tool_call_result list" where
  "failing_batch = ([pump_call ''e'' ''edit_file'', pump_call ''r'' ''read_file''], [call_error ''e'' ''no match'', call_success ''r'' ''text''])"

theorem edit_loop_stopped_iff_witness:
  "fst (guard_batches demo_text [failing_batch, failing_batch, failing_batch, failing_batch] (snd pump_start)) \<noteq> None"
proof -
  let ?f = "Edit_Failed (''{}'' @ nl @ ''no match'')"
  have "batch_events demo_text [failing_batch, failing_batch, failing_batch, failing_batch]
      = [?f, Edit_Other, ?f, Edit_Other, ?f, Edit_Other, ?f, Edit_Other]"
    by (simp add: batch_events_def failing_batch_def edit_event_of_def pump_call_def call_error_def call_success_def demo_text_def)
  then have "\<exists>pre key post. batch_events demo_text [failing_batch, failing_batch, failing_batch, failing_batch]
      = pre @ Edit_Failed key # post \<and> 3 \<le> streak key pre"
    by (intro exI [of _ "[?f, Edit_Other, ?f, Edit_Other, ?f, Edit_Other]"] exI [of _ "''{}'' @ nl @ ''no match''"] exI [of _ "[Edit_Other]"])
      (simp add: streak_def)
  moreover have "ls_failed_edit_attempts (snd pump_start) = Map.empty" by (simp add: pump_start_def loop_state_new_def)
  ultimately show ?thesis using edit_loop_stopped_iff by blast
qed

end
