(* ===== verification/Agent_Loop.thy ===== *)
theory Agent_Loop
  imports Tool_Pipeline
begin

text \<open>
  The agent loop (\<open>aura-agent/src/agent_loop\<close>): one sampling request (\<open>sampling.rs\<close>), the loop of a turn
  (\<open>turn.rs\<close>), the loop of a task over its turns (\<open>task.rs\<close>) and the entry point (\<open>run.rs\<close>).

  What happens around the loop is a script: for each sampling request the inputs a user pushes, what the
  cancellation token, the phase signal and the hooks say, the answer to a request for a summary, the
  attempts of the stream and the result of the build check.  The script is arbitrary, so the theorems
  hold for every behaviour of user, provider and tools.  Beside its result a run yields the requests it
  sent, in order.
\<close>

section \<open>One sampling request\<close>

record sampling_env =
  se_pushed_top :: "user_input list"
  se_cancel_top :: bool
  se_cancel_start :: bool
  se_reset :: bool
  se_blocked :: bool
  se_summary_stopped :: bool
  se_summary :: "model_request \<Rightarrow> model_response option"
  se_attempts :: "model_request \<Rightarrow> nat \<Rightarrow> pump_attempt"
  se_cancel_after :: bool
  se_build :: "auto_build_result option"
  se_pushed_end :: "user_input list"

(* src/crates/aura-agent/src/agent_loop/sampling.rs:54-80 SamplingRequestResult *)
record sampling_result =
  sp_needs_follow_up :: bool
  sp_broke_for_error :: bool
  sp_produced_visible_output :: bool
  sp_scrubbed_tool_markup :: bool

definition sampling_broke :: "bool \<Rightarrow> bool \<Rightarrow> sampling_result" where
  "sampling_broke visible scrubbed =
    \<lparr> sp_needs_follow_up = False, sp_broke_for_error = True, sp_produced_visible_output = visible, sp_scrubbed_tool_markup = scrubbed \<rparr>"

(* src/crates/aura-agent/src/agent_loop/sampling.rs:86-92 response_has_visible_output *)
definition response_has_visible_output :: "model_response \<Rightarrow> bool" where
  "response_has_visible_output response =
    list_ex (\<lambda>b. case b of Block_Text t \<Rightarrow> \<not> is_blank t | _ \<Rightarrow> False) (msg_content (mr_message response))"

(* src/crates/aura-agent/src/agent_loop/sampling.rs:130-153 run_sampling_request *)
definition prepare_context ::
  "loop_libs \<Rightarrow> loop_settings \<Rightarrow> agent_loop_config \<Rightarrow> tool_definition list \<Rightarrow> sampling_env \<Rightarrow> nat \<Rightarrow> loop_state \<Rightarrow> loop_state" where
  "prepare_context L S config tools e iteration s =
    (let s1 = begin_iteration L S config iteration (se_reset e) s in
     case compact_if_needed L S config tools iteration (se_blocked e) s1 of
       (Action_NeedsSummary input, s2) \<Rightarrow>
         apply_summary_compaction L S config tools (se_summary_stopped e) (se_summary e) input s2
     | (_, s2) \<Rightarrow> s2)"

(* src/crates/aura-agent/src/agent_loop/sampling.rs:215-256 run_sampling_request *)
definition finish_sampling ::
  "loop_libs \<Rightarrow> agent_loop_config \<Rightarrow> sampling_env \<Rightarrow> nat \<Rightarrow> model_response \<Rightarrow> (tool_call_info \<times> tool_call_result) list
    \<Rightarrow> loop_state \<Rightarrow> sampling_result \<times> loop_state" where
  "finish_sampling L config e iteration response pairs s =
    (let visible = response_has_visible_output response;
         (scrubbed, s1) = accumulate_response L response s;
         s2 = on_result (\<lambda>r. r \<lparr> lr_iterations := iteration + 1 \<rparr>) s1 in
     if se_cancel_after e \<and> pairs = [] then (sampling_broke visible scrubbed, s2)
     else (case dispatch L config (se_build e) response pairs s2 of
             (stop, s3) \<Rightarrow>
               (\<lparr> sp_needs_follow_up = \<not> stop, sp_broke_for_error = lr_stalled (ls_result s3),
                  sp_produced_visible_output = visible, sp_scrubbed_tool_markup = scrubbed \<rparr>, s3)))"

(* src/crates/aura-agent/src/agent_loop/sampling.rs:113-256 run_sampling_request *)
definition run_sampling_request ::
  "loop_libs \<Rightarrow> loop_settings \<Rightarrow> agent_loop_config \<Rightarrow> tool_definition list \<Rightarrow> sampling_env \<Rightarrow> nat \<Rightarrow> input_queue \<times> loop_state
    \<Rightarrow> sampling_result \<times> (input_queue \<times> loop_state) \<times> model_request list" where
  "run_sampling_request L S config tools e iteration = (\<lambda>(q, s).
    if se_cancel_start e then (sampling_broke False False, (q, s), [])
    else (let s1 = prepare_context L S config tools e iteration s in
      case build_request L config tools iteration s1 of
        Inl failure \<Rightarrow> (sampling_broke False False, (q, on_result (llm_error_apply (Llm_Fatal (agent_error_text L failure))) s1), [])
      | Inr req \<Rightarrow>
         (case run_stream_pump L S config (se_attempts e) req (q, s1) of
            ((out, started), q', s2) \<Rightarrow>
              (case pump_outcome_result L out of
                 Inl failure \<Rightarrow> (sampling_broke False False, (q', on_result (llm_error_apply failure) s2), [req])
               | Inr Transport_Cancelled \<Rightarrow> (sampling_broke False False, (q', s2), [req])
               | Inr (Transport_Streamed response pairs) \<Rightarrow>
                   (case finish_sampling L config e iteration response pairs s2 of
                      (r, s3) \<Rightarrow> (r, (q', s3), [req]))))))"

section \<open>What the turn loop reads off the messages\<close>

(* src/crates/aura-agent/src/agent_loop/turn.rs:330-346 is_planning_request *)
definition last_text :: "role \<Rightarrow> string \<Rightarrow> message list \<Rightarrow> string option" where
  "last_text who sep ms =
    map_option (\<lambda>m. map ascii_lower (str_join sep
        (List.map_filter (\<lambda>b. case b of Block_Text t \<Rightarrow> Some t | _ \<Rightarrow> None) (msg_content m))))
      (find (\<lambda>m. msg_role m = who) (rev ms))"

(* src/crates/aura-agent/src/agent_loop/turn.rs:328-365 is_planning_request *)
definition is_planning_request :: "message list \<Rightarrow> bool" where
  "is_planning_request ms =
    (let text = or_default [] (last_text Role_User '' '' ms) in
     list_ex (\<lambda>p. prefix p (trim_start text))
       [''plan'', ''outline'', ''explain'', ''how '', ''what '', ''draft a plan'', ''can you explain'']
     \<or> list_ex (\<lambda>m. sublist m text) [''don'' @ [CHR 0x27] @ ''t implement'', ''do not implement'', ''planning only'', ''plan only''])"

text \<open>What follows the last occurrence of a pattern, or the whole text.\<close>

definition after_last :: "string \<Rightarrow> string \<Rightarrow> string" where
  "after_last p s =
    (case filter (\<lambda>i. prefix p (drop i s)) [0..<length s] of
       [] \<Rightarrow> s
     | found \<Rightarrow> drop (last found + length p) s)"

(* src/crates/aura-agent/src/agent_loop/turn.rs:382-399 ends_with_unfinished_action *)
definition WAITING_MARKERS :: "string list" where
  "WAITING_MARKERS = [''please '', ''blocked'', ''cannot '', ''can'' @ [CHR 0x27] @ ''t '', ''need your'', ''waiting for'', ''tomorrow'', ''later'',
     ''next build'', ''if you'', ''once you'', ''when you'', ''after you'', ''approval'', ''permission'']"

(* src/crates/aura-agent/src/agent_loop/turn.rs:422-443 ends_with_unfinished_action *)
definition ACTION_VERBS :: "string list" where
  "ACTION_VERBS = [''read '', ''check '', ''find '', ''locate '', ''run '', ''test '', ''verify '', ''edit '', ''write '', ''patch '', ''fix '',
     ''remove '', ''delete '', ''update '', ''implement '', ''search '']"

(* src/crates/aura-agent/src/agent_loop/turn.rs:406-416 ends_with_unfinished_action *)
definition last_sentence :: "string \<Rightarrow> string" where
  "last_sentence text =
    (let body = rev (dropWhile (\<lambda>c. c \<in> {CHR ''.'', CHR ''!''}) (rev (trim text))) in
     trim (after_last ''. '' (last (split_on (CHR 0x0A) body))))"

(* src/crates/aura-agent/src/agent_loop/turn.rs:367-444 ends_with_unfinished_action *)
definition ends_with_unfinished_action :: "message list \<Rightarrow> bool" where
  "ends_with_unfinished_action ms =
    (case last_text Role_Assistant nl ms of
       None \<Rightarrow> False
     | Some text \<Rightarrow>
        if CHR ''?'' \<in> set text \<or> list_ex (\<lambda>m. sublist m text) WAITING_MARKERS then False
        else (let sentence = last_sentence text in
          if sentence = ''doing it now'' then True
          else (case find (\<lambda>p. prefix p sentence)
                  [''i'' @ [CHR 0x27] @ ''ll '', ''i'' @ [CHR 0xE2, CHR 0x80, CHR 0x99] @ ''ll '', ''i will ''] of
                  None \<Rightarrow> False
                | Some p \<Rightarrow> list_ex (\<lambda>v. prefix v (drop (length p) sentence)) ACTION_VERBS)))"

section \<open>A turn\<close>

(* src/crates/aura-agent/src/agent_loop/turn.rs:61-64 NO_OP_TURN_NUDGE *)
definition NO_OP_TURN_NUDGE :: string where
  "NO_OP_TURN_NUDGE = ''Your previous turn ended without sending a response to the user or making any changes. If the request needs action, continue and complete it now; otherwise reply to the user directly.''"

(* src/crates/aura-agent/src/agent_loop/turn.rs:66-69 UNFINISHED_ACTION_NUDGE *)
definition UNFINISHED_ACTION_NUDGE :: string where
  "UNFINISHED_ACTION_NUDGE = ''You ended your response by promising an immediate action, but ended the turn before performing it. Use the available tools to carry out the authorized request now. If you are blocked or need a decision, explain that clearly instead of promising work that will not run.''"

(* src/crates/aura-agent/src/agent_loop/turn.rs:85-89 LEAKED_TOOL_MARKUP_NUDGE *)
definition LEAKED_TOOL_MARKUP_NUDGE :: string where
  "LEAKED_TOOL_MARKUP_NUDGE = ''Your previous message wrote tool-call syntax as plain text, so no tool actually ran and the work is unfinished. Re-issue the tool call using the native tool-calling mechanism ''
     @ [CHR 0xE2, CHR 0x80, CHR 0x94] @ '' do not write tool invocations (such as <function_calls>, <invoke>, or [tool_use ...]) as text.''"

(* src/crates/aura-agent/src/agent_loop/turn.rs:95-111 TurnOutcome *)
record turn_outcome =
  to_terminated_cleanly :: bool
  to_broke_for_error :: bool
  to_sampling_count :: u32

(* src/crates/aura-agent/src/agent_loop/turn.rs:152-166 run_turn *)
record turn_locals =
  tl_sampling_count :: u32
  tl_had_visible_output :: bool
  tl_no_op_nudges_used :: u32
  tl_markup_nudges_used :: u32
  tl_unfinished_action_nudges_used :: u32

definition turn_locals_new :: turn_locals where
  "turn_locals_new = \<lparr> tl_sampling_count = 0, tl_had_visible_output = False, tl_no_op_nudges_used = 0, tl_markup_nudges_used = 0,
     tl_unfinished_action_nudges_used = 0 \<rparr>"

datatype turn_stepped = Turn_Continue turn_locals | Turn_Done "(agent_error, turn_outcome) result"

definition turn_done :: "bool \<Rightarrow> bool \<Rightarrow> turn_locals \<Rightarrow> turn_stepped" where
  "turn_done clean broke t =
    Turn_Done (Inr \<lparr> to_terminated_cleanly = clean, to_broke_for_error = broke, to_sampling_count = tl_sampling_count t \<rparr>)"

(* src/crates/aura-agent/src/agent_loop/turn.rs:570-587 run_turn_stop_hooks *)
definition run_turn_stop_hooks :: "agent_loop_config \<Rightarrow> nat \<Rightarrow> loop_state \<Rightarrow> bool \<times> loop_state" where
  "run_turn_stop_hooks config iteration s =
    (let s1 = check_budget_warnings config iteration (emit_checkpoint_if_needed s) in
     if should_stop_for_budget config iteration s1
     then (True, on_result (\<lambda>r. r \<lparr> lr_timed_out := True \<rparr>) s1)
     else (False, s1))"

text \<open>The nudge a turn gives instead of ending, with the counter it uses up.\<close>

(* src/crates/aura-agent/src/agent_loop/turn.rs:242-316 run_turn *)
definition end_nudge ::
  "agent_loop_config \<Rightarrow> bool \<Rightarrow> sampling_result \<Rightarrow> turn_locals \<Rightarrow> loop_state \<Rightarrow> (turn_locals \<times> string) option" where
  "end_nudge config recover r t s =
    (let auto = ac_auto_continue_no_op_turns config in
     if recover \<and> \<not> ls_task_done_completed s \<and> ends_with_unfinished_action (ls_messages s)
        \<and> auto \<and> tl_unfinished_action_nudges_used t < 1
     then Some (t \<lparr> tl_unfinished_action_nudges_used := tl_unfinished_action_nudges_used t + 1 \<rparr>, UNFINISHED_ACTION_NUDGE)
     else if sp_scrubbed_tool_markup r \<and> auto \<and> tl_markup_nudges_used t < 1
     then Some (t \<lparr> tl_markup_nudges_used := sat_add (tl_markup_nudges_used t) 1 \<rparr>, LEAKED_TOOL_MARKUP_NUDGE)
     else if \<not> tl_had_visible_output t \<and> \<not> ls_had_any_write s \<and> \<not> ls_task_done_completed s
        \<and> auto \<and> tl_no_op_nudges_used t < 1
     then Some (t \<lparr> tl_no_op_nudges_used := sat_add (tl_no_op_nudges_used t) 1 \<rparr>, NO_OP_TURN_NUDGE)
     else None)"

(* src/crates/aura-agent/src/agent_loop/turn.rs:208-319 run_turn *)
definition after_sampling ::
  "agent_loop_config \<Rightarrow> bool \<Rightarrow> sampling_env \<Rightarrow> nat \<Rightarrow> sampling_result \<Rightarrow> turn_locals \<Rightarrow> input_queue \<times> loop_state
    \<Rightarrow> turn_stepped \<times> input_queue \<times> loop_state" where
  "after_sampling config recover e iteration r t = (\<lambda>(q, s).
    if sp_broke_for_error r then (turn_done False True t, q, s)
    else if sp_needs_follow_up r
    then (case run_turn_stop_hooks config iteration s of
            (True, s') \<Rightarrow> (turn_done False True t, q, s')
          | (False, s') \<Rightarrow> (Turn_Continue t, q, s'))
    else (let q' = push_all (se_pushed_end e) q in
      if iq_has_pending q' then (Turn_Continue t, q', s)
      else if lr_output_truncated (ls_result s) then (turn_done False False t, q', s)
      else (case end_nudge config recover r t s of
              Some (t', nudge) \<Rightarrow> (Turn_Continue t', q', on_messages (apply_user_inputs_to_messages [Input_Steer nudge]) s)
            | None \<Rightarrow> (turn_done True False t, q', s))))"

(* src/crates/aura-agent/src/agent_loop/turn.rs:169-319 run_turn *)
definition turn_step ::
  "loop_libs \<Rightarrow> loop_settings \<Rightarrow> agent_loop_config \<Rightarrow> tool_definition list \<Rightarrow> task_id \<Rightarrow> (nat \<Rightarrow> sampling_env) \<Rightarrow> u32 \<Rightarrow> bool
    \<Rightarrow> turn_locals \<Rightarrow> input_queue \<times> loop_state \<Rightarrow> turn_stepped \<times> (input_queue \<times> loop_state) \<times> model_request list" where
  "turn_step L S config tools task env offset recover t = (\<lambda>(q, s).
    (let iteration = unat (sat_add offset (tl_sampling_count t)); e = env iteration; q0 = push_all (se_pushed_top e) q in
     if se_cancel_top e then (turn_done False True t, (q0, s), [])
     else (case drain_inputs q0 of (inputs, q1) \<Rightarrow>
       (let s1 = on_messages (apply_user_inputs_to_messages inputs) s in
        if ac_max_iterations config \<noteq> usize_max \<and> ac_max_iterations config \<le> iteration
        then (Turn_Done (Inl (AgentError_IterationBudgetExceeded task (ac_max_iterations config))), (q1, s1), [])
        else (case run_sampling_request L S config tools e iteration (q1, s1) of (r, qs2, reqs) \<Rightarrow>
          (let t1 = t \<lparr> tl_sampling_count := sat_add (tl_sampling_count t) 1,
                        tl_had_visible_output := (tl_had_visible_output t \<or> sp_produced_visible_output r) \<rparr> in
           case after_sampling config recover e iteration r t1 qs2 of (stepped, qs3) \<Rightarrow> (stepped, qs3, reqs)))))))"

(* src/crates/aura-agent/src/agent_loop/turn.rs:169-320 run_turn *)
partial_function (option) turn_loop ::
  "(turn_locals \<Rightarrow> input_queue \<times> loop_state \<Rightarrow> turn_stepped \<times> (input_queue \<times> loop_state) \<times> model_request list)
    \<Rightarrow> turn_locals \<Rightarrow> input_queue \<times> loop_state
    \<Rightarrow> ((agent_error, turn_outcome) result \<times> (input_queue \<times> loop_state) \<times> model_request list) option" where
  "turn_loop stp t qs =
    (case stp t qs of
       (Turn_Done r, qs', reqs) \<Rightarrow> Some (r, qs', reqs)
     | (Turn_Continue t', qs', reqs) \<Rightarrow>
         Option.bind (turn_loop stp t' qs') (\<lambda>(r, qs'', reqs'). Some (r, qs'', reqs @ reqs')))"

(* src/crates/aura-agent/src/agent_loop/turn.rs:148-326 run_turn *)
definition run_loop_turn ::
  "loop_libs \<Rightarrow> loop_settings \<Rightarrow> agent_loop_config \<Rightarrow> tool_definition list \<Rightarrow> task_id \<Rightarrow> (nat \<Rightarrow> sampling_env) \<Rightarrow> u32
    \<Rightarrow> input_queue \<times> loop_state \<Rightarrow> ((agent_error, turn_outcome) result \<times> (input_queue \<times> loop_state) \<times> model_request list) option" where
  "run_loop_turn L S config tools task env offset qs =
    turn_loop (turn_step L S config tools task env offset (tools \<noteq> [] \<and> \<not> is_planning_request (ls_messages (snd qs)))) turn_locals_new qs"

section \<open>A task\<close>

record task_env =
  te_samples :: "nat \<Rightarrow> sampling_env"
  te_turn_end :: "nat \<Rightarrow> user_input list"
  te_baseline :: "build_baseline option"

(* src/crates/aura-agent/src/agent_loop/task.rs:171-221 run_task *)
partial_function (option) task_loop ::
  "agent_loop_config \<Rightarrow> task_id \<Rightarrow> (nat \<Rightarrow> user_input list)
    \<Rightarrow> (u32 \<Rightarrow> input_queue \<times> loop_state \<Rightarrow> ((agent_error, turn_outcome) result \<times> (input_queue \<times> loop_state) \<times> model_request list) option)
    \<Rightarrow> u32 \<Rightarrow> u32 \<Rightarrow> input_queue \<times> loop_state
    \<Rightarrow> ((agent_error, loop_state) result \<times> input_queue \<times> model_request list) option" where
  "task_loop config task pushed turn turn_index offset qs =
    (if ac_max_turns_per_task config \<le> turn_index
     then Some (Inl (AgentError_TurnBudgetExceeded task (unat (ac_max_turns_per_task config))), fst qs, [])
     else if ac_max_iterations_per_task config \<le> offset
     then Some (Inl (AgentError_IterationBudgetExceeded task (unat (ac_max_iterations_per_task config))), fst qs, [])
     else Option.bind (turn offset qs) (\<lambda>(r, (q, s), reqs).
       (case r of
          Inl e \<Rightarrow> Some (Inl e, q, reqs)
        | Inr out \<Rightarrow>
           if to_broke_for_error out \<or> \<not> to_terminated_cleanly out then Some (Inr s, q, reqs)
           else (let q' = push_all (pushed (unat turn_index)) q in
             if iq_has_pending q'
             then Option.bind (task_loop config task pushed turn (sat_add turn_index 1) (sat_add offset (to_sampling_count out)) (q', s))
                    (\<lambda>(r', q'', reqs'). Some (r', q'', reqs @ reqs'))
             else Some (Inr s, q', reqs)))))"

(* src/crates/aura-agent/src/agent_loop/task.rs:130-232 run_task *)
definition run_task ::
  "loop_libs \<Rightarrow> loop_settings \<Rightarrow> agent_loop_config \<Rightarrow> task_env \<Rightarrow> task_id \<Rightarrow> message list \<Rightarrow> tool_definition list \<Rightarrow> input_queue
    \<Rightarrow> ((agent_error, loop_result) result \<times> input_queue \<times> model_request list) option" where
  "run_task L S config env task ms tools q =
    Option.bind (task_loop config task (te_turn_end env) (run_loop_turn L S config tools task (te_samples env)) 0 0
        (q, (loop_state_new config ms) \<lparr> ls_build_baseline := te_baseline env \<rparr>))
      (\<lambda>(r, q', reqs).
        (case r of
           Inl e \<Rightarrow> Some (Inl e, q', reqs)
         | Inr s \<Rightarrow> Some (Inr ((ls_result s) \<lparr> lr_task_done_completed := ls_task_done_completed s, lr_messages := ls_messages s \<rparr>), q', reqs)))"

text \<open>
  The entry point.  \<open>hook\<close> is what the hooks on a submitted prompt decide, if there are any; they are
  asked about the last message of the user.
\<close>

(* src/crates/aura-agent/src/agent_loop/run.rs:148-190 AgentLoop::run_with_session *)
definition submit_prompt :: "(string \<Rightarrow> hook_outcome) option \<Rightarrow> message list \<Rightarrow> (loop_result, message list) result" where
  "submit_prompt hook ms =
    (case (hook, filter (\<lambda>i. msg_role (ms ! i) = Role_User) [0..<length ms]) of
       (Some h, i # is) \<Rightarrow>
         (let idx = last (i # is) in
          case h (text_content (ms ! idx)) of
            Hook_Replace new_value \<Rightarrow> Inr (ms[idx := message_user new_value])
          | Hook_Block why \<Rightarrow>
              Inl (loop_result_default \<lparr> lr_llm_error := Some (''prompt blocked by plugin hook: '' @ why), lr_messages := ms \<rparr>)
          | _ \<Rightarrow> Inr ms)
     | _ \<Rightarrow> Inr ms)"

(* src/crates/aura-agent/src/agent_loop/run.rs:131-267 AgentLoop::run_with_session *)
definition run_with_session ::
  "loop_libs \<Rightarrow> loop_settings \<Rightarrow> agent_loop_config \<Rightarrow> (string \<Rightarrow> hook_outcome) option \<Rightarrow> task_env \<Rightarrow> task_id \<Rightarrow> message list
    \<Rightarrow> tool_definition list \<Rightarrow> input_queue \<Rightarrow> ((agent_error, loop_result) result \<times> input_queue \<times> model_request list) option" where
  "run_with_session L S config hook env task ms tools q =
    (case submit_prompt hook ms of
       Inl r \<Rightarrow> Some (Inr r, q, [])
     | Inr ms' \<Rightarrow> run_task L S config env task ms' tools q)"

end
