(* ===== verification/Loop_Laws.thy ===== *)
theory Loop_Laws
  imports Agent_Loop
begin

text \<open>
  What holds of every run of the agent loop, whatever user, provider, tools and hooks do: it ends, it
  sends a bounded number of requests, and the history in each of them is one the provider accepts.
\<close>

section \<open>A run ends\<close>

text \<open>The requests that the limit leaves to a turn that starts at an offset.\<close>

definition requests_left :: "agent_loop_config \<Rightarrow> u32 \<Rightarrow> u32 \<Rightarrow> nat" where
  "requests_left config offset sent = ac_max_iterations config - unat (sat_add offset sent)"

lemma requests_left_Suc:
  assumes "unat (sat_add offset sent) < ac_max_iterations config" "ac_max_iterations config < 2 ^ 32"
  shows "Suc (requests_left config offset (sat_add sent 1)) = requests_left config offset sent"
proof -
  have "unat offset + unat sent < 2 ^ 32 - 1" using assms by (simp add: unat_sat_add)
  then have "unat (sat_add offset (sat_add sent 1)) = Suc (unat (sat_add offset sent))" by (simp add: unat_sat_add)
  with assms(1) show ?thesis by (simp add: requests_left_def)
qed

lemma sampling_requests: "length (snd (snd (run_sampling_request L S config tools e iteration qs))) \<le> 1"
  by (cases qs)
    (auto simp: run_sampling_request_def Let_def split: sum.split prod.split transport_outcome.split)

lemma after_sampling_count:
  assumes "after_sampling config recover e iteration r t qs = (stepped, qs')"
  shows "stepped = Turn_Continue t' \<Longrightarrow> tl_sampling_count t' = tl_sampling_count t"
    "stepped = Turn_Done (Inr out) \<Longrightarrow> to_sampling_count out = tl_sampling_count t" "stepped \<noteq> Turn_Done (Inl failure)"
  using assms
  by (cases qs; auto simp: after_sampling_def turn_done_def Let_def end_nudge_def split: if_splits option.splits bool.splits prod.splits)+

lemma turn_step_requests:
  assumes "ac_max_iterations config < 2 ^ 32" "turn_step L S config tools task env offset recover t qs = (stepped, qs', reqs)"
  shows "(\<forall>t'. stepped = Turn_Continue t' \<longrightarrow>
        length reqs + requests_left config offset (tl_sampling_count t') \<le> requests_left config offset (tl_sampling_count t)
        \<and> requests_left config offset (tl_sampling_count t') < requests_left config offset (tl_sampling_count t))
    \<and> (\<forall>out. stepped = Turn_Done (Inr out) \<longrightarrow>
        length reqs + requests_left config offset (to_sampling_count out) \<le> requests_left config offset (tl_sampling_count t))
    \<and> (\<forall>failure. stepped = Turn_Done (Inl failure) \<longrightarrow> length reqs \<le> requests_left config offset (tl_sampling_count t))"
proof -
  obtain q s where qs: "qs = (q, s)" by (rule prod.exhaust)
  let ?i = "unat (sat_add offset (tl_sampling_count t))"
  let ?e = "env ?i"
  obtain inputs q1 where d: "drain_inputs (push_all (se_pushed_top ?e) q) = (inputs, q1)" by (meson surj_pair)
  let ?s1 = "on_messages (apply_user_inputs_to_messages inputs) s"
  have u: "ac_max_iterations config \<noteq> usize_max" using assms(1) by (auto simp: usize_max_def)
  show ?thesis
  proof (cases "se_cancel_top ?e \<or> ac_max_iterations config \<le> ?i")
    case True
    with assms(2) u show ?thesis by (auto simp: turn_step_def qs d Let_def turn_done_def split: if_splits)
  next
    case False
    obtain r qs2 reqs2 where smp: "run_sampling_request L S config tools ?e ?i (q1, ?s1) = (r, qs2, reqs2)" by (metis prod_cases3)
    let ?t1 = "t \<lparr> tl_sampling_count := sat_add (tl_sampling_count t) 1,
      tl_had_visible_output := (tl_had_visible_output t \<or> sp_produced_visible_output r) \<rparr>"
    from assms(2) False u d smp
    have after: "after_sampling config recover ?e ?i r ?t1 qs2 = (stepped, qs')" and "reqs = reqs2"
      by (auto simp: turn_step_def qs Let_def split: prod.splits)
    then have n: "length reqs \<le> 1" using sampling_requests [of L S config tools ?e ?i "(q1, ?s1)"] smp by simp
    have suc: "Suc (requests_left config offset (sat_add (tl_sampling_count t) 1)) = requests_left config offset (tl_sampling_count t)"
      using False assms(1) by (intro requests_left_Suc) auto
    show ?thesis
    proof (cases stepped)
      case (Turn_Continue t')
      then have "tl_sampling_count t' = sat_add (tl_sampling_count t) 1" using after_sampling_count(1) [OF after] by simp
      with n suc Turn_Continue show ?thesis by simp
    next
      case (Turn_Done r')
      with after_sampling_count(3) [OF after] obtain out where out: "stepped = Turn_Done (Inr out)" by (cases r') auto
      then have "to_sampling_count out = sat_add (tl_sampling_count t) 1" using after_sampling_count(2) [OF after] by simp
      with n suc out show ?thesis by simp
    qed
  qed
qed

lemma turn_loop_returns:
  assumes "ac_max_iterations config < 2 ^ 32"
  shows "\<exists>r qs' reqs. turn_loop (turn_step L S config tools task env offset recover) t qs = Some (r, qs', reqs)
    \<and> length reqs + (case r of Inr out \<Rightarrow> requests_left config offset (to_sampling_count out) | Inl _ \<Rightarrow> 0)
      \<le> requests_left config offset (tl_sampling_count t)"
proof (induction "requests_left config offset (tl_sampling_count t)" arbitrary: t qs rule: less_induct)
  case less
  let ?stp = "turn_step L S config tools task env offset recover"
  obtain stepped qs1 reqs1 where stp: "?stp t qs = (stepped, qs1, reqs1)" by (metis prod_cases3)
  note bound = turn_step_requests [OF assms stp]
  show ?case
  proof (cases stepped)
    case (Turn_Continue t')
    with bound less [of t' qs1] obtain r qs2 reqs2 where
      "turn_loop ?stp t' qs1 = Some (r, qs2, reqs2)"
      "length reqs2 + (case r of Inr out \<Rightarrow> requests_left config offset (to_sampling_count out) | Inl _ \<Rightarrow> 0)
        \<le> requests_left config offset (tl_sampling_count t')" by blast
    with stp Turn_Continue bound show ?thesis by (subst turn_loop.simps) simp
  next
    case (Turn_Done r)
    with stp bound show ?thesis by (subst turn_loop.simps) (auto split: sum.split)
  qed
qed

lemma task_loop_returns:
  assumes "ac_max_iterations config < 2 ^ 32"
  shows "\<exists>r q' reqs. task_loop config task pushed (run_loop_turn L S config tools task env) turn_index offset qs = Some (r, q', reqs)
    \<and> length reqs \<le> requests_left config offset 0"
proof (induction "unat (ac_max_turns_per_task config) - unat turn_index" arbitrary: turn_index offset qs rule: less_induct)
  case less
  let ?turn = "run_loop_turn L S config tools task env"
  obtain r q s reqs where turn: "?turn offset qs = Some (r, (q, s), reqs)"
    and bound: "length reqs + (case r of Inr out \<Rightarrow> requests_left config offset (to_sampling_count out) | Inl _ \<Rightarrow> 0)
      \<le> requests_left config offset 0"
    using turn_loop_returns [OF assms, of L S tools task env offset _ turn_locals_new qs]
    by (fastforce simp: run_loop_turn_def turn_locals_new_def)
  show ?case
  proof (cases "ac_max_turns_per_task config \<le> turn_index \<or> ac_max_iterations_per_task config \<le> offset")
    case True
    then show ?thesis by (subst task_loop.simps) auto
  next
    case False
    show ?thesis
    proof (cases "\<exists>out. r = Inr out \<and> \<not> to_broke_for_error out \<and> to_terminated_cleanly out
        \<and> iq_has_pending (push_all (pushed (unat turn_index)) q)")
      case True
      then obtain out where out: "r = Inr out" "\<not> to_broke_for_error out" "to_terminated_cleanly out"
        "iq_has_pending (push_all (pushed (unat turn_index)) q)" by blast
      have "unat (ac_max_turns_per_task config) - unat (sat_add turn_index 1)
          < unat (ac_max_turns_per_task config) - unat turn_index"
        using False unsigned_less [of "ac_max_turns_per_task config", where ?'a = nat] by (simp add: unat_sat_add word_le_nat_alt) arith
      from less [OF this, of "sat_add offset (to_sampling_count out)" "(push_all (pushed (unat turn_index)) q, s)"]
      obtain r' q' reqs' where
        "task_loop config task pushed ?turn (sat_add turn_index 1) (sat_add offset (to_sampling_count out))
          (push_all (pushed (unat turn_index)) q, s) = Some (r', q', reqs')"
        "length reqs' \<le> requests_left config (sat_add offset (to_sampling_count out)) 0" by blast
      moreover have "requests_left config (sat_add offset (to_sampling_count out)) 0 = requests_left config offset (to_sampling_count out)"
        by (simp add: requests_left_def unat_sat_add)
      ultimately show ?thesis
        using False turn bound out by (subst task_loop.simps) (simp add: Let_def)
    next
      case stop: False
      with False turn bound show ?thesis by (subst task_loop.simps) (cases r; auto simp: Let_def)
    qed
  qed
qed

section \<open>What is sent\<close>

text \<open>
  The history of a request is accepted by the provider, or it is a valid one into which a summary was
  spliced that did not make it smaller.
\<close>

definition unreduced_splice :: "json_text \<Rightarrow> message list \<Rightarrow> bool" where
  "unreduced_splice T ms =
    (\<exists>ms0 summary. valid_history ms0 \<and> ms = fst (apply_message_summary T ms0 summary)
      \<and> \<not> report_reduced (snd (apply_message_summary T ms0 summary)))"

definition history_ok :: "json_text \<Rightarrow> message list \<Rightarrow> bool" where
  "history_ok T ms = (valid_history ms \<or> unreduced_splice T ms)"

lemma messages_frame [simp]:
  "ls_messages (on_messages f s) = f (ls_messages s)" "ls_messages (on_result g s) = ls_messages s"
  "ls_messages (recompute_breakdown L config tools s) = ls_messages s" "ls_messages (set_context_estimate n s) = ls_messages s"
  by (simp_all add: on_messages_def on_result_def recompute_breakdown_def set_context_estimate_def Let_def)

lemma after_compaction_valid: "valid_history (ls_messages (after_compaction L s))"
  by (simp add: after_compaction_def Let_def repaired_history_valid)

lemma compacted_valid: "valid_history (ls_messages (snd (compact_if_needed L S config tools iteration blocked s)))"
  by (auto simp: compact_if_needed_def Let_def repaired_history_valid after_compaction_valid compacted_history_valid
      split: option.split prod.split)
    (metis compacted_history_valid fst_conv repaired_history_valid)

lemma summarised_ok:
  assumes "valid_history (ls_messages s)"
  shows "history_ok (ll_text L) (ls_messages (apply_summary_compaction L S config tools stopped call input s))"
proof -
  have "history_ok (ll_text L) (ls_messages (apply_summary_output L S config tools summary s))" for summary
    using assms after_compaction_valid
    by (auto simp: apply_summary_output_def history_ok_def unreduced_splice_def Let_def split: prod.split)
      (metis fst_conv snd_conv)
  with assms show ?thesis
    by (auto simp: apply_summary_compaction_def history_ok_def Let_def split: sum.split option.split)
qed

lemma prepared_ok: "history_ok (ll_text L) (ls_messages (prepare_context L S config tools e iteration s))"
proof -
  let ?s1 = "begin_iteration L S config iteration (se_reset e) s"
  obtain action s2 where c: "compact_if_needed L S config tools iteration (se_blocked e) ?s1 = (action, s2)" by (meson surj_pair)
  then have "valid_history (ls_messages s2)" using compacted_valid by (metis snd_conv)
  with c summarised_ok show ?thesis by (cases action) (auto simp: prepare_context_def Let_def history_ok_def)
qed

lemma built_messages: "build_request L config tools iteration s = Inr req \<Longrightarrow> mq_messages req = ls_messages s"
  by (auto simp: build_request_def try_build_def res_map_err_def Let_def split: if_splits sum.splits option.splits)

abbreviation request_ok :: "loop_libs \<Rightarrow> model_request \<Rightarrow> bool" where
  "request_ok L req \<equiv> history_ok (ll_text L) (mq_messages req)"

lemma sampling_request_ok:
  "list_all (request_ok L) (snd (snd (run_sampling_request L S config tools e iteration qs)))"
  using prepared_ok [of L S config tools e iteration "snd qs"]
  by (cases qs)
    (auto simp: run_sampling_request_def Let_def dest: built_messages split: sum.split prod.split transport_outcome.split)

lemma turn_step_ok: "turn_step L S config tools task env offset recover t qs = (stepped, qs', reqs) \<Longrightarrow> list_all (request_ok L) reqs"
proof -
  assume stp: "turn_step L S config tools task env offset recover t qs = (stepped, qs', reqs)"
  then have "reqs = [] \<or> (\<exists>e i qs1. reqs = snd (snd (run_sampling_request L S config tools e i qs1)))"
    by (cases qs) (auto simp: turn_step_def Let_def split: if_splits prod.splits, (metis snd_conv)+)
  with sampling_request_ok show ?thesis by auto
qed

text \<open>What holds of the requests of every step holds of those of the loops.\<close>

lemma turn_loop_all:
  "turn_loop stp t qs = Some y \<Longrightarrow> (\<And>t qs x qs' reqs. stp t qs = (x, qs', reqs) \<Longrightarrow> list_all P reqs) \<Longrightarrow> list_all P (snd (snd y))"
proof (induction stp t qs y rule: turn_loop.raw_induct [rotated, consumes 1])
  case (1 loop stp t qs y)
  obtain x qs1 reqs1 where stp: "stp t qs = (x, qs1, reqs1)" by (metis prod_cases3)
  show ?case
  proof (cases x)
    case (Turn_Continue t')
    with 1(2) stp obtain r qs2 reqs2 where "loop stp t' qs1 = Some (r, qs2, reqs2)" "y = (r, qs2, reqs1 @ reqs2)"
      by (auto simp: bind_eq_Some_conv)
    with 1(1) [of stp t' qs1] 1(3) stp show ?thesis by fastforce
  next
    case (Turn_Done r)
    with 1(2) stp have "y = (r, qs1, reqs1)" by simp
    with 1(3) [OF stp] show ?thesis by simp
  qed
qed

lemma task_loop_all:
  "task_loop config task pushed turn turn_index offset qs = Some y \<Longrightarrow>
    (\<And>offset qs r qs' reqs. turn offset qs = Some (r, qs', reqs) \<Longrightarrow> list_all P reqs) \<Longrightarrow> list_all P (snd (snd y))"
proof (induction config task pushed turn turn_index offset qs y rule: task_loop.raw_induct [rotated, consumes 1])
  case (1 loop config task pushed turn turn_index offset qs y)
  show ?case
  proof (cases "ac_max_turns_per_task config \<le> turn_index \<or> ac_max_iterations_per_task config \<le> offset")
    case True
    with 1(2) show ?thesis by (auto split: if_splits)
  next
    case False
    with 1(2) obtain r q s reqs where turn: "turn offset qs = Some (r, (q, s), reqs)"
      by (auto simp: bind_eq_Some_conv)
    with 1(3) have reqs: "list_all P reqs" by blast
    from False turn 1(2) consider "snd (snd y) = reqs"
      | turn_index' offset' qs2 y' where "loop config task pushed turn turn_index' offset' qs2 = Some y'" "snd (snd y) = reqs @ snd (snd y')"
      by (cases r) (fastforce simp: bind_eq_Some_conv Let_def split: if_splits)+
    then show ?thesis
    proof cases
      case 2
      with 1(1) [OF 2(1)] 1(3) reqs show ?thesis by simp
    qed (use reqs in simp)
  qed
qed

lemma session_requests_ok:
  "run_with_session L S config hook env task ms tools q = Some (r, q', reqs) \<Longrightarrow> list_all (request_ok L) reqs"
proof -
  have turns: "run_loop_turn L S config tools task (te_samples env) offset qs = Some (r', qs', reqs') \<Longrightarrow> list_all (request_ok L) reqs'"
    for offset qs r' qs' reqs'
    unfolding run_loop_turn_def by (drule turn_loop_all) (auto intro: turn_step_ok)
  assume run: "run_with_session L S config hook env task ms tools q = Some (r, q', reqs)"
  show "list_all (request_ok L) reqs"
  proof (cases "submit_prompt hook ms")
    case (Inl r')
    with run show ?thesis by (simp add: run_with_session_def)
  next
    case (Inr ms')
    let ?s = "(loop_state_new config ms') \<lparr> ls_build_baseline := te_baseline env \<rparr>"
    from run Inr obtain r2 q2 reqs2 where
      y: "task_loop config task (te_turn_end env) (run_loop_turn L S config tools task (te_samples env)) 0 0 (q, ?s) = Some (r2, q2, reqs2)"
      by (auto simp: run_with_session_def run_task_def bind_eq_Some_conv)
    with run Inr have "reqs = reqs2" by (cases r2) (simp_all add: run_with_session_def run_task_def)
    with task_loop_all [OF y, where P = "request_ok L"] turns show ?thesis by simp
  qed
qed

lemma session_returns:
  assumes "ac_max_iterations config < 2 ^ 32"
  shows "\<exists>r q' reqs. run_with_session L S config hook env task ms tools q = Some (r, q', reqs) \<and> length reqs \<le> ac_max_iterations config"
proof (cases "submit_prompt hook ms")
  case (Inl r)
  then show ?thesis by (simp add: run_with_session_def)
next
  case (Inr ms')
  let ?s = "(loop_state_new config ms') \<lparr> ls_build_baseline := te_baseline env \<rparr>"
  obtain r q' reqs where "task_loop config task (te_turn_end env) (run_loop_turn L S config tools task (te_samples env)) 0 0 (q, ?s) = Some (r, q', reqs)"
    "length reqs \<le> requests_left config 0 0" using task_loop_returns [OF assms] by blast
  moreover have "requests_left config 0 0 \<le> ac_max_iterations config" by (simp add: requests_left_def)
  ultimately show ?thesis by (cases r) (auto simp: run_with_session_def Inr run_task_def)
qed

section \<open>Properties\<close>


text \<open>A session without hooks in which every stream is cancelled.\<close>

definition quiet_sampling :: sampling_env where
  "quiet_sampling = \<lparr> se_pushed_top = [], se_cancel_top = False, se_cancel_start = False, se_reset = False, se_blocked = False,
     se_summary_stopped = False, se_summary = (\<lambda>_. None),
     se_attempts = (\<lambda>_ _. \<lparr> pa_cancelled = True, pa_open = None, pa_steps = [], pa_tools = (\<lambda>_ _. None), pa_drain_cancel = None \<rparr>),
     se_cancel_after = False, se_build = None, se_pushed_end = [] \<rparr>"

definition quiet_env :: task_env where
  "quiet_env = \<lparr> te_samples = (\<lambda>_. quiet_sampling), te_turn_end = (\<lambda>_. []), te_baseline = None \<rparr>"

definition quiet_settings :: loop_settings where
  "quiet_settings = demo_settings \<lparr> st_compaction_disabled := True \<rparr>"

lemma default_limit: "ac_max_iterations (config_for_agent m) = 300"
  by (simp add: config_for_agent_def MAX_ITERATIONS_def MAX_TURNS_def)


text \<open>
  Property C19: every request of a run carries a history that the provider accepts: it starts with a user
  message, roles alternate, no message is empty and tool calls and results are paired.  The one exception
  is a valid history into which a summary was spliced that did not make it smaller; the loop does not
  repair that one before it sends it.
\<close>

theorem session_requests_valid:
  assumes "run_with_session L S config hook env task ms tools q = Some (r, q', reqs)" "req \<in> set reqs"
  shows "valid_history (mq_messages req) \<or> unreduced_splice (ll_text L) (mq_messages req)"
  using session_requests_ok [OF assms(1)] assms(2) by (auto simp: list_all_iff history_ok_def)

lemma built_request:
  assumes "\<not> is_blank (ac_model config)" "min (tb_budget (ls_thinking s)) (ac_max_tokens config) \<noteq> 0"
  obtains req where "build_request L config tools iteration s = Inr req"
  using assms by (auto simp: build_request_def try_build_def res_map_err_def Let_def)

lemma quiet_request:
  obtains req where "build_request pump_libs (config_for_agent ''m'') [] 0
     (prepare_context pump_libs quiet_settings (config_for_agent ''m'') [] quiet_sampling 0
       (on_messages f ((loop_state_new (config_for_agent ''m'') ms) \<lparr> ls_build_baseline := b \<rparr>))) = Inr req"
proof (rule built_request)
  show "\<not> is_blank (ac_model (config_for_agent ''m''))" by (simp add: config_for_agent_def is_blank_def)
  show "min (tb_budget (ls_thinking (prepare_context pump_libs quiet_settings (config_for_agent ''m'') [] quiet_sampling 0
      (on_messages f ((loop_state_new (config_for_agent ''m'') ms) \<lparr> ls_build_baseline := b \<rparr>))))) (ac_max_tokens (config_for_agent ''m'')) \<noteq> 0"
    by (simp add: prepare_context_def compact_if_needed_def quiet_settings_def recompute_breakdown_def on_result_def on_messages_def
        begin_iteration_def Let_def case_prod_beta loop_state_new_def config_for_agent_def or_default_def)
qed

lemma quiet_run:
  "\<exists>r q' req. run_with_session pump_libs quiet_settings (config_for_agent ''m'') None quiet_env 1 [message_user ''hi''] []
      (input_queue_new 7) = Some (r, q', [req])"
proof -
  let ?s = "(loop_state_new (config_for_agent ''m'') [message_user ''hi'']) \<lparr> ls_build_baseline := None \<rparr>"
  let ?f = "apply_user_inputs_to_messages []"
  obtain req where req: "build_request pump_libs (config_for_agent ''m'') [] 0
     (prepare_context pump_libs quiet_settings (config_for_agent ''m'') [] quiet_sampling 0 (on_messages ?f ?s)) = Inr req"
    by (rule quiet_request)
  have "\<exists>qs'. run_sampling_request pump_libs quiet_settings (config_for_agent ''m'') [] quiet_sampling 0 (input_queue_new 7, on_messages ?f ?s)
      = (sampling_broke False False, qs', [req])"
    by (simp add: run_sampling_request_def req run_stream_pump_def Let_def) (simp add: quiet_sampling_def)
  moreover have "drain_inputs (push_all (se_pushed_top quiet_sampling) (input_queue_new 7)) = ([], input_queue_new 7)"
    by (simp add: quiet_sampling_def push_all_def drain_inputs_def drain_take_def drain_clear_def input_queue_new_def)
  moreover have "sat_add 0 0 = (0 :: u32)" by (simp add: sat_add_def)
  moreover have "\<not> se_cancel_top quiet_sampling" by (simp add: quiet_sampling_def)
  ultimately have stp: "\<exists>out qs'. turn_step pump_libs quiet_settings (config_for_agent ''m'') [] 1 (\<lambda>_. quiet_sampling) 0 recover turn_locals_new
      (input_queue_new 7, ?s) = (turn_done False True out, qs', [req])" for recover
    by (auto simp: turn_step_def Let_def turn_locals_new_def default_limit usize_max_def after_sampling_def sampling_broke_def)
  have "\<exists>out qs'. run_loop_turn pump_libs quiet_settings (config_for_agent ''m'') [] 1 (te_samples quiet_env) 0 (input_queue_new 7, ?s)
      = Some (Inr out, qs', [req]) \<and> to_broke_for_error out"
    using stp [of False] by (simp add: run_loop_turn_def quiet_env_def, subst turn_loop.simps) (auto simp: turn_done_def)
  moreover have "\<not> ac_max_turns_per_task (config_for_agent ''m'') \<le> 0" "\<not> ac_max_iterations_per_task (config_for_agent ''m'') \<le> 0"
    by (simp_all add: config_for_agent_def MAX_TURNS_def)
  ultimately show ?thesis
    unfolding run_with_session_def run_task_def submit_prompt_def
    by (subst task_loop.simps) (fastforce simp: quiet_env_def)
qed

theorem session_requests_valid_witness:
  "\<exists>r q' req. run_with_session pump_libs quiet_settings (config_for_agent ''m'') None quiet_env 1 [message_user ''hi''] []
      (input_queue_new 7) = Some (r, q', [req])
    \<and> (valid_history (mq_messages req) \<or> unreduced_splice (ll_text pump_libs) (mq_messages req))"
proof -
  obtain r q' req where run: "run_with_session pump_libs quiet_settings (config_for_agent ''m'') None quiet_env 1 [message_user ''hi''] []
      (input_queue_new 7) = Some (r, q', [req])" using quiet_run by blast
  with session_requests_valid [OF run, of req] show ?thesis by auto
qed

end
