(* ===== verification/Spec2Isabelle.thy ===== *)
theory Spec2Isabelle
  imports Redaction Host_Properties Loop_Laws
begin

text \<open>
  A verification of the core of the Aura harness, a runtime for tool-using agents written in Rust.

  \<^bold>\<open>The program.\<close>  An agent's whole history is an append-only \<^emph>\<open>record log\<close> in a key-value store.  The
  \<^emph>\<open>kernel\<close> is the only writer of that log: a tool call that the model proposes is recorded, decided by
  the policy (and, if need be, by a hook or a live prompt), executed, and its result recorded; a call
  of the model is recorded with its outcome; every entry carries a hash of the transaction and of the
  window of entries before it, so that a later boot can \<^emph>\<open>replay\<close> the log and notice any divergence.
  \<^emph>\<open>Permissions\<close> and \<^emph>\<open>modes\<close> bound what an agent may do, and children that it spawns may only get less.
  Around the kernel the agent loop keeps the \<^emph>\<open>message history\<close> that it sends to the model provider: it is
  repaired to what the provider accepts, compacted when the context fills up, and redacted before it
  is stored.

  \<^bold>\<open>The theories\<close>, bottom up, with the crates under \<open>src/crates\<close> they model:

  \<^item> \<open>Aura_Prelude\<close>: results, the state-and-error actions (\<open>try_then\<close>, \<open>map_err\<close>), ordered maps as sorted
    association lists (locale \<open>ordered_map\<close>, interpreted on the model of \<open>BTreeMap\<close>), big-endian numbers,
    saturating arithmetic and generic lemmas.
  \<^item> \<open>Core_Modes\<close> (\<open>aura-core-modes\<close>): modes, capability profiles, the mode gate (locale \<open>mode_gate\<close>).
  \<^item> \<open>Core_Permissions\<close> (\<open>aura-core-permissions\<close>, the tool permissions of \<open>aura-core-types\<close>): scopes, capabilities, narrowing, the precedence of tool permissions.
  \<^item> \<open>Core_Types\<close> (\<open>aura-core-types\<close>): identifiers, transactions, actions, effects, record entries, JSON
    values, the redaction of secret arguments.
  \<^item> \<open>Store_Keys\<close>, \<open>Seal\<close>, \<open>Rocks_Store\<close> (\<open>aura-store-db\<close>): key codecs (locales \<open>key_codec\<close>,
    \<open>seq_key_codec\<close>), sealed values, and every operation of \<open>RocksStore\<close> as a function on the database.
  \<^item> \<open>Store_Spec\<close>: what the store promises, as an abstract view of logs, inboxes and claims; the locale
    \<open>rocks_env\<close> shows that the operations of \<open>Rocks_Store\<close> refine it, for any database that satisfies
    \<open>store_ok\<close>.  \<open>Store_Memory\<close> interprets it on an in-memory database and states the store's properties.
  \<^item> \<open>Record_Log\<close> (\<open>aura-store-record\<close>, \<open>aura-store-snapshot\<close>): summaries of large payloads and the log
    facade.  \<open>Store_Trait\<close>: the store as the kernel sees it (locales \<open>log_store\<close>, \<open>inbox_store\<close>).
    \<open>Store_Live\<close>: databases that report no errors (locales \<open>live_env\<close>, \<open>live_store\<close>).
  \<^item> \<open>Policy\<close> (\<open>aura-agent-kernel/src/policy\<close>): the gates, the evaluation with its trace, session grants.
  \<^item> \<open>Plugin_Hooks\<close>, \<open>Exec_Traits\<close>: the aggregation of hooks, the executor and its router, tool results.
  \<^item> \<open>Kernel\<close> (\<open>aura-agent-kernel/src/kernel\<close>): processing of transactions and tool proposals, single and
    in batches.  \<open>Kernel_Audit\<close> proves the audit invariant in the locale \<open>kernel_log\<close>; \<open>Kernel_Live\<close> that
    calls complete; \<open>Replay\<close> models \<open>replay.rs\<close> and closes the circle; \<open>Kernel_Reason\<close> models the calls of
    the model, the handle of streamed calls and \<open>write_system_record\<close>; \<open>Kernel_Spawn\<close> the spawn hook
    (\<open>spawn_hook.rs\<close>), \<open>billing.rs\<close> and the context builder.  \<open>Codec_Total\<close> builds the total codecs that
    witnesses need.
  \<^item> \<open>Subagent\<close> (\<open>aura-agent-subagent\<close>, \<open>aura-engine/src/agents/setup.rs\<close>): the derivation of a child from its
    parent and a request, the bundled kinds, the policy of a task's child.
  \<^item> \<open>Agent_Host\<close> (\<open>aura-engine/src/agents\<close>): the table of live agents with their queues and turns; every
    critical section of the host is a function on its state.  \<open>Host_Laws\<close> turns them into a transition
    system over all interleavings and proves its invariant; \<open>Host_Progress\<close> bounds the work of the host;
    \<open>Host_Properties\<close> states the properties.
  \<^item> \<open>Messages\<close>, \<open>Sanitize\<close> (\<open>aura-model-reasoner/src/types\<close>, \<open>aura-agent/src/sanitize.rs\<close>): the message
    history, what the provider accepts (\<open>valid_history\<close>) and its repair.
  \<^item> \<open>Text_Utf8\<close>, \<open>F64\<close>: characters of a byte string, and the rationals with the rounding of 64-bit floats.
  \<^item> \<open>Compaction\<close>, \<open>Compaction_Laws\<close>, \<open>Redaction\<close> (\<open>aura-context-compaction/src/messages.rs\<close>): tiers,
    truncation, folding of repeated reads, summaries, overflow recovery, redaction for storage.  The
    locale \<open>block_rewriting\<close> states when a rewriting of content blocks keeps a history acceptable, and is
    interpreted for compaction and for storage.
  \<^item> \<open>Stream_Accum\<close> (\<open>aura-model-reasoner/src/types/streaming.rs\<close>): the accumulator that turns the events of
    a provider's stream into a response.  \<open>Agent_Steering\<close> (\<open>aura-agent-steering\<close>): the sources of hints and
    their registry.  \<open>Input_Queue\<close> (\<open>aura-agent/src/session/input_queue.rs\<close>): the queue of user inputs, also
    by its critical sections.
  \<^item> \<open>Text_Split\<close>, \<open>Tool_Cache\<close> (\<open>aura-agent/src/agent_loop/tool_execution.rs\<close>, \<open>search_cache.rs\<close>): the cache of
    tool results with its windows of lines, and the text that the read tool returns.
  \<^item> \<open>Loop_State\<close>, \<open>Loop_Context\<close>, \<open>Stream_Pump\<close> (\<open>aura-agent/src/agent_loop\<close>): configuration, budgets and
    state of the agent loop, the requests it builds and how it keeps the context small, and the pump
    that drives the stream of a response, starts its tool calls and retries.  \<open>Tool_Pipeline\<close> books the
    results of a response, guards against repeated failed edits and dispatches by the stop reason;
    \<open>Agent_Loop\<close> has the sampling request, the turn, the task and the entry point, against an arbitrary
    script of what happens around them; \<open>Loop_Laws\<close> proves what holds of every run.

  \<^bold>\<open>How code becomes definitions.\<close>  A struct is a record, an enum a datatype, a fallible function returns
  \<open>('e, 'a) result\<close>, a stateful one an action that returns a result and the next state.  Sequence numbers
  and timers are 64-bit words; lengths are natural numbers with the code's saturating operations
  written out.  What the code takes from other packages is an argument: the database
  (\<open>st_rocksdb\<close>), the JSON codecs (\<open>serde_json\<close>), hash functions, the cipher, the model provider, the
  executors, hooks and prompters.  What a property needs of them is a hypothesis named after the
  documented behaviour (\<open>store_ok\<close>: reads see completed writes, a batch is atomic; \<open>codec_ok\<close>: decoding
  inverts encoding; \<open>db_live\<close>: no errors), and its witness instantiates them.

  \<^bold>\<open>What the theorems show.\<close>  Each property is stated after a text block with its number.
  Kernel: C1 to C10 (the log stays an audit log, trails of tool calls, denials are final, approvals have
  authors, calls complete, model calls are recorded, replay accepts what was written and names the
  first divergence, streamed and system entries).  Agent host: C11 to C17 (one turn per agent, the host
  settles, waiters, the forest of agents, confinement of spawning, stopping and lifecycle calls).
  Agent loop: C18 to C28 (every run ends within its limit, every request has a valid history, every
  call of a response has its result, no replay after a tool was started, streams arrive as sent, a
  failed stream is no response, the cache of tool results, repeated failed edits, hints, a lost input).
  Subagents: C29.  Messages: C30 to C33 (repair, compaction, summaries, storage).  Store: C34 to C36
  (atomic appends, scans).  Parents and the spawn hook: C37, C38.  Policy: C39.  Redaction: C40.

  \<^bold>\<open>Bounds.\<close>  The audit properties assume that the log plus the entries of the run stays below \<open>2 ^ 64\<close>
  entries, since sequence numbers are words.  \<open>write_system_record\<close> makes the code's 16 attempts, between
  which other writers may act.  Its window is the code's 50 entries; the other windows have the length
  of the configuration.  The loops of a turn and of a
  task are partial functions, since a run without a limit of iterations need not end; C18 shows that
  they return for every limit that fits into 32 bits, as the default of 300 does.  All other loops are
  total functions; none uses fuel.

  \<^bold>\<open>Not modelled.\<close>  Log output and metrics; the concurrency inside a batch of tool calls (they are executed
  one after the other); the terminal and command line front ends, the HTTP gateway, OAuth clients,
  the implementations of tools and of the isolation of processes, which are I/O; prompts and memory
  extraction, which are texts and model calls; the session state of \<open>aura-runtime\<close>, \<open>aura-exec-sandbox\<close>,
  \<open>aura-automaton\<close> and \<open>aura-core-auth\<close>.
\<close>

end
